(* ===== verification/Py_Prelude.thy ===== *)
theory Py_Prelude
  imports Main "HOL-Library.AList" "HOL-Library.Char_ord" "HOL-Library.List_Lexorder"
begin

text \<open>
  Shared vocabulary of the development: Python exceptions as values, insertion-ordered
  dictionaries as association lists, and two interfaces that several components
  implement, a keyed store and a machine whose operations keep an invariant.

  Strings are \<open>char list\<close>s ordered lexicographically by character code (the instances
  of \<open>Char_ord\<close> and \<open>List_Lexorder\<close>), as Python orders \<open>str\<close> values; the identifiers
  and status words of the program are ASCII.
\<close>

named_theorems res_simps \<comment> \<open>exceptions as values\<close>
named_theorems dict_simps \<comment> \<open>lookups in dictionaries after updates\<close>

section \<open>Exceptions as values\<close>

text \<open>
  The exceptions the modelled code can raise. The messages of \<open>ValueError\<close> are kept
  where the source distinguishes them; \<open>ValueError []\<close> stands for one raised by a
  conversion of the standard library.
\<close>

datatype exc =
    KeyError
  | TypeError
  | ValueError string
  | OverflowError
  | AttributeError
  | InvalidOperation
  | ZeroDivisionError

type_synonym 'a res = "exc + 'a"

definition rbind :: "'a res \<Rightarrow> ('a \<Rightarrow> 'b res) \<Rightarrow> 'b res" where
  "rbind m f = (case m of Inl e \<Rightarrow> Inl e | Inr x \<Rightarrow> f x)"

lemma rbind_simps [simp]:
  "rbind (Inl e) f = Inl e"
  "rbind (Inr x) f = f x"
  by (simp_all add: rbind_def)

lemma rbind_Inr_iff [res_simps]:
  "rbind m f = Inr y \<longleftrightarrow> (\<exists>x. m = Inr x \<and> f x = Inr y)"
  by (cases m) simp_all

lemma rbind_cong [fundef_cong]:
  "m = m' \<Longrightarrow> (\<And>x. m' = Inr x \<Longrightarrow> f x = g x) \<Longrightarrow> rbind m f = rbind m' g"
  by (cases m') simp_all

text \<open>A loop that stops at the first exception.\<close>

fun rmap :: "('a \<Rightarrow> 'b res) \<Rightarrow> 'a list \<Rightarrow> 'b list res" where
  "rmap f [] = Inr []"
| "rmap f (x # xs) = rbind (f x) (\<lambda>y. rbind (rmap f xs) (\<lambda>ys. Inr (y # ys)))"

lemma rmap_map_Inr:
  "(\<And>x. x \<in> set xs \<Longrightarrow> f (g x) = Inr (h x)) \<Longrightarrow> rmap f (map g xs) = Inr (map h xs)"
  by (induction xs) auto

text \<open>\<open>try: ... except (...): continue\<close> around the body of a loop keeps the good items.\<close>

fun rkeep :: "('a \<Rightarrow> 'b res) \<Rightarrow> 'a list \<Rightarrow> 'b list" where
  "rkeep f [] = []"
| "rkeep f (x # xs) = (case f x of Inl e \<Rightarrow> rkeep f xs | Inr y \<Rightarrow> y # rkeep f xs)"

lemma rkeep_map_Inr:
  "(\<And>x. x \<in> set xs \<Longrightarrow> f (g x) = Inr (h x)) \<Longrightarrow> rkeep f (map g xs) = map h xs"
  by (induction xs) auto

section \<open>Insertion-ordered dictionaries\<close>

text \<open>
  A Python dictionary keeps the order of first insertion; assigning to a key that is
  present keeps its place. \<open>AList.update\<close> and \<open>AList.delete\<close> do exactly that.
\<close>

type_synonym ('k, 'v) dict = "('k \<times> 'v) list"

definition dget :: "('k, 'v) dict \<Rightarrow> 'k \<Rightarrow> 'v option" where
  "dget d k = map_of d k"

definition dset :: "'k \<Rightarrow> 'v \<Rightarrow> ('k, 'v) dict \<Rightarrow> ('k, 'v) dict" where
  "dset k v d = AList.update k v d"

definition dpop :: "'k \<Rightarrow> ('k, 'v) dict \<Rightarrow> ('k, 'v) dict" where
  "dpop k d = AList.delete k d"

definition dmem :: "('k, 'v) dict \<Rightarrow> 'k \<Rightarrow> bool" where
  "dmem d k \<longleftrightarrow> dget d k \<noteq> None"

definition dget_or :: "('k, 'v) dict \<Rightarrow> 'k \<Rightarrow> 'v \<Rightarrow> 'v" where
  "dget_or d k v = (case dget d k of None \<Rightarrow> v | Some w \<Rightarrow> w)"

definition dsetdefault :: "'k \<Rightarrow> 'v \<Rightarrow> ('k, 'v) dict \<Rightarrow> ('k, 'v) dict" where
  "dsetdefault k v d = (if dmem d k then d else dset k v d)"

definition dvalues :: "('k, 'v) dict \<Rightarrow> 'v list" where
  "dvalues d = map snd d"

definition dkeys :: "('k, 'v) dict \<Rightarrow> 'k list" where
  "dkeys d = map fst d"

definition dmap :: "('v \<Rightarrow> 'w) \<Rightarrow> ('k, 'v) dict \<Rightarrow> ('k, 'w) dict" where
  "dmap f d = map (\<lambda>(k, v). (k, f v)) d"

text \<open>Building a dictionary by assigning pairs one after the other.\<close>

definition dict_of :: "('k \<times> 'v) list \<Rightarrow> ('k, 'v) dict" where
  "dict_of ps = fold (\<lambda>(k, v). dset k v) ps []"

lemma dget_empty [simp, dict_simps]: "dget [] k = None"
  by (simp add: dget_def)

lemma dget_Cons [simp, dict_simps]:
  "dget ((k, v) # d) k' = (if k' = k then Some v else dget d k')"
  by (simp add: dget_def)

lemma dget_dset [simp, dict_simps]: "dget (dset k v d) k' = (if k' = k then Some v else dget d k')"
  by (simp add: dget_def dset_def update_conv')

lemma dget_dpop [simp, dict_simps]: "dget (dpop k d) k' = (if k' = k then None else dget d k')"
  by (simp add: dget_def dpop_def delete_conv')

lemma dget_dmap [simp, dict_simps]: "dget (dmap f d) k = map_option f (dget d k)"
  by (simp add: dget_def dmap_def map_of_map)

lemma dget_dsetdefault [simp, dict_simps]:
  "dget (dsetdefault k v d) k' =
     (if k' = k then Some (dget_or d k v) else dget d k')"
  by (auto simp: dsetdefault_def dmem_def dget_or_def)

lemma dkeys_dset: "distinct (dkeys d) \<Longrightarrow> distinct (dkeys (dset k v d))"
  by (simp add: dkeys_def dset_def distinct_update)

lemma dkeys_dpop: "distinct (dkeys d) \<Longrightarrow> distinct (dkeys (dpop k d))"
  by (simp add: dkeys_def dpop_def distinct_delete)

lemma dkeys_dmap [simp]: "dkeys (dmap f d) = dkeys d"
  by (simp add: dkeys_def dmap_def case_prod_beta comp_def)

lemma dkeys_dsetdefault: "distinct (dkeys d) \<Longrightarrow> distinct (dkeys (dsetdefault k v d))"
  by (simp add: dsetdefault_def dkeys_dset)

lemma dget_in_set: "dget d k = Some v \<Longrightarrow> (k, v) \<in> set d"
  by (simp add: dget_def map_of_SomeD)

lemma in_set_dget: "distinct (dkeys d) \<Longrightarrow> (k, v) \<in> set d \<Longrightarrow> dget d k = Some v"
  by (simp add: dget_def dkeys_def map_of_is_SomeI)

lemma dget_None_iff: "dget d k = None \<longleftrightarrow> k \<notin> set (dkeys d)"
  by (simp add: dget_def dkeys_def map_of_eq_None_iff)

lemma dset_set_subset: "set (dset k v d) \<subseteq> insert (k, v) (set d)"
  unfolding dset_def by (induction d) auto

lemma dpop_set_subset: "set (dpop k d) \<subseteq> set d"
  unfolding dpop_def by (induction d) auto

lemma dset_same: "dget d k = Some v \<Longrightarrow> dset k v d = d"
  by (induction d) (auto simp: dset_def)

lemma dset_dset [simp]: "dset k v (dset k w d) = dset k v d"
  by (induction d) (auto simp: dset_def)

lemma dset_fresh: "k \<notin> fst ` set d \<Longrightarrow> dset k v d = d @ [(k, v)]"
  by (induction d) (auto simp: dset_def)

lemma fold_dset_fresh:
  "distinct (map fst ps) \<Longrightarrow> fst ` set ps \<inter> fst ` set d = {} \<Longrightarrow>
     fold (\<lambda>(k, v). dset k v) ps d = d @ ps"
  by (induction ps arbitrary: d) (auto simp: dset_fresh)

lemma dict_of_distinct: "distinct (map fst ps) \<Longrightarrow> dict_of ps = ps"
  by (simp add: dict_of_def fold_dset_fresh)

section \<open>Interface: a keyed store\<close>

text \<open>
  What the books of this program rely on in their containers: reading back what was
  stored, leaving other keys alone, and visiting the stored values.
\<close>

locale keyed_store =
  fixes get :: "'m \<Rightarrow> 'k \<Rightarrow> 'v option"
    and put :: "'k \<Rightarrow> 'v \<Rightarrow> 'm \<Rightarrow> 'm"
    and rem :: "'k \<Rightarrow> 'm \<Rightarrow> 'm"
  assumes get_put: "get (put k v m) k' = (if k' = k then Some v else get m k')"
    and get_rem: "get (rem k m) k' = (if k' = k then None else get m k')"
begin

definition all_stored :: "('k \<Rightarrow> 'v \<Rightarrow> bool) \<Rightarrow> 'm \<Rightarrow> bool" where
  "all_stored P m \<longleftrightarrow> (\<forall>k v. get m k = Some v \<longrightarrow> P k v)"

lemma all_storedD: "all_stored P m \<Longrightarrow> get m k = Some v \<Longrightarrow> P k v"
  by (simp add: all_stored_def)

lemma all_stored_put: "all_stored P m \<Longrightarrow> P k v \<Longrightarrow> all_stored P (put k v m)"
  by (auto simp: all_stored_def get_put)

lemma all_stored_rem: "all_stored P m \<Longrightarrow> all_stored P (rem k m)"
  by (auto simp: all_stored_def get_rem)

lemma put_put_get: "get (put k v (put k w m)) k' = get (put k v m) k'"
  by (simp add: get_put)

end

interpretation dict: keyed_store dget dset dpop
  by unfold_locales simp_all

section \<open>Interface: a machine whose operations keep an invariant\<close>

text \<open>
  A component is a state and a step function over its events. Once every step is shown
  to keep the invariant and to advance a preorder (a counter that never falls, a set
  that never shrinks), every sequence of events does too.
\<close>

locale invariant_machine =
  fixes step :: "'s \<Rightarrow> 'e \<Rightarrow> 's"
    and inv :: "'s \<Rightarrow> bool"
    and adv :: "'s \<Rightarrow> 's \<Rightarrow> bool"
  assumes step_inv: "inv s \<Longrightarrow> inv (step s e)"
    and step_adv: "inv s \<Longrightarrow> adv s (step s e)"
    and adv_refl: "adv s s"
    and adv_trans: "adv s t \<Longrightarrow> adv t u \<Longrightarrow> adv s u"
begin

lemma run_inv: "inv s \<Longrightarrow> inv (foldl step s es)"
  by (induction es arbitrary: s) (auto intro: step_inv)

lemma run_adv: "inv s \<Longrightarrow> adv s (foldl step s es)"
proof (induction es arbitrary: s)
  case Nil
  show ?case by (simp add: adv_refl)
next
  case (Cons e es)
  from Cons.prems have "adv s (step s e)" by (rule step_adv)
  moreover from Cons.prems have "adv (step s e) (foldl step (step s e) es)"
    by (intro Cons.IH step_inv)
  ultimately show ?case by (simp add: adv_trans)
qed

end

section \<open>Small facts on integers\<close>

lemma floor_lot_le: "0 < (n::int) \<Longrightarrow> (x div n) * n \<le> x"
  using minus_mod_eq_div_mult [of x n] pos_mod_sign [of n x] by linarith

lemma floor_lot_nonneg: "0 < (n::int) \<Longrightarrow> 0 \<le> x \<Longrightarrow> 0 \<le> (x div n) * n"
  by (simp add: pos_imp_zdiv_nonneg_iff)

section \<open>Bisection\<close>

text \<open>
  The largest number that fits, by bisection. The order sizer searches lots with it, the backtest
  broker shares.
\<close>

function bisect_lots :: "(int \<Rightarrow> bool res) \<Rightarrow> int \<Rightarrow> int \<Rightarrow> int res" where
  "bisect_lots fits low high =
     (if low < high then
        rbind (fits ((low + high + 1) div 2)) (\<lambda>ok.
          if ok then bisect_lots fits ((low + high + 1) div 2) high
          else bisect_lots fits low ((low + high + 1) div 2 - 1))
      else Inr low)"
  by pat_completeness auto
termination
  by (relation "measure (\<lambda>(_, low, high). nat (high - low))") auto

declare bisect_lots.simps [simp del]

lemma bisect_lots_spec:
  assumes "bisect_lots fits low high = Inr r" "low \<le> high"
  shows "low \<le> r \<and> r \<le> high \<and> (r = low \<or> fits r = Inr True) \<and> (r = high \<or> fits (r + 1) = Inr False)"
  using assms
proof (induction fits low high rule: bisect_lots.induct)
  case (1 fits low high)
  let ?m = "(low + high + 1) div 2"
  show ?case
  proof (cases "low < high")
    case False
    with 1(3,4) show ?thesis by (simp add: bisect_lots.simps [of fits low high])
  next
    case True
    then have m: "low < ?m" "?m \<le> high" by linarith+
    from 1(3) True obtain ok where ok: "fits ?m = Inr ok"
      "(if ok then bisect_lots fits ?m high else bisect_lots fits low (?m - 1)) = Inr r"
      by (auto simp: bisect_lots.simps [of fits low high] res_simps)
    show ?thesis
    proof (cases ok)
      case True
      with ok m 1(1) [OF \<open>low < high\<close>, of ok] show ?thesis by auto
    next
      case False
      with ok m 1(2) [OF \<open>low < high\<close>, of ok]
      have "low \<le> r \<and> r \<le> ?m - 1 \<and> (r = low \<or> fits r = Inr True) \<and>
          (r = ?m - 1 \<or> fits (r + 1) = Inr False)"
        by auto
      with ok False m show ?thesis by (cases "r = ?m - 1") auto
    qed
  qed
qed

end
