(* ===== verification/Py_Float.thy ===== *)
theory Py_Float
  imports Py_Prelude Complex_Main "HOL-Library.Log_Nat"
begin

text \<open>
  Python's \<open>float\<close>: IEEE 754 binary64 with round-half-to-even, as an executable model.
  A finite value is the rational number it denotes; every arithmetic result is rounded
  to 53 significant bits (fewer in the subnormal range) and overflows to an infinity.
  The two zeros are one value, which no comparison or truth test of the program can
  tell apart. Python raises on division by zero; every division of the modelled code
  is guarded, and \<open>fdiv\<close> is used on non-zero divisors only.
\<close>

section \<open>Values and rounding\<close>

datatype pyfloat = Fin rat | PInf | NInf | NaN

text \<open>Round half to even, as Python's \<open>round\<close> and the IEEE rounding of a significand do.\<close>

definition rne :: "rat \<Rightarrow> int" where
  "rne x = (let f = \<lfloor>x\<rfloor>; d = x - of_int f
            in if d < 1 / 2 then f
               else if 1 / 2 < d then f + 1
               else if even f then f else f + 1)"

text \<open>\<open>pow2 k\<close> is \<open>2 ^ k\<close> for an exponent of either sign.\<close>

definition pow2 :: "int \<Rightarrow> rat" where
  "pow2 k = (if 0 \<le> k then 2 ^ nat k else 1 / 2 ^ nat (- k))"

text \<open>The exponent \<open>k\<close> with \<open>pow2 k \<le> x < pow2 (k + 1)\<close>, for a positive \<open>x\<close>.\<close>

definition flog2 :: "rat \<Rightarrow> int" where
  "flog2 x = (let (p, q) = quotient_of x; k = bitlen p - bitlen q
              in if pow2 k \<le> x then k else k - 1)"

definition fexp :: "rat \<Rightarrow> int" where
  "fexp x = max (flog2 \<bar>x\<bar> - 52) (- 1074)"

definition frnd :: "rat \<Rightarrow> rat" where
  "frnd x = (if x = 0 then 0
     else of_int (rne (x / pow2 (fexp x))) * pow2 (fexp x))"

definition f_overflow :: rat where
  "f_overflow = pow2 1024"

definition fround :: "rat \<Rightarrow> pyfloat" where
  "fround x = (let r = frnd x
     in if f_overflow \<le> r then PInf
        else if r \<le> - f_overflow then NInf
        else Fin r)"

abbreviation fzero :: pyfloat where
  "fzero \<equiv> Fin 0"

definition float_of_int :: "int \<Rightarrow> pyfloat" where
  "float_of_int n = fround (of_int n)"

section \<open>Arithmetic and comparison\<close>

fun fneg :: "pyfloat \<Rightarrow> pyfloat" where
  "fneg (Fin a) = Fin (- a)"
| "fneg PInf = NInf"
| "fneg NInf = PInf"
| "fneg NaN = NaN"

fun fadd :: "pyfloat \<Rightarrow> pyfloat \<Rightarrow> pyfloat" where
  "fadd (Fin a) (Fin b) = fround (a + b)"
| "fadd NaN _ = NaN"
| "fadd _ NaN = NaN"
| "fadd PInf NInf = NaN"
| "fadd NInf PInf = NaN"
| "fadd PInf _ = PInf"
| "fadd _ PInf = PInf"
| "fadd NInf _ = NInf"
| "fadd _ NInf = NInf"

text \<open>\<open>abs(x)\<close>\<close>

fun fabs :: "pyfloat \<Rightarrow> pyfloat" where
  "fabs (Fin r) = Fin \<bar>r\<bar>"
| "fabs NaN = NaN"
| "fabs _ = PInf"

definition fsub :: "pyfloat \<Rightarrow> pyfloat \<Rightarrow> pyfloat" where
  "fsub a b = fadd a (fneg b)"

definition finf :: "rat \<Rightarrow> pyfloat" where
  "finf s = (if 0 < s then PInf else if s < 0 then NInf else NaN)"

fun fsign :: "pyfloat \<Rightarrow> rat" where
  "fsign (Fin a) = sgn a"
| "fsign PInf = 1"
| "fsign NInf = - 1"
| "fsign NaN = 0"

fun fmul :: "pyfloat \<Rightarrow> pyfloat \<Rightarrow> pyfloat" where
  "fmul (Fin a) (Fin b) = fround (a * b)"
| "fmul a b = finf (fsign a * fsign b)"

fun fdiv :: "pyfloat \<Rightarrow> pyfloat \<Rightarrow> pyfloat" where
  "fdiv (Fin a) (Fin b) = (if b = 0 then NaN else fround (a / b))"
| "fdiv NaN _ = NaN"
| "fdiv _ NaN = NaN"
| "fdiv (Fin _) _ = fzero"
| "fdiv PInf (Fin b) = (if b < 0 then NInf else PInf)"
| "fdiv NInf (Fin b) = (if b < 0 then PInf else NInf)"
| "fdiv _ _ = NaN"

fun flt :: "pyfloat \<Rightarrow> pyfloat \<Rightarrow> bool" where
  "flt NaN _ = False"
| "flt _ NaN = False"
| "flt (Fin a) (Fin b) = (a < b)"
| "flt PInf _ = False"
| "flt _ NInf = False"
| "flt NInf _ = True"
| "flt _ PInf = True"

fun fle :: "pyfloat \<Rightarrow> pyfloat \<Rightarrow> bool" where
  "fle NaN _ = False"
| "fle _ NaN = False"
| "fle (Fin a) (Fin b) = (a \<le> b)"
| "fle NInf _ = True"
| "fle _ PInf = True"
| "fle PInf _ = False"
| "fle _ NInf = False"

text \<open>\<open>a == b\<close>: the comparison of two floats, where \<open>NaN\<close> differs from everything.\<close>

definition feq :: "pyfloat \<Rightarrow> pyfloat \<Rightarrow> bool" where
  "feq a b \<longleftrightarrow> fle a b \<and> fle b a"

text \<open>\<open>max(a, b)\<close> keeps its first argument unless the second one is greater.\<close>

definition pmax :: "pyfloat \<Rightarrow> pyfloat \<Rightarrow> pyfloat" where
  "pmax a b = (if flt a b then b else a)"

definition pmin :: "pyfloat \<Rightarrow> pyfloat \<Rightarrow> pyfloat" where
  "pmin a b = (if flt b a then b else a)"

text \<open>\<open>max\<close> of a non-empty list of floats, left to right.\<close>

fun pmax_list :: "pyfloat \<Rightarrow> pyfloat list \<Rightarrow> pyfloat" where
  "pmax_list m [] = m"
| "pmax_list m (x # xs) = pmax_list (pmax m x) xs"

text \<open>\<open>a or b\<close> on floats: the zero is false, everything else (also \<open>NaN\<close>) is true.\<close>

definition f_or :: "pyfloat \<Rightarrow> pyfloat \<Rightarrow> pyfloat" where
  "f_or a b = (if a = fzero then b else a)"

text \<open>\<open>math.isfinite(x)\<close>\<close>

fun f_isfinite :: "pyfloat \<Rightarrow> bool" where
  "f_isfinite (Fin _) = True"
| "f_isfinite _ = False"

text \<open>
  \<open>sum\<close> of floats, as the interpreter computes it since version 3.12: the rounding error of every
  addition is collected in a second float and added at the end.
\<close>

fun compensated_sum :: "pyfloat \<Rightarrow> pyfloat \<Rightarrow> pyfloat list \<Rightarrow> pyfloat" where
  "compensated_sum s c [] = (if c \<noteq> fzero \<and> f_isfinite c then fadd s c else s)"
| "compensated_sum s c (x # xs) =
     (let t = fadd s x;
          e = (if fle (fabs x) (fabs s) then fadd (fsub s t) x else fadd (fsub x t) s)
      in compensated_sum t (fadd c e) xs)"

definition py_fsum :: "pyfloat list \<Rightarrow> pyfloat" where
  "py_fsum xs = compensated_sum fzero fzero xs"

section \<open>Conversions to integers\<close>

definition trunc_rat :: "rat \<Rightarrow> int" where
  "trunc_rat r = (if 0 \<le> r then \<lfloor>r\<rfloor> else \<lceil>r\<rceil>)"

text \<open>\<open>int(x)\<close> and \<open>round(x)\<close> on a float.\<close>

fun int_of_float :: "pyfloat \<Rightarrow> int res" where
  "int_of_float (Fin r) = Inr (trunc_rat r)"
| "int_of_float NaN = Inl (ValueError [])"
| "int_of_float _ = Inl OverflowError"

fun round_of_float :: "pyfloat \<Rightarrow> int res" where
  "round_of_float (Fin r) = Inr (rne r)"
| "round_of_float NaN = Inl (ValueError [])"
| "round_of_float _ = Inl OverflowError"

fun f_is_integer :: "pyfloat \<Rightarrow> bool" where
  "f_is_integer (Fin r) = (of_int \<lfloor>r\<rfloor> = r)"
| "f_is_integer _ = False"

section \<open>Properties of the rounding\<close>

lemma pow2_powi: "pow2 k = 2 powi k"
  by (cases "0 \<le> k") (simp_all add: pow2_def power_int_def power_one_over inverse_eq_divide)

lemma pow2_pos [simp]: "0 < pow2 k"
  by (simp add: pow2_powi)

lemma pow2_ge0 [simp]: "0 \<le> pow2 k" and pow2_ne0 [simp]: "pow2 k \<noteq> 0"
  using pow2_pos [of k] by linarith+

lemma pow2_add: "pow2 (a + b) = pow2 a * pow2 b"
  by (simp add: pow2_powi power_int_add)

lemma pow2_diff: "pow2 (a - b) = pow2 a / pow2 b"
  by (simp add: pow2_powi power_int_diff)

lemma pow2_nat: "0 \<le> k \<Longrightarrow> pow2 k = of_int (2 ^ nat k)"
  by (simp add: pow2_def)

lemma pow2_strict_mono: "a < b \<Longrightarrow> pow2 a < pow2 b"
  by (simp add: pow2_powi power_int_strict_increasing)

lemma pow2_less_iff [simp]: "pow2 a < pow2 b \<longleftrightarrow> a < b"
  using pow2_strict_mono [of a b] pow2_strict_mono [of b a]
  by (metis less_irrefl linorder_neqE_linordered_idom order_less_asym)

lemma pow2_le_iff [simp]: "pow2 a \<le> pow2 b \<longleftrightarrow> a \<le> b"
  by (meson linorder_not_less pow2_less_iff)

lemma bitlen_pow2_bounds:
  assumes "0 < n"
  shows "pow2 (bitlen n - 1) \<le> of_int n" and "(of_int n :: rat) < pow2 (bitlen n)"
proof -
  from assms have pos: "0 < bitlen n"
    using bitlen_nonneg [of n] bitlen_eq_zero_iff [of n] by linarith
  have *: "2 ^ nat (bitlen n - 1) \<le> n" "n < 2 ^ nat (bitlen n)"
    using bitlen_bounds [OF assms] by auto
  from *(1) have "(of_int (2 ^ nat (bitlen n - 1)) :: rat) \<le> of_int n" by (simp only: of_int_le_iff)
  with pos show "pow2 (bitlen n - 1) \<le> of_int n" by (simp add: pow2_nat)
  from *(2) have "(of_int n :: rat) < of_int (2 ^ nat (bitlen n))" by (simp only: of_int_less_iff)
  with pos show "(of_int n :: rat) < pow2 (bitlen n)" by (simp add: pow2_nat)
qed

lemma flog2_bounds:
  assumes "0 < x"
  shows "pow2 (flog2 x) \<le> x" and "x < pow2 (flog2 x + 1)"
proof -
  obtain p q where pq: "quotient_of x = (p, q)" by fastforce
  then have q: "0 < q" by (rule quotient_of_denom_pos)
  have x: "x = of_int p / of_int q" by (rule quotient_of_div [OF pq])
  with assms q have p: "0 < p" by (simp add: zero_less_divide_iff)
  let ?k = "bitlen p - bitlen q"
  have "pow2 (?k - 1) = pow2 (bitlen p - 1) / pow2 (bitlen q)"
    by (simp add: pow2_diff pow2_add field_simps)
  also have "\<dots> < of_int p / of_int q"
    using bitlen_pow2_bounds [OF p] bitlen_pow2_bounds [OF q] p q
    by (intro frac_less2) auto
  finally have lo: "pow2 (?k - 1) < x" by (simp add: x)
  have "x < pow2 (bitlen p) / pow2 (bitlen q - 1)"
    unfolding x using bitlen_pow2_bounds [OF p] bitlen_pow2_bounds [OF q] p q
    by (intro frac_less) auto
  also have "\<dots> = pow2 (?k + 1)" by (simp add: pow2_diff pow2_add)
  finally have hi: "x < pow2 (?k + 1)" .
  from lo hi show "pow2 (flog2 x) \<le> x" and "x < pow2 (flog2 x + 1)"
    by (auto simp: flog2_def pq Let_def)
qed

lemma flog2_unique:
  assumes "pow2 k \<le> x" "x < pow2 (k + 1)"
  shows "flog2 x = k"
proof -
  from assms(1) have "0 < x" by (rule less_le_trans [OF pow2_pos])
  from flog2_bounds [OF this] assms have "pow2 (flog2 x) < pow2 (k + 1)" "pow2 k < pow2 (flog2 x + 1)"
    by linarith+
  then show ?thesis by simp
qed

lemma flog2_mono: "0 < x \<Longrightarrow> x \<le> y \<Longrightarrow> flog2 x \<le> flog2 y"
  using flog2_bounds [of x] flog2_bounds [of y] pow2_less_iff [of "flog2 x" "flog2 y + 1"]
  by (metis add1_zle_eq less_le_trans order_le_less_trans zle_add1_eq_le)

lemma rne_of_int [simp]: "rne (of_int n) = n"
  by (simp add: rne_def)

lemma rne_bounds: "of_int (rne x) \<le> x + 1 / 2" "x - 1 / 2 \<le> of_int (rne x)"
  by (auto simp: rne_def Let_def; linarith)+

lemma rne_mono: "x \<le> y \<Longrightarrow> rne x \<le> rne y"
proof (cases "\<lfloor>x\<rfloor> = \<lfloor>y\<rfloor>")
  case True
  assume "x \<le> y"
  with True show ?thesis by (auto simp: rne_def Let_def)
next
  case False
  assume "x \<le> y"
  with False have "\<lfloor>x\<rfloor> + 1 \<le> \<lfloor>y\<rfloor>" using floor_mono [of x y] by linarith
  moreover have "rne x \<le> \<lfloor>x\<rfloor> + 1" "\<lfloor>y\<rfloor> \<le> rne y" by (auto simp: rne_def Let_def)
  ultimately show ?thesis by linarith
qed

lemma rne_minus: "rne (- x) = - rne x"
proof (cases "of_int \<lfloor>x\<rfloor> = x")
  case True
  then obtain n where "x = of_int n" by metis
  then show ?thesis by (simp flip: of_int_minus)
next
  case False
  then have "\<lfloor>- x\<rfloor> = - \<lfloor>x\<rfloor> - 1"
    by (simp add: floor_minus ceiling_altdef)
  then show ?thesis by (auto simp: rne_def Let_def)
qed

lemma rne_le_of_int: "x \<le> of_int n \<Longrightarrow> rne x \<le> n"
  using rne_mono [of x "of_int n"] by simp

lemma rne_ge_of_int: "of_int n \<le> x \<Longrightarrow> n \<le> rne x"
  using rne_mono [of "of_int n" x] by simp

lemma rne_eqI: "\<bar>x - of_int n\<bar> < 1 / 2 \<Longrightarrow> rne x = n"
  using rne_bounds [of x] by linarith

lemma fexp_minus [simp]: "fexp (- x) = fexp x"
  by (simp add: fexp_def)

lemma frnd_minus: "frnd (- x) = - frnd x"
  by (simp add: frnd_def rne_minus)

lemma frnd_0 [simp]: "frnd 0 = 0"
  by (simp add: frnd_def)

lemma frnd_grid:
  assumes "fexp x \<le> k"
  shows "0 \<le> x \<Longrightarrow> x \<le> of_int m * pow2 k \<Longrightarrow> frnd x \<le> of_int m * pow2 k"
    and "of_int m * pow2 k \<le> x \<Longrightarrow> x \<noteq> 0 \<Longrightarrow> of_int m * pow2 k \<le> frnd x"
proof -
  let ?u = "pow2 (fexp x)"
  define n :: int where "n = m * 2 ^ nat (k - fexp x)"
  have "of_int (2 ^ nat (k - fexp x)) = pow2 k / ?u"
    using assms pow2_nat [of "k - fexp x"] pow2_diff [of k "fexp x"] by simp
  then have n: "of_int m * pow2 k = of_int n * ?u" by (simp add: n_def)
  show "frnd x \<le> of_int m * pow2 k" if "0 \<le> x" "x \<le> of_int m * pow2 k"
  proof (cases "x = 0")
    case False
    from that have "x / ?u \<le> of_int n" by (simp add: n divide_le_eq)
    then have "rne (x / ?u) \<le> n" by (rule rne_le_of_int)
    then have "of_int (rne (x / ?u)) * ?u \<le> of_int n * ?u" by simp
    with False show ?thesis by (simp add: frnd_def n)
  qed (use that in simp)
  show "of_int m * pow2 k \<le> frnd x" if "of_int m * pow2 k \<le> x" "x \<noteq> 0"
  proof -
    from that have "of_int n \<le> x / ?u" by (simp add: n le_divide_eq)
    then have "n \<le> rne (x / ?u)" by (rule rne_ge_of_int)
    then have "of_int n * ?u \<le> of_int (rne (x / ?u)) * ?u" by simp
    with that show ?thesis by (simp add: frnd_def n)
  qed
qed

lemma frnd_nonneg: "0 \<le> x \<Longrightarrow> 0 \<le> frnd x"
  using frnd_grid(2) [of x "fexp x" 0] by (cases "x = 0") simp_all

lemma frnd_mono_pos:
  assumes "0 < x" "x \<le> y"
  shows "frnd x \<le> frnd y"
proof (cases "fexp x = fexp y")
  case True
  have "x / pow2 (fexp y) \<le> y / pow2 (fexp y)" using assms by (simp add: divide_right_mono)
  then have "rne (x / pow2 (fexp y)) \<le> rne (y / pow2 (fexp y))" by (rule rne_mono)
  with assms True show ?thesis by (simp add: frnd_def)
next
  case False
  from assms have mono: "flog2 x \<le> flog2 y" by (rule flog2_mono)
  with False assms have lt: "flog2 x < flog2 y" and ey: "fexp y = flog2 y - 52"
    and ex: "fexp x < fexp y"
    by (auto simp: fexp_def max_def split: if_splits)
  have "x < pow2 (flog2 x + 1)" using assms by (intro flog2_bounds)
  also have "\<dots> \<le> pow2 (flog2 y)" using lt by simp
  finally have "x \<le> of_int 1 * pow2 (flog2 y)" by simp
  moreover have "fexp x \<le> flog2 y" using ex ey by simp
  ultimately have "frnd x \<le> of_int 1 * pow2 (flog2 y)"
    using assms by (intro frnd_grid(1)) auto
  moreover have "of_int 1 * pow2 (flog2 y) \<le> y" using assms flog2_bounds [of y] by simp
  then have "of_int 1 * pow2 (flog2 y) \<le> frnd y"
    using assms ey by (intro frnd_grid(2)) auto
  ultimately show ?thesis by linarith
qed

lemma frnd_mono: "x \<le> y \<Longrightarrow> frnd x \<le> frnd y"
proof -
  assume le: "x \<le> y"
  consider "0 < x" | "x \<le> 0" "0 \<le> y" | "y < 0" by linarith
  then show ?thesis
  proof cases
    case 1
    from this le show ?thesis by (rule frnd_mono_pos)
  next
    case 2
    then have "0 \<le> frnd (- x)" "0 \<le> frnd y" by (auto intro: frnd_nonneg)
    then show ?thesis by (simp add: frnd_minus)
  next
    case 3
    with le have "frnd (- y) \<le> frnd (- x)" by (intro frnd_mono_pos) auto
    then show ?thesis by (simp add: frnd_minus)
  qed
qed

lemma frnd_exact:
  assumes m: "\<bar>m\<bar> \<le> 2 ^ 53" and k: "- 1074 \<le> k"
  shows "frnd (of_int m * pow2 k) = of_int m * pow2 k"
proof -
  have pos: "frnd (of_int m * pow2 k) = of_int m * pow2 k" if "0 < m" "m \<le> 2 ^ 53" for m
  proof -
    let ?x = "of_int m * pow2 k"
    have x: "0 < ?x" using that by simp
    have "pow2 (flog2 ?x) \<le> ?x" using x by (rule flog2_bounds)
    also have "?x \<le> of_int (2 ^ 53) * pow2 k" using that(2) by (intro mult_right_mono) (simp_all only: of_int_le_iff pow2_ge0)
    also have "\<dots> = pow2 (53 + k)" by (simp add: pow2_add pow2_nat [of 53])
    finally have fl: "flog2 ?x \<le> 53 + k" by simp
    show ?thesis
    proof (cases "fexp ?x \<le> k")
      case True
      then show ?thesis using frnd_grid(1) [OF True, of m] frnd_grid(2) [OF True, of m] x by force
    next
      case False
      with fl k x have e: "fexp ?x = k + 1" "flog2 ?x = 53 + k"
        by (auto simp: fexp_def max_def split: if_splits)
      from e(2) flog2_bounds(1) [OF x] have "pow2 (53 + k) \<le> ?x" by simp
      then have "of_int (2 ^ 53) * pow2 k \<le> ?x" by (simp add: pow2_add pow2_nat [of 53])
      then have "(of_int (2 ^ 53) :: rat) \<le> of_int m" by (rule mult_right_le_imp_le) simp
      with that(2) have "m = 2 ^ 53" by (simp only: of_int_le_iff)
      then have "?x = of_int (2 ^ 52) * pow2 (k + 1)" by (simp add: pow2_add pow2_nat [of 1])
      then show ?thesis
        using frnd_grid(1) [of ?x "k + 1" "2 ^ 52"] frnd_grid(2) [of ?x "k + 1" "2 ^ 52"] e x by force
    qed
  qed
  consider "0 < m" | "m = 0" | "m < 0" by linarith
  then show ?thesis
  proof cases
    case 1
    with m show ?thesis by (intro pos) auto
  next
    case 3
    with m have "frnd (of_int (- m) * pow2 k) = of_int (- m) * pow2 k" by (intro pos) auto
    then show ?thesis by (simp add: frnd_minus)
  qed simp
qed

lemma f_overflow_pos [simp]: "0 < f_overflow"
  by (simp add: f_overflow_def)

lemma f_overflow_ge [simp]: "- f_overflow \<le> f_overflow" "- f_overflow < f_overflow" "\<not> f_overflow \<le> - f_overflow"
  using f_overflow_pos by linarith+

lemma fround_frnd: "\<bar>frnd x\<bar> < f_overflow \<Longrightarrow> fround x = Fin (frnd x)"
  by (auto simp: fround_def Let_def)

lemma fround_mono: "x \<le> y \<Longrightarrow> fle (fround x) (fround y)"
  using frnd_mono [of x y] by (auto simp: fround_def Let_def)

lemma fround_0 [simp]: "fround 0 = Fin 0"
  by (simp add: fround_frnd)

lemma fround_nonneg: "0 \<le> x \<Longrightarrow> fle fzero (fround x)"
  using fround_mono [of 0 x] by simp

lemma fround_nonpos: "x \<le> 0 \<Longrightarrow> fle (fround x) fzero"
  using fround_mono [of x 0] by simp

lemma fround_exact:
  assumes "\<bar>m\<bar> \<le> 2 ^ 53" "- 1074 \<le> k" "k \<le> 970"
  shows "fround (of_int m * pow2 k) = Fin (of_int m * pow2 k)"
proof -
  from assms(1) have "\<bar>of_int m :: rat\<bar> \<le> of_int (2 ^ 53)"
    by (simp only: of_int_abs [symmetric] of_int_le_iff)
  then have "\<bar>of_int m * pow2 k\<bar> \<le> of_int (2 ^ 53) * pow2 k"
    by (simp only: abs_mult abs_of_pos [OF pow2_pos] mult_right_mono pow2_ge0)
  also have "\<dots> = pow2 (53 + k)" by (simp add: pow2_add pow2_nat [of 53])
  also have "\<dots> < f_overflow" using assms(3) by (simp add: f_overflow_def)
  finally show ?thesis
    by (simp only: fround_frnd frnd_exact [OF assms(1,2)])
qed

lemma fround_of_int: "\<bar>n\<bar> \<le> 2 ^ 53 \<Longrightarrow> fround (of_int n) = Fin (of_int n)"
  using fround_exact [of n 0] by (simp add: pow2_def)

lemma fround_numeral [simp]:
  "(numeral k :: int) \<le> 2 ^ 53 \<Longrightarrow> fround (numeral k) = Fin (numeral k)"
  "(numeral k :: int) \<le> 2 ^ 53 \<Longrightarrow> fround (- numeral k) = Fin (- numeral k)"
  "fround 1 = Fin 1"
  "fround (- 1) = Fin (- 1)"
  using fround_of_int [of "numeral k"] fround_of_int [of "- numeral k"]
    fround_of_int [of 1] fround_of_int [of "- 1"]
  by simp_all

text \<open>A certificate for the rounding of a value that is not exact: the candidate
  significand and its exponent.\<close>

lemma fround_eqI:
  assumes lo: "pow2 (k + 52) \<le> x" and hi: "x < pow2 (k + 53)"
    and k: "- 1074 \<le> k" "k \<le> 970" and near: "\<bar>x - of_int m * pow2 k\<bar> < pow2 k / 2"
  shows "fround x = Fin (of_int m * pow2 k)"
proof -
  from lo have x: "0 < x" by (rule less_le_trans [OF pow2_pos])
  have "flog2 x = k + 52" using flog2_unique [of "k + 52" x] lo hi by (simp add: algebra_simps)
  with x k have e: "fexp x = k" by (simp add: fexp_def)
  have "x / pow2 k - of_int m = (x - of_int m * pow2 k) / pow2 k"
    by (simp add: diff_divide_distrib)
  then have "\<bar>x / pow2 k - of_int m\<bar> = \<bar>x - of_int m * pow2 k\<bar> / pow2 k"
    by (simp only: abs_divide abs_of_pos [OF pow2_pos])
  also have "\<dots> < 1 / 2" using near by (simp add: divide_less_eq)
  finally have "rne (x / pow2 k) = m" by (rule rne_eqI)
  with x e have r: "frnd x = of_int m * pow2 k" by (simp add: frnd_def)
  have "0 \<le> frnd x" using x by (intro frnd_nonneg) simp
  moreover have "frnd x \<le> of_int 1 * pow2 (k + 53)"
    using x hi e by (intro frnd_grid(1)) auto
  moreover have "pow2 (k + 53) < f_overflow" using k by (simp add: f_overflow_def)
  ultimately show ?thesis by (simp add: fround_frnd r)
qed

lemma frnd_bounded: "\<bar>x\<bar> \<le> pow2 k \<Longrightarrow> - 1074 \<le> k \<Longrightarrow> \<bar>frnd x\<bar> \<le> pow2 k"
  using frnd_mono [of x "pow2 k"] frnd_mono [of "- pow2 k" x] frnd_exact [of 1 k] frnd_minus [of "pow2 k"]
  by (simp add: abs_le_iff)

lemma fround_bounded:
  assumes "\<bar>x\<bar> \<le> pow2 k" "- 1074 \<le> k" "k \<le> 1023"
  shows "\<exists>r. fround x = Fin r \<and> \<bar>r\<bar> \<le> pow2 k"
proof -
  have b: "\<bar>frnd x\<bar> \<le> pow2 k" by (rule frnd_bounded [OF assms(1,2)])
  also have "pow2 k < f_overflow" using assms(3) by (simp add: f_overflow_def)
  finally show ?thesis using b by (simp add: fround_frnd)
qed

lemma f_or_fzero [simp]: "f_or x fzero = x"
  by (simp add: f_or_def)

section \<open>Order\<close>

lemma fle_refl: "a \<noteq> NaN \<Longrightarrow> fle a a"
  by (cases a) simp_all

lemma fle_trans: "fle a b \<Longrightarrow> fle b c \<Longrightarrow> fle a c"
  by (cases a; cases b; cases c) auto

lemma flt_imp_fle: "flt a b \<Longrightarrow> fle a b"
  by (cases a; cases b) auto

lemma flt_fle_trans: "flt a b \<Longrightarrow> fle b c \<Longrightarrow> flt a c"
  by (cases a; cases b; cases c) auto

lemma fle_flt_trans: "fle a b \<Longrightarrow> flt b c \<Longrightarrow> flt a c"
  by (cases a; cases b; cases c) auto

lemma flt_trans: "flt a b \<Longrightarrow> flt b c \<Longrightarrow> flt a c"
  using flt_fle_trans flt_imp_fle by blast

lemma flt_NaN [simp]: "\<not> flt x NaN"
  by (cases x) simp_all

lemma not_flt_iff: "a \<noteq> NaN \<Longrightarrow> b \<noteq> NaN \<Longrightarrow> \<not> flt a b \<longleftrightarrow> fle b a"
  by (cases a; cases b) auto

lemma flt_irrefl [simp]: "\<not> flt a a"
  by (cases a) auto

lemma fle_not_NaN: "fle a b \<Longrightarrow> a \<noteq> NaN \<and> b \<noteq> NaN"
  by (cases a; cases b) auto

lemma flt_not_NaN: "flt a b \<Longrightarrow> a \<noteq> NaN \<and> b \<noteq> NaN"
  by (cases a; cases b) auto

lemma pmax_ge_left: "a \<noteq> NaN \<Longrightarrow> fle a (pmax a b)"
  by (simp add: pmax_def fle_refl flt_imp_fle)

lemma pmax_ge_right: "a \<noteq> NaN \<Longrightarrow> b \<noteq> NaN \<Longrightarrow> fle b (pmax a b)"
  by (auto simp: pmax_def fle_refl not_flt_iff)

lemma pmax_not_NaN: "a \<noteq> NaN \<Longrightarrow> pmax a b \<noteq> NaN"
  by (auto simp: pmax_def dest: flt_not_NaN)

lemma pmax_cases: "pmax a b = a \<or> pmax a b = b"
  by (simp add: pmax_def)

lemma pmax_idem [simp]: "pmax a (pmax a b) = pmax a b"
  by (simp add: pmax_def)

lemma pmax_fzero_nonneg [simp]: "fle fzero (pmax fzero x)"
  by (simp add: pmax_ge_left)

lemma pmax_list_ge_start: "m \<noteq> NaN \<Longrightarrow> fle m (pmax_list m xs)"
proof (induction xs arbitrary: m)
  case (Cons x xs)
  then have "fle (pmax m x) (pmax_list (pmax m x) xs)" by (intro Cons.IH pmax_not_NaN)
  with Cons.prems show ?case by (auto intro: fle_trans pmax_ge_left)
qed (simp add: fle_refl)

end
