(* ===== verification/Py_Value.thy ===== *)
theory Py_Value
  imports Py_Float
begin

text \<open>
  The dynamically typed values the program reads from its JSON payloads (rule
  parameters, metadata, persisted rule state): the values themselves, their truth
  values, and the conversions \<open>float\<close>, \<open>int\<close>, \<open>str\<close> and \<open>bool\<close> with the exceptions
  they raise.
\<close>

section \<open>Values\<close>

datatype pyval =
    VNone
  | VBool bool
  | VInt int
  | VFloat pyfloat
  | VStr string
  | VList "pyval list"
  | VDict "(string \<times> pyval) list"

type_synonym pydict = "(string, pyval) dict"

fun truthy :: "pyval \<Rightarrow> bool" where
  "truthy VNone = False"
| "truthy (VBool b) = b"
| "truthy (VInt n) = (n \<noteq> 0)"
| "truthy (VFloat x) = (x \<noteq> fzero)"
| "truthy (VStr s) = (s \<noteq> [])"
| "truthy (VList xs) = (xs \<noteq> [])"
| "truthy (VDict d) = (d \<noteq> [])"

text \<open>\<open>a or b\<close>, \<open>d.get(k)\<close> and \<open>d.get(k, default)\<close>.\<close>

definition v_or :: "pyval \<Rightarrow> pyval \<Rightarrow> pyval" where
  "v_or a b = (if truthy a then a else b)"

definition vget :: "pydict \<Rightarrow> string \<Rightarrow> pyval" where
  "vget d k = dget_or d k VNone"

definition vget_or :: "pydict \<Rightarrow> string \<Rightarrow> pyval \<Rightarrow> pyval" where
  "vget_or d k v = dget_or d k v"

fun is_mapping :: "pyval \<Rightarrow> bool" where
  "is_mapping (VDict _) = True"
| "is_mapping _ = False"

text \<open>An optional float of the model as the value a Python field holds.\<close>

fun v_opt_float :: "pyfloat option \<Rightarrow> pyval" where
  "v_opt_float None = VNone"
| "v_opt_float (Some x) = VFloat x"

fun v_opt_int :: "int option \<Rightarrow> pyval" where
  "v_opt_int None = VNone"
| "v_opt_int (Some n) = VInt n"

section \<open>Numbers written as strings\<close>

definition is_space :: "char \<Rightarrow> bool" where
  "is_space c \<longleftrightarrow> (let n = of_char c :: nat in n \<in> {9, 10, 11, 12, 13, 28, 29, 30, 31, 32})"

definition is_digit :: "char \<Rightarrow> bool" where
  "is_digit c \<longleftrightarrow> (let n = of_char c :: nat in 48 \<le> n \<and> n \<le> 57)"

definition digit_value :: "char \<Rightarrow> nat" where
  "digit_value c = of_char c - 48"

definition digit_char :: "nat \<Rightarrow> char" where
  "digit_char n = char_of (48 + n)"

definition strip :: "string \<Rightarrow> string" where
  "strip s = rev (dropWhile is_space (rev (dropWhile is_space s)))"

definition lower_char :: "char \<Rightarrow> char" where
  "lower_char c = (let n = of_char c :: nat in if 65 \<le> n \<and> n \<le> 90 then char_of (n + 32) else c)"

definition upper_char :: "char \<Rightarrow> char" where
  "upper_char c = (let n = of_char c :: nat in if 97 \<le> n \<and> n \<le> 122 then char_of (n - 32) else c)"

definition lower :: "string \<Rightarrow> string" where
  "lower s = map lower_char s"

definition upper :: "string \<Rightarrow> string" where
  "upper s = map upper_char s"

text \<open>An underscore is allowed between two digits of a number and nowhere else.\<close>

fun drop_underscores :: "bool \<Rightarrow> string \<Rightarrow> string option" where
  "drop_underscores prev [] = Some []"
| "drop_underscores prev (c # cs) =
     (if c = CHR ''_'' then
        (if prev \<and> cs \<noteq> [] \<and> is_digit (hd cs) then drop_underscores False cs else None)
      else map_option (Cons c) (drop_underscores (is_digit c) cs))"

definition int_of_digits :: "string \<Rightarrow> int" where
  "int_of_digits s = foldl (\<lambda>n c. 10 * n + int (digit_value c)) 0 s"

text \<open>The optional sign of a number, and the rest.\<close>

fun split_sign :: "string \<Rightarrow> int \<times> string" where
  "split_sign [] = (1, [])"
| "split_sign (c # cs) =
     (if c = CHR ''-'' then (- 1, cs) else if c = CHR ''+'' then (1, cs) else (1, c # cs))"

definition parse_int :: "string \<Rightarrow> int option" where
  "parse_int s =
     (case drop_underscores False (strip s) of
        None \<Rightarrow> None
      | Some t \<Rightarrow>
          (let (sg, ds) = split_sign t
           in if ds \<noteq> [] \<and> list_all is_digit ds then Some (sg * int_of_digits ds) else None))"

definition parse_exponent :: "string \<Rightarrow> int option" where
  "parse_exponent s =
     (case s of
        [] \<Rightarrow> Some 0
      | c # cs \<Rightarrow>
          if c = CHR ''e'' \<or> c = CHR ''E'' then
            (let (sg, ds) = split_sign cs
             in if ds \<noteq> [] \<and> list_all is_digit ds then Some (sg * int_of_digits ds) else None)
          else None)"

definition pow10 :: "int \<Rightarrow> rat" where
  "pow10 k = (if 0 \<le> k then 10 ^ nat k else 1 / 10 ^ nat (- k))"

definition parse_decimal :: "string \<Rightarrow> rat option" where
  "parse_decimal s =
     (let ip = takeWhile is_digit s; r1 = dropWhile is_digit s;
          fp = (case r1 of c # cs \<Rightarrow> if c = CHR ''.'' then takeWhile is_digit cs else [] | [] \<Rightarrow> []);
          r2 = (case r1 of c # cs \<Rightarrow> if c = CHR ''.'' then dropWhile is_digit cs else r1 | [] \<Rightarrow> [])
      in if ip @ fp = [] then None
         else map_option (\<lambda>e. of_int (int_of_digits (ip @ fp)) * pow10 (e - int (length fp)))
                (parse_exponent r2))"

definition parse_float :: "string \<Rightarrow> pyfloat option" where
  "parse_float s =
     (case drop_underscores False (strip s) of
        None \<Rightarrow> None
      | Some t \<Rightarrow>
          (let (sg, u) = split_sign t; w = lower u
           in if w = ''inf'' \<or> w = ''infinity'' then Some (if sg < 0 then NInf else PInf)
              else if w = ''nan'' then Some NaN
              else map_option (\<lambda>r. fround (of_int sg * r)) (parse_decimal u)))"

section \<open>Conversions\<close>

text \<open>\<open>float(v)\<close>: an integer beyond the range of a float raises \<open>OverflowError\<close>.\<close>

fun to_float :: "pyval \<Rightarrow> pyfloat res" where
  "to_float (VBool b) = Inr (Fin (if b then 1 else 0))"
| "to_float (VInt n) =
     (case float_of_int n of Fin r \<Rightarrow> Inr (Fin r) | _ \<Rightarrow> Inl OverflowError)"
| "to_float (VFloat x) = Inr x"
| "to_float (VStr s) =
     (case parse_float s of None \<Rightarrow> Inl (ValueError []) | Some x \<Rightarrow> Inr x)"
| "to_float _ = Inl TypeError"

fun to_int :: "pyval \<Rightarrow> int res" where
  "to_int (VBool b) = Inr (if b then 1 else 0)"
| "to_int (VInt n) = Inr n"
| "to_int (VFloat x) = int_of_float x"
| "to_int (VStr s) = (case parse_int s of None \<Rightarrow> Inl (ValueError []) | Some n \<Rightarrow> Inr n)"
| "to_int _ = Inl TypeError"

text \<open>\<open>dict(v or {})\<close> on a mapping; \<open>dict\<close> of anything else that is true raises.\<close>

definition to_dict_or_empty :: "pyval \<Rightarrow> pydict res" where
  "to_dict_or_empty v =
     (case v of
        VDict d \<Rightarrow> Inr d
      | _ \<Rightarrow> if truthy v then Inl TypeError else Inr [])"

text \<open>\<open>list(v or [])\<close>: a list is copied, a string gives its characters, a mapping its keys.\<close>

fun to_list_or_empty :: "pyval \<Rightarrow> pyval list res" where
  "to_list_or_empty (VList xs) = Inr xs"
| "to_list_or_empty (VStr s) = Inr (map (\<lambda>c. VStr [c]) s)"
| "to_list_or_empty (VDict d) = Inr (map (\<lambda>(k, _). VStr k) d)"
| "to_list_or_empty v = (if truthy v then Inl TypeError else Inr [])"

section \<open>Printing\<close>

function digits_of_int :: "int \<Rightarrow> string" where
  "digits_of_int n =
     (if n < 10 then [digit_char (nat n)]
      else digits_of_int (n div 10) @ [digit_char (nat (n mod 10))])"
  by pat_completeness auto
termination
  by (relation "measure nat") auto

declare digits_of_int.simps [simp del]

definition string_of_int :: "int \<Rightarrow> string" where
  "string_of_int n = (if n < 0 then ''-'' @ digits_of_int (- n) else digits_of_int n)"

text \<open>The exponent \<open>k\<close> with \<open>10 ^ k \<le> x < 10 ^ (k + 1)\<close>, for a positive \<open>x\<close>.\<close>

definition flog10 :: "rat \<Rightarrow> int" where
  "flog10 x = (let (p, q) = quotient_of x;
                   k = int (length (digits_of_int p)) - int (length (digits_of_int q))
               in if pow10 k \<le> x then k else k - 1)"

text \<open>
  \<open>repr\<close> of a finite float: the shortest decimal that rounds back to it, the nearest one
  where two of that length do; 17 digits always suffice.
\<close>

fun shortest :: "nat \<Rightarrow> rat \<Rightarrow> int \<Rightarrow> nat \<Rightarrow> int \<times> int" where
  "shortest fuel x k n =
     (let e = k - int n + 1; s = x / pow10 e; c = rne s;
          c' = (if of_int c < s then c + 1 else c - 1)
      in if fuel = 0 \<or> fround (of_int c * pow10 e) = Fin x then (c, e)
         else if fround (of_int c' * pow10 e) = Fin x then (c', e)
         else (case fuel of 0 \<Rightarrow> (c, e) | Suc f \<Rightarrow> shortest f x k (Suc n)))"

declare shortest.simps [simp del]

definition strip_zeros :: "string \<Rightarrow> string" where
  "strip_zeros s = rev (dropWhile (\<lambda>c. c = CHR ''0'') (rev s))"

definition repr_pos :: "rat \<Rightarrow> string" where
  "repr_pos x =
     (let (c, e) = shortest 16 x (flog10 x) 1;
          all = digits_of_int c; ds = strip_zeros all;
          pt = int (length all) + e; n = int (length ds)
      in if pt \<le> - 4 \<or> 16 < pt then
           [hd ds] @ (if n = 1 then [] else ''.'' @ tl ds) @ ''e'' @
             (if pt - 1 < 0 then ''-'' else ''+'') @
             (let x = digits_of_int \<bar>pt - 1\<bar> in if length x < 2 then ''0'' @ x else x)
         else if pt \<le> 0 then ''0.'' @ replicate (nat (- pt)) CHR ''0'' @ ds
         else if n \<le> pt then ds @ replicate (nat (pt - n)) CHR ''0'' @ ''.0''
         else take (nat pt) ds @ ''.'' @ drop (nat pt) ds)"

fun repr_float :: "pyfloat \<Rightarrow> string" where
  "repr_float (Fin r) =
     (if r = 0 then ''0.0'' else if r < 0 then ''-'' @ repr_pos (- r) else repr_pos r)"
| "repr_float PInf = ''inf''"
| "repr_float NInf = ''-inf''"
| "repr_float NaN = ''nan''"

definition hex_digit :: "nat \<Rightarrow> char" where
  "hex_digit n = (if n < 10 then digit_char n else char_of (87 + n))"

definition repr_char :: "char \<Rightarrow> char \<Rightarrow> string" where
  "repr_char q c =
     (let n = of_char c :: nat
      in if c = q \<or> n = 92 then [char_of (92 :: nat), c]
         else if n = 10 then [char_of (92 :: nat), CHR ''n'']
         else if n = 13 then [char_of (92 :: nat), CHR ''r'']
         else if n = 9 then [char_of (92 :: nat), CHR ''t'']
         else if n < 32 \<or> n = 127 then
           [char_of (92 :: nat), CHR ''x'', hex_digit (n div 16), hex_digit (n mod 16)]
         else [c])"

definition repr_string :: "string \<Rightarrow> string" where
  "repr_string s =
     (let q = (if char_of (39 :: nat) \<in> set s \<and> char_of (34 :: nat) \<notin> set s
               then char_of (34 :: nat) else char_of (39 :: nat))
      in [q] @ concat (map (repr_char q) s) @ [q])"

fun comma_sep :: "string list \<Rightarrow> string" where
  "comma_sep [] = []"
| "comma_sep [x] = x"
| "comma_sep (x # xs) = x @ '', '' @ comma_sep xs"

fun py_repr :: "pyval \<Rightarrow> string" where
  "py_repr VNone = ''None''"
| "py_repr (VBool b) = (if b then ''True'' else ''False'')"
| "py_repr (VInt n) = string_of_int n"
| "py_repr (VFloat x) = repr_float x"
| "py_repr (VStr s) = repr_string s"
| "py_repr (VList xs) = ''['' @ comma_sep (map py_repr xs) @ '']''"
| "py_repr (VDict d) = ''{'' @ comma_sep (map (\<lambda>p. repr_string (fst p) @ '': '' @ py_repr (snd p)) d) @ ''}''"

text \<open>\<open>str(v)\<close> is \<open>repr\<close> but for a string, which is itself.\<close>

fun py_str :: "pyval \<Rightarrow> string" where
  "py_str (VStr s) = s"
| "py_str v = py_repr v"

text \<open>\<open>_optional_float\<close> and \<open>str(d.get(k) or default)\<close> are shared by the components.\<close>

definition str_or :: "pyval \<Rightarrow> string \<Rightarrow> string" where
  "str_or v s = py_str (v_or v (VStr s))"

section \<open>Facts\<close>

lemma vget_simps [simp]:
  "vget [] k = VNone"
  "vget ((k', v) # d) k = (if k = k' then v else vget d k)"
  "vget (dset k' v d) k = (if k = k' then v else vget d k)"
  by (simp_all add: vget_def dget_or_def)

lemma vget_or_simps [simp]:
  "vget_or [] k w = w"
  "vget_or ((k', v) # d) k w = (if k = k' then v else vget_or d k w)"
  "vget_or (dset k' v d) k w = (if k = k' then v else vget_or d k w)"
  by (simp_all add: vget_or_def dget_or_def)

lemma v_or_simps [simp]:
  "v_or VNone b = b"
  "v_or (VBool True) b = VBool True"
  "v_or (VBool False) b = b"
  "v_or (VStr []) b = b"
  "v_or (VStr (c # s)) b = VStr (c # s)"
  "v_or (VDict []) b = b"
  "v_or (VList []) b = b"
  by (simp_all add: v_or_def)

text \<open>Defaults of the shape \<open>x or 0\<close> do not change a number or a string.\<close>

lemma to_int_or_0 [simp]: "to_int (v_or (VInt n) (VInt 0)) = Inr n"
  by (simp add: v_or_def)

lemma to_float_or_0 [simp]: "to_float (v_or (VFloat x) (VFloat fzero)) = Inr x"
  by (simp add: v_or_def)

lemma str_or_empty [simp]: "str_or (VStr s) [] = s"
  by (cases s) (simp_all add: str_or_def)

lemma str_or_nonempty [simp]: "s \<noteq> [] \<Longrightarrow> str_or (VStr s) d = s"
  by (cases s) (simp_all add: str_or_def)

lemma to_float_pos_truthy: "to_float v = Inr x \<Longrightarrow> flt fzero x \<Longrightarrow> truthy v"
proof (cases v)
  case (VStr s)
  assume "to_float v = Inr x" "flt fzero x"
  with VStr show ?thesis
    by (cases s) (auto simp: parse_float_def strip_def parse_decimal_def lower_def split: if_splits)
qed (auto simp: float_of_int_def split: if_splits pyfloat.splits)

lemma to_int_pos_truthy: "to_int v = Inr n \<Longrightarrow> 0 < n \<Longrightarrow> truthy v"
proof (cases v)
  case (VStr s)
  assume "to_int v = Inr n" "0 < n"
  with VStr show ?thesis
    by (cases s) (auto simp: parse_int_def strip_def split: if_splits)
qed (auto simp: trunc_rat_def split: if_splits)

end
