(* ===== verification/Exit_Types.thy ===== *)
theory Exit_Types
  imports Py_Value
begin

text \<open>
  The data model of automatic exit plans
  (\<open>packages/domain/src/quantx_domain/trading/exit_plan.py\<close>, first part): the
  enumerations, the cost policy and the fee estimates, the sizing of a sell rule, rule
  and plan templates, the plan itself, its cost basis and the registration of an entry
  fill. A dataclass is a record with the source's fields; a field whose name would
  clash carries its class as a prefix. \<open>__post_init__\<close> checks are the \<open>make_\<close> functions.
\<close>

section \<open>Enumerations\<close>

definition STICKY_EXIT_PLAN_ERROR_PREFIXES :: "string list" where
  "STICKY_EXIT_PLAN_ERROR_PREFIXES =
     [''ZERO_FILL_PROOF_INVALIDATED_AFTER_RELEASE:'',
      ''LATE_FILL_AFTER_RECONCILED_ZERO_FILL:'',
      ''EXIT_FILL_INTENT_MISMATCH:'',
      ''TERMINAL_CUMULATIVE_FILL_BEHIND_EXECUTIONS:'',
      ''ACCOUNT_WIDE_STALE_SELL:'',
      ''QUARANTINE_REPAIRED:'']"

definition startswith :: "string \<Rightarrow> string \<Rightarrow> bool" where
  "startswith s p \<longleftrightarrow> take (length p) s = p"

definition is_sticky_exit_plan_error :: "string \<Rightarrow> bool" where
  "is_sticky_exit_plan_error s \<longleftrightarrow> list_ex (startswith s) STICKY_EXIT_PLAN_ERROR_PREFIXES"

datatype ExitPlanStatus =
    PENDING_ENTRY | ACTIVE | EXIT_PENDING | PARTIALLY_EXITED
  | COMPLETED | PAUSED | CANCELLED | ERROR

datatype ExitRuleType =
    TARGET_PRICE | STOP_PRICE | GROSS_TAKE_PROFIT | NET_TAKE_PROFIT
  | TRAILING_NET_PROFIT | ADAPTIVE_VOLUME_PRICE_TRAILING | RAPID_PROFIT_REVERSAL
  | TRAILING_PRICE_DRAWDOWN | HARD_STOP | TIME_OF_DAY | MAX_HOLDING_DAYS
  | LIMIT_UP_TOUCH | LIMIT_UP_BREAK | MANUAL_TRIGGER

fun ExitRuleType_value :: "ExitRuleType \<Rightarrow> string" where
  "ExitRuleType_value TARGET_PRICE = ''TARGET_PRICE''"
| "ExitRuleType_value STOP_PRICE = ''STOP_PRICE''"
| "ExitRuleType_value GROSS_TAKE_PROFIT = ''GROSS_TAKE_PROFIT''"
| "ExitRuleType_value NET_TAKE_PROFIT = ''NET_TAKE_PROFIT''"
| "ExitRuleType_value TRAILING_NET_PROFIT = ''TRAILING_NET_PROFIT''"
| "ExitRuleType_value ADAPTIVE_VOLUME_PRICE_TRAILING = ''ADAPTIVE_VOLUME_PRICE_TRAILING''"
| "ExitRuleType_value RAPID_PROFIT_REVERSAL = ''RAPID_PROFIT_REVERSAL''"
| "ExitRuleType_value TRAILING_PRICE_DRAWDOWN = ''TRAILING_PRICE_DRAWDOWN''"
| "ExitRuleType_value HARD_STOP = ''HARD_STOP''"
| "ExitRuleType_value TIME_OF_DAY = ''TIME_OF_DAY''"
| "ExitRuleType_value MAX_HOLDING_DAYS = ''MAX_HOLDING_DAYS''"
| "ExitRuleType_value LIMIT_UP_TOUCH = ''LIMIT_UP_TOUCH''"
| "ExitRuleType_value LIMIT_UP_BREAK = ''LIMIT_UP_BREAK''"
| "ExitRuleType_value MANUAL_TRIGGER = ''MANUAL_TRIGGER''"

datatype ExitSizingMode = ALL_REMAINING | PERCENT_REMAINING | FIXED_VOLUME

datatype ExitT1Policy =
    WAIT_UNTIL_SELLABLE | ALLOW_SAME_INSTRUMENT_SUBSTITUTION | REJECT_IF_UNSELLABLE

datatype ExitPriceReference = BID | LAST | ASK

fun ExitPriceReference_value :: "ExitPriceReference \<Rightarrow> string" where
  "ExitPriceReference_value BID = ''BID''"
| "ExitPriceReference_value LAST = ''LAST''"
| "ExitPriceReference_value ASK = ''ASK''"

datatype ExitPlanCommandType = UPSERT_POLICY | PAUSE | RESUME | CANCEL

datatype ExitCostBasisMode =
    BROKER_BUY_ORDERS | MANUAL_UNIT_COST | ENTRY_FILLS | POSITION_AVERAGE_SNAPSHOT

datatype ExitBuyFeeTreatment = INCLUDED | ESTIMATED

text \<open>\<open>Enum(value)\<close> on a string: the member with that value, else \<open>ValueError\<close>.\<close>

fun ExitCostBasisMode_of :: "pyval \<Rightarrow> ExitCostBasisMode res" where
  "ExitCostBasisMode_of (VStr s) =
     (if s = ''BROKER_BUY_ORDERS'' then Inr BROKER_BUY_ORDERS
      else if s = ''MANUAL_UNIT_COST'' then Inr MANUAL_UNIT_COST
      else if s = ''ENTRY_FILLS'' then Inr ENTRY_FILLS
      else if s = ''POSITION_AVERAGE_SNAPSHOT'' then Inr POSITION_AVERAGE_SNAPSHOT
      else Inl (ValueError []))"
| "ExitCostBasisMode_of _ = Inl (ValueError [])"

fun ExitBuyFeeTreatment_of :: "pyval \<Rightarrow> ExitBuyFeeTreatment res" where
  "ExitBuyFeeTreatment_of (VStr s) =
     (if s = ''INCLUDED'' then Inr INCLUDED
      else if s = ''ESTIMATED'' then Inr ESTIMATED
      else Inl (ValueError []))"
| "ExitBuyFeeTreatment_of _ = Inl (ValueError [])"

section \<open>Costs\<close>

record TradingCostPolicy =
  commission_rate :: pyfloat
  minimum_commission :: pyfloat
  stamp_tax_rate :: pyfloat
  transfer_fee_rate :: pyfloat

definition default_costs :: TradingCostPolicy where
  "default_costs =
     \<lparr>commission_rate = fround (3 / 10000), minimum_commission = Fin 5,
      stamp_tax_rate = fround (5 / 10000), transfer_fee_rate = fround (1 / 100000)\<rparr>"

text \<open>\<open>float(raw.get(key, default) or 0.0)\<close>\<close>

definition get_float :: "pydict \<Rightarrow> string \<Rightarrow> pyfloat \<Rightarrow> pyfloat res" where
  "get_float raw k d = to_float (v_or (vget_or raw k (VFloat d)) (VFloat fzero))"

text \<open>\<open>int(raw.get(key, default) or default')\<close>\<close>

definition get_int :: "pydict \<Rightarrow> string \<Rightarrow> int \<Rightarrow> int \<Rightarrow> int res" where
  "get_int raw k d d' = to_int (v_or (vget_or raw k (VInt d)) (VInt d'))"

definition TradingCostPolicy_from_dict :: "pyval \<Rightarrow> TradingCostPolicy res" where
  "TradingCostPolicy_from_dict v =
     rbind (to_dict_or_empty v) (\<lambda>raw.
     rbind (get_float raw ''commission_rate'' (fround (3 / 10000))) (\<lambda>c.
     rbind (get_float raw ''minimum_commission'' (Fin 5)) (\<lambda>m.
     rbind (get_float raw ''stamp_tax_rate'' (fround (5 / 10000))) (\<lambda>s.
     rbind (get_float raw ''transfer_fee_rate'' (fround (1 / 100000))) (\<lambda>t.
       Inr \<lparr>commission_rate = c, minimum_commission = m, stamp_tax_rate = s,
             transfer_fee_rate = t\<rparr>)))))"

definition estimate_buy_fee_cny :: "pyfloat \<Rightarrow> int \<Rightarrow> TradingCostPolicy \<Rightarrow> pyfloat" where
  "estimate_buy_fee_cny price volume policy =
     (if fle price fzero \<or> volume \<le> 0 then fzero
      else let amount = fmul price (float_of_int volume)
           in fadd (pmax (minimum_commission policy) (fmul amount (commission_rate policy)))
                (fmul amount (transfer_fee_rate policy)))"

definition estimate_net_profit_pct ::
  "pyfloat \<Rightarrow> pyfloat \<Rightarrow> int \<Rightarrow> TradingCostPolicy \<Rightarrow> bool \<Rightarrow> pyfloat" where
  "estimate_net_profit_pct entry_price exit_price volume policy entry_cost_includes_buy_fees =
     (if fle entry_price fzero \<or> fle exit_price fzero \<or> volume \<le> 0 then fzero
      else let buy_amount = fmul entry_price (float_of_int volume);
               sell_amount = fmul exit_price (float_of_int volume);
               buy_fee = (if entry_cost_includes_buy_fees then fzero
                          else estimate_buy_fee_cny entry_price volume policy);
               sell_fee0 = pmax (minimum_commission policy) (fmul sell_amount (commission_rate policy));
               sell_fee = fadd sell_fee0
                 (fmul sell_amount (fadd (stamp_tax_rate policy) (transfer_fee_rate policy)));
               entry_cost = fadd buy_amount buy_fee
           in if fle entry_cost fzero then fzero
              else fmul (fdiv (fsub (fsub sell_amount sell_fee) entry_cost) entry_cost) (Fin 100))"

section \<open>Cost basis\<close>

record ExitCostBasisOrderSnapshot =
  cbo_order_id :: string
  traded_volume :: int
  traded_price :: pyfloat
  estimated_buy_fee :: pyfloat
  order_time :: string

record ExitCostBasisSnapshot =
  basis_mode :: ExitCostBasisMode
  unit_cost_cny :: pyfloat
  basis_volume :: int
  buy_fee_treatment :: ExitBuyFeeTreatment
  selected_orders :: "ExitCostBasisOrderSnapshot list"
  cost_policy :: TradingCostPolicy
  frozen_at :: string

definition ExitCostBasisOrderSnapshot_from_dict :: "pyval \<Rightarrow> ExitCostBasisOrderSnapshot res" where
  "ExitCostBasisOrderSnapshot_from_dict v =
     rbind (to_dict_or_empty v) (\<lambda>raw.
     rbind (to_int (v_or (vget raw ''traded_volume'') (VInt 0))) (\<lambda>tv.
     rbind (to_float (v_or (vget raw ''traded_price'') (VFloat fzero))) (\<lambda>tp.
     rbind (to_float (v_or (vget raw ''estimated_buy_fee_cny'') (VFloat fzero))) (\<lambda>fee.
       Inr \<lparr>cbo_order_id = str_or (vget raw ''order_id'') [], traded_volume = tv,
             traded_price = tp, estimated_buy_fee = fee,
             order_time = str_or (vget raw ''order_time'') []\<rparr>))))"

text \<open>The dataclass check: a basis needs a positive unit cost and volume.\<close>

definition make_ExitCostBasisSnapshot ::
  "ExitCostBasisMode \<Rightarrow> pyfloat \<Rightarrow> int \<Rightarrow> ExitBuyFeeTreatment \<Rightarrow>
   ExitCostBasisOrderSnapshot list \<Rightarrow> TradingCostPolicy \<Rightarrow> string \<Rightarrow> ExitCostBasisSnapshot res" where
  "make_ExitCostBasisSnapshot m unit_cost volume fee orders costs frozen =
     (if fle unit_cost fzero \<or> volume \<le> 0
      then Inl (ValueError ''exit cost basis requires positive unit cost and volume'')
      else Inr \<lparr>basis_mode = m, unit_cost_cny = unit_cost, basis_volume = volume,
                 buy_fee_treatment = fee, selected_orders = orders, cost_policy = costs,
                 frozen_at = frozen\<rparr>)"

definition includes_buy_fees :: "ExitCostBasisSnapshot \<Rightarrow> bool" where
  "includes_buy_fees b \<longleftrightarrow> basis_mode b \<in> {BROKER_BUY_ORDERS, MANUAL_UNIT_COST}"

definition ExitCostBasisSnapshot_from_dict :: "pydict \<Rightarrow> ExitCostBasisSnapshot res" where
  "ExitCostBasisSnapshot_from_dict raw =
     rbind (case dget raw ''mode'' of None \<Rightarrow> Inl KeyError | Some v \<Rightarrow> ExitCostBasisMode_of v) (\<lambda>m.
     rbind (to_float (v_or (vget raw ''unit_cost_cny'') (VFloat fzero))) (\<lambda>cost.
     rbind (to_int (v_or (vget raw ''basis_volume'') (VInt 0))) (\<lambda>vol.
     rbind (ExitBuyFeeTreatment_of (vget_or raw ''buy_fee_treatment'' (VStr ''ESTIMATED''))) (\<lambda>fee.
     rbind (to_list_or_empty (vget raw ''selected_orders'')) (\<lambda>items.
     rbind (rmap ExitCostBasisOrderSnapshot_from_dict items) (\<lambda>orders.
     rbind (TradingCostPolicy_from_dict (vget raw ''cost_policy'')) (\<lambda>costs.
       make_ExitCostBasisSnapshot m cost vol fee orders costs
         (str_or (vget raw ''frozen_at'') []))))))))"

section \<open>The trailing profit floor\<close>

record TrailingProfitPolicy =
  target_profit_pct :: pyfloat
  base_floor_pct :: pyfloat
  initial_gap_pct :: pyfloat
  gap_slope :: pyfloat
  max_gap_pct :: pyfloat
  high_profit_arm_pct :: "pyfloat option"
  high_profit_max_drawdown_pct :: "pyfloat option"

definition calculate_trailing_floor_pct ::
  "pyfloat \<Rightarrow> pyfloat option \<Rightarrow> TrailingProfitPolicy \<Rightarrow> pyfloat option" where
  "calculate_trailing_floor_pct peak previous config =
     (if flt peak (target_profit_pct config) then previous
      else let gap0 = fadd (initial_gap_pct config)
                        (fmul (gap_slope config) (fsub peak (target_profit_pct config)));
               gap = pmax (initial_gap_pct config) (pmin (max_gap_pct config) gap0);
               candidate0 = pmax (base_floor_pct config) (fsub peak gap);
               candidate =
                 (case (high_profit_arm_pct config, high_profit_max_drawdown_pct config) of
                    (Some arm, Some drawdown) \<Rightarrow>
                      if fle arm peak then pmax candidate0 (fsub peak drawdown) else candidate0
                  | _ \<Rightarrow> candidate0)
           in (case previous of None \<Rightarrow> Some candidate | Some f \<Rightarrow> Some (pmax f candidate)))"

section \<open>Sizing of a sell rule\<close>

record ExitSizingPolicy =
  sizing_mode :: ExitSizingMode
  sizing_value :: pyval
  lot_size :: int
  allow_odd_lot_full_exit :: bool

definition default_sizing :: ExitSizingPolicy where
  "default_sizing =
     \<lparr>sizing_mode = ALL_REMAINING, sizing_value = VNone, lot_size = 100,
      allow_odd_lot_full_exit = True\<rparr>"

definition make_ExitSizingPolicy ::
  "ExitSizingMode \<Rightarrow> pyval \<Rightarrow> int \<Rightarrow> bool \<Rightarrow> ExitSizingPolicy res" where
  "make_ExitSizingPolicy m v lot odd_ok =
     (let policy = \<lparr>sizing_mode = m, sizing_value = v, lot_size = lot,
                     allow_odd_lot_full_exit = odd_ok\<rparr>
      in if lot \<le> 0 then Inl (ValueError ''exit sizing lot_size must be positive'')
         else case m of
           ALL_REMAINING \<Rightarrow> Inr policy
         | PERCENT_REMAINING \<Rightarrow>
             if v = VNone then Inl (ValueError ''percent exit sizing requires value in (0, 100]'')
             else rbind (to_float v) (\<lambda>x.
               if flt fzero x \<and> fle x (Fin 100) then Inr policy
               else Inl (ValueError ''percent exit sizing requires value in (0, 100]''))
         | FIXED_VOLUME \<Rightarrow>
             if v = VNone then Inl (ValueError ''fixed exit sizing requires a positive volume'')
             else rbind (to_int v) (\<lambda>n.
               if n \<le> 0 then Inl (ValueError ''fixed exit sizing requires a positive volume'')
               else Inr policy))"

text \<open>The volume a sizing mode asks for, before lots are considered.\<close>

definition requested_volume :: "ExitSizingPolicy \<Rightarrow> int \<Rightarrow> int res" where
  "requested_volume p remaining =
     (case sizing_mode p of
        ALL_REMAINING \<Rightarrow> Inr remaining
      | PERCENT_REMAINING \<Rightarrow>
          rbind (to_float (v_or (sizing_value p) (VFloat fzero))) (\<lambda>x.
            int_of_float (fdiv (fmul (float_of_int remaining) x) (Fin 100)))
      | FIXED_VOLUME \<Rightarrow>
          rbind (to_int (v_or (sizing_value p) (VInt 0))) (\<lambda>n. Inr (min remaining n)))"

text \<open>Clamp to the remaining volume and round down to whole lots, unless all is sold.\<close>

definition lot_volume :: "ExitSizingPolicy \<Rightarrow> int \<Rightarrow> int \<Rightarrow> int" where
  "lot_volume p remaining r =
     (let requested = min remaining (max 0 r)
      in if remaining \<le> requested \<and> allow_odd_lot_full_exit p then remaining
         else (requested div lot_size p) * lot_size p)"

definition calculate :: "ExitSizingPolicy \<Rightarrow> int \<Rightarrow> int res" where
  "calculate p rv =
     (let remaining = max 0 rv
      in if remaining \<le> 0 then Inr 0
         else rbind (requested_volume p remaining) (\<lambda>r. Inr (lot_volume p remaining r)))"

section \<open>Rules, templates and plans\<close>

record ExitRuleSpec =
  strategy :: string
  parameters :: pydict
  priority :: int
  sizing :: ExitSizingPolicy
  enabled :: bool
  once :: bool
  rule_id :: string

record ExitExecutionPolicy =
  price_reference :: ExitPriceReference
  price_type :: string
  protected_limit :: bool
  max_slippage_bps :: pyfloat
  urgency :: string
  execution_mode :: string

record ExitPlanTemplate =
  plan_id :: string
  source_type :: string
  source_id :: string
  account_id :: string
  instrument_code :: string
  template_bucket :: string
  rules :: "ExitRuleSpec list"
  strategy_id :: string
  run_id :: string
  config_version :: int
  costs :: TradingCostPolicy
  t1_policy :: ExitT1Policy
  execution :: ExitExecutionPolicy
  metadata :: pydict
  auto_exit_authorized :: bool

record ExitPlan =
  template :: ExitPlanTemplate
  status :: ExitPlanStatus
  entry_filled_volume :: int
  entry_avg_price :: pyfloat
  exited_volume :: int
  exit_avg_price :: pyfloat
  peak_price :: pyfloat
  last_price :: pyfloat
  last_net_profit_pct :: pyfloat
  peak_net_profit_pct :: pyfloat
  trailing_floor_pct :: "pyfloat option"
  entry_trade_date :: string
  last_holding_trade_date :: string
  holding_trading_days :: int
  pending_intent_id :: string
  pending_order_id :: string
  pending_rule_id :: string
  pending_requested_volume :: int
  pending_filled_volume :: int
  pending_order_terminal :: bool
  pending_terminal_cumulative_fill :: "int option"
  reconciled_zero_fill_intent_ids :: "string list"
  rule_state :: "(string, pydict) dict"
  rule_target_volumes :: "(string, int) dict"
  rule_filled_volumes :: "(string, int) dict"
  completed_rule_ids :: "string list"
  last_exit_reason :: string
  last_evaluated_at :: string
  retry_after_ms :: int
  error_message :: string

text \<open>\<open>ExitPlan(template=...)\<close>: every other field at its default.\<close>

definition new_plan :: "ExitPlanTemplate \<Rightarrow> ExitPlan" where
  "new_plan t =
     \<lparr>template = t, status = PENDING_ENTRY, entry_filled_volume = 0, entry_avg_price = fzero,
      exited_volume = 0, exit_avg_price = fzero, peak_price = fzero, last_price = fzero,
      last_net_profit_pct = fzero, peak_net_profit_pct = fzero, trailing_floor_pct = None,
      entry_trade_date = [], last_holding_trade_date = [], holding_trading_days = 0,
      pending_intent_id = [], pending_order_id = [], pending_rule_id = [],
      pending_requested_volume = 0, pending_filled_volume = 0, pending_order_terminal = False,
      pending_terminal_cumulative_fill = None, reconciled_zero_fill_intent_ids = [],
      rule_state = [], rule_target_volumes = [], rule_filled_volumes = [],
      completed_rule_ids = [], last_exit_reason = [], last_evaluated_at = [],
      retry_after_ms = 0, error_message = []\<rparr>"

definition remaining_volume :: "ExitPlan \<Rightarrow> int" where
  "remaining_volume p = max 0 (entry_filled_volume p - exited_volume p)"

text \<open>
  The cost basis a plan's profit is judged by: the frozen snapshot of its metadata, or
  the average entry price.
\<close>

definition cost_basis :: "ExitPlan \<Rightarrow> ExitCostBasisSnapshot res" where
  "cost_basis p =
     (let meta = metadata (template p);
          fallback = make_ExitCostBasisSnapshot POSITION_AVERAGE_SNAPSHOT
            (pmax (f_or (entry_avg_price p) fzero) (fround (1 / 1000000)))
            (max (entry_filled_volume p) 1) ESTIMATED [] (costs (template p))
            (str_or (vget meta ''created_at'') [])
      in case vget meta ''cost_basis'' of
           VDict raw \<Rightarrow>
             if truthy (vget raw ''mode'') then ExitCostBasisSnapshot_from_dict raw else fallback
         | _ \<Rightarrow> fallback)"

text \<open>
  The observations the code makes of a \<open>datetime\<close>: its date in ISO form, the time of day
  (in microseconds), the whole ISO text and the POSIX time stamp, a finite float.
\<close>

record datetime =
  dt_date :: string
  dt_time :: int
  dt_iso :: string
  dt_timestamp :: rat

text \<open>\<open>ExitPlan.register_entry_fill\<close>; the book below calls it on the plan it owns.\<close>

definition plan_register_entry_fill ::
  "ExitPlan \<Rightarrow> int \<Rightarrow> pyfloat \<Rightarrow> datetime option \<Rightarrow> ExitPlan" where
  "plan_register_entry_fill p volume price trade_time =
     (let fill_volume = max 0 volume
      in if fill_volume \<le> 0 \<or> fle price fzero then p
         else let previous = entry_filled_volume p;
                  total = previous + fill_volume;
                  p1 = p\<lparr>entry_avg_price :=
                           fdiv (fadd (fmul (entry_avg_price p) (float_of_int previous))
                                  (fmul price (float_of_int fill_volume)))
                             (float_of_int total),
                         entry_filled_volume := total\<rparr>;
                  p2 = (if status p1 = PENDING_ENTRY then p1\<lparr>status := ACTIVE\<rparr>
                        else if status p1 = COMPLETED then
                          p1\<lparr>status := (if exited_volume p1 \<noteq> 0 then PARTIALLY_EXITED else ACTIVE)\<rparr>
                        else p1)
              in case trade_time of
                   None \<Rightarrow> p2
                 | Some t \<Rightarrow>
                     if entry_trade_date p2 = [] then
                       p2\<lparr>entry_trade_date := dt_date t, last_holding_trade_date := dt_date t,
                          holding_trading_days := 1\<rparr>
                     else p2)"

definition apply_template :: "ExitPlan \<Rightarrow> ExitPlanTemplate \<Rightarrow> ExitPlan res" where
  "apply_template p t =
     (if plan_id t \<noteq> plan_id (template p)
      then Inl (ValueError ''cannot replace an exit plan with a different plan_id'')
      else Inr (p\<lparr>template := t\<rparr>))"

section \<open>Facts\<close>

lemma lot_volume_bounds:
  assumes "0 < lot_size p" "0 \<le> r"
  shows "0 \<le> lot_volume p r q" "lot_volume p r q \<le> r"
    "lot_volume p r q = r \<or> lot_size p dvd lot_volume p r q"
proof -
  have "0 \<le> (min r (max 0 q) div lot_size p) * lot_size p"
    "(min r (max 0 q) div lot_size p) * lot_size p \<le> min r (max 0 q)"
    using assms floor_lot_nonneg [of "lot_size p" "min r (max 0 q)"]
      floor_lot_le [of "lot_size p" "min r (max 0 q)"] by simp_all
  then show "0 \<le> lot_volume p r q" "lot_volume p r q \<le> r"
    "lot_volume p r q = r \<or> lot_size p dvd lot_volume p r q"
    using assms by (auto simp: lot_volume_def Let_def)
qed

lemma calculate_bounds:
  assumes "0 < lot_size p" "calculate p r = Inr v"
  shows "0 \<le> v \<and> v \<le> max 0 r \<and> (v = max 0 r \<or> lot_size p dvd v)"
proof (cases "max 0 r \<le> 0")
  case True
  with assms(2) show ?thesis by (simp add: calculate_def)
next
  case False
  with assms(2) obtain q where "v = lot_volume p (max 0 r) q"
    by (auto simp: calculate_def Let_def res_simps)
  then show ?thesis using lot_volume_bounds [OF assms(1), of "max 0 r" q] by simp
qed

lemma percent_size_total:
  assumes r: "0 \<le> r" "r \<le> 2 ^ 53" and x: "flt fzero x" "fle x (Fin 100)"
  shows "\<exists>n. int_of_float (fdiv (fmul (float_of_int r) x) (Fin 100)) = Inr n"
proof -
  from x obtain q where q: "x = Fin q" "0 < q" "q \<le> 100" by (cases x) auto
  have fr: "float_of_int r = Fin (of_int r)" using r by (simp add: float_of_int_def fround_of_int)
  have "(of_int r :: rat) \<le> of_int (2 ^ 53)" using r by (simp only: of_int_le_iff)
  then have "of_int r \<le> pow2 53" by (simp add: pow2_nat)
  moreover have "q \<le> pow2 7" using q by (simp add: pow2_nat)
  ultimately have "of_int r * q \<le> pow2 53 * pow2 7" using q by (intro mult_mono) auto
  then have "\<bar>of_int r * q\<bar> \<le> pow2 53 * pow2 7" using r q by (simp add: abs_mult)
  also have "\<dots> = pow2 60" by (simp flip: pow2_add)
  finally obtain s where s: "fround (of_int r * q) = Fin s" "\<bar>s\<bar> \<le> pow2 60"
    using fround_bounded [of "of_int r * q" 60] by auto
  have "\<bar>s / 100\<bar> \<le> pow2 60" using s(2) by (simp add: abs_divide)
  then obtain t where "fround (s / 100) = Fin t" using fround_bounded [of "s / 100" 60] by auto
  with q s fr show ?thesis by simp
qed

lemma calculate_total:
  assumes p: "make_ExitSizingPolicy m v lot odd_ok = Inr p" and r: "r \<le> 2 ^ 53"
  shows "0 < lot_size p \<and> (\<exists>n. calculate p r = Inr n)"
proof (cases m)
  case ALL_REMAINING
  with p show ?thesis by (auto simp: make_ExitSizingPolicy_def calculate_def requested_volume_def Let_def split: if_splits)
next
  case PERCENT_REMAINING
  with p obtain x where x: "to_float v = Inr x" "flt fzero x" "fle x (Fin 100)"
    and p': "p = \<lparr>sizing_mode = m, sizing_value = v, lot_size = lot, allow_odd_lot_full_exit = odd_ok\<rparr>" "0 < lot"
    by (auto simp: make_ExitSizingPolicy_def Let_def res_simps split: if_splits)
  have "v_or v (VFloat fzero) = v" using to_float_pos_truthy [OF x(1,2)] by (simp add: v_or_def)
  with x p' PERCENT_REMAINING percent_size_total [of "max 0 r" x] r show ?thesis
    by (auto simp: calculate_def requested_volume_def Let_def)
next
  case FIXED_VOLUME
  with p obtain n where n: "to_int v = Inr n" "0 < n"
    and p': "p = \<lparr>sizing_mode = m, sizing_value = v, lot_size = lot, allow_odd_lot_full_exit = odd_ok\<rparr>" "0 < lot"
    by (auto simp: make_ExitSizingPolicy_def Let_def res_simps split: if_splits)
  have "v_or v (VInt 0) = v" using to_int_pos_truthy [OF n] by (simp add: v_or_def)
  with n p' FIXED_VOLUME show ?thesis by (auto simp: calculate_def requested_volume_def Let_def)
qed

lemma trailing_floor_never_falls:
  assumes "calculate_trailing_floor_pct peak (Some f) config = Some g" "f \<noteq> NaN"
  shows "fle f g"
  using assms by (auto simp: calculate_trailing_floor_pct_def Let_def fle_refl pmax_ge_left
      split: if_splits)

lemma startswith_append [simp]: "startswith (p @ s) p"
  by (simp add: startswith_def)

lemma sticky_prefix: "q \<in> set STICKY_EXIT_PLAN_ERROR_PREFIXES \<Longrightarrow> is_sticky_exit_plan_error (q @ s)"
  unfolding is_sticky_exit_plan_error_def list_ex_iff using startswith_append by blast

end
