(* ===== verification/Exit_Rules.thy ===== *)
theory Exit_Rules
  imports Exit_Types
begin

text \<open>
  The sell rules of \<open>exit_plan.py\<close>: what a rule sees of the market, the result of
  evaluating it, and the fourteen built-in evaluators. An evaluator may update the
  plan's \<open>rule_state\<close> and \<open>trailing_floor_pct\<close>, so it returns the plan with the match; an
  exception raised by a conversion of a parameter is the value \<open>Inl\<close>.
\<close>

section \<open>Observations and matches\<close>

record ExitEvaluationContext =
  timestamp :: datetime
  current_price :: pyfloat
  bid_price :: pyfloat
  ask_price :: pyfloat
  limit_up :: pyfloat
  limit_down :: pyfloat
  price_tick :: pyfloat
  cumulative_volume :: "pyfloat option"
  cumulative_amount :: "pyfloat option"
  depth_imbalance_5 :: "pyfloat option"
  market_data_age_seconds :: pyfloat
  volume_data_age_seconds :: pyfloat
  context_source :: string

definition trade_date :: "ExitEvaluationContext \<Rightarrow> string" where
  "trade_date c = dt_date (timestamp c)"

text \<open>\<open>int(timestamp.timestamp() * 1000)\<close>; the stamp of a \<open>datetime\<close> is far from overflow.\<close>

definition timestamp_ms :: "ExitEvaluationContext \<Rightarrow> int" where
  "timestamp_ms c = trunc_rat (frnd (dt_timestamp (timestamp c) * 1000))"

record ExitRuleMatch =
  triggered :: bool
  match_reason :: string
  match_metrics :: pydict

type_synonym evaluation = "(ExitPlan \<times> ExitRuleMatch) res"

type_synonym evaluator = "ExitRuleSpec \<Rightarrow> ExitPlan \<Rightarrow> ExitEvaluationContext \<Rightarrow> evaluation"

definition matched :: "ExitPlan \<Rightarrow> bool \<Rightarrow> string \<Rightarrow> pydict \<Rightarrow> evaluation" where
  "matched p b r m = Inr (p, \<lparr>triggered = b, match_reason = r, match_metrics = m\<rparr>)"

section \<open>Shared helpers\<close>

definition threshold :: "ExitRuleSpec \<Rightarrow> string \<Rightarrow> pyfloat \<Rightarrow> pyfloat res" where
  "threshold rule key dflt = to_float (v_or (vget_or (parameters rule) key (VFloat dflt)) (VFloat fzero))"

definition reason :: "ExitRuleSpec \<Rightarrow> string \<Rightarrow> string" where
  "reason rule dflt = py_str (v_or (vget_or (parameters rule) ''reason'' (VStr dflt)) (VStr dflt))"

text \<open>\<open>int(rule.parameters.get(key, default) or default)\<close>\<close>

definition int_param :: "ExitRuleSpec \<Rightarrow> string \<Rightarrow> int \<Rightarrow> int res" where
  "int_param rule key dflt = get_int (parameters rule) key dflt dflt"

text \<open>\<open>_optional_float\<close> catches \<open>TypeError\<close> and \<open>ValueError\<close>, not \<open>OverflowError\<close>.\<close>

definition optional_float :: "pyval \<Rightarrow> pyfloat option res" where
  "optional_float v =
     (if v = VNone then Inr None
      else case to_float v of
             Inr x \<Rightarrow> Inr (Some x)
           | Inl OverflowError \<Rightarrow> Inl OverflowError
           | Inl _ \<Rightarrow> Inr None)"

fun optional_non_negative_int :: "pyval \<Rightarrow> int option" where
  "optional_non_negative_int VNone = None"
| "optional_non_negative_int (VBool _) = None"
| "optional_non_negative_int v =
     (if (case v of VFloat x \<Rightarrow> \<not> f_is_integer x | _ \<Rightarrow> False) then None
      else case to_int v of Inl _ \<Rightarrow> None | Inr n \<Rightarrow> if 0 \<le> n then Some n else None)"

text \<open>\<open>plan.rule_state.setdefault(rule_id, {})\<close>, and storing the dictionary it returned.\<close>

definition rstate :: "ExitPlan \<Rightarrow> ExitRuleSpec \<Rightarrow> pydict" where
  "rstate p rule = dget_or (rule_state p) (rule_id rule) []"

definition with_rstate :: "ExitPlan \<Rightarrow> ExitRuleSpec \<Rightarrow> pydict \<Rightarrow> ExitPlan" where
  "with_rstate p rule st = p\<lparr>rule_state := dset (rule_id rule) st (rule_state p)\<rparr>"

text \<open>\<open>max(observed_floors) if observed_floors else None\<close> over the states of all rules.\<close>

definition observed_floor :: "(string, pydict) dict \<Rightarrow> pyfloat option res" where
  "observed_floor states =
     rbind (rmap (\<lambda>st. optional_float (vget st ''trailing_floor_pct'')) (dvalues states)) (\<lambda>fs.
       Inr (case List.map_filter (\<lambda>x. x) fs of [] \<Rightarrow> None | x # xs \<Rightarrow> Some (pmax_list x xs)))"

definition gross_pct :: "pyfloat \<Rightarrow> pyfloat \<Rightarrow> pyfloat" where
  "gross_pct price avg =
     (if flt fzero avg then fmul (fsub (fdiv price avg) (Fin 1)) (Fin 100) else fzero)"

section \<open>Price and profit rules\<close>

definition target_price :: evaluator where
  "target_price rule p ctx =
     rbind (threshold rule ''target_price'' fzero) (\<lambda>target.
       matched p (fle target (current_price ctx) \<and> flt fzero target)
         (reason rule ''TARGET_PRICE_REACHED'') [(''target_price'', VFloat target)])"

definition stop_price :: evaluator where
  "stop_price rule p ctx =
     rbind (threshold rule ''stop_price'' fzero) (\<lambda>stop.
       matched p (flt fzero stop \<and> fle (current_price ctx) stop)
         (reason rule ''STOP_PRICE_REACHED'') [(''stop_price'', VFloat stop)])"

definition gross_take_profit :: evaluator where
  "gross_take_profit rule p ctx =
     rbind (threshold rule ''target_profit_pct'' fzero) (\<lambda>target.
       let gross = gross_pct (current_price ctx) (entry_avg_price p)
       in matched p (fle target gross) (reason rule ''GROSS_TAKE_PROFIT_REACHED'')
            [(''gross_profit_pct'', VFloat gross), (''target_profit_pct'', VFloat target)])"

definition net_take_profit :: evaluator where
  "net_take_profit rule p ctx =
     rbind (threshold rule ''target_profit_pct'' fzero) (\<lambda>target.
       matched p (fle target (last_net_profit_pct p)) (reason rule ''NET_TAKE_PROFIT_REACHED'')
         [(''target_profit_pct'', VFloat target)])"

text \<open>The trailing policy a rule's parameters describe.\<close>

definition trailing_policy :: "ExitRuleSpec \<Rightarrow> bool \<Rightarrow> TrailingProfitPolicy res" where
  "trailing_policy rule lock =
     rbind (threshold rule ''target_profit_pct'' (Fin 2)) (\<lambda>target.
     rbind (threshold rule ''base_floor_pct'' (Fin (1 / 2))) (\<lambda>base.
     rbind (threshold rule ''initial_gap_pct'' (Fin (3 / 2))) (\<lambda>gap.
     rbind (threshold rule ''gap_slope'' (Fin (1 / 4))) (\<lambda>slope.
     rbind (threshold rule ''max_gap_pct'' (Fin 3)) (\<lambda>max_gap.
     rbind (if lock then rbind (threshold rule ''high_profit_arm_pct'' (Fin 4)) (Inr \<circ> Some)
            else Inr None) (\<lambda>arm.
     rbind (if lock then rbind (threshold rule ''high_profit_max_drawdown_pct'' (fround (12 / 10)))
                          (Inr \<circ> Some)
            else Inr None) (\<lambda>drawdown.
       Inr \<lparr>target_profit_pct = target, base_floor_pct = base, initial_gap_pct = gap,
             gap_slope = slope, max_gap_pct = max_gap, high_profit_arm_pct = arm,
             high_profit_max_drawdown_pct = drawdown\<rparr>)))))))"

definition trailing_net_profit :: evaluator where
  "trailing_net_profit rule p ctx =
     (let lock = truthy (vget_or (parameters rule) ''high_profit_lock_enabled'' (VBool False))
      in rbind (trailing_policy rule lock) (\<lambda>policy.
         let state = rstate p rule
         in rbind (optional_float (vget state ''trailing_floor_pct'')) (\<lambda>previous.
            let floor = calculate_trailing_floor_pct (peak_net_profit_pct p) previous policy;
                p1 = with_rstate p rule (dset ''trailing_floor_pct'' (v_opt_float floor) state)
            in rbind (observed_floor (rule_state p1)) (\<lambda>observed.
               let p2 = p1\<lparr>trailing_floor_pct := observed\<rparr>
               in matched p2
                    (case floor of None \<Rightarrow> False | Some f \<Rightarrow> fle (last_net_profit_pct p2) f)
                    (reason rule ''TRAILING_FLOOR_REACHED'')
                    [(''target_profit_pct'', VFloat (target_profit_pct policy)),
                     (''trailing_floor_pct'', v_opt_float floor),
                     (''high_profit_lock_enabled'', VBool lock),
                     (''high_profit_arm_pct'', v_opt_float (high_profit_arm_pct policy)),
                     (''high_profit_max_drawdown_pct'',
                        v_opt_float (high_profit_max_drawdown_pct policy))]))))"

section \<open>The adaptive volume-price trailing rule\<close>

text \<open>Readings of the rolling window of samples.\<close>

definition sample_ms :: "pydict \<Rightarrow> int res" where
  "sample_ms s = get_int s ''timestamp_ms'' 0 0"

fun sample_at_or_before :: "pydict list \<Rightarrow> int \<Rightarrow> pydict option \<Rightarrow> pydict option res" where
  "sample_at_or_before [] target_ms selected = Inr selected"
| "sample_at_or_before (s # ss) target_ms selected =
     rbind (sample_ms s) (\<lambda>t.
       if t \<le> target_ms then sample_at_or_before ss target_ms (Some s) else Inr selected)"

text \<open>A sample that is an empty dictionary is false and counts as missing.\<close>

definition sample_price :: "pydict option \<Rightarrow> pyfloat option res" where
  "sample_price s =
     (case s of
        None \<Rightarrow> Inr None
      | Some d \<Rightarrow> if d = [] then Inr None else optional_float (vget d ''price''))"

definition window_return_pct :: "pydict list \<Rightarrow> int \<Rightarrow> int \<Rightarrow> pyfloat option res" where
  "window_return_pct samples ts seconds =
     (if samples = [] then Inr None
      else rbind (sample_at_or_before samples (ts - max 1 seconds * 1000) None) (\<lambda>baseline.
           rbind (optional_float (vget (last samples) ''price'')) (\<lambda>latest_price.
           rbind (sample_price baseline) (\<lambda>baseline_price.
           case (baseline, latest_price, baseline_price) of
             (Some b, Some l, Some bp) \<Rightarrow>
               if fle bp fzero then Inr None
               else rbind (sample_ms b) (\<lambda>bt.
                 if ts - bt < seconds * 800 then Inr None
                 else Inr (Some (fmul (fsub (fdiv l bp) (Fin 1)) (Fin 100))))
           | _ \<Rightarrow> Inr None))))"

definition volume_velocity :: "pydict list \<Rightarrow> int \<Rightarrow> pyfloat option res" where
  "volume_velocity samples ts =
     (if samples = [] then Inr None
      else rbind (sample_at_or_before samples (ts - 60000) None) (\<lambda>recent_start.
           rbind (sample_at_or_before samples (ts - 360000) None) (\<lambda>baseline_start.
           case (recent_start, baseline_start) of
             (Some r, Some b) \<Rightarrow>
               rbind (optional_float (vget (last samples) ''volume'')) (\<lambda>cv.
               rbind (optional_float (vget r ''volume'')) (\<lambda>rv.
               rbind (optional_float (vget b ''volume'')) (\<lambda>bv.
               case (cv, rv, bv) of
                 (Some current, Some recent, Some base) \<Rightarrow>
                   rbind (sample_ms r) (\<lambda>rt.
                   rbind (sample_ms b) (\<lambda>bt.
                     let secs = fdiv (float_of_int (rt - bt)) (Fin 1000)
                     in if flt secs (Fin 240) then Inr None
                        else let recent_delta = pmax fzero (fsub current recent);
                                 base_delta = pmax fzero (fsub recent base);
                                 per_60 = fmul (fdiv base_delta secs) (Fin 60)
                             in if fle per_60 fzero then Inr None
                                else Inr (Some (fdiv recent_delta per_60))))
               | _ \<Rightarrow> Inr None)))
           | _ \<Rightarrow> Inr None)))"

definition executable_price :: "ExitEvaluationContext \<Rightarrow> pyfloat" where
  "executable_price ctx = f_or (f_or (bid_price ctx) (current_price ctx)) fzero"

text \<open>Roll the sample window forward (first part of \<open>_adaptive_volume_price_trailing\<close>).\<close>

definition adaptive_reset_day :: "pydict \<Rightarrow> string \<Rightarrow> pydict" where
  "adaptive_reset_day state day =
     (if vget state ''sample_trade_date'' \<noteq> VStr day
      then dset ''consecutive_weak'' (VInt 0)
             (dset ''sample_trade_date'' (VStr day) (dset ''samples'' (VList []) state))
      else state)"

definition mappings_of :: "pyval list \<Rightarrow> pydict list" where
  "mappings_of xs = List.map_filter (\<lambda>v. case v of VDict d \<Rightarrow> Some d | _ \<Rightarrow> None) xs"

text \<open>The last sample, if there is one and it is not an empty dictionary.\<close>

definition last_sample :: "pydict list \<Rightarrow> pydict option" where
  "last_sample samples =
     (if samples = [] then None else if last samples = [] then None else Some (last samples))"

definition adaptive_is_new :: "pydict list \<Rightarrow> int \<Rightarrow> bool res" where
  "adaptive_is_new samples ts =
     (case last_sample samples of
        None \<Rightarrow> Inr True
      | Some s \<Rightarrow> rbind (to_int (vget_or s ''timestamp_ms'' (VInt 0))) (\<lambda>t. Inr (t < ts)))"

text \<open>A cumulative counter that fell since the last sample starts a new window.\<close>

definition adaptive_counter_reset ::
  "pydict list \<Rightarrow> bool \<Rightarrow> pyfloat option \<Rightarrow> pydict list res" where
  "adaptive_counter_reset samples is_new volume =
     (case (last_sample samples, volume) of
        (Some s, Some v) \<Rightarrow>
          if is_new then
            rbind (optional_float (vget s ''volume'')) (\<lambda>prev.
              case prev of
                None \<Rightarrow> Inr samples
              | Some pv \<Rightarrow> if flt v pv then Inr [] else Inr samples)
          else Inr samples
      | _ \<Rightarrow> Inr samples)"

definition new_sample :: "int \<Rightarrow> pyfloat \<Rightarrow> pyfloat option \<Rightarrow> pydict" where
  "new_sample ts price volume =
     [(''timestamp_ms'', VInt ts), (''price'', VFloat price), (''volume'', v_opt_float volume)]"

fun keep_recent :: "pydict list \<Rightarrow> int \<Rightarrow> pydict list res" where
  "keep_recent [] cutoff = Inr []"
| "keep_recent (s # ss) cutoff =
     rbind (to_int (vget_or s ''timestamp_ms'' (VInt 0))) (\<lambda>t.
     rbind (keep_recent ss cutoff) (\<lambda>rest. Inr (if cutoff \<le> t then s # rest else rest)))"

definition adaptive_samples ::
  "pydict \<Rightarrow> ExitEvaluationContext \<Rightarrow> (pydict \<times> pydict list \<times> bool) res" where
  "adaptive_samples state0 ctx =
     (let ts = timestamp_ms ctx;
          volume = cumulative_volume ctx;
          state = adaptive_reset_day state0 (trade_date ctx)
      in rbind (to_list_or_empty (vget state ''samples'')) (\<lambda>items.
         let samples0 = mappings_of items
         in rbind (adaptive_is_new samples0 ts) (\<lambda>is_new.
            rbind (adaptive_counter_reset samples0 is_new volume) (\<lambda>samples1.
            if is_new then
              rbind (keep_recent (samples1 @ [new_sample ts (executable_price ctx) volume])
                       (ts - 420000)) (\<lambda>samples.
                Inr (dset ''last_observation_timestamp_ms'' (VInt ts)
                       (dset ''samples'' (VList (map VDict samples)) state),
                     samples, True))
            else Inr (state, samples1, False)))))"

text \<open>Track the highest executable price and how far the price fell from it.\<close>

record adaptive_view =
  av_peak_age_seconds :: pyfloat
  av_peak_drawdown_pct :: pyfloat
  av_return_15s :: "pyfloat option"
  av_return_60s :: "pyfloat option"
  av_velocity :: "pyfloat option"
  av_gross :: pyfloat

definition adaptive_peak ::
  "pydict \<Rightarrow> ExitEvaluationContext \<Rightarrow> (pydict \<times> pyfloat \<times> int) res" where
  "adaptive_peak state ctx =
     (let ts = timestamp_ms ctx; price = executable_price ctx
      in rbind (get_float state ''observed_peak_price'' fzero) (\<lambda>previous_peak0.
         let is_higher = flt (fadd previous_peak0 (fround (1 / 10 ^ 9))) price;
             state1 = (if is_higher
                       then dset ''peak_timestamp_ms'' (VInt ts)
                              (dset ''observed_peak_price'' (VFloat price) state)
                       else state);
             previous_peak = (if is_higher then price else previous_peak0)
         in rbind (to_int (v_or (vget_or state1 ''peak_timestamp_ms'' (VInt ts)) (VInt ts))) (\<lambda>peak_ts.
            Inr (state1, pmax previous_peak price, peak_ts))))"

definition adaptive_measure ::
  "pydict \<Rightarrow> pydict list \<Rightarrow> ExitPlan \<Rightarrow> ExitEvaluationContext \<Rightarrow> (pydict \<times> adaptive_view) res" where
  "adaptive_measure state0 samples p ctx =
     (let ts = timestamp_ms ctx; price = executable_price ctx
      in rbind (adaptive_peak state0 ctx) (\<lambda>(state, observed_peak, peak_ts).
         rbind (window_return_pct samples ts 15) (\<lambda>r15.
         rbind (window_return_pct samples ts 60) (\<lambda>r60.
         rbind (volume_velocity samples ts) (\<lambda>velocity.
           Inr (state,
             \<lparr>av_peak_age_seconds = pmax fzero (fdiv (float_of_int (ts - peak_ts)) (Fin 1000)),
              av_peak_drawdown_pct =
                (if flt fzero observed_peak \<and> flt fzero price
                 then fmul (fdiv (fsub observed_peak price) observed_peak) (Fin 100) else fzero),
              av_return_15s = r15, av_return_60s = r60, av_velocity = velocity,
              av_gross =
                (if flt fzero price \<and> flt fzero (entry_avg_price p)
                 then fmul (fsub (fdiv price (entry_avg_price p)) (Fin 1)) (Fin 100)
                 else fzero)\<rparr>))))))"

text \<open>The rule arms once its profit or price target is reached, and stays armed.\<close>

definition adaptive_targets ::
  "ExitRuleSpec \<Rightarrow> (pyfloat option \<times> pyfloat option) res" where
  "adaptive_targets rule =
     rbind (optional_float (vget (parameters rule) ''arm_target_profit_pct'')) (\<lambda>profit.
     rbind (optional_float (vget (parameters rule) ''arm_target_price'')) (\<lambda>price.
       Inr (if profit = None \<and> price = None then Some (Fin 2) else profit, price)))"

definition adaptive_arm ::
  "pydict \<Rightarrow> ExitEvaluationContext \<Rightarrow> pyfloat \<Rightarrow> pyfloat option \<times> pyfloat option \<Rightarrow> pydict \<times> bool" where
  "adaptive_arm state ctx gross targets =
     (if truthy (vget_or state ''armed'' (VBool False)) then (state, True)
      else let price = executable_price ctx;
               armed = ((case fst targets of None \<Rightarrow> False | Some t \<Rightarrow> fle t gross) \<or>
                        (case snd targets of None \<Rightarrow> False
                         | Some t \<Rightarrow> fle t price \<and> flt fzero t))
           in if armed
              then (dset ''armed_price'' (VFloat price)
                      (dset ''armed_at_ms'' (VInt (timestamp_ms ctx))
                        (dset ''armed'' (VBool True) state)), True)
              else (state, False))"

definition adaptive_price_available :: "ExitEvaluationContext \<Rightarrow> bool" where
  "adaptive_price_available ctx \<longleftrightarrow>
     flt fzero (executable_price ctx) \<and>
     \<not> flt (Fin 5) (f_or (market_data_age_seconds ctx) fzero)"

definition adaptive_data_quality :: "ExitEvaluationContext \<Rightarrow> pyfloat option \<Rightarrow> string" where
  "adaptive_data_quality ctx velocity =
     (let volume_available = (cumulative_volume ctx \<noteq> None \<and>
            \<not> flt (Fin 5) (f_or (volume_data_age_seconds ctx) fzero))
      in if \<not> adaptive_price_available ctx then ''PRICE_UNAVAILABLE''
         else if volume_available \<and> velocity \<noteq> None then ''FULL''
         else ''PRICE_ONLY_DEGRADED'')"

definition adaptive_record_view :: "pydict \<Rightarrow> string \<Rightarrow> adaptive_view \<Rightarrow> pydict" where
  "adaptive_record_view state quality v =
     dset ''peak_age_seconds'' (VFloat (av_peak_age_seconds v))
       (dset ''volume_velocity'' (v_opt_float (av_velocity v))
         (dset ''return_60s_pct'' (v_opt_float (av_return_60s v))
           (dset ''return_15s_pct'' (v_opt_float (av_return_15s v))
             (dset ''peak_drawdown_pct'' (VFloat (av_peak_drawdown_pct v))
               (dset ''data_quality'' (VStr quality) state)))))"

text \<open>
  The weakness score of the current observation. A condition \<open>x is not None and x <= t\<close>
  reads its threshold only when the earlier conjuncts hold.
\<close>

fun all_of :: "bool res list \<Rightarrow> bool res" where
  "all_of [] = Inr True"
| "all_of (c # cs) = rbind c (\<lambda>b. if b then all_of cs else Inr False)"

definition opt_le :: "pyfloat option \<Rightarrow> pyfloat res \<Rightarrow> bool res" where
  "opt_le x t = (case x of None \<Rightarrow> Inr False | Some y \<Rightarrow> rbind t (\<lambda>l. Inr (fle y l)))"

definition opt_ge :: "pyfloat option \<Rightarrow> pyfloat res \<Rightarrow> bool res" where
  "opt_ge x t = (case x of None \<Rightarrow> Inr False | Some y \<Rightarrow> rbind t (\<lambda>l. Inr (fle l y)))"

definition neg_res :: "pyfloat res \<Rightarrow> pyfloat res" where
  "neg_res t = rbind t (\<lambda>x. Inr (fneg x))"

definition adaptive_score_terms ::
  "ExitRuleSpec \<Rightarrow> ExitEvaluationContext \<Rightarrow> string \<Rightarrow> adaptive_view \<Rightarrow> (bool res list \<times> int) list" where
  "adaptive_score_terms rule ctx quality v =
     (let full = Inr (quality = ''FULL''); thr = threshold rule;
          drawdown = Some (av_peak_drawdown_pct v); age = Some (av_peak_age_seconds v);
          r15 = av_return_15s v; r60 = av_return_60s v; vel = av_velocity v
      in [([opt_ge drawdown (thr ''weak_drawdown_pct'' (fround (6 / 10)))], 2),
          ([opt_le r15 (neg_res (thr ''weak_return_15s_pct'' (Fin (1 / 4))))], 1),
          ([full, opt_ge vel (thr ''stagnation_volume_velocity'' (Fin (3 / 2))),
            opt_le r60 (thr ''stagnation_return_60s_pct'' (fround (1 / 10)))], 1),
          ([full, opt_le (depth_imbalance_5 ctx)
            (thr ''weak_depth_imbalance'' (fround (- (2 / 10))))], 1),
          ([opt_le age (thr ''new_high_bonus_seconds'' (Fin 10))], - 1),
          ([full, opt_ge r15 (thr ''strong_return_15s_pct'' (Fin (1 / 4))),
            opt_ge vel (thr ''strong_volume_velocity'' (fround (12 / 10)))], - 1)])"

definition adaptive_weak_score ::
  "ExitRuleSpec \<Rightarrow> ExitEvaluationContext \<Rightarrow> string \<Rightarrow> adaptive_view \<Rightarrow> int res" where
  "adaptive_weak_score rule ctx quality v =
     rbind (rmap (\<lambda>(cs, n). rbind (all_of cs) (\<lambda>b. Inr (if b then n else 0)))
              (adaptive_score_terms rule ctx quality v))
       (\<lambda>ns. Inr (sum_list ns))"

definition adaptive_immediate ::
  "ExitRuleSpec \<Rightarrow> adaptive_view \<Rightarrow> bool \<Rightarrow> bool res" where
  "adaptive_immediate rule v floor_breached =
     rbind (all_of
       [opt_le (av_return_15s v) (neg_res (threshold rule ''immediate_return_15s_pct'' (fround (8 / 10)))),
        opt_ge (av_velocity v) (threshold rule ''immediate_volume_velocity'' (Fin 2))])
       (\<lambda>rapid_price_reversal.
     rbind (threshold rule ''immediate_drawdown_pct'' (fround (12 / 10))) (\<lambda>d.
       Inr (fle d (av_peak_drawdown_pct v) \<or> rapid_price_reversal \<or> floor_breached)))"

text \<open>\<open>_adaptive_metrics\<close>; the state holds what \<open>adaptive_record_view\<close> stored there.\<close>

definition adaptive_metrics :: "pydict \<Rightarrow> pyfloat \<Rightarrow> pydict res" where
  "adaptive_metrics state gross =
     rbind (to_float (v_or (vget_or state ''peak_drawdown_pct'' (VFloat fzero)) (VFloat fzero))) (\<lambda>dd.
     rbind (optional_float (vget state ''return_15s_pct'')) (\<lambda>r15.
     rbind (optional_float (vget state ''return_60s_pct'')) (\<lambda>r60.
     rbind (optional_float (vget state ''volume_velocity'')) (\<lambda>vel.
     rbind (optional_float (vget state ''depth_imbalance_5'')) (\<lambda>depth.
     rbind (get_int state ''weak_score'' 0 0) (\<lambda>score.
     rbind (get_int state ''consecutive_weak'' 0 0) (\<lambda>weak.
     rbind (optional_float (vget state ''trailing_floor_pct'')) (\<lambda>floor.
       Inr [(''phase'', VStr (str_or (vget_or state ''phase'' (VStr ''WAITING_ARM'')) ''WAITING_ARM'')),
            (''data_quality'', VStr (str_or (vget_or state ''data_quality'' (VStr ''PRICE_UNAVAILABLE'')) [])),
            (''last_decision'', VStr (str_or (vget_or state ''last_decision'' (VStr [])) [])),
            (''gross_profit_pct'', VFloat gross),
            (''peak_drawdown_pct'', VFloat dd),
            (''return_15s_pct'', v_opt_float r15),
            (''return_60s_pct'', v_opt_float r60),
            (''volume_velocity'', v_opt_float vel),
            (''depth_imbalance_5'', v_opt_float depth),
            (''weak_score'', VInt score),
            (''consecutive_weak'', VInt weak),
            (''trailing_floor_pct'', v_opt_float floor)]))))))))"

definition adaptive_result ::
  "ExitPlan \<Rightarrow> ExitRuleSpec \<Rightarrow> pydict \<Rightarrow> pyfloat \<Rightarrow> bool \<Rightarrow> string \<Rightarrow> evaluation" where
  "adaptive_result p rule state gross b why =
     rbind (adaptive_metrics state gross) (\<lambda>m. matched (with_rstate p rule state) b why m)"

text \<open>An unarmed rule waits; an armed rule with no usable price pauses.\<close>

definition adaptive_idle ::
  "ExitPlan \<Rightarrow> ExitRuleSpec \<Rightarrow> pydict \<Rightarrow> pyfloat \<Rightarrow> bool \<Rightarrow> evaluation" where
  "adaptive_idle p rule state gross armed =
     (if \<not> armed then
        adaptive_result p rule
          (dset ''weak_score'' (VInt 0) (dset ''last_decision'' (VStr ''WAITING_ARM'')
            (dset ''phase'' (VStr ''WAITING_ARM'') state)))
          gross False ''ADAPTIVE_TRAILING_WAITING_ARM''
      else
        adaptive_result p rule
          (dset ''weak_score'' (VInt 0) (dset ''last_decision'' (VStr ''PAUSE'')
            (dset ''phase'' (VStr ''PAUSED_STALE_PRICE'') state)))
          gross False ''ADAPTIVE_TRAILING_PRICE_UNAVAILABLE'')"

text \<open>The floor of an armed rule; the plan's floor is the highest of all its rules.\<close>

definition adaptive_floor ::
  "ExitPlan \<Rightarrow> ExitRuleSpec \<Rightarrow> pydict \<Rightarrow> pyfloat option \<Rightarrow> (ExitPlan \<times> pydict \<times> pyfloat option) res" where
  "adaptive_floor p rule state target_profit =
     rbind (threshold rule ''base_floor_pct'' (Fin (1 / 2))) (\<lambda>base.
     rbind (threshold rule ''initial_gap_pct'' (Fin (3 / 2))) (\<lambda>gap.
     rbind (threshold rule ''gap_slope'' (Fin (1 / 4))) (\<lambda>slope.
     rbind (threshold rule ''max_gap_pct'' (Fin 3)) (\<lambda>max_gap.
     rbind (optional_float (vget state ''trailing_floor_pct'')) (\<lambda>previous.
       let policy = \<lparr>target_profit_pct =
                        (case target_profit of None \<Rightarrow> fzero | Some t \<Rightarrow> f_or t fzero),
                      base_floor_pct = base, initial_gap_pct = gap, gap_slope = slope,
                      max_gap_pct = max_gap, high_profit_arm_pct = None,
                      high_profit_max_drawdown_pct = None\<rparr>;
           floor = calculate_trailing_floor_pct (peak_net_profit_pct p) previous policy;
           state1 = dset ''trailing_floor_pct'' (v_opt_float floor) state
       in rbind (observed_floor (rule_state (with_rstate p rule state1))) (\<lambda>observed.
            Inr (p\<lparr>trailing_floor_pct := observed\<rparr>, state1, floor)))))))"

definition adaptive_confirm ::
  "ExitPlan \<Rightarrow> ExitRuleSpec \<Rightarrow> pydict \<Rightarrow> pyfloat \<Rightarrow> int \<Rightarrow> bool \<Rightarrow> string \<Rightarrow> evaluation" where
  "adaptive_confirm p rule state gross weak_score is_new quality =
     rbind (int_param rule ''confirm_score'' 3) (\<lambda>confirm_score.
     rbind (int_param rule ''confirm_observations'' 2) (\<lambda>observations.
     rbind (get_int state ''consecutive_weak'' 0 0) (\<lambda>consecutive0.
       let consecutive =
             (if is_new then (if confirm_score \<le> weak_score then consecutive0 + 1 else 0)
              else consecutive0);
           state1 = (if is_new then dset ''consecutive_weak'' (VInt consecutive) state else state)
       in if max 1 observations \<le> consecutive then
            adaptive_result p rule
              (dset ''last_decision'' (VStr ''CONFIRMED_EXIT'')
                (dset ''phase'' (VStr ''TRIGGERED'') state1))
              gross True (reason rule ''ADAPTIVE_TRAILING_WEAKNESS_CONFIRMED'')
          else
            adaptive_result p rule
              (dset ''last_decision'' (VStr ''FOLLOW'')
                (dset ''phase'' (VStr (if quality = ''FULL'' then ''FOLLOWING''
                                       else ''PRICE_ONLY_DEGRADED'')) state1))
              gross False ''ADAPTIVE_TRAILING_FOLLOW'')))"

definition adaptive_decide ::
  "ExitPlan \<Rightarrow> ExitRuleSpec \<Rightarrow> ExitEvaluationContext \<Rightarrow> pydict \<Rightarrow> adaptive_view \<Rightarrow> string \<Rightarrow>
   bool \<Rightarrow> pyfloat option \<Rightarrow> evaluation" where
  "adaptive_decide p0 rule ctx state0 v quality is_new target_profit =
     rbind (adaptive_floor p0 rule state0 target_profit) (\<lambda>(p, state1, floor).
     rbind (adaptive_weak_score rule ctx quality v) (\<lambda>weak_score.
       let state = dset ''weak_score'' (VInt weak_score)
                     (dset ''depth_imbalance_5'' (v_opt_float (depth_imbalance_5 ctx)) state1);
           floor_breached = (case floor of None \<Rightarrow> False | Some f \<Rightarrow> fle (last_net_profit_pct p) f)
       in rbind (adaptive_immediate rule v floor_breached) (\<lambda>immediate.
          if immediate then
            adaptive_result p rule
              (dset ''consecutive_weak'' (VInt 0)
                (dset ''last_decision'' (VStr ''IMMEDIATE_EXIT'')
                  (dset ''phase'' (VStr ''TRIGGERED'') state)))
              (av_gross v) True
              (reason rule (if floor_breached then ''ADAPTIVE_TRAILING_FLOOR_BREACHED''
                            else ''ADAPTIVE_TRAILING_IMMEDIATE_REVERSAL''))
          else adaptive_confirm p rule state (av_gross v) weak_score is_new quality)))"

definition adaptive_volume_price_trailing :: evaluator where
  "adaptive_volume_price_trailing rule p ctx =
     rbind (adaptive_samples (rstate p rule) ctx) (\<lambda>(state1, samples, is_new).
     rbind (adaptive_measure state1 samples p ctx) (\<lambda>(state2, v).
     rbind (adaptive_targets rule) (\<lambda>targets.
       let (state3, armed) = adaptive_arm state2 ctx (av_gross v) targets;
           quality = adaptive_data_quality ctx (av_velocity v);
           state = adaptive_record_view state3 quality v
       in if \<not> armed \<or> \<not> adaptive_price_available ctx
          then adaptive_idle p rule state (av_gross v) armed
          else adaptive_decide p rule ctx state v quality is_new (fst targets))))"

section \<open>Reversal, drawdown and stop rules\<close>

definition rapid_observed ::
  "pydict \<Rightarrow> ExitPlan \<Rightarrow> ExitEvaluationContext \<Rightarrow> pydict res" where
  "rapid_observed state p ctx =
     rbind (to_float (v_or (vget_or state ''observed_peak_net_profit_pct'' (VFloat (Fin (- (10 ^ 9)))))
                        (VFloat (Fin (- (10 ^ 9)))))) (\<lambda>observed_peak.
       Inr (if flt (fadd observed_peak (fround (1 / 10 ^ 9))) (peak_net_profit_pct p)
            then dset ''consecutive_matches'' (VInt 0)
                   (dset ''peak_timestamp_ms'' (VInt (timestamp_ms ctx))
                     (dset ''observed_peak_net_profit_pct'' (VFloat (peak_net_profit_pct p)) state))
            else state))"

definition rapid_profit_reversal :: evaluator where
  "rapid_profit_reversal rule p ctx =
     rbind (threshold rule ''arm_profit_pct'' (Fin 4)) (\<lambda>arm_profit_pct.
     rbind (int_param rule ''window_seconds'' 15) (\<lambda>window0.
     rbind (threshold rule ''drawdown_pct'' (fround (8 / 10))) (\<lambda>drawdown_pct.
     rbind (int_param rule ''confirm_ticks'' 2) (\<lambda>ticks0.
     rbind (rapid_observed (rstate p rule) p ctx) (\<lambda>state.
     rbind (get_int state ''peak_timestamp_ms'' 0 0) (\<lambda>peak_timestamp_ms.
     rbind (get_int state ''consecutive_matches'' 0 0) (\<lambda>previous_matches.
       let window_seconds = max 1 window0;
           confirm_ticks = max 1 ticks0;
           peak_age_ms = max 0 (timestamp_ms ctx - peak_timestamp_ms);
           profit_drawdown_pct = pmax fzero (fsub (peak_net_profit_pct p) (last_net_profit_pct p));
           qualified = (flt fzero (bid_price ctx)
             \<and> fle arm_profit_pct (peak_net_profit_pct p)
             \<and> 0 < peak_timestamp_ms
             \<and> peak_age_ms \<le> window_seconds * 1000
             \<and> fle drawdown_pct profit_drawdown_pct);
           consecutive_matches = (if qualified then previous_matches + 1 else 0)
       in matched (with_rstate p rule (dset ''consecutive_matches'' (VInt consecutive_matches) state))
            (qualified \<and> confirm_ticks \<le> consecutive_matches)
            (reason rule ''RAPID_PROFIT_REVERSAL'')
            [(''arm_profit_pct'', VFloat arm_profit_pct),
             (''window_seconds'', VInt window_seconds),
             (''drawdown_pct'', VFloat drawdown_pct),
             (''confirm_ticks'', VInt confirm_ticks),
             (''consecutive_matches'', VInt consecutive_matches),
             (''peak_age_ms'', VInt peak_age_ms),
             (''profit_drawdown_pct'', VFloat profit_drawdown_pct),
             (''executable_bid'', VFloat (bid_price ctx))])))))))"

definition trailing_price_drawdown :: evaluator where
  "trailing_price_drawdown rule p ctx =
     rbind (int_param rule ''min_holding_trading_days'' 1) (\<lambda>days0.
     rbind (threshold rule ''arm_profit_pct'' fzero) (\<lambda>arm_profit.
     rbind (threshold rule ''drawdown_pct'' (Fin 3)) (\<lambda>drawdown.
       let min_holding_days = max 1 days0;
           gross = gross_pct (current_price ctx) (entry_avg_price p);
           peak_drawdown =
             (if flt fzero (peak_price p)
              then fmul (fdiv (fsub (peak_price p) (current_price ctx)) (peak_price p)) (Fin 100)
              else fzero);
           peak_gross = gross_pct (peak_price p) (entry_avg_price p)
       in matched p
            (min_holding_days \<le> holding_trading_days p
             \<and> fle arm_profit peak_gross \<and> fle drawdown peak_drawdown)
            (reason rule ''TRAILING_PRICE_DRAWDOWN_REACHED'')
            [(''gross_profit_pct'', VFloat gross),
             (''peak_gross_profit_pct'', VFloat peak_gross),
             (''arm_profit_pct'', VFloat arm_profit),
             (''peak_drawdown_pct'', VFloat peak_drawdown),
             (''drawdown_pct'', VFloat drawdown),
             (''min_holding_trading_days'', VInt min_holding_days)])))"

definition hard_stop :: evaluator where
  "hard_stop rule p ctx =
     rbind (threshold rule ''stop_loss_pct'' (fround (- (8 / 10)))) (\<lambda>stop.
     rbind (int_param rule ''min_holding_trading_days'' 1) (\<lambda>days0.
       let min_holding_days = max 1 days0
       in matched p
            (min_holding_days \<le> holding_trading_days p \<and> fle (last_net_profit_pct p) stop)
            (reason rule ''HARD_STOP'')
            [(''stop_loss_pct'', VFloat stop),
             (''min_holding_trading_days'', VInt min_holding_days)]))"

section \<open>Time rules\<close>

text \<open>
  \<open>time.fromisoformat\<close> on times without an offset: hours, optional minutes and seconds,
  with or without colons, an optional fraction. A time is its microseconds of the day.
\<close>

fun two_digits :: "string \<Rightarrow> (int \<times> string) option" where
  "two_digits (a # b # r) = (if is_digit a \<and> is_digit b then Some (int_of_digits [a, b], r) else None)"
| "two_digits _ = None"

definition iso_fraction :: "string \<Rightarrow> int option" where
  "iso_fraction s =
     (case s of
        [] \<Rightarrow> Some 0
      | c # ds \<Rightarrow>
          if (c = CHR ''.'' \<or> c = CHR '','') \<and> ds \<noteq> [] \<and> list_all is_digit ds
          then Some (int_of_digits (take 6 (ds @ ''00000''))) else None)"

definition iso_time :: "int \<Rightarrow> int \<Rightarrow> int \<Rightarrow> int \<Rightarrow> int option" where
  "iso_time h m s us =
     (if h < 24 \<and> m < 60 \<and> s < 60 then Some (((h * 60 + m) * 60 + s) * 1000000 + us) else None)"

definition iso_skip :: "bool \<Rightarrow> string \<Rightarrow> string option" where
  "iso_skip sep s =
     (if sep then (case s of c # r \<Rightarrow> if c = CHR '':'' then Some r else None | [] \<Rightarrow> None) else Some s)"

definition time_fromisoformat :: "string \<Rightarrow> int option" where
  "time_fromisoformat s0 =
     (let s = (case s0 of c # r \<Rightarrow> if c = CHR ''T'' then r else s0 | [] \<Rightarrow> s0)
      in Option.bind (two_digits s) (\<lambda>(h, r1).
         if r1 = [] then iso_time h 0 0 0
         else let sep = (hd r1 = CHR '':'')
              in Option.bind (Option.bind (iso_skip sep r1) two_digits) (\<lambda>(m, r2).
                 if r2 = [] then iso_time h m 0 0
                 else Option.bind (Option.bind (iso_skip sep r2) two_digits) (\<lambda>(sec, r3).
                      Option.bind (iso_fraction r3) (\<lambda>us. iso_time h m sec us)))))"

definition parse_time :: "pyval \<Rightarrow> int" where
  "parse_time v =
     (case time_fromisoformat (str_or v []) of
        None \<Rightarrow> (14 * 60 + 50) * 60 * 1000000
      | Some t \<Rightarrow> t)"

definition pad2 :: "int \<Rightarrow> string" where
  "pad2 n = (let s = string_of_int n in if length s < 2 then ''0'' @ s else s)"

definition isoformat_minutes :: "int \<Rightarrow> string" where
  "isoformat_minutes t =
     (let minutes = t div 60000000 in pad2 (minutes div 60) @ '':'' @ pad2 (minutes mod 60))"

definition time_of_day :: evaluator where
  "time_of_day rule p ctx =
     (let exit_time = parse_time (vget_or (parameters rule) ''exit_time'' (VStr ''14:50''))
      in matched p (exit_time \<le> dt_time (timestamp ctx)) (reason rule ''TIME_OF_DAY_REACHED'')
           [(''exit_time'', VStr (isoformat_minutes exit_time))])"

definition max_holding_days :: evaluator where
  "max_holding_days rule p ctx =
     rbind (int_param rule ''max_holding_trading_days'' 1) (\<lambda>days0.
       let days = max 1 days0;
           exit_time = parse_time (vget_or (parameters rule) ''exit_time'' (VStr ''14:50''))
       in matched p (days \<le> holding_trading_days p \<and> exit_time \<le> dt_time (timestamp ctx))
            (reason rule ''MAX_HOLDING_DAYS_REACHED'')
            [(''max_holding_trading_days'', VInt days),
             (''exit_time'', VStr (isoformat_minutes exit_time))])"

section \<open>Limit-up rules\<close>

definition effective_tick :: "ExitEvaluationContext \<Rightarrow> pyfloat" where
  "effective_tick ctx = pmax (f_or (price_tick ctx) (fround (1 / 100))) (fround (1 / 10 ^ 8))"

definition limit_up_touch :: evaluator where
  "limit_up_touch rule p ctx =
     rbind (int_param rule ''tolerance_ticks'' 0) (\<lambda>ticks0.
     rbind (int_param rule ''min_holding_trading_days'' 1) (\<lambda>days0.
       let limit = f_or (limit_up ctx) fzero;
           tick = effective_tick ctx;
           tolerance_ticks = max 0 ticks0;
           min_holding_days = max 1 days0;
           trigger_price = fsub limit (fmul (float_of_int tolerance_ticks) tick);
           executable_bid = f_or (bid_price ctx) fzero
       in matched p
            (flt fzero limit \<and> min_holding_days \<le> holding_trading_days p
             \<and> flt fzero executable_bid
             \<and> fle (fsub trigger_price (fround (1 / 10 ^ 8))) executable_bid)
            (reason rule ''LIMIT_UP_TOUCH'')
            [(''limit_up'', VFloat limit), (''price_tick'', VFloat tick),
             (''tolerance_ticks'', VInt tolerance_ticks),
             (''trigger_price'', VFloat trigger_price),
             (''executable_bid'', VFloat executable_bid),
             (''min_holding_trading_days'', VInt min_holding_days)]))"

text \<open>A new trade date clears the seal; a seal held for long enough arms the rule.\<close>

definition limit_up_day_state :: "pydict \<Rightarrow> string \<Rightarrow> pydict" where
  "limit_up_day_state state day =
     (if vget state ''trade_date'' \<noteq> VStr day
      then [(''trade_date'', VStr day), (''touch_started_at_ms'', VInt 0), (''armed'', VBool False)]
      else state)"

definition limit_up_seal ::
  "pydict \<Rightarrow> ExitEvaluationContext \<Rightarrow> bool \<Rightarrow> pyfloat \<Rightarrow> pydict res" where
  "limit_up_seal state ctx at_limit min_seal_seconds =
     (if at_limit then
        rbind (get_int state ''touch_started_at_ms'' 0 0) (\<lambda>started0.
          let started = (if started0 \<le> 0 then timestamp_ms ctx else started0);
              state1 = (if started0 \<le> 0 then dset ''touch_started_at_ms'' (VInt started) state
                        else state)
          in rbind (int_of_float (fmul min_seal_seconds (Fin 1000))) (\<lambda>needed.
               Inr (if needed \<le> timestamp_ms ctx - started
                    then dset ''armed'' (VBool True) state1 else state1)))
      else if \<not> truthy (vget state ''armed'') then
        Inr (dset ''touch_started_at_ms'' (VInt 0) state)
      else Inr state)"

definition limit_up_break :: evaluator where
  "limit_up_break rule p ctx =
     (let state0 = limit_up_day_state (rstate p rule) (trade_date ctx);
          limit = f_or (limit_up ctx) fzero;
          tick = effective_tick ctx
      in rbind (int_param rule ''seal_tolerance_ticks'' 0) (\<lambda>tolerance0.
         rbind (int_param rule ''break_ticks'' 1) (\<lambda>break0.
         rbind (to_float (v_or (vget_or (parameters rule) ''min_seal_seconds'' (VFloat fzero))
                            (VFloat fzero))) (\<lambda>seal0.
         rbind (int_param rule ''min_holding_trading_days'' 1) (\<lambda>days0.
           let tolerance_ticks = max 0 tolerance0;
               break_ticks = max 1 break0;
               min_seal_seconds = pmax fzero seal0;
               min_holding_days = max 1 days0;
               seal_floor = fsub limit (fmul (float_of_int tolerance_ticks) tick);
               at_limit = (flt fzero limit
                 \<and> fle (fsub seal_floor (fround (1 / 10 ^ 8))) (current_price ctx))
           in rbind (limit_up_seal state0 ctx at_limit min_seal_seconds) (\<lambda>state.
              let break_price = fsub limit (fmul (float_of_int break_ticks) tick);
                  armed = truthy (vget state ''armed'')
              in matched (with_rstate p rule state)
                   (flt fzero limit \<and> min_holding_days \<le> holding_trading_days p \<and> armed
                    \<and> fle (current_price ctx) (fadd break_price (fround (1 / 10 ^ 8))))
                   (reason rule ''LIMIT_UP_BREAK'')
                   [(''limit_up'', VFloat limit), (''price_tick'', VFloat tick),
                    (''seal_floor'', VFloat seal_floor), (''break_price'', VFloat break_price),
                    (''seal_armed'', VBool armed), (''min_seal_seconds'', VFloat min_seal_seconds),
                    (''min_holding_trading_days'', VInt min_holding_days)]))))))"

definition manual_trigger :: evaluator where
  "manual_trigger rule p ctx =
     matched p True (reason rule ''manual_liquidation_confirmed'')
       [(''trigger'', VStr (ExitRuleType_value MANUAL_TRIGGER))]"

end
