(* ===== verification/Exit_Evaluator.thy ===== *)
theory Exit_Evaluator
  imports Exit_Rules
begin

text \<open>
  The registry of sell rules and the evaluator that turns one market observation into
  at most one exit decision (\<open>ExitStrategyRegistry\<close>, \<open>ExitPlanEvaluator\<close> of
  \<open>exit_plan.py\<close>). The contract the evaluator needs of the rules is the locale
  \<open>exit_rule_registry\<close>; the built-in registry interprets it.
\<close>

section \<open>Registry\<close>

text \<open>\<open>_strategy_value\<close>: rule names are compared in upper case.\<close>

definition strategy_value :: "string \<Rightarrow> string" where
  "strategy_value s = upper s"

type_synonym registry = "(string, evaluator) dict"

definition registry_register :: "ExitRuleType \<Rightarrow> evaluator \<Rightarrow> registry \<Rightarrow> registry" where
  "registry_register s e r = dset (strategy_value (ExitRuleType_value s)) e r"

definition registry_evaluate :: "registry \<Rightarrow> evaluator" where
  "registry_evaluate r rule p ctx =
     (case dget r (strategy rule) of
        None \<Rightarrow> Inl (ValueError (''exit strategy is not registered: '' @ strategy rule))
      | Some e \<Rightarrow> e rule p ctx)"

definition builtins :: registry where
  "builtins =
     fold (\<lambda>(s, e). registry_register s e)
       [(TARGET_PRICE, target_price), (STOP_PRICE, stop_price),
        (GROSS_TAKE_PROFIT, gross_take_profit), (NET_TAKE_PROFIT, net_take_profit),
        (TRAILING_NET_PROFIT, trailing_net_profit),
        (ADAPTIVE_VOLUME_PRICE_TRAILING, adaptive_volume_price_trailing),
        (RAPID_PROFIT_REVERSAL, rapid_profit_reversal),
        (TRAILING_PRICE_DRAWDOWN, trailing_price_drawdown), (HARD_STOP, hard_stop),
        (TIME_OF_DAY, time_of_day), (MAX_HOLDING_DAYS, max_holding_days),
        (LIMIT_UP_TOUCH, limit_up_touch), (LIMIT_UP_BREAK, limit_up_break),
        (MANUAL_TRIGGER, manual_trigger)] []"

section \<open>Observation\<close>

definition reference_price :: "ExitPlan \<Rightarrow> ExitEvaluationContext \<Rightarrow> pyfloat" where
  "reference_price p ctx =
     (case price_reference (execution (template p)) of
        BID \<Rightarrow> f_or (f_or (bid_price ctx) (current_price ctx)) fzero
      | ASK \<Rightarrow> f_or (f_or (ask_price ctx) (current_price ctx)) fzero
      | LAST \<Rightarrow> f_or (current_price ctx) fzero)"

definition observe_holding :: "ExitPlan \<Rightarrow> ExitEvaluationContext \<Rightarrow> ExitPlan" where
  "observe_holding p ctx =
     (if entry_trade_date p = [] then
        p\<lparr>entry_trade_date := trade_date ctx, last_holding_trade_date := trade_date ctx,
          holding_trading_days := 1\<rparr>
      else if last_holding_trade_date p < trade_date ctx then
        p\<lparr>last_holding_trade_date := trade_date ctx,
          holding_trading_days := holding_trading_days p + 1\<rparr>
      else p)"

definition observe :: "ExitPlan \<Rightarrow> ExitEvaluationContext \<Rightarrow> ExitPlan res" where
  "observe p ctx =
     (let ref = reference_price p ctx
      in if fle ref fzero then Inr p
         else let p1 = p\<lparr>last_price := ref,
                          peak_price := pmax (f_or (peak_price p) fzero) ref,
                          last_evaluated_at := dt_iso (timestamp ctx)\<rparr>;
                  p2 = observe_holding p1 ctx
              in rbind (cost_basis p2) (\<lambda>basis.
                 let profit = estimate_net_profit_pct (unit_cost_cny basis) ref
                                (remaining_volume p2) (cost_policy basis) (includes_buy_fees basis)
                 in Inr (p2\<lparr>last_net_profit_pct := profit,
                             peak_net_profit_pct := pmax (f_or (peak_net_profit_pct p2) fzero) profit\<rparr>)))"

section \<open>Decisions\<close>

record ExitDecision =
  decision_plan_id :: string
  decision_rule_id :: string
  rule_type :: string
  decision_reason :: string
  decision_volume :: int
  decision_priority :: int
  decision_metrics :: pydict

text \<open>Evaluate every enabled rule that is still open, threading the plan through.\<close>

fun evaluate_rules ::
  "registry \<Rightarrow> string list \<Rightarrow> ExitEvaluationContext \<Rightarrow> ExitRuleSpec list \<Rightarrow> ExitPlan \<Rightarrow>
   (ExitPlan \<times> (ExitRuleSpec \<times> ExitRuleMatch) list) res" where
  "evaluate_rules reg completed ctx [] p = Inr (p, [])"
| "evaluate_rules reg completed ctx (rule # rs) p =
     (if \<not> enabled rule \<or> (once rule \<and> rule_id rule \<in> set completed)
      then evaluate_rules reg completed ctx rs p
      else rbind (registry_evaluate reg rule p ctx) (\<lambda>(p1, m).
           rbind (evaluate_rules reg completed ctx rs p1) (\<lambda>(p2, ms).
             Inr (p2, if triggered m then (rule, m) # ms else ms))))"

text \<open>\<open>max(matches, key=(priority, rule_id))\<close>: the first of the greatest.\<close>

definition key_less :: "ExitRuleSpec \<Rightarrow> ExitRuleSpec \<Rightarrow> bool" where
  "key_less a b \<longleftrightarrow> priority a < priority b \<or> (priority a = priority b \<and> rule_id a < rule_id b)"

fun best_match ::
  "ExitRuleSpec \<times> ExitRuleMatch \<Rightarrow> (ExitRuleSpec \<times> ExitRuleMatch) list \<Rightarrow> ExitRuleSpec \<times> ExitRuleMatch" where
  "best_match b [] = b"
| "best_match b (m # ms) = best_match (if key_less (fst b) (fst m) then m else b) ms"

text \<open>A rule that acts once sells what is left of the volume it fixed the first time.\<close>

definition decision_size :: "ExitPlan \<Rightarrow> ExitRuleSpec \<Rightarrow> int res" where
  "decision_size p rule =
     rbind (calculate (sizing rule) (remaining_volume p)) (\<lambda>v.
       Inr (if once rule \<and> dmem (rule_target_volumes p) (rule_id rule)
            then min (remaining_volume p)
                   (max 0 (dget_or (rule_target_volumes p) (rule_id rule) 0
                           - dget_or (rule_filled_volumes p) (rule_id rule) 0))
            else v))"

definition decision_for ::
  "ExitPlan \<Rightarrow> ExitEvaluationContext \<Rightarrow> ExitRuleSpec \<times> ExitRuleMatch \<Rightarrow> int \<Rightarrow> ExitDecision" where
  "decision_for p ctx rm v =
     (let rule = fst rm; m = snd rm
      in \<lparr>decision_plan_id = plan_id (template p), decision_rule_id = rule_id rule,
          rule_type = strategy rule,
          decision_reason = (if match_reason m = [] then strategy rule else match_reason m),
          decision_volume = v, decision_priority = priority rule,
          decision_metrics =
            fold (\<lambda>(k, x). dset k x) (match_metrics m)
              [(''current_price'', VFloat (current_price ctx)),
               (''profit_reference'',
                  VStr (ExitPriceReference_value (price_reference (execution (template p))))),
               (''profit_reference_price'', VFloat (last_price p)),
               (''last_net_profit_pct'', VFloat (last_net_profit_pct p)),
               (''peak_net_profit_pct'', VFloat (peak_net_profit_pct p)),
               (''trailing_floor_pct'', v_opt_float (trailing_floor_pct p)),
               (''holding_trading_days'', VInt (holding_trading_days p))]\<rparr>)"

definition has_manual_trigger :: "ExitPlan \<Rightarrow> bool" where
  "has_manual_trigger p \<longleftrightarrow>
     list_ex (\<lambda>r. enabled r \<and> strategy r = ExitRuleType_value MANUAL_TRIGGER) (rules (template p))"

text \<open>The guards of \<open>ExitPlanEvaluator.evaluate\<close> before it looks at a rule.\<close>

definition evaluation_open :: "ExitPlan \<Rightarrow> ExitEvaluationContext \<Rightarrow> bool" where
  "evaluation_open p ctx \<longleftrightarrow>
     status p \<in> {ACTIVE, PARTIALLY_EXITED}
     \<and> pending_intent_id p = [] \<and> 0 < remaining_volume p
     \<and> \<not> (fle (current_price ctx) fzero \<and> fle (bid_price ctx) fzero \<and> \<not> has_manual_trigger p)
     \<and> retry_after_ms p \<le> timestamp_ms ctx"

text \<open>Size the best match; a volume that rounds to nothing makes no decision.\<close>

fun decide ::
  "ExitPlan \<Rightarrow> ExitEvaluationContext \<Rightarrow> (ExitRuleSpec \<times> ExitRuleMatch) list \<Rightarrow>
   (ExitPlan \<times> ExitDecision option) res" where
  "decide p ctx [] = Inr (p, None)"
| "decide p ctx (m # ms) =
     (let best = best_match m ms
      in rbind (decision_size p (fst best)) (\<lambda>v.
           if v \<le> 0 then Inr (p, None) else Inr (p, Some (decision_for p ctx best v))))"

definition evaluate ::
  "registry \<Rightarrow> ExitPlan \<Rightarrow> ExitEvaluationContext \<Rightarrow> (ExitPlan \<times> ExitDecision option) res" where
  "evaluate reg p ctx =
     (if \<not> evaluation_open p ctx then Inr (p, None)
      else rbind (observe p ctx) (\<lambda>p1.
           rbind (evaluate_rules reg (completed_rule_ids p1) ctx (rules (template p1)) p1)
             (\<lambda>(p2, matches). decide p2 ctx matches)))"

section \<open>The contract of a rule\<close>

text \<open>A rule may change its own state and the plan's trailing floor, and nothing else.\<close>

definition rules_frame :: "ExitPlan \<Rightarrow> ExitPlan \<Rightarrow> bool" where
  "rules_frame p q \<longleftrightarrow>
     q = p\<lparr>rule_state := rule_state q, trailing_floor_pct := trailing_floor_pct q\<rparr>"

lemma rules_frame_refl [simp]: "rules_frame p p"
  by (simp add: rules_frame_def)

lemma rules_frame_trans: "rules_frame p q \<Longrightarrow> rules_frame q r \<Longrightarrow> rules_frame p r"
  unfolding rules_frame_def by (cases p, cases q, cases r) simp

lemma rules_frame_with_rstate [simp]: "rules_frame p (with_rstate p rule st)"
  by (simp add: rules_frame_def with_rstate_def)

lemma rules_frame_floor [simp]: "rules_frame p (p\<lparr>trailing_floor_pct := f\<rparr>)"
  by (simp add: rules_frame_def)

lemma rules_frame_both [simp]:
  "rules_frame p ((with_rstate p rule st)\<lparr>trailing_floor_pct := f\<rparr>)"
  "rules_frame p (with_rstate (p\<lparr>trailing_floor_pct := f\<rparr>) rule st)"
  by (simp_all add: rules_frame_def with_rstate_def)

lemma matched_Inr [res_simps]:
  "matched p b r m = Inr (q, x) \<longleftrightarrow>
     q = p \<and> x = \<lparr>triggered = b, match_reason = r, match_metrics = m\<rparr>"
  by (auto simp: matched_def)

locale exit_rule_registry =
  fixes reg :: registry
  assumes rule_frame: "dget reg s = Some e \<Longrightarrow> e rule p ctx = Inr (q, m) \<Longrightarrow> rules_frame p q"
begin

lemma registry_frame: "registry_evaluate reg rule p ctx = Inr (q, m) \<Longrightarrow> rules_frame p q"
  by (auto simp: registry_evaluate_def split: option.splits intro: rule_frame)

lemma evaluate_rules_frame:
  "evaluate_rules reg done ctx rs p = Inr (q, ms) \<Longrightarrow> rules_frame p q"
  by (induction rs arbitrary: p q ms)
    (auto simp: res_simps split: if_splits intro: rules_frame_trans registry_frame)

end

section \<open>The built-in rules keep the contract\<close>

lemma simple_rules_frame:
  "target_price rule p ctx = Inr (q, m) \<Longrightarrow> rules_frame p q"
  "stop_price rule p ctx = Inr (q, m) \<Longrightarrow> rules_frame p q"
  "gross_take_profit rule p ctx = Inr (q, m) \<Longrightarrow> rules_frame p q"
  "net_take_profit rule p ctx = Inr (q, m) \<Longrightarrow> rules_frame p q"
  "trailing_price_drawdown rule p ctx = Inr (q, m) \<Longrightarrow> rules_frame p q"
  "hard_stop rule p ctx = Inr (q, m) \<Longrightarrow> rules_frame p q"
  "time_of_day rule p ctx = Inr (q, m) \<Longrightarrow> rules_frame p q"
  "max_holding_days rule p ctx = Inr (q, m) \<Longrightarrow> rules_frame p q"
  "limit_up_touch rule p ctx = Inr (q, m) \<Longrightarrow> rules_frame p q"
  "manual_trigger rule p ctx = Inr (q, m) \<Longrightarrow> rules_frame p q"
  by (auto simp: res_simps Let_def target_price_def stop_price_def gross_take_profit_def
      net_take_profit_def trailing_price_drawdown_def hard_stop_def time_of_day_def
      max_holding_days_def limit_up_touch_def manual_trigger_def)

lemma stateful_rules_frame:
  "trailing_net_profit rule p ctx = Inr (q, m) \<Longrightarrow> rules_frame p q"
  "rapid_profit_reversal rule p ctx = Inr (q, m) \<Longrightarrow> rules_frame p q"
  "limit_up_break rule p ctx = Inr (q, m) \<Longrightarrow> rules_frame p q"
  by (auto simp: res_simps Let_def trailing_net_profit_def rapid_profit_reversal_def
      limit_up_break_def)

lemma adaptive_result_frame:
  "adaptive_result p rule st g b w = Inr (q, m) \<Longrightarrow> q = with_rstate p rule st"
  by (auto simp: adaptive_result_def res_simps)

lemma adaptive_idle_frame: "adaptive_idle p rule st g a = Inr (q, m) \<Longrightarrow> rules_frame p q"
  by (auto simp: adaptive_idle_def dest!: adaptive_result_frame split: if_splits)

lemma adaptive_confirm_frame:
  "adaptive_confirm p rule st g w n ql = Inr (q, m) \<Longrightarrow> \<exists>st'. q = with_rstate p rule st'"
  unfolding adaptive_confirm_def Let_def
  by (auto simp: res_simps dest!: adaptive_result_frame split: if_splits)

lemma adaptive_floor_frame:
  "adaptive_floor p rule st t = Inr (q, st', f) \<Longrightarrow> \<exists>f. q = p\<lparr>trailing_floor_pct := f\<rparr>"
  by (auto simp: adaptive_floor_def res_simps Let_def)

lemma adaptive_decide_frame:
  assumes "adaptive_decide p rule ctx st v ql n t = Inr (q, m)"
  shows "rules_frame p q"
proof -
  from assms obtain f st' where "q = with_rstate (p\<lparr>trailing_floor_pct := f\<rparr>) rule st'"
    unfolding adaptive_decide_def Let_def
    by (auto simp: res_simps split: if_splits
        dest!: adaptive_floor_frame adaptive_result_frame adaptive_confirm_frame)
  then show ?thesis by simp
qed

lemma adaptive_frame:
  "adaptive_volume_price_trailing rule p ctx = Inr (q, m) \<Longrightarrow> rules_frame p q"
  unfolding adaptive_volume_price_trailing_def Let_def
  by (auto simp: res_simps case_prod_beta split: if_splits
      intro: adaptive_idle_frame adaptive_decide_frame)

lemma builtins_cases:
  assumes "dget builtins s = Some e"
  shows "e \<in> {target_price, stop_price, gross_take_profit, net_take_profit, trailing_net_profit,
    adaptive_volume_price_trailing, rapid_profit_reversal, trailing_price_drawdown, hard_stop,
    time_of_day, max_holding_days, limit_up_touch, limit_up_break, manual_trigger}"
  using assms unfolding builtins_def registry_register_def
  by (simp split: if_splits)

interpretation builtin_rules: exit_rule_registry builtins
proof
  fix s e rule p ctx q m
  assume "dget builtins s = Some e" "e rule p ctx = Inr (q, m)"
  then show "rules_frame p q"
    using builtins_cases [of s e]
    by (auto intro: simple_rules_frame stateful_rules_frame adaptive_frame)
qed

section \<open>One evaluation\<close>

text \<open>What an evaluation may write: the observation of the market and the rules' own state.\<close>

definition evaluation_frame :: "ExitPlan \<Rightarrow> ExitPlan \<Rightarrow> bool" where
  "evaluation_frame p q \<longleftrightarrow>
     q = p\<lparr>last_price := last_price q, peak_price := peak_price q,
           last_evaluated_at := last_evaluated_at q, entry_trade_date := entry_trade_date q,
           last_holding_trade_date := last_holding_trade_date q,
           holding_trading_days := holding_trading_days q,
           last_net_profit_pct := last_net_profit_pct q,
           peak_net_profit_pct := peak_net_profit_pct q,
           rule_state := rule_state q, trailing_floor_pct := trailing_floor_pct q\<rparr>"

lemma evaluation_frame_refl [simp]: "evaluation_frame p p"
  by (simp add: evaluation_frame_def)

lemma rules_frame_evaluation:
  "evaluation_frame p q \<Longrightarrow> rules_frame q r \<Longrightarrow> evaluation_frame p r"
  unfolding evaluation_frame_def rules_frame_def by (cases p, cases q, cases r) simp

lemma observe_frame: "observe p ctx = Inr q \<Longrightarrow> evaluation_frame p q"
  by (auto simp: observe_def Let_def observe_holding_def evaluation_frame_def res_simps split: if_splits)

lemma evaluation_frame_eqs:
  assumes "evaluation_frame p q"
  shows "template q = template p" "status q = status p" "exited_volume q = exited_volume p"
    "entry_filled_volume q = entry_filled_volume p" "pending_intent_id q = pending_intent_id p"
    "remaining_volume q = remaining_volume p" "completed_rule_ids q = completed_rule_ids p"
    "rule_target_volumes q = rule_target_volumes p" "rule_filled_volumes q = rule_filled_volumes p"
    "error_message q = error_message p"
  using assms unfolding evaluation_frame_def remaining_volume_def by (cases p; cases q; simp)+

lemma best_match_in: "best_match b ms \<in> insert b (set ms)"
  by (induction ms arbitrary: b) (auto split: if_splits)

lemma best_match_max:
  "\<forall>x \<in> insert b (set ms). \<not> key_less (fst (best_match b ms)) (fst x)"
proof (induction ms arbitrary: b)
  case Nil
  then show ?case by (simp add: key_less_def)
next
  case (Cons m ms)
  let ?b = "if key_less (fst b) (fst m) then m else b"
  have rest: "\<forall>x \<in> insert ?b (set ms). \<not> key_less (fst (best_match ?b ms)) (fst x)"
    by (rule Cons.IH)
  then have "\<not> key_less (fst (best_match ?b ms)) (fst ?b)" by simp
  then have "\<not> key_less (fst (best_match ?b ms)) (fst b)" "\<not> key_less (fst (best_match ?b ms)) (fst m)"
    by (auto simp: key_less_def split: if_splits)
  with rest show ?case by simp
qed

lemma evaluate_rules_matches:
  "evaluate_rules reg done ctx rs p = Inr (q, ms) \<Longrightarrow> (r, m) \<in> set ms \<Longrightarrow>
     r \<in> set rs \<and> enabled r \<and> \<not> (once r \<and> rule_id r \<in> set done) \<and> triggered m"
  by (induction rs arbitrary: p q ms) (fastforce simp: res_simps split: if_splits)+

lemma decision_size_bounds:
  assumes "decision_size p rule = Inr v" "0 < lot_size (sizing rule)"
  shows "0 \<le> v \<and> v \<le> remaining_volume p"
proof -
  have nonneg: "0 \<le> remaining_volume p" by (simp add: remaining_volume_def)
  have "0 \<le> n \<and> n \<le> remaining_volume p" if "calculate (sizing rule) (remaining_volume p) = Inr n" for n
    using calculate_bounds [OF assms(2) that] nonneg by (simp add: max_absorb2)
  with assms(1) nonneg show ?thesis
    by (auto simp: decision_size_def res_simps split: if_splits)
qed

lemma decide_plan: "decide p ctx ms = Inr (q, d) \<Longrightarrow> q = p"
  by (cases ms) (auto simp: Let_def res_simps split: if_splits)

lemma decide_SomeE:
  assumes "decide p ctx ms = Inr (q, Some d)"
  obtains r m v where "(r, m) \<in> set ms" "\<forall>x \<in> set ms. \<not> key_less r (fst x)"
    "decision_size p r = Inr v" "0 < v" "d = decision_for p ctx (r, m) v"
proof (cases ms)
  case (Cons b bs)
  obtain r m where rm: "best_match b bs = (r, m)" by fastforce
  with assms Cons obtain v where
    "decision_size p r = Inr v" "0 < v" "d = decision_for p ctx (r, m) v"
    by (auto simp: Let_def res_simps split: if_splits)
  moreover have "(r, m) \<in> set ms" using best_match_in [of b bs] rm Cons by simp
  moreover have "\<forall>x \<in> set ms. \<not> key_less r (fst x)" using best_match_max [of b bs] rm Cons by simp
  ultimately show thesis by (intro that)
qed (use assms in simp)

context exit_rule_registry
begin

lemma evaluate_frame: "evaluate reg p ctx = Inr (q, d) \<Longrightarrow> evaluation_frame p q"
  by (auto simp: evaluate_def res_simps split: if_splits
      dest!: decide_plan observe_frame evaluate_rules_frame intro: rules_frame_evaluation)

text \<open>Where a decision comes from: the plan was open, and the best triggered rule made it.\<close>

lemma evaluate_decisionE:
  assumes "evaluate reg p ctx = Inr (q, Some d)"
  obtains p1 r m ms v where
    "evaluation_open p ctx" "observe p ctx = Inr p1"
    "evaluate_rules reg (completed_rule_ids p) ctx (rules (template p)) p1 = Inr (q, ms)"
    "(r, m) \<in> set ms" "\<forall>x \<in> set ms. \<not> key_less r (fst x)"
    "decision_size q r = Inr v" "0 < v" "d = decision_for q ctx (r, m) v"
proof -
  from assms obtain p1 ms where *: "evaluation_open p ctx" "observe p ctx = Inr p1"
    "evaluate_rules reg (completed_rule_ids p1) ctx (rules (template p1)) p1 = Inr (q, ms)"
    and d: "decide q ctx ms = Inr (q, Some d)"
    by (auto simp: evaluate_def res_simps split: if_splits dest: decide_plan)
  from d obtain r m v where "(r, m) \<in> set ms" "\<forall>x \<in> set ms. \<not> key_less r (fst x)"
    "decision_size q r = Inr v" "0 < v" "d = decision_for q ctx (r, m) v"
    by (rule decide_SomeE)
  then show thesis
    using * that [of p1 ms r m v] evaluation_frame_eqs [OF observe_frame [OF *(2)]] by simp
qed

lemma evaluate_decision_sound:
  assumes d: "evaluate reg p ctx = Inr (q, Some d)"
    and lots: "\<forall>r \<in> set (rules (template p)). 0 < lot_size (sizing r)"
  shows "evaluation_open p ctx" "0 < decision_volume d" "decision_volume d \<le> remaining_volume p"
    "decision_plan_id d = plan_id (template p)"
    "\<exists>r \<in> set (rules (template p)). enabled r \<and> rule_id r = decision_rule_id d
       \<and> \<not> (once r \<and> rule_id r \<in> set (completed_rule_ids p)) \<and> priority r = decision_priority d"
proof -
  from d obtain p1 r m ms v where *:
    "evaluation_open p ctx" "observe p ctx = Inr p1"
    "evaluate_rules reg (completed_rule_ids p) ctx (rules (template p)) p1 = Inr (q, ms)"
    "(r, m) \<in> set ms" "decision_size q r = Inr v" "0 < v" "d = decision_for q ctx (r, m) v"
    by (rule evaluate_decisionE)
  have fr: "evaluation_frame p q" by (rule evaluate_frame [OF d])
  have r: "r \<in> set (rules (template p)) \<and> enabled r \<and> \<not> (once r \<and> rule_id r \<in> set (completed_rule_ids p))"
    using evaluate_rules_matches [OF *(3,4)] by simp
  with lots have "0 < lot_size (sizing r)" by blast
  from decision_size_bounds [OF *(5) this] have "v \<le> remaining_volume p"
    using evaluation_frame_eqs [OF fr] by simp
  with * r fr show "evaluation_open p ctx" "0 < decision_volume d"
    "decision_volume d \<le> remaining_volume p" "decision_plan_id d = plan_id (template p)"
    "\<exists>r \<in> set (rules (template p)). enabled r \<and> rule_id r = decision_rule_id d
       \<and> \<not> (once r \<and> rule_id r \<in> set (completed_rule_ids p)) \<and> priority r = decision_priority d"
    by (auto simp: decision_for_def Let_def evaluation_frame_eqs [OF fr])
qed

lemma evaluate_decision_priority:
  assumes d: "evaluate reg p ctx = Inr (q, Some d)"
  shows "\<exists>p1 ms. observe p ctx = Inr p1 \<and>
     evaluate_rules reg (completed_rule_ids p) ctx (rules (template p)) p1 = Inr (q, ms) \<and>
     (\<exists>(r, m) \<in> set ms. d = decision_for q ctx (r, m) (decision_volume d)) \<and>
     (\<forall>(r, m) \<in> set ms. priority r \<le> decision_priority d)"
proof -
  from d obtain p1 r m ms v where *:
    "evaluation_open p ctx" "observe p ctx = Inr p1"
    "evaluate_rules reg (completed_rule_ids p) ctx (rules (template p)) p1 = Inr (q, ms)"
    "(r, m) \<in> set ms" "\<forall>x \<in> set ms. \<not> key_less r (fst x)"
    "decision_size q r = Inr v" "0 < v" "d = decision_for q ctx (r, m) v"
    by (rule evaluate_decisionE)
  then have "d = decision_for q ctx (r, m) (decision_volume d)" "decision_priority d = priority r"
    by (simp_all add: decision_for_def Let_def)
  with * show ?thesis
    by (intro exI [of _ p1] exI [of _ ms] conjI bexI [of _ "(r, m)"])
      (auto simp: key_less_def)
qed

end

end
