(* ===== verification/Exit_Book.thy ===== *)
theory Exit_Book
  imports Exit_Evaluator
begin

text \<open>
  The lifecycle owner of exit plans (\<open>ExitPlanBook\<close> of \<open>exit_plan.py\<close>): entry fills,
  operator commands, intents, broker ORDER events, TRADE fills, and pruning. A method
  that mutates one plan of the book is a function on that plan (its name starts with
  \<open>plan_\<close>) lifted to the book by \<open>with_plan\<close>.
\<close>

type_synonym book = "(string, ExitPlan) dict"

section \<open>Pending intents and reconciliation errors\<close>

definition release_pending :: "ExitPlan \<Rightarrow> ExitPlan" where
  "release_pending p =
     p\<lparr>pending_intent_id := [], pending_order_id := [], pending_rule_id := [],
       pending_requested_volume := 0, pending_filled_volume := 0,
       pending_order_terminal := False, pending_terminal_cumulative_fill := None\<rparr>"

definition remember_zero_fill_intent :: "ExitPlan \<Rightarrow> string \<Rightarrow> ExitPlan" where
  "remember_zero_fill_intent p intent =
     (if intent \<noteq> [] \<and> intent \<notin> set (reconciled_zero_fill_intent_ids p)
      then p\<lparr>reconciled_zero_fill_intent_ids := reconciled_zero_fill_intent_ids p @ [intent]\<rparr>
      else p)"

definition reconciliation_error :: "ExitPlan \<Rightarrow> string" where
  "reconciliation_error p =
     (if status p = ERROR \<and> is_sticky_exit_plan_error (error_message p)
      then error_message p else [])"

definition restore_reconciliation_error :: "ExitPlan \<Rightarrow> string \<Rightarrow> ExitPlan" where
  "restore_reconciliation_error p err =
     (if err \<noteq> [] then p\<lparr>status := ERROR, error_message := err\<rparr> else p)"

definition fill_intent_mismatch_error :: "string \<Rightarrow> string \<Rightarrow> bool \<Rightarrow> string" where
  "fill_intent_mismatch_error intent current late =
     (let incoming = (if intent = [] then ''MISSING'' else intent);
          cur = (if current = [] then ''NONE'' else current)
      in if late then ''ZERO_FILL_PROOF_INVALIDATED_AFTER_RELEASE:'' @ incoming
         else ''EXIT_FILL_INTENT_MISMATCH:'' @ incoming @ '':CURRENT_PENDING:'' @ cur)"

definition terminal_fill_target_reached :: "ExitPlan \<Rightarrow> bool" where
  "terminal_fill_target_reached p \<longleftrightarrow>
     pending_intent_id p \<noteq> [] \<and> pending_order_terminal p \<and>
     (case pending_terminal_cumulative_fill p of
        None \<Rightarrow> False | Some t \<Rightarrow> 0 < t \<and> pending_filled_volume p = t)"

definition find_rule :: "ExitPlan \<Rightarrow> string \<Rightarrow> ExitRuleSpec option" where
  "find_rule p rid = List.find (\<lambda>r. rule_id r = rid) (rules (template p))"

definition complete_once_rule :: "ExitPlan \<Rightarrow> string \<Rightarrow> ExitPlan" where
  "complete_once_rule p rid =
     (if rid = [] then p
      else let target = dget_or (rule_target_volumes p) rid 0;
               filled = dget_or (rule_filled_volumes p) rid 0
           in case find_rule p rid of
                None \<Rightarrow> p
              | Some r \<Rightarrow>
                  if once r \<and> target \<le> filled \<and> 0 < target \<and> rule_id r \<notin> set (completed_rule_ids p)
                  then p\<lparr>completed_rule_ids := completed_rule_ids p @ [rule_id r]\<rparr> else p)"

definition finalize_pending :: "ExitPlan \<Rightarrow> ExitPlan" where
  "finalize_pending p =
     (let p1 = (if pending_rule_id p \<noteq> [] then complete_once_rule p (pending_rule_id p) else p);
          p2 = release_pending p1
      in p2\<lparr>status := (if remaining_volume p2 \<le> 0 then COMPLETED else PARTIALLY_EXITED)\<rparr>)"

section \<open>Commands\<close>

record ExitPlanCommand =
  command :: ExitPlanCommandType
  command_plan_id :: string
  command_template :: "ExitPlanTemplate option"
  command_reason :: string

definition plan_command :: "ExitPlan \<Rightarrow> ExitPlanCommand \<Rightarrow> ExitPlan res" where
  "plan_command p c =
     (case command c of
        UPSERT_POLICY \<Rightarrow>
          (case command_template c of
             None \<Rightarrow> Inr p
           | Some t \<Rightarrow>
               if config_version (template p) \<le> config_version t then apply_template p t else Inr p)
      | PAUSE \<Rightarrow> Inr (p\<lparr>status := PAUSED\<rparr>)
      | RESUME \<Rightarrow>
          if reconciliation_error p \<noteq> []
          then Inl (ValueError ''EXIT_PLAN_RECONCILIATION_REQUIRED'')
          else Inr (if 0 < remaining_volume p then p\<lparr>status := ACTIVE\<rparr> else p)
      | CANCEL \<Rightarrow> Inr (p\<lparr>status := CANCELLED, error_message := command_reason c\<rparr>))"

text \<open>Run an operation on one plan of the book; an unknown plan leaves the book alone.\<close>

definition with_plan :: "book \<Rightarrow> string \<Rightarrow> (ExitPlan \<Rightarrow> ExitPlan res) \<Rightarrow> book res" where
  "with_plan b pid f =
     (case dget b pid of
        None \<Rightarrow> Inr b
      | Some p \<Rightarrow> rbind (f p) (\<lambda>p'. Inr (dset pid p' b)))"

definition apply_command :: "book \<Rightarrow> ExitPlanCommand \<Rightarrow> book res" where
  "apply_command b c = with_plan b (command_plan_id c) (\<lambda>p. plan_command p c)"

definition register_entry_fill ::
  "book \<Rightarrow> ExitPlanTemplate \<Rightarrow> int \<Rightarrow> pyfloat \<Rightarrow> datetime option \<Rightarrow> book res" where
  "register_entry_fill b t volume price trade_time =
     rbind (case dget b (plan_id t) of
              None \<Rightarrow> Inr (new_plan t)
            | Some p \<Rightarrow>
                if config_version (template p) \<le> config_version t then apply_template p t else Inr p)
       (\<lambda>p. Inr (dset (plan_id t) (plan_register_entry_fill p volume price trade_time) b))"

section \<open>Evaluation and intents\<close>

fun book_evaluate_plans ::
  "registry \<Rightarrow> string \<Rightarrow> ExitEvaluationContext \<Rightarrow> book \<Rightarrow> (book \<times> ExitDecision list) res" where
  "book_evaluate_plans reg code ctx [] = Inr ([], [])"
| "book_evaluate_plans reg code ctx ((pid, p) # b) =
     (if instrument_code (template p) \<noteq> code
      then rbind (book_evaluate_plans reg code ctx b) (\<lambda>(b', ds). Inr ((pid, p) # b', ds))
      else rbind (evaluate reg p ctx) (\<lambda>(p', d).
           rbind (book_evaluate_plans reg code ctx b) (\<lambda>(b', ds).
             Inr ((pid, p') # b', (case d of None \<Rightarrow> ds | Some x \<Rightarrow> x # ds)))))"

text \<open>\<open>sorted(decisions, key=priority, reverse=True)\<close> keeps the order of equal priorities.\<close>

definition book_evaluate ::
  "registry \<Rightarrow> book \<Rightarrow> string \<Rightarrow> ExitEvaluationContext \<Rightarrow> (book \<times> ExitDecision list) res" where
  "book_evaluate reg b code ctx =
     rbind (book_evaluate_plans reg code ctx b) (\<lambda>(b', ds).
       Inr (b', sort_key (\<lambda>d. - decision_priority d) ds))"

text \<open>The first intent of a \<open>once\<close> rule fixes the volume that completes the rule.\<close>

definition record_once_target :: "ExitPlan \<Rightarrow> string \<Rightarrow> int \<Rightarrow> ExitPlan" where
  "record_once_target p rid volume =
     (case find_rule p rid of
        None \<Rightarrow> p
      | Some r \<Rightarrow>
          if once r \<and> \<not> dmem (rule_target_volumes p) (rule_id r)
          then p\<lparr>rule_target_volumes := dset (rule_id r) volume (rule_target_volumes p),
                 rule_filled_volumes := dsetdefault (rule_id r) 0 (rule_filled_volumes p)\<rparr>
          else p)"

definition plan_mark_intent :: "ExitPlan \<Rightarrow> ExitDecision \<Rightarrow> string \<Rightarrow> ExitPlan res" where
  "plan_mark_intent p d intent =
     (if intent \<in> set (reconciled_zero_fill_intent_ids p)
      then Inl (ValueError ''cannot reuse an intent proven to have zero execution'')
      else let p1 = p\<lparr>pending_intent_id := intent, pending_rule_id := decision_rule_id d,
                       pending_requested_volume := decision_volume d,
                       pending_filled_volume := 0, pending_order_terminal := False,
                       pending_terminal_cumulative_fill := None\<rparr>;
               p2 = record_once_target p1 (decision_rule_id d) (decision_volume d)
           in Inr (p2\<lparr>last_exit_reason := decision_reason d, status := EXIT_PENDING\<rparr>))"

definition mark_intent :: "book \<Rightarrow> ExitDecision \<Rightarrow> string \<Rightarrow> book res" where
  "mark_intent b d intent =
     with_plan b (decision_plan_id d) (\<lambda>p. plan_mark_intent p d intent)"

section \<open>Broker ORDER events\<close>

record OrderEvent =
  oe_intent_id :: string
  oe_status :: string
  oe_order_id :: string
  oe_risk_action :: string
  oe_timestamp_ms :: int
  oe_cumulative_filled_volume :: pyval

text \<open>Statuses by which a broker shows that an order exists or did work.\<close>

definition WORKING_STATUSES :: "string list" where
  "WORKING_STATUSES =
     [''PENDING'', ''REPORTED'', ''SUBMITTED'', ''ACCEPTED'', ''WORKING'', ''PARTIAL'',
      ''PARTIAL_FILLED'', ''FILLED'', ''RECONCILE_REQUIRED'']"

definition TERMINAL_STATUSES :: "string list" where
  "TERMINAL_STATUSES = [''FILLED'', ''REJECTED'', ''CANCELLED'', ''EXPIRED'']"

definition apply_terminal_order_event :: "ExitPlan \<Rightarrow> string \<Rightarrow> pyval \<Rightarrow> ExitPlan" where
  "apply_terminal_order_event p0 st cumulative =
     (let p = p0\<lparr>pending_order_terminal := True, status := EXIT_PENDING\<rparr>;
          consumed = max 0 (pending_filled_volume p)
      in case optional_non_negative_int cumulative of
           None \<Rightarrow> p
         | Some target \<Rightarrow>
             if (st = ''FILLED'' \<and> target = 0) \<or> target < consumed
                \<or> (case pending_terminal_cumulative_fill p of
                     None \<Rightarrow> False | Some previous \<Rightarrow> target < previous)
             then p
             else let p1 = p\<lparr>pending_terminal_cumulative_fill := Some target\<rparr>
                  in if consumed < target \<or> target = 0 then p1 else finalize_pending p1)"

definition late_after_zero_fill :: "ExitPlan \<Rightarrow> string \<Rightarrow> bool" where
  "late_after_zero_fill p intent \<longleftrightarrow>
     intent \<noteq> [] \<and> intent \<in> set (reconciled_zero_fill_intent_ids p)"

text \<open>The event belongs to the pending intent: the second half of \<open>apply_order_event\<close>.\<close>

definition plan_own_order_event :: "ExitPlan \<Rightarrow> OrderEvent \<Rightarrow> ExitPlan" where
  "plan_own_order_event p0 e =
     (let st = upper (oe_status e);
          sticky = reconciliation_error p0;
          p = (if oe_order_id e \<noteq> [] then p0\<lparr>pending_order_id := oe_order_id e\<rparr> else p0)
      in if st \<in> {''PENDING'', ''SUBMITTED'', ''ACCEPTED'', ''PARTIAL_FILLED''} then
           restore_reconciliation_error (p\<lparr>status := EXIT_PENDING\<rparr>) sticky
         else if st = ''RECONCILED_ZERO_FILL'' then
           let p1 = release_pending (remember_zero_fill_intent p (oe_intent_id e));
               p2 = (if upper (oe_risk_action e) = ''DELAY''
                     then p1\<lparr>retry_after_ms := max (retry_after_ms p1) (oe_timestamp_ms e + 1000)\<rparr>
                     else p1);
               p3 = p2\<lparr>status := (if 0 < exited_volume p2 then PARTIALLY_EXITED else ACTIVE)\<rparr>
           in restore_reconciliation_error p3 sticky
         else if st \<in> set TERMINAL_STATUSES then
           restore_reconciliation_error
             (apply_terminal_order_event p st (oe_cumulative_filled_volume e)) sticky
         else p)"

definition plan_order_event :: "ExitPlan \<Rightarrow> OrderEvent \<Rightarrow> ExitPlan" where
  "plan_order_event p e =
     (let intent = oe_intent_id e;
          late = late_after_zero_fill p intent;
          mismatch = (intent \<noteq> [] \<and> intent \<noteq> pending_intent_id p)
      in if (late \<or> mismatch) \<and> upper (oe_status e) \<in> set WORKING_STATUSES then
           p\<lparr>status := ERROR,
             error_message := fill_intent_mismatch_error intent (pending_intent_id p) late\<rparr>
         else if pending_intent_id p = [] \<or> intent \<noteq> pending_intent_id p then p
         else plan_own_order_event p e)"

definition apply_order_event :: "book \<Rightarrow> string \<Rightarrow> OrderEvent \<Rightarrow> book res" where
  "apply_order_event b pid e = with_plan b pid (\<lambda>p. Inr (plan_order_event p e))"

section \<open>TRADE fills\<close>

text \<open>The status of a plan after a fill was added to its totals.\<close>

definition settle_fill ::
  "ExitPlan \<Rightarrow> bool \<Rightarrow> bool \<Rightarrow> string \<Rightarrow> string \<Rightarrow> string \<Rightarrow> ExitPlan" where
  "settle_fill p matches_pending mismatches_pending resolved_rule_id late_error mismatch_error =
     (if mismatches_pending then
        p\<lparr>status := ERROR,
          error_message := (if late_error \<noteq> [] then late_error else mismatch_error)\<rparr>
      else if matches_pending \<and> pending_order_terminal p
              \<and> (case pending_terminal_cumulative_fill p of
                   None \<Rightarrow> False | Some t \<Rightarrow> t < pending_filled_volume p) then
        p\<lparr>status := EXIT_PENDING,
          error_message := ''TERMINAL_CUMULATIVE_FILL_BEHIND_EXECUTIONS:''
            @ string_of_int (the (pending_terminal_cumulative_fill p)) @ ''<''
            @ string_of_int (pending_filled_volume p)\<rparr>
      else if matches_pending \<and> pending_order_terminal p then
        (if terminal_fill_target_reached p then finalize_pending p
         else p\<lparr>status := EXIT_PENDING\<rparr>)
      else if remaining_volume p \<le> 0 then finalize_pending p
      else if \<not> matches_pending then
        (complete_once_rule p resolved_rule_id)\<lparr>status := PARTIALLY_EXITED\<rparr>
      else p\<lparr>status := EXIT_PENDING\<rparr>)"

text \<open>How a fill relates to the pending intent.\<close>

definition fill_matches_pending :: "ExitPlan \<Rightarrow> string \<Rightarrow> bool" where
  "fill_matches_pending p intent \<longleftrightarrow>
     pending_intent_id p \<noteq> [] \<and> intent \<noteq> [] \<and> intent = pending_intent_id p"

definition fill_mismatches_pending :: "ExitPlan \<Rightarrow> string \<Rightarrow> bool" where
  "fill_mismatches_pending p intent \<longleftrightarrow>
     \<not> fill_matches_pending p intent \<and> (pending_intent_id p \<noteq> [] \<or> intent \<noteq> [])"

definition late_safety_error :: "ExitPlan \<Rightarrow> string \<Rightarrow> string" where
  "late_safety_error p intent =
     (if late_after_zero_fill p intent
      then ''ZERO_FILL_PROOF_INVALIDATED_AFTER_RELEASE:'' @ intent else [])"

definition resolved_rule_id :: "ExitPlan \<Rightarrow> string \<Rightarrow> string \<Rightarrow> string" where
  "resolved_rule_id p rid intent =
     (if fill_matches_pending p intent then (if rid \<noteq> [] then rid else pending_rule_id p) else [])"

text \<open>A fill of \<open>applied\<close> shares enters the totals of the plan, its intent and its rule.\<close>

definition record_fill :: "ExitPlan \<Rightarrow> int \<Rightarrow> pyfloat \<Rightarrow> string \<Rightarrow> string \<Rightarrow> ExitPlan" where
  "record_fill p applied price rid intent =
     (let previous = exited_volume p;
          total = previous + applied;
          resolved = resolved_rule_id p rid intent
      in p\<lparr>exit_avg_price :=
             fdiv (fadd (fmul (exit_avg_price p) (float_of_int previous))
                    (fmul price (float_of_int applied)))
               (float_of_int total),
           exited_volume := total,
           pending_filled_volume :=
             (if fill_matches_pending p intent then pending_filled_volume p + applied
              else pending_filled_volume p),
           rule_filled_volumes :=
             (if resolved \<noteq> []
              then dset resolved (dget_or (rule_filled_volumes p) resolved 0 + applied)
                     (rule_filled_volumes p)
              else rule_filled_volumes p)\<rparr>)"

text \<open>The branch of \<open>apply_exit_fill\<close> that has shares left to apply.\<close>

definition plan_applied_fill :: "ExitPlan \<Rightarrow> int \<Rightarrow> pyfloat \<Rightarrow> string \<Rightarrow> string \<Rightarrow> ExitPlan" where
  "plan_applied_fill p applied price rid intent =
     (let sticky = reconciliation_error p;
          late_error = late_safety_error p intent;
          mismatches = fill_mismatches_pending p intent;
          q = settle_fill (record_fill p applied price rid intent)
                (fill_matches_pending p intent) mismatches (resolved_rule_id p rid intent) late_error
                (fill_intent_mismatch_error intent (pending_intent_id p) False)
      in if sticky \<noteq> [] then restore_reconciliation_error q sticky
         else if late_error \<noteq> [] \<and> \<not> mismatches
         then q\<lparr>status := ERROR, error_message := late_error\<rparr>
         else q)"

definition plan_exit_fill :: "ExitPlan \<Rightarrow> int \<Rightarrow> pyfloat \<Rightarrow> string \<Rightarrow> string \<Rightarrow> ExitPlan" where
  "plan_exit_fill p volume price rid intent =
     (let fill_volume = max 0 volume;
          applied = min fill_volume (remaining_volume p)
      in if fill_volume \<le> 0 \<or> fle price fzero then p
         else if applied \<le> 0 then
           (let late_error = late_safety_error p intent
            in if fill_mismatches_pending p intent \<or> late_error \<noteq> []
               then p\<lparr>status := ERROR,
                      error_message := (if late_error \<noteq> [] then late_error
                        else fill_intent_mismatch_error intent (pending_intent_id p) False)\<rparr>
               else p)
         else plan_applied_fill p applied price rid intent)"

definition apply_exit_fill ::
  "book \<Rightarrow> string \<Rightarrow> int \<Rightarrow> pyfloat \<Rightarrow> string \<Rightarrow> string \<Rightarrow> book res" where
  "apply_exit_fill b pid volume price rid intent =
     with_plan b pid (\<lambda>p. Inr (plan_exit_fill p volume price rid intent))"

section \<open>Queries and pruning\<close>

definition terminal_plan :: "ExitPlan \<Rightarrow> bool" where
  "terminal_plan p \<longleftrightarrow> status p \<in> {COMPLETED, CANCELLED}"

definition active_plans :: "book \<Rightarrow> ExitPlan list" where
  "active_plans b = filter (\<lambda>p. \<not> terminal_plan p \<and> 0 < remaining_volume p) (dvalues b)"

definition prune_terminal :: "book \<Rightarrow> int \<Rightarrow> book \<times> string list" where
  "prune_terminal b max_terminal =
     (let limit = max 0 max_terminal;
          terminal_ids = map fst (filter (\<lambda>(pid, p). terminal_plan p) b);
          removed = take (nat (max 0 (int (length terminal_ids) - limit))) terminal_ids
      in (fold dpop removed b, removed))"

end
