(* ===== verification/Exit_Safety.thy ===== *)
theory Exit_Safety
  imports Exit_Book
begin

text \<open>
  What the lifecycle of an exit plan guarantees: the invariant every operation of the book
  keeps, the frame of each operation, and the properties built on them.
\<close>

section \<open>The invariant of a plan\<close>

definition pending_clear :: "ExitPlan \<Rightarrow> bool" where
  "pending_clear p \<longleftrightarrow>
     pending_order_id p = [] \<and> pending_rule_id p = [] \<and> pending_requested_volume p = 0
     \<and> pending_filled_volume p = 0 \<and> \<not> pending_order_terminal p
     \<and> pending_terminal_cumulative_fill p = None"

text \<open>Never more sold than bought; a completed plan has sold everything.\<close>

definition position_ok :: "ExitPlan \<Rightarrow> bool" where
  "position_ok p \<longleftrightarrow>
     0 \<le> exited_volume p \<and> exited_volume p \<le> entry_filled_volume p
     \<and> (status p = COMPLETED \<longrightarrow> exited_volume p = entry_filled_volume p)"

text \<open>
  The gate that keeps a second sell from being issued: without an intent every pending
  field is clear, and a plan that waits for its exit has an intent.
\<close>

definition gate_ok :: "ExitPlan \<Rightarrow> bool" where
  "gate_ok p \<longleftrightarrow>
     0 \<le> pending_filled_volume p
     \<and> (status p = EXIT_PENDING \<longrightarrow> pending_intent_id p \<noteq> [])
     \<and> (pending_intent_id p = [] \<longrightarrow> pending_clear p)
     \<and> (\<forall>t. pending_terminal_cumulative_fill p = Some t \<longrightarrow> 0 \<le> t \<and> pending_order_terminal p)"

text \<open>An intent proven to have executed nothing is remembered once and never pending again.\<close>

definition history_ok :: "ExitPlan \<Rightarrow> bool" where
  "history_ok p \<longleftrightarrow>
     pending_intent_id p \<notin> set (reconciled_zero_fill_intent_ids p)
     \<and> distinct (reconciled_zero_fill_intent_ids p)
     \<and> [] \<notin> set (reconciled_zero_fill_intent_ids p)"

definition plan_ok :: "ExitPlan \<Rightarrow> bool" where
  "plan_ok p \<longleftrightarrow> position_ok p \<and> gate_ok p \<and> history_ok p"

lemmas plan_ok_defs = plan_ok_def position_ok_def gate_ok_def history_ok_def pending_clear_def

lemma plan_ok_new: "plan_ok (new_plan t)"
  by (simp add: plan_ok_defs new_plan_def)

lemma plan_ok_entry: "plan_ok p \<Longrightarrow> plan_ok (plan_register_entry_fill p v pr t)"
  unfolding plan_ok_defs plan_register_entry_fill_def Let_def
  by (auto split: option.splits)

lemma plan_ok_template: "plan_ok p \<Longrightarrow> apply_template p t = Inr q \<Longrightarrow> plan_ok q"
  by (auto simp: plan_ok_defs apply_template_def split: if_splits option.splits)

lemma plan_ok_status:
  "plan_ok p \<Longrightarrow> s \<notin> {EXIT_PENDING, COMPLETED} \<Longrightarrow> plan_ok (p\<lparr>status := s\<rparr>)"
  by (simp add: plan_ok_defs)

lemma plan_ok_status_error:
  "plan_ok p \<Longrightarrow> s \<notin> {EXIT_PENDING, COMPLETED} \<Longrightarrow> plan_ok (p\<lparr>status := s, error_message := e\<rparr>)"
  by (simp add: plan_ok_defs)

lemma plan_ok_command: "plan_ok p \<Longrightarrow> plan_command p c = Inr q \<Longrightarrow> plan_ok q"
  by (auto simp: plan_command_def plan_ok_status plan_ok_status_error intro: plan_ok_template
      split: ExitPlanCommandType.splits option.splits if_splits)

lemma plan_ok_cong:
  assumes "plan_ok p" "exited_volume q = exited_volume p"
    "entry_filled_volume q = entry_filled_volume p"
    "reconciled_zero_fill_intent_ids q = reconciled_zero_fill_intent_ids p"
    "status q = COMPLETED \<longrightarrow> status p = COMPLETED" "gate_ok q"
    "pending_intent_id q \<notin> set (reconciled_zero_fill_intent_ids p)"
  shows "plan_ok q"
  using assms by (simp add: plan_ok_def position_ok_def history_ok_def)

lemma record_once_frame [simp]:
  "exited_volume (record_once_target p r v) = exited_volume p"
  "entry_filled_volume (record_once_target p r v) = entry_filled_volume p"
  "reconciled_zero_fill_intent_ids (record_once_target p r v) = reconciled_zero_fill_intent_ids p"
  "pending_intent_id (record_once_target p r v) = pending_intent_id p"
  "pending_filled_volume (record_once_target p r v) = pending_filled_volume p"
  "pending_terminal_cumulative_fill (record_once_target p r v) = pending_terminal_cumulative_fill p"
  "template (record_once_target p r v) = template p"
  by (auto simp: record_once_target_def split: option.splits)

lemma plan_ok_mark_intent:
  assumes "plan_ok p" "i \<noteq> []" "plan_mark_intent p d i = Inr q"
  shows "plan_ok q"
  using assms(2,3) by (intro plan_ok_cong [OF assms(1), of q])
    (auto simp: plan_mark_intent_def Let_def gate_ok_def split: if_splits)

lemma plan_ok_evaluation: "plan_ok p \<Longrightarrow> evaluation_frame p q \<Longrightarrow> plan_ok q"
  unfolding evaluation_frame_def by (cases p; cases q) (simp add: plan_ok_defs)

lemma complete_once_frame [simp]:
  "status (complete_once_rule p r) = status p"
  "exited_volume (complete_once_rule p r) = exited_volume p"
  "entry_filled_volume (complete_once_rule p r) = entry_filled_volume p"
  "exit_avg_price (complete_once_rule p r) = exit_avg_price p"
  "pending_intent_id (complete_once_rule p r) = pending_intent_id p"
  "pending_order_id (complete_once_rule p r) = pending_order_id p"
  "pending_rule_id (complete_once_rule p r) = pending_rule_id p"
  "pending_requested_volume (complete_once_rule p r) = pending_requested_volume p"
  "pending_filled_volume (complete_once_rule p r) = pending_filled_volume p"
  "pending_order_terminal (complete_once_rule p r) = pending_order_terminal p"
  "pending_terminal_cumulative_fill (complete_once_rule p r) = pending_terminal_cumulative_fill p"
  "reconciled_zero_fill_intent_ids (complete_once_rule p r) = reconciled_zero_fill_intent_ids p"
  "rule_target_volumes (complete_once_rule p r) = rule_target_volumes p"
  "rule_filled_volumes (complete_once_rule p r) = rule_filled_volumes p"
  "error_message (complete_once_rule p r) = error_message p"
  "template (complete_once_rule p r) = template p"
  "remaining_volume (complete_once_rule p r) = remaining_volume p"
  by (auto simp: complete_once_rule_def remaining_volume_def Let_def split: option.splits)

lemma release_frame [simp]:
  "exited_volume (release_pending p) = exited_volume p"
  "entry_filled_volume (release_pending p) = entry_filled_volume p"
  "reconciled_zero_fill_intent_ids (release_pending p) = reconciled_zero_fill_intent_ids p"
  "status (release_pending p) = status p" "error_message (release_pending p) = error_message p"
  "remaining_volume (release_pending p) = remaining_volume p"
  "pending_intent_id (release_pending p) = []" "pending_clear (release_pending p)"
  by (simp_all add: release_pending_def remaining_volume_def pending_clear_def)

lemma finalize_frame [simp]:
  "exited_volume (finalize_pending p) = exited_volume p"
  "entry_filled_volume (finalize_pending p) = entry_filled_volume p"
  "reconciled_zero_fill_intent_ids (finalize_pending p) = reconciled_zero_fill_intent_ids p"
  "error_message (finalize_pending p) = error_message p"
  "remaining_volume (finalize_pending p) = remaining_volume p"
  "pending_intent_id (finalize_pending p) = []"
  "status (finalize_pending p) = (if remaining_volume p \<le> 0 then COMPLETED else PARTIALLY_EXITED)"
  "pending_clear (finalize_pending p)"
  by (auto simp: finalize_pending_def Let_def remaining_volume_def pending_clear_def release_pending_def)

lemma pending_clear_eqs:
  "pending_clear p \<Longrightarrow> pending_filled_volume p = 0 \<and> pending_terminal_cumulative_fill p = None"
  by (simp add: pending_clear_def)

lemma plan_ok_finalize: "plan_ok p \<Longrightarrow> plan_ok (finalize_pending p)"
  using pending_clear_eqs [of "finalize_pending p"]
  by (simp add: plan_ok_def position_ok_def gate_ok_def history_ok_def)
    (simp add: remaining_volume_def)

lemma plan_ok_restore: "plan_ok p \<Longrightarrow> plan_ok (restore_reconciliation_error p e)"
  by (auto simp: restore_reconciliation_error_def plan_ok_defs)

lemma plan_ok_error: "plan_ok p \<Longrightarrow> plan_ok (p\<lparr>status := ERROR, error_message := e\<rparr>)"
  by (simp add: plan_ok_status_error)

lemma plan_ok_exit_pending:
  "plan_ok p \<Longrightarrow> pending_intent_id p \<noteq> [] \<Longrightarrow> plan_ok (p\<lparr>status := EXIT_PENDING\<rparr>)"
  by (auto simp: plan_ok_defs)

lemma optional_non_negative_int_nonneg: "optional_non_negative_int v = Some n \<Longrightarrow> 0 \<le> n"
  by (cases v) (auto split: if_splits sum.splits)

lemma plan_ok_terminal_order:
  assumes "plan_ok p" "pending_intent_id p \<noteq> []"
  shows "plan_ok (apply_terminal_order_event p st c)"
proof -
  have "plan_ok (p\<lparr>pending_order_terminal := True, status := EXIT_PENDING\<rparr>)"
    using assms by (auto simp: plan_ok_defs split: option.splits)
  moreover have "plan_ok (p\<lparr>pending_order_terminal := True, status := EXIT_PENDING,
      pending_terminal_cumulative_fill := Some t\<rparr>)" if "0 \<le> t" for t
    using assms that by (auto simp: plan_ok_defs)
  ultimately show ?thesis
    by (auto simp: apply_terminal_order_event_def Let_def dest: optional_non_negative_int_nonneg
        intro!: plan_ok_finalize split: option.splits)
qed

lemma plan_ok_zero_fill_release:
  assumes "plan_ok p" "s \<in> {ACTIVE, PARTIALLY_EXITED}"
  shows "plan_ok ((release_pending (remember_zero_fill_intent p i))\<lparr>status := s\<rparr>)"
    "plan_ok ((release_pending (remember_zero_fill_intent p i))\<lparr>retry_after_ms := r, status := s\<rparr>)"
  using assms by (simp_all add: plan_ok_defs release_pending_def remember_zero_fill_intent_def) auto

lemma plan_ok_order_id:
  "plan_ok p \<Longrightarrow> pending_intent_id p \<noteq> [] \<Longrightarrow> plan_ok (p\<lparr>pending_order_id := o'\<rparr>)"
  by (auto simp: plan_ok_defs)

lemma plan_ok_own_order:
  assumes "plan_ok p" "pending_intent_id p \<noteq> []"
  shows "plan_ok (plan_own_order_event p e)"
proof -
  define q where "q = (if oe_order_id e \<noteq> [] then p\<lparr>pending_order_id := oe_order_id e\<rparr> else p)"
  have q: "plan_ok q" "pending_intent_id q \<noteq> []"
    using assms by (auto simp: q_def plan_ok_order_id)
  show ?thesis unfolding plan_own_order_event_def Let_def q_def [symmetric]
    using q by (auto intro!: plan_ok_restore plan_ok_terminal_order plan_ok_exit_pending
        plan_ok_zero_fill_release)
qed

lemma plan_ok_order_event: "plan_ok p \<Longrightarrow> plan_ok (plan_order_event p e)"
  by (auto simp: plan_order_event_def Let_def intro: plan_ok_error plan_ok_own_order)

lemma plan_ok_settle:
  assumes "plan_ok p" "matching \<longrightarrow> pending_intent_id p \<noteq> []"
  shows "plan_ok (settle_fill p matching mis r l m)"
proof -
  have c: "plan_ok ((complete_once_rule p r)\<lparr>status := PARTIALLY_EXITED\<rparr>)"
    using assms(1) by (auto simp: plan_ok_defs)
  show ?thesis
    using assms c plan_ok_finalize [OF assms(1)] plan_ok_error [OF assms(1)]
    by (auto simp: settle_fill_def intro: plan_ok_exit_pending)
      (auto simp: plan_ok_defs split: option.splits)
qed

lemma record_fill_frame [simp]:
  "exited_volume (record_fill p a x r i) = exited_volume p + a"
  "entry_filled_volume (record_fill p a x r i) = entry_filled_volume p"
  "pending_intent_id (record_fill p a x r i) = pending_intent_id p"
  "pending_filled_volume (record_fill p a x r i) =
     (if fill_matches_pending p i then pending_filled_volume p + a else pending_filled_volume p)"
  "pending_order_terminal (record_fill p a x r i) = pending_order_terminal p"
  "pending_terminal_cumulative_fill (record_fill p a x r i) = pending_terminal_cumulative_fill p"
  "pending_rule_id (record_fill p a x r i) = pending_rule_id p"
  "pending_order_id (record_fill p a x r i) = pending_order_id p"
  "pending_requested_volume (record_fill p a x r i) = pending_requested_volume p"
  "reconciled_zero_fill_intent_ids (record_fill p a x r i) = reconciled_zero_fill_intent_ids p"
  "status (record_fill p a x r i) = status p"
  "error_message (record_fill p a x r i) = error_message p"
  "template (record_fill p a x r i) = template p"
  by (simp_all add: record_fill_def Let_def)

lemma plan_ok_record_fill:
  assumes "plan_ok p" "0 < a" "exited_volume p + a \<le> entry_filled_volume p"
  shows "plan_ok (record_fill p a x r i)"
proof -
  have "fill_matches_pending p i \<Longrightarrow> pending_intent_id p \<noteq> []"
    by (simp add: fill_matches_pending_def)
  then show ?thesis using assms by (auto simp: plan_ok_defs)
qed

lemma plan_ok_applied_fill:
  assumes "plan_ok p" "0 < a" "exited_volume p + a \<le> entry_filled_volume p"
  shows "plan_ok (plan_applied_fill p a x r i)"
proof -
  define q where "q = settle_fill (record_fill p a x r i) (fill_matches_pending p i)
    (fill_mismatches_pending p i) (resolved_rule_id p r i) (late_safety_error p i)
    (fill_intent_mismatch_error i (pending_intent_id p) False)"
  have "plan_ok q" unfolding q_def
    using plan_ok_record_fill [OF assms] by (intro plan_ok_settle) (simp_all add: fill_matches_pending_def)
  then show ?thesis
    unfolding plan_applied_fill_def Let_def q_def [symmetric] by (simp add: plan_ok_restore plan_ok_error)
qed

lemma plan_ok_exit_fill:
  assumes "plan_ok p"
  shows "plan_ok (plan_exit_fill p v x r i)"
proof -
  have "plan_ok (plan_applied_fill p (min v (remaining_volume p)) x r i)"
    if "0 < v" "0 < remaining_volume p"
    using that assms by (intro plan_ok_applied_fill)
      (auto simp: remaining_volume_def plan_ok_def position_ok_def)
  then show ?thesis
    using assms by (simp add: plan_exit_fill_def Let_def plan_ok_error)
qed

lemma settle_fill_frame [simp]:
  "exited_volume (settle_fill p m mis r l e) = exited_volume p"
  "entry_filled_volume (settle_fill p m mis r l e) = entry_filled_volume p"
  "reconciled_zero_fill_intent_ids (settle_fill p m mis r l e) = reconciled_zero_fill_intent_ids p"
  by (simp_all add: settle_fill_def)

lemma restore_frame [simp]:
  "exited_volume (restore_reconciliation_error p e) = exited_volume p"
  "entry_filled_volume (restore_reconciliation_error p e) = entry_filled_volume p"
  "pending_intent_id (restore_reconciliation_error p e) = pending_intent_id p"
  "reconciled_zero_fill_intent_ids (restore_reconciliation_error p e) = reconciled_zero_fill_intent_ids p"
  by (simp_all add: restore_reconciliation_error_def)

lemma applied_fill_frame [simp]:
  "exited_volume (plan_applied_fill p a x r i) = exited_volume p + a"
  "entry_filled_volume (plan_applied_fill p a x r i) = entry_filled_volume p"
  "reconciled_zero_fill_intent_ids (plan_applied_fill p a x r i) = reconciled_zero_fill_intent_ids p"
  by (simp_all add: plan_applied_fill_def Let_def)

lemma exit_fill_frame [simp]:
  "entry_filled_volume (plan_exit_fill p v x r i) = entry_filled_volume p"
  "reconciled_zero_fill_intent_ids (plan_exit_fill p v x r i) = reconciled_zero_fill_intent_ids p"
  by (simp_all add: plan_exit_fill_def Let_def)

lemma exit_fill_exited:
  "exited_volume (plan_exit_fill p v x r i) =
     exited_volume p + (if fle x fzero then 0 else max 0 (min v (remaining_volume p)))"
  by (auto simp: plan_exit_fill_def Let_def)

section \<open>Order events\<close>

lemma terminal_order_frame [simp]:
  "exited_volume (apply_terminal_order_event p st c) = exited_volume p"
  "entry_filled_volume (apply_terminal_order_event p st c) = entry_filled_volume p"
  "reconciled_zero_fill_intent_ids (apply_terminal_order_event p st c) = reconciled_zero_fill_intent_ids p"
  by (simp_all add: apply_terminal_order_event_def Let_def split: option.split)

lemma remember_frame [simp]:
  "exited_volume (remember_zero_fill_intent p i) = exited_volume p"
  "entry_filled_volume (remember_zero_fill_intent p i) = entry_filled_volume p"
  "pending_intent_id (remember_zero_fill_intent p i) = pending_intent_id p"
  by (simp_all add: remember_zero_fill_intent_def)

lemma own_order_frame:
  "exited_volume (plan_own_order_event p e) = exited_volume p"
  "entry_filled_volume (plan_own_order_event p e) = entry_filled_volume p"
  by (simp_all add: plan_own_order_event_def Let_def)

lemma order_event_frame:
  "exited_volume (plan_order_event p e) = exited_volume p"
  "entry_filled_volume (plan_order_event p e) = entry_filled_volume p"
  by (simp_all add: plan_order_event_def Let_def own_order_frame)

lemma terminal_order_release:
  assumes "pending_intent_id p \<noteq> []" "pending_intent_id (apply_terminal_order_event p st c) = []"
    "0 \<le> pending_filled_volume p"
  shows "optional_non_negative_int c = Some (pending_filled_volume p) \<and> 0 < pending_filled_volume p"
  using assms by (auto simp: apply_terminal_order_event_def Let_def max_def
      split: option.split_asm if_split_asm)

lemma own_order_release:
  assumes "pending_intent_id p \<noteq> []" "pending_intent_id (plan_own_order_event p e) = []"
    "0 \<le> pending_filled_volume p"
  shows "upper (oe_status e) = ''RECONCILED_ZERO_FILL'' \<or>
     upper (oe_status e) \<in> set TERMINAL_STATUSES \<and>
     optional_non_negative_int (oe_cumulative_filled_volume e) = Some (pending_filled_volume p) \<and>
     0 < pending_filled_volume p"
proof -
  define q where "q = (if oe_order_id e \<noteq> [] then p\<lparr>pending_order_id := oe_order_id e\<rparr> else p)"
  have q: "pending_intent_id q = pending_intent_id p" "pending_filled_volume q = pending_filled_volume p"
    by (simp_all add: q_def)
  show ?thesis
    using assms terminal_order_release [of q "upper (oe_status e)" "oe_cumulative_filled_volume e"] q
    unfolding plan_own_order_event_def Let_def q_def [symmetric]
    by (simp split: if_split_asm)
qed

section \<open>The book as a state machine\<close>

text \<open>\<open>ExitSizingPolicy\<close> cannot be built with a lot size that is not positive.\<close>

definition template_ok :: "ExitPlanTemplate \<Rightarrow> bool" where
  "template_ok t \<longleftrightarrow> list_all (\<lambda>r. 0 < lot_size (sizing r)) (rules t)"

definition command_ok :: "ExitPlanCommand \<Rightarrow> bool" where
  "command_ok c \<longleftrightarrow> (case command_template c of None \<Rightarrow> True | Some t \<Rightarrow> template_ok t)"

text \<open>One call of a method of the book that returns. An intent has an id of its own.\<close>

inductive book_step :: "book \<Rightarrow> book \<Rightarrow> bool" where
  step_entry: "template_ok t \<Longrightarrow> register_entry_fill b t v x tt = Inr b' \<Longrightarrow> book_step b b'"
| step_command: "command_ok c \<Longrightarrow> apply_command b c = Inr b' \<Longrightarrow> book_step b b'"
| step_evaluate: "book_evaluate builtins b code ctx = Inr (b', ds) \<Longrightarrow> book_step b b'"
| step_intent: "i \<noteq> [] \<Longrightarrow> mark_intent b d i = Inr b' \<Longrightarrow> book_step b b'"
| step_order: "apply_order_event b pid e = Inr b' \<Longrightarrow> book_step b b'"
| step_fill: "apply_exit_fill b pid v x r i = Inr b' \<Longrightarrow> book_step b b'"
| step_prune: "prune_terminal b n = (b', removed) \<Longrightarrow> book_step b b'"

inductive book_reachable :: "book \<Rightarrow> bool" where
  book_start: "book_reachable []"
| book_next: "book_reachable b \<Longrightarrow> book_step b b' \<Longrightarrow> book_reachable b'"

definition entry_ok :: "string \<Rightarrow> ExitPlan \<Rightarrow> bool" where
  "entry_ok pid p \<longleftrightarrow> plan_ok p \<and> template_ok (template p) \<and> plan_id (template p) = pid"

definition book_ok :: "book \<Rightarrow> bool" where
  "book_ok b \<longleftrightarrow> distinct (dkeys b) \<and> list_all (\<lambda>(pid, p). entry_ok pid p) b"

lemma book_ok_stored: "book_ok b \<longleftrightarrow> distinct (dkeys b) \<and> dict.all_stored entry_ok b"
  by (auto simp: book_ok_def dict.all_stored_def list_all_iff intro: in_set_dget dest: dget_in_set)

lemma book_ok_dget: "book_ok b \<Longrightarrow> dget b pid = Some p \<Longrightarrow> entry_ok pid p"
  by (auto simp: book_ok_stored dest: dict.all_storedD)

lemma book_ok_dset: "book_ok b \<Longrightarrow> entry_ok pid p \<Longrightarrow> book_ok (dset pid p b)"
  by (simp add: book_ok_stored dkeys_dset dict.all_stored_put)

lemma book_ok_dpop: "book_ok b \<Longrightarrow> book_ok (dpop pid b)"
  by (simp add: book_ok_stored dkeys_dpop dict.all_stored_rem)

lemma book_ok_with_plan:
  assumes "with_plan b pid f = Inr b'" "book_ok b" "\<And>p q. entry_ok pid p \<Longrightarrow> f p = Inr q \<Longrightarrow> entry_ok pid q"
  shows "book_ok b'"
  using assms by (auto simp: with_plan_def res_simps split: option.splits
      intro!: book_ok_dset dest: book_ok_dget)

lemma template_frame [simp]:
  "template (plan_register_entry_fill p v x tt) = template p"
  "template (finalize_pending p) = template p"
  "template (release_pending p) = template p"
  "template (remember_zero_fill_intent p i) = template p"
  "template (restore_reconciliation_error p er) = template p"
  "template (settle_fill p m mis r l er) = template p"
  by (simp_all add: plan_register_entry_fill_def finalize_pending_def release_pending_def
      remember_zero_fill_intent_def restore_reconciliation_error_def settle_fill_def Let_def
      split: option.split)

lemma template_order [simp]:
  "template (apply_terminal_order_event p st c) = template p"
  "template (plan_own_order_event p e) = template p"
  "template (plan_order_event p e) = template p"
  by (simp_all add: apply_terminal_order_event_def plan_own_order_event_def plan_order_event_def
      Let_def split: option.split)

lemma template_fill [simp]: "template (plan_exit_fill p v x r i) = template p"
  by (simp add: plan_exit_fill_def plan_applied_fill_def Let_def)

lemma template_command:
  "plan_command p c = Inr q \<Longrightarrow> plan_id (template q) = plan_id (template p)
     \<and> (template q = template p \<or> command_template c = Some (template q))"
  by (auto simp: plan_command_def apply_template_def
      split: ExitPlanCommandType.splits option.splits if_splits)

lemma template_intent: "plan_mark_intent p d i = Inr q \<Longrightarrow> template q = template p"
  by (auto simp: plan_mark_intent_def Let_def split: if_splits)

lemma book_ok_Cons:
  "book_ok ((pid, p) # b) \<longleftrightarrow> pid \<notin> set (dkeys b) \<and> entry_ok pid p \<and> book_ok b"
  by (auto simp: book_ok_def dkeys_def)

lemma book_evaluate_plans_ok:
  "book_ok b \<Longrightarrow> book_evaluate_plans builtins code ctx b = Inr (b', ds) \<Longrightarrow>
     book_ok b' \<and> dkeys b' = dkeys b"
proof (induction b arbitrary: b' ds)
  case (Cons a b)
  obtain pid p where a: "a = (pid, p)" by fastforce
  have "entry_ok pid q" if "evaluate builtins p ctx = Inr (q, d)" for q d
    using Cons.prems(1) builtin_rules.evaluate_frame [OF that]
    by (auto simp: a book_ok_Cons entry_ok_def evaluation_frame_eqs intro: plan_ok_evaluation)
  with Cons show ?case
    by (auto simp: a res_simps book_ok_Cons dkeys_def split: if_splits)
qed simp

lemma book_ok_prune: "book_ok b \<Longrightarrow> book_ok (fold dpop ids b)"
  by (induction ids arbitrary: b) (auto intro: book_ok_dpop)

lemma book_ok_entry:
  assumes "book_ok b" "template_ok t" "register_entry_fill b t v x tt = Inr b'"
  shows "book_ok b'"
proof -
  have "entry_ok (plan_id t) (plan_register_entry_fill p v x tt)"
    if "entry_ok (plan_id t) p" for p
    using that by (simp add: entry_ok_def plan_ok_entry)
  moreover have "entry_ok (plan_id t) (new_plan t)"
    using assms(2) by (simp add: entry_ok_def plan_ok_new) (simp add: new_plan_def)
  moreover have "entry_ok (plan_id t) q" if "entry_ok (plan_id t) p" "apply_template p t = Inr q" for p q
    using that assms(2) plan_ok_template [of p t q] by (auto simp: entry_ok_def apply_template_def split: if_splits)
  ultimately show ?thesis
    using assms book_ok_dget [OF assms(1), of "plan_id t"]
    by (fastforce simp: register_entry_fill_def res_simps split: option.splits if_splits
        intro!: book_ok_dset)
qed

lemma book_ok_step: "book_step b b' \<Longrightarrow> book_ok b \<Longrightarrow> book_ok b'"
proof (induction rule: book_step.induct)
  case (step_entry t b v x tt b')
  then show ?case by (blast intro: book_ok_entry)
next
  case (step_command c b b')
  have "entry_ok pid q" if e: "entry_ok pid p" and q: "plan_command p c = Inr q" for pid p q
    using template_command [OF q] plan_ok_command [OF _ q] e step_command(1)
    by (elim conjE disjE) (simp_all add: entry_ok_def command_ok_def)
  with step_command(2,3) show ?case unfolding apply_command_def
    by (blast intro: book_ok_with_plan)
next
  case (step_evaluate b code ctx b' ds)
  then show ?case
    by (auto simp: book_evaluate_def res_simps dest: book_evaluate_plans_ok)
next
  case (step_intent i b d b')
  from step_intent(2,3) show ?case unfolding mark_intent_def
    using step_intent(1) by - (erule book_ok_with_plan, auto simp: entry_ok_def template_intent intro: plan_ok_mark_intent)
next
  case (step_order b pid e b')
  then show ?case unfolding apply_order_event_def
    by (rule book_ok_with_plan) (auto simp: entry_ok_def plan_ok_order_event)
next
  case (step_fill b pid v x r i b')
  then show ?case unfolding apply_exit_fill_def
    by (rule book_ok_with_plan) (auto simp: entry_ok_def plan_ok_exit_fill)
next
  case (step_prune b n b' removed)
  then show ?case by (auto simp: prune_terminal_def Let_def intro: book_ok_prune)
qed

lemma book_ok_empty [simp]: "book_ok []"
  by (simp add: book_ok_def dkeys_def)

lemma book_reachable_ok: "book_reachable b \<Longrightarrow> book_ok b"
  by (induction rule: book_reachable.induct) (auto intro: book_ok_step)

section \<open>A plan to test on\<close>

text \<open>A plan that bought 1000 shares at 10 and is to sell them all as soon as it may.\<close>

definition sample_rule :: ExitRuleSpec where
  "sample_rule =
     \<lparr>strategy = ''MANUAL_TRIGGER'', parameters = [], priority = 100,
      sizing = default_sizing, enabled = True, once = True, rule_id = ''R1''\<rparr>"

definition sample_template :: ExitPlanTemplate where
  "sample_template =
     \<lparr>plan_id = ''P1'', source_type = ''STRATEGY'', source_id = ''S1'', account_id = ''A1'',
      instrument_code = ''600000.SH'', template_bucket = ''t_inventory'', rules = [sample_rule],
      strategy_id = [], run_id = [], config_version = 1, costs = default_costs,
      t1_policy = WAIT_UNTIL_SELLABLE,
      execution = \<lparr>price_reference = BID, price_type = ''LIMIT'', protected_limit = True,
                    max_slippage_bps = Fin 10, urgency = ''NORMAL'', execution_mode = ''AUTO''\<rparr>,
      metadata = [], auto_exit_authorized = True\<rparr>"

definition sample_plan :: ExitPlan where
  "sample_plan = (new_plan sample_template)
     \<lparr>status := ACTIVE, entry_filled_volume := 1000, entry_avg_price := Fin 10\<rparr>"

text \<open>The same plan waiting for the execution of its intent \<open>I1\<close>.\<close>

definition sample_pending :: ExitPlan where
  "sample_pending = sample_plan
     \<lparr>status := EXIT_PENDING, pending_intent_id := ''I1'', pending_rule_id := ''R1'',
      pending_requested_volume := 1000, rule_target_volumes := [(''R1'', 1000)],
      rule_filled_volumes := [(''R1'', 0)], last_exit_reason := ''manual_liquidation_confirmed''\<rparr>"

definition sample_order :: "string \<Rightarrow> int \<Rightarrow> OrderEvent" where
  "sample_order st n =
     \<lparr>oe_intent_id = ''I1'', oe_status = st, oe_order_id = ''O1'', oe_risk_action = [],
      oe_timestamp_ms = 0, oe_cumulative_filled_volume = VInt n\<rparr>"

text \<open>A tick without a price, on which only the manual rule acts.\<close>

definition sample_context :: ExitEvaluationContext where
  "sample_context =
     \<lparr>timestamp = \<lparr>dt_date = ''2025-01-02'', dt_time = 0, dt_iso = ''2025-01-02T00:00:00'',
                    dt_timestamp = 0\<rparr>,
      current_price = fzero, bid_price = fzero, ask_price = fzero, limit_up = fzero,
      limit_down = fzero, price_tick = fzero, cumulative_volume = None, cumulative_amount = None,
      depth_imbalance_5 = None, market_data_age_seconds = fzero,
      volume_data_age_seconds = fzero, context_source = []\<rparr>"

lemmas sample_defs = sample_plan_def sample_pending_def sample_template_def sample_rule_def
  sample_order_def new_plan_def

lemma sample_plan_reachable: "book_reachable [(''P1'', sample_plan)]"
proof -
  have "register_entry_fill [] sample_template 1000 (Fin 10) None = Inr [(''P1'', sample_plan)]"
    by (simp add: register_entry_fill_def plan_register_entry_fill_def float_of_int_def sample_defs
        dset_def)
  moreover have "template_ok sample_template"
    by (simp add: sample_defs template_ok_def default_sizing_def)
  ultimately show ?thesis by (blast intro: book_start book_next step_entry)
qed

lemma sample_pending_reachable: "book_reachable [(''P1'', sample_pending)]"
proof -
  have "mark_intent [(''P1'', sample_plan)]
      \<lparr>decision_plan_id = ''P1'', decision_rule_id = ''R1'', rule_type = ''MANUAL_TRIGGER'',
       decision_reason = ''manual_liquidation_confirmed'', decision_volume = 1000, decision_priority = 100,
       decision_metrics = []\<rparr> ''I1'' = Inr [(''P1'', sample_pending)]"
    by (simp add: mark_intent_def with_plan_def plan_mark_intent_def record_once_target_def
        find_rule_def sample_defs dset_def dmem_def dsetdefault_def)
  then show ?thesis
    by (rule book_next [OF sample_plan_reachable step_intent, rotated]) simp
qed

lemma sample_ok [simp]: "plan_ok sample_plan" "plan_ok sample_pending"
  using book_reachable_ok [OF sample_plan_reachable] book_reachable_ok [OF sample_pending_reachable]
  by (simp_all add: book_ok_def entry_ok_def)

section \<open>Properties of the lifecycle\<close>

text \<open>
  C1: In every book reached from the empty one by calls of its methods, a plan is stored under its
  own id, never sold more than it bought, is completed only when everything was sold, waits for an
  exit only with an intent, has clear pending fields without one, and never waits for an intent
  that was proven to have executed nothing.
\<close>

theorem book_invariant:
  assumes "book_reachable b" "dget b pid = Some p"
  shows "plan_id (template p) = pid
    \<and> 0 \<le> exited_volume p \<and> exited_volume p \<le> entry_filled_volume p
    \<and> (status p = COMPLETED \<longrightarrow> exited_volume p = entry_filled_volume p)
    \<and> (status p = EXIT_PENDING \<longrightarrow> pending_intent_id p \<noteq> [])
    \<and> (pending_intent_id p = [] \<longrightarrow> pending_clear p)
    \<and> pending_intent_id p \<notin> set (reconciled_zero_fill_intent_ids p)
    \<and> distinct (reconciled_zero_fill_intent_ids p)"
  using book_ok_dget [OF book_reachable_ok [OF assms(1)] assms(2)]
  by (simp add: entry_ok_def plan_ok_def position_ok_def gate_ok_def history_ok_def)

theorem book_invariant_witness:
  "exited_volume sample_pending \<le> entry_filled_volume sample_pending
   \<and> pending_intent_id sample_pending \<noteq> []"
  using book_invariant [OF sample_pending_reachable, of "''P1''" sample_pending]
  by (simp add: sample_defs)

lemma book_evaluate_plans_from:
  assumes "book_evaluate_plans reg code ctx b = Inr (b', ds)" "d \<in> set ds"
  shows "\<exists>pid p q. (pid, p) \<in> set b \<and> instrument_code (template p) = code
           \<and> evaluate reg p ctx = Inr (q, Some d)"
  using assms
proof (induction b arbitrary: b' ds)
  case (Cons a b)
  then show ?case
    by (cases a) (fastforce simp: res_simps split: if_splits option.splits)
qed simp

lemma entry_decision_sound:
  assumes "entry_ok pid p" "evaluate builtins p ctx = Inr (q, Some d)"
  shows "decision_plan_id d = pid"
    "evaluation_open p ctx" "0 < decision_volume d" "decision_volume d \<le> remaining_volume p"
  using builtin_rules.evaluate_decision_sound(1-4) [OF assms(2)] assms(1)
  by (auto simp: entry_ok_def template_ok_def list_all_iff)

lemma book_evaluate_plans_distinct:
  assumes "book_ok b" "book_evaluate_plans builtins code ctx b = Inr (b', ds)"
  shows "distinct (map decision_plan_id ds) \<and> set (map decision_plan_id ds) \<subseteq> set (dkeys b)"
  using assms
proof (induction b arbitrary: b' ds)
  case (Cons a b)
  obtain pid p where a: "a = (pid, p)" by fastforce
  have fresh: "pid \<notin> set (dkeys b)" "entry_ok pid p" "book_ok b"
    using Cons.prems(1) by (auto simp: a book_ok_Cons)
  have keys: "set (dkeys (a # b)) = insert pid (set (dkeys b))" by (simp add: a dkeys_def)
  show ?case
  proof (cases "instrument_code (template p) = code")
    case False
    with Cons.prems(2) Cons.IH [OF fresh(3)] keys show ?thesis by (auto simp: a res_simps)
  next
    case True
    with Cons.prems(2) obtain q d b2 ds2 where
      e: "evaluate builtins p ctx = Inr (q, d)"
      and r: "book_evaluate_plans builtins code ctx b = Inr (b2, ds2)"
      and ds: "ds = (case d of None \<Rightarrow> ds2 | Some x \<Rightarrow> x # ds2)"
      by (auto simp: a res_simps)
    have "distinct (map decision_plan_id ds2)" "set (map decision_plan_id ds2) \<subseteq> set (dkeys b)"
      using Cons.IH [OF fresh(3) r] by auto
    with ds e entry_decision_sound(1) [OF fresh(2)] fresh keys show ?thesis
      by (auto split: option.splits)
  qed
qed (simp add: dkeys_def)

lemma book_evaluate_decision:
  assumes "book_ok b" "book_evaluate_plans builtins code ctx b = Inr (b', ds)" "d \<in> set ds"
  shows "\<exists>p. dget b (decision_plan_id d) = Some p \<and> instrument_code (template p) = code
      \<and> evaluation_open p ctx \<and> 0 < decision_volume d \<and> decision_volume d \<le> remaining_volume p"
proof -
  from book_evaluate_plans_from [OF assms(2,3)] obtain pid p q where
    p: "(pid, p) \<in> set b" "instrument_code (template p) = code" "evaluate builtins p ctx = Inr (q, Some d)"
    by auto
  have "entry_ok pid p" "dget b pid = Some p"
    using assms(1) p(1) by (auto simp: book_ok_def list_all_iff intro: in_set_dget)
  with p entry_decision_sound [OF _ p(3)] show ?thesis by auto
qed

text \<open>
  C2: Evaluating a reachable book makes at most one decision per plan, in order of falling priority.
  Each decision is for a plan of the asked instrument that is active, has no pending intent and is
  past its retry time, and sells a positive volume of at most what the plan still holds.
\<close>

theorem book_decisions_sound:
  assumes "book_reachable b" "book_evaluate builtins b code ctx = Inr (b', ds)"
  shows "distinct (map decision_plan_id ds)
    \<and> sorted (map (\<lambda>d. - decision_priority d) ds)
    \<and> (\<forall>d \<in> set ds. \<exists>p. dget b (decision_plan_id d) = Some p
         \<and> instrument_code (template p) = code
         \<and> status p \<in> {ACTIVE, PARTIALLY_EXITED} \<and> pending_intent_id p = []
         \<and> retry_after_ms p \<le> timestamp_ms ctx
         \<and> 0 < decision_volume d \<and> decision_volume d \<le> entry_filled_volume p - exited_volume p)"
proof -
  have ok: "book_ok b" using assms(1) by (rule book_reachable_ok)
  from assms(2) obtain xs where xs: "book_evaluate_plans builtins code ctx b = Inr (b', xs)"
    "ds = sort_key (\<lambda>d. - decision_priority d) xs" by (auto simp: book_evaluate_def res_simps)
  have "distinct (map decision_plan_id ds)"
    using book_evaluate_plans_distinct [OF ok xs(1)] xs(2) by (simp add: distinct_map)
  moreover have "\<forall>d \<in> set ds. \<exists>p. dget b (decision_plan_id d) = Some p
      \<and> instrument_code (template p) = code
      \<and> status p \<in> {ACTIVE, PARTIALLY_EXITED} \<and> pending_intent_id p = []
      \<and> retry_after_ms p \<le> timestamp_ms ctx
      \<and> 0 < decision_volume d \<and> decision_volume d \<le> entry_filled_volume p - exited_volume p"
    using book_evaluate_decision [OF ok xs(1)] xs(2)
    by (fastforce simp: evaluation_open_def remaining_volume_def)
  ultimately show ?thesis using xs(2) by simp
qed

lemma builtins_manual: "dget builtins ''MANUAL_TRIGGER'' = Some manual_trigger"
  by (simp add: builtins_def registry_register_def strategy_value_def upper_def upper_char_def)

lemma sample_open: "evaluation_open sample_plan sample_context"
  by (simp add: evaluation_open_def sample_defs sample_context_def
    has_manual_trigger_def remaining_volume_def timestamp_ms_def trunc_rat_def)

lemma sample_observe: "observe sample_plan sample_context = Inr sample_plan"
  by (simp add: observe_def reference_price_def sample_defs sample_context_def Let_def)

lemma sample_rules:
  "evaluate_rules builtins (completed_rule_ids sample_plan) sample_context (rules (template sample_plan)) sample_plan =
     Inr (sample_plan, [(sample_rule, \<lparr>triggered = True, match_reason = ''manual_liquidation_confirmed'',
       match_metrics = [(''trigger'', VStr ''MANUAL_TRIGGER'')]\<rparr>)])"
  by (simp add: sample_defs registry_evaluate_def builtins_manual manual_trigger_def matched_def reason_def
    v_or_def vget_or_def dget_or_def)

definition sample_decision :: ExitDecision where
  "sample_decision = decision_for sample_plan sample_context (sample_rule, \<lparr>triggered = True, match_reason = ''manual_liquidation_confirmed'',
       match_metrics = [(''trigger'', VStr ''MANUAL_TRIGGER'')]\<rparr>) 1000"

lemma sample_evaluate:
  "evaluate builtins sample_plan sample_context = Inr (sample_plan, Some sample_decision)"
proof -
  have "decision_size sample_plan sample_rule = Inr 1000"
    by (simp add: decision_size_def calculate_def requested_volume_def lot_volume_def default_sizing_def
      remaining_volume_def sample_defs dmem_def)
  then show ?thesis
    by (simp add: evaluate_def sample_open sample_observe sample_rules sample_decision_def)
qed

lemma sample_book_evaluate:
  "book_evaluate builtins [(''P1'', sample_plan)] ''600000.SH'' sample_context =
     Inr ([(''P1'', sample_plan)], [sample_decision])"
proof -
  have "instrument_code (template sample_plan) = ''600000.SH''" by (simp add: sample_defs)
  then show ?thesis by (simp add: book_evaluate_def sample_evaluate)
qed

theorem book_decisions_sound_witness:
  "decision_volume sample_decision \<le> 1000 \<and> 0 < decision_volume sample_decision \<and>
   decision_plan_id sample_decision = ''P1''"
  using book_decisions_sound [OF sample_plan_reachable sample_book_evaluate]
  by (auto simp: sample_defs split: if_splits)

end
