(* ===== verification/Exit_Reports.thy ===== *)
theory Exit_Reports
  imports Exit_Safety
begin

text \<open>
  What the broker's reports do to an exit plan: reconciliation errors that stay, ORDER events
  that release an intent only on proof, TRADE fills that conserve the position, the order in
  which the two arrive, pruning, and the abstract sell gate that the book refines.
\<close>

section \<open>Reconciliation errors stay\<close>

lemma sticky_messages:
  "is_sticky_exit_plan_error (''ZERO_FILL_PROOF_INVALIDATED_AFTER_RELEASE:'' @ i)"
  "is_sticky_exit_plan_error (''EXIT_FILL_INTENT_MISMATCH:'' @ i)"
  by (rule sticky_prefix, simp add: STICKY_EXIT_PLAN_ERROR_PREFIXES_def)+

lemma sticky_mismatch [simp]: "is_sticky_exit_plan_error (fill_intent_mismatch_error i c l)"
  unfolding fill_intent_mismatch_error_def Let_def using sticky_messages by presburger

lemma sticky_late: "late_safety_error p i \<noteq> [] \<Longrightarrow> is_sticky_exit_plan_error (late_safety_error p i)"
  unfolding late_safety_error_def using sticky_messages by presburger

definition blocked :: "ExitPlan \<Rightarrow> bool" where
  "blocked p \<longleftrightarrow> status p = ERROR \<and> is_sticky_exit_plan_error (error_message p)"

lemma sticky_nonempty: "is_sticky_exit_plan_error m \<Longrightarrow> m \<noteq> []"
  by (auto simp: is_sticky_exit_plan_error_def STICKY_EXIT_PLAN_ERROR_PREFIXES_def startswith_def)

lemma blocked_iff: "blocked p \<longleftrightarrow> reconciliation_error p \<noteq> []"
  using sticky_nonempty by (auto simp: blocked_def reconciliation_error_def)

lemma blocked_restore:
  "reconciliation_error p \<noteq> [] \<Longrightarrow> blocked (restore_reconciliation_error q (reconciliation_error p))"
  by (auto simp: restore_reconciliation_error_def blocked_def reconciliation_error_def split: if_splits)

lemma fill_error_nonempty [simp]:
  "fill_intent_mismatch_error i c l \<noteq> []"
  by (rule sticky_nonempty) simp

lemma blocked_error [simp]:
  "blocked (p\<lparr>status := ERROR, error_message := fill_intent_mismatch_error i c l\<rparr>)"
  "late_safety_error r j \<noteq> [] \<Longrightarrow> blocked (p\<lparr>status := ERROR, error_message := late_safety_error r j\<rparr>)"
  by (simp_all add: blocked_def sticky_late)

lemma blocked_order_event: "blocked p \<Longrightarrow> blocked (plan_order_event p e)"
proof -
  assume b: "blocked p"
  then have "reconciliation_error p \<noteq> []" by (simp add: blocked_iff)
  with b have "blocked (plan_own_order_event p e)"
    by (auto simp: plan_own_order_event_def Let_def blocked_restore) (auto simp: blocked_def)
  with b show ?thesis by (simp add: plan_order_event_def Let_def)
qed

lemma blocked_exit_fill: "blocked p \<Longrightarrow> blocked (plan_exit_fill p v x r i)"
  using blocked_iff [of p]
  by (simp add: plan_exit_fill_def plan_applied_fill_def Let_def blocked_restore)

lemma blocked_entry_fill: "blocked p \<Longrightarrow> blocked (plan_register_entry_fill p v x t)"
  by (auto simp: plan_register_entry_fill_def Let_def blocked_def split: option.splits)

text \<open>What a broker reports about one plan.\<close>

datatype broker_event =
    Bought int pyfloat "datetime option"
  | Ordered OrderEvent
  | Sold int pyfloat string string

primrec plan_event :: "ExitPlan \<Rightarrow> broker_event \<Rightarrow> ExitPlan" where
  "plan_event p (Bought v x t) = plan_register_entry_fill p v x t"
| "plan_event p (Ordered e) = plan_order_event p e"
| "plan_event p (Sold v x r i) = plan_exit_fill p v x r i"

text \<open>What broker reports never take back.\<close>

definition plan_advances :: "ExitPlan \<Rightarrow> ExitPlan \<Rightarrow> bool" where
  "plan_advances p q \<longleftrightarrow>
     entry_filled_volume p \<le> entry_filled_volume q \<and> exited_volume p \<le> exited_volume q
     \<and> set (reconciled_zero_fill_intent_ids p) \<subseteq> set (reconciled_zero_fill_intent_ids q)
     \<and> (blocked p \<longrightarrow> blocked q)"

lemma order_event_history:
  "set (reconciled_zero_fill_intent_ids p) \<subseteq> set (reconciled_zero_fill_intent_ids (plan_order_event p e))"
  by (auto simp: plan_order_event_def plan_own_order_event_def remember_zero_fill_intent_def Let_def)

lemma entry_fill_frame:
  "exited_volume (plan_register_entry_fill p v x t) = exited_volume p"
  "entry_filled_volume (plan_register_entry_fill p v x t) =
     entry_filled_volume p + (if fle x fzero then 0 else max 0 v)"
  "reconciled_zero_fill_intent_ids (plan_register_entry_fill p v x t) = reconciled_zero_fill_intent_ids p"
  "pending_intent_id (plan_register_entry_fill p v x t) = pending_intent_id p"
  by (auto simp: plan_register_entry_fill_def Let_def split: option.splits)

lemma plan_event_advances: "plan_advances p (plan_event p e)"
proof (cases e)
  case (Bought v x t)
  then show ?thesis by (simp add: plan_advances_def entry_fill_frame blocked_entry_fill)
next
  case (Ordered e')
  then show ?thesis
    using order_event_history [of p e'] by (simp add: plan_advances_def order_event_frame blocked_order_event)
next
  case (Sold v x r i)
  then show ?thesis by (simp add: plan_advances_def exit_fill_exited blocked_exit_fill)
qed

lemma plan_event_ok: "plan_ok p \<Longrightarrow> plan_ok (plan_event p e)"
  by (cases e) (simp_all add: plan_ok_entry plan_ok_order_event plan_ok_exit_fill)

interpretation exit_events: invariant_machine plan_event plan_ok plan_advances
proof
  show "plan_ok p \<Longrightarrow> plan_ok (plan_event p e)" for p e by (rule plan_event_ok)
  show "plan_advances p (plan_event p e)" for p e by (rule plan_event_advances)
qed (auto simp: plan_advances_def)

lemma sample_fields [simp]:
  "entry_filled_volume sample_pending = 1000" "exited_volume sample_pending = 0"
  "pending_intent_id sample_pending = ''I1''" "pending_rule_id sample_pending = ''R1''"
  "pending_filled_volume sample_pending = 0" "pending_order_terminal sample_pending = False"
  "status sample_pending = EXIT_PENDING" "reconciled_zero_fill_intent_ids sample_pending = []"
  "error_message sample_pending = []" "remaining_volume sample_pending = 1000"
  "template sample_pending = sample_template" "template sample_plan = sample_template"
  by (simp_all add: sample_defs remaining_volume_def)

text \<open>
  C5: Whatever the broker reports about a plan (entry fills, ORDER events, TRADE fills, in any
  order and number), the invariant holds, the bought and sold volumes never fall and the sold
  volume stays within the bought one, an intent proven to have executed nothing stays proven,
  and a plan stopped by a reconciliation error stays stopped.
\<close>

theorem broker_reports_never_undone:
  assumes "book_reachable b" "dget b pid = Some p" "q = foldl plan_event p es"
  shows "plan_ok q
    \<and> entry_filled_volume p \<le> entry_filled_volume q \<and> exited_volume p \<le> exited_volume q
    \<and> exited_volume q \<le> entry_filled_volume q
    \<and> set (reconciled_zero_fill_intent_ids p) \<subseteq> set (reconciled_zero_fill_intent_ids q)
    \<and> (reconciliation_error p \<noteq> [] \<longrightarrow> reconciliation_error q \<noteq> [])"
proof -
  have ok: "plan_ok p"
    using book_ok_dget [OF book_reachable_ok [OF assms(1)] assms(2)] by (simp add: entry_ok_def)
  show ?thesis
    using exit_events.run_inv [OF ok, of es] exit_events.run_adv [OF ok, of es] assms(3)
    by (simp add: plan_advances_def blocked_iff plan_ok_def position_ok_def)
qed

theorem broker_reports_never_undone_witness:
  "exited_volume (foldl plan_event sample_pending
     [Sold 400 (Fin 10) [] ''I1'', Ordered (sample_order ''FILLED'' 400)]) \<le> 1000"
  using broker_reports_never_undone [OF sample_pending_reachable, of "''P1''" sample_pending,
      OF _ refl, of "[Sold 400 (Fin 10) [] ''I1'', Ordered (sample_order ''FILLED'' 400)]"]
  by (simp add: order_event_frame exit_fill_frame)

lemma own_order_remembers:
  "upper (oe_status e) = ''RECONCILED_ZERO_FILL'' \<Longrightarrow> oe_intent_id e \<noteq> [] \<Longrightarrow>
     oe_intent_id e \<in> set (reconciled_zero_fill_intent_ids (plan_own_order_event p e))"
  by (simp add: plan_own_order_event_def remember_zero_fill_intent_def Let_def)

lemma own_order_intent:
  "pending_intent_id (plan_own_order_event p e) \<in> {pending_intent_id p, []}"
  by (simp add: plan_own_order_event_def apply_terminal_order_event_def Let_def split: option.split)

lemma rule_volumes_frame [simp]:
  "rule_filled_volumes (release_pending p) = rule_filled_volumes p"
  "rule_filled_volumes (finalize_pending p) = rule_filled_volumes p"
  "rule_filled_volumes (restore_reconciliation_error p er) = rule_filled_volumes p"
  "rule_filled_volumes (remember_zero_fill_intent p i) = rule_filled_volumes p"
  "rule_filled_volumes (apply_terminal_order_event p st c) = rule_filled_volumes p"
  "rule_filled_volumes (plan_order_event p e) = rule_filled_volumes p"
  by (simp_all add: release_pending_def finalize_pending_def restore_reconciliation_error_def
      remember_zero_fill_intent_def apply_terminal_order_event_def plan_order_event_def
      plan_own_order_event_def Let_def split: option.split)

lemma apply_order_event_get:
  "dget b pid = Some p \<Longrightarrow> apply_order_event b pid e = Inr b' \<Longrightarrow>
     dget b' pid = Some (plan_order_event p e)"
  by (auto simp: apply_order_event_def with_plan_def)

text \<open>
  C3: An ORDER event never changes what was bought, sold or filled for a rule. It takes the
  pending intent away only if it names that intent and either is an explicit
  \<open>RECONCILED_ZERO_FILL\<close>, which is then remembered, or is terminal with a cumulative fill that
  is positive and equal to the TRADE volume already recorded for the intent.
\<close>

theorem order_events_release_only_on_proof:
  assumes "book_reachable b" "dget b pid = Some p" "apply_order_event b pid e = Inr b'"
    "dget b' pid = Some q"
  shows "exited_volume q = exited_volume p \<and> entry_filled_volume q = entry_filled_volume p
    \<and> rule_filled_volumes q = rule_filled_volumes p
    \<and> (pending_intent_id q \<noteq> pending_intent_id p \<longrightarrow>
         pending_intent_id q = [] \<and> oe_intent_id e = pending_intent_id p
         \<and> (upper (oe_status e) = ''RECONCILED_ZERO_FILL''
              \<and> oe_intent_id e \<in> set (reconciled_zero_fill_intent_ids q)
            \<or> upper (oe_status e) \<in> {''FILLED'', ''REJECTED'', ''CANCELLED'', ''EXPIRED''}
              \<and> 0 < pending_filled_volume p
              \<and> optional_non_negative_int (oe_cumulative_filled_volume e)
                  = Some (pending_filled_volume p)))"
proof -
  have q: "q = plan_order_event p e" using apply_order_event_get [OF assms(2,3)] assms(4) by simp
  have ok: "0 \<le> pending_filled_volume p"
    using book_ok_dget [OF book_reachable_ok [OF assms(1)] assms(2)]
    by (simp add: entry_ok_def plan_ok_def gate_ok_def)
  have "pending_intent_id p \<noteq> []" "oe_intent_id e = pending_intent_id p"
    "q = plan_own_order_event p e" if "pending_intent_id q \<noteq> pending_intent_id p"
    using that by (auto simp: q plan_order_event_def Let_def split: if_splits)
  then show ?thesis
    using own_order_release [OF _ _ ok, of e] own_order_intent [of p e] own_order_remembers [of e p]
    by (auto simp: q order_event_frame TERMINAL_STATUSES_def)
qed

theorem order_events_release_only_on_proof_witness:
  "\<exists>b' q. apply_order_event [(''P1'', sample_pending)] ''P1'' (sample_order ''RECONCILED_ZERO_FILL'' 0) = Inr b'
     \<and> dget b' ''P1'' = Some q \<and> pending_intent_id q = []
     \<and> ''I1'' \<in> set (reconciled_zero_fill_intent_ids q) \<and> exited_volume q = 0"
proof -
  let ?q = "plan_order_event sample_pending (sample_order ''RECONCILED_ZERO_FILL'' 0)"
  have r: "apply_order_event [(''P1'', sample_pending)] ''P1'' (sample_order ''RECONCILED_ZERO_FILL'' 0)
      = Inr [(''P1'', ?q)]"
    by (simp add: apply_order_event_def with_plan_def dset_def)
  have "pending_intent_id ?q = []" "pending_intent_id sample_pending = ''I1''"
    by (simp_all add: plan_order_event_def plan_own_order_event_def late_after_zero_fill_def
        upper_def upper_char_def WORKING_STATUSES_def sample_defs)
  with r show ?thesis
    using order_events_release_only_on_proof [OF sample_pending_reachable _ r, of sample_pending ?q]
    by (auto simp: sample_defs upper_def upper_char_def)
qed

definition apply_fills :: "ExitPlan \<Rightarrow> (int \<times> pyfloat \<times> string \<times> string) list \<Rightarrow> ExitPlan" where
  "apply_fills p fs = foldl (\<lambda>q (v, x, r, i). plan_exit_fill q v x r i) p fs"

text \<open>
  C6: After any sequence of TRADE fills, matching the pending intent or not, the sold volume is
  the old one plus all reported volume with a price, capped by what was bought.
\<close>

theorem fills_conserve_position:
  assumes "plan_ok p"
  shows "exited_volume (apply_fills p fs) =
    min (entry_filled_volume p)
      (exited_volume p + (\<Sum>(v, x, r, i) \<leftarrow> fs. if fle x fzero then 0 else max 0 v))"
proof -
  have "0 \<le> (\<Sum>(v, x, r, i) \<leftarrow> fs. if fle x fzero then 0 else max 0 v)" for fs :: "(int \<times> pyfloat \<times> string \<times> string) list"
    by (rule sum_list_nonneg) auto
  moreover have "exited_volume p \<le> entry_filled_volume p"
    using assms by (simp add: plan_ok_def position_ok_def)
  ultimately show ?thesis unfolding apply_fills_def
  proof (induction fs arbitrary: p)
    case (Cons f fs)
    obtain v x r i where f: "f = (v, x, r, i)" by (cases f) auto
    have "exited_volume (plan_exit_fill p v x r i) \<le> entry_filled_volume (plan_exit_fill p v x r i)"
      using Cons.prems(2) by (auto simp: exit_fill_exited remaining_volume_def)
    from Cons.IH [OF Cons.prems(1) this] Cons.prems(1) [of fs] Cons.prems(2) show ?case
      by (auto simp: f exit_fill_exited remaining_volume_def)
  qed simp
qed

theorem fills_conserve_position_witness:
  "exited_volume (apply_fills sample_pending
     [(400, Fin 10, [], ''I1''), (900, Fin 11, [], ''I1'')]) = 1000"
  using fills_conserve_position [of sample_pending "[(400, Fin 10, [], ''I1''), (900, Fin 11, [], ''I1'')]"]
  by simp

lemma settle_mismatch:
  "settle_fill p m True r l e = p\<lparr>status := ERROR, error_message := (if l \<noteq> [] then l else e)\<rparr>"
  by (simp add: settle_fill_def)

lemma late_mismatches:
  "plan_ok p \<Longrightarrow> late_after_zero_fill p i \<Longrightarrow> fill_mismatches_pending p i"
  by (auto simp: plan_ok_def history_ok_def late_after_zero_fill_def fill_mismatches_pending_def
      fill_matches_pending_def)

lemma mismatch_not_match: "fill_mismatches_pending p i \<Longrightarrow> \<not> fill_matches_pending p i"
  by (simp add: fill_mismatches_pending_def)

text \<open>
  A TRADE fill that does not belong to the pending intent (a late or an unknown one) still
  counts in the sold position, stops the plan with a sticky error, and leaves the pending intent,
  its fill count, its target and the progress of every rule alone.
\<close>

lemma foreign_fill_blocks_plan:
  assumes "fill_mismatches_pending p i" "0 < v" "flt fzero x"
    and q_def: "q = plan_exit_fill p v x r i"
  shows "status q = ERROR \<and> is_sticky_exit_plan_error (error_message q)
    \<and> exited_volume q = exited_volume p + min v (remaining_volume p)
    \<and> pending_intent_id q = pending_intent_id p \<and> pending_rule_id q = pending_rule_id p
    \<and> pending_filled_volume q = pending_filled_volume p
    \<and> pending_terminal_cumulative_fill q = pending_terminal_cumulative_fill p
    \<and> rule_filled_volumes q = rule_filled_volumes p
    \<and> completed_rule_ids q = completed_rule_ids p"
proof -
  have x: "\<not> fle x fzero" using assms(3) by (cases x) auto
  have m: "\<not> fill_matches_pending p i" using assms(1) by (rule mismatch_not_match)
  have rem: "0 \<le> remaining_volume p" by (simp add: remaining_volume_def)
  have r: "rule_filled_volumes (record_fill p a x r i) = rule_filled_volumes p"
    "completed_rule_ids (record_fill p a x r i) = completed_rule_ids p" for a
    using m by (simp_all add: record_fill_def resolved_rule_id_def Let_def)
  have b: "blocked q"
    unfolding q_def plan_exit_fill_def plan_applied_fill_def Let_def
    using assms x blocked_restore [of p] by (simp add: settle_mismatch)
  have "\<exists>s er. q = (p\<lparr>status := s, error_message := er\<rparr>) \<or>
      (\<exists>a. q = (record_fill p a x r i)\<lparr>status := s, error_message := er\<rparr>)"
    unfolding q_def plan_exit_fill_def plan_applied_fill_def restore_reconciliation_error_def Let_def
    using assms(1,2) x by (auto simp: settle_mismatch)
  then show ?thesis
    using b m rem x r exit_fill_exited [of p v x r i] assms(2)
    by (auto simp: q_def blocked_def)
qed

text \<open>The pending intent's fill, and its final order report.\<close>

lemma matching_fill_trade_first:
  assumes "pending_intent_id p = i" "i \<noteq> []" "\<not> pending_order_terminal p" "reconciliation_error p = []"
    "\<not> late_after_zero_fill p i" "0 < v" "v < remaining_volume p" "flt fzero x"
  shows "plan_exit_fill p v x r i = (record_fill p v x r i)\<lparr>status := EXIT_PENDING\<rparr>"
proof -
  have x: "\<not> fle x fzero" using assms(8) by (cases x) auto
  have rem: "0 < remaining_volume (record_fill p v x r i)"
    using assms(6,7) by (simp add: remaining_volume_def)
  show ?thesis
    using assms x rem
    by (simp add: plan_exit_fill_def plan_applied_fill_def settle_fill_def fill_matches_pending_def
        fill_mismatches_pending_def late_safety_error_def Let_def)
qed

lemma matching_fill_order_first:
  assumes "pending_intent_id p = i" "i \<noteq> []" "pending_order_terminal p" "reconciliation_error p = []"
    "pending_terminal_cumulative_fill p = Some (pending_filled_volume p + v)" "0 \<le> pending_filled_volume p"
    "\<not> late_after_zero_fill p i" "0 < v" "v \<le> remaining_volume p" "flt fzero x"
  shows "plan_exit_fill p v x r i = finalize_pending (record_fill p v x r i)"
proof -
  have x: "\<not> fle x fzero" using assms(10) by (cases x) auto
  show ?thesis
    using assms x
    by (simp add: plan_exit_fill_def plan_applied_fill_def settle_fill_def fill_matches_pending_def
        fill_mismatches_pending_def late_safety_error_def terminal_fill_target_reached_def Let_def)
qed

definition final_report :: "string \<Rightarrow> string \<Rightarrow> int \<Rightarrow> OrderEvent \<Rightarrow> bool" where
  "final_report i st n e \<longleftrightarrow>
     oe_intent_id e = i \<and> oe_status e = st \<and> st \<in> set TERMINAL_STATUSES
     \<and> oe_cumulative_filled_volume e = VInt n"

lemma upper_terminal: "st \<in> set TERMINAL_STATUSES \<Longrightarrow> upper st = st"
  by (auto simp: TERMINAL_STATUSES_def upper_def upper_char_def)

lemma final_report_event:
  assumes "final_report i st n e" "pending_intent_id p = i" "i \<noteq> []" "\<not> late_after_zero_fill p i"
    "reconciliation_error p = []"
  shows "plan_order_event p e =
    apply_terminal_order_event
      (if oe_order_id e \<noteq> [] then p\<lparr>pending_order_id := oe_order_id e\<rparr> else p) st (VInt n)"
proof -
  have "st \<in> set TERMINAL_STATUSES" using assms(1) by (simp add: final_report_def)
  then have "upper st = st" "st \<notin> {''PENDING'', ''SUBMITTED'', ''ACCEPTED'', ''PARTIAL_FILLED''}"
    "st \<noteq> ''RECONCILED_ZERO_FILL''"
    by (auto simp: TERMINAL_STATUSES_def upper_def upper_char_def)
  then show ?thesis
    using assms by (simp add: plan_order_event_def plan_own_order_event_def final_report_def Let_def
      restore_reconciliation_error_def)
qed

definition with_final_report :: "ExitPlan \<Rightarrow> string \<Rightarrow> int \<Rightarrow> ExitPlan" where
  "with_final_report p oid n =
     (let q = (if oid \<noteq> [] then p\<lparr>pending_order_id := oid\<rparr> else p)
      in q\<lparr>pending_order_terminal := True, status := EXIT_PENDING,
           pending_terminal_cumulative_fill := Some n\<rparr>)"

lemma with_final_report_fields:
  "pending_intent_id (with_final_report p oid n) = pending_intent_id p"
  "pending_filled_volume (with_final_report p oid n) = pending_filled_volume p"
  "reconciled_zero_fill_intent_ids (with_final_report p oid n) = reconciled_zero_fill_intent_ids p"
  "remaining_volume (with_final_report p oid n) = remaining_volume p"
  "pending_order_terminal (with_final_report p oid n)"
  "pending_terminal_cumulative_fill (with_final_report p oid n) = Some n"
  "reconciliation_error (with_final_report p oid n) = []"
  by (simp_all add: with_final_report_def reconciliation_error_def remaining_volume_def Let_def)

lemma finalize_ignores_report: "finalize_pending (with_final_report p oid n) = finalize_pending p"
  by (simp add: with_final_report_def finalize_pending_def complete_once_rule_def release_pending_def
      find_rule_def remaining_volume_def Let_def split: option.split)

lemma record_fill_report:
  "record_fill (with_final_report p oid n) v x r i = with_final_report (record_fill p v x r i) oid n"
  by (simp add: with_final_report_def record_fill_def resolved_rule_id_def fill_matches_pending_def Let_def)

lemma terminal_order_waits:
  assumes "0 \<le> pending_filled_volume p" "pending_filled_volume p < n"
    "pending_terminal_cumulative_fill p = None"
  shows "apply_terminal_order_event
      (if oid \<noteq> [] then p\<lparr>pending_order_id := oid\<rparr> else p) st (VInt n) = with_final_report p oid n"
  using assms by (simp add: apply_terminal_order_event_def with_final_report_def Let_def)

lemma terminal_order_finalizes:
  assumes "0 < pending_filled_volume p" "pending_terminal_cumulative_fill p = None"
  shows "apply_terminal_order_event
      (if oid \<noteq> [] then p\<lparr>pending_order_id := oid\<rparr> else p) st (VInt (pending_filled_volume p))
      = finalize_pending p"
proof -
  have "apply_terminal_order_event
      (if oid \<noteq> [] then p\<lparr>pending_order_id := oid\<rparr> else p) st (VInt (pending_filled_volume p))
      = finalize_pending (with_final_report p oid (pending_filled_volume p))"
    using assms by (simp add: apply_terminal_order_event_def with_final_report_def Let_def)
  then show ?thesis by (simp add: finalize_ignores_report)
qed

text \<open>Order first, for a fill that may end the position.\<close>

lemma order_then_trade:
  assumes p: "pending_intent_id p = i" "i \<noteq> []" "pending_terminal_cumulative_fill p = None"
      "0 \<le> pending_filled_volume p" "reconciliation_error p = []" "\<not> late_after_zero_fill p i"
    and v: "0 < v" "v \<le> remaining_volume p" "flt fzero x"
    and e: "final_report i st (pending_filled_volume p + v) e"
  shows "plan_exit_fill (plan_order_event p e) v x r i = finalize_pending (record_fill p v x r i)"
proof -
  let ?p = "with_final_report p (oe_order_id e) (pending_filled_volume p + v)"
  have "plan_order_event p e = ?p"
    using final_report_event [OF e p(1,2,6,5)] terminal_order_waits [OF p(4) _ p(3)] v(1) by simp
  moreover have "plan_exit_fill ?p v x r i = finalize_pending (record_fill ?p v x r i)"
    by (rule matching_fill_order_first)
      (use p v in \<open>simp_all add: with_final_report_fields late_after_zero_fill_def\<close>)
  ultimately show ?thesis by (simp add: record_fill_report finalize_ignores_report)
qed

text \<open>
  C7: For an exit that leaves some position, the TRADE fill that completes the pending intent and
  the terminal ORDER event that announces it may arrive in either order: the plan ends in the same
  state, partially exited and with the intent released.
\<close>

theorem partial_exit_reports_commute:
  assumes p: "plan_ok p" "pending_intent_id p = i" "i \<noteq> []" "\<not> pending_order_terminal p"
      "reconciliation_error p = []"
    and v: "0 < v" "v < remaining_volume p" "flt fzero x"
    and e: "final_report i st (pending_filled_volume p + v) e"
  shows "plan_exit_fill (plan_order_event p e) v x r i = plan_order_event (plan_exit_fill p v x r i) e
    \<and> status (plan_exit_fill (plan_order_event p e) v x r i) = PARTIALLY_EXITED
    \<and> pending_intent_id (plan_exit_fill (plan_order_event p e) v x r i) = []"
proof -
  have nl: "\<not> late_after_zero_fill p i" and nn: "0 \<le> pending_filled_volume p"
    and nt: "pending_terminal_cumulative_fill p = None"
    using p by (auto simp: plan_ok_def history_ok_def gate_ok_def late_after_zero_fill_def)
  let ?q = "(record_fill p v x r i)\<lparr>status := EXIT_PENDING\<rparr>"
  have m: "fill_matches_pending p i" using p by (simp add: fill_matches_pending_def)
  have "plan_exit_fill p v x r i = ?q"
    by (rule matching_fill_trade_first) (use p v nl in auto)
  moreover have "plan_order_event ?q e = finalize_pending ?q"
    using terminal_order_finalizes [of ?q] final_report_event [OF e, of ?q] p nl nn nt v m
    by (simp add: late_after_zero_fill_def reconciliation_error_def)
  moreover have "finalize_pending ?q = finalize_pending (record_fill p v x r i)"
    by (simp add: finalize_pending_def complete_once_rule_def release_pending_def
      find_rule_def remaining_volume_def Let_def split: option.split)
  moreover have "plan_exit_fill (plan_order_event p e) v x r i = finalize_pending (record_fill p v x r i)"
    by (rule order_then_trade) (use p v e nl nn nt in auto)
  moreover have "0 < remaining_volume (record_fill p v x r i)"
    using v by (simp add: remaining_volume_def)
  ultimately show ?thesis by simp
qed

theorem partial_exit_reports_commute_witness:
  "plan_exit_fill (plan_order_event sample_pending (sample_order ''FILLED'' 400)) 400 (Fin 10) [] ''I1''
   = plan_order_event (plan_exit_fill sample_pending 400 (Fin 10) [] ''I1'') (sample_order ''FILLED'' 400)"
proof -
  have "final_report ''I1'' ''FILLED'' (pending_filled_volume sample_pending + 400) (sample_order ''FILLED'' 400)"
    by (simp add: final_report_def sample_order_def TERMINAL_STATUSES_def)
  then show ?thesis
    using partial_exit_reports_commute [of sample_pending "''I1''" 400 "Fin 10" "''FILLED''"
      "sample_order ''FILLED'' 400" "[]"] by (simp add: reconciliation_error_def)
qed

text \<open>
  For an exit that sells everything left the order matters. ORDER before TRADE ends completed;
  TRADE before the \<open>FILLED\<close> ORDER completes the plan and the ORDER event then turns it into a
  reconciliation error, although it reports exactly the fill that was applied.
\<close>

lemma full_exit_depends_on_report_order:
  assumes p: "plan_ok p" "pending_intent_id p = i" "i \<noteq> []" "\<not> pending_order_terminal p"
      "reconciliation_error p = []"
    and v: "0 < v" "v = remaining_volume p" "flt fzero x"
    and e: "final_report i ''FILLED'' (pending_filled_volume p + v) e"
  shows "status (plan_exit_fill (plan_order_event p e) v x r i) = COMPLETED
    \<and> status (plan_exit_fill p v x r i) = COMPLETED
    \<and> status (plan_order_event (plan_exit_fill p v x r i) e) = ERROR
    \<and> is_sticky_exit_plan_error (error_message (plan_order_event (plan_exit_fill p v x r i) e))"
proof -
  have nl: "\<not> late_after_zero_fill p i" and nn: "0 \<le> pending_filled_volume p"
    and nt: "pending_terminal_cumulative_fill p = None"
    using p by (auto simp: plan_ok_def history_ok_def gate_ok_def late_after_zero_fill_def)
  have x: "\<not> fle x fzero" using v(3) by (cases x) auto
  have rem: "remaining_volume (record_fill p v x r i) = 0"
    using v by (simp add: remaining_volume_def)
  have t: "plan_exit_fill p v x r i = finalize_pending (record_fill p v x r i)"
    using p v x nl rem
    by (simp add: plan_exit_fill_def plan_applied_fill_def settle_fill_def fill_matches_pending_def
        fill_mismatches_pending_def late_safety_error_def Let_def)
  have o: "plan_exit_fill (plan_order_event p e) v x r i = finalize_pending (record_fill p v x r i)"
    by (rule order_then_trade) (use p v e nl nn nt in auto)
  have "blocked (plan_order_event q e)" if "pending_intent_id q = []" for q
    using e p(3) that by (simp add: plan_order_event_def final_report_def WORKING_STATUSES_def
        upper_def upper_char_def Let_def)
  from this [of "finalize_pending (record_fill p v x r i)"] show ?thesis
    by (simp add: t o rem blocked_def)
qed

definition simple_command :: "ExitPlanCommandType \<Rightarrow> string \<Rightarrow> ExitPlanCommand" where
  "simple_command c pid =
     \<lparr>command = c, command_plan_id = pid, command_template = None, command_reason = []\<rparr>"

text \<open>
  C8: A plan stopped by a reconciliation error refuses \<open>RESUME\<close>, but \<open>PAUSE\<close> followed by
  \<open>RESUME\<close> succeeds and makes it active again without any reconciliation.
\<close>

theorem pause_resume_lifts_reconciliation_block:
  assumes "dget b pid = Some p" "reconciliation_error p \<noteq> []" "0 < remaining_volume p"
  shows "apply_command b (simple_command RESUME pid)
      = Inl (ValueError ''EXIT_PLAN_RECONCILIATION_REQUIRED'')
    \<and> rbind (apply_command b (simple_command PAUSE pid))
        (\<lambda>b1. apply_command b1 (simple_command RESUME pid))
      = Inr (dset pid (p\<lparr>status := ACTIVE\<rparr>) b)"
proof -
  have "reconciliation_error (p\<lparr>status := PAUSED\<rparr>) = []" "remaining_volume (p\<lparr>status := PAUSED\<rparr>) = remaining_volume p"
    by (simp_all add: reconciliation_error_def remaining_volume_def)
  with assms show ?thesis
    by (simp add: apply_command_def with_plan_def plan_command_def simple_command_def)
qed

definition sample_blocked :: ExitPlan where
  "sample_blocked = sample_plan\<lparr>status := ERROR, error_message := ''QUARANTINE_REPAIRED:O1''\<rparr>"

lemma sample_blocked_error: "reconciliation_error sample_blocked \<noteq> []"
    "remaining_volume sample_blocked = 1000"
  using sticky_prefix [of "''QUARANTINE_REPAIRED:''" "''O1''"]
  by (simp_all add: sample_blocked_def reconciliation_error_def STICKY_EXIT_PLAN_ERROR_PREFIXES_def
      remaining_volume_def sample_defs)

theorem pause_resume_lifts_reconciliation_block_witness:
  "rbind (apply_command [(''P1'', sample_blocked)] (simple_command PAUSE ''P1''))
     (\<lambda>b1. apply_command b1 (simple_command RESUME ''P1''))
   = Inr [(''P1'', sample_blocked\<lparr>status := ACTIVE\<rparr>)]"
  using pause_resume_lifts_reconciliation_block [of "[(''P1'', sample_blocked)]" "''P1''" sample_blocked]
    sample_blocked_error
  by (simp add: dset_def)

section \<open>Pruning\<close>

lemma dpop_filter: "dpop k b = filter (\<lambda>(k', v). k' \<noteq> k) b"
  by (induction b) (auto simp: dpop_def)

lemma fold_dpop_filter: "fold dpop ks b = filter (\<lambda>(k, v). k \<notin> set ks) b"
  by (induction ks arbitrary: b) (auto simp: dpop_filter case_prod_beta intro!: filter_cong)

lemma filter_keys_take:
  assumes "distinct (map fst xs)"
  shows "filter (\<lambda>x. fst x \<notin> set (take n (map fst xs))) xs = drop n xs"
proof -
  have d: "distinct (map fst (take n xs) @ map fst (drop n xs))"
    using assms by (simp flip: map_append)
  have "filter (\<lambda>x. fst x \<notin> set (take n (map fst xs))) (take n xs @ drop n xs) = drop n xs"
    using d by (simp only: filter_append) (auto simp: take_map filter_id_conv filter_empty_conv)
  then show ?thesis by simp
qed

text \<open>
  Pruning keeps every plan that is not completed or cancelled, in order, keeps the newest
  terminal plans up to the limit, and reports exactly the older ones it removed.
\<close>

lemma prune_terminal_correct:
  assumes "distinct (dkeys b)" "prune_terminal b n = (b', removed)"
  shows "filter (\<lambda>(pid, p). \<not> terminal_plan p) b' = filter (\<lambda>(pid, p). \<not> terminal_plan p) b
    \<and> filter (\<lambda>(pid, p). terminal_plan p) b'
        = drop (length removed) (filter (\<lambda>(pid, p). terminal_plan p) b)
    \<and> int (length (filter (\<lambda>(pid, p). terminal_plan p) b'))
        = min (max 0 n) (int (length (filter (\<lambda>(pid, p). terminal_plan p) b)))
    \<and> removed = map fst (take (length removed) (filter (\<lambda>(pid, p). terminal_plan p) b))"
proof -
  define T where "T = filter (\<lambda>x. terminal_plan (snd x)) b"
  define k where "k = nat (max 0 (int (length T) - max 0 n))"
  have r: "removed = take k (map fst T)" "b' = filter (\<lambda>x. fst x \<notin> set removed) b"
    using assms(2) by (auto simp: prune_terminal_def Let_def T_def k_def fold_dpop_filter case_prod_unfold)
  have len: "length removed = k" "k \<le> length T" by (auto simp: r k_def)
  have dT: "distinct (map fst T)"
    using assms(1) by (auto simp: T_def dkeys_def distinct_map_filter)
  have inT: "fst x \<notin> set removed" if "x \<in> set b" "\<not> terminal_plan (snd x)" for x
  proof
    assume "fst x \<in> set removed"
    then have "fst x \<in> fst ` set T" by (metis r(1) in_set_takeD list.set_map)
    then obtain y where "y \<in> set T" "fst y = fst x" by auto
    then have "y \<in> set b" "terminal_plan (snd y)" by (auto simp: T_def)
    moreover from this(1) \<open>fst y = fst x\<close> that(1) assms(1) have "snd y = snd x"
      by (metis dkeys_def eq_key_imp_eq_value prod.collapse)
    ultimately show False using that(2) by simp
  qed
  have "filter (\<lambda>x. \<not> terminal_plan (snd x)) b' = filter (\<lambda>x. \<not> terminal_plan (snd x)) b"
    unfolding r(2) filter_filter using inT by (auto intro!: filter_cong)
  moreover have "filter (\<lambda>x. terminal_plan (snd x)) b' = drop k T"
  proof -
    have "filter (\<lambda>x. terminal_plan (snd x)) b' = filter (\<lambda>x. fst x \<notin> set removed) T"
      unfolding r(2) T_def by (simp add: conj_commute)
    also have "\<dots> = drop k T" unfolding r(1) by (rule filter_keys_take [OF dT])
    finally show ?thesis .
  qed
  ultimately show ?thesis
    using len by (auto simp: case_prod_unfold T_def [symmetric] r(1) take_map k_def)
qed

section \<open>What a plan is for: an abstract sell gate\<close>

record sell_gate =
  bought :: int
  sold :: int
  open_intent :: "string option"
  spent :: "string set"

definition gate_of :: "ExitPlan \<Rightarrow> sell_gate" where
  "gate_of p =
     \<lparr>bought = entry_filled_volume p, sold = exited_volume p,
      open_intent = (if pending_intent_id p = [] then None else Some (pending_intent_id p)),
      spent = set (reconciled_zero_fill_intent_ids p)\<rparr>"

inductive gate_step :: "sell_gate \<Rightarrow> sell_gate \<Rightarrow> bool" where
  gate_same: "gate_step g g"
| gate_buy: "0 \<le> n \<Longrightarrow> gate_step g (g\<lparr>bought := bought g + n\<rparr>)"
| gate_sell: "0 \<le> n \<Longrightarrow> n \<le> bought g - sold g \<Longrightarrow> gate_step g (g\<lparr>sold := sold g + n\<rparr>)"
| gate_sell_close: "0 < n \<Longrightarrow> n \<le> bought g - sold g \<Longrightarrow> open_intent g = Some i \<Longrightarrow>
    gate_step g (g\<lparr>sold := sold g + n, open_intent := None\<rparr>)"
| gate_close: "open_intent g = Some i \<Longrightarrow> gate_step g (g\<lparr>open_intent := None\<rparr>)"
| gate_void: "open_intent g = Some i \<Longrightarrow>
    gate_step g (g\<lparr>open_intent := None, spent := insert i (spent g)\<rparr>)"
| gate_open: "i \<notin> spent g \<Longrightarrow> gate_step g (g\<lparr>open_intent := Some i\<rparr>)"

lemma gate_of_entry: "gate_step (gate_of p) (gate_of (plan_register_entry_fill p v x t))"
proof -
  have "gate_of (plan_register_entry_fill p v x t) =
      (gate_of p)\<lparr>bought := bought (gate_of p) + (if fle x fzero then 0 else max 0 v)\<rparr>"
    by (simp add: gate_of_def entry_fill_frame)
  then show ?thesis using gate_buy [of "if fle x fzero then 0 else max 0 v" "gate_of p"] by simp
qed

lemma gate_of_command: "plan_command p c = Inr q \<Longrightarrow> gate_of q = gate_of p"
  by (auto simp: plan_command_def apply_template_def gate_of_def
      split: ExitPlanCommandType.splits option.splits if_splits)

lemma gate_of_intent:
  "plan_mark_intent p d i = Inr q \<Longrightarrow> i \<noteq> [] \<Longrightarrow> gate_step (gate_of p) (gate_of q)"
  using gate_open [of i "gate_of p"]
  by (auto simp: plan_mark_intent_def gate_of_def Let_def split: if_splits)

lemma own_order_history:
  "reconciled_zero_fill_intent_ids (plan_own_order_event p e) =
     (if upper (oe_status e) = ''RECONCILED_ZERO_FILL''
      then reconciled_zero_fill_intent_ids (remember_zero_fill_intent p (oe_intent_id e))
      else reconciled_zero_fill_intent_ids p)"
  by (simp add: plan_own_order_event_def remember_zero_fill_intent_def Let_def)

lemma own_zero_fill_releases:
  "upper (oe_status e) = ''RECONCILED_ZERO_FILL'' \<Longrightarrow> pending_intent_id (plan_own_order_event p e) = []"
  by (simp add: plan_own_order_event_def Let_def)

lemma gate_of_order: "gate_step (gate_of p) (gate_of (plan_order_event p e))"
proof (cases "pending_intent_id p \<noteq> [] \<and> oe_intent_id e = pending_intent_id p
    \<and> plan_order_event p e = plan_own_order_event p e")
  case False
  then have "gate_of (plan_order_event p e) = gate_of p"
    by (simp add: plan_order_event_def Let_def split: if_split_asm) (simp_all add: gate_of_def)
  then show ?thesis by (simp add: gate_same)
next
  case True
  let ?q = "plan_own_order_event p e" let ?i = "pending_intent_id p"
  have o: "open_intent (gate_of p) = Some ?i" using True by (simp add: gate_of_def)
  show ?thesis
  proof (cases "upper (oe_status e) = ''RECONCILED_ZERO_FILL''")
    case z: True
    with True have "gate_of ?q = (gate_of p)\<lparr>open_intent := None, spent := insert ?i (spent (gate_of p))\<rparr>"
      by (auto simp: gate_of_def own_order_frame own_order_history own_zero_fill_releases
          remember_zero_fill_intent_def)
    with True gate_void [OF o] show ?thesis by simp
  next
    case z: False
    with own_order_intent [of p e] have "gate_of ?q = gate_of p \<or> gate_of ?q = (gate_of p)\<lparr>open_intent := None\<rparr>"
      by (auto simp: gate_of_def own_order_frame own_order_history)
    with True gate_close [OF o] gate_same show ?thesis by auto
  qed
qed

lemma exit_fill_intent: "pending_intent_id (plan_exit_fill p v x r i) \<in> {pending_intent_id p, []}"
  by (simp add: plan_exit_fill_def plan_applied_fill_def settle_fill_def Let_def)

lemma gate_of_fill:
  assumes "plan_ok p"
  shows "gate_step (gate_of p) (gate_of (plan_exit_fill p v x r i))"
proof -
  let ?q = "plan_exit_fill p v x r i"
  define n where "n = (if fle x fzero then 0 else max 0 (min v (remaining_volume p)))"
  have n: "0 \<le> n" "n \<le> bought (gate_of p) - sold (gate_of p)" "exited_volume ?q = exited_volume p + n"
    using assms by (auto simp: n_def exit_fill_exited gate_of_def remaining_volume_def plan_ok_def position_ok_def)
  show ?thesis
  proof (cases "pending_intent_id ?q = pending_intent_id p")
    case True
    then have "gate_of ?q = (gate_of p)\<lparr>sold := sold (gate_of p) + n\<rparr>"
      using n(3) by (simp add: gate_of_def)
    with gate_sell [OF n(1,2)] show ?thesis by simp
  next
    case False
    with exit_fill_intent [of p v x r i] have c: "pending_intent_id ?q = []" "pending_intent_id p \<noteq> []" by auto
    have "0 < n"
    proof (rule ccontr)
      assume "\<not> 0 < n"
      then have "pending_intent_id ?q = pending_intent_id p"
        by (auto simp: n_def plan_exit_fill_def Let_def split: if_splits)
      with False show False ..
    qed
    with gate_sell_close [of n "gate_of p" "pending_intent_id p"] n c show ?thesis by (simp add: gate_of_def)
  qed
qed

lemma with_plan_get:
  assumes "with_plan b k f = Inr b'" "dget b pid = Some p" "dget b' pid = Some q"
  shows "q = p \<or> (k = pid \<and> f p = Inr q)"
  using assms by (auto simp: with_plan_def res_simps split: option.splits if_splits)

lemma book_evaluate_plans_get:
  "book_evaluate_plans builtins code ctx b = Inr (b', ds) \<Longrightarrow> dget b pid = Some p \<Longrightarrow>
     dget b' pid = Some q \<Longrightarrow> gate_of q = gate_of p"
proof (induction b arbitrary: b' ds)
  case (Cons a b)
  obtain k r where a: "a = (k, r)" by fastforce
  have e: "gate_of s = gate_of r" if "evaluate builtins r ctx = Inr (s, d)" for s d
    using builtin_rules.evaluate_frame [OF that] unfolding evaluation_frame_def gate_of_def
    by (cases r; cases s) simp
  from Cons show ?case
    by (auto simp: a res_simps e split: if_splits)
qed simp

lemma fold_dpop_get: "dget (fold dpop ks b) pid = Some q \<Longrightarrow> dget b pid = Some q"
  by (induction ks arbitrary: b) (auto, metis dget_dpop option.distinct(1))

lemma gate_of_template: "apply_template p t = Inr q \<Longrightarrow> gate_of q = gate_of p"
  by (auto simp: apply_template_def gate_of_def split: if_splits)

lemma register_entry_get:
  assumes "register_entry_fill b t v x tt = Inr b'" "dget b pid = Some p" "dget b' pid = Some q"
  shows "q = p \<or> (\<exists>r. gate_of r = gate_of p \<and> q = plan_register_entry_fill r v x tt)"
  using assms gate_of_template [of p t]
  by (fastforce simp: register_entry_fill_def res_simps split: option.splits if_splits)

text \<open>
  C4: Each call of a method of the book takes the plan it touches through one step of the abstract
  sell gate: buy, sell at most what is held, open an intent that was never voided, close it, or
  void it. Nothing else can happen to a plan's position and gate.
\<close>

theorem book_refines_sell_gate:
  assumes "book_reachable b" "book_step b b'" "dget b pid = Some p" "dget b' pid = Some q"
  shows "gate_step (gate_of p) (gate_of q)"
proof -
  have ok: "plan_ok p"
    using book_ok_dget [OF book_reachable_ok [OF assms(1)] assms(3)] by (simp add: entry_ok_def)
  from assms(2) show ?thesis
  proof cases
    case (step_entry t v x tt)
    with register_entry_get [OF step_entry(2) assms(3,4)] gate_of_entry gate_same show ?thesis by metis
  next
    case (step_command c)
    with with_plan_get [OF _ assms(3,4)] gate_of_command gate_same show ?thesis
      unfolding apply_command_def by metis
  next
    case (step_evaluate code ctx ds)
    then obtain xs where "book_evaluate_plans builtins code ctx b = Inr (b', xs)"
      by (auto simp: book_evaluate_def res_simps)
    from book_evaluate_plans_get [OF this assms(3,4)] gate_same show ?thesis by simp
  next
    case (step_intent i d)
    with with_plan_get [OF _ assms(3,4)] gate_of_intent gate_same show ?thesis
      unfolding mark_intent_def by metis
  next
    case (step_order k e)
    with with_plan_get [OF _ assms(3,4)] gate_of_order gate_same show ?thesis
      unfolding apply_order_event_def by (metis sum.inject(2))
  next
    case (step_fill k v x r i)
    with with_plan_get [OF _ assms(3,4)] gate_of_fill [OF ok] gate_same show ?thesis
      unfolding apply_exit_fill_def by (metis sum.inject(2))
  next
    case (step_prune n removed)
    then have "dget b pid = Some q"
      using assms(4) by (auto simp: prune_terminal_def Let_def intro: fold_dpop_get)
    with assms(3) gate_same show ?thesis by simp
  qed
qed

theorem book_refines_sell_gate_witness:
  "gate_step (gate_of sample_pending) (gate_of (plan_exit_fill sample_pending 400 (Fin 10) [] ''I1''))"
proof (rule book_refines_sell_gate [OF sample_pending_reachable])
  show "book_step [(''P1'', sample_pending)]
      [(''P1'', plan_exit_fill sample_pending 400 (Fin 10) [] ''I1'')]"
    by (rule step_fill [of _ "''P1''" 400 "Fin 10" "[]" "''I1''"])
      (simp add: apply_exit_fill_def with_plan_def dset_def)
qed simp_all

end
