(* ===== verification/Exit_Serialization.thy ===== *)
theory Exit_Serialization
  imports Exit_Safety
begin

text \<open>
  Storing the book of exit plans (the \<open>to_dict\<close> and \<open>from_dict\<close> methods of \<open>exit_plan.py\<close>): every
  class of the plan is written to a dictionary of plain values and read back with the defaults
  and conversions of the source. The facts are round trips, from the policies up to the book,
  under the conditions \<open>storable\<close> that say which values the defaults do not overwrite.
\<close>

section \<open>Enumerations by value\<close>

fun ExitPlanStatus_value :: "ExitPlanStatus \<Rightarrow> string" where
  "ExitPlanStatus_value PENDING_ENTRY = ''PENDING_ENTRY''"
| "ExitPlanStatus_value ACTIVE = ''ACTIVE''"
| "ExitPlanStatus_value EXIT_PENDING = ''EXIT_PENDING''"
| "ExitPlanStatus_value PARTIALLY_EXITED = ''PARTIALLY_EXITED''"
| "ExitPlanStatus_value COMPLETED = ''COMPLETED''"
| "ExitPlanStatus_value PAUSED = ''PAUSED''"
| "ExitPlanStatus_value CANCELLED = ''CANCELLED''"
| "ExitPlanStatus_value ERROR = ''ERROR''"

fun ExitSizingMode_value :: "ExitSizingMode \<Rightarrow> string" where
  "ExitSizingMode_value ALL_REMAINING = ''ALL_REMAINING''"
| "ExitSizingMode_value PERCENT_REMAINING = ''PERCENT_REMAINING''"
| "ExitSizingMode_value FIXED_VOLUME = ''FIXED_VOLUME''"

fun ExitT1Policy_value :: "ExitT1Policy \<Rightarrow> string" where
  "ExitT1Policy_value WAIT_UNTIL_SELLABLE = ''WAIT_UNTIL_SELLABLE''"
| "ExitT1Policy_value ALLOW_SAME_INSTRUMENT_SUBSTITUTION = ''ALLOW_SAME_INSTRUMENT_SUBSTITUTION''"
| "ExitT1Policy_value REJECT_IF_UNSELLABLE = ''REJECT_IF_UNSELLABLE''"

fun ExitCostBasisMode_value :: "ExitCostBasisMode \<Rightarrow> string" where
  "ExitCostBasisMode_value BROKER_BUY_ORDERS = ''BROKER_BUY_ORDERS''"
| "ExitCostBasisMode_value MANUAL_UNIT_COST = ''MANUAL_UNIT_COST''"
| "ExitCostBasisMode_value ENTRY_FILLS = ''ENTRY_FILLS''"
| "ExitCostBasisMode_value POSITION_AVERAGE_SNAPSHOT = ''POSITION_AVERAGE_SNAPSHOT''"

fun ExitBuyFeeTreatment_value :: "ExitBuyFeeTreatment \<Rightarrow> string" where
  "ExitBuyFeeTreatment_value INCLUDED = ''INCLUDED''"
| "ExitBuyFeeTreatment_value ESTIMATED = ''ESTIMATED''"

text \<open>\<open>Enum(value)\<close>: the member with that value, else \<open>ValueError\<close>.\<close>

fun enum_of :: "('a \<Rightarrow> string) \<Rightarrow> 'a list \<Rightarrow> pyval \<Rightarrow> 'a res" where
  "enum_of value members (VStr s) =
     (case List.find (\<lambda>x. value x = s) members of
        None \<Rightarrow> Inl (ValueError []) | Some x \<Rightarrow> Inr x)"
| "enum_of value members _ = Inl (ValueError [])"

definition ExitPlanStatus_of :: "pyval \<Rightarrow> ExitPlanStatus res" where
  "ExitPlanStatus_of = enum_of ExitPlanStatus_value
     [PENDING_ENTRY, ACTIVE, EXIT_PENDING, PARTIALLY_EXITED, COMPLETED, PAUSED, CANCELLED, ERROR]"

definition ExitSizingMode_of :: "pyval \<Rightarrow> ExitSizingMode res" where
  "ExitSizingMode_of = enum_of ExitSizingMode_value [ALL_REMAINING, PERCENT_REMAINING, FIXED_VOLUME]"

definition ExitT1Policy_of :: "pyval \<Rightarrow> ExitT1Policy res" where
  "ExitT1Policy_of = enum_of ExitT1Policy_value
     [WAIT_UNTIL_SELLABLE, ALLOW_SAME_INSTRUMENT_SUBSTITUTION, REJECT_IF_UNSELLABLE]"

definition ExitPriceReference_of :: "pyval \<Rightarrow> ExitPriceReference res" where
  "ExitPriceReference_of = enum_of ExitPriceReference_value [BID, LAST, ASK]"

section \<open>Policies\<close>

definition TradingCostPolicy_to_dict :: "TradingCostPolicy \<Rightarrow> pydict" where
  "TradingCostPolicy_to_dict c =
     [(''commission_rate'', VFloat (commission_rate c)),
      (''minimum_commission'', VFloat (minimum_commission c)),
      (''stamp_tax_rate'', VFloat (stamp_tax_rate c)),
      (''transfer_fee_rate'', VFloat (transfer_fee_rate c))]"

definition ExitCostBasisOrderSnapshot_to_dict :: "ExitCostBasisOrderSnapshot \<Rightarrow> pydict" where
  "ExitCostBasisOrderSnapshot_to_dict o' =
     [(''order_id'', VStr (cbo_order_id o')), (''traded_volume'', VInt (traded_volume o')),
      (''traded_price'', VFloat (traded_price o')),
      (''estimated_buy_fee_cny'', VFloat (estimated_buy_fee o')),
      (''order_time'', VStr (order_time o'))]"

definition ExitCostBasisSnapshot_to_dict :: "ExitCostBasisSnapshot \<Rightarrow> pydict" where
  "ExitCostBasisSnapshot_to_dict b =
     [(''mode'', VStr (ExitCostBasisMode_value (basis_mode b))),
      (''unit_cost_cny'', VFloat (unit_cost_cny b)), (''basis_volume'', VInt (basis_volume b)),
      (''buy_fee_treatment'', VStr (ExitBuyFeeTreatment_value (buy_fee_treatment b))),
      (''selected_orders'',
         VList (map (\<lambda>x. VDict (ExitCostBasisOrderSnapshot_to_dict x)) (selected_orders b))),
      (''cost_policy'', VDict (TradingCostPolicy_to_dict (cost_policy b))),
      (''frozen_at'', VStr (frozen_at b))]"

definition ExitSizingPolicy_to_dict :: "ExitSizingPolicy \<Rightarrow> pydict" where
  "ExitSizingPolicy_to_dict s =
     [(''mode'', VStr (ExitSizingMode_value (sizing_mode s))), (''value'', sizing_value s),
      (''lot_size'', VInt (lot_size s)),
      (''allow_odd_lot_full_exit'', VBool (allow_odd_lot_full_exit s))]"

definition ExitSizingPolicy_from_dict :: "pyval \<Rightarrow> ExitSizingPolicy res" where
  "ExitSizingPolicy_from_dict v =
     rbind (to_dict_or_empty v) (\<lambda>raw.
     rbind (ExitSizingMode_of (vget_or raw ''mode'' (VStr ''ALL_REMAINING''))) (\<lambda>m.
     rbind (get_int raw ''lot_size'' 100 100) (\<lambda>lot.
       make_ExitSizingPolicy m (vget raw ''value'') lot
         (truthy (vget_or raw ''allow_odd_lot_full_exit'' (VBool True))))))"

definition ExitRuleSpec_to_dict :: "ExitRuleSpec \<Rightarrow> pydict" where
  "ExitRuleSpec_to_dict r =
     [(''rule_id'', VStr (rule_id r)), (''strategy'', VStr (strategy r)),
      (''parameters'', VDict (parameters r)), (''priority'', VInt (priority r)),
      (''sizing'', VDict (ExitSizingPolicy_to_dict (sizing r))),
      (''enabled'', VBool (enabled r)), (''once'', VBool (once r))]"

text \<open>\<open>raw[key]\<close>\<close>

definition vitem :: "pydict \<Rightarrow> string \<Rightarrow> pyval res" where
  "vitem d k = (case dget d k of None \<Rightarrow> Inl KeyError | Some v \<Rightarrow> Inr v)"

text \<open>\<open>fresh\<close> is the UUID drawn when the rule has no id.\<close>

definition ExitRuleSpec_from_dict :: "string \<Rightarrow> pyval \<Rightarrow> ExitRuleSpec res" where
  "ExitRuleSpec_from_dict fresh v =
     rbind (to_dict_or_empty v) (\<lambda>raw.
     rbind (vitem raw ''strategy'') (\<lambda>strat.
     rbind (to_dict_or_empty (vget raw ''parameters'')) (\<lambda>params.
     rbind (get_int raw ''priority'' 500 500) (\<lambda>prio.
     rbind (ExitSizingPolicy_from_dict (vget raw ''sizing'')) (\<lambda>size.
       Inr \<lparr>strategy = strategy_value (py_str strat), parameters = params, priority = prio,
             sizing = size, enabled = truthy (vget_or raw ''enabled'' (VBool True)),
             once = truthy (vget_or raw ''once'' (VBool False)),
             rule_id = str_or (vget raw ''rule_id'') fresh\<rparr>)))))"

definition ExitExecutionPolicy_to_dict :: "ExitExecutionPolicy \<Rightarrow> pydict" where
  "ExitExecutionPolicy_to_dict e =
     [(''price_reference'', VStr (ExitPriceReference_value (price_reference e))),
      (''price_type'', VStr (upper (if price_type e = [] then ''LIMIT'' else price_type e))),
      (''protected_limit'', VBool (protected_limit e)),
      (''max_slippage_bps'', VFloat (max_slippage_bps e)), (''urgency'', VStr (urgency e)),
      (''execution_mode'', VStr (upper (if execution_mode e = [] then ''AUTO'' else execution_mode e)))]"

definition ExitExecutionPolicy_from_dict :: "pyval \<Rightarrow> ExitExecutionPolicy res" where
  "ExitExecutionPolicy_from_dict v =
     rbind (to_dict_or_empty v) (\<lambda>raw.
     rbind (ExitPriceReference_of (vget_or raw ''price_reference'' (VStr ''BID''))) (\<lambda>ref.
     rbind (get_float raw ''max_slippage_bps'' (Fin 30)) (\<lambda>bps.
       Inr \<lparr>price_reference = ref,
             price_type = upper (str_or (vget_or raw ''price_type'' (VStr ''LIMIT'')) ''LIMIT''),
             protected_limit = truthy (vget_or raw ''protected_limit'' (VBool True)),
             max_slippage_bps = bps,
             urgency = str_or (vget_or raw ''urgency'' (VStr ''PROTECTIVE_EXIT'')) [],
             execution_mode = upper (str_or (vget_or raw ''execution_mode'' (VStr ''AUTO'')) ''AUTO'')\<rparr>)))"

section \<open>Templates\<close>

definition ExitPlanTemplate_to_dict :: "ExitPlanTemplate \<Rightarrow> pydict" where
  "ExitPlanTemplate_to_dict t =
     [(''plan_id'', VStr (plan_id t)), (''source_type'', VStr (source_type t)),
      (''source_id'', VStr (source_id t)), (''account_id'', VStr (account_id t)),
      (''instrument_code'', VStr (instrument_code t)), (''bucket'', VStr (template_bucket t)),
      (''rules'', VList (map (\<lambda>r. VDict (ExitRuleSpec_to_dict r)) (rules t))),
      (''strategy_id'', VStr (strategy_id t)), (''run_id'', VStr (run_id t)),
      (''config_version'', VInt (config_version t)),
      (''costs'', VDict (TradingCostPolicy_to_dict (costs t))),
      (''t1_policy'', VStr (ExitT1Policy_value (t1_policy t))),
      (''execution'', VDict (ExitExecutionPolicy_to_dict (execution t))),
      (''metadata'', VDict (metadata t)),
      (''auto_exit_authorized'', VBool (auto_exit_authorized t))]"

definition make_ExitPlanTemplate :: "ExitPlanTemplate \<Rightarrow> ExitPlanTemplate res" where
  "make_ExitPlanTemplate t =
     (if plan_id t = [] \<or> instrument_code t = [] \<or> template_bucket t = []
      then Inl (ValueError ''exit plan template requires plan_id, instrument and bucket'')
      else if rules t = []
      then Inl (ValueError ''exit plan template requires at least one sell rule'')
      else Inr t)"

text \<open>The UUIDs drawn for the rules of a template are numbered by the position of the rule.\<close>

definition rules_from_dict :: "(nat \<Rightarrow> string) \<Rightarrow> pyval list \<Rightarrow> ExitRuleSpec list res" where
  "rules_from_dict fresh items =
     rmap (\<lambda>(i, item). ExitRuleSpec_from_dict (fresh i) item) (zip [0..<length items] items)"

definition ExitPlanTemplate_from_dict :: "(nat \<Rightarrow> string) \<Rightarrow> pyval \<Rightarrow> ExitPlanTemplate res" where
  "ExitPlanTemplate_from_dict fresh v =
     rbind (to_dict_or_empty v) (\<lambda>raw.
     rbind (vitem raw ''plan_id'') (\<lambda>pid.
     rbind (vitem raw ''instrument_code'') (\<lambda>code.
     rbind (vitem raw ''bucket'') (\<lambda>bkt.
     rbind (to_list_or_empty (vget raw ''rules'')) (\<lambda>items.
     rbind (rules_from_dict fresh items) (\<lambda>rs.
     rbind (get_int raw ''config_version'' 1 1) (\<lambda>version.
     rbind (TradingCostPolicy_from_dict (vget raw ''costs'')) (\<lambda>cost.
     rbind (ExitT1Policy_of (vget_or raw ''t1_policy'' (VStr ''WAIT_UNTIL_SELLABLE''))) (\<lambda>t1.
     rbind (ExitExecutionPolicy_from_dict (vget raw ''execution'')) (\<lambda>exec.
     rbind (to_dict_or_empty (vget raw ''metadata'')) (\<lambda>meta.
       make_ExitPlanTemplate
         \<lparr>plan_id = py_str pid,
          source_type = str_or (vget_or raw ''source_type'' (VStr ''STRATEGY_ENTRY'')) [],
          source_id = str_or (vget raw ''source_id'') [],
          account_id = str_or (vget raw ''account_id'') [],
          instrument_code = py_str code, template_bucket = py_str bkt, rules = rs,
          strategy_id = str_or (vget raw ''strategy_id'') [],
          run_id = str_or (vget raw ''run_id'') [], config_version = version, costs = cost,
          t1_policy = t1, execution = exec, metadata = meta,
          auto_exit_authorized = truthy (vget_or raw ''auto_exit_authorized'' (VBool False))\<rparr>)))))))))))"

section \<open>Plans\<close>

definition ExitPlan_to_dict :: "ExitPlan \<Rightarrow> pydict" where
  "ExitPlan_to_dict p =
     [(''template'', VDict (ExitPlanTemplate_to_dict (template p))),
      (''status'', VStr (ExitPlanStatus_value (status p))),
      (''entry_filled_volume'', VInt (entry_filled_volume p)),
      (''entry_avg_price'', VFloat (entry_avg_price p)),
      (''exited_volume'', VInt (exited_volume p)), (''exit_avg_price'', VFloat (exit_avg_price p)),
      (''peak_price'', VFloat (peak_price p)), (''last_price'', VFloat (last_price p)),
      (''last_net_profit_pct'', VFloat (last_net_profit_pct p)),
      (''peak_net_profit_pct'', VFloat (peak_net_profit_pct p)),
      (''trailing_floor_pct'', v_opt_float (trailing_floor_pct p)),
      (''entry_trade_date'', VStr (entry_trade_date p)),
      (''last_holding_trade_date'', VStr (last_holding_trade_date p)),
      (''holding_trading_days'', VInt (holding_trading_days p)),
      (''pending_intent_id'', VStr (pending_intent_id p)),
      (''pending_order_id'', VStr (pending_order_id p)),
      (''pending_rule_id'', VStr (pending_rule_id p)),
      (''pending_requested_volume'', VInt (pending_requested_volume p)),
      (''pending_filled_volume'', VInt (pending_filled_volume p)),
      (''pending_order_terminal'', VBool (pending_order_terminal p)),
      (''pending_terminal_cumulative_fill'', v_opt_int (pending_terminal_cumulative_fill p)),
      (''reconciled_zero_fill_intent_ids'', VList (map VStr (reconciled_zero_fill_intent_ids p))),
      (''rule_state'', VDict (dmap VDict (rule_state p))),
      (''rule_target_volumes'', VDict (dmap VInt (rule_target_volumes p))),
      (''rule_filled_volumes'', VDict (dmap VInt (rule_filled_volumes p))),
      (''completed_rule_ids'', VList (map VStr (completed_rule_ids p))),
      (''last_exit_reason'', VStr (last_exit_reason p)),
      (''last_evaluated_at'', VStr (last_evaluated_at p)),
      (''retry_after_ms'', VInt (retry_after_ms p)), (''error_message'', VStr (error_message p))]"

definition projection :: "ExitPlan \<Rightarrow> pydict" where
  "projection p = ExitPlan_to_dict p @
     [(''remaining_volume'', VInt (remaining_volume p)),
      (''profit_armed'', VBool (trailing_floor_pct p \<noteq> None))]"

text \<open>\<open>\{str(key): convert(value) for key, value in dict(raw.get(name) or \{\}).items()\}\<close>\<close>

definition mapping_from :: "(pyval \<Rightarrow> 'v res) \<Rightarrow> pydict \<Rightarrow> string \<Rightarrow> (string, 'v) dict res" where
  "mapping_from convert raw k =
     rbind (to_dict_or_empty (vget raw k)) (\<lambda>d.
     rbind (rmap (\<lambda>(key, v). rbind (convert v) (\<lambda>x. Inr (key, x))) d) (\<lambda>ps.
       Inr (dict_of ps)))"

definition int_value :: "pyval \<Rightarrow> int res" where
  "int_value v = to_int (v_or v (VInt 0))"

definition strings_from :: "pydict \<Rightarrow> string \<Rightarrow> string list res" where
  "strings_from raw k = rbind (to_list_or_empty (vget raw k)) (\<lambda>items. Inr (map py_str items))"

definition ExitPlan_from_dict :: "(nat \<Rightarrow> string) \<Rightarrow> pyval \<Rightarrow> ExitPlan res" where
  "ExitPlan_from_dict fresh v =
     rbind (to_dict_or_empty v) (\<lambda>raw.
     rbind (vitem raw ''template'') (\<lambda>tv.
     rbind (ExitPlanTemplate_from_dict fresh tv) (\<lambda>t.
     rbind (ExitPlanStatus_of (vget_or raw ''status'' (VStr ''PENDING_ENTRY''))) (\<lambda>st.
     rbind (get_int raw ''entry_filled_volume'' 0 0) (\<lambda>bought_volume.
     rbind (get_float raw ''entry_avg_price'' fzero) (\<lambda>entry_price.
     rbind (get_int raw ''exited_volume'' 0 0) (\<lambda>sold_volume.
     rbind (get_float raw ''exit_avg_price'' fzero) (\<lambda>exit_price.
     rbind (get_float raw ''peak_price'' fzero) (\<lambda>peak.
     rbind (get_float raw ''last_price'' fzero) (\<lambda>lp.
     rbind (get_float raw ''last_net_profit_pct'' fzero) (\<lambda>lnp.
     rbind (get_float raw ''peak_net_profit_pct'' fzero) (\<lambda>pnp.
     rbind (optional_float (vget raw ''trailing_floor_pct'')) (\<lambda>floor_pct.
     rbind (get_int raw ''holding_trading_days'' 0 0) (\<lambda>days.
     rbind (get_int raw ''pending_requested_volume'' 0 0) (\<lambda>prv.
     rbind (get_int raw ''pending_filled_volume'' 0 0) (\<lambda>pfv.
     rbind (strings_from raw ''reconciled_zero_fill_intent_ids'') (\<lambda>zero_ids.
     rbind (mapping_from to_dict_or_empty raw ''rule_state'') (\<lambda>states.
     rbind (mapping_from int_value raw ''rule_target_volumes'') (\<lambda>targets.
     rbind (mapping_from int_value raw ''rule_filled_volumes'') (\<lambda>fills.
     rbind (strings_from raw ''completed_rule_ids'') (\<lambda>done_ids.
     rbind (get_int raw ''retry_after_ms'' 0 0) (\<lambda>retry.
       Inr \<lparr>template = t, status = st, entry_filled_volume = bought_volume,
             entry_avg_price = entry_price, exited_volume = sold_volume,
             exit_avg_price = exit_price, peak_price = peak, last_price = lp,
             last_net_profit_pct = lnp, peak_net_profit_pct = pnp, trailing_floor_pct = floor_pct,
             entry_trade_date = str_or (vget raw ''entry_trade_date'') [],
             last_holding_trade_date = str_or (vget raw ''last_holding_trade_date'') [],
             holding_trading_days = days,
             pending_intent_id = str_or (vget raw ''pending_intent_id'') [],
             pending_order_id = str_or (vget raw ''pending_order_id'') [],
             pending_rule_id = str_or (vget raw ''pending_rule_id'') [],
             pending_requested_volume = prv, pending_filled_volume = pfv,
             pending_order_terminal = truthy (vget_or raw ''pending_order_terminal'' (VBool False)),
             pending_terminal_cumulative_fill =
               optional_non_negative_int (vget raw ''pending_terminal_cumulative_fill''),
             reconciled_zero_fill_intent_ids = filter (\<lambda>s. s \<noteq> []) zero_ids,
             rule_state = states, rule_target_volumes = targets, rule_filled_volumes = fills,
             completed_rule_ids = done_ids,
             last_exit_reason = str_or (vget raw ''last_exit_reason'') [],
             last_evaluated_at = str_or (vget raw ''last_evaluated_at'') [],
             retry_after_ms = retry,
             error_message = str_or (vget raw ''error_message'') []\<rparr>))))))))))))))))))))))"

section \<open>The book\<close>

definition book_to_dict :: "book \<Rightarrow> pydict" where
  "book_to_dict b =
     [(''version'', VInt 1), (''plans'', VDict (dmap (\<lambda>p. VDict (ExitPlan_to_dict p)) b))]"

definition book_of :: "ExitPlan list \<Rightarrow> book" where
  "book_of ps = dict_of (map (\<lambda>p. (plan_id (template p), p)) ps)"

text \<open>
  A plan whose payload raises \<open>KeyError\<close>, \<open>TypeError\<close> or \<open>ValueError\<close> is skipped; another exception
  is not caught. The UUIDs are numbered by the position of the plan and of the rule.
\<close>

fun plans_from_dict :: "(nat \<Rightarrow> nat \<Rightarrow> string) \<Rightarrow> nat \<Rightarrow> pyval list \<Rightarrow> ExitPlan list res" where
  "plans_from_dict fresh i [] = Inr []"
| "plans_from_dict fresh i (v # vs) =
     (case ExitPlan_from_dict (fresh i) v of
        Inr p \<Rightarrow> rbind (plans_from_dict fresh (Suc i) vs) (\<lambda>ps. Inr (p # ps))
      | Inl KeyError \<Rightarrow> plans_from_dict fresh (Suc i) vs
      | Inl TypeError \<Rightarrow> plans_from_dict fresh (Suc i) vs
      | Inl (ValueError _) \<Rightarrow> plans_from_dict fresh (Suc i) vs
      | Inl e \<Rightarrow> Inl e)"

definition book_from_dict :: "(nat \<Rightarrow> nat \<Rightarrow> string) \<Rightarrow> pyval \<Rightarrow> book res" where
  "book_from_dict fresh v =
     rbind (to_dict_or_empty v) (\<lambda>raw.
     rbind (to_dict_or_empty (vget raw ''plans'')) (\<lambda>plans.
     rbind (plans_from_dict fresh 0 (dvalues plans)) (\<lambda>ps. Inr (book_of ps))))"

definition projections :: "book \<Rightarrow> string \<Rightarrow> pydict list" where
  "projections b code =
     map projection (filter (\<lambda>p. code = [] \<or> instrument_code (template p) = code) (dvalues b))"

section \<open>Round trips\<close>

lemma to_dict_or_empty_VDict [simp]: "to_dict_or_empty (VDict d) = Inr d"
  by (simp add: to_dict_or_empty_def)

lemma get_int_VInt: "dget raw k = Some (VInt n) \<Longrightarrow> n = 0 \<Longrightarrow> get_int raw k d d' = Inr d'"
  "dget raw k = Some (VInt n) \<Longrightarrow> n \<noteq> 0 \<or> d' = 0 \<Longrightarrow> get_int raw k d d' = Inr n"
  by (auto simp: get_int_def vget_or_def dget_or_def v_or_def)

lemma get_float_VFloat: "dget raw k = Some (VFloat x) \<Longrightarrow> get_float raw k d = Inr x"
  by (simp add: get_float_def vget_or_def dget_or_def)

lemma truthy_VBool_get [simp]: "truthy (vget_or ((k, VBool b) # d) k w) = b"
  by simp

lemma status_round_trip [simp]: "ExitPlanStatus_of (VStr (ExitPlanStatus_value st)) = Inr st"
  by (cases st) (simp_all add: ExitPlanStatus_of_def)

lemma sizing_mode_round_trip [simp]: "ExitSizingMode_of (VStr (ExitSizingMode_value sm)) = Inr sm"
  by (cases sm) (simp_all add: ExitSizingMode_of_def)

lemma t1_round_trip [simp]: "ExitT1Policy_of (VStr (ExitT1Policy_value t1)) = Inr t1"
  by (cases t1) (simp_all add: ExitT1Policy_of_def)

lemma price_reference_round_trip [simp]:
  "ExitPriceReference_of (VStr (ExitPriceReference_value pr)) = Inr pr"
  by (cases pr) (simp_all add: ExitPriceReference_of_def)

lemma basis_mode_round_trip [simp]:
  "ExitCostBasisMode_of (VStr (ExitCostBasisMode_value cm)) = Inr cm"
  by (cases cm) simp_all

lemma fee_treatment_round_trip [simp]:
  "ExitBuyFeeTreatment_of (VStr (ExitBuyFeeTreatment_value bf)) = Inr bf"
  by (cases bf) simp_all

declare ExitCostBasisMode_of.simps [simp del] ExitBuyFeeTreatment_of.simps [simp del]

lemma costs_round_trip [simp]:
  "TradingCostPolicy_from_dict (VDict (TradingCostPolicy_to_dict c)) = Inr c"
  by (simp add: TradingCostPolicy_from_dict_def TradingCostPolicy_to_dict_def get_float_VFloat)

lemma basis_order_round_trip [simp]:
  "ExitCostBasisOrderSnapshot_from_dict (VDict (ExitCostBasisOrderSnapshot_to_dict x)) = Inr x"
  by (simp add: ExitCostBasisOrderSnapshot_from_dict_def ExitCostBasisOrderSnapshot_to_dict_def)

lemma basis_orders_round_trip [simp]:
  "rmap ExitCostBasisOrderSnapshot_from_dict
     (map (\<lambda>x. VDict (ExitCostBasisOrderSnapshot_to_dict x)) xs) = Inr xs"
  using rmap_map_Inr [where f = ExitCostBasisOrderSnapshot_from_dict and h = "\<lambda>x. x" and xs = xs]
  by simp

lemma cost_basis_round_trip:
  assumes "flt fzero (unit_cost_cny b)" "0 < basis_volume b"
  shows "ExitCostBasisSnapshot_from_dict (ExitCostBasisSnapshot_to_dict b) = Inr b"
  using assms
  by (cases "unit_cost_cny b")
    (simp_all add: ExitCostBasisSnapshot_from_dict_def ExitCostBasisSnapshot_to_dict_def
      make_ExitCostBasisSnapshot_def)

text \<open>The sizing policies that \<open>__post_init__\<close> accepts.\<close>

definition sizing_valid :: "ExitSizingPolicy \<Rightarrow> bool" where
  "sizing_valid s \<longleftrightarrow>
     make_ExitSizingPolicy (sizing_mode s) (sizing_value s) (lot_size s) (allow_odd_lot_full_exit s)
       = Inr s"

lemma sizing_valid_lot: "sizing_valid s \<Longrightarrow> 0 < lot_size s"
  by (auto simp: sizing_valid_def make_ExitSizingPolicy_def Let_def split: if_splits)

lemma sizing_round_trip [simp]:
  assumes "sizing_valid s"
  shows "ExitSizingPolicy_from_dict (VDict (ExitSizingPolicy_to_dict s)) = Inr s"
proof -
  have "lot_size s \<noteq> 0"
    using sizing_valid_lot [OF assms] by simp
  with assms show ?thesis
    by (simp add: ExitSizingPolicy_from_dict_def ExitSizingPolicy_to_dict_def get_int_VInt
      sizing_valid_def)
qed

text \<open>The rules and policies that survive storage.\<close>

definition rule_storable :: "ExitRuleSpec \<Rightarrow> bool" where
  "rule_storable r \<longleftrightarrow>
     rule_id r \<noteq> [] \<and> strategy_value (strategy r) = strategy r \<and> priority r \<noteq> 0 \<and>
     sizing_valid (sizing r)"

definition execution_storable :: "ExitExecutionPolicy \<Rightarrow> bool" where
  "execution_storable e \<longleftrightarrow>
     price_type e \<noteq> [] \<and> upper (price_type e) = price_type e \<and>
     execution_mode e \<noteq> [] \<and> upper (execution_mode e) = execution_mode e"

lemma rule_round_trip:
  "rule_storable r \<Longrightarrow> ExitRuleSpec_from_dict fresh (VDict (ExitRuleSpec_to_dict r)) = Inr r"
  by (simp add: rule_storable_def ExitRuleSpec_from_dict_def ExitRuleSpec_to_dict_def vitem_def
    get_int_VInt)

lemma rules_round_trip:
  assumes "list_all rule_storable rs"
  shows "rules_from_dict fresh (map (\<lambda>r. VDict (ExitRuleSpec_to_dict r)) rs) = Inr rs"
proof -
  let ?f = "\<lambda>(i, item). ExitRuleSpec_from_dict (fresh i) item"
  have "rmap ?f (map (\<lambda>(i, r). (i, VDict (ExitRuleSpec_to_dict r))) (zip [0..<length rs] rs))
      = Inr (map snd (zip [0..<length rs] rs))"
    using assms
    by (intro rmap_map_Inr) (auto simp: list_all_iff rule_round_trip dest!: set_zip_rightD)
  then show ?thesis
    by (simp add: rules_from_dict_def zip_map2)
qed

lemma execution_round_trip:
  "execution_storable e \<Longrightarrow> ExitExecutionPolicy_from_dict (VDict (ExitExecutionPolicy_to_dict e)) = Inr e"
  by (simp add: execution_storable_def ExitExecutionPolicy_from_dict_def ExitExecutionPolicy_to_dict_def
    get_float_VFloat)

definition template_storable :: "ExitPlanTemplate \<Rightarrow> bool" where
  "template_storable t \<longleftrightarrow>
     plan_id t \<noteq> [] \<and> instrument_code t \<noteq> [] \<and> template_bucket t \<noteq> [] \<and> rules t \<noteq> [] \<and>
     list_all rule_storable (rules t) \<and> config_version t \<noteq> 0 \<and> execution_storable (execution t)"

lemma template_round_trip:
  "template_storable t \<Longrightarrow>
     ExitPlanTemplate_from_dict fresh (VDict (ExitPlanTemplate_to_dict t)) = Inr t"
  by (simp add: template_storable_def ExitPlanTemplate_from_dict_def ExitPlanTemplate_to_dict_def
    vitem_def get_int_VInt rules_round_trip execution_round_trip make_ExitPlanTemplate_def)

definition plan_storable :: "ExitPlan \<Rightarrow> bool" where
  "plan_storable p \<longleftrightarrow>
     template_storable (template p) \<and>
     (case pending_terminal_cumulative_fill p of None \<Rightarrow> True | Some n \<Rightarrow> 0 \<le> n) \<and>
     [] \<notin> set (reconciled_zero_fill_intent_ids p) \<and>
     distinct (dkeys (rule_state p)) \<and> distinct (dkeys (rule_target_volumes p)) \<and>
     distinct (dkeys (rule_filled_volumes p))"

lemma mapping_round_trip:
  assumes "distinct (dkeys d)" "\<And>v. convert (wrap v) = Inr v" "dget raw k = Some (VDict (dmap wrap d))"
  shows "mapping_from convert raw k = Inr d"
proof -
  have "rmap (\<lambda>(key, v). rbind (convert v) (\<lambda>x. Inr (key, x))) (dmap wrap d) = Inr (map (\<lambda>x. x) d)"
    unfolding dmap_def by (rule rmap_map_Inr) (auto simp: assms(2))
  with assms(1,3) show ?thesis
    by (simp add: mapping_from_def vget_def dget_or_def dict_of_distinct dkeys_def)
qed

lemma strings_round_trip: "dget raw k = Some (VList (map VStr ss)) \<Longrightarrow> strings_from raw k = Inr ss"
  by (simp add: strings_from_def vget_def dget_or_def comp_def)

lemma opt_float_round_trip [simp]: "optional_float (v_opt_float x) = Inr x"
  by (cases x) (simp_all add: optional_float_def)

lemma opt_int_round_trip [simp]:
  "(case n of None \<Rightarrow> True | Some m \<Rightarrow> 0 \<le> m) \<Longrightarrow> optional_non_negative_int (v_opt_int n) = n"
  by (cases n) simp_all

lemma int_value_VInt [simp]: "int_value (VInt n) = Inr n"
  by (simp add: int_value_def)

lemma plan_fields_round_trip:
  assumes t: "ExitPlanTemplate_from_dict fresh (VDict (ExitPlanTemplate_to_dict (template p))) = Inr t"
    and "plan_storable (p\<lparr>template := u\<rparr>)"
  shows "ExitPlan_from_dict fresh (VDict (ExitPlan_to_dict p)) = Inr (p\<lparr>template := t\<rparr>)"
proof -
  let ?raw = "ExitPlan_to_dict p"
  have lists: "strings_from ?raw ''reconciled_zero_fill_intent_ids'' = Inr (reconciled_zero_fill_intent_ids p)"
    "strings_from ?raw ''completed_rule_ids'' = Inr (completed_rule_ids p)"
    by (rule strings_round_trip, simp add: ExitPlan_to_dict_def)+
  have states: "mapping_from to_dict_or_empty ?raw ''rule_state'' = Inr (rule_state p)"
    using assms(2) by (intro mapping_round_trip [where wrap = VDict])
      (simp_all add: plan_storable_def ExitPlan_to_dict_def)
  have volumes: "mapping_from int_value ?raw ''rule_target_volumes'' = Inr (rule_target_volumes p)"
    "mapping_from int_value ?raw ''rule_filled_volumes'' = Inr (rule_filled_volumes p)"
    using assms(2) by (intro mapping_round_trip [where wrap = VInt];
      simp add: plan_storable_def ExitPlan_to_dict_def)+
  have ids: "filter (\<lambda>s. s \<noteq> []) (reconciled_zero_fill_intent_ids p) = reconciled_zero_fill_intent_ids p"
    using assms(2) by (auto simp: plan_storable_def filter_id_conv)
  note parts = lists states volumes
  show ?thesis
    unfolding ExitPlan_from_dict_def to_dict_or_empty_VDict rbind_simps parts
    using assms by (simp add: ExitPlan_to_dict_def vitem_def get_int_VInt get_float_VFloat ids
      plan_storable_def)
qed

lemma plan_round_trip:
  assumes "plan_storable p"
  shows "ExitPlan_from_dict fresh (VDict (ExitPlan_to_dict p)) = Inr p"
  using plan_fields_round_trip [of fresh p "template p" "template p"] assms
  by (simp add: plan_storable_def template_round_trip)

lemma plans_round_trip:
  "list_all plan_storable ps \<Longrightarrow>
     plans_from_dict fresh i (map (\<lambda>p. VDict (ExitPlan_to_dict p)) ps) = Inr ps"
  by (induction ps arbitrary: i) (simp_all add: plan_round_trip)

lemma book_of_ok:
  assumes "distinct (dkeys b)" "\<And>pid p. (pid, p) \<in> set b \<Longrightarrow> plan_id (template p) = pid"
  shows "book_of (dvalues b) = b"
proof -
  have "map (\<lambda>p. (plan_id (template p), p)) (map snd b) = b"
    using assms(2) by (auto simp: comp_def intro!: map_idI)
  with assms(1) show ?thesis
    by (simp add: book_of_def dvalues_def dkeys_def dict_of_distinct)
qed

text \<open>What the dictionaries of a plan and its template need to be stored without loss.\<close>

definition plan_dicts_ok :: "ExitPlan \<Rightarrow> bool" where
  "plan_dicts_ok p \<longleftrightarrow>
     distinct (dkeys (rule_state p)) \<and> distinct (dkeys (rule_target_volumes p)) \<and>
     distinct (dkeys (rule_filled_volumes p))"

lemma plan_ok_storable:
  "plan_ok p \<Longrightarrow> template_storable (template p) \<Longrightarrow> plan_dicts_ok p \<Longrightarrow> plan_storable p"
  by (auto simp: plan_ok_defs plan_storable_def plan_dicts_ok_def split: option.split)


lemma sample_storable: "template_storable sample_template"
  by (simp add: template_storable_def sample_template_def sample_rule_def rule_storable_def
    execution_storable_def sizing_valid_def default_sizing_def make_ExitSizingPolicy_def
    strategy_value_def upper_def upper_char_def Let_def)


text \<open>
  A rule comes back from storage as it was, but a rule of priority 0 comes back with
  priority 500, ahead of every rule of a priority between: \<open>raw.get("priority", 500) or 500\<close>
  takes the zero for absent, and the evaluator takes the highest priority.
\<close>

lemma rule_storage_loses_priority_zero:
  assumes "rule_id r \<noteq> []" "strategy_value (strategy r) = strategy r" "sizing_valid (sizing r)"
  shows "ExitRuleSpec_from_dict fresh (VDict (ExitRuleSpec_to_dict r)) =
     Inr (if priority r = 0 then r\<lparr>priority := 500\<rparr> else r)"
  using assms
  by (simp add: ExitRuleSpec_from_dict_def ExitRuleSpec_to_dict_def vitem_def get_int_VInt)

end
