(* ===== verification/Broker_Types.thy ===== *)
theory Broker_Types
  imports Py_Value
begin

text \<open>
  The order types of the broker interface (\<open>brokers/base.py\<close>) that the trading components share.
  An order request carries the fields the market rules and the risk checker read; its owner and environment, which
  select an account, are not part of the model.
\<close>

datatype OrderType = BUY | SELL | BUY_TO_COVER | SELL_SHORT

fun OrderType_value :: "OrderType \<Rightarrow> string" where
  "OrderType_value BUY = ''BUY''"
| "OrderType_value SELL = ''SELL''"
| "OrderType_value BUY_TO_COVER = ''BUY_TO_COVER''"
| "OrderType_value SELL_SHORT = ''SELL_SHORT''"

datatype PriceType = LIMIT | MARKET | STOP | STOP_LIMIT

record OrderRequest =
  request_instrument_code :: string
  request_order_type :: OrderType
  request_price_type :: PriceType
  request_volume :: int
  request_price :: pyfloat
  request_metadata :: pydict

end
