(* ===== verification/Bucket_Ledger.thy ===== *)
theory Bucket_Ledger
  imports Broker_Types
begin

text \<open>
  The bucket ledger (\<open>trading/bucket_ledger.py\<close>): the position of one instrument is split
  into the buckets \<open>locked_core\<close>, \<open>core\<close> and \<open>swing\<close>, each with its total, sellable, frozen and
  bought-today volumes; orders reserve volume, trades consume it, a settlement makes
  yesterday's purchases sellable (T+1).

  A method that mutates the ledger returns the new ledger. \<open>_bucket\<close> returns a reference
  that the caller mutates: here it is \<open>upd_bucket\<close> with the mutation as an argument. Pending
  orders have the fields \<open>reserve_order\<close> writes. Values that come from outside the module
  (the clock, the UUID generator) are arguments.
\<close>

section \<open>Bucket states\<close>

definition CORE_BUCKET :: string where "CORE_BUCKET = ''core''"
definition SWING_BUCKET :: string where "SWING_BUCKET = ''swing''"
definition LOCKED_CORE_BUCKET :: string where "LOCKED_CORE_BUCKET = ''locked_core''"

definition KNOWN_BUCKETS :: "string list" where
  "KNOWN_BUCKETS = [LOCKED_CORE_BUCKET, CORE_BUCKET, SWING_BUCKET]"

datatype SubstitutionStatus = PLANNED | RESERVED | APPLIED | ROLLED_BACK | PARTIAL_APPLIED

fun SubstitutionStatus_value :: "SubstitutionStatus \<Rightarrow> string" where
  "SubstitutionStatus_value PLANNED = ''PLANNED''"
| "SubstitutionStatus_value RESERVED = ''RESERVED''"
| "SubstitutionStatus_value APPLIED = ''APPLIED''"
| "SubstitutionStatus_value ROLLED_BACK = ''ROLLED_BACK''"
| "SubstitutionStatus_value PARTIAL_APPLIED = ''PARTIAL_APPLIED''"

definition SubstitutionStatus_of :: "string \<Rightarrow> SubstitutionStatus res" where
  "SubstitutionStatus_of s =
     (case List.find (\<lambda>x. SubstitutionStatus_value x = s)
             [PLANNED, RESERVED, APPLIED, ROLLED_BACK, PARTIAL_APPLIED] of
        None \<Rightarrow> Inl (ValueError []) | Some x \<Rightarrow> Inr x)"

record BucketPositionState =
  bucket :: string
  total_volume :: int
  available_volume :: int
  today_buy_volume :: int
  frozen_volume :: int
  bucket_market_value :: pyfloat
  bucket_avg_price :: pyfloat
  bucket_last_price :: pyfloat

definition empty_bucket :: "string \<Rightarrow> BucketPositionState" where
  "empty_bucket name =
     \<lparr>bucket = name, total_volume = 0, available_volume = 0, today_buy_volume = 0,
      frozen_volume = 0, bucket_market_value = fzero, bucket_avg_price = fzero,
      bucket_last_price = fzero\<rparr>"

definition bucket_normalize :: "BucketPositionState \<Rightarrow> BucketPositionState" where
  "bucket_normalize s =
     s\<lparr>total_volume := max 0 (total_volume s),
       frozen_volume := max 0 (frozen_volume s),
       today_buy_volume := max 0 (today_buy_volume s),
       available_volume :=
         min (max 0 (available_volume s))
           (max 0 (max 0 (total_volume s) - max 0 (frozen_volume s))),
       bucket_market_value := pmax fzero (bucket_market_value s),
       bucket_avg_price := pmax fzero (bucket_avg_price s),
       bucket_last_price := pmax fzero (bucket_last_price s)\<rparr>"

text \<open>\<open>to_dict\<close> normalizes the state it prints; the caller keeps the normalized state.\<close>

definition BucketPositionState_to_dict :: "BucketPositionState \<Rightarrow> pydict" where
  "BucketPositionState_to_dict s0 =
     (let s = bucket_normalize s0
      in [(''bucket'', VStr (bucket s)), (''total_volume'', VInt (total_volume s)),
          (''available_volume'', VInt (available_volume s)),
          (''today_buy_volume'', VInt (today_buy_volume s)),
          (''frozen_volume'', VInt (frozen_volume s)),
          (''market_value'', VFloat (bucket_market_value s)),
          (''avg_price'', VFloat (bucket_avg_price s)),
          (''last_price'', VFloat (bucket_last_price s))])"

definition int_or_0 :: "pyval \<Rightarrow> int res" where
  "int_or_0 v = to_int (v_or v (VInt 0))"

definition float_or_0 :: "pyval \<Rightarrow> pyfloat res" where
  "float_or_0 v = to_float (v_or v (VFloat fzero))"

definition BucketPositionState_from_dict :: "pydict \<Rightarrow> BucketPositionState res" where
  "BucketPositionState_from_dict d =
     rbind (int_or_0 (vget_or d ''total_volume'' (vget_or d ''volume'' (VInt 0)))) (\<lambda>total.
     rbind (int_or_0 (vget_or d ''available_volume'' (VInt 0))) (\<lambda>available.
     rbind (int_or_0 (vget_or d ''today_buy_volume'' (VInt 0))) (\<lambda>today.
     rbind (int_or_0 (vget_or d ''frozen_volume'' (VInt 0))) (\<lambda>frozen.
     rbind (float_or_0 (vget_or d ''market_value'' (VFloat fzero))) (\<lambda>mv.
     rbind (float_or_0 (vget_or d ''avg_price'' (vget_or d ''long_avg_price'' (VFloat fzero)))) (\<lambda>avg.
     rbind (float_or_0 (vget_or d ''last_price'' (VFloat fzero))) (\<lambda>lp.
       Inr (bucket_normalize
         \<lparr>bucket = str_or (vget_or d ''bucket'' (VStr CORE_BUCKET)) CORE_BUCKET,
          total_volume = total, available_volume = available, today_buy_volume = today,
          frozen_volume = frozen, bucket_market_value = mv, bucket_avg_price = avg,
          bucket_last_price = lp\<rparr>))))))))"

section \<open>Substitution plans\<close>

record SubstitutionPlan =
  requested_bucket :: string
  sell_from_buckets :: "(string \<times> int) list"
  reattribute_buy_to_bucket :: string
  plan_volume :: int
  plan_reason :: string
  plan_enabled :: bool
  substitution_id :: string
  plan_order_id :: pyval
  plan_status :: SubstitutionStatus
  applied_volume :: int
  rolled_back_volume :: int
  plan_metadata :: pydict

text \<open>\<open>leg.get(...)\<close> needs a mapping; legs without volume are dropped.\<close>

fun plan_legs :: "pyval list \<Rightarrow> (string \<times> int) list res" where
  "plan_legs [] = Inr []"
| "plan_legs (VDict leg # legs) =
     rbind (int_or_0 (vget_or leg ''volume'' (VInt 0))) (\<lambda>v.
     rbind (plan_legs legs) (\<lambda>rest.
       Inr (if 0 < v then (str_or (vget_or leg ''bucket'' (VStr [])) [], v) # rest else rest)))"
| "plan_legs (_ # legs) = Inl AttributeError"

fun plan_status_of :: "pyval \<Rightarrow> SubstitutionStatus res" where
  "plan_status_of (VStr s) = SubstitutionStatus_of s"
| "plan_status_of _ = Inl AttributeError"

text \<open>
  \<open>order_id\<close> is the argument of the same name, empty for \<open>None\<close>; \<open>fresh\<close> is the UUID drawn for a
  plan without an id. The code keeps a status that is not a string as it is and raises
  \<open>AttributeError\<close> when it first prints the plan; the model raises it here.
\<close>

definition SubstitutionPlan_from_dict ::
  "string \<Rightarrow> pydict \<Rightarrow> string \<Rightarrow> SubstitutionPlan option res" where
  "SubstitutionPlan_from_dict fresh d order_id =
     (if d = [] then Inr None
      else rbind (plan_status_of (vget_or d ''status'' (VStr ''PLANNED''))) (\<lambda>st.
           rbind (to_list_or_empty (vget_or d ''sell_from_buckets'' (VList []))) (\<lambda>items.
           rbind (plan_legs items) (\<lambda>legs.
           rbind (int_or_0 (vget_or d ''volume'' (VInt 0))) (\<lambda>vol.
           rbind (int_or_0 (vget_or d ''applied_volume'' (VInt 0))) (\<lambda>applied.
           rbind (int_or_0 (vget_or d ''rolled_back_volume'' (VInt 0))) (\<lambda>rolled.
           rbind (to_dict_or_empty (vget_or d ''metadata'' (VDict []))) (\<lambda>meta.
             Inr (Some
               \<lparr>requested_bucket = str_or (vget_or d ''requested_bucket'' (VStr SWING_BUCKET)) SWING_BUCKET,
                sell_from_buckets = legs,
                reattribute_buy_to_bucket =
                  str_or (vget_or d ''reattribute_buy_to_bucket'' (VStr CORE_BUCKET)) CORE_BUCKET,
                plan_volume = vol, plan_reason = str_or (vget_or d ''reason'' (VStr [])) [],
                plan_enabled = truthy (vget_or d ''enabled'' (VBool True)),
                substitution_id = str_or (vget d ''plan_id'') fresh,
                plan_order_id = (if order_id \<noteq> [] then VStr order_id else vget d ''order_id''),
                plan_status = st, applied_volume = applied, rolled_back_volume = rolled,
                plan_metadata = meta\<rparr>)))))))))"

definition SubstitutionPlan_to_dict :: "SubstitutionPlan \<Rightarrow> pydict" where
  "SubstitutionPlan_to_dict p =
     [(''enabled'', VBool (plan_enabled p)), (''plan_id'', VStr (substitution_id p)),
      (''order_id'', plan_order_id p),
      (''status'', VStr (SubstitutionStatus_value (plan_status p))),
      (''requested_bucket'', VStr (requested_bucket p)),
      (''sell_from_buckets'',
         VList (map (\<lambda>(b, v). VDict [(''bucket'', VStr b), (''volume'', VInt v)]) (sell_from_buckets p))),
      (''reattribute_buy_to_bucket'', VStr (reattribute_buy_to_bucket p)),
      (''volume'', VInt (plan_volume p)), (''applied_volume'', VInt (applied_volume p)),
      (''rolled_back_volume'', VInt (rolled_back_volume p)), (''reason'', VStr (plan_reason p)),
      (''metadata'', VDict (plan_metadata p))]"

section \<open>The ledger\<close>

record ReservedLeg =
  leg_bucket :: string
  leg_volume :: int
  leg_remaining :: int

record PendingOrder =
  po_order_id :: string
  po_instrument_code :: string
  po_order_type :: string
  po_bucket :: string
  po_volume :: int
  po_remaining_volume :: int
  po_price :: pyfloat
  po_metadata :: pydict
  po_reserved_legs :: "ReservedLeg list"
  po_substitution_plan_id :: "string option"
  po_created_at :: string

type_synonym buckets = "(string, BucketPositionState) dict"

record BucketLedger =
  ledger_run_id :: string
  ledger_buckets :: "(string, buckets) dict"
  pending_orders :: "(string, PendingOrder) dict"
  pending_substitutions :: "(string, SubstitutionPlan) dict"
  last_settlement_date :: "string option"

definition new_ledger :: "string \<Rightarrow> BucketLedger" where
  "new_ledger rid =
     \<lparr>ledger_run_id = rid, ledger_buckets = [], pending_orders = [], pending_substitutions = [],
      last_settlement_date = None\<rparr>"

record BucketLedgerPatch =
  patch_instrument_code :: string
  changed_buckets :: "(string, pydict) dict"
  patch_events :: "pydict list"

definition normalize_bucket :: "pyval \<Rightarrow> string" where
  "normalize_bucket v =
     (let name = lower (str_or v CORE_BUCKET)
      in if name \<in> {''locked'', ''lockedcore'', ''locked_core''} then LOCKED_CORE_BUCKET
         else if name = SWING_BUCKET then SWING_BUCKET
         else CORE_BUCKET)"

definition ensure_buckets :: "buckets \<Rightarrow> buckets" where
  "ensure_buckets bs = fold (\<lambda>name. dsetdefault name (empty_bucket name)) KNOWN_BUCKETS bs"

definition instrument_buckets :: "BucketLedger \<Rightarrow> string \<Rightarrow> buckets" where
  "instrument_buckets l code = ensure_buckets (dget_or (ledger_buckets l) code [])"

definition set_buckets :: "BucketLedger \<Rightarrow> string \<Rightarrow> buckets \<Rightarrow> BucketLedger" where
  "set_buckets l code bs = l\<lparr>ledger_buckets := dset code bs (ledger_buckets l)\<rparr>"

definition ensure_instrument :: "BucketLedger \<Rightarrow> string \<Rightarrow> BucketLedger" where
  "ensure_instrument l code = set_buckets l code (instrument_buckets l code)"

text \<open>\<open>self._bucket(code, name)\<close>: the state it refers to, and the ledger after mutating it.\<close>

definition the_bucket :: "BucketLedger \<Rightarrow> string \<Rightarrow> pyval \<Rightarrow> BucketPositionState" where
  "the_bucket l code b =
     (let name = normalize_bucket b in dget_or (instrument_buckets l code) name (empty_bucket name))"

definition upd_bucket ::
  "BucketLedger \<Rightarrow> string \<Rightarrow> pyval \<Rightarrow> (BucketPositionState \<Rightarrow> BucketPositionState) \<Rightarrow> BucketLedger" where
  "upd_bucket l code b f =
     set_buckets l code (dset (normalize_bucket b) (f (the_bucket l code b)) (instrument_buckets l code))"

text \<open>\<open>_instrument_snapshot\<close> ensures the instrument and normalizes its states.\<close>

definition normalize_instrument :: "BucketLedger \<Rightarrow> string \<Rightarrow> BucketLedger" where
  "normalize_instrument l code =
     (if code = [] then l
      else set_buckets l code (dmap bucket_normalize (instrument_buckets l code)))"

definition instrument_snapshot :: "BucketLedger \<Rightarrow> string \<Rightarrow> (string, pydict) dict" where
  "instrument_snapshot l code =
     (if code = [] then [] else dmap BucketPositionState_to_dict (instrument_buckets l code))"

definition pending_for_instrument :: "BucketLedger \<Rightarrow> string \<Rightarrow> PendingOrder list" where
  "pending_for_instrument l code =
     filter (\<lambda>p. po_instrument_code p = code) (dvalues (pending_orders l))"

definition sum_of :: "(BucketPositionState \<Rightarrow> int) \<Rightarrow> buckets \<Rightarrow> int" where
  "sum_of f bs = sum_list (map f (dvalues bs))"

section \<open>Positions of the broker\<close>

definition mark_state ::
  "int \<Rightarrow> pyfloat \<Rightarrow> pyfloat \<Rightarrow> pyfloat \<Rightarrow> BucketPositionState \<Rightarrow> BucketPositionState" where
  "mark_state all_volume lp avg mv s =
     (let s1 = (if flt fzero avg
                then s\<lparr>bucket_avg_price :=
                        (if fle (bucket_avg_price s) fzero then avg else bucket_avg_price s)\<rparr>
                else s);
          s2 = (if flt fzero lp then s1\<lparr>bucket_last_price := lp\<rparr> else s1);
          s3 = (if 0 < all_volume \<and> flt fzero mv
                then s2\<lparr>bucket_market_value :=
                        fdiv (fmul mv (float_of_int (total_volume s2))) (float_of_int all_volume)\<rparr>
                else if flt fzero (bucket_last_price s2)
                then s2\<lparr>bucket_market_value :=
                        fmul (float_of_int (total_volume s2)) (bucket_last_price s2)\<rparr>
                else s2)
      in bucket_normalize s3)"

definition mark_to_market ::
  "BucketLedger \<Rightarrow> string \<Rightarrow> pyfloat \<Rightarrow> pyfloat \<Rightarrow> pyfloat \<Rightarrow> BucketLedger" where
  "mark_to_market l code lp avg mv =
     (let bs = instrument_buckets l code
      in set_buckets l code (dmap (mark_state (sum_of total_volume bs) lp avg mv) bs))"

text \<open>What \<open>sync_position\<close> reads from the broker's position.\<close>

record position_view =
  pv_long_volume :: int
  pv_available :: int
  pv_frozen :: int
  pv_today_buy :: int
  pv_avg_price :: pyfloat
  pv_last_price :: pyfloat
  pv_market_value :: pyval

definition read_position :: "pydict \<Rightarrow> position_view res" where
  "read_position pos =
     rbind (int_or_0 (vget_or pos ''long_volume'' (vget_or pos ''total_volume'' (VInt 0)))) (\<lambda>long.
     rbind (int_or_0 (vget_or pos ''available_volume'' (VInt 0))) (\<lambda>available.
     rbind (int_or_0 (vget_or pos ''frozen_volume'' (VInt 0))) (\<lambda>frozen.
     rbind (int_or_0 (vget_or pos ''today_buy_volume'' (VInt 0))) (\<lambda>today.
     rbind (float_or_0 (vget_or pos ''long_avg_price'' (vget_or pos ''avg_price'' (VFloat fzero)))) (\<lambda>avg.
     rbind (float_or_0 (vget_or pos ''last_price'' (VFloat fzero))) (\<lambda>lp.
       Inr \<lparr>pv_long_volume = long, pv_available = available, pv_frozen = frozen,
             pv_today_buy = today, pv_avg_price = avg, pv_last_price = lp,
             pv_market_value = vget_or pos ''market_value'' (VFloat fzero)\<rparr>))))))"

definition adopt_position :: "position_view \<Rightarrow> pyfloat \<Rightarrow> BucketPositionState \<Rightarrow> BucketPositionState" where
  "adopt_position v mv s =
     bucket_normalize (s\<lparr>total_volume := pv_long_volume v, available_volume := pv_available v,
       frozen_volume := pv_frozen v, today_buy_volume := pv_today_buy v,
       bucket_avg_price := pv_avg_price v, bucket_last_price := pv_last_price v,
       bucket_market_value := mv\<rparr>)"

definition adjust_core :: "int \<Rightarrow> int \<Rightarrow> BucketPositionState \<Rightarrow> BucketPositionState" where
  "adjust_core delta extra s =
     bucket_normalize (s\<lparr>total_volume := max 0 (total_volume s + delta),
       available_volume := available_volume s + (if 0 < delta then max 0 extra else 0)\<rparr>)"

text \<open>The market value is converted only on the paths that use it.\<close>

definition sync_view :: "BucketLedger \<Rightarrow> string \<Rightarrow> position_view \<Rightarrow> BucketLedger res" where
  "sync_view l code v =
     (if pv_long_volume v \<le> 0 \<and> pending_for_instrument l code = []
      then Inr (l\<lparr>ledger_buckets := dpop code (ledger_buckets l)\<rparr>)
      else let bs = instrument_buckets l code
           in rbind (float_or_0 (pv_market_value v)) (\<lambda>mv.
              Inr (if \<not> list_ex (\<lambda>s. total_volume s \<noteq> 0) (dvalues bs)
                   then upd_bucket l code (VStr CORE_BUCKET) (adopt_position v mv)
                   else let delta = pv_long_volume v - sum_of total_volume bs;
                            extra = pv_available v - sum_of available_volume bs;
                            l1 = (if delta \<noteq> 0
                                  then upd_bucket l code (VStr CORE_BUCKET) (adjust_core delta extra)
                                  else l)
                        in mark_to_market l1 code (pv_last_price v) (pv_avg_price v) mv)))"

definition sync_position :: "BucketLedger \<Rightarrow> string \<Rightarrow> pydict \<Rightarrow> BucketLedger res" where
  "sync_position l code pos =
     (if code = [] then Inr l else rbind (read_position pos) (sync_view l code))"

definition decorate_bucket :: "string \<times> BucketPositionState \<Rightarrow> pydict \<Rightarrow> pydict" where
  "decorate_bucket ns d =
     (let name = fst ns; s = snd ns
      in dset (name @ ''_today_buy_volume'') (VInt (today_buy_volume s))
           (dset (name @ ''_frozen_volume'') (VInt (frozen_volume s))
             (dset (name @ ''_available_volume'') (VInt (available_volume s))
               (dset (name @ ''_available'') (VInt (available_volume s))
                 (dset (name @ ''_total_volume'') (VInt (total_volume s))
                   (dset (name @ ''_volume'') (VInt (total_volume s)) d))))))"

definition decorate_position :: "BucketLedger \<Rightarrow> string \<Rightarrow> pydict \<Rightarrow> (BucketLedger \<times> pydict) res" where
  "decorate_position l code pos =
     rbind (sync_position l code pos) (\<lambda>l1.
       let bs = dmap bucket_normalize (instrument_buckets l1 code);
           d = fold decorate_bucket bs pos
       in Inr (set_buckets l1 code bs,
               dset ''bucket_ledger''
                 (VDict (dmap (\<lambda>s. VDict (BucketPositionState_to_dict s)) bs)) d))"

definition set_instrument_buckets ::
  "BucketLedger \<Rightarrow> string \<Rightarrow> (string, pydict) dict \<Rightarrow> BucketLedger res" where
  "set_instrument_buckets l code states =
     (if code = [] then Inr l
      else rbind (rmap (\<lambda>name. rbind (BucketPositionState_from_dict
                      (dsetdefault ''bucket'' (VStr name) (dget_or states name [])))
                    (\<lambda>s. Inr (name, s))) KNOWN_BUCKETS)
             (\<lambda>bs. Inr (set_buckets l code (ensure_buckets (dict_of bs)))))"

section \<open>Orders\<close>

definition freeze :: "int \<Rightarrow> BucketPositionState \<Rightarrow> BucketPositionState" where
  "freeze v s =
     bucket_normalize (s\<lparr>available_volume := available_volume s - v,
                        frozen_volume := frozen_volume s + v\<rparr>)"

definition reserve_substitution_legs ::
  "BucketLedger \<Rightarrow> string \<Rightarrow> SubstitutionPlan \<Rightarrow> BucketLedger \<times> ReservedLeg list" where
  "reserve_substitution_legs l code plan =
     (let legs = map (\<lambda>(b, v). (normalize_bucket (VStr b), v))
                   (filter (\<lambda>(b, v). 0 < v) (sell_from_buckets plan))
      in if legs = [] then (l, [])
         else if list_ex (\<lambda>(b, v). available_volume (the_bucket l code (VStr b)) < v) legs
         then (ensure_instrument l code, [])
         else (fold (\<lambda>(b, v) l. upd_bucket l code (VStr b) (freeze v)) legs l,
               map (\<lambda>(b, v). \<lparr>leg_bucket = b, leg_volume = v, leg_remaining = v\<rparr>) legs))"

record ReserveRequest =
  req_instrument_code :: string
  req_order_type :: OrderType
  req_bucket :: pyval
  req_volume :: int
  req_price :: pyfloat
  req_metadata :: pydict
  req_substitution_plan :: pydict

definition pending_of ::
  "string \<Rightarrow> ReserveRequest \<Rightarrow> ReservedLeg list \<Rightarrow> SubstitutionPlan option \<Rightarrow> string \<Rightarrow> PendingOrder" where
  "pending_of order_id r legs plan now_iso =
     \<lparr>po_order_id = order_id, po_instrument_code = req_instrument_code r,
      po_order_type = OrderType_value (req_order_type r),
      po_bucket = normalize_bucket (req_bucket r), po_volume = req_volume r,
      po_remaining_volume = req_volume r, po_price = req_price r, po_metadata = req_metadata r,
      po_reserved_legs = legs, po_substitution_plan_id = map_option substitution_id plan,
      po_created_at = now_iso\<rparr>"

definition add_pending :: "BucketLedger \<Rightarrow> string \<Rightarrow> PendingOrder \<Rightarrow> BucketLedger" where
  "add_pending l order_id p = l\<lparr>pending_orders := dset order_id p (pending_orders l)\<rparr>"

text \<open>The part of \<open>reserve_order\<close> after its arguments are read: \<open>None\<close> is the answer \<open>False\<close>.\<close>

definition reserve_legs ::
  "BucketLedger \<Rightarrow> string \<Rightarrow> ReserveRequest \<Rightarrow> SubstitutionPlan option \<Rightarrow>
   BucketLedger \<times> ReservedLeg list option" where
  "reserve_legs l order_id r plan =
     (if req_order_type r \<noteq> SELL then (l, Some [])
      else let code = req_instrument_code r; name = normalize_bucket (req_bucket r); v = req_volume r
           in case plan of
             Some p \<Rightarrow>
               if plan_enabled p then
                 let (l1, legs) = reserve_substitution_legs l code p
                 in if legs = [] then (l1, None)
                    else (l1\<lparr>pending_substitutions :=
                              dset order_id (p\<lparr>plan_status := RESERVED\<rparr>) (pending_substitutions l1)\<rparr>,
                          Some legs)
               else if name = LOCKED_CORE_BUCKET \<or> available_volume (the_bucket l code (VStr name)) < v
               then (l, None)
               else (upd_bucket l code (VStr name) (freeze v),
                     Some [\<lparr>leg_bucket = name, leg_volume = v, leg_remaining = v\<rparr>])
           | None \<Rightarrow>
               if name = LOCKED_CORE_BUCKET \<or> available_volume (the_bucket l code (VStr name)) < v
               then (l, None)
               else (upd_bucket l code (VStr name) (freeze v),
                     Some [\<lparr>leg_bucket = name, leg_volume = v, leg_remaining = v\<rparr>]))"

definition reserve_order ::
  "string \<Rightarrow> string \<Rightarrow> BucketLedger \<Rightarrow> string \<Rightarrow> ReserveRequest \<Rightarrow> (BucketLedger \<times> bool) res" where
  "reserve_order fresh now_iso l order_id r =
     (if order_id = [] \<or> req_instrument_code r = [] \<or> req_volume r \<le> 0 then Inr (l, False)
      else let l0 = ensure_instrument l (req_instrument_code r)
           in rbind (SubstitutionPlan_from_dict fresh (req_substitution_plan r) order_id) (\<lambda>plan.
                case reserve_legs l0 order_id r plan of
                  (l1, None) \<Rightarrow> Inr (l1, False)
                | (l1, Some legs) \<Rightarrow>
                    Inr (add_pending l1 order_id (pending_of order_id r legs plan now_iso), True)))"

definition transfer_order :: "BucketLedger \<Rightarrow> string \<Rightarrow> string \<Rightarrow> BucketLedger" where
  "transfer_order l old new =
     (if old = [] \<or> new = [] \<or> old = new then l
      else let l1 = (case dget (pending_orders l) old of
                       None \<Rightarrow> l
                     | Some p \<Rightarrow> l\<lparr>pending_orders :=
                         dset new (p\<lparr>po_order_id := new\<rparr>) (dpop old (pending_orders l))\<rparr>)
           in case dget (pending_substitutions l1) old of
                None \<Rightarrow> l1
              | Some q \<Rightarrow> l1\<lparr>pending_substitutions :=
                  dset new (q\<lparr>plan_order_id := VStr new\<rparr>) (dpop old (pending_substitutions l1))\<rparr>)"

definition unfreeze :: "int \<Rightarrow> BucketPositionState \<Rightarrow> BucketPositionState" where
  "unfreeze v s =
     bucket_normalize (s\<lparr>frozen_volume := max 0 (frozen_volume s - v),
                        available_volume := available_volume s + v\<rparr>)"

text \<open>Legs are handed back one after the other, each with its event.\<close>

fun release_legs :: "BucketLedger \<Rightarrow> string \<Rightarrow> string \<Rightarrow> ReservedLeg list \<Rightarrow> BucketLedger \<times> pydict list" where
  "release_legs l code why [] = (l, [])"
| "release_legs l code why (leg # legs) =
     (if leg_remaining leg \<le> 0 then release_legs l code why legs
      else let l1 = upd_bucket l code (VStr (leg_bucket leg)) (unfreeze (leg_remaining leg));
               (l2, evs) = release_legs l1 code why legs
           in (l2, [(''event'', VStr ''bucket_unfrozen''),
                    (''bucket'', VStr (bucket (the_bucket l1 code (VStr (leg_bucket leg))))),
                    (''volume'', VInt (leg_remaining leg)), (''reason'', VStr why)] # evs))"

definition rollback_order :: "BucketLedger \<Rightarrow> string \<Rightarrow> string \<Rightarrow> BucketLedger \<times> BucketLedgerPatch" where
  "rollback_order l order_id why =
     (case dget (pending_orders l) order_id of
        None \<Rightarrow> (l, \<lparr>patch_instrument_code = [], changed_buckets = [], patch_events = []\<rparr>)
      | Some p \<Rightarrow>
          let code = po_instrument_code p;
              l0 = l\<lparr>pending_orders := dpop order_id (pending_orders l)\<rparr>;
              (l1, evs) = release_legs l0 code why (po_reserved_legs p);
              (l2, evs2) =
                (case dget (pending_substitutions l1) order_id of
                   None \<Rightarrow> (l1, [])
                 | Some q \<Rightarrow>
                     let q' = q\<lparr>plan_status := (if 0 < applied_volume q then PARTIAL_APPLIED else ROLLED_BACK),
                               rolled_back_volume := rolled_back_volume q + po_remaining_volume p\<rparr>
                     in (l1\<lparr>pending_substitutions := dpop order_id (pending_substitutions l1)\<rparr>,
                         [[(''event'', VStr ''substitution_rolled_back''),
                           (''plan'', VDict (SubstitutionPlan_to_dict q'))]]))
          in (normalize_instrument l2 code,
              \<lparr>patch_instrument_code = code, changed_buckets = instrument_snapshot l2 code,
               patch_events = evs @ evs2\<rparr>))"

section \<open>Trades\<close>

definition apply_bucket_buy :: "int \<Rightarrow> pyfloat \<Rightarrow> BucketPositionState \<Rightarrow> BucketPositionState" where
  "apply_bucket_buy volume price s =
     (let old_value = fmul (bucket_avg_price s) (float_of_int (total_volume s));
          add_value = fmul (pmax fzero price) (float_of_int volume);
          total = total_volume s + volume;
          avg = (if 0 < total then fdiv (fadd old_value add_value) (float_of_int total)
                 else bucket_avg_price s);
          lp = pmax (bucket_last_price s) price
      in bucket_normalize (s\<lparr>total_volume := total, today_buy_volume := today_buy_volume s + volume,
           bucket_avg_price := avg, bucket_last_price := lp,
           bucket_market_value := fmul (float_of_int total) (f_or lp avg)\<rparr>))"

definition revalue :: "BucketPositionState \<Rightarrow> BucketPositionState" where
  "revalue s = s\<lparr>bucket_market_value :=
     fmul (float_of_int (total_volume s)) (f_or (bucket_last_price s) (bucket_avg_price s))\<rparr>"

definition sell_reserved :: "int \<Rightarrow> BucketPositionState \<Rightarrow> BucketPositionState" where
  "sell_reserved taken s =
     bucket_normalize (revalue (s\<lparr>frozen_volume := max 0 (frozen_volume s - taken),
                                  total_volume := max 0 (total_volume s - taken)\<rparr>))"

definition sell_unreserved :: "int \<Rightarrow> BucketPositionState \<Rightarrow> BucketPositionState" where
  "sell_unreserved taken s =
     bucket_normalize (revalue (s\<lparr>total_volume := total_volume s - taken,
                                  available_volume := max 0 (available_volume s - taken)\<rparr>))"

text \<open>The ledger and the legs after the sale, what no leg covered, and the events.\<close>

fun sell_legs ::
  "BucketLedger \<Rightarrow> string \<Rightarrow> int \<Rightarrow> ReservedLeg list \<Rightarrow>
   BucketLedger \<times> ReservedLeg list \<times> int \<times> pydict list" where
  "sell_legs l code remaining [] = (l, [], remaining, [])"
| "sell_legs l code remaining (leg # legs) =
     (if remaining \<le> 0 then (l, leg # legs, remaining, [])
      else if leg_remaining leg \<le> 0 then
        let (l', legs', r, evs) = sell_legs l code remaining legs in (l', leg # legs', r, evs)
      else
        let taken = min remaining (leg_remaining leg);
            l1 = upd_bucket l code (VStr (leg_bucket leg)) (sell_reserved taken);
            (l', legs', r, evs) = sell_legs l1 code (remaining - taken) legs
        in (l', leg\<lparr>leg_remaining := leg_remaining leg - taken\<rparr> # legs', r,
            [(''event'', VStr ''bucket_sell_applied''),
             (''bucket'', VStr (bucket (the_bucket l1 code (VStr (leg_bucket leg))))),
             (''volume'', VInt taken)] # evs))"

definition apply_bucket_sell ::
  "BucketLedger \<Rightarrow> string \<Rightarrow> string \<Rightarrow> string \<Rightarrow> int \<Rightarrow> BucketLedger \<times> pydict list" where
  "apply_bucket_sell l order_id code name volume =
     (let (l1, remaining, evs) =
            (case dget (pending_orders l) order_id of
               None \<Rightarrow> (l, volume, [])
             | Some p \<Rightarrow>
                 let (l', legs', r, evs) = sell_legs l code volume (po_reserved_legs p)
                 in (add_pending l' order_id (p\<lparr>po_reserved_legs := legs'\<rparr>), r, evs))
      in if 0 < remaining then
           let taken = min remaining (total_volume (the_bucket l1 code (VStr name)))
           in (upd_bucket l1 code (VStr name) (sell_unreserved taken),
               evs @ [[(''event'', VStr ''bucket_sell_unreserved''),
                       (''bucket'', VStr (bucket (the_bucket l1 code (VStr name)))),
                       (''volume'', VInt taken)]])
         else (l1, evs))"

definition take_today :: "int \<Rightarrow> BucketPositionState \<Rightarrow> BucketPositionState" where
  "take_today v s =
     bucket_normalize (revalue (s\<lparr>total_volume := total_volume s - v,
                                  today_buy_volume := today_buy_volume s - v\<rparr>))"

definition move_today ::
  "BucketLedger \<Rightarrow> string \<Rightarrow> SubstitutionPlan \<Rightarrow> int \<Rightarrow> pyfloat \<Rightarrow> BucketLedger \<times> pydict list" where
  "move_today l code plan volume price =
     (let from_b = VStr (requested_bucket plan); to_b = VStr (reattribute_buy_to_bucket plan);
          requested = the_bucket l code from_b; target = the_bucket l code to_b;
          movable = min volume (min (today_buy_volume requested) (total_volume requested))
      in if 0 < movable \<and> bucket requested \<noteq> bucket target
         then (upd_bucket (upd_bucket l code from_b (take_today movable)) code to_b
                 (apply_bucket_buy movable price),
               [[(''event'', VStr ''substitution_reattributed''),
                 (''from_bucket'', VStr (bucket requested)), (''to_bucket'', VStr (bucket target)),
                 (''volume'', VInt movable)]])
         else (ensure_instrument l code, []))"

text \<open>\<open>self._pending_substitutions.pop(plan.order_id or "", None)\<close>\<close>

definition pop_substitution ::
  "pyval \<Rightarrow> (string, SubstitutionPlan) dict \<Rightarrow> (string, SubstitutionPlan) dict res" where
  "pop_substitution key d =
     (case v_or key (VStr []) of
        VStr s \<Rightarrow> Inr (dpop s d)
      | VList _ \<Rightarrow> Inl TypeError
      | VDict _ \<Rightarrow> Inl TypeError
      | _ \<Rightarrow> Inr d)"

definition apply_substitution_reattribute ::
  "BucketLedger \<Rightarrow> string \<Rightarrow> string \<Rightarrow> SubstitutionPlan \<Rightarrow> int \<Rightarrow> pyfloat \<Rightarrow>
   (BucketLedger \<times> pydict list) res" where
  "apply_substitution_reattribute l order_id code plan volume price =
     (let (l1, evs) = move_today l code plan volume price;
          applied = applied_volume plan + volume;
          done = (max (plan_volume plan) volume \<le> applied);
          plan' = plan\<lparr>applied_volume := applied,
                       plan_status := (if done then APPLIED else PARTIAL_APPLIED)\<rparr>;
          subs = dset order_id plan' (pending_substitutions l1)
      in rbind (if done then pop_substitution (plan_order_id plan) subs else Inr subs) (\<lambda>subs'.
           Inr (l1\<lparr>pending_substitutions := subs'\<rparr>, evs)))"

definition consume_pending :: "BucketLedger \<Rightarrow> string \<Rightarrow> int \<Rightarrow> BucketLedger" where
  "consume_pending l order_id volume =
     (if order_id = [] then l
      else case dget (pending_orders l) order_id of
             None \<Rightarrow> l
           | Some p \<Rightarrow>
               let remaining = max 0 (po_remaining_volume p - volume)
               in if remaining \<le> 0 then l\<lparr>pending_orders := dpop order_id (pending_orders l)\<rparr>
                  else add_pending l order_id (p\<lparr>po_remaining_volume := remaining\<rparr>))"

text \<open>The type of a trade is an \<open>OrderType\<close> or the text a broker gives.\<close>

datatype TradeType = Typed OrderType | Named string

definition endswith :: "string \<Rightarrow> string \<Rightarrow> bool" where
  "endswith s p \<longleftrightarrow> drop (length s - length p) s = p"

fun is_buy_trade :: "TradeType \<Rightarrow> bool" where
  "is_buy_trade (Typed t) \<longleftrightarrow> t \<in> {BUY, BUY_TO_COVER}"
| "is_buy_trade (Named s) \<longleftrightarrow> endswith s ''BUY''"

fun is_sell_trade :: "TradeType \<Rightarrow> bool" where
  "is_sell_trade (Typed t) \<longleftrightarrow> t = SELL"
| "is_sell_trade (Named s) \<longleftrightarrow> endswith s ''SELL''"

record TradeEvent =
  te_order_id :: string
  te_instrument_code :: string
  te_volume :: int
  te_price :: pyfloat
  te_type :: TradeType

definition trade_bucket :: "BucketLedger \<Rightarrow> TradeEvent \<Rightarrow> pydict \<Rightarrow> string" where
  "trade_bucket l e order_metadata =
     (let (meta0, dflt) =
            (case dget (pending_orders l) (te_order_id e) of
               None \<Rightarrow> ([], CORE_BUCKET) | Some p \<Rightarrow> (po_metadata p, po_bucket p));
          meta = fold (\<lambda>(k, v). dset k v) order_metadata meta0
      in normalize_bucket (vget_or meta ''bucket'' (VStr dflt)))"

definition trade_effect ::
  "BucketLedger \<Rightarrow> TradeEvent \<Rightarrow> string \<Rightarrow> (BucketLedger \<times> pydict list) res" where
  "trade_effect l e name =
     (let code = te_instrument_code e; volume = te_volume e
      in if is_buy_trade (te_type e) then
           Inr (upd_bucket l code (VStr name) (apply_bucket_buy volume (te_price e)),
                [[(''event'', VStr ''bucket_buy_applied''), (''bucket'', VStr name),
                  (''volume'', VInt volume)]])
         else if is_sell_trade (te_type e) then
           let (l1, evs) = apply_bucket_sell l (te_order_id e) code name volume
           in case dget (pending_substitutions l1) (te_order_id e) of
                None \<Rightarrow> Inr (l1, evs)
              | Some plan \<Rightarrow>
                  rbind (apply_substitution_reattribute l1 (te_order_id e) code plan volume (te_price e))
                    (\<lambda>(l2, evs2). Inr (l2, evs @ evs2))
         else Inr (l, []))"

definition apply_trade ::
  "BucketLedger \<Rightarrow> TradeEvent \<Rightarrow> pydict \<Rightarrow> (BucketLedger \<times> BucketLedgerPatch) res" where
  "apply_trade l e order_metadata =
     (let code = te_instrument_code e
      in if code = [] \<or> te_volume e \<le> 0 then
           Inr (l, \<lparr>patch_instrument_code = code, changed_buckets = [], patch_events = []\<rparr>)
         else rbind (trade_effect l e (trade_bucket l e order_metadata)) (\<lambda>(l1, evs).
                let l2 = consume_pending l1 (te_order_id e) (te_volume e)
                in Inr (normalize_instrument l2 code,
                        \<lparr>patch_instrument_code = code, changed_buckets = instrument_snapshot l2 code,
                         patch_events = evs\<rparr>)))"

section \<open>Settlement, corporate actions and validation\<close>

definition settle_state :: "BucketPositionState \<Rightarrow> BucketPositionState" where
  "settle_state s =
     bucket_normalize (s\<lparr>available_volume := max 0 (total_volume s - frozen_volume s),
                        today_buy_volume := 0\<rparr>)"

definition settle_trading_day :: "BucketLedger \<Rightarrow> string \<Rightarrow> BucketLedger" where
  "settle_trading_day l day =
     (if last_settlement_date l = Some day then l
      else l\<lparr>last_settlement_date := Some day,
             ledger_buckets := dmap (dmap settle_state) (ledger_buckets l)\<rparr>)"

definition pending_metadata :: "BucketLedger \<Rightarrow> string \<Rightarrow> pydict" where
  "pending_metadata l order_id =
     (case dget (pending_orders l) order_id of None \<Rightarrow> [] | Some p \<Rightarrow> po_metadata p)"

definition scale_volume :: "int \<Rightarrow> pyfloat \<Rightarrow> int res" where
  "scale_volume v factor =
     rbind (round_of_float (fmul (float_of_int v) factor)) (\<lambda>n. Inr (max 0 n))"

definition adjust_state ::
  "pyfloat \<Rightarrow> pyfloat \<Rightarrow> pyfloat \<Rightarrow> BucketPositionState \<Rightarrow> BucketPositionState res" where
  "adjust_state factor mult dividend s0 =
     (let s = bucket_normalize s0
      in rbind (scale_volume (total_volume s) factor) (\<lambda>total.
         rbind (scale_volume (available_volume s) factor) (\<lambda>available.
         rbind (scale_volume (today_buy_volume s) factor) (\<lambda>today.
         rbind (scale_volume (frozen_volume s) factor) (\<lambda>frozen.
           let avg = pmax fzero (fsub (fmul (bucket_avg_price s) mult) dividend);
               lp = pmax fzero (fsub (fmul (bucket_last_price s) mult) dividend)
           in Inr (bucket_normalize
                (s\<lparr>total_volume := total, available_volume := available, today_buy_volume := today,
                   frozen_volume := frozen, bucket_avg_price := avg, bucket_last_price := lp,
                   bucket_market_value := fmul (float_of_int total) (f_or lp avg)\<rparr>)))))))"

definition adjust_event :: "BucketPositionState \<Rightarrow> BucketPositionState \<Rightarrow> pydict list" where
  "adjust_event s0 s =
     (let before = BucketPositionState_to_dict s0; after = BucketPositionState_to_dict s
      in if before \<noteq> after
         then [[(''event'', VStr ''corporate_action_bucket_adjusted''), (''bucket'', VStr (bucket s)),
                (''before'', VDict before), (''after'', VDict after)]]
         else [])"

definition apply_corporate_action ::
  "BucketLedger \<Rightarrow> string \<Rightarrow> pyfloat \<Rightarrow> pyfloat option \<Rightarrow> pyfloat \<Rightarrow> pyval \<Rightarrow> pyval \<Rightarrow>
   (BucketLedger \<times> BucketLedgerPatch) res" where
  "apply_corporate_action l code volume_factor price_factor cash_dividend_per_share action_id ex_date =
     (if code = [] then Inr (l, \<lparr>patch_instrument_code = [], changed_buckets = [], patch_events = []\<rparr>)
      else
        let f0 = f_or volume_factor (Fin 1);
            factor = (if fle f0 fzero then Fin 1 else f0);
            mult = (case price_factor of
                      None \<Rightarrow> if flt fzero factor then fdiv (Fin 1) factor else Fin 1
                    | Some x \<Rightarrow> f_or x (Fin 1));
            dividend = pmax fzero cash_dividend_per_share;
            bs = instrument_buckets l code
        in rbind (rmap (\<lambda>(name, s). rbind (adjust_state factor mult dividend s)
                                  (\<lambda>s'. Inr (name, s'))) bs) (\<lambda>bs'.
             let l1 = set_buckets l code bs'
             in Inr (normalize_instrument l1 code,
                     \<lparr>patch_instrument_code = code, changed_buckets = instrument_snapshot l1 code,
                      patch_events =
                        concat (map2 (\<lambda>(_, s) (_, s'). adjust_event s s') bs bs')
                        @ [[(''event'', VStr ''corporate_action_applied''), (''action_id'', action_id),
                            (''ex_date'', ex_date), (''volume_factor'', VFloat factor),
                            (''price_factor'', VFloat mult),
                            (''cash_dividend_per_share'', VFloat dividend)]]\<rparr>)))"

definition position_check ::
  "string \<Rightarrow> string \<Rightarrow> int \<Rightarrow> int \<Rightarrow> string list" where
  "position_check code field actual expected =
     (if actual \<noteq> expected
      then [code @ ''.'' @ field @ '': bucket='' @ string_of_int actual @ '', position=''
            @ string_of_int expected]
      else [])"

definition optional_check ::
  "pydict \<Rightarrow> string \<Rightarrow> string \<Rightarrow> int \<Rightarrow> string list res" where
  "optional_check pos code field actual =
     (if dmem pos field
      then rbind (int_or_0 (vget_or pos field (VInt 0))) (\<lambda>n. Inr (position_check code field actual n))
      else Inr [])"

definition instrument_issues :: "buckets \<Rightarrow> string \<Rightarrow> pydict \<Rightarrow> string list res" where
  "instrument_issues bs code pos =
     rbind (int_or_0 (vget_or pos ''long_volume'' (vget_or pos ''total_volume'' (VInt 0)))) (\<lambda>expected.
     rbind (optional_check pos code ''available_volume'' (sum_of available_volume bs)) (\<lambda>i2.
     rbind (optional_check pos code ''frozen_volume'' (sum_of frozen_volume bs)) (\<lambda>i3.
     rbind (optional_check pos code ''today_buy_volume'' (sum_of today_buy_volume bs)) (\<lambda>i4.
       Inr (position_check code ''total_volume'' (sum_of total_volume bs) expected @ i2 @ i3 @ i4)))))"

definition validate_invariants ::
  "BucketLedger \<Rightarrow> (string, pydict) dict \<Rightarrow> (BucketLedger \<times> string list) res" where
  "validate_invariants l positions =
     (let codes = sort (remdups (dkeys (ledger_buckets l) @ dkeys positions));
          l1 = fold (\<lambda>code l. ensure_instrument l code) codes l
      in rbind (rmap (\<lambda>code. instrument_issues (instrument_buckets l1 code) code
                        (dget_or positions code [])) codes)
           (\<lambda>issues. Inr (l1, concat issues)))"

section \<open>Snapshots\<close>

record BucketLedgerSnapshot =
  snap_run_id :: string
  snap_instruments :: "(string, (string, pydict) dict) dict"
  snap_pending_orders :: "(string, PendingOrder) dict"
  snap_pending_substitutions :: "(string, pydict) dict"
  snap_last_settlement_date :: "string option"

text \<open>
  \<open>snapshot\<close> normalizes the states it prints; its time stamp is not kept here, since
  \<open>from_dict\<close> does not read it.
\<close>

definition ledger_snapshot :: "BucketLedger \<Rightarrow> BucketLedgerSnapshot" where
  "ledger_snapshot l =
     \<lparr>snap_run_id = ledger_run_id l,
      snap_instruments = dmap (dmap BucketPositionState_to_dict) (ledger_buckets l),
      snap_pending_orders = pending_orders l,
      snap_pending_substitutions = dmap SubstitutionPlan_to_dict (pending_substitutions l),
      snap_last_settlement_date = last_settlement_date l\<rparr>"

definition restore_buckets :: "(string, pydict) dict \<Rightarrow> buckets res" where
  "restore_buckets states =
     rbind (rmap (\<lambda>(name, d). BucketPositionState_from_dict (dsetdefault ''bucket'' (VStr name) d)) states)
       (\<lambda>ss. Inr (ensure_buckets (dict_of (map (\<lambda>s. (bucket s, s)) ss))))"

fun restore_plans ::
  "(string \<Rightarrow> string) \<Rightarrow> (string, pydict) dict \<Rightarrow> (string \<times> SubstitutionPlan) list res" where
  "restore_plans fresh [] = Inr []"
| "restore_plans fresh ((order_id, d) # ds) =
     rbind (SubstitutionPlan_from_dict (fresh order_id) d order_id) (\<lambda>plan.
     rbind (restore_plans fresh ds) (\<lambda>rest.
       Inr (case plan of None \<Rightarrow> rest | Some p \<Rightarrow> (order_id, p) # rest)))"

definition ledger_from_dict :: "(string \<Rightarrow> string) \<Rightarrow> BucketLedgerSnapshot \<Rightarrow> BucketLedger res" where
  "ledger_from_dict fresh s =
     rbind (rmap (\<lambda>(code, states). rbind (restore_buckets states) (\<lambda>bs. Inr (code, bs)))
              (filter (\<lambda>(code, _). code \<noteq> []) (snap_instruments s))) (\<lambda>bs.
     rbind (restore_plans fresh (snap_pending_substitutions s)) (\<lambda>plans.
       Inr \<lparr>ledger_run_id = snap_run_id s, ledger_buckets = dict_of bs,
             pending_orders = filter (\<lambda>(order_id, _). order_id \<noteq> []) (snap_pending_orders s),
             pending_substitutions = dict_of plans,
             last_settlement_date =
               (case snap_last_settlement_date s of
                  Some d \<Rightarrow> if d = [] then None else Some d | None \<Rightarrow> None)\<rparr>))"

end
