(* ===== verification/Bucket_Facts.thy ===== *)
theory Bucket_Facts
  imports Bucket_Ledger
begin

text \<open>
  Facts of the bucket ledger that its properties share: the ledger as a store of cells
  addressed by instrument and bucket, normalized states, what each operation does to the
  four volumes of a bucket, and that every operation keeps the ledger well formed.
\<close>

section \<open>Interface: cells addressed by equivalent keys\<close>

locale cell_store =
  fixes get :: "'m \<Rightarrow> 'k \<Rightarrow> 'v" and upd :: "'m \<Rightarrow> 'k \<Rightarrow> ('v \<Rightarrow> 'v) \<Rightarrow> 'm" and key :: "'k \<Rightarrow> 'i"
  assumes get_upd: "get (upd m k f) k' = (if key k' = key k then f (get m k) else get m k')"
    and get_key: "key k = key k' \<Longrightarrow> get m k = get m k'"
begin

lemma upd_same: "get (upd m k f) k = f (get m k)"
  by (simp add: get_upd)

lemma upd_other: "key k' \<noteq> key k \<Longrightarrow> get (upd m k f) k' = get m k'"
  by (simp add: get_upd)

lemma upd_keeps:
  assumes "\<And>s. h (f s) = h s"
  shows "h (get (upd m k f) k') = h (get m k')"
  using assms get_key [of k' k m] by (simp add: get_upd)

lemma upd_all:
  assumes "\<And>k. P (get m k)" "\<And>s. P s \<Longrightarrow> P (f s)"
  shows "P (get (upd m k f) k')"
  using assms by (simp add: get_upd)

end

section \<open>Buckets of an instrument\<close>

lemma normalize_bucket_known: "normalize_bucket b \<in> set KNOWN_BUCKETS"
  by (auto simp: normalize_bucket_def KNOWN_BUCKETS_def Let_def)

lemma lower_known [simp]:
  "lower ''core'' = ''core''" "lower ''swing'' = ''swing''" "lower ''locked_core'' = ''locked_core''"
  by (simp_all add: lower_def lower_char_def)

lemma normalize_bucket_idem [simp]: "normalize_bucket (VStr (normalize_bucket b)) = normalize_bucket b"
  using normalize_bucket_known [of b]
  by (auto simp: KNOWN_BUCKETS_def normalize_bucket_def [of "VStr _"] str_or_def
      CORE_BUCKET_def SWING_BUCKET_def LOCKED_CORE_BUCKET_def)

lemma dget_ensure:
  "dget (ensure_buckets bs) name =
     (if name \<in> set KNOWN_BUCKETS then Some (dget_or bs name (empty_bucket name)) else dget bs name)"
  by (auto simp: ensure_buckets_def KNOWN_BUCKETS_def dget_or_def split: option.splits)

lemma ensure_id: "set KNOWN_BUCKETS \<subseteq> set (dkeys bs) \<Longrightarrow> ensure_buckets bs = bs"
  by (auto simp: ensure_buckets_def KNOWN_BUCKETS_def dsetdefault_def dmem_def dget_None_iff)

lemma keys_ensure: "set KNOWN_BUCKETS \<subseteq> set (dkeys (ensure_buckets bs))"
proof
  fix n assume "n \<in> set KNOWN_BUCKETS"
  then have "dget (ensure_buckets bs) n \<noteq> None" by (simp add: dget_ensure)
  then show "n \<in> set (dkeys (ensure_buckets bs))" by (simp add: dget_None_iff)
qed

lemma dkeys_dset_mono: "set (dkeys bs) \<subseteq> set (dkeys (dset k v bs))"
  by (auto simp: dkeys_def dset_def dom_update)

lemma ensure_dset_ensure [simp]: "ensure_buckets (dset k v (ensure_buckets bs)) = dset k v (ensure_buckets bs)"
  by (rule ensure_id) (rule subset_trans [OF keys_ensure dkeys_dset_mono])

lemma ensure_idem [simp]: "ensure_buckets (ensure_buckets bs) = ensure_buckets bs"
  by (rule ensure_id) (rule keys_ensure)

lemma ensure_dmap [simp]: "ensure_buckets (dmap f (ensure_buckets bs)) = dmap f (ensure_buckets bs)"
  by (rule ensure_id) (simp add: keys_ensure)

lemma instrument_set_buckets:
  "instrument_buckets (set_buckets l code bs) code' =
     (if code' = code then ensure_buckets bs else instrument_buckets l code')"
  by (simp add: instrument_buckets_def set_buckets_def dget_or_def)

lemma instrument_ensured [simp]: "ensure_buckets (instrument_buckets l code) = instrument_buckets l code"
  by (simp add: instrument_buckets_def)

lemma instrument_upd:
  "instrument_buckets (upd_bucket l code b f) code' =
     (if code' = code then dset (normalize_bucket b) (f (the_bucket l code b)) (instrument_buckets l code)
      else instrument_buckets l code')"
  by (simp add: upd_bucket_def instrument_set_buckets) (simp add: instrument_buckets_def)

lemma the_bucket_upd:
  "the_bucket (upd_bucket l code b f) code' b' =
     (if code' = code \<and> normalize_bucket b' = normalize_bucket b then f (the_bucket l code b)
      else the_bucket l code' b')"
  by (simp add: the_bucket_def [of "upd_bucket l code b f"] instrument_upd dget_or_def Let_def)
    (simp add: the_bucket_def dget_or_def Let_def)

text \<open>The ledger as a store of bucket states, addressed by instrument and bucket name.\<close>

interpretation ledger_cells: cell_store
  "\<lambda>l k. the_bucket l (fst k) (snd k)" "\<lambda>l k f. upd_bucket l (fst k) (snd k) f"
  "\<lambda>k. (fst k, normalize_bucket (snd k))"
  by unfold_locales (auto simp: the_bucket_upd, simp add: the_bucket_def)

lemma the_bucket_ensure [simp]: "the_bucket (ensure_instrument l code) code' b = the_bucket l code' b"
  by (simp add: the_bucket_def ensure_instrument_def instrument_set_buckets)

lemma upd_bucket_frame [simp]:
  "pending_orders (upd_bucket l code b f) = pending_orders l"
  "pending_substitutions (upd_bucket l code b f) = pending_substitutions l"
  "last_settlement_date (upd_bucket l code b f) = last_settlement_date l"
  "ledger_run_id (upd_bucket l code b f) = ledger_run_id l"
  "pending_orders (ensure_instrument l code) = pending_orders l"
  "pending_substitutions (ensure_instrument l code) = pending_substitutions l"
  "pending_orders (normalize_instrument l code) = pending_orders l"
  "pending_substitutions (normalize_instrument l code) = pending_substitutions l"
  by (simp_all add: upd_bucket_def set_buckets_def ensure_instrument_def normalize_instrument_def)

lemma the_bucket_pending [simp]:
  "the_bucket (l\<lparr>pending_orders := p\<rparr>) code b = the_bucket l code b"
  "the_bucket (l\<lparr>pending_substitutions := q\<rparr>) code b = the_bucket l code b"
  "the_bucket (add_pending l oid po) code b = the_bucket l code b"
  by (simp_all add: the_bucket_def instrument_buckets_def add_pending_def)

lemma dget_instrument [simp]:
  "dget (instrument_buckets l code) (normalize_bucket b) = Some (the_bucket l code b)"
  by (simp add: the_bucket_def instrument_buckets_def dget_ensure normalize_bucket_known dget_or_def Let_def)

lemma the_bucket_normalize:
  "the_bucket (normalize_instrument l code) code' b =
     (if code' = code \<and> code \<noteq> [] then bucket_normalize (the_bucket l code' b) else the_bucket l code' b)"
proof -
  have "instrument_buckets (normalize_instrument l code) code' =
      (if code' = code \<and> code \<noteq> [] then dmap bucket_normalize (instrument_buckets l code)
       else instrument_buckets l code')"
    by (simp add: normalize_instrument_def instrument_set_buckets) (simp add: instrument_buckets_def)
  then show ?thesis
    by (simp add: the_bucket_def [of "normalize_instrument l code"] Let_def dget_or_def)
qed

section \<open>Normalized states\<close>

definition state_ok :: "BucketPositionState \<Rightarrow> bool" where
  "state_ok s \<longleftrightarrow> bucket_normalize s = s"

lemma pmax_fzero_idem [simp]: "pmax fzero (pmax fzero x) = pmax fzero x"
  by simp

lemma normalize_idem [simp]: "bucket_normalize (bucket_normalize s) = bucket_normalize s"
  by (simp add: bucket_normalize_def)

lemma state_ok_normalize [simp]: "state_ok (bucket_normalize s)"
  by (simp add: state_ok_def)

lemma state_ok_bounds:
  assumes "state_ok s"
  shows "0 \<le> total_volume s" "0 \<le> frozen_volume s" "0 \<le> today_buy_volume s" "0 \<le> available_volume s"
    "available_volume s \<le> max 0 (total_volume s - frozen_volume s)"
proof -
  from assms have "bucket_normalize s = s" by (simp add: state_ok_def)
  then have "total_volume (bucket_normalize s) = total_volume s"
    "frozen_volume (bucket_normalize s) = frozen_volume s"
    "today_buy_volume (bucket_normalize s) = today_buy_volume s"
    "available_volume (bucket_normalize s) = available_volume s" by simp_all
  then show "0 \<le> total_volume s" "0 \<le> frozen_volume s" "0 \<le> today_buy_volume s" "0 \<le> available_volume s"
    "available_volume s \<le> max 0 (total_volume s - frozen_volume s)"
    by (simp_all add: bucket_normalize_def)
qed

lemma revalue_volumes [simp]:
  "total_volume (revalue s) = total_volume s" "frozen_volume (revalue s) = frozen_volume s"
  "available_volume (revalue s) = available_volume s" "today_buy_volume (revalue s) = today_buy_volume s"
  "bucket (revalue s) = bucket s"
  by (simp_all add: revalue_def)

text \<open>The four volumes of a bucket.\<close>

definition volumes :: "BucketPositionState \<Rightarrow> int \<times> int \<times> int \<times> int" where
  "volumes s = (total_volume s, available_volume s, frozen_volume s, today_buy_volume s)"

lemma volumes_normalize: "state_ok s \<Longrightarrow> volumes (bucket_normalize s) = volumes s"
  by (simp add: state_ok_def)

lemma volumes_freeze:
  assumes "state_ok s" "0 \<le> v" "v \<le> available_volume s"
  shows "volumes (freeze v s) =
    (total_volume s, available_volume s - v, frozen_volume s + v, today_buy_volume s)"
  using state_ok_bounds [OF assms(1)] assms(2,3) by (auto simp: volumes_def freeze_def bucket_normalize_def)

lemma volumes_unfreeze:
  assumes "state_ok s" "0 \<le> v" "v \<le> frozen_volume s" "frozen_volume s \<le> total_volume s"
  shows "volumes (unfreeze v s) =
    (total_volume s, available_volume s + v, frozen_volume s - v, today_buy_volume s)"
  using state_ok_bounds [OF assms(1)] assms(2-) by (auto simp: volumes_def unfreeze_def bucket_normalize_def)

lemma volumes_sell_reserved:
  assumes "state_ok s" "0 \<le> v" "v \<le> frozen_volume s" "frozen_volume s \<le> total_volume s"
  shows "volumes (sell_reserved v s) =
    (total_volume s - v, available_volume s, frozen_volume s - v, today_buy_volume s)"
  using state_ok_bounds [OF assms(1)] assms(2-) by (auto simp: volumes_def sell_reserved_def bucket_normalize_def)

lemma volumes_buy:
  assumes "state_ok s" "0 \<le> v"
  shows "volumes (apply_bucket_buy v x s) =
    (total_volume s + v, available_volume s, frozen_volume s, today_buy_volume s + v)"
  using state_ok_bounds [OF assms(1)] assms(2)
  by (auto simp: volumes_def apply_bucket_buy_def bucket_normalize_def Let_def)

lemma volumes_settle:
  assumes "state_ok s"
  shows "volumes (settle_state s) =
    (total_volume s, max 0 (total_volume s - frozen_volume s), frozen_volume s, 0)"
  using state_ok_bounds [OF assms] by (auto simp: volumes_def settle_state_def bucket_normalize_def)

lemma op_state_ok [simp]:
  "state_ok (freeze v s)" "state_ok (unfreeze v s)" "state_ok (sell_reserved v s)"
  "state_ok (sell_unreserved v s)" "state_ok (apply_bucket_buy v x s)" "state_ok (take_today v s)"
  "state_ok (settle_state s)" "state_ok (adopt_position p mv s)" "state_ok (adjust_core d e s)"
  "state_ok (mark_state t lp a mv s)"
  by (simp_all add: freeze_def unfreeze_def sell_reserved_def sell_unreserved_def apply_bucket_buy_def
      take_today_def settle_state_def adopt_position_def adjust_core_def mark_state_def Let_def)

lemma state_ok_empty [simp]: "state_ok (empty_bucket n)"
  by (simp add: state_ok_def empty_bucket_def bucket_normalize_def pmax_def)

definition buckets_ok :: "buckets \<Rightarrow> bool" where
  "buckets_ok bs \<longleftrightarrow> distinct (dkeys bs) \<and> list_all (\<lambda>(n, s). state_ok s) bs"

definition ledger_ok :: "BucketLedger \<Rightarrow> bool" where
  "ledger_ok l \<longleftrightarrow> list_all (\<lambda>(code, bs). buckets_ok bs) (ledger_buckets l)"

lemma list_all_dset: "list_all (\<lambda>(k, v). P v) d \<Longrightarrow> P v \<Longrightarrow> list_all (\<lambda>(k, v). P v) (dset k v d)"
  using dset_set_subset [of k v d] by (auto simp: list_all_iff)

lemma list_all_dget: "list_all (\<lambda>(k, v). P v) d \<Longrightarrow> dget d k = Some v \<Longrightarrow> P v"
  by (auto simp: list_all_iff dest: dget_in_set)

lemma list_all_dmap: "(\<And>v. P (f v)) \<Longrightarrow> list_all (\<lambda>(k, v). P v) (dmap f d)"
  by (auto simp: list_all_iff dmap_def)

lemma buckets_ok_ensure [simp]: "buckets_ok bs \<Longrightarrow> buckets_ok (ensure_buckets bs)"
  by (simp add: buckets_ok_def ensure_buckets_def KNOWN_BUCKETS_def dsetdefault_def list_all_dset dkeys_dset)

lemma buckets_ok_dset: "buckets_ok bs \<Longrightarrow> state_ok s \<Longrightarrow> buckets_ok (dset n s bs)"
  by (simp add: buckets_ok_def list_all_dset dkeys_dset)

lemma buckets_ok_dmap: "buckets_ok bs \<Longrightarrow> (\<And>s. state_ok (f s)) \<Longrightarrow> buckets_ok (dmap f bs)"
  by (simp add: buckets_ok_def list_all_dmap)

lemma ledger_ok_instrument: "ledger_ok l \<Longrightarrow> buckets_ok (instrument_buckets l code)"
  unfolding instrument_buckets_def ledger_ok_def
  by (rule buckets_ok_ensure)
    (auto simp: dget_or_def buckets_ok_def dkeys_def split: option.split dest: list_all_dget [of buckets_ok])

lemma ledger_ok_bucket: "ledger_ok l \<Longrightarrow> state_ok (the_bucket l code b)"
  using ledger_ok_instrument [of l code, unfolded buckets_ok_def, THEN conjunct2]
  by (rule list_all_dget [OF _ dget_instrument])

lemma ledger_ok_set: "ledger_ok l \<Longrightarrow> buckets_ok bs \<Longrightarrow> ledger_ok (set_buckets l code bs)"
  by (simp add: ledger_ok_def set_buckets_def list_all_dset)

lemma ledger_ok_upd: "ledger_ok l \<Longrightarrow> (\<And>s. state_ok (f s)) \<Longrightarrow> ledger_ok (upd_bucket l code b f)"
  unfolding upd_bucket_def
  by (rule ledger_ok_set) (simp_all add: buckets_ok_dset ledger_ok_instrument)

lemma ledger_ok_pending [simp]:
  "ledger_ok (l\<lparr>pending_orders := p\<rparr>) = ledger_ok l"
  "ledger_ok (l\<lparr>pending_substitutions := q\<rparr>) = ledger_ok l"
  "ledger_ok (add_pending l oid po) = ledger_ok l"
  by (simp_all add: ledger_ok_def add_pending_def)

lemma ledger_ok_ensure [simp]: "ledger_ok l \<Longrightarrow> ledger_ok (ensure_instrument l code)"
  unfolding ensure_instrument_def by (blast intro: ledger_ok_set ledger_ok_instrument)

lemma ledger_ok_normalize [simp]: "ledger_ok l \<Longrightarrow> ledger_ok (normalize_instrument l code)"
  by (simp add: normalize_instrument_def ledger_ok_set buckets_ok_dmap ledger_ok_instrument)

lemma ledger_ok_legs: "ledger_ok l \<Longrightarrow> ledger_ok (fst (reserve_substitution_legs l code p))"
proof -
  assume ok: "ledger_ok l"
  have "ledger_ok (fold (\<lambda>(b, v) l. upd_bucket l code (VStr b) (freeze v)) xs l)" if "ledger_ok l" for xs l
    using that by (induction xs arbitrary: l) (auto simp: ledger_ok_upd)
  with ok show ?thesis by (simp add: reserve_substitution_legs_def Let_def)
qed

lemma ledger_ok_reserve_legs: "ledger_ok l \<Longrightarrow> ledger_ok (fst (reserve_legs l oid r plan))"
  using ledger_ok_legs [of l "req_instrument_code r" "the plan"]
  by (auto simp: reserve_legs_def Let_def ledger_ok_upd split: option.split prod.split)

lemma reserve_orderE:
  assumes "reserve_order fresh t l oid r = Inr (l', ok)"
  obtains (invalid) "l' = l" "\<not> ok"
  | (refused) plan l1 where "reserve_legs (ensure_instrument l (req_instrument_code r)) oid r plan = (l1, None)"
      "SubstitutionPlan_from_dict fresh (req_substitution_plan r) oid = Inr plan"
      "l' = l1" "\<not> ok"
  | (reserved) plan l1 legs where
      "oid \<noteq> []" "req_instrument_code r \<noteq> []" "0 < req_volume r"
      "SubstitutionPlan_from_dict fresh (req_substitution_plan r) oid = Inr plan"
      "reserve_legs (ensure_instrument l (req_instrument_code r)) oid r plan = (l1, Some legs)"
      "l' = add_pending l1 oid (pending_of oid r legs plan t)" "ok"
proof (cases "oid = [] \<or> req_instrument_code r = [] \<or> req_volume r \<le> 0")
  case True
  with assms invalid show ?thesis by (simp add: reserve_order_def)
next
  case False
  with assms obtain plan where plan:
    "SubstitutionPlan_from_dict fresh (req_substitution_plan r) oid = Inr plan"
    by (auto simp: reserve_order_def res_simps Let_def)
  obtain l1 a where a: "reserve_legs (ensure_instrument l (req_instrument_code r)) oid r plan = (l1, a)"
    by fastforce
  show ?thesis
  proof (cases a)
    case None
    with False assms plan a refused show ?thesis by (simp add: reserve_order_def)
  next
    case (Some legs)
    with False assms plan a reserved show ?thesis by (simp add: reserve_order_def)
  qed
qed

lemma ledger_ok_reserve:
  assumes "ledger_ok l" "reserve_order fresh t l oid r = Inr (l', ok)"
  shows "ledger_ok l'"
  using assms(2)
proof (cases rule: reserve_orderE)
  case (refused plan l1)
  then show ?thesis
    using ledger_ok_reserve_legs [of "ensure_instrument l (req_instrument_code r)" oid r plan] assms(1) by simp
next
  case (reserved plan l1 legs)
  then show ?thesis
    using ledger_ok_reserve_legs [of "ensure_instrument l (req_instrument_code r)" oid r plan] assms(1) by simp
qed (use assms in simp)

lemma ledger_ok_transfer: "ledger_ok l \<Longrightarrow> ledger_ok (transfer_order l a b)"
  by (simp add: transfer_order_def Let_def split: option.split)

lemma ledger_ok_release: "ledger_ok l \<Longrightarrow> ledger_ok (fst (release_legs l code why legs))"
  by (induction l code why legs rule: release_legs.induct) (auto simp: ledger_ok_upd Let_def split: prod.split)

lemma ledger_ok_rollback: "ledger_ok l \<Longrightarrow> ledger_ok (fst (rollback_order l oid why))"
proof (cases "dget (pending_orders l) oid")
  case (Some p)
  assume "ledger_ok l"
  then have "ledger_ok (fst (release_legs (l\<lparr>pending_orders := dpop oid (pending_orders l)\<rparr>)
      (po_instrument_code p) why (po_reserved_legs p)))" by (simp add: ledger_ok_release)
  then show ?thesis by (auto simp: rollback_order_def Some Let_def split: prod.splits option.splits)
qed (simp add: rollback_order_def)

lemma ledger_ok_sell_legs: "ledger_ok l \<Longrightarrow> ledger_ok (fst (sell_legs l code n legs))"
  by (induction l code n legs rule: sell_legs.induct)
    (auto simp: ledger_ok_upd Let_def split: prod.split)

lemma ledger_ok_sell: "ledger_ok l \<Longrightarrow> ledger_ok (fst (apply_bucket_sell l oid code name v))"
  using ledger_ok_sell_legs [of l code v "po_reserved_legs (the (dget (pending_orders l) oid))"]
  by (cases "dget (pending_orders l) oid")
    (auto simp: apply_bucket_sell_def Let_def ledger_ok_upd split: prod.splits)

lemma ledger_ok_move: "ledger_ok l \<Longrightarrow> ledger_ok (fst (move_today l code plan v x))"
  by (simp add: move_today_def Let_def ledger_ok_upd)

lemma ledger_ok_reattribute:
  assumes "ledger_ok l" "apply_substitution_reattribute l oid code plan v x = Inr (l', evs)"
  shows "ledger_ok l'"
  using assms(2) ledger_ok_move [OF assms(1), of code plan v x]
  by (auto simp: apply_substitution_reattribute_def res_simps Let_def split: prod.splits)

lemma ledger_ok_consume [simp]: "ledger_ok l \<Longrightarrow> ledger_ok (consume_pending l oid v)"
  by (simp add: consume_pending_def Let_def split: option.split)

lemma ledger_ok_effect:
  assumes "ledger_ok l" "trade_effect l e name = Inr (l', evs)"
  shows "ledger_ok l'"
proof -
  obtain l1 evs1 where s: "apply_bucket_sell l (te_order_id e) (te_instrument_code e) name (te_volume e) = (l1, evs1)"
    by fastforce
  have "ledger_ok l1" using ledger_ok_sell [OF assms(1)] s by (metis fst_conv)
  then show ?thesis
    using assms s by (auto simp: trade_effect_def Let_def res_simps ledger_ok_upd
        split: if_splits option.splits intro: ledger_ok_reattribute)
qed

lemma ledger_ok_trade:
  "ledger_ok l \<Longrightarrow> apply_trade l e m = Inr (l', patch) \<Longrightarrow> ledger_ok l'"
  by (auto simp: apply_trade_def Let_def res_simps split: if_splits dest: ledger_ok_effect)

lemma ledger_ok_settle: "ledger_ok l \<Longrightarrow> ledger_ok (settle_trading_day l d)"
  by (auto simp: settle_trading_day_def ledger_ok_def list_all_iff dmap_def [of "dmap settle_state"]
      intro: buckets_ok_dmap)

lemma ledger_ok_sync:
  assumes "ledger_ok l" "sync_position l code pos = Inr l'"
  shows "ledger_ok l'"
proof -
  have pop: "ledger_ok (l\<lparr>ledger_buckets := dpop code (ledger_buckets l)\<rparr>)"
    using assms(1) dpop_set_subset [of code "ledger_buckets l"] by (auto simp: ledger_ok_def list_all_iff)
  have mark: "ledger_ok (mark_to_market l1 code lp avg mv)" if "ledger_ok l1" for l1 lp avg mv
    unfolding mark_to_market_def Let_def
    by (rule ledger_ok_set [OF that]) (simp add: buckets_ok_dmap ledger_ok_instrument that)
  have upd: "ledger_ok (upd_bucket l code b (adopt_position v mv))"
    "ledger_ok (upd_bucket l code b (adjust_core d x))" for b v mv d x
    using assms(1) by (simp_all add: ledger_ok_upd)
  show ?thesis
    using assms pop mark upd by (auto simp: sync_position_def sync_view_def Let_def res_simps split: if_splits)
qed

lemma BucketPositionState_from_dict_ok: "BucketPositionState_from_dict d = Inr s \<Longrightarrow> state_ok s"
  by (auto simp: BucketPositionState_from_dict_def res_simps)

lemma rmap_set: "rmap f xs = Inr ys \<Longrightarrow> y \<in> set ys \<Longrightarrow> \<exists>x \<in> set xs. f x = Inr y"
  by (induction xs arbitrary: ys) (auto simp: res_simps)

lemma list_all_dict_of:
  assumes "\<And>k v. (k, v) \<in> set ps \<Longrightarrow> P v"
  shows "list_all (\<lambda>(k, v). P v) (dict_of ps)"
proof -
  have "list_all (\<lambda>(k, v). P v) (fold (\<lambda>(k, v). dset k v) ps d)"
    if "list_all (\<lambda>(k, v). P v) d" "\<forall>(k, v) \<in> set ps. P v" for d
    using that by (induction ps arbitrary: d) (auto simp: list_all_dset)
  from this [of "[]"] assms show ?thesis by (auto simp: dict_of_def)
qed

lemma dkeys_dict_of: "distinct (dkeys (dict_of ps))"
proof -
  have "distinct (dkeys (fold (\<lambda>(k, v). dset k v) ps d))" if "distinct (dkeys d)" for d
    using that by (induction ps arbitrary: d) (auto simp: dkeys_dset)
  from this [of "[]"] show ?thesis by (simp add: dict_of_def dkeys_def)
qed

lemma buckets_ok_dict_of: "(\<And>n s. (n, s) \<in> set ps \<Longrightarrow> state_ok s) \<Longrightarrow> buckets_ok (dict_of ps)"
  by (simp add: buckets_ok_def dkeys_dict_of list_all_dict_of)

lemma ledger_ok_set_buckets:
  assumes "ledger_ok l" "set_instrument_buckets l code st = Inr l'"
  shows "ledger_ok l'"
proof (cases "code = []")
  case False
  with assms(2) obtain bs where bs: "rmap (\<lambda>name. rbind (BucketPositionState_from_dict
      (dsetdefault ''bucket'' (VStr name) (dget_or st name []))) (\<lambda>s. Inr (name, s))) KNOWN_BUCKETS = Inr bs"
    and l': "l' = set_buckets l code (ensure_buckets (dict_of bs))"
    by (auto simp: set_instrument_buckets_def res_simps)
  have "buckets_ok (dict_of bs)"
    by (rule buckets_ok_dict_of) (auto simp: res_simps dest!: rmap_set [OF bs] BucketPositionState_from_dict_ok)
  with assms(1) l' show ?thesis by (simp add: ledger_ok_set)
qed (use assms in \<open>simp add: set_instrument_buckets_def\<close>)

lemma ledger_ok_decorate:
  assumes "ledger_ok l" "decorate_position l code pos = Inr (l', d)"
  shows "ledger_ok l'"
proof -
  from assms(2) obtain l1 where l1: "sync_position l code pos = Inr l1"
    "l' = set_buckets l1 code (dmap bucket_normalize (instrument_buckets l1 code))"
    by (auto simp: decorate_position_def res_simps Let_def)
  show ?thesis unfolding l1(2)
    using ledger_ok_sync [OF assms(1) l1(1)]
    by (simp add: ledger_ok_set buckets_ok_dmap ledger_ok_instrument)
qed

lemma ledger_ok_action:
  assumes "ledger_ok l" "apply_corporate_action l code vf pf cd aid ex = Inr (l', patch)"
  shows "ledger_ok l'"
proof -
  have adj: "dkeys bs' = dkeys bs \<and> list_all (\<lambda>(n, s). state_ok s) bs'"
    if "rmap (\<lambda>(name, s). rbind (adjust_state f m d s) (\<lambda>s'. Inr (name, s'))) bs = Inr bs'"
    for f m d bs bs'
    using that by (induction bs arbitrary: bs')
      (auto simp: res_simps adjust_state_def Let_def dkeys_def)
  have "buckets_ok bs'" if "rmap (\<lambda>(name, s). rbind (adjust_state f m d s) (\<lambda>s'. Inr (name, s')))
      (instrument_buckets l code) = Inr bs'" for f m d bs'
    using adj [OF that] ledger_ok_instrument [OF assms(1), of code] by (simp add: buckets_ok_def)
  with assms show ?thesis
    by (auto simp: apply_corporate_action_def Let_def res_simps ledger_ok_set split: if_splits)
qed

lemma ledger_ok_validate:
  assumes "ledger_ok l" "validate_invariants l ps = Inr (l', is)"
  shows "ledger_ok l'"
proof -
  have "ledger_ok (fold (\<lambda>code l. ensure_instrument l code) cs l)" if "ledger_ok l" for cs l
    using that by (induction cs arbitrary: l) auto
  with assms show ?thesis by (auto simp: validate_invariants_def Let_def res_simps)
qed

lemma ledger_ok_restored:
  assumes "ledger_from_dict fresh s = Inr l"
  shows "ledger_ok l"
proof -
  from assms obtain bs where bs: "rmap (\<lambda>(code, states). rbind (restore_buckets states) (\<lambda>bs. Inr (code, bs)))
      (filter (\<lambda>(code, _). code \<noteq> []) (snap_instruments s)) = Inr bs" "ledger_buckets l = dict_of bs"
    by (auto simp: ledger_from_dict_def res_simps)
  have r: "buckets_ok b" if "restore_buckets st = Inr b" for st b
  proof -
    from that obtain ss where ss: "rmap (\<lambda>(name, d). BucketPositionState_from_dict
        (dsetdefault ''bucket'' (VStr name) d)) st = Inr ss"
      "b = ensure_buckets (dict_of (map (\<lambda>s. (bucket s, s)) ss))"
      by (auto simp: restore_buckets_def res_simps)
    have "buckets_ok (dict_of (map (\<lambda>s. (bucket s, s)) ss))"
      by (rule buckets_ok_dict_of) (auto dest!: rmap_set [OF ss(1)] BucketPositionState_from_dict_ok)
    with ss(2) show ?thesis by simp
  qed
  show ?thesis unfolding ledger_ok_def bs(2)
    by (rule list_all_dict_of) (auto simp: res_simps dest!: rmap_set [OF bs(1)] r)
qed

end
