(* ===== verification/Bucket_Safety.thy ===== *)
theory Bucket_Safety
  imports Bucket_Facts
begin

text \<open>
  The properties of the bucket ledger: the invariant of every reachable ledger, the life of a
  sell order from its reservation over its trades to its rollback, refused orders, T+1,
  synchronization with the broker, substitution legs, snapshots and stock splits.
\<close>

section \<open>The ledger as a state machine\<close>

inductive ledger_step :: "BucketLedger \<Rightarrow> BucketLedger \<Rightarrow> bool" where
  step_sync: "sync_position l code pos = Inr l' \<Longrightarrow> ledger_step l l'"
| step_decorate: "decorate_position l code pos = Inr (l', d) \<Longrightarrow> ledger_step l l'"
| step_seed: "set_instrument_buckets l code st = Inr l' \<Longrightarrow> ledger_step l l'"
| step_reserve: "reserve_order fresh t l oid r = Inr (l', ok) \<Longrightarrow> ledger_step l l'"
| step_transfer: "ledger_step l (transfer_order l a b)"
| step_rollback: "ledger_step l (fst (rollback_order l oid why))"
| step_trade: "apply_trade l e m = Inr (l', patch) \<Longrightarrow> ledger_step l l'"
| step_settle: "ledger_step l (settle_trading_day l day)"
| step_action: "apply_corporate_action l code vf pf cd aid ex = Inr (l', patch) \<Longrightarrow> ledger_step l l'"
| step_validate: "validate_invariants l ps = Inr (l', is) \<Longrightarrow> ledger_step l l'"

inductive ledger_reachable :: "BucketLedger \<Rightarrow> bool" where
  ledger_new: "ledger_reachable (new_ledger rid)"
| ledger_restored: "ledger_from_dict fresh s = Inr l \<Longrightarrow> ledger_reachable l"
| ledger_next: "ledger_reachable l \<Longrightarrow> ledger_step l l' \<Longrightarrow> ledger_reachable l'"

lemma ledger_ok_step: "ledger_step l l' \<Longrightarrow> ledger_ok l \<Longrightarrow> ledger_ok l'"
  by (induction rule: ledger_step.induct)
    (auto intro: ledger_ok_sync ledger_ok_decorate ledger_ok_set_buckets ledger_ok_reserve
      ledger_ok_transfer ledger_ok_rollback ledger_ok_trade ledger_ok_settle ledger_ok_action
      ledger_ok_validate)

lemma ledger_ok_new [simp]: "ledger_ok (new_ledger rid)"
  by (simp add: new_ledger_def ledger_ok_def)

lemma ledger_reachable_ok: "ledger_reachable l \<Longrightarrow> ledger_ok l"
  by (induction rule: ledger_reachable.induct) (auto intro: ledger_ok_step ledger_ok_restored)

lemma state_ok_prices:
  assumes "state_ok s"
  shows "fle fzero (bucket_market_value s)" "fle fzero (bucket_avg_price s)"
    "fle fzero (bucket_last_price s)"
proof -
  have "fle fzero (bucket_market_value (bucket_normalize s))" "fle fzero (bucket_avg_price (bucket_normalize s))"
    "fle fzero (bucket_last_price (bucket_normalize s))" by (simp_all add: bucket_normalize_def)
  with assms show "fle fzero (bucket_market_value s)" "fle fzero (bucket_avg_price s)"
    "fle fzero (bucket_last_price s)" by (simp_all add: state_ok_def)
qed

section \<open>A ledger to test on\<close>

definition sample_state :: "string \<Rightarrow> int \<Rightarrow> int \<Rightarrow> BucketPositionState" where
  "sample_state name n available =
     (empty_bucket name)\<lparr>total_volume := n, available_volume := available\<rparr>"

definition sample_ledger :: BucketLedger where
  "sample_ledger = (new_ledger ''run'')\<lparr>ledger_buckets :=
     [(''600000.SH'', [(''locked_core'', sample_state ''locked_core'' 500 500),
                       (''core'', sample_state ''core'' 1000 800),
                       (''swing'', sample_state ''swing'' 300 300)])]\<rparr>"

definition sample_request :: "string \<Rightarrow> int \<Rightarrow> ReserveRequest" where
  "sample_request b v =
     \<lparr>req_instrument_code = ''600000.SH'', req_order_type = SELL, req_bucket = VStr b, req_volume = v,
      req_price = Fin 10, req_metadata = [], req_substitution_plan = []\<rparr>"

definition sample_trade :: "int \<Rightarrow> TradeEvent" where
  "sample_trade v =
     \<lparr>te_order_id = ''O1'', te_instrument_code = ''600000.SH'', te_volume = v, te_price = Fin 10,
      te_type = Typed SELL\<rparr>"

lemma sample_ledger_reachable: "ledger_reachable sample_ledger"
proof -
  have "set_instrument_buckets (new_ledger ''run'') ''600000.SH''
     [(''locked_core'', [(''total_volume'', VInt 500), (''available_volume'', VInt 500)]),
      (''core'', [(''total_volume'', VInt 1000), (''available_volume'', VInt 800)]),
      (''swing'', [(''total_volume'', VInt 300), (''available_volume'', VInt 300)])] = Inr sample_ledger"
    by (simp add: set_instrument_buckets_def KNOWN_BUCKETS_def LOCKED_CORE_BUCKET_def CORE_BUCKET_def
        SWING_BUCKET_def BucketPositionState_from_dict_def dsetdefault_def dmem_def dget_or_def
        int_or_0_def float_or_0_def v_or_def str_or_def bucket_normalize_def pmax_def dict_of_def dset_def
        set_buckets_def sample_ledger_def sample_state_def empty_bucket_def new_ledger_def
        ensure_buckets_def)
  then show ?thesis by (blast intro: ledger_new ledger_next step_seed)
qed

text \<open>
  C9: In every ledger that is new, restored from a snapshot or reached by calls of its
  methods, the volumes and prices of a bucket are not negative and the sellable volume is at most
  the total minus the frozen one.
\<close>

theorem ledger_invariant:
  assumes "ledger_reachable l" "dget (ledger_buckets l) code = Some bs" "dget bs name = Some s"
  shows "0 \<le> total_volume s \<and> 0 \<le> frozen_volume s \<and> 0 \<le> today_buy_volume s
    \<and> 0 \<le> available_volume s \<and> available_volume s \<le> max 0 (total_volume s - frozen_volume s)
    \<and> fle fzero (bucket_market_value s) \<and> fle fzero (bucket_avg_price s)
    \<and> fle fzero (bucket_last_price s)"
proof -
  have "buckets_ok bs"
    using ledger_reachable_ok [OF assms(1)] assms(2) unfolding ledger_ok_def by (rule list_all_dget)
  then have "state_ok s" using assms(3) unfolding buckets_ok_def by (blast dest: list_all_dget)
  from state_ok_bounds [OF this] state_ok_prices [OF this] show ?thesis by simp
qed

theorem ledger_invariant_witness:
  "available_volume (sample_state ''core'' 1000 800) \<le> 1000"
  using ledger_invariant [OF sample_ledger_reachable, of "''600000.SH''" _ "''core''" "sample_state ''core'' 1000 800"]
  by (simp add: sample_ledger_def) (simp add: sample_state_def empty_bucket_def)

section \<open>The life of a sell order\<close>

text \<open>A pending sell order with one reserved leg: \<open>n\<close> shares of it are still frozen.\<close>

definition order_open :: "BucketLedger \<Rightarrow> string \<Rightarrow> string \<Rightarrow> string \<Rightarrow> int \<Rightarrow> bool" where
  "order_open l oid code name n \<longleftrightarrow>
     dget (pending_substitutions l) oid = None \<and>
     (case dget (pending_orders l) oid of
        None \<Rightarrow> n = 0
      | Some p \<Rightarrow> 0 < n \<and> po_instrument_code p = code \<and> po_remaining_volume p = n
          \<and> (case po_reserved_legs p of [leg] \<Rightarrow> leg_bucket leg = name \<and> leg_remaining leg = n
             | _ \<Rightarrow> False))"

lemma order_openE:
  assumes "order_open l oid code name n" "0 < n"
  obtains p leg where "dget (pending_orders l) oid = Some p" "po_instrument_code p = code"
    "po_remaining_volume p = n" "po_reserved_legs p = [leg]" "leg_bucket leg = name" "leg_remaining leg = n"
    "dget (pending_substitutions l) oid = None"
  using assms unfolding order_open_def by (auto split: option.splits list.splits)

lemma reserve_plain_sell:
  assumes "reserve_order fresh t l oid r = Inr (l1, True)" "req_order_type r = SELL"
    "req_substitution_plan r = []"
  defines "code \<equiv> req_instrument_code r" and "name \<equiv> normalize_bucket (req_bucket r)" and "v \<equiv> req_volume r"
  shows "oid \<noteq> []" "code \<noteq> []" "0 < v" "name \<noteq> LOCKED_CORE_BUCKET" "v \<le> available_volume (the_bucket l code (VStr name))"
    "l1 = add_pending (upd_bucket (ensure_instrument l code) code (VStr name) (freeze v)) oid
       (pending_of oid r [\<lparr>leg_bucket = name, leg_volume = v, leg_remaining = v\<rparr>] None t)"
proof -
  from assms(1) show "oid \<noteq> []" "code \<noteq> []" "0 < v" "name \<noteq> LOCKED_CORE_BUCKET"
    "v \<le> available_volume (the_bucket l code (VStr name))"
    "l1 = add_pending (upd_bucket (ensure_instrument l code) code (VStr name) (freeze v)) oid
       (pending_of oid r [\<lparr>leg_bucket = name, leg_volume = v, leg_remaining = v\<rparr>] None t)"
    using assms(2,3)
    by (cases rule: reserve_orderE;
        auto simp: SubstitutionPlan_from_dict_def reserve_legs_def Let_def assms(4-) split: if_splits)+
qed

lemma open_after_reserve:
  assumes "reserve_order fresh t l oid r = Inr (l1, True)" "req_order_type r = SELL"
    "req_substitution_plan r = []" "ledger_ok l" "dget (pending_substitutions l) oid = None"
  defines "code \<equiv> req_instrument_code r" and "name \<equiv> normalize_bucket (req_bucket r)" and "v \<equiv> req_volume r"
  defines "s \<equiv> the_bucket l code (VStr name)"
  shows "ledger_ok l1" "order_open l1 oid code name v"
    "frozen_volume s + v \<le> total_volume s" "0 \<le> available_volume s - v"
    "volumes (the_bucket l1 code (VStr name)) =
       (total_volume s, available_volume s - v, frozen_volume s + v, today_buy_volume s)"
    "\<And>code' b'. (code', normalize_bucket b') \<noteq> (code, name) \<Longrightarrow> the_bucket l1 code' b' = the_bucket l code' b'"
proof -
  note r = reserve_plain_sell [OF assms(1-3), folded code_def name_def v_def]
  have ok: "state_ok s" unfolding s_def by (rule ledger_ok_bucket [OF assms(4)])
  have n: "normalize_bucket (VStr name) = name" by (simp add: name_def)
  show "ledger_ok l1" by (rule ledger_ok_reserve [OF assms(4,1)])
  show "order_open l1 oid code name v"
    using r(3) assms(5) by (simp add: order_open_def r(6) add_pending_def pending_of_def code_def v_def)
  show "frozen_volume s + v \<le> total_volume s" "0 \<le> available_volume s - v"
    using r(3,5) state_ok_bounds [OF ok] by (auto simp: s_def)
  show "volumes (the_bucket l1 code (VStr name)) =
      (total_volume s, available_volume s - v, frozen_volume s + v, today_buy_volume s)"
    using volumes_freeze [OF ok, of v] r(3,5) by (simp add: r(6) the_bucket_upd s_def)
  show "the_bucket l1 code' b' = the_bucket l code' b'" if "(code', normalize_bucket b') \<noteq> (code, name)" for code' b'
    using that n by (auto simp: r(6) the_bucket_upd)
qed

text \<open>One trade of the order.\<close>

lemma sell_trade_effect:
  assumes "order_open l oid code name n" "0 < n" "te_order_id e = oid" "te_instrument_code e = code"
    "te_type e = Typed SELL" "0 < te_volume e" "te_volume e \<le> n" "oid \<noteq> []" "code \<noteq> []"
  shows "\<exists>l' patch. apply_trade l e m = Inr (l', patch) \<and> order_open l' oid code name (n - te_volume e)
    \<and> (\<forall>code' b'. the_bucket l' code' b' =
         (if code' = code then bucket_normalize
            (if normalize_bucket b' = normalize_bucket (VStr name)
             then sell_reserved (te_volume e) (the_bucket l code (VStr name)) else the_bucket l code b')
          else the_bucket l code' b'))"
proof -
  let ?v = "te_volume e"
  from order_openE [OF assms(1,2)] obtain p leg where p:
    "dget (pending_orders l) oid = Some p" "po_instrument_code p = code" "po_remaining_volume p = n"
    "po_reserved_legs p = [leg]" "leg_bucket leg = name" "leg_remaining leg = n"
    "dget (pending_substitutions l) oid = None" by blast
  define l1 where "l1 = add_pending (upd_bucket l code (VStr name) (sell_reserved ?v)) oid
     (p\<lparr>po_reserved_legs := [leg\<lparr>leg_remaining := n - ?v\<rparr>]\<rparr>)"
  obtain evs where "apply_bucket_sell l oid code nm ?v = (l1, evs)" for nm
    using p assms(2,6,7) by (simp add: apply_bucket_sell_def l1_def Let_def)
  then have e: "trade_effect l e nm = Inr (l1, evs)" for nm
    using assms(3-5) p(7) by (simp add: trade_effect_def l1_def add_pending_def Let_def)
  have "apply_trade l e m = Inr (normalize_instrument (consume_pending l1 oid ?v) code,
     \<lparr>patch_instrument_code = code, changed_buckets = instrument_snapshot (consume_pending l1 oid ?v) code,
      patch_events = evs\<rparr>)"
    using e assms(3,4,6,9) by (simp add: apply_trade_def Let_def)
  moreover have "order_open (normalize_instrument (consume_pending l1 oid ?v) code) oid code name (n - ?v)"
    using p assms(6-8) by (auto simp: order_open_def consume_pending_def l1_def add_pending_def Let_def)
  moreover have "the_bucket (consume_pending l1 oid ?v) c b = the_bucket l1 c b" for c b
    by (simp add: consume_pending_def Let_def split: option.split)
  ultimately show ?thesis
    using assms(9) by (auto simp: the_bucket_normalize l1_def the_bucket_upd)
qed

fun apply_trades :: "BucketLedger \<Rightarrow> TradeEvent list \<Rightarrow> BucketLedger res" where
  "apply_trades l [] = Inr l"
| "apply_trades l (e # es) = rbind (apply_trade l e []) (\<lambda>(l', patch). apply_trades l' es)"

definition trade_of_order :: "string \<Rightarrow> string \<Rightarrow> TradeEvent \<Rightarrow> bool" where
  "trade_of_order oid code e \<longleftrightarrow>
     te_order_id e = oid \<and> te_instrument_code e = code \<and> te_type e = Typed SELL \<and> 0 < te_volume e"

text \<open>After trades of \<open>done\<close> shares in all: what the bucket and the others hold.\<close>

definition sold_so_far ::
  "BucketLedger \<Rightarrow> BucketLedger \<Rightarrow> string \<Rightarrow> string \<Rightarrow> string \<Rightarrow> int \<Rightarrow> int \<Rightarrow> bool" where
  "sold_so_far l0 l oid code name v sold \<longleftrightarrow>
     ledger_ok l \<and> order_open l oid code name (v - sold)
     \<and> volumes (the_bucket l code (VStr name)) =
         (let s = the_bucket l0 code (VStr name)
          in (total_volume s - sold, available_volume s - v, frozen_volume s + v - sold, today_buy_volume s))
     \<and> (\<forall>code' b'. (code', normalize_bucket b') \<noteq> (code, name) \<longrightarrow>
          volumes (the_bucket l code' b') = volumes (the_bucket l0 code' b'))"

lemma sold_so_far_trade:
  assumes "sold_so_far l0 l oid code name v sold" "trade_of_order oid code e" "oid \<noteq> []" "code \<noteq> []"
    "sold + te_volume e \<le> v" "0 \<le> sold" "normalize_bucket (VStr name) = name"
    "0 \<le> frozen_volume (the_bucket l0 code (VStr name))"
    "frozen_volume (the_bucket l0 code (VStr name)) + v \<le> total_volume (the_bucket l0 code (VStr name))"
  shows "\<exists>l' patch. apply_trade l e m = Inr (l', patch) \<and> sold_so_far l0 l' oid code name v (sold + te_volume e)"
proof -
  let ?n = "v - sold" let ?b = "the_bucket l code (VStr name)"
  have e: "te_order_id e = oid" "te_instrument_code e = code" "te_type e = Typed SELL" "0 < te_volume e"
    using assms(2) by (simp_all add: trade_of_order_def)
  have st: "ledger_ok l" "order_open l oid code name ?n"
    and vol: "volumes ?b = (let s = the_bucket l0 code (VStr name)
          in (total_volume s - sold, available_volume s - v, frozen_volume s + v - sold, today_buy_volume s))"
    and others: "\<And>code' b'. (code', normalize_bucket b') \<noteq> (code, name) \<Longrightarrow>
          volumes (the_bucket l code' b') = volumes (the_bucket l0 code' b')"
    using assms(1) by (simp_all add: sold_so_far_def)
  have "0 < ?n" "te_volume e \<le> ?n" using assms(5) e(4) by auto
  from sell_trade_effect [OF st(2) this(1) e(1-4) this(2) assms(3,4), of m] obtain l' patch where
    l': "apply_trade l e m = Inr (l', patch)" "order_open l' oid code name (?n - te_volume e)"
    and get: "\<And>code' b'. the_bucket l' code' b' =
         (if code' = code then bucket_normalize
            (if normalize_bucket b' = name then sell_reserved (te_volume e) ?b else the_bucket l code b')
          else the_bucket l code' b')"
    using assms(7) by auto
  have okb: "state_ok (the_bucket l c b)" for c b by (rule ledger_ok_bucket [OF st(1)])
  have "volumes (sell_reserved (te_volume e) ?b) =
      (total_volume ?b - te_volume e, available_volume ?b, frozen_volume ?b - te_volume e, today_buy_volume ?b)"
    by (rule volumes_sell_reserved [OF okb]) (use vol e(4) assms(5,6,8,9) in \<open>auto simp: volumes_def Let_def\<close>)
  then have "volumes (the_bucket l' code (VStr name)) =
      (let s = the_bucket l0 code (VStr name)
       in (total_volume s - (sold + te_volume e), available_volume s - v,
           frozen_volume s + v - (sold + te_volume e), today_buy_volume s))"
    using vol assms(7) by (simp add: get volumes_normalize Let_def) (simp add: volumes_def)
  moreover have "volumes (the_bucket l' code' b') = volumes (the_bucket l0 code' b')"
    if "(code', normalize_bucket b') \<noteq> (code, name)" for code' b'
    using that others [OF that] by (auto simp: get volumes_normalize okb)
  ultimately show ?thesis
    using l' ledger_ok_trade [OF st(1) l'(1)] by (auto simp: sold_so_far_def algebra_simps)
qed

lemma sold_so_far_trades:
  assumes "sold_so_far l0 l oid code name v sold" "list_all (trade_of_order oid code) es" "oid \<noteq> []" "code \<noteq> []"
    "sold + sum_list (map te_volume es) \<le> v" "0 \<le> sold" "normalize_bucket (VStr name) = name"
    "0 \<le> frozen_volume (the_bucket l0 code (VStr name))"
    "frozen_volume (the_bucket l0 code (VStr name)) + v \<le> total_volume (the_bucket l0 code (VStr name))"
  shows "\<exists>l'. apply_trades l es = Inr l' \<and> sold_so_far l0 l' oid code name v (sold + sum_list (map te_volume es))"
  using assms(1,2,5,6)
proof (induction es arbitrary: l sold)
  case (Cons e es)
  have "0 \<le> sum_list (map te_volume es)"
    using Cons.prems(2) by (intro sum_list_nonneg) (auto simp: list_all_iff trade_of_order_def)
  then have "sold + te_volume e \<le> v" using Cons.prems(3) by simp
  with sold_so_far_trade [OF Cons.prems(1) _ assms(3,4) _ Cons.prems(4) assms(7-9), of e "[]"] Cons.prems(2)
  obtain l' patch where l': "apply_trade l e [] = Inr (l', patch)" "sold_so_far l0 l' oid code name v (sold + te_volume e)"
    by auto
  moreover have "0 \<le> sold + te_volume e" using Cons.prems(2,4) by (simp add: trade_of_order_def)
  ultimately show ?case
    using Cons.IH [OF l'(2)] Cons.prems(2,3) by (auto simp: algebra_simps)
qed simp

lemma rollback_open:
  assumes "order_open l oid code name n" "code \<noteq> []" "0 \<le> n"
  shows "dget (pending_orders (fst (rollback_order l oid why))) oid = None
    \<and> (\<forall>code' b'. the_bucket (fst (rollback_order l oid why)) code' b' =
         (if n = 0 then the_bucket l code' b'
          else if code' = code then bucket_normalize
            (if normalize_bucket b' = normalize_bucket (VStr name)
             then unfreeze n (the_bucket l code (VStr name)) else the_bucket l code b')
          else the_bucket l code' b'))"
proof (cases "n = 0")
  case True
  then have "dget (pending_orders l) oid = None"
    using assms(1) by (auto simp: order_open_def split: option.splits)
  with True show ?thesis by (simp add: rollback_order_def)
next
  case False
  with assms(3) have n: "0 < n" by simp
  from order_openE [OF assms(1) n] obtain p leg where p:
    "dget (pending_orders l) oid = Some p" "po_instrument_code p = code" "po_remaining_volume p = n"
    "po_reserved_legs p = [leg]" "leg_bucket leg = name" "leg_remaining leg = n"
    "dget (pending_substitutions l) oid = None" by blast
  have u: "upd_bucket (l\<lparr>pending_orders := q\<rparr>) code b f = (upd_bucket l code b f)\<lparr>pending_orders := q\<rparr>" for q b f
    by (simp add: upd_bucket_def set_buckets_def instrument_buckets_def the_bucket_def)
  have "fst (rollback_order l oid why) =
      normalize_instrument ((upd_bucket l code (VStr name) (unfreeze n))\<lparr>pending_orders := dpop oid (pending_orders l)\<rparr>) code"
    using p n by (simp add: rollback_order_def u Let_def)
  then show ?thesis
    using False assms(2) by (auto simp: the_bucket_normalize the_bucket_upd)
qed

text \<open>
  C10: A sell order that was reserved in a bucket, then traded any number of times up to its
  volume, then rolled back, leaves no pending order; the bucket lost exactly the traded shares from
  its total and its sellable volume, its frozen volume is what it was, and no other bucket of any
  instrument changed its volumes. None of these calls raises.
\<close>

theorem sell_order_lifecycle:
  assumes l: "ledger_reachable l" and r: "reserve_order fresh t l oid r = Inr (l1, True)"
    "req_order_type r = SELL" "req_substitution_plan r = []"
    and fresh: "dget (pending_substitutions l) oid = None"
    and es: "list_all (trade_of_order oid (req_instrument_code r)) es"
    "sum_list (map te_volume es) \<le> req_volume r"
    and s: "s = the_bucket l (req_instrument_code r) (req_bucket r)"
    and sold: "sold = sum_list (map te_volume es)"
  shows "\<exists>l2 l3. apply_trades l1 es = Inr l2 \<and> l3 = fst (rollback_order l2 oid why)
    \<and> dget (pending_orders l3) oid = None
    \<and> volumes (the_bucket l3 (req_instrument_code r) (req_bucket r)) =
        (total_volume s - sold, available_volume s - sold, frozen_volume s, today_buy_volume s)
    \<and> (\<forall>code b. (code, normalize_bucket b) \<noteq> (req_instrument_code r, normalize_bucket (req_bucket r)) \<longrightarrow>
         volumes (the_bucket l3 code b) = volumes (the_bucket l code b))"
proof -
  define code name v where "code = req_instrument_code r" "name = normalize_bucket (req_bucket r)" "v = req_volume r"
  note d = this
  have key: "the_bucket x code (req_bucket r) = the_bucket x code (VStr name)" for x
    by (simp add: the_bucket_def d)
  have n: "normalize_bucket (VStr name) = name" by (simp add: d)
  have ok: "ledger_ok l" by (rule ledger_reachable_ok [OF l])
  note rs = open_after_reserve [OF r ok fresh, folded d]
  note pl = reserve_plain_sell [OF r, folded d]
  have sk: "s = the_bucket l code (VStr name)" using s key by (simp add: d)
  have fr: "0 \<le> frozen_volume s" using state_ok_bounds(2) [OF ledger_ok_bucket [OF ok]] sk by simp
  have "0 \<le> sold" unfolding sold
    by (rule sum_list_nonneg) (use es(1) in \<open>auto simp: list_all_iff trade_of_order_def\<close>)
  have "sold_so_far l l1 oid code name v 0"
    using rs by (simp add: sold_so_far_def Let_def)
  from sold_so_far_trades [OF this es(1) [folded d] pl(1,2) _ _ n] es(2) fr rs(3) obtain l2 where
    l2: "apply_trades l1 es = Inr l2" "sold_so_far l l2 oid code name v sold"
    by (auto simp: d sold sk)
  define l3 where "l3 = fst (rollback_order l2 oid why)"
  have open2: "order_open l2 oid code name (v - sold)" "ledger_ok l2"
    and vol: "volumes (the_bucket l2 code (VStr name)) =
      (total_volume s - sold, available_volume s - v, frozen_volume s + v - sold, today_buy_volume s)"
    and others: "\<And>code' b'. (code', normalize_bucket b') \<noteq> (code, name) \<Longrightarrow>
          volumes (the_bucket l2 code' b') = volumes (the_bucket l code' b')"
    using l2(2) by (simp_all add: sold_so_far_def sk Let_def)
  have nn: "0 \<le> v - sold" using es(2) by (simp add: d sold)
  have okb: "state_ok (the_bucket l2 c b)" for c b by (rule ledger_ok_bucket [OF open2(2)])
  have un: "volumes (unfreeze (v - sold) (the_bucket l2 code (VStr name))) =
      (total_volume s - sold, available_volume s - sold, frozen_volume s, today_buy_volume s)"
    using volumes_unfreeze [OF okb nn, of code "VStr name"] vol fr rs(3) sk
    by (simp add: volumes_def)
  have uok: "state_ok (unfreeze k x)" for k x by simp
  from rollback_open [OF open2(1) pl(2) nn, of why] n
  have "dget (pending_orders l3) oid = None"
    "volumes (the_bucket l3 code (VStr name)) =
      (total_volume s - sold, available_volume s - sold, frozen_volume s, today_buy_volume s)"
    "\<forall>code' b'. (code', normalize_bucket b') \<noteq> (code, name) \<longrightarrow>
      volumes (the_bucket l3 code' b') = volumes (the_bucket l2 code' b')"
    using un vol by (auto simp: l3_def volumes_normalize uok okb)
  with l2(1) others show ?thesis
    unfolding d [symmetric] key l3_def by auto
qed

theorem sell_order_lifecycle_witness:
  "\<exists>l1 l2 l3. reserve_order [] [] sample_ledger ''O1'' (sample_request ''core'' 600) = Inr (l1, True)
    \<and> apply_trades l1 [sample_trade 100, sample_trade 300] = Inr l2
    \<and> l3 = fst (rollback_order l2 ''O1'' [])
    \<and> volumes (the_bucket l3 ''600000.SH'' (VStr ''core'')) = (600, 400, 0, 0)"
proof -
  have the: "the_bucket sample_ledger ''600000.SH'' (VStr ''core'') = sample_state ''core'' 1000 800"
    by (simp add: the_bucket_def sample_ledger_def instrument_buckets_def dget_or_def dget_ensure
        KNOWN_BUCKETS_def CORE_BUCKET_def normalize_bucket_def str_or_def SWING_BUCKET_def LOCKED_CORE_BUCKET_def)
  have n: "normalize_bucket (VStr ''core'') = ''core''"
    by (simp add: normalize_bucket_def str_or_def CORE_BUCKET_def SWING_BUCKET_def LOCKED_CORE_BUCKET_def)
  obtain l1 where r: "reserve_order [] [] sample_ledger ''O1'' (sample_request ''core'' 600) = Inr (l1, True)"
    by (simp add: reserve_order_def sample_request_def SubstitutionPlan_from_dict_def reserve_legs_def
        n the LOCKED_CORE_BUCKET_def sample_state_def empty_bucket_def Let_def)
  have req: "req_instrument_code (sample_request ''core'' 600) = ''600000.SH''"
    "req_bucket (sample_request ''core'' 600) = VStr ''core''" "req_volume (sample_request ''core'' 600) = 600"
    "req_order_type (sample_request ''core'' 600) = SELL" "req_substitution_plan (sample_request ''core'' 600) = []"
    by (simp_all add: sample_request_def)
  have sub: "dget (pending_substitutions sample_ledger) ''O1'' = None"
    by (simp add: sample_ledger_def new_ledger_def)
  have es: "list_all (trade_of_order ''O1'' ''600000.SH'') [sample_trade 100, sample_trade 300]"
    "sum_list (map te_volume [sample_trade 100, sample_trade 300]) = 400"
    by (simp_all add: trade_of_order_def sample_trade_def)
  have "\<exists>l2 l3. apply_trades l1 [sample_trade 100, sample_trade 300] = Inr l2
    \<and> l3 = fst (rollback_order l2 ''O1'' [])
    \<and> volumes (the_bucket l3 ''600000.SH'' (VStr ''core'')) = (600, 400, 0, 0)"
    using sell_order_lifecycle [OF sample_ledger_reachable r req(4,5) sub, unfolded req, OF es(1), unfolded es(2),
        OF _ refl refl, of "[]"]
    unfolding the by (auto simp: sample_state_def empty_bucket_def)
  then obtain l2 l3 where "apply_trades l1 [sample_trade 100, sample_trade 300] = Inr l2"
    "l3 = fst (rollback_order l2 ''O1'' [])"
    "volumes (the_bucket l3 ''600000.SH'' (VStr ''core'')) = (600, 400, 0, 0)" by blast
  with r show ?thesis by blast
qed

section \<open>Refused orders\<close>

lemma reserve_legs_None:
  assumes "reserve_legs l oid r plan = (l', None)"
  shows "the_bucket l' code b = the_bucket l code b \<and> pending_orders l' = pending_orders l
    \<and> pending_substitutions l' = pending_substitutions l"
proof -
  have "the_bucket l1 code b = the_bucket l code b \<and> pending_orders l1 = pending_orders l
      \<and> pending_substitutions l1 = pending_substitutions l"
    if "reserve_substitution_legs l c p = (l1, [])" for c p l1
    using that by (auto simp: reserve_substitution_legs_def Let_def split: if_splits)
  with assms show ?thesis
    by (auto simp: reserve_legs_def Let_def split: if_splits option.splits prod.splits)
qed

text \<open>
  An order that is refused changes no bucket, no pending order and no substitution plan.
\<close>

lemma refused_order_changes_nothing:
  assumes "reserve_order fresh t l oid r = Inr (l', False)"
  shows "pending_orders l' = pending_orders l \<and> pending_substitutions l' = pending_substitutions l
    \<and> the_bucket l' code b = the_bucket l code b"
  using assms
proof (cases rule: reserve_orderE)
  case (refused plan l1)
  then show ?thesis using reserve_legs_None [of "ensure_instrument l (req_instrument_code r)" oid r plan l1 code b] by simp
qed simp_all

text \<open>
  A sell order on the locked core bucket without an enabled substitution plan is always
  refused.
\<close>

lemma locked_core_needs_a_plan:
  assumes "req_order_type r = SELL" "normalize_bucket (req_bucket r) = LOCKED_CORE_BUCKET"
    "SubstitutionPlan_from_dict fresh (req_substitution_plan r) oid = Inr plan"
    "\<And>p. plan = Some p \<Longrightarrow> \<not> plan_enabled p"
  shows "\<exists>l'. reserve_order fresh t l oid r = Inr (l', False)"
  using assms by (cases plan) (auto simp: reserve_order_def reserve_legs_def Let_def)

section \<open>T+1\<close>

lemma the_bucket_settle:
  "last_settlement_date l \<noteq> Some d \<Longrightarrow>
     volumes (the_bucket (settle_trading_day l d) code b) = volumes (settle_state (the_bucket l code b))"
proof -
  assume "last_settlement_date l \<noteq> Some d"
  then have "dget (ledger_buckets (settle_trading_day l d)) code =
      map_option (dmap settle_state) (dget (ledger_buckets l) code)"
    by (simp add: settle_trading_day_def)
  then have "the_bucket (settle_trading_day l d) code b = settle_state (the_bucket l code b)
      \<or> the_bucket (settle_trading_day l d) code b = the_bucket l code b \<and> the_bucket l code b = empty_bucket (normalize_bucket b)"
    by (auto simp: the_bucket_def instrument_buckets_def dget_or_def dget_ensure normalize_bucket_known Let_def
        split: option.splits)
  then show ?thesis
    by (auto simp: volumes_def settle_state_def bucket_normalize_def empty_bucket_def)
qed

text \<open>
  T+1: a buy trade raises the total and today's purchases of its bucket but not what is
  sellable; the next settlement makes everything that is not frozen sellable and clears today's
  purchases.
\<close>

lemma bought_shares_sellable_after_settlement:
  assumes l: "ledger_reachable l" and e: "is_buy_trade (te_type e)" "0 < te_volume e" "te_instrument_code e \<noteq> []"
    and s: "s = the_bucket l (te_instrument_code e) (VStr (trade_bucket l e m))"
    and day: "last_settlement_date l \<noteq> Some d"
  shows "\<exists>l1 patch. apply_trade l e m = Inr (l1, patch)
    \<and> volumes (the_bucket l1 (te_instrument_code e) (VStr (trade_bucket l e m))) =
        (total_volume s + te_volume e, available_volume s, frozen_volume s, today_buy_volume s + te_volume e)
    \<and> volumes (the_bucket (settle_trading_day l1 d) (te_instrument_code e) (VStr (trade_bucket l e m))) =
        (total_volume s + te_volume e, max 0 (total_volume s + te_volume e - frozen_volume s), frozen_volume s, 0)"
proof -
  let ?code = "te_instrument_code e" let ?b = "VStr (trade_bucket l e m)"
  have ok: "ledger_ok l" by (rule ledger_reachable_ok [OF l])
  define l0 where "l0 = upd_bucket l ?code ?b (apply_bucket_buy (te_volume e) (te_price e))"
  obtain l1 patch where l1: "apply_trade l e m = Inr (l1, patch)"
    "l1 = normalize_instrument (consume_pending l0 (te_order_id e) (te_volume e)) ?code"
    using e by (simp add: apply_trade_def trade_effect_def l0_def Let_def)
  have c: "the_bucket (consume_pending x oid v) c b = the_bucket x c b"
    "last_settlement_date (consume_pending x oid v) = last_settlement_date x" for x oid v c b
    by (simp_all add: consume_pending_def add_pending_def Let_def split: option.split)
  have "the_bucket l1 ?code ?b = apply_bucket_buy (te_volume e) (te_price e) s"
    using e(3) op_state_ok(5) by (simp add: l1(2) the_bucket_normalize c l0_def the_bucket_upd s state_ok_def)
  moreover have vb: "volumes (apply_bucket_buy (te_volume e) (te_price e) s) =
      (total_volume s + te_volume e, available_volume s, frozen_volume s, today_buy_volume s + te_volume e)"
    using e(2) s ledger_ok_bucket [OF ok] by (intro volumes_buy) auto
  moreover have "last_settlement_date l1 = last_settlement_date l"
    by (simp add: l1(2) normalize_instrument_def set_buckets_def c l0_def)
  then have "volumes (the_bucket (settle_trading_day l1 d) ?code ?b) = volumes (settle_state (the_bucket l1 ?code ?b))"
    using day by (intro the_bucket_settle) simp
  moreover have "volumes (settle_state x) = (total_volume x, max 0 (total_volume x - frozen_volume x), frozen_volume x, 0)"
    if "state_ok x" for x using volumes_settle [OF that] .
  ultimately show ?thesis using l1(1) by (auto simp: volumes_def)
qed

section \<open>Sums over the buckets of an instrument\<close>

lemma sum_of_dset:
  "distinct (dkeys bs) \<Longrightarrow> dget bs n = Some s \<Longrightarrow> sum_of f (dset n s' bs) = sum_of f bs - f s + f s'"
proof (induction bs)
  case (Cons a bs)
  obtain k t where a: "a = (k, t)" by fastforce
  have [simp]: "sum_of f ((k, x) # d) = f x + sum_of f d" for k x d by (simp add: sum_of_def dvalues_def)
  show ?case
  proof (cases "k = n")
    case True
    with Cons.prems a show ?thesis by (simp add: dset_def)
  next
    case False
    with Cons a show ?thesis by (simp add: dset_def dkeys_def)
  qed
qed simp

lemma sum_of_upd:
  assumes "ledger_ok l"
  shows "sum_of f (instrument_buckets (upd_bucket l code b g) code) =
    sum_of f (instrument_buckets l code) - f (the_bucket l code b) + f (g (the_bucket l code b))"
  using sum_of_dset [OF _ dget_instrument] ledger_ok_instrument [OF assms, of code]
  by (simp add: instrument_upd buckets_ok_def)

lemma sum_of_dmap: "(\<And>s. f (g s) = f s) \<Longrightarrow> sum_of f (dmap g bs) = sum_of f bs"
  by (simp add: sum_of_def dvalues_def dmap_def case_prod_beta comp_def)

lemma sum_of_dmap_in:
  assumes "\<And>s. s \<in> set (dvalues bs) \<Longrightarrow> f (g s) = f s"
  shows "sum_of f (dmap g bs) = sum_of f bs"
  using assms by (induction bs) (auto simp: sum_of_def dvalues_def dmap_def)

lemma values_ok: "buckets_ok bs \<Longrightarrow> s \<in> set (dvalues bs) \<Longrightarrow> state_ok s"
  by (auto simp: buckets_ok_def list_all_iff dvalues_def)

lemma sum_of_bucket_le:
  assumes "ledger_ok l" "\<And>s. state_ok s \<Longrightarrow> 0 \<le> f s"
  shows "f (the_bucket l code b) \<le> sum_of f (instrument_buckets l code)"
proof -
  let ?bs = "instrument_buckets l code"
  have "the_bucket l code b \<in> set (dvalues ?bs)"
    using dget_in_set [OF dget_instrument [of l code b]] by (force simp: dvalues_def)
  moreover have "\<And>s. s \<in> set (dvalues ?bs) \<Longrightarrow> 0 \<le> f s"
    using assms(2) values_ok [OF ledger_ok_instrument [OF assms(1)]] by blast
  ultimately show ?thesis unfolding sum_of_def
    by (intro member_le_sum_list) auto
qed

lemma sum_of_zero: "(\<And>s. s \<in> set (dvalues bs) \<Longrightarrow> f s = 0) \<Longrightarrow> sum_of f bs = 0"
  by (induction bs) (auto simp: sum_of_def dvalues_def)

section \<open>Synchronization\<close>

lemma total_mark: "state_ok s \<Longrightarrow> total_volume (mark_state t lp a mv s) = total_volume s"
  using state_ok_bounds(1) [of s] by (simp add: mark_state_def bucket_normalize_def Let_def)

text \<open>
  After synchronization with a broker position that is at least what the other buckets
  hold, the totals of the buckets add up to the broker's volume: the core bucket takes the
  difference.
\<close>

lemma sync_matches_broker_total:
  assumes l: "ledger_reachable l" and s: "sync_position l code pos = Inr l'" "read_position pos = Inr v"
    and c: "code \<noteq> []" "0 \<le> pv_long_volume v"
    and others: "sum_of total_volume (instrument_buckets l code) - total_volume (the_bucket l code (VStr CORE_BUCKET))
      \<le> pv_long_volume v"
  shows "sum_of total_volume (instrument_buckets l' code) = pv_long_volume v"
proof -
  let ?core = "the_bucket l code (VStr CORE_BUCKET)" let ?sum = "sum_of total_volume (instrument_buckets l code)"
  have ok: "ledger_ok l" by (rule ledger_reachable_ok [OF l])
  have sv: "sync_view l code v = Inr l'" using s c by (simp add: sync_position_def)
  show ?thesis
  proof (cases "pv_long_volume v \<le> 0 \<and> pending_for_instrument l code = []")
    case True
    then have "l' = l\<lparr>ledger_buckets := dpop code (ledger_buckets l)\<rparr>" using sv by (simp add: sync_view_def)
    then have "sum_of total_volume (instrument_buckets l' code) = 0"
      by (simp add: instrument_buckets_def dget_or_def ensure_buckets_def KNOWN_BUCKETS_def dsetdefault_def
          dmem_def dset_def sum_of_def dvalues_def empty_bucket_def CORE_BUCKET_def SWING_BUCKET_def LOCKED_CORE_BUCKET_def)
    with True c show ?thesis by simp
  next
    case F: False
    then obtain mv where mv: "l' = (if \<not> list_ex (\<lambda>s. total_volume s \<noteq> 0) (dvalues (instrument_buckets l code))
        then upd_bucket l code (VStr CORE_BUCKET) (adopt_position v mv)
        else let delta = pv_long_volume v - ?sum;
               extra = pv_available v - sum_of available_volume (instrument_buckets l code);
               l1 = (if delta \<noteq> 0 then upd_bucket l code (VStr CORE_BUCKET) (adjust_core delta extra) else l)
             in mark_to_market l1 code (pv_last_price v) (pv_avg_price v) mv)"
      using sv by (auto simp: sync_view_def Let_def res_simps)
    have core: "total_volume ?core \<le> ?sum"
      by (rule sum_of_bucket_le [OF ok]) (rule state_ok_bounds(1))
    show ?thesis
    proof (cases "list_ex (\<lambda>s. total_volume s \<noteq> 0) (dvalues (instrument_buckets l code))")
      case False
      then have "\<forall>s \<in> set (dvalues (instrument_buckets l code)). total_volume s = 0"
        by (auto simp: list_ex_iff)
      then have z: "?sum = 0" by (simp add: sum_of_zero)
      then have "total_volume ?core = 0"
        using core state_ok_bounds(1) [OF ledger_ok_bucket [OF ok], of code "VStr CORE_BUCKET"] by simp
      with False mv z c show ?thesis
        by (simp add: sum_of_upd [OF ok] adopt_position_def bucket_normalize_def)
    next
      case True
      define l1 where "l1 = (if pv_long_volume v - ?sum \<noteq> 0
        then upd_bucket l code (VStr CORE_BUCKET)
          (adjust_core (pv_long_volume v - ?sum) (pv_available v - sum_of available_volume (instrument_buckets l code)))
        else l)"
      have l': "l' = mark_to_market l1 code (pv_last_price v) (pv_avg_price v) mv"
        using mv True by (simp add: l1_def Let_def)
      have ok1: "ledger_ok l1" using ok by (simp add: l1_def ledger_ok_upd)
      have "sum_of total_volume (instrument_buckets l1 code) = pv_long_volume v"
        using others core by (simp add: l1_def sum_of_upd [OF ok] adjust_core_def bucket_normalize_def)
      moreover have "sum_of total_volume (instrument_buckets l' code) = sum_of total_volume (instrument_buckets l1 code)"
        using values_ok [OF ledger_ok_instrument [OF ok1]]
        by (simp add: l' mark_to_market_def Let_def instrument_set_buckets sum_of_dmap_in total_mark)
          (simp add: instrument_buckets_def sum_of_dmap_in total_mark)
      ultimately show ?thesis by simp
    qed
  qed
qed

section \<open>Substitution legs\<close>

text \<open>
  Each leg of a substitution plan is checked against the sellable volume on its own. A
  plan that names one bucket twice, each time for all that is sellable there, is accepted and
  freezes more than the bucket holds.
\<close>

lemma repeated_legs_freeze_too_much:
  assumes l: "ledger_reachable l"
    and plan: "sell_from_buckets plan = [(b, v), (b, v)]" "0 < v"
    and s: "s = the_bucket l code (VStr b)" "v = available_volume s"
      "total_volume s = available_volume s + frozen_volume s"
  shows "snd (reserve_substitution_legs l code plan) \<noteq> []
    \<and> total_volume (the_bucket (fst (reserve_substitution_legs l code plan)) code (VStr b))
        < frozen_volume (the_bucket (fst (reserve_substitution_legs l code plan)) code (VStr b))"
proof -
  have ok: "state_ok s" using ledger_ok_bucket [OF ledger_reachable_ok [OF l]] s(1) by simp
  let ?b = "VStr (normalize_bucket (VStr b))"
  have nb: "normalize_bucket ?b = normalize_bucket (VStr b)" by simp
  have sb: "the_bucket l code ?b = s" by (simp add: the_bucket_def s(1))
  have one: "volumes (freeze v s) = (total_volume s, 0, frozen_volume s + v, today_buy_volume s)"
    using volumes_freeze [OF ok, of v] plan(2) s(2) by simp
  then have two: "total_volume (freeze v (freeze v s)) = total_volume s"
    "frozen_volume (freeze v (freeze v s)) = frozen_volume s + v + v"
    using state_ok_bounds [OF ok] plan(2)
    by (simp_all add: freeze_def [of v "freeze v s"] bucket_normalize_def volumes_def)
  have r: "reserve_substitution_legs l code plan =
      (upd_bucket (upd_bucket l code ?b (freeze v)) code ?b (freeze v),
       [\<lparr>leg_bucket = normalize_bucket (VStr b), leg_volume = v, leg_remaining = v\<rparr>,
        \<lparr>leg_bucket = normalize_bucket (VStr b), leg_volume = v, leg_remaining = v\<rparr>])"
    using plan s(2) sb by (simp add: reserve_substitution_legs_def Let_def)
  show ?thesis
    using two plan(2) s(3) by (simp add: r the_bucket_upd sb) (simp add: s(2))
qed

definition sample_plan_twice :: SubstitutionPlan where
  "sample_plan_twice =
     \<lparr>requested_bucket = ''swing'', sell_from_buckets = [(''swing'', 300), (''swing'', 300)],
      reattribute_buy_to_bucket = ''core'', plan_volume = 600, plan_reason = [], plan_enabled = True,
      substitution_id = ''S1'', plan_order_id = VStr ''O1'', plan_status = PLANNED, applied_volume = 0,
      rolled_back_volume = 0, plan_metadata = []\<rparr>"

section \<open>Snapshots\<close>

lemma bucket_roundtrip:
  assumes "state_ok s" "bucket s \<noteq> []"
  shows "BucketPositionState_from_dict (BucketPositionState_to_dict s) = Inr s"
proof -
  have n: "bucket_normalize s = s" using assms(1) by (simp add: state_ok_def)
  obtain c cs where "bucket s = c # cs" using assms(2) by (cases "bucket s") auto
  then show ?thesis
    by (simp add: BucketPositionState_from_dict_def BucketPositionState_to_dict_def n int_or_0_def
        float_or_0_def str_or_def)
      (metis BucketPositionState.surjective n old.unit.exhaust)
qed

lemma status_roundtrip: "SubstitutionStatus_of (SubstitutionStatus_value x) = Inr x"
  by (cases x) (simp_all add: SubstitutionStatus_of_def)

lemma legs_roundtrip:
  "list_all (\<lambda>(b, v). 0 < v) legs \<Longrightarrow>
     plan_legs (map (\<lambda>(b, v). VDict [(''bucket'', VStr b), (''volume'', VInt v)]) legs) = Inr legs"
  by (induction legs) (auto simp: int_or_0_def)

definition plan_ok_sub :: "string \<Rightarrow> SubstitutionPlan \<Rightarrow> bool" where
  "plan_ok_sub oid p \<longleftrightarrow> oid \<noteq> [] \<and> plan_order_id p = VStr oid \<and> substitution_id p \<noteq> []
     \<and> requested_bucket p \<noteq> [] \<and> reattribute_buy_to_bucket p \<noteq> []
     \<and> list_all (\<lambda>(b, v). 0 < v) (sell_from_buckets p)"

lemma plan_roundtrip:
  assumes "plan_ok_sub oid p"
  shows "SubstitutionPlan_from_dict fresh (SubstitutionPlan_to_dict p) oid = Inr (Some p)"
  using assms
  by (simp add: plan_ok_sub_def SubstitutionPlan_from_dict_def SubstitutionPlan_to_dict_def status_roundtrip
      legs_roundtrip int_or_0_def to_dict_or_empty_def)

definition buckets_storable :: "buckets \<Rightarrow> bool" where
  "buckets_storable bs \<longleftrightarrow>
     buckets_ok bs \<and> set KNOWN_BUCKETS \<subseteq> set (dkeys bs) \<and> list_all (\<lambda>(n, s). n \<noteq> [] \<and> bucket s = n) bs"

text \<open>What the ledger keeps true of itself when every bucket is stored under its own name.\<close>

definition ledger_storable :: "BucketLedger \<Rightarrow> bool" where
  "ledger_storable l \<longleftrightarrow>
     distinct (dkeys (ledger_buckets l)) \<and> distinct (dkeys (pending_substitutions l))
     \<and> list_all (\<lambda>(code, bs). code \<noteq> [] \<and> buckets_storable bs) (ledger_buckets l)
     \<and> list_all (\<lambda>(oid, p). oid \<noteq> []) (pending_orders l)
     \<and> list_all (\<lambda>(oid, p). plan_ok_sub oid p) (pending_substitutions l)
     \<and> last_settlement_date l \<noteq> Some []"

lemma dget_to_dict_bucket: "dmem (BucketPositionState_to_dict s) ''bucket''"
  by (simp add: BucketPositionState_to_dict_def dmem_def Let_def)

lemma restore_roundtrip:
  assumes "buckets_storable bs"
  shows "restore_buckets (dmap BucketPositionState_to_dict bs) = Inr bs"
proof -
  have "rmap (\<lambda>(name, d). BucketPositionState_from_dict (dsetdefault ''bucket'' (VStr name) d))
      (map (\<lambda>(n, s). (n, BucketPositionState_to_dict s)) bs) = Inr (map snd bs)"
    by (rule rmap_map_Inr)
      (use assms in \<open>auto simp: buckets_storable_def buckets_ok_def list_all_iff dsetdefault_def
        dget_to_dict_bucket intro!: bucket_roundtrip\<close>)
  moreover have "map (\<lambda>s. (bucket s, s)) (map snd bs) = bs"
    using assms by (auto simp: buckets_storable_def list_all_iff intro!: map_idI)
  moreover have "dict_of bs = bs"
    using assms by (simp add: buckets_storable_def buckets_ok_def dkeys_def dict_of_distinct)
  moreover have "ensure_buckets bs = bs" using assms by (simp add: buckets_storable_def ensure_id)
  ultimately show ?thesis by (simp add: restore_buckets_def dmap_def comp_def)
qed

lemma plans_roundtrip:
  "list_all (\<lambda>(oid, p). plan_ok_sub oid p) ps \<Longrightarrow>
     restore_plans fresh (dmap SubstitutionPlan_to_dict ps) = Inr ps"
  by (induction ps) (auto simp: dmap_def plan_roundtrip)



section \<open>Stock splits\<close>

lemma scale_exact:
  assumes "0 < k" "0 \<le> v" "k * v \<le> 2 ^ 53"
  shows "scale_volume v (Fin (of_int k)) = Inr (k * v)"
proof -
  have "v \<le> k * v" using assms(1,2) by (simp add: mult_le_cancel_right1)
  then have "v \<le> 2 ^ 53" using assms(3) by simp
  then have "float_of_int v = Fin (of_int v)" using assms(2) by (simp add: float_of_int_def fround_of_int)
  moreover have "fround (of_int (v * k)) = Fin (of_int (v * k))"
    using assms by (intro fround_of_int) (simp add: mult.commute)
  ultimately show ?thesis
    using assms(1,2) by (simp add: scale_volume_def mult.commute flip: of_int_mult)
qed

definition splittable :: "int \<Rightarrow> BucketPositionState \<Rightarrow> bool" where
  "splittable k s \<longleftrightarrow> k * total_volume s \<le> 2 ^ 53 \<and> k * frozen_volume s \<le> 2 ^ 53 \<and> k * today_buy_volume s \<le> 2 ^ 53"

lemma adjust_exact:
  assumes "state_ok s" "0 < k" "splittable k s"
  shows "\<exists>s'. adjust_state (Fin (of_int k)) m d s = Inr s' \<and>
    volumes s' = (k * total_volume s, k * available_volume s, k * frozen_volume s, k * today_buy_volume s)"
proof -
  note b = state_ok_bounds [OF assms(1)]
  have n: "bucket_normalize s = s" using assms(1) by (simp add: state_ok_def)
  have "available_volume s \<le> total_volume s" using b by linarith
  then have "k * available_volume s \<le> k * total_volume s" using assms(2) by simp
  then have a: "k * available_volume s \<le> 2 ^ 53" using assms(3) by (simp add: splittable_def)
  have "k * available_volume s \<le> k * max 0 (total_volume s - frozen_volume s)"
    using b(5) assms(2) by simp
  also have "\<dots> = max 0 (k * total_volume s - k * frozen_volume s)"
    using assms(2) by (simp add: max_def algebra_simps)
  finally have le: "k * available_volume s \<le> max 0 (k * total_volume s - k * frozen_volume s)" .
  have nn: "0 \<le> k * total_volume s" "0 \<le> k * frozen_volume s" "0 \<le> k * today_buy_volume s" "0 \<le> k * available_volume s"
    using b assms(2) by simp_all
  show ?thesis
    using assms(2,3) a b le nn
    by (simp add: adjust_state_def n scale_exact splittable_def Let_def volumes_def bucket_normalize_def)
qed

lemma rmap_adjust:
  assumes "buckets_ok bs" "0 < k" "list_all (\<lambda>(n, s). splittable k s) bs"
  shows "\<exists>bs'. rmap (\<lambda>(name, s). rbind (adjust_state (Fin (of_int k)) m d s) (\<lambda>s'. Inr (name, s'))) bs = Inr bs'
    \<and> (\<forall>n s. dget bs n = Some s \<longrightarrow> (\<exists>s'. dget bs' n = Some s' \<and> state_ok s' \<and>
         volumes s' = (k * total_volume s, k * available_volume s, k * frozen_volume s, k * today_buy_volume s)))
    \<and> dkeys bs' = dkeys bs"
  using assms
proof (induction bs)
  case (Cons a bs)
  obtain n s where a: "a = (n, s)" by fastforce
  have "state_ok s" "buckets_ok bs" using Cons.prems(1) by (auto simp: a buckets_ok_def dkeys_def)
  moreover from this adjust_exact [of s k m d] Cons.prems(2,3) obtain s' where
    s': "adjust_state (Fin (of_int k)) m d s = Inr s'"
      "volumes s' = (k * total_volume s, k * available_volume s, k * frozen_volume s, k * today_buy_volume s)"
    by (auto simp: a)
  moreover have "state_ok s'" using s'(1) by (auto simp: adjust_state_def res_simps Let_def)
  ultimately show ?case using Cons.IH Cons.prems(2,3) by (force simp: a dkeys_def)
qed (simp add: dkeys_def)

text \<open>
  A corporate action with a whole-number factor multiplies the total, sellable, frozen and
  bought-today volumes of every bucket by exactly that factor, whatever it does to prices, as long
  as the results are at most 2 to the 53.
\<close>

lemma stock_split_scales_volumes:
  assumes l: "ledger_reachable l" and c: "code \<noteq> []" "0 < k"
    and small: "list_all (\<lambda>(n, s). splittable k s) (instrument_buckets l code)"
  shows "\<exists>l' patch. apply_corporate_action l code (Fin (of_int k)) pf cd aid ex = Inr (l', patch)
    \<and> (\<forall>b. volumes (the_bucket l' code b) =
         (k * total_volume (the_bucket l code b), k * available_volume (the_bucket l code b),
          k * frozen_volume (the_bucket l code b), k * today_buy_volume (the_bucket l code b)))"
proof -
  let ?bs = "instrument_buckets l code"
  define m where "m = (case pf of None \<Rightarrow> fdiv (Fin 1) (Fin (of_int k))
      | Some x \<Rightarrow> f_or x (Fin 1))"
  have k: "f_or (Fin (of_int k)) (Fin 1) = Fin (of_int k)" "\<not> fle (Fin (of_int k)) fzero"
    using c(2) by (simp_all add: f_or_def)
  have ok: "buckets_ok ?bs" by (rule ledger_ok_instrument [OF ledger_reachable_ok [OF l]])
  from rmap_adjust [OF ok c(2) small, of m "pmax fzero cd"] obtain bs' where
    bs': "rmap (\<lambda>(name, s). rbind (adjust_state (Fin (of_int k)) m (pmax fzero cd) s) (\<lambda>s'. Inr (name, s'))) ?bs = Inr bs'"
    "dkeys bs' = dkeys ?bs"
    and get: "\<And>n s. dget ?bs n = Some s \<Longrightarrow> \<exists>s'. dget bs' n = Some s' \<and> state_ok s' \<and>
         volumes s' = (k * total_volume s, k * available_volume s, k * frozen_volume s, k * today_buy_volume s)"
    by blast
  let ?l = "normalize_instrument (set_buckets l code bs') code"
  have "ensure_buckets bs' = bs'"
    by (rule ensure_id) (use bs'(2) keys_ensure [of "dget_or (ledger_buckets l) code []"] in \<open>simp add: instrument_buckets_def\<close>)
  then have i: "instrument_buckets (set_buckets l code bs') code = bs'" by (simp add: instrument_set_buckets)
  have "volumes (the_bucket ?l code b) =
         (k * total_volume (the_bucket l code b), k * available_volume (the_bucket l code b),
          k * frozen_volume (the_bucket l code b), k * today_buy_volume (the_bucket l code b))" for b
  proof -
    from get [OF dget_instrument [of l code b]] obtain s' where s': "dget bs' (normalize_bucket b) = Some s'" "state_ok s'"
      "volumes s' = (k * total_volume (the_bucket l code b), k * available_volume (the_bucket l code b),
          k * frozen_volume (the_bucket l code b), k * today_buy_volume (the_bucket l code b))" by blast
    have "the_bucket (set_buckets l code bs') code b = s'"
      using s'(1) by (simp add: the_bucket_def i dget_or_def)
    with s' c(1) show ?thesis by (simp add: the_bucket_normalize volumes_normalize)
  qed
  moreover have "\<exists>patch. apply_corporate_action l code (Fin (of_int k)) pf cd aid ex = Inr (?l, patch)"
    using bs'(1) c k unfolding m_def by (simp add: apply_corporate_action_def Let_def)
  ultimately show ?thesis by blast
qed

end
