(* ===== verification/Py_Decimal.thy ===== *)
theory Py_Decimal
  imports Py_Value
begin

text \<open>
  The decimal numbers of the standard library as the market rules and the order sizer use them:
  a coefficient and an exponent, arithmetic rounded to 28 digits (the default context), the
  conversions from and to floats through their shortest text, and printing. The exponent limits
  of the context are not modelled: the operands are floats, amounts and volumes. The floor
  division of floats, which the sizer uses beside them, is here too.
\<close>

section \<open>Decimals\<close>

datatype decimal =
    Dec int int \<comment> \<open>coefficient and exponent\<close>
  | DInf bool \<comment> \<open>\<open>True\<close> for the positive one\<close>
  | DNaN

definition DEC_PREC :: nat where "DEC_PREC = 28"

fun dec_value :: "decimal \<Rightarrow> rat" where
  "dec_value (Dec c e) = of_int c * pow10 e"
| "dec_value _ = 0"

fun dec_finite :: "decimal \<Rightarrow> bool" where
  "dec_finite (Dec c e) = True"
| "dec_finite _ = False"

text \<open>Rounding a coefficient to the precision of the context, half to even.\<close>

definition dec_fix :: "int \<Rightarrow> int \<Rightarrow> decimal" where
  "dec_fix c e =
     (let n = length (digits_of_int \<bar>c\<bar>)
      in if n \<le> DEC_PREC then Dec c e
         else let d = n - DEC_PREC; r = rne (of_int c / 10 ^ d)
              in if \<bar>r\<bar> = 10 ^ DEC_PREC then Dec (r div 10) (e + int d + 1) else Dec r (e + int d))"

text \<open>A product of zero and an infinity raises, which \<open>dec_times\<close> keeps apart.\<close>

fun dec_mul :: "decimal \<Rightarrow> decimal \<Rightarrow> decimal" where
  "dec_mul (Dec c e) (Dec c' e') = dec_fix (c * c') (e + e')"
| "dec_mul DNaN _ = DNaN"
| "dec_mul _ DNaN = DNaN"
| "dec_mul (DInf s) (DInf s') = DInf (s = s')"
| "dec_mul (DInf s) (Dec c _) = (if c = 0 then DNaN else DInf (s = (0 < c)))"
| "dec_mul (Dec c _) (DInf s) = (if c = 0 then DNaN else DInf (s = (0 < c)))"

definition dec_times :: "decimal \<Rightarrow> decimal \<Rightarrow> decimal res" where
  "dec_times a b =
     (if dec_mul a b = DNaN \<and> a \<noteq> DNaN \<and> b \<noteq> DNaN then Inl InvalidOperation else Inr (dec_mul a b))"

fun dec_add :: "decimal \<Rightarrow> decimal \<Rightarrow> decimal" where
  "dec_add (Dec c e) (Dec c' e') =
     (let m = min e e' in dec_fix (c * 10 ^ nat (e - m) + c' * 10 ^ nat (e' - m)) m)"
| "dec_add DNaN _ = DNaN"
| "dec_add _ DNaN = DNaN"
| "dec_add (DInf s) (DInf s') = (if s = s' then DInf s else DNaN)"
| "dec_add (DInf s) (Dec _ _) = DInf s"
| "dec_add (Dec _ _) (DInf s) = DInf s"

text \<open>Comparing with a NaN raises \<open>InvalidOperation\<close>.\<close>

fun dec_le :: "decimal \<Rightarrow> decimal \<Rightarrow> bool res" where
  "dec_le DNaN _ = Inl InvalidOperation"
| "dec_le _ DNaN = Inl InvalidOperation"
| "dec_le (DInf s) (DInf s') = Inr (s \<longrightarrow> s')"
| "dec_le (DInf s) (Dec _ _) = Inr (\<not> s)"
| "dec_le (Dec _ _) (DInf s) = Inr s"
| "dec_le (Dec c e) (Dec c' e') = Inr (dec_value (Dec c e) \<le> dec_value (Dec c' e'))"

text \<open>
  \<open>Decimal(str(x))\<close> of a float: the digits of its shortest text, with the exponent the layout of
  that text gives (a whole number below \<open>10 ^ 16\<close> is written with \<open>.0\<close>).
\<close>

definition dec_of_pos :: "rat \<Rightarrow> decimal" where
  "dec_of_pos x =
     (let (c, e) = shortest 16 x (flog10 x) 1;
          all = digits_of_int c; ds = strip_zeros all;
          pt = int (length all) + e; n = int (length ds)
      in if n \<le> pt \<and> pt \<le> 16 then Dec (int_of_digits ds * 10 ^ nat (pt - n + 1)) (- 1)
         else Dec (int_of_digits ds) (pt - n))"

fun dec_neg :: "decimal \<Rightarrow> decimal" where
  "dec_neg (Dec c e) = Dec (- c) e"
| "dec_neg (DInf s) = DInf (\<not> s)"
| "dec_neg DNaN = DNaN"

fun dec_of_float :: "pyfloat \<Rightarrow> decimal" where
  "dec_of_float (Fin r) =
     (if r = 0 then Dec 0 (- 1) else if r < 0 then dec_neg (dec_of_pos (- r)) else dec_of_pos r)"
| "dec_of_float PInf = DInf True"
| "dec_of_float NInf = DInf False"
| "dec_of_float NaN = DNaN"

text \<open>\<open>float(d)\<close>\<close>

fun float_of_dec :: "decimal \<Rightarrow> pyfloat" where
  "float_of_dec (Dec c e) = fround (of_int c * pow10 e)"
| "float_of_dec (DInf s) = (if s then PInf else NInf)"
| "float_of_dec DNaN = NaN"

text \<open>
  A quotient is only ever rounded to an integer in this program, so it is modelled by its value:
  rounded to the precision, half to even, and then to an integer, half away from zero. A result
  that needs more digits than the precision raises \<open>InvalidOperation\<close>.
\<close>

definition dec_round :: "rat \<Rightarrow> rat" where
  "dec_round q =
     (if q = 0 then 0
      else let e = flog10 \<bar>q\<bar> - int DEC_PREC + 1 in of_int (rne (q / pow10 e)) * pow10 e)"

definition round_half_up :: "rat \<Rightarrow> int" where
  "round_half_up q = (if 0 \<le> q then \<lfloor>q + 1 / 2\<rfloor> else - \<lfloor>- q + 1 / 2\<rfloor>)"

definition dec_checked :: "int \<Rightarrow> int \<Rightarrow> decimal res" where
  "dec_checked c e =
     (if DEC_PREC < length (digits_of_int \<bar>c\<bar>) then Inl InvalidOperation else Inr (Dec c e))"

text \<open>\<open>(a / b).quantize(Decimal("1"), rounding=ROUND_HALF_UP)\<close> with \<open>b\<close> positive.\<close>

fun dec_ticks :: "decimal \<Rightarrow> decimal \<Rightarrow> decimal res" where
  "dec_ticks DNaN _ = Inr DNaN"
| "dec_ticks _ DNaN = Inr DNaN"
| "dec_ticks (DInf _) _ = Inl InvalidOperation"
| "dec_ticks (Dec _ _) (DInf _) = Inr (Dec 0 0)"
| "dec_ticks (Dec c e) (Dec c' e') =
     dec_checked (round_half_up (dec_round (dec_value (Dec c e) / dec_value (Dec c' e')))) 0"

text \<open>
  \<open>(a / tick).to_integral_value(rounding) * tick\<close>, rounded up or down, with a positive tick. The result is
  modelled by its value: the program compares it or converts it to a float.
\<close>

fun dec_to_tick :: "bool \<Rightarrow> decimal \<Rightarrow> decimal \<Rightarrow> decimal res" where
  "dec_to_tick upward DNaN _ = Inr DNaN"
| "dec_to_tick upward _ DNaN = Inr DNaN"
| "dec_to_tick upward (DInf s) (Dec _ _) = Inr (DInf s)"
| "dec_to_tick upward (Dec c e) (Dec c' e') =
     (let q = dec_round (dec_value (Dec c e) / dec_value (Dec c' e'))
      in Inr (dec_mul (Dec (if upward then \<lceil>q\<rceil> else \<lfloor>q\<rfloor>) 0) (Dec c' e')))"
| "dec_to_tick upward _ (DInf _) = Inl InvalidOperation"

text \<open>\<open>a.quantize(b)\<close>: the exponent of \<open>b\<close>, half to even.\<close>

fun dec_quantize :: "decimal \<Rightarrow> decimal \<Rightarrow> decimal res" where
  "dec_quantize (Dec c e) (Dec c' e') = dec_checked (rne (of_int c * pow10 e / pow10 e')) e'"
| "dec_quantize DNaN _ = Inr DNaN"
| "dec_quantize _ DNaN = Inr DNaN"
| "dec_quantize (DInf s) (DInf _) = Inr (DInf s)"
| "dec_quantize _ _ = Inl InvalidOperation"

text \<open>\<open>str(d)\<close>\<close>

fun dec_str :: "decimal \<Rightarrow> string" where
  "dec_str (Dec c e) =
     (let ds = digits_of_int \<bar>c\<bar>; n = int (length ds); left = e + n;
          sign = (if c < 0 then ''-'' else [])
      in if e \<le> 0 \<and> - 6 < left then
           sign @
           (if left \<le> 0 then ''0.'' @ replicate (nat (- left)) CHR ''0'' @ ds
            else if n \<le> left then ds
            else take (nat left) ds @ ''.'' @ drop (nat left) ds)
         else sign @ [hd ds] @ (if n = 1 then [] else ''.'' @ tl ds) @ ''E'' @
              (if left - 1 < 0 then ''-'' else ''+'') @ digits_of_int \<bar>left - 1\<bar>)"
| "dec_str (DInf s) = (if s then ''Infinity'' else ''-Infinity'')"
| "dec_str DNaN = ''NaN''"

section \<open>Float floor division\<close>

text \<open>
  \<open>a // b\<close> as the interpreter computes it: an exact remainder, a rounded quotient of the rest,
  corrected to the nearest integer. A zero divisor raises; the callers rule it out.
\<close>

fun ffloordiv :: "pyfloat \<Rightarrow> pyfloat \<Rightarrow> pyfloat" where
  "ffloordiv (Fin a) (Fin b) =
     (let m = a - b * of_int (trunc_rat (a / b)); d0 = fdiv (fsub (Fin a) (Fin m)) (Fin b);
          d = (if m \<noteq> 0 \<and> (b < 0) \<noteq> (m < 0) then fsub d0 (Fin 1) else d0)
      in case d of
           Fin q \<Rightarrow> fround (of_int (if 1 / 2 < q - of_int \<lfloor>q\<rfloor> then \<lfloor>q\<rfloor> + 1 else \<lfloor>q\<rfloor>))
         | x \<Rightarrow> x)"
| "ffloordiv (Fin a) PInf = Fin (if a < 0 then - 1 else 0)"
| "ffloordiv (Fin a) NInf = Fin (if 0 < a then - 1 else 0)"
| "ffloordiv _ _ = NaN"

section \<open>Facts\<close>

lemma dec_finite_fix [simp]: "dec_finite (dec_fix c e)"
  by (simp add: dec_fix_def Let_def)

lemma dec_finite_of_Fin [simp]: "dec_finite (dec_of_float (Fin r))"
proof -
  have "dec_finite (dec_of_pos x)" for x
    by (simp add: dec_of_pos_def Let_def split: prod.split)
  moreover have "dec_finite d \<Longrightarrow> dec_finite (dec_neg d)" for d
    by (cases d) simp_all
  ultimately show ?thesis by simp
qed

lemma dec_finite_mul [simp]: "dec_finite a \<Longrightarrow> dec_finite b \<Longrightarrow> dec_finite (dec_mul a b)"
  by (cases a; cases b) simp_all

lemma dec_finite_not_NaN: "dec_finite d \<Longrightarrow> d \<noteq> DNaN"
  by (cases d) simp_all

lemma dec_of_float_NaN_iff: "dec_of_float x = DNaN \<longleftrightarrow> x = NaN"
proof (cases x)
  case (Fin r)
  then show ?thesis using dec_finite_not_NaN [OF dec_finite_of_Fin, of r]
    by (simp del: dec_of_float.simps(1))
qed simp_all

declare dec_of_float.simps(1) [simp del]

lemma dec_add_finite_left:
  assumes "dec_finite a" "b \<noteq> DNaN"
  shows "dec_add a b \<noteq> DNaN"
proof (cases a)
  case (Dec c e)
  with assms(2) show ?thesis
    by (cases b) (simp_all add: Let_def dec_finite_not_NaN)
qed (use assms in simp_all)

lemma dec_le_defined: "a \<noteq> DNaN \<Longrightarrow> dec_finite b \<Longrightarrow> \<exists>r. dec_le a b = Inr r"
  by (cases a; cases b) simp_all

section \<open>Floor division is exact in the range of volumes\<close>

text \<open>A value a float can have.\<close>

definition is_float :: "pyfloat \<Rightarrow> bool" where
  "is_float x \<longleftrightarrow> (case x of Fin r \<Rightarrow> fround r = Fin r | _ \<Rightarrow> True)"

lemma fround_self: "fround r = Fin r \<longleftrightarrow> frnd r = r \<and> \<bar>r\<bar> < f_overflow"
  by (auto simp: fround_def Let_def split: if_splits)

lemma frnd_error: 
  assumes "0 < x" shows "\<bar>frnd x - x\<bar> \<le> pow2 (fexp x) / 2"
proof -
  let ?u = "pow2 (fexp x)"
  have "\<bar>of_int (rne (x / ?u)) - x / ?u\<bar> \<le> 1 / 2" using rne_bounds [of "x / ?u"] by linarith
  then have "\<bar>of_int (rne (x / ?u)) - x / ?u\<bar> * ?u \<le> 1 / 2 * ?u" by (intro mult_right_mono) simp_all
  moreover have "\<bar>of_int (rne (x / ?u)) - x / ?u\<bar> * ?u = \<bar>frnd x - x\<bar>"
    using assms by (simp add: frnd_def abs_mult_pos left_diff_distrib)
  ultimately show ?thesis by simp
qed

text \<open>A float is a whole multiple of the smallest one.\<close>

lemma frnd_multiple:
  assumes "frnd b = b"
  shows "\<exists>n :: int. b = of_int n * pow2 (- 1074)"
proof (cases "b = 0")
  case False
  let ?k = "nat (fexp b + 1074)"
  have "- 1074 \<le> fexp b" by (simp add: fexp_def)
  then have "fexp b = int ?k + (- 1074)" by simp
  then have "pow2 (fexp b) = of_int (2 ^ ?k) * pow2 (- 1074)"
    by (metis pow2_add pow2_nat nat_int of_nat_0_le_iff)
  moreover have "b = of_int (rne (b / pow2 (fexp b))) * pow2 (fexp b)"
    using assms False by (simp add: frnd_def)
  ultimately have "b = of_int (rne (b / pow2 (fexp b)) * 2 ^ ?k) * pow2 (- 1074)"
    by (metis of_int_mult mult.assoc)
  then show ?thesis ..
qed (simp add: exI [of _ 0])

lemma frnd_multiple_error:
  assumes b: "frnd b = b" "0 < b" and q: "0 \<le> q" "q \<le> 2 ^ 50"
  shows "\<bar>frnd (b * of_int q) - b * of_int q\<bar> \<le> b / 4"
proof (cases "q = 0")
  case False
  let ?x = "b * of_int q"
  have x: "0 < ?x" using b(2) q(1) False by simp
  show ?thesis
  proof (cases "flog2 ?x - 52 \<le> - 1074")
    case True
    then have e: "fexp ?x = - 1074" using x by (simp add: fexp_def)
    obtain n :: int where "b = of_int n * pow2 (- 1074)" using frnd_multiple [OF b(1)] by blast
    then have "?x / pow2 (fexp ?x) = of_int (n * q)" unfolding e by simp
    then have "frnd ?x = of_int (n * q) * pow2 (- 1074)" using x b(2) by (simp only: frnd_def rne_of_int e) auto
    also have "\<dots> = ?x" using \<open>b = _\<close> by simp
    finally show ?thesis using b(2) by simp
  next
    case False
    then have "fexp ?x = flog2 ?x - 52" using x by (simp add: fexp_def)
    then have "pow2 (fexp ?x) = pow2 (flog2 ?x) / 2 ^ 52" by (simp add: pow2_diff) (simp add: pow2_def)
    also have "\<dots> \<le> ?x / 2 ^ 52" by (intro divide_right_mono flog2_bounds(1) [OF x]) simp
    also have "\<dots> \<le> b * 2 ^ 50 / 2 ^ 52"
    proof -
      have "(of_int q :: rat) \<le> of_int (2 ^ 50)" using q(2) by (simp only: of_int_le_iff)
      then show ?thesis using b(2) by (intro divide_right_mono mult_left_mono) simp_all
    qed
    finally have "pow2 (fexp ?x) \<le> b / 4" by simp
    with frnd_error [OF x] b(2) show ?thesis by linarith
  qed
qed (use b in simp)

lemma frnd_quarter: "\<bar>m\<bar> \<le> 2 ^ 53 \<Longrightarrow> frnd (of_int m / 4) = of_int m / 4"
  using frnd_exact [of m "- 2"] by (simp add: pow2_def)

lemma quarter_range:
  "0 \<le> z \<Longrightarrow> z \<le> 2 ^ 50 \<Longrightarrow>
     \<bar>4 * z - 1\<bar> \<le> 2 ^ 53 \<and> \<bar>4 * z + 1\<bar> \<le> 2 ^ 53 \<and> \<bar>z :: int\<bar> \<le> 2 ^ 53"
  by simp

lemma quarter_near:
  "of_int (4 * z - 1) / 4 \<le> (x :: rat) \<Longrightarrow> x \<le> of_int (4 * z + 1) / 4 \<Longrightarrow> \<bar>x - of_int z\<bar> \<le> 1 / 4"
  unfolding abs_le_iff by (simp add: field_simps)

lemma nearest_floor:
  fixes d :: rat
  assumes "\<bar>d - of_int q\<bar> \<le> 1 / 4"
  shows "(if 1 / 2 < d - of_int \<lfloor>d\<rfloor> then \<lfloor>d\<rfloor> + 1 else \<lfloor>d\<rfloor>) = (q :: int)"
proof (cases "of_int q \<le> d")
  case True
  with assms have "\<lfloor>d\<rfloor> = q" by (intro floor_unique) linarith+
  moreover have "\<not> 1 / 2 < d - of_int q" using assms by linarith
  ultimately show ?thesis by simp
next
  case False
  with assms have "\<lfloor>d\<rfloor> = q - 1" by (intro floor_unique) simp_all
  moreover have "1 / 2 < d - of_int (q - 1)" using assms unfolding of_int_diff by linarith
  ultimately show ?thesis by simp
qed

lemma ffloordiv_exact:
  assumes a: "fround a = Fin a" "0 \<le> a" and b: "fround b = Fin b" "0 < b" and q: "\<lfloor>a / b\<rfloor> \<le> 2 ^ 50"
  shows "ffloordiv (Fin a) (Fin b) = Fin (of_int \<lfloor>a / b\<rfloor>)"
proof -
  let ?q = "\<lfloor>a / b\<rfloor>"
  have q0: "0 \<le> ?q" using a(2) b(2) by simp
  have t: "trunc_rat (a / b) = ?q" using a(2) b(2) by (simp add: trunc_rat_def)
  have le: "b * of_int ?q \<le> a"
    using floor_divide_lower [OF b(2), of a] by (simp add: mult.commute)
  let ?x = "frnd (b * of_int ?q)"
  have x: "fround (b * of_int ?q) = Fin ?x"
  proof -
    have "?x \<le> a" using frnd_mono [OF le] a(1) by (simp add: fround_self)
    moreover have "0 \<le> ?x" using q0 b(2) by (intro frnd_nonneg) simp
    moreover have "\<bar>a\<bar> < f_overflow" using a(1) by (simp add: fround_self)
    ultimately show ?thesis by (intro fround_frnd) linarith
  qed
  have "\<bar>?x - b * of_int ?q\<bar> \<le> b / 4"
    using b q q0 by (intro frnd_multiple_error) (simp_all add: fround_self)
  then have "b * (of_int ?q - 1 / 4) \<le> ?x" "?x \<le> b * (of_int ?q + 1 / 4)"
    unfolding right_diff_distrib distrib_left by linarith+
  then have "of_int ?q - 1 / 4 \<le> ?x / b" "?x / b \<le> of_int ?q + 1 / 4"
    using b(2) by (simp_all only: pos_le_divide_eq pos_divide_le_eq mult.commute)
  then have d: "of_int (4 * ?q - 1) / 4 \<le> ?x / b" "?x / b \<le> of_int (4 * ?q + 1) / 4"
    by (simp_all add: diff_divide_distrib add_divide_distrib)
  have m: "\<bar>4 * ?q - 1\<bar> \<le> 2 ^ 53" "\<bar>4 * ?q + 1\<bar> \<le> 2 ^ 53" "\<bar>?q\<bar> \<le> 2 ^ 53"
    using quarter_range [OF q0 q] by auto
  have "of_int (4 * ?q - 1) / 4 \<le> frnd (?x / b)" "frnd (?x / b) \<le> of_int (4 * ?q + 1) / 4"
    using frnd_mono [OF d(1)] frnd_mono [OF d(2)] unfolding frnd_quarter [OF m(1)] frnd_quarter [OF m(2)] .
  then have near: "\<bar>frnd (?x / b) - of_int ?q\<bar> \<le> 1 / 4"
    by (rule quarter_near)
  have "\<bar>of_int ?q :: rat\<bar> \<le> of_int (2 ^ 50)" using q q0 by (simp only: of_int_le_iff flip: of_int_abs)
  moreover have "of_int (2 ^ 50) + 1 / 4 < f_overflow" unfolding f_overflow_def pow2_def by simp
  ultimately have fin: "fround (?x / b) = Fin (frnd (?x / b))"
    using near by (intro fround_frnd) linarith
  have sub: "fsub (Fin a) (Fin (a - b * of_int ?q)) = Fin ?x" using x by (simp add: fsub_def)
  have m0: "\<not> (a - b * of_int ?q < 0)" using le by simp
  show ?thesis
    using m0 b(2) nearest_floor [OF near] fround_of_int [OF m(3)] by (simp add: t Let_def sub fin)
qed

lemma ffloordiv_neg:
  assumes "a < 0" "0 < b" "int_of_float (ffloordiv (Fin a) (Fin b)) = Inr n"
  shows "n \<le> 0"
proof -
  let ?m = "a - b * of_int (trunc_rat (a / b))"
  have "trunc_rat (a / b) \<le> 0" using assms(1,2) by (simp add: trunc_rat_def divide_less_0_iff)
  then have "a - ?m \<le> 0" using assms(2) by (simp add: mult_nonneg_nonpos)
  then have "fle (fsub (Fin a) (Fin ?m)) fzero" unfolding fsub_def fneg.simps fadd.simps
    by (intro fround_nonpos) simp
  then have d0: "fle (fdiv (fsub (Fin a) (Fin ?m)) (Fin b)) fzero" (is "fle ?d0 _")
    using assms(2) by (cases "fsub (Fin a) (Fin ?m)") (auto intro!: fround_nonpos simp: divide_le_0_iff)
  then have "fle (fsub ?d0 (Fin 1)) fzero"
    by (cases ?d0) (auto simp: fsub_def intro!: fround_nonpos)
  with d0 have d: "fle (if ?m \<noteq> 0 \<and> (b < 0) \<noteq> (?m < 0) then fsub ?d0 (Fin 1) else ?d0) fzero" (is "fle ?d _")
    by simp
  have le: "fle (ffloordiv (Fin a) (Fin b)) fzero"
  proof (cases ?d)
    case (Fin q)
    with d have "q \<le> 0" by (simp only: fle.simps)
    then have "(if 1 / 2 < q - of_int \<lfloor>q\<rfloor> then \<lfloor>q\<rfloor> + 1 else \<lfloor>q\<rfloor>) \<le> 0" by simp
    then have "fle (fround (of_int (if 1 / 2 < q - of_int \<lfloor>q\<rfloor> then \<lfloor>q\<rfloor> + 1 else \<lfloor>q\<rfloor>))) fzero"
      by (intro fround_nonpos) (simp only: of_int_le_0_iff)
    then show ?thesis unfolding ffloordiv.simps Let_def Fin pyfloat.case .
  qed (use d in \<open>simp_all only: ffloordiv.simps Let_def pyfloat.case\<close>)
  with assms(3) show ?thesis
    by (cases "ffloordiv (Fin a) (Fin b)") (auto simp: trunc_rat_def simp del: ffloordiv.simps)
qed

end
