(* ===== verification/Market_Rules.thy ===== *)
theory Market_Rules
  imports Py_Decimal Broker_Types
begin

text \<open>
  The trading rules of ordinary A-shares (\<open>trading/market_rules.py\<close>): limit prices derived from
  the previous close, prices on the tick grid, volumes in lots of 100, and the checks an order
  passes before it is routed. The readers of bars and ticks and the historical limit rates by
  date and name are not modelled.
\<close>

section \<open>Results and snapshots\<close>

text \<open>The message of a failed check is text for a person and is not modelled.\<close>

record OrderCheckResult =
  check_ok :: bool
  check_code :: string
  check_metadata :: pydict

definition passed :: OrderCheckResult where
  "passed = \<lparr>check_ok = True, check_code = ''ok'', check_metadata = []\<rparr>"

definition failed_with :: "string \<Rightarrow> pydict \<Rightarrow> OrderCheckResult" where
  "failed_with code meta = \<lparr>check_ok = False, check_code = code, check_metadata = meta\<rparr>"

abbreviation failed :: "string \<Rightarrow> OrderCheckResult" where
  "failed code \<equiv> failed_with code []"

text \<open>
  The observations the checks make of a \<open>datetime\<close>: its weekday, Monday being 0, and its time of
  day in microseconds.
\<close>

record clock_time =
  clock_weekday :: int
  clock_of_day :: int

text \<open>
  The fields of a market snapshot the checks read. The limits on the volume of an order are
  attributes that only some callers attach; \<open>None\<close> stands for an absent one.
\<close>

record MarketDataSnapshot =
  snapshot_timestamp :: "clock_time option"
  snapshot_price :: pyfloat
  price_tick :: pyfloat
  limit_up :: "pyfloat option"
  limit_down :: "pyfloat option"
  is_trading :: bool
  suspended :: bool
  min_limit_order_volume :: pyval
  max_limit_order_volume :: pyval
  min_limit_sell_order_volume :: pyval
  max_limit_sell_order_volume :: pyval

section \<open>Limit prices\<close>

definition market_optional_float :: "pyval \<Rightarrow> pyfloat option res" where
  "market_optional_float v =
     (case v of
        VNone \<Rightarrow> Inr None
      | _ \<Rightarrow> (case to_float v of
                Inr x \<Rightarrow> Inr (Some x)
              | Inl OverflowError \<Rightarrow> Inl OverflowError
              | Inl _ \<Rightarrow> Inr None))"

definition positive_or_none :: "pyfloat option \<Rightarrow> pyfloat option" where
  "positive_or_none x = (case x of None \<Rightarrow> None | Some v \<Rightarrow> if flt fzero v then Some v else None)"

definition derived_limit :: "decimal \<Rightarrow> decimal \<Rightarrow> decimal \<Rightarrow> pyfloat res" where
  "derived_limit close factor tick =
     rbind (dec_ticks (dec_mul close factor) tick) (\<lambda>n.
     rbind (dec_times n tick) (\<lambda>d. Inr (float_of_dec d)))"

definition limit_tick :: "pyfloat \<Rightarrow> decimal" where
  "limit_tick t = dec_of_float (pmax (f_or t (fround (1 / 100))) (fround (1 / 100000000)))"

text \<open>A derived limit of zero is false for \<open>or\<close>, but \<open>x or y\<close> then gives that zero.\<close>

definition resolve_limit_prices ::
  "pyval \<Rightarrow> pyval \<Rightarrow> pyval \<Rightarrow> pyfloat \<Rightarrow> pyval \<Rightarrow> (pyfloat option \<times> pyfloat option \<times> bool) res" where
  "resolve_limit_prices up down previous_close tick limit_rate =
     rbind (market_optional_float up) (\<lambda>up0.
     rbind (market_optional_float down) (\<lambda>down0.
       let ru = positive_or_none up0; rd = positive_or_none down0
       in if ru \<noteq> None \<and> rd \<noteq> None then Inr (ru, rd, False)
          else rbind (market_optional_float previous_close) (\<lambda>close.
               rbind (market_optional_float limit_rate) (\<lambda>rate.
                 case (close, rate) of
                   (Some c, Some r) \<Rightarrow>
                     if fle c fzero \<or> \<not> (flt fzero r \<and> flt r (Fin 1)) then Inr (ru, rd, False)
                     else let t = limit_tick tick; cd = dec_of_float c; rt = dec_of_float r
                          in rbind (derived_limit cd (dec_add (Dec 1 0) rt) t) (\<lambda>du.
                             rbind (derived_limit cd (dec_add (Dec 1 0) (dec_mul (Dec (- 1) 0) rt)) t) (\<lambda>dd.
                               Inr (Some (case ru of Some x \<Rightarrow> x | None \<Rightarrow> du),
                                    Some (case rd of Some x \<Rightarrow> x | None \<Rightarrow> dd), True)))
                 | _ \<Rightarrow> Inr (ru, rd, False)))))"

section \<open>Prices and volumes\<close>

definition LOT_SIZE :: int where "LOT_SIZE = 100"

definition default_price_tick :: pyfloat where "default_price_tick = fround (1 / 100)"

text \<open>\<open>price_tick or self.default_price_tick\<close>\<close>

definition tick_or_default :: "pyfloat option \<Rightarrow> pyfloat" where
  "tick_or_default t = (case t of None \<Rightarrow> default_price_tick | Some x \<Rightarrow> f_or x default_price_tick)"

definition normalize_price :: "pyfloat \<Rightarrow> pyfloat option \<Rightarrow> pyfloat res" where
  "normalize_price price t =
     (let tick0 = dec_of_float (tick_or_default t)
      in rbind (dec_le tick0 (Dec 0 0)) (\<lambda>neg.
           let tick = (if neg then dec_of_float default_price_tick else tick0); v = dec_of_float price
           in rbind (dec_ticks v tick) (\<lambda>ticks.
              rbind (dec_times ticks tick) (\<lambda>d.
              rbind (dec_quantize d tick) (\<lambda>q. Inr (float_of_dec q))))))"

definition is_price_tick_aligned :: "pyfloat \<Rightarrow> pyfloat option \<Rightarrow> bool res" where
  "is_price_tick_aligned price t =
     rbind (normalize_price price t) (\<lambda>n.
       Inr (flt (fabs (fsub n price))
             (pmax (fround (1 / 100000000)) (fdiv (tick_or_default t) (Fin 1000)))))"

definition normalize_buy_volume :: "int \<Rightarrow> int" where
  "normalize_buy_volume v = (if v \<le> 0 then 0 else (v div LOT_SIZE) * LOT_SIZE)"

definition normalize_sell_volume :: "int \<Rightarrow> int \<Rightarrow> int" where
  "normalize_sell_volume requested available =
     (if requested \<le> 0 \<or> available \<le> 0 then 0
      else let v = min requested available
           in if v = available then v
              else if v < LOT_SIZE then 0
              else (v div LOT_SIZE) * LOT_SIZE)"

definition estimate_commission :: "pyfloat \<Rightarrow> pyfloat \<Rightarrow> pyfloat \<Rightarrow> pyfloat" where
  "estimate_commission amount rate minimum =
     (if fle amount fzero then fzero else pmax (fmul amount rate) minimum)"

section \<open>Checks\<close>

definition check_trading_status :: "MarketDataSnapshot option \<Rightarrow> bool \<Rightarrow> OrderCheckResult" where
  "check_trading_status market strict =
     (case market of
        None \<Rightarrow> if strict then failed ''missing_market_data'' else passed
      | Some m \<Rightarrow> if suspended m \<or> \<not> is_trading m then failed ''suspended'' else passed)"

definition check_price :: "OrderRequest \<Rightarrow> MarketDataSnapshot option \<Rightarrow> bool \<Rightarrow> OrderCheckResult res" where
  "check_price r market strict =
     (if request_price_type r = MARKET then Inr passed
      else if fle (request_price r) fzero then Inr (failed ''invalid_price'')
      else let tick = (case market of None \<Rightarrow> default_price_tick | Some m \<Rightarrow> price_tick m)
           in rbind (is_price_tick_aligned (request_price r) (Some tick)) (\<lambda>aligned.
              if \<not> aligned then Inr (failed ''price_tick'')
              else case market of
                None \<Rightarrow> Inr (if strict then failed ''missing_limit_data'' else passed)
              | Some m \<Rightarrow>
                  (case (limit_up m, limit_down m) of
                     (Some up, Some down) \<Rightarrow>
                       if flt up (request_price r) then Inr (failed ''above_limit_up'')
                       else if flt (request_price r) down then Inr (failed ''below_limit_down'')
                       else Inr passed
                   | _ \<Rightarrow> Inr (if strict then failed ''missing_limit_data'' else passed))))"

definition check_limit_block :: "OrderRequest \<Rightarrow> MarketDataSnapshot option \<Rightarrow> OrderCheckResult" where
  "check_limit_block r market =
     (case market of
        None \<Rightarrow> passed
      | Some m \<Rightarrow>
          if fle (snapshot_price m) fzero then passed
          else if request_order_type r = BUY
            \<and> (case limit_up m of None \<Rightarrow> False
                | Some up \<Rightarrow> fle up (request_price r) \<and> fle up (snapshot_price m))
          then failed ''limit_up_blocked''
          else if request_order_type r = SELL
            \<and> (case limit_down m of None \<Rightarrow> False
                | Some down \<Rightarrow> fle (request_price r) down \<and> fle (snapshot_price m) down)
          then failed ''limit_down_blocked''
          else passed)"

definition side_check :: "OrderType \<Rightarrow> int \<Rightarrow> int \<Rightarrow> OrderCheckResult option" where
  "side_check side volume available =
     (case side of
        BUY \<Rightarrow> if volume mod LOT_SIZE \<noteq> 0 then Some (failed ''buy_lot'') else None
      | SELL \<Rightarrow>
          if available < volume then Some (failed ''insufficient_position'')
          else if volume \<noteq> available \<and> volume < LOT_SIZE then Some (failed ''odd_lot_sell'')
          else None
      | _ \<Rightarrow> None)"

definition check_volume :: "OrderRequest \<Rightarrow> int \<Rightarrow> int option \<Rightarrow> int option \<Rightarrow> OrderCheckResult" where
  "check_volume r available min_volume max_volume =
     (let volume = request_volume r
      in if volume \<le> 0 then failed ''invalid_volume''
         else case side_check (request_order_type r) volume available of
           Some f \<Rightarrow> f
         | None \<Rightarrow>
             if (case min_volume of None \<Rightarrow> False | Some n \<Rightarrow> volume < n) then failed ''below_min_volume''
             else if (case max_volume of None \<Rightarrow> False | Some n \<Rightarrow> n < volume) then failed ''above_max_volume''
             else passed)"

section \<open>Facts on volumes\<close>

lemma check_ok_simps [simp]: "check_ok passed" "\<not> check_ok (failed_with c m)"
  by (simp_all add: passed_def failed_with_def)

lemma lot_floor: "(v div LOT_SIZE) * LOT_SIZE \<le> v"
  by (rule floor_lot_le) (simp add: LOT_SIZE_def)

lemma lot_floor_nonneg: "0 \<le> v \<Longrightarrow> 0 \<le> (v div LOT_SIZE) * LOT_SIZE"
  by (rule floor_lot_nonneg) (simp_all add: LOT_SIZE_def)

lemma lot_floor_greatest:
  assumes "w \<le> v" "w mod LOT_SIZE = 0"
  shows "w \<le> (v div LOT_SIZE) * LOT_SIZE"
proof -
  have "w div LOT_SIZE \<le> v div LOT_SIZE" using assms(1) by (simp add: LOT_SIZE_def zdiv_mono1)
  moreover have "w = (w div LOT_SIZE) * LOT_SIZE" using assms(2) by (metis add.right_neutral div_mult_mod_eq)
  ultimately show ?thesis by (simp add: LOT_SIZE_def)
qed

lemma normalize_buy_volume_bounds:
  "0 \<le> normalize_buy_volume v" "normalize_buy_volume v \<le> max 0 v"
  "normalize_buy_volume v mod LOT_SIZE = 0"
  using lot_floor [of v] lot_floor_nonneg [of v] by (simp_all add: normalize_buy_volume_def)

lemma normalize_sell_volume_bounds:
  "0 \<le> normalize_sell_volume r a" "normalize_sell_volume r a \<le> max 0 a"
  "normalize_sell_volume r a \<le> max 0 r"
  "normalize_sell_volume r a = a \<or> normalize_sell_volume r a mod LOT_SIZE = 0"
  using lot_floor [of r] lot_floor_nonneg [of r]
  by (auto simp: normalize_sell_volume_def min_def Let_def)

text \<open>The volume checks see only the side, the volume and the sellable volume.\<close>

lemma check_volume_ok:
  "check_ok (check_volume r a None None) \<longleftrightarrow>
     0 < request_volume r \<and> side_check (request_order_type r) (request_volume r) a = None"
  by (auto simp: check_volume_def side_check_def Let_def split: OrderType.splits)

lemma buy_volume_passes:
  assumes "request_order_type r = BUY" "0 < request_volume r" "request_volume r mod LOT_SIZE = 0"
  shows "check_ok (check_volume r a None None)"
  using assms by (simp add: check_volume_ok side_check_def)

lemma sell_volume_passes:
  assumes "request_order_type r = SELL" "0 < request_volume r" "request_volume r \<le> a"
    "request_volume r = a \<or> request_volume r mod LOT_SIZE = 0"
  shows "check_ok (check_volume r a None None)"
proof -
  have "request_volume r = a \<or> LOT_SIZE \<le> request_volume r"
    using assms(2,4) zmod_trivial_iff [of "request_volume r" LOT_SIZE] by (auto simp: LOT_SIZE_def)
  with assms show ?thesis by (auto simp: check_volume_ok side_check_def)
qed

section \<open>Properties\<close>

definition sellable :: "int \<Rightarrow> int \<Rightarrow> int \<Rightarrow> bool" where
  "sellable requested available w \<longleftrightarrow>
     0 \<le> w \<and> w \<le> requested \<and> w \<le> available \<and> (w mod LOT_SIZE = 0 \<or> w = available)"

text \<open>
  The volume a sell order is reduced to is the greatest one that is at most the requested
  and the sellable volume and is whole lots or everything that is sellable.
\<close>

lemma normalize_sell_volume_greatest:
  assumes "0 \<le> requested" "0 \<le> available"
  shows "sellable requested available (normalize_sell_volume requested available) \<and>
    (\<forall>w. sellable requested available w \<longrightarrow> w \<le> normalize_sell_volume requested available)"
proof
  show "sellable requested available (normalize_sell_volume requested available)"
    using assms normalize_sell_volume_bounds [of requested available] by (auto simp: sellable_def)
  show "\<forall>w. sellable requested available w \<longrightarrow> w \<le> normalize_sell_volume requested available"
  proof (intro allI impI)
    fix w
    assume w: "sellable requested available w"
    consider "requested < available" "requested < LOT_SIZE" | "requested < available" "LOT_SIZE \<le> requested"
      | "available \<le> requested"
      by linarith
    then show "w \<le> normalize_sell_volume requested available"
    proof cases
      case 1
      from w have "0 \<le> w" "w \<le> requested" "w mod LOT_SIZE = 0 \<or> w = available"
        by (simp_all only: sellable_def)
      moreover from this 1 have "w mod LOT_SIZE = w" by (intro mod_pos_pos_trivial) linarith+
      ultimately have "w = 0" using 1 by linarith
      then show ?thesis using normalize_sell_volume_bounds(1) by simp
    next
      case 2
      then have "normalize_sell_volume requested available = (requested div LOT_SIZE) * LOT_SIZE"
        by (simp add: normalize_sell_volume_def LOT_SIZE_def)
      with 2 w lot_floor_greatest [of w requested] show ?thesis by (auto simp: sellable_def)
    next
      case 3
      then have "normalize_sell_volume requested available = available"
        using assms by (simp add: normalize_sell_volume_def)
      with w show ?thesis by (simp add: sellable_def)
    qed
  qed
qed

text \<open>
  a limit order that passes the strict price check has a positive price on the tick grid,
  not above the upper and not below the lower limit price, both of which are known.
\<close>

lemma accepted_price_within_limits:
  assumes "check_price r (Some m) True = Inr c" "check_ok c" "request_price_type r \<noteq> MARKET"
  shows "\<exists>up down. limit_up m = Some up \<and> limit_down m = Some down
    \<and> \<not> flt up (request_price r) \<and> \<not> flt (request_price r) down \<and> \<not> fle (request_price r) fzero
    \<and> is_price_tick_aligned (request_price r) (Some (price_tick m)) = Inr True"
  using assms
  by (auto simp: check_price_def res_simps split: if_splits option.splits)

text \<open>Evaluating the rules on a price and a tick of 1.\<close>

lemma flog10_one [simp]: "flog10 1 = 0"
  by (simp add: flog10_def quotient_of_number pow10_def)

lemma digits_small: "digits_of_int 1 = ''1''" "digits_of_int 10 = ''10''" "digits_of_int 100 = ''100''"
  by code_simp+

lemma dec_of_one: "dec_of_float (Fin 1) = Dec 10 (- 1)"
  by (simp add: dec_of_float.simps(1) dec_of_pos_def digits_small pow10_def shortest.simps rne_def Let_def
    strip_zeros_def int_of_digits_def digit_value_def)

lemma dec_round_one: "dec_round 1 = 1"
  by (simp add: dec_round_def pow10_def DEC_PREC_def rne_def Let_def)

lemma normalize_price_one: "normalize_price (Fin 1) (Some (Fin 1)) = Inr (Fin 1)"
proof -
  have "\<lfloor>3 / 2 :: rat\<rfloor> = 1" by linarith
  then have "dec_ticks (Dec 10 (- 1)) (Dec 10 (- 1)) = Inr (Dec 1 0)"
    by (simp add: pow10_def dec_round_one round_half_up_def dec_checked_def DEC_PREC_def digits_small)
  moreover have "dec_times (Dec 1 0) (Dec 10 (- 1)) = Inr (Dec 10 (- 1))"
    by (simp add: dec_times_def dec_fix_def DEC_PREC_def digits_small)
  moreover have "dec_quantize (Dec 10 (- 1)) (Dec 10 (- 1)) = Inr (Dec 10 (- 1))"
    by (simp add: pow10_def rne_def Let_def dec_checked_def DEC_PREC_def digits_small)
  ultimately show ?thesis
    by (simp add: normalize_price_def tick_or_default_def f_or_def dec_of_one pow10_def)
qed

lemma tolerance_positive: "flt fzero (fround (1 / 100000000))"
proof -
  have "fle (fround (of_int 1 * pow2 (- 27))) (fround (1 / 100000000))"
    by (rule fround_mono) (simp add: pow2_def)
  then show ?thesis
    by (subst (asm) fround_exact) (auto intro: flt_fle_trans [of fzero "Fin (of_int 1 * pow2 (- 27))"])
qed

lemma aligned_one: "is_price_tick_aligned (Fin 1) (Some (Fin 1)) = Inr True"
  using tolerance_positive flt_not_NaN [OF tolerance_positive]
  by (simp add: is_price_tick_aligned_def normalize_price_one fsub_def)
    (blast intro: flt_fle_trans pmax_ge_left)

definition sample_market :: MarketDataSnapshot where
  "sample_market =
     \<lparr>snapshot_timestamp = None, snapshot_price = Fin 1, price_tick = Fin 1, limit_up = Some (Fin 2), limit_down = Some (Fin 1),
      is_trading = True, suspended = False, min_limit_order_volume = VNone,
      max_limit_order_volume = VNone, min_limit_sell_order_volume = VNone,
      max_limit_sell_order_volume = VNone\<rparr>"

definition sample_buy :: OrderRequest where
  "sample_buy =
     \<lparr>request_instrument_code = ''600000.SH'', request_order_type = BUY, request_price_type = LIMIT,
      request_volume = 200, request_price = Fin 1, request_metadata = []\<rparr>"

end
