(* ===== verification/Order_Sizer.thy ===== *)
theory Order_Sizer
  imports Market_Rules Exit_Types
begin

text \<open>
  From a trade intent to the volume of an order (\<open>trading/order_sizer.py\<close>). \<open>draft_intent\<close> is one
  method of the source; its stages (the caller's caps, the liquidity cap, the sizing of a side,
  the allocation ceiling, the reasons for a zero volume) are functions on a state that holds the
  local variables of the method. The bisection of the allocation ceiling is a function with a
  termination measure, the width of its interval.
\<close>

section \<open>Numbers from loose values\<close>

fun first_number :: "pyval list \<Rightarrow> pyfloat option res" where
  "first_number [] = Inr None"
| "first_number (v # vs) =
     (case v of
        VNone \<Rightarrow> first_number vs
      | _ \<Rightarrow> (case to_float v of
                Inr x \<Rightarrow> Inr (Some x)
              | Inl OverflowError \<Rightarrow> Inl OverflowError
              | Inl _ \<Rightarrow> first_number vs))"

definition optional_int :: "pyval \<Rightarrow> int option res" where
  "optional_int v =
     (case v of
        VNone \<Rightarrow> Inr None
      | _ \<Rightarrow> (case to_int v of
                Inr n \<Rightarrow> Inr (Some n)
              | Inl OverflowError \<Rightarrow> Inl OverflowError
              | Inl _ \<Rightarrow> Inr None))"

definition optional_positive_number :: "pyval \<Rightarrow> pyfloat option res" where
  "optional_positive_number v =
     (case to_float v of
        Inr x \<Rightarrow> Inr (if flt fzero x then Some x else None)
      | Inl OverflowError \<Rightarrow> Inl OverflowError
      | Inl _ \<Rightarrow> Inr None)"

section \<open>Intents and drafts\<close>

text \<open>The fields of a trade intent (\<open>strategies/base.py\<close>) the sizer reads.\<close>

record TradeIntent =
  intent_id :: string
  intent_instrument_code :: string
  intent_bucket :: string
  target_amount :: pyval
  target_position_pct :: pyval
  target_volume :: "int option"
  intent_metadata :: pydict

record OrderDraft =
  draft_id :: string
  draft_intent_id :: string
  draft_side :: OrderType
  draft_instrument_code :: string
  draft_bucket :: string
  draft_limit_price :: pyfloat
  raw_target_amount :: "pyfloat option"
  raw_target_volume :: "int option"
  sized_amount :: pyfloat
  sized_volume :: int
  size_reason_codes :: "string list"
  draft_metadata :: pydict

text \<open>\<open>intent.target_volume or _optional_int(metadata.get("requested_volume", metadata.get("volume")))\<close>\<close>

definition intent_volume :: "TradeIntent \<Rightarrow> pydict \<Rightarrow> int option res" where
  "intent_volume i meta =
     (case target_volume i of
        Some n \<Rightarrow> if n \<noteq> 0 then Inr (Some n)
                  else optional_int (vget_or meta ''requested_volume'' (vget meta ''volume''))
      | None \<Rightarrow> optional_int (vget_or meta ''requested_volume'' (vget meta ''volume'')))"

definition account_total :: "pydict \<Rightarrow> pyfloat res" where
  "account_total a =
     to_float (v_or (vget a ''total_asset'') (v_or (vget a ''cash_total'')
       (v_or (vget a ''available_cash'') (VFloat fzero))))"

definition intent_amount :: "TradeIntent \<Rightarrow> pydict \<Rightarrow> pyfloat option res" where
  "intent_amount i meta =
     first_number [target_amount i, vget meta ''target_amount'', vget meta ''budget'']"

definition intent_pct :: "TradeIntent \<Rightarrow> pydict \<Rightarrow> pyfloat option res" where
  "intent_pct i meta =
     first_number [target_position_pct i, vget meta ''target_position_pct'', vget meta ''allocation_pct'']"

text \<open>\<open>requested_volume * price\<close>: the volume is converted to a float first.\<close>

definition volume_amount :: "TradeIntent \<Rightarrow> pyfloat \<Rightarrow> pydict \<Rightarrow> pyfloat option res" where
  "volume_amount i price meta =
     rbind (intent_volume i meta) (\<lambda>v.
       case v of
         Some n \<Rightarrow>
           if n \<noteq> 0 \<and> flt fzero price
           then rbind (to_float (VInt n)) (\<lambda>x. Inr (Some (fmul x price)))
           else Inr None
       | None \<Rightarrow> Inr None)"

definition find_raw_target_amount ::
  "TradeIntent \<Rightarrow> pyfloat \<Rightarrow> pydict \<Rightarrow> pydict \<Rightarrow> pyfloat option res" where
  "find_raw_target_amount i price account meta =
     rbind (account_total account) (\<lambda>total_asset.
     rbind (intent_amount i meta) (\<lambda>amount.
       case amount of
         Some a \<Rightarrow> Inr (Some a)
       | None \<Rightarrow>
           rbind (intent_pct i meta) (\<lambda>pct.
             case pct of
               Some p \<Rightarrow>
                 if flt fzero total_asset then Inr (Some (fmul total_asset p))
                 else volume_amount i price meta
             | None \<Rightarrow> volume_amount i price meta)))"

definition target_buy_volume :: "TradeIntent \<Rightarrow> pyfloat \<Rightarrow> pydict \<Rightarrow> pydict \<Rightarrow> int res" where
  "target_buy_volume i price account meta =
     rbind (account_total account) (\<lambda>total_asset.
     rbind (intent_amount i meta) (\<lambda>amount.
     rbind (case amount of
              Some a \<Rightarrow> Inr (Some a)
            | None \<Rightarrow> rbind (intent_pct i meta) (\<lambda>pct.
                case pct of
                  Some p \<Rightarrow> Inr (if flt fzero total_asset then Some (fmul total_asset p) else None)
                | None \<Rightarrow> Inr None)) (\<lambda>final.
       case final of
         None \<Rightarrow> Inr 0
       | Some a \<Rightarrow> if fle a fzero then Inr 0
                   else if price = fzero then Inl ZeroDivisionError
                   else int_of_float (ffloordiv a price))))"

section \<open>Caps given by the caller\<close>

text \<open>An amount cap may be a \<open>Decimal\<close> or a plain value.\<close>

datatype amount_cap = NoCap | CapDecimal decimal | CapValue pyval

fun cap_decimal :: "amount_cap \<Rightarrow> decimal option" where
  "cap_decimal (CapDecimal d) = Some d"
| "cap_decimal (CapValue (VFloat x)) = Some (dec_of_float x)"
| "cap_decimal (CapValue (VInt n)) = Some (Dec n 0)"
| "cap_decimal _ = None"

definition checked_sell_cap :: "pyval \<Rightarrow> OrderType \<Rightarrow> int option res" where
  "checked_sell_cap cap side =
     (case cap of
        VNone \<Rightarrow> Inr None
      | VInt n \<Rightarrow>
          if n < 0 then Inl (ValueError ''SELL_VOLUME_CAP_INVALID'')
          else if side \<noteq> SELL then Inl (ValueError ''SELL_VOLUME_CAP_REQUIRES_SELL'')
          else Inr (Some n)
      | _ \<Rightarrow> Inl (ValueError ''SELL_VOLUME_CAP_INVALID''))"

definition checked_allocation_cap :: "amount_cap \<Rightarrow> OrderType \<Rightarrow> pyfloat \<Rightarrow> decimal option res" where
  "checked_allocation_cap cap side price =
     (if cap = NoCap then Inr None
      else case cap_decimal cap of
        None \<Rightarrow> Inl (ValueError ''ALLOCATION_AMOUNT_CAP_INVALID'')
      | Some d \<Rightarrow>
          if \<not> dec_finite d \<or> dec_value d < 0 then Inl (ValueError ''ALLOCATION_AMOUNT_CAP_INVALID'')
          else if side \<noteq> BUY then Inl (ValueError ''ALLOCATION_AMOUNT_CAP_REQUIRES_BUY'')
          else if \<not> dec_finite (dec_of_float price) \<or> fle price fzero
          then Inl (ValueError ''ALLOCATION_AMOUNT_CAP_PRICE_INVALID'')
          else Inr (Some d))"

section \<open>Sizing\<close>

text \<open>The draft while it is computed.\<close>

record sizing_state =
  st_amount :: "pyfloat option"
  st_volume :: "int option"
  st_reasons :: "string list"
  st_meta :: pydict
  st_sized :: int

definition add_reason :: "string \<Rightarrow> sizing_state \<Rightarrow> sizing_state" where
  "add_reason c s = s\<lparr>st_reasons := st_reasons s @ [c]\<rparr>"

definition apply_liquidity_cap :: "OrderType \<Rightarrow> pyfloat \<Rightarrow> sizing_state \<Rightarrow> sizing_state res" where
  "apply_liquidity_cap side price s =
     rbind (optional_positive_number (vget (st_meta s) ''liquidity_cap_amount'')) (\<lambda>cap.
       case (cap, st_amount s) of
         (Some c, Some a) \<Rightarrow>
           if side = BUY \<and> flt c a then
             rbind (case st_volume s of
                      Some n \<Rightarrow>
                        if n \<noteq> 0 \<and> flt fzero price
                        then rbind (int_of_float (ffloordiv c price)) (\<lambda>m. Inr (Some (min n m)))
                        else Inr None
                    | None \<Rightarrow> Inr None) (\<lambda>vol.
               Inr (add_reason ''LIQUIDITY_PARTICIPATION_CAP''
                 (s\<lparr>st_meta := dset ''uncapped_target_amount'' (VFloat a) (st_meta s),
                    st_amount := Some c, st_volume := vol\<rparr>)))
           else Inr s
       | _ \<Rightarrow> Inr s)"

text \<open>The volume a T entry may buy: what the old shares can later sell under T+1.\<close>

definition t_trade_capacity :: "pydict \<Rightarrow> int res" where
  "t_trade_capacity holding =
     rbind (to_int (vget_or holding ''available_volume'' (VInt 0))) (\<lambda>a.
     rbind (to_int (vget_or holding ''locked_core_available_volume'' (VInt 0))) (\<lambda>l.
     rbind (to_int (vget_or holding ''t_trade_exit_capacity'' (VInt (max 0 (a - l))))) (\<lambda>c.
       Inr (max 0 c))))"

definition is_t_entry :: "pydict \<Rightarrow> bool" where
  "is_t_entry meta \<longleftrightarrow> lower (str_or (vget meta ''t_trade_role'') []) = ''entry''"

definition buy_target_amount :: "pyfloat \<Rightarrow> pyfloat option \<Rightarrow> int res" where
  "buy_target_amount price amount =
     (case amount of
        Some a \<Rightarrow> if flt fzero a then int_of_float (ffloordiv a price) else Inr 0
      | None \<Rightarrow> Inr 0)"

text \<open>The volume a BUY asks for, from its volume or its amount.\<close>

definition buy_target :: "pyfloat \<Rightarrow> sizing_state \<Rightarrow> int res" where
  "buy_target price s =
     (case st_volume s of
        Some n \<Rightarrow> if 0 < n then Inr n else buy_target_amount price (st_amount s)
      | None \<Rightarrow> buy_target_amount price (st_amount s))"

definition cap_t_entry :: "pydict \<Rightarrow> sizing_state \<Rightarrow> sizing_state res" where
  "cap_t_entry position s =
     (if is_t_entry (st_meta s) then
        rbind (t_trade_capacity position) (\<lambda>c.
          let capped = min (st_sized s) (normalize_buy_volume c)
          in Inr ((if capped \<noteq> st_sized s then add_reason ''T_TRADE_OLD_INVENTORY_CAP'' s else s)
                   \<lparr>st_sized := capped\<rparr>))
      else Inr s)"

definition size_buy :: "pyfloat \<Rightarrow> pydict \<Rightarrow> sizing_state \<Rightarrow> sizing_state res" where
  "size_buy price position s =
     rbind (buy_target price s) (\<lambda>n.
       let v = normalize_buy_volume n;
           s1 = s\<lparr>st_volume := Some n, st_sized := v\<rparr>;
           s2 = (if v \<noteq> n then add_reason ''BUY_LOT_NORMALIZED'' s1 else s1)
       in cap_t_entry position s2)"

definition sell_all_asked :: "sizing_state \<Rightarrow> bool" where
  "sell_all_asked s \<longleftrightarrow>
     truthy (vget (st_meta s) ''sell_all'') \<or> truthy (vget (st_meta s) ''close_position'')
     \<or> (case st_volume s of None \<Rightarrow> True | Some n \<Rightarrow> n \<le> 0)"

definition cap_sell :: "int option \<Rightarrow> int \<Rightarrow> int \<Rightarrow> sizing_state \<Rightarrow> sizing_state \<times> int" where
  "cap_sell cap available v s =
     (case cap of
        None \<Rightarrow> (s, v)
      | Some c \<Rightarrow>
          let s1 = s\<lparr>st_meta := dset ''broker_available_volume'' (VInt available)
                                 (dset ''sell_volume_cap'' (VInt c) (st_meta s))\<rparr>;
              target = min v c
          in (if target < v then add_reason ''SELL_CAPACITY_CAP'' s1 else s1, target))"

definition size_sell :: "pydict \<Rightarrow> int option \<Rightarrow> sizing_state \<Rightarrow> sizing_state res" where
  "size_sell position cap s =
     rbind (to_int (v_or (vget_or position ''available_volume'' (VInt 0)) (VInt 0))) (\<lambda>available.
       let v = (if sell_all_asked s then available else the (st_volume s));
           s1 = (if sell_all_asked s then add_reason ''SELL_ALL_AVAILABLE'' s else s)\<lparr>st_volume := Some v\<rparr>;
           (s2, target) = cap_sell cap available v s1;
           sized = normalize_sell_volume target available
       in Inr ((if sized \<noteq> v then add_reason ''SELL_VOLUME_NORMALIZED_OR_CAPPED'' s2 else s2)
                \<lparr>st_sized := sized\<rparr>))"

definition size_side ::
  "OrderType \<Rightarrow> pyfloat \<Rightarrow> pydict \<Rightarrow> int option \<Rightarrow> sizing_state \<Rightarrow> sizing_state res" where
  "size_side side price position cap s =
     (if fle price fzero then Inr ((add_reason ''INVALID_PRICE'' s)\<lparr>st_sized := 0\<rparr>)
      else case side of
        BUY \<Rightarrow> size_buy price position s
      | SELL \<Rightarrow> size_sell position cap s
      | _ \<Rightarrow> Inr ((add_reason ''UNSUPPORTED_ORDER_TYPE'' s)\<lparr>st_sized := 0\<rparr>))"

section \<open>The allocation ceiling\<close>

text \<open>The cash a buy needs: its amount and the conservative fee, in decimals.\<close>

definition cash_required :: "TradingCostPolicy \<Rightarrow> pyfloat \<Rightarrow> int \<Rightarrow> decimal" where
  "cash_required c price volume =
     dec_add (dec_mul (dec_of_float price) (Dec volume 0))
       (dec_of_float (estimate_buy_fee_cny price volume c))"

definition fits_allocation :: "TradingCostPolicy \<Rightarrow> pyfloat \<Rightarrow> decimal \<Rightarrow> int \<Rightarrow> bool res" where
  "fits_allocation c price cap lots = dec_le (cash_required c price (lots * LOT_SIZE)) cap"

definition allocation_reasons :: "int \<Rightarrow> sizing_state \<Rightarrow> sizing_state" where
  "allocation_reasons capped s =
     (if capped < st_sized s then
        let s1 = add_reason ''ALLOCATION_AMOUNT_CAP'' s
        in if capped = 0 then add_reason ''MIN_LOT_EXCEEDS_ALLOCATION_BUDGET'' s1 else s1
      else s)"

definition apply_allocation_cap ::
  "TradingCostPolicy \<Rightarrow> pyfloat \<Rightarrow> decimal option \<Rightarrow> sizing_state \<Rightarrow> sizing_state res" where
  "apply_allocation_cap c price cap s =
     (case cap of
        None \<Rightarrow> Inr s
      | Some d \<Rightarrow>
          rbind (bisect_lots (fits_allocation c price d) 0 (st_sized s div LOT_SIZE)) (\<lambda>lots.
            let v = lots * LOT_SIZE; s1 = allocation_reasons v s
            in Inr (s1\<lparr>st_sized := v,
                 st_meta := dset ''allocation_cash_required'' (VStr (dec_str (cash_required c price v)))
                   (dset ''allocation_estimated_fee_cny'' (VStr (repr_float (estimate_buy_fee_cny price v c)))
                     (dset ''allocated_amount_cap'' (VStr (dec_str d)) (st_meta s1)))\<rparr>)))"

section \<open>The draft\<close>

definition zero_reasons :: "OrderType \<Rightarrow> pyfloat \<Rightarrow> sizing_state \<Rightarrow> sizing_state" where
  "zero_reasons side price s =
     (if st_sized s \<le> 0 then
        add_reason ''ZERO_SIZED_VOLUME''
          (if side = BUY
              \<and> (case st_amount s of None \<Rightarrow> False
                  | Some a \<Rightarrow> flt fzero a \<and> flt a (fmul price (float_of_int LOT_SIZE)))
           then add_reason ''MIN_LOT_EXCEEDS_RISK_BUDGET'' s else s)
      else s)"

definition draft_of :: "string \<Rightarrow> TradeIntent \<Rightarrow> OrderType \<Rightarrow> pyfloat \<Rightarrow> sizing_state \<Rightarrow> OrderDraft res" where
  "draft_of fresh i side price s =
     rbind (to_float (VInt (st_sized s))) (\<lambda>v.
       Inr \<lparr>draft_id = fresh, draft_intent_id = intent_id i, draft_side = side,
             draft_instrument_code = intent_instrument_code i, draft_bucket = intent_bucket i,
             draft_limit_price = price, raw_target_amount = st_amount s, raw_target_volume = st_volume s,
             sized_amount = fmul price v, sized_volume = st_sized s,
             size_reason_codes = st_reasons s, draft_metadata = st_meta s\<rparr>)"

text \<open>\<open>fresh\<close> is the UUID of the draft; a position of \<open>None\<close> is the empty dictionary.\<close>

definition draft_intent ::
  "string \<Rightarrow> TradingCostPolicy \<Rightarrow> TradeIntent \<Rightarrow> OrderType \<Rightarrow> pyfloat \<Rightarrow> pydict \<Rightarrow> pydict \<Rightarrow>
   amount_cap \<Rightarrow> pyval \<Rightarrow> OrderDraft res" where
  "draft_intent fresh c i side price account position amount_cap sell_cap =
     rbind (checked_sell_cap sell_cap side) (\<lambda>sc.
     rbind (checked_allocation_cap amount_cap side price) (\<lambda>ac.
     rbind (intent_volume i (intent_metadata i)) (\<lambda>volume.
     rbind (find_raw_target_amount i price account (intent_metadata i)) (\<lambda>amount.
     rbind (apply_liquidity_cap side price
              \<lparr>st_amount = amount, st_volume = volume, st_reasons = [], st_meta = intent_metadata i,
               st_sized = 0\<rparr>) (\<lambda>s1.
     rbind (size_side side price position sc s1) (\<lambda>s2.
     rbind (apply_allocation_cap c price ac s2) (\<lambda>s3.
       draft_of fresh i side price (zero_reasons side price s3))))))))"

definition size_intent ::
  "TradingCostPolicy \<Rightarrow> TradeIntent \<Rightarrow> OrderType \<Rightarrow> pyfloat \<Rightarrow> pydict \<Rightarrow> pydict \<Rightarrow> int res" where
  "size_intent c i side price account position =
     rbind (draft_intent [] c i side price account position NoCap VNone) (\<lambda>d. Inr (sized_volume d))"

lemma bisect_lots_total:
  assumes "\<And>k. \<exists>b. fits k = Inr b"
  shows "\<exists>r. bisect_lots fits low high = Inr r"
  using assms
proof (induction fits low high rule: bisect_lots.induct)
  case (1 fits low high)
  obtain b where "fits ((low + high + 1) div 2) = Inr b" using 1(3) by blast
  with 1 show ?case by (subst bisect_lots.simps) auto
qed

section \<open>The stages of a draft\<close>

lemma add_reason_frame [simp]:
  "st_sized (add_reason c s) = st_sized s" "st_volume (add_reason c s) = st_volume s"
  "st_amount (add_reason c s) = st_amount s" "st_meta (add_reason c s) = st_meta s"
  by (simp_all add: add_reason_def)

lemma zero_reasons_sized [simp]:
  "st_sized (zero_reasons side price s) = st_sized s" "st_volume (zero_reasons side price s) = st_volume s"
  by (simp_all add: zero_reasons_def)

lemma allocation_reasons_frame [simp]:
  "st_sized (allocation_reasons v s) = st_sized s" "st_volume (allocation_reasons v s) = st_volume s"
  by (simp_all add: allocation_reasons_def Let_def)

lemma draft_of_volume:
  "draft_of fresh i side price s = Inr d \<Longrightarrow> sized_volume d = st_sized s \<and> raw_target_volume d = st_volume s"
  by (auto simp: draft_of_def res_simps)

lemma cap_t_entry_volume:
  assumes "cap_t_entry position s = Inr s'" "0 \<le> st_sized s" "st_sized s mod LOT_SIZE = 0"
  shows "0 \<le> st_sized s' \<and> st_sized s' \<le> st_sized s \<and> st_sized s' mod LOT_SIZE = 0
    \<and> st_volume s' = st_volume s"
  using assms normalize_buy_volume_bounds
  by (auto simp: cap_t_entry_def res_simps min_def Let_def split: if_splits)

lemma size_buy_volume:
  assumes "size_buy price position s = Inr s'"
  shows "0 \<le> st_sized s' \<and> st_sized s' mod LOT_SIZE = 0 \<and>
    (\<exists>n. st_volume s' = Some n \<and> st_sized s' \<le> max 0 n)"
proof -
  from assms obtain n where n: "buy_target price s = Inr n" by (auto simp: size_buy_def res_simps)
  let ?s1 = "s\<lparr>st_volume := Some n, st_sized := normalize_buy_volume n\<rparr>"
  obtain s2 where s2: "cap_t_entry position s2 = Inr s'" "st_sized s2 = normalize_buy_volume n"
    "st_volume s2 = Some n"
    using assms n by (auto simp: size_buy_def Let_def split: if_splits)
  with cap_t_entry_volume [OF s2(1)] normalize_buy_volume_bounds [of n] show ?thesis by auto
qed

lemma cap_sell_volume:
  "cap_sell cap available v s = (s', t) \<Longrightarrow>
     st_volume s' = st_volume s \<and> t \<le> v \<and> (\<forall>c. cap = Some c \<longrightarrow> t \<le> c)"
  by (auto simp: cap_sell_def Let_def split: option.splits if_splits)

text \<open>The sellable volume the sizer reads from a position.\<close>

definition position_available :: "pydict \<Rightarrow> int res" where
  "position_available position = to_int (v_or (vget_or position ''available_volume'' (VInt 0)) (VInt 0))"

lemma size_sell_volume:
  assumes "size_sell position cap s = Inr s'"
  shows "\<exists>a n. position_available position = Inr a \<and> st_volume s' = Some n \<and>
    0 \<le> st_sized s' \<and> st_sized s' \<le> max 0 a \<and> st_sized s' \<le> max 0 n \<and>
    (\<forall>c. cap = Some c \<longrightarrow> st_sized s' \<le> max 0 c) \<and>
    (st_sized s' = a \<or> st_sized s' mod LOT_SIZE = 0)"
proof -
  obtain a where a: "position_available position = Inr a"
    using assms by (auto simp: size_sell_def position_available_def res_simps)
  define v where "v = (if sell_all_asked s then a else the (st_volume s))"
  define s1 where "s1 = (if sell_all_asked s then add_reason ''SELL_ALL_AVAILABLE'' s else s)\<lparr>st_volume := Some v\<rparr>"
  obtain s2 t where c: "cap_sell cap a v s1 = (s2, t)" by fastforce
  have s': "s' = (if normalize_sell_volume t a \<noteq> v then add_reason ''SELL_VOLUME_NORMALIZED_OR_CAPPED'' s2 else s2)
      \<lparr>st_sized := normalize_sell_volume t a\<rparr>"
    using assms a c unfolding size_sell_def position_available_def v_def s1_def
    by (simp add: Let_def)
  have "st_volume s' = Some v" "st_sized s' = normalize_sell_volume t a"
    using cap_sell_volume [OF c] by (simp_all add: s' s1_def)
  with a cap_sell_volume [OF c] normalize_sell_volume_bounds [of t a] show ?thesis by fastforce
qed

text \<open>With positive rates the fee of a buy is a number, so the bisection never raises.\<close>

lemma fround_not_NaN [simp]: "fround x \<noteq> NaN"
  by (simp add: fround_def Let_def)

lemma fmul_positive:
  assumes "flt fzero x" "0 \<le> a"
  shows "fmul (Fin a) x \<noteq> NaN \<or> a = 0" "0 < a \<Longrightarrow> fle fzero (fmul (Fin a) x)"
  using assms by (cases x; auto simp: finf_def intro!: fround_nonneg)+

lemma float_of_int_pos: "0 < n \<Longrightarrow> flt fzero (float_of_int n)"
  using fround_mono [of 1 "of_int n"] by (auto simp: float_of_int_def intro: flt_fle_trans [of _ "Fin 1"])

lemma fee_not_NaN:
  assumes "price = Fin p" "0 < p" "commission_rate c = Fin r" "0 < r"
    "transfer_fee_rate c = Fin q" "0 < q" "minimum_commission c = Fin m"
  shows "estimate_buy_fee_cny price volume c \<noteq> NaN"
proof (cases "0 < volume")
  case True
  define amount where "amount = fmul price (float_of_int volume)"
  have "fle fzero amount"
    using assms(1,2) fmul_positive(2) [OF float_of_int_pos [OF True], of p] by (simp add: amount_def)
  then have nn: "fle fzero (fmul amount (Fin k))" if "0 < k" for k
    using that by (cases amount) (auto simp: finf_def intro!: fround_nonneg)
  have "fadd x y \<noteq> NaN" if "x = Fin m \<or> fle fzero x" "fle fzero y" for x y
    using that by (cases x; cases y) auto
  then show ?thesis
    using assms True nn [of r] nn [of q]
    by (simp add: estimate_buy_fee_cny_def amount_def pmax_def Let_def)
qed (simp add: estimate_buy_fee_cny_def)

section \<open>An intent to test on\<close>

definition sample_intent :: "int \<Rightarrow> pydict \<Rightarrow> TradeIntent" where
  "sample_intent n meta =
     \<lparr>intent_id = ''I1'', intent_instrument_code = ''600000.SH'', intent_bucket = ''core'',
      target_amount = VNone, target_position_pct = VNone, target_volume = Some n,
      intent_metadata = meta\<rparr>"

definition sample_costs :: TradingCostPolicy where
  "sample_costs =
     \<lparr>commission_rate = Fin (1 / 4096), minimum_commission = Fin 5, stamp_tax_rate = Fin (1 / 2048),
      transfer_fee_rate = Fin (1 / 131072)\<rparr>"

lemma sample_buy_draft:
  "\<exists>d. draft_intent [] sample_costs (sample_intent 350 []) BUY (Fin 1) [] [] NoCap VNone = Inr d
     \<and> sized_volume d = 300"
  by (simp add: draft_intent_def checked_sell_cap_def checked_allocation_cap_def sample_intent_def
    intent_volume_def find_raw_target_amount_def account_total_def intent_amount_def intent_pct_def
    volume_amount_def float_of_int_def apply_liquidity_cap_def optional_positive_number_def size_side_def
    size_buy_def buy_target_def normalize_buy_volume_def LOT_SIZE_def cap_t_entry_def is_t_entry_def
    str_or_def lower_def apply_allocation_cap_def zero_reasons_def draft_of_def add_reason_def Let_def)

lemma sample_t_draft:
  "\<exists>d. draft_intent [] sample_costs (sample_intent 500 [(''t_trade_role'', VStr ''entry'')]) BUY (Fin 1) []
        [(''available_volume'', VInt 250)] NoCap VNone = Inr d \<and> sized_volume d = 200"
  by (simp add: draft_intent_def checked_sell_cap_def checked_allocation_cap_def sample_intent_def
    intent_volume_def find_raw_target_amount_def account_total_def intent_amount_def intent_pct_def
    volume_amount_def float_of_int_def apply_liquidity_cap_def optional_positive_number_def size_side_def
    size_buy_def buy_target_def normalize_buy_volume_def LOT_SIZE_def cap_t_entry_def is_t_entry_def
    str_or_def lower_def lower_char_def t_trade_capacity_def apply_allocation_cap_def zero_reasons_def draft_of_def add_reason_def Let_def)

lemma sample_sell_draft:
  "\<exists>d. draft_intent [] sample_costs (sample_intent 500 []) SELL (Fin 1) []
        [(''available_volume'', VInt 1050)] NoCap (VInt 300) = Inr d \<and> sized_volume d = 300"
  by (simp add: draft_intent_def checked_sell_cap_def checked_allocation_cap_def sample_intent_def
    intent_volume_def find_raw_target_amount_def account_total_def intent_amount_def intent_pct_def
    volume_amount_def float_of_int_def apply_liquidity_cap_def optional_positive_number_def size_side_def
    size_sell_def sell_all_asked_def cap_sell_def normalize_sell_volume_def LOT_SIZE_def
    apply_allocation_cap_def zero_reasons_def draft_of_def add_reason_def Let_def)

section \<open>Properties\<close>

text \<open>The volume of a draft before the allocation ceiling is applied.\<close>

lemma draft_intent_stages:
  assumes "draft_intent fresh c i side price account position amount_cap sell_cap = Inr d"
  obtains sc ac s1 s2 s3 where
    "checked_sell_cap sell_cap side = Inr sc" "checked_allocation_cap amount_cap side price = Inr ac"
    "size_side side price position sc s1 = Inr s2" "apply_allocation_cap c price ac s2 = Inr s3"
    "sized_volume d = st_sized s3" "raw_target_volume d = st_volume s3"
proof -
  from assms obtain sc ac s1 s2 s3 where r:
    "checked_sell_cap sell_cap side = Inr sc" "checked_allocation_cap amount_cap side price = Inr ac"
    "size_side side price position sc s1 = Inr s2" "apply_allocation_cap c price ac s2 = Inr s3"
    "draft_of fresh i side price (zero_reasons side price s3) = Inr d"
    unfolding draft_intent_def res_simps by blast
  show ?thesis
    using that [OF r(1-4)] draft_of_volume [OF r(5)] by simp
qed

lemma lots_le: "low \<le> v div LOT_SIZE \<Longrightarrow> low * LOT_SIZE \<le> v"
  using lot_floor [of v] by (simp add: LOT_SIZE_def)

lemma apply_allocation_cap_volume:
  assumes "apply_allocation_cap c price ac s = Inr s'" "0 \<le> st_sized s" "ac \<noteq> None \<longrightarrow> st_sized s mod LOT_SIZE = 0"
  shows "0 \<le> st_sized s' \<and> st_sized s' \<le> st_sized s \<and> st_volume s' = st_volume s \<and>
    (ac \<noteq> None \<longrightarrow> st_sized s' mod LOT_SIZE = 0) \<and> (ac = None \<longrightarrow> st_sized s' = st_sized s)"
proof (cases ac)
  case (Some cap)
  with assms(1) obtain lots where l: "bisect_lots (fits_allocation c price cap) 0 (st_sized s div LOT_SIZE) = Inr lots"
    and s': "st_sized s' = lots * LOT_SIZE" "st_volume s' = st_volume s"
    by (auto simp: apply_allocation_cap_def res_simps Let_def)
  have "0 \<le> st_sized s div LOT_SIZE" using assms(2) by (simp add: LOT_SIZE_def)
  with bisect_lots_spec [OF l] s' show ?thesis
    using lots_le [of lots "st_sized s"] Some by (simp add: LOT_SIZE_def)
qed (use assms in \<open>simp add: apply_allocation_cap_def\<close>)

lemma checked_caps_side:
  "checked_sell_cap sell_cap side = Inr (Some n) \<Longrightarrow> side = SELL \<and> sell_cap = VInt n \<and> 0 \<le> n"
  "checked_allocation_cap cap side price = Inr (Some dv) \<Longrightarrow>
     side = BUY \<and> cap_decimal cap = Some dv \<and> dec_finite dv \<and> 0 \<le> dec_value dv
     \<and> dec_finite (dec_of_float price) \<and> \<not> fle price fzero"
  by (auto simp: checked_sell_cap_def checked_allocation_cap_def split: pyval.splits if_splits option.splits)



text \<open>
  a drafted volume is never negative, never more than the volume that was asked for, never
  more than the sellable position for a sell, and never more than the caller's sell cap.
\<close>

lemma draft_within_request_and_position:
  assumes d: "draft_intent fresh c i side price account position amount_cap sell_cap = Inr d"
  shows "0 \<le> sized_volume d
    \<and> (0 < sized_volume d \<longrightarrow> (\<exists>n. raw_target_volume d = Some n \<and> sized_volume d \<le> n))
    \<and> (side = SELL \<and> 0 < sized_volume d \<longrightarrow>
        (\<exists>a. position_available position = Inr a \<and> sized_volume d \<le> a))
    \<and> (\<forall>n. sell_cap = VInt n \<longrightarrow> sized_volume d \<le> n)"
  using d
proof (cases rule: draft_intent_stages)
  case (1 sc ac s1 s2 s3)
  have cap: "sc = Some n \<and> 0 \<le> n \<and> side = SELL" if "sell_cap = VInt n" for n
    using 1(1) that by (auto simp: checked_sell_cap_def split: if_splits)
  consider (buy) "side = BUY" "size_buy price position s1 = Inr s2"
    | (sell) "side = SELL" "size_sell position sc s1 = Inr s2" | (none) "st_sized s2 = 0"
    using 1(3) by (cases side) (auto simp: size_side_def split: if_splits)
  then show ?thesis
  proof cases
    case buy
    from size_buy_volume [OF buy(2)] apply_allocation_cap_volume [OF 1(4)] buy(1) cap
    show ?thesis by (auto simp: 1(5,6))
  next
    case sell
    then have "ac = None" using 1(2) checked_caps_side(2) [of amount_cap side price] by (cases ac) auto
    with size_sell_volume [OF sell(2)] 1(4) cap sell(1) show ?thesis
      by (fastforce simp: 1(5,6) apply_allocation_cap_def)
  next
    case none
    with apply_allocation_cap_volume [OF 1(4)] cap show ?thesis by (auto simp: 1(5,6))
  qed
qed

lemma to_float_smaller:
  assumes "to_float (VInt n) = Inr x" "0 \<le> m" "m \<le> n"
  shows "\<exists>y. to_float (VInt m) = Inr y"
proof -
  have "fle (float_of_int m) (float_of_int n)" "fle fzero (float_of_int m)"
    using assms(2,3) by (simp_all add: float_of_int_def fround_mono fround_nonneg)
  with assms(1) show ?thesis by (cases "float_of_int m"; cases "float_of_int n") auto
qed

definition positive_rates :: "TradingCostPolicy \<Rightarrow> bool" where
  "positive_rates c \<longleftrightarrow>
     (case (commission_rate c, transfer_fee_rate c, minimum_commission c) of
        (Fin r, Fin q, Fin m) \<Rightarrow> 0 < r \<and> 0 < q
      | _ \<Rightarrow> False)"

lemma fits_allocation_defined:
  assumes "positive_rates c" "dec_finite (dec_of_float price)" "\<not> fle price fzero" "dec_finite cap"
  shows "\<exists>b. fits_allocation c price cap k = Inr b"
proof -
  obtain p where p: "price = Fin p" "0 < p" using assms(2,3) by (cases price) auto
  have "estimate_buy_fee_cny price v c \<noteq> NaN" for v
    using assms(1) p fee_not_NaN [of price p c]
    by (fastforce simp: positive_rates_def split: pyfloat.splits)
  then have "cash_required c price v \<noteq> DNaN" for v
    unfolding cash_required_def using assms(2)
    by (intro dec_add_finite_left) (simp_all add: dec_of_float_NaN_iff)
  with assms(4) show ?thesis by (auto simp: fits_allocation_def intro: dec_le_defined)
qed

lemma draft_of_smaller:
  assumes "draft_of fresh i side price s = Inr d" "0 \<le> st_sized s'" "st_sized s' \<le> st_sized s"
  shows "\<exists>d'. draft_of fresh i side price s' = Inr d'"
  using assms to_float_smaller [of "st_sized s" _ "st_sized s'"] by (auto simp: draft_of_def res_simps)



lemma liquidity_cap_role:
  assumes "apply_liquidity_cap side price s = Inr s'"
  shows "is_t_entry (st_meta s') = is_t_entry (st_meta s)"
proof -
  from assms obtain cap where r: "(case (cap, st_amount s) of
      (Some c, Some a) \<Rightarrow>
        if side = BUY \<and> flt c a then
          rbind (case st_volume s of
                   Some n \<Rightarrow>
                     if n \<noteq> 0 \<and> flt fzero price
                     then rbind (int_of_float (ffloordiv c price)) (\<lambda>m. Inr (Some (min n m)))
                     else Inr None
                 | None \<Rightarrow> Inr None) (\<lambda>vol.
            Inr (add_reason ''LIQUIDITY_PARTICIPATION_CAP''
              (s\<lparr>st_meta := dset ''uncapped_target_amount'' (VFloat a) (st_meta s),
                 st_amount := Some c, st_volume := vol\<rparr>)))
        else Inr s
    | _ \<Rightarrow> Inr s) = Inr s'"
    unfolding apply_liquidity_cap_def res_simps by blast
  then have "s' = s \<or> (\<exists>x. st_meta s' = dset ''uncapped_target_amount'' x (st_meta s))"
    by (cases cap; cases "st_amount s") (auto simp: rbind_Inr_iff split: if_split_asm)
  then show ?thesis by (auto simp: is_t_entry_def)
qed

text \<open>
  a buy that opens a T trade is never larger than the old shares that can be sold against
  it under T+1.
\<close>

lemma t_entry_within_old_inventory:
  assumes d: "draft_intent fresh c i BUY price account position cap VNone = Inr d"
    and t: "is_t_entry (intent_metadata i)" and p: "\<not> fle price fzero"
    and k: "t_trade_capacity position = Inr capacity"
  shows "sized_volume d \<le> capacity"
proof -
  from d obtain ac v a s1 s2 s3 where s:
    "apply_liquidity_cap BUY price \<lparr>st_amount = a, st_volume = v, st_reasons = [],
       st_meta = intent_metadata i, st_sized = 0\<rparr> = Inr s1"
    "size_side BUY price position None s1 = Inr s2"
    "apply_allocation_cap c price ac s2 = Inr s3" "draft_of fresh i BUY price (zero_reasons BUY price s3) = Inr d"
    by (auto simp: draft_intent_def res_simps checked_sell_cap_def)
  from s(2) p have b: "size_buy price position s1 = Inr s2" by (simp add: size_side_def)
  have "is_t_entry (st_meta s1)" using liquidity_cap_role [OF s(1)] t by simp
  then have "st_sized s2 \<le> normalize_buy_volume capacity"
    using b k by (auto simp: size_buy_def cap_t_entry_def res_simps Let_def split: if_splits)
  moreover have "0 \<le> capacity" using k by (auto simp: t_trade_capacity_def res_simps)
  moreover have "st_sized s3 \<le> st_sized s2"
    using apply_allocation_cap_volume [OF s(3)] size_buy_volume [OF b] by simp
  ultimately show ?thesis
    using draft_of_volume [OF s(4)] normalize_buy_volume_bounds [of capacity] by simp
qed

end
