(* ===== verification/Py_Json.thy ===== *)
theory Py_Json
  imports Py_Value "HOL-Library.Word" "HOL-Library.Multiset"
begin

text \<open>
  Canonical JSON texts and SHA-256 as the standard library computes them: \<open>json.dumps\<close> with sorted
  keys and no spaces, what \<open>json.loads\<close> reads back from it, and \<open>hashlib.sha256\<close> on 32-bit words.
  The facts say that the text does not depend on the order of the keys of an object.
\<close>

unbundle bit_operations_syntax

section \<open>Canonical JSON\<close>

text \<open>\<open>json.dumps(value, ensure_ascii=False, sort_keys=True, separators=(",", ":"), allow_nan=False)\<close>\<close>

definition json_char :: "char \<Rightarrow> string" where
  "json_char c =
     (let n = of_char c :: nat; bs = char_of (92 :: nat)
      in if n = 34 \<or> n = 92 then [bs, c]
         else if n = 10 then [bs, CHR ''n'']
         else if n = 13 then [bs, CHR ''r'']
         else if n = 9 then [bs, CHR ''t'']
         else if n = 8 then [bs, CHR ''b'']
         else if n = 12 then [bs, CHR ''f'']
         else if n < 32 then [bs, CHR ''u'', CHR ''0'', CHR ''0'', hex_digit (n div 16), hex_digit (n mod 16)]
         else [c])"

definition json_string :: "string \<Rightarrow> string" where
  "json_string s = [char_of (34 :: nat)] @ concat (map json_char s) @ [char_of (34 :: nat)]"

fun json_join :: "string list \<Rightarrow> string" where
  "json_join [] = []"
| "json_join [x] = x"
| "json_join (x # xs) = x @ '','' @ json_join xs"

definition json_item :: "string \<times> string \<Rightarrow> string" where
  "json_item p = json_string (fst p) @ '':'' @ snd p"

text \<open>\<open>None\<close> is the \<open>ValueError\<close> for a float that is not finite.\<close>

fun json_text :: "pyval \<Rightarrow> string option" where
  "json_text VNone = Some ''null''"
| "json_text (VBool b) = Some (if b then ''true'' else ''false'')"
| "json_text (VInt n) = Some (string_of_int n)"
| "json_text (VFloat x) = (case x of Fin r \<Rightarrow> Some (repr_float x) | _ \<Rightarrow> None)"
| "json_text (VStr s) = Some (json_string s)"
| "json_text (VList xs) =
     map_option (\<lambda>ts. ''['' @ json_join ts @ '']'') (those (map json_text xs))"
| "json_text (VDict d) =
     map_option (\<lambda>ps. ''{'' @ json_join (map json_item (sort_key fst ps)) @ ''}'')
       (those (map (\<lambda>p. map_option (Pair (fst p)) (json_text (snd p))) d))"

text \<open>
  What \<open>json.loads\<close> reads back from such a text: the value with the keys of every object sorted.
  The text of a finite float reads back as that float.
\<close>

fun json_norm :: "pyval \<Rightarrow> pyval" where
  "json_norm (VList xs) = VList (map json_norm xs)"
| "json_norm (VDict d) = VDict (sort_key fst (map (\<lambda>p. (fst p, json_norm (snd p))) d))"
| "json_norm v = v"

section \<open>SHA-256\<close>

definition sha_round_constants :: "32 word list" where
  "sha_round_constants =
     [1116352408, 1899447441, 3049323471, 3921009573,
      961987163, 1508970993, 2453635748, 2870763221,
      3624381080, 310598401, 607225278, 1426881987,
      1925078388, 2162078206, 2614888103, 3248222580,
      3835390401, 4022224774, 264347078, 604807628,
      770255983, 1249150122, 1555081692, 1996064986,
      2554220882, 2821834349, 2952996808, 3210313671,
      3336571891, 3584528711, 113926993, 338241895,
      666307205, 773529912, 1294757372, 1396182291,
      1695183700, 1986661051, 2177026350, 2456956037,
      2730485921, 2820302411, 3259730800, 3345764771,
      3516065817, 3600352804, 4094571909, 275423344,
      430227734, 506948616, 659060556, 883997877,
      958139571, 1322822218, 1537002063, 1747873779,
      1955562222, 2024104815, 2227730452, 2361852424,
      2428436474, 2756734187, 3204031479, 3329325298]"

definition sha_initial :: "32 word list" where
  "sha_initial =
     [1779033703, 3144134277, 1013904242, 2773480762,
      1359893119, 2600822924, 528734635, 1541459225]"

definition sha_rotr :: "nat \<Rightarrow> 32 word \<Rightarrow> 32 word" where
  "sha_rotr n x = drop_bit n x OR push_bit (32 - n) x"

text \<open>Bytes of the padded message, and words from bytes.\<close>

definition be_bytes :: "nat \<Rightarrow> nat \<Rightarrow> nat list" where
  "be_bytes n x = map (\<lambda>i. (x div 256 ^ i) mod 256) (rev [0..<n])"

definition sha_pad :: "nat list \<Rightarrow> nat list" where
  "sha_pad bs =
     bs @ [128] @ replicate ((119 - length bs mod 64) mod 64) 0 @ be_bytes 8 (8 * length bs)"

fun be_words :: "nat list \<Rightarrow> 32 word list" where
  "be_words (a # b # c # d # bs) =
     of_nat (((a * 256 + b) * 256 + c) * 256 + d) # be_words bs"
| "be_words _ = []"

text \<open>The message schedule, newest word first, and one round on the eight working variables.\<close>

definition sha_extend :: "32 word list \<Rightarrow> 32 word list" where
  "sha_extend ws =
     (let w15 = ws ! 14; w2 = ws ! 1;
          s0 = sha_rotr 7 w15 XOR sha_rotr 18 w15 XOR drop_bit 3 w15;
          s1 = sha_rotr 17 w2 XOR sha_rotr 19 w2 XOR drop_bit 10 w2
      in (ws ! 15 + s0 + ws ! 6 + s1) # ws)"

definition sha_schedule :: "32 word list \<Rightarrow> 32 word list" where
  "sha_schedule block = rev ((sha_extend ^^ 48) (rev block))"

type_synonym sha_state =
  "32 word \<times> 32 word \<times> 32 word \<times> 32 word \<times> 32 word \<times> 32 word \<times> 32 word \<times> 32 word"

fun sha_round :: "32 word \<times> 32 word \<Rightarrow> sha_state \<Rightarrow> sha_state" where
  "sha_round (k, w) (a, b, c, d, e, f, g, h) =
     (let s1 = sha_rotr 6 e XOR sha_rotr 11 e XOR sha_rotr 25 e;
          ch = (e AND f) XOR (NOT e AND g);
          t1 = h + s1 + ch + k + w;
          s0 = sha_rotr 2 a XOR sha_rotr 13 a XOR sha_rotr 22 a;
          maj = (a AND b) XOR (a AND c) XOR (b AND c);
          t2 = s0 + maj
      in (t1 + t2, a, b, c, d + t1, e, f, g))"

fun sha_list :: "sha_state \<Rightarrow> 32 word list" where
  "sha_list (a, b, c, d, e, f, g, h) = [a, b, c, d, e, f, g, h]"

definition sha_block :: "32 word list \<Rightarrow> 32 word list \<Rightarrow> 32 word list" where
  "sha_block hs block =
     (let start = (hs ! 0, hs ! 1, hs ! 2, hs ! 3, hs ! 4, hs ! 5, hs ! 6, hs ! 7)
      in map2 (+) hs (sha_list (fold sha_round (zip sha_round_constants (sha_schedule block)) start)))"

function sha_blocks :: "32 word list \<Rightarrow> 32 word list \<Rightarrow> 32 word list" where
  "sha_blocks hs ws = (if ws = [] then hs else sha_blocks (sha_block hs (take 16 ws)) (drop 16 ws))"
  by pat_completeness auto
termination
  by (relation "measure (\<lambda>(_, ws). length ws)") auto

declare sha_blocks.simps [simp del]

definition hex_byte :: "nat \<Rightarrow> string" where
  "hex_byte n = [hex_digit (n div 16), hex_digit (n mod 16)]"

text \<open>\<open>hashlib.sha256(text.encode("utf-8")).hexdigest()\<close> on an ASCII text.\<close>

definition sha256_hex :: "string \<Rightarrow> string" where
  "sha256_hex s =
     concat (map (\<lambda>w. concat (map hex_byte (be_bytes 4 (unat w))))
       (sha_blocks sha_initial (be_words (sha_pad (map of_char s)))))"

section \<open>The canonical form\<close>

lemma sort_key_map_keys: "(\<And>x. key' (g x) = key x) \<Longrightarrow> sort_key key' (map g xs) = map g (sort_key key xs)"
proof (induction xs)
  case (Cons x xs)
  have "insort_key key' (g x) (map g ys) = map g (insort_key key x ys)" for ys
    using Cons.prems by (induction ys) simp_all
  with Cons show ?case by simp
qed simp

lemma those_map_Some: "those (map (\<lambda>x. Some (g x)) xs) = Some (map g xs)"
  by (induction xs) simp_all

lemma those_None: "those xs = None \<longleftrightarrow> None \<in> set xs"
  by (induction xs) (auto split: option.split)

text \<open>Sorting commutes with converting every value of an object.\<close>

lemma those_sort_key:
  fixes d :: "('k::linorder \<times> 'v) list" and f :: "'v \<Rightarrow> 'w option"
  shows "those (map (\<lambda>p. map_option (Pair (fst p)) (f (snd p))) (sort_key fst d)) =
     map_option (sort_key fst) (those (map (\<lambda>p. map_option (Pair (fst p)) (f (snd p))) d))"
proof (cases "\<exists>p\<in>set d. f (snd p) = None")
  case True
  then have "None \<in> set (map (\<lambda>p. map_option (Pair (fst p)) (f (snd p))) ds)" if "set ds = set d" for ds
    using that by force
  then show ?thesis by (simp add: those_None [THEN iffD2])
next
  case False
  define g :: "'k \<times> 'v \<Rightarrow> 'k \<times> 'w" where "g p = (fst p, the (f (snd p)))" for p
  have "map (\<lambda>p. map_option (Pair (fst p)) (f (snd p))) ds = map (\<lambda>p. Some (g p)) ds"
    if "set ds = set d" for ds
    using False that by (auto simp: g_def)
  then have "map (\<lambda>p. map_option (Pair (fst p)) (f (snd p))) (sort_key fst d) = map (\<lambda>p. Some (g p)) (sort_key fst d)"
    "map (\<lambda>p. map_option (Pair (fst p)) (f (snd p))) d = map (\<lambda>p. Some (g p)) d"
    by simp_all
  moreover have "sort_key fst (map g d) = map g (sort_key fst d)"
    by (rule sort_key_map_keys) (simp add: g_def)
  ultimately show ?thesis by (simp only: those_map_Some option.map)
qed

lemma sort_key_idem [simp]: "sort_key fst (sort_key fst d) = sort_key fst d"
  by (simp add: sort_key_id_if_sorted)

lemma json_text_norm [simp]: "json_text (json_norm v) = json_text v"
proof (induction v rule: json_norm.induct)
  case (1 xs)
  then have "map json_text (map json_norm xs) = map json_text xs" by simp
  then show ?case by (simp del: map_map)
next
  case (2 d)
  have "map (\<lambda>p. map_option (Pair (fst p)) (json_text (snd p))) (map (\<lambda>p. (fst p, json_norm (snd p))) d) =
      map (\<lambda>p. map_option (Pair (fst p)) (json_text (snd p))) d"
    using 2 by auto
  then show ?case
    by (simp add: those_sort_key option.map_comp comp_def del: map_map)
qed simp_all

text \<open>An object is written the same way whatever the order of its keys.\<close>

lemma json_text_order:
  assumes "mset d = mset e" "distinct (dkeys d)"
  shows "json_text (VDict d) = json_text (VDict e)"
proof -
  have "sort_key fst d = sort_key fst e"
    using assms by (intro sort_key_eq_sort_key) (auto simp: dkeys_def distinct_map)
  then have "map_option (sort_key fst) (those (map (\<lambda>p. map_option (Pair (fst p)) (json_text (snd p))) d))
      = map_option (sort_key fst) (those (map (\<lambda>p. map_option (Pair (fst p)) (json_text (snd p))) e))"
    by (simp flip: those_sort_key)
  then have "map_option (\<lambda>ps. F (sort_key fst ps)) (those (map (\<lambda>p. map_option (Pair (fst p)) (json_text (snd p))) d))
      = map_option (\<lambda>ps. F (sort_key fst ps)) (those (map (\<lambda>p. map_option (Pair (fst p)) (json_text (snd p))) e))"
    for F :: "(string \<times> string) list \<Rightarrow> string"
    by (cases "those (map (\<lambda>p. map_option (Pair (fst p)) (json_text (snd p))) d)";
        cases "those (map (\<lambda>p. map_option (Pair (fst p)) (json_text (snd p))) e)") auto
  then show ?thesis by simp
qed

lemma json_text_values:
  assumes "map (\<lambda>p. (fst p, json_text (snd p))) d = map (\<lambda>p. (fst p, json_text (snd p))) e"
  shows "json_text (VDict d) = json_text (VDict e)"
proof -
  have "map (\<lambda>q. map_option (Pair (fst q)) (snd q)) (map (\<lambda>p. (fst p, json_text (snd p))) d)
      = map (\<lambda>q. map_option (Pair (fst q)) (snd q)) (map (\<lambda>p. (fst p, json_text (snd p))) e)"
    using assms by simp
  then show ?thesis by (simp add: comp_def)
qed

lemma json_norm_idem [simp]: "json_norm (json_norm v) = json_norm v"
proof (induction v rule: json_norm.induct)
  case (2 d)
  let ?n = "\<lambda>p. (fst p, json_norm (snd p))"
  have "map ?n (map ?n d) = map ?n d" using 2 by auto
  then have "sort_key fst (map ?n (sort_key fst (map ?n d))) = sort_key fst (map ?n d)"
    by (simp add: sort_key_map_keys [of fst ?n fst, symmetric] del: map_map)
  then show ?case by (simp del: map_map)
qed simp_all

end
