(* ===== verification/T_Assistant.thy ===== *)
theory T_Assistant
  imports Py_Json
begin

text \<open>
  The T assistant's lifecycle values (\<open>trading/t_assistant_execution.py\<close>): configuration versions
  with the hash of their canonical material, model bindings, the readiness projection, the
  execution with its status machine, and execution events. A dataclass is a record and its
  \<open>__post_init__\<close> a \<open>make_\<close> function; \<open>dataclasses.replace\<close> runs it again. Enumeration arguments are
  members of the enumeration. A time is a number and whether it carries a time zone.
\<close>

section \<open>Enumerations\<close>

datatype TAssistantEntryAuthorization = MANUAL_CONFIRM | AUTO
datatype TAssistantRolloutStage = CANARY | STANDARD
datatype TAssistantScorerMode = RULE_ONLY | SHADOW | SCORER_ACTIVE
datatype ExecutionEnvironment = PAPER | LIVE | BACKTEST

datatype TAssistantExecutionStatus =
  CREATED | WARMING | RUNNING | DRAINING | STOPPED | FAILED | RECONCILE_REQUIRED

datatype TAssistantEntryReadiness =
    BLOCKED | READINESS_WARMING | READY | DEGRADED | READINESS_DRAINING | READINESS_RECONCILE_REQUIRED

datatype TDecisionCycleStatus = PREPARED | PROPOSALS_COMMITTED | ABORTED_STALE | ABORTED

fun TAssistantEntryAuthorization_value :: "TAssistantEntryAuthorization \<Rightarrow> string" where
  "TAssistantEntryAuthorization_value MANUAL_CONFIRM = ''MANUAL_CONFIRM''"
| "TAssistantEntryAuthorization_value AUTO = ''AUTO''"

fun TAssistantRolloutStage_value :: "TAssistantRolloutStage \<Rightarrow> string" where
  "TAssistantRolloutStage_value CANARY = ''CANARY''"
| "TAssistantRolloutStage_value STANDARD = ''STANDARD''"

fun TAssistantScorerMode_value :: "TAssistantScorerMode \<Rightarrow> string" where
  "TAssistantScorerMode_value RULE_ONLY = ''RULE_ONLY''"
| "TAssistantScorerMode_value SHADOW = ''SHADOW''"
| "TAssistantScorerMode_value SCORER_ACTIVE = ''ACTIVE''"

fun status_terminal :: "TAssistantExecutionStatus \<Rightarrow> bool" where
  "status_terminal s = (s = STOPPED \<or> s = FAILED)"

fun cycle_terminal :: "TDecisionCycleStatus \<Rightarrow> bool" where
  "cycle_terminal s = (s \<noteq> PREPARED)"

fun ALLOWED_TRANSITIONS :: "TAssistantExecutionStatus \<Rightarrow> TAssistantExecutionStatus list" where
  "ALLOWED_TRANSITIONS CREATED = [WARMING, DRAINING, FAILED, RECONCILE_REQUIRED]"
| "ALLOWED_TRANSITIONS WARMING = [RUNNING, DRAINING, FAILED, RECONCILE_REQUIRED]"
| "ALLOWED_TRANSITIONS RUNNING = [DRAINING, FAILED, RECONCILE_REQUIRED]"
| "ALLOWED_TRANSITIONS DRAINING = [STOPPED, FAILED, RECONCILE_REQUIRED]"
| "ALLOWED_TRANSITIONS RECONCILE_REQUIRED = [DRAINING, FAILED]"
| "ALLOWED_TRANSITIONS STOPPED = []"
| "ALLOWED_TRANSITIONS FAILED = []"

section \<open>Canonical payloads and their hash\<close>

definition canonical_json_payload :: "pydict \<Rightarrow> string res" where
  "canonical_json_payload d =
     (case json_text (VDict d) of
        None \<Rightarrow> Inl (ValueError ''canonical payload must contain finite JSON values'')
      | Some t \<Rightarrow> Inr t)"

definition stable_manifest_hash :: "pydict \<Rightarrow> string res" where
  "stable_manifest_hash d = rbind (canonical_json_payload d) (\<lambda>t. Inr (sha256_hex t))"

text \<open>\<open>json.loads\<close> of the canonical text.\<close>

definition canonical_value :: "pydict \<Rightarrow> pydict" where
  "canonical_value d = (case json_norm (VDict d) of VDict e \<Rightarrow> e | _ \<Rightarrow> [])"

section \<open>Model bindings\<close>

definition BINDING_FIELDS :: "string list" where
  "BINDING_FIELDS =
     [''model_id'', ''model_version'', ''registry_stage'', ''registry_authorization_revision'',
      ''artifact_manifest_sha256'', ''feature_schema_version'', ''label_spec_version'',
      ''calibration_version'', ''portfolio_policy_compatibility_hash'',
      ''runtime_self_test_manifest_hash'', ''self_test_tolerance_policy_version'', ''binding_hash'']"

text \<open>A binding is kept as the dictionary of its fields, in their order.\<close>

fun positive_int_value :: "pyval \<Rightarrow> bool" where
  "positive_int_value (VInt n) = (1 \<le> n)"
| "positive_int_value _ = False"

fun name_value :: "nat \<Rightarrow> pyval \<Rightarrow> bool" where
  "name_value limit (VStr s) = (strip s \<noteq> [] \<and> s = strip s \<and> length s \<le> limit)"
| "name_value limit _ = False"

fun hash_value :: "pyval \<Rightarrow> bool" where
  "hash_value (VStr s) = (length s = 64 \<and> list_all (\<lambda>c. c \<in> set ''0123456789abcdef'') s)"
| "hash_value _ = False"

definition binding_fields_ok :: "pydict \<Rightarrow> bool" where
  "binding_fields_ok d \<longleftrightarrow>
     vget d ''registry_stage'' \<in> {VStr ''SHADOW'', VStr ''ACTIVE''} \<and>
     positive_int_value (vget d ''registry_authorization_revision'') \<and>
     positive_int_value (vget d ''feature_schema_version'') \<and>
     name_value 80 (vget d ''model_id'') \<and> name_value 80 (vget d ''model_version'') \<and>
     name_value 128 (vget d ''label_spec_version'') \<and> name_value 128 (vget d ''calibration_version'') \<and>
     name_value 128 (vget d ''self_test_tolerance_policy_version'') \<and>
     hash_value (vget d ''artifact_manifest_sha256'') \<and>
     hash_value (vget d ''portfolio_policy_compatibility_hash'') \<and>
     hash_value (vget d ''runtime_self_test_manifest_hash'') \<and> hash_value (vget d ''binding_hash'')"

definition select_fields :: "string list \<Rightarrow> pydict \<Rightarrow> pydict" where
  "select_fields names d = map (\<lambda>n. (n, vget d n)) names"

definition make_binding :: "pydict \<Rightarrow> pydict res" where
  "make_binding d =
     (if \<not> binding_fields_ok d then Inl (ValueError ''T_MODEL_BINDING_INVALID'')
      else rbind (stable_manifest_hash (select_fields (butlast BINDING_FIELDS) d)) (\<lambda>h.
        if VStr h \<noteq> vget d ''binding_hash'' then Inl (ValueError ''T_MODEL_BINDING_HASH_MISMATCH'')
        else Inr (select_fields BINDING_FIELDS d)))"

definition same_keys :: "pydict \<Rightarrow> string list \<Rightarrow> bool" where
  "same_keys d names \<longleftrightarrow> list_all (\<lambda>k. k \<in> set names) (dkeys d) \<and> list_all (dmem d) names"

definition binding_create :: "pydict \<Rightarrow> pydict res" where
  "binding_create material =
     (if \<not> same_keys material (butlast BINDING_FIELDS)
      then Inl (ValueError ''T_MODEL_BINDING_FIELDS_INVALID'')
      else rbind (stable_manifest_hash material) (\<lambda>h. make_binding (dset ''binding_hash'' (VStr h) material)))"

definition binding_from_mapping :: "pydict \<Rightarrow> pydict res" where
  "binding_from_mapping d =
     (if \<not> same_keys d BINDING_FIELDS then Inl (ValueError ''T_MODEL_BINDING_FIELDS_INVALID'')
      else make_binding d)"

definition validated_model_binding ::
  "TAssistantScorerMode \<Rightarrow> int \<Rightarrow> pydict option \<Rightarrow> pydict option res" where
  "validated_model_binding mode feature_schema binding =
     (if mode = RULE_ONLY then
        (if binding \<noteq> None then Inl (ValueError ''RULE_ONLY T-assistant config cannot bind a model'')
         else Inr None)
      else case binding of
        None \<Rightarrow> Inl (ValueError ''SHADOW/ACTIVE T-assistant config requires a model binding'')
      | Some b \<Rightarrow>
          rbind (binding_from_mapping b) (\<lambda>parsed.
            if vget parsed ''registry_stage'' \<noteq> VStr (TAssistantScorerMode_value mode)
               \<or> vget parsed ''feature_schema_version'' \<noteq> VInt feature_schema
            then Inl (ValueError ''T_MODEL_BINDING_EXECUTION_MISMATCH'')
            else Inr (Some parsed)))"

section \<open>Configuration versions\<close>

record TAssistantConfigVersion =
  config_version_id :: string
  config_id :: string
  cfg_version :: int
  config_schema_version :: string
  canonical_payload :: pydict
  config_snapshot_hash :: string
  cfg_entry_authorization :: TAssistantEntryAuthorization
  cfg_rollout_stage :: TAssistantRolloutStage
  cfg_policy_version :: string
  cfg_feature_schema_version :: int
  cfg_scorer_mode :: TAssistantScorerMode
  cfg_model_runtime_binding :: "pydict option"

definition config_snapshot_material :: "TAssistantConfigVersion \<Rightarrow> pydict" where
  "config_snapshot_material c =
     [(''config_schema_version'', VStr (config_schema_version c)),
      (''canonical_payload'', VDict (canonical_payload c)),
      (''entry_authorization'', VStr (TAssistantEntryAuthorization_value (cfg_entry_authorization c))),
      (''rollout_stage'', VStr (TAssistantRolloutStage_value (cfg_rollout_stage c))),
      (''policy_version'', VStr (cfg_policy_version c)),
      (''feature_schema_version'', VInt (cfg_feature_schema_version c)),
      (''scorer_mode'', VStr (TAssistantScorerMode_value (cfg_scorer_mode c))),
      (''model_runtime_binding'',
         (case cfg_model_runtime_binding c of None \<Rightarrow> VNone | Some b \<Rightarrow> VDict b))]"

definition make_config_version :: "TAssistantConfigVersion \<Rightarrow> TAssistantConfigVersion res" where
  "make_config_version c =
     (if config_version_id c = [] \<or> config_id c = []
      then Inl (ValueError ''T-assistant config version requires stable ids'')
      else if cfg_version c < 1 \<or> cfg_feature_schema_version c < 1
      then Inl (ValueError ''T-assistant config/feature versions must be positive'')
      else if config_schema_version c = [] \<or> cfg_policy_version c = []
      then Inl (ValueError ''T-assistant config and policy versions are required'')
      else rbind (canonical_json_payload (canonical_payload c)) (\<lambda>_.
           rbind (validated_model_binding (cfg_scorer_mode c) (cfg_feature_schema_version c)
                    (cfg_model_runtime_binding c)) (\<lambda>b.
             let c1 = c\<lparr>canonical_payload := canonical_value (canonical_payload c),
                         cfg_model_runtime_binding := b\<rparr>
             in rbind (stable_manifest_hash (config_snapshot_material c1)) (\<lambda>h.
                  if config_snapshot_hash c \<noteq> h
                  then Inl (ValueError ''T-assistant config snapshot hash mismatch'')
                  else Inr c1))))"

text \<open>\<open>create\<close> fills in the hash of the arguments; \<open>c\<close> holds them.\<close>

definition create_config_version :: "TAssistantConfigVersion \<Rightarrow> TAssistantConfigVersion res" where
  "create_config_version c =
     rbind (stable_manifest_hash (config_snapshot_material c)) (\<lambda>h.
       make_config_version (c\<lparr>config_snapshot_hash := h\<rparr>))"

section \<open>Readiness\<close>

text \<open>A time stamp, and whether it carries a time zone.\<close>

record stamp =
  stamp_us :: int
  stamp_aware :: bool

record TAssistantEntryReadinessProjection =
  readiness :: TAssistantEntryReadiness
  reasons :: "string list"
  as_of :: stamp

text \<open>\<open>dict.fromkeys\<close> keeps the first of equal items.\<close>

fun first_occurrences :: "string list \<Rightarrow> string list" where
  "first_occurrences [] = []"
| "first_occurrences (x # xs) = x # filter (\<lambda>y. y \<noteq> x) (first_occurrences xs)"

definition make_projection ::
  "TAssistantEntryReadiness \<Rightarrow> string list \<Rightarrow> stamp \<Rightarrow> TAssistantEntryReadinessProjection res" where
  "make_projection r items now =
     (let rs = first_occurrences (filter (\<lambda>s. s \<noteq> []) (map strip items))
      in if r = READY \<and> rs \<noteq> []
         then Inl (ValueError ''READY T-assistant execution cannot carry blockers'')
         else if r \<noteq> READY \<and> rs = []
         then Inl (ValueError ''non-READY T-assistant execution requires a reason'')
         else if \<not> stamp_aware now
         then Inl (ValueError ''T-assistant readiness as_of must be timezone-aware'')
         else Inr \<lparr>readiness = r, reasons = rs, as_of = now\<rparr>)"

section \<open>Executions\<close>

record TAssistantExecution =
  execution_id :: string
  ex_config_id :: string
  ex_config_version_id :: string
  frozen_config_version :: int
  ex_config_snapshot_hash :: string
  ex_account_id :: string
  environment :: ExecutionEnvironment
  entry_authorization :: TAssistantEntryAuthorization
  rollout_stage :: TAssistantRolloutStage
  ex_status :: TAssistantExecutionStatus
  ex_readiness :: TAssistantEntryReadinessProjection
  policy_version :: string
  feature_schema_version :: int
  scorer_mode :: TAssistantScorerMode
  universe_revision :: int
  last_assigned_cycle_sequence :: int
  last_committed_cycle_sequence :: int
  checkpoint_revision :: int
  state_version :: int
  model_runtime_binding :: "pydict option"
  started_at :: "stamp option"
  drain_requested_at :: "stamp option"
  completed_at :: "stamp option"

fun expected_readiness :: "TAssistantExecutionStatus \<Rightarrow> TAssistantEntryReadiness option" where
  "expected_readiness DRAINING = Some READINESS_DRAINING"
| "expected_readiness RECONCILE_REQUIRED = Some READINESS_RECONCILE_REQUIRED"
| "expected_readiness STOPPED = Some BLOCKED"
| "expected_readiness FAILED = Some BLOCKED"
| "expected_readiness _ = None"

text \<open>The checks after the model binding, in their order: the message of the first that fails.\<close>

definition execution_error :: "TAssistantExecution \<Rightarrow> string option" where
  "execution_error x =
     (if frozen_config_version x < 1 \<or> feature_schema_version x < 1
      then Some ''T-assistant frozen versions must be positive''
      else if state_version x < 1 then Some ''T-assistant state_version must be positive''
      else if min (min (universe_revision x) (last_assigned_cycle_sequence x))
                (min (last_committed_cycle_sequence x) (checkpoint_revision x)) < 0
      then Some ''T-assistant revisions must be non-negative''
      else if last_assigned_cycle_sequence x < last_committed_cycle_sequence x
      then Some ''committed cycle sequence cannot exceed assigned sequence''
      else if ex_status x = RUNNING \<and> started_at x = None
      then Some ''RUNNING T-assistant execution requires started_at''
      else if ex_status x = RUNNING \<and> readiness (ex_readiness x) \<notin> {READY, DEGRADED}
      then Some ''T_ASSISTANT_EXECUTION_READINESS_MISMATCH''
      else if (case expected_readiness (ex_status x) of
                 None \<Rightarrow> False | Some r \<Rightarrow> readiness (ex_readiness x) \<noteq> r)
      then Some ''T_ASSISTANT_EXECUTION_READINESS_MISMATCH''
      else if ex_status x = DRAINING \<and> drain_requested_at x = None
      then Some ''DRAINING T-assistant execution requires drain_requested_at''
      else if status_terminal (ex_status x) \<and> completed_at x = None
      then Some ''terminal T-assistant execution requires completed_at''
      else if environment x = BACKTEST \<and> entry_authorization x = AUTO
      then Some ''BACKTEST T-assistant execution cannot carry AUTO authorization''
      else None)"

text \<open>The constructor, and \<open>replace\<close>, which runs its checks again.\<close>

definition make_execution :: "TAssistantExecution \<Rightarrow> TAssistantExecution res" where
  "make_execution x =
     (if execution_id x = [] \<or> ex_config_id x = [] \<or> ex_config_version_id x = []
      then Inl (ValueError ''T-assistant execution requires stable ids'')
      else if ex_account_id x = [] \<or> policy_version x = []
      then Inl (ValueError ''T-assistant execution requires account and policy'')
      else rbind (validated_model_binding (scorer_mode x) (feature_schema_version x)
                    (model_runtime_binding x)) (\<lambda>b.
             case execution_error x of
               Some e \<Rightarrow> Inl (ValueError e)
             | None \<Rightarrow> Inr (x\<lparr>model_runtime_binding := b\<rparr>)))"

definition can_produce_entry :: "TAssistantExecution \<Rightarrow> bool" where
  "can_produce_entry x \<longleftrightarrow> ex_status x = RUNNING \<and> readiness (ex_readiness x) = READY"

definition or_stamp :: "stamp option \<Rightarrow> stamp \<Rightarrow> stamp option" where
  "or_stamp a b = (case a of None \<Rightarrow> Some b | Some x \<Rightarrow> Some x)"

fun TAssistantExecutionStatus_value :: "TAssistantExecutionStatus \<Rightarrow> string" where
  "TAssistantExecutionStatus_value CREATED = ''CREATED''"
| "TAssistantExecutionStatus_value WARMING = ''WARMING''"
| "TAssistantExecutionStatus_value RUNNING = ''RUNNING''"
| "TAssistantExecutionStatus_value DRAINING = ''DRAINING''"
| "TAssistantExecutionStatus_value STOPPED = ''STOPPED''"
| "TAssistantExecutionStatus_value FAILED = ''FAILED''"
| "TAssistantExecutionStatus_value RECONCILE_REQUIRED = ''RECONCILE_REQUIRED''"

text \<open>The readiness a transition writes, with its reason; \<open>None\<close> keeps the one there is.\<close>

definition transition_readiness ::
  "TAssistantExecutionStatus \<Rightarrow> (TAssistantEntryReadiness \<times> string) option" where
  "transition_readiness target =
     (if target = DRAINING then Some (READINESS_DRAINING, ''T_ASSISTANT_EXECUTION_DRAINING'')
      else if target = RECONCILE_REQUIRED
      then Some (READINESS_RECONCILE_REQUIRED, ''T_ASSISTANT_BUY_RECONCILE_REQUIRED'')
      else if status_terminal target
      then Some (BLOCKED, ''T_ASSISTANT_EXECUTION_'' @ TAssistantExecutionStatus_value target)
      else None)"

definition transition ::
  "TAssistantExecution \<Rightarrow> TAssistantExecutionStatus \<Rightarrow> stamp \<Rightarrow> bool \<Rightarrow> TAssistantExecution res" where
  "transition x target now has_unsettled_buy_work =
     (if \<not> stamp_aware now then Inl (ValueError ''T-assistant transition time must be timezone-aware'')
      else if target \<notin> set (ALLOWED_TRANSITIONS (ex_status x))
      then Inl (ValueError ''T_ASSISTANT_EXECUTION_TRANSITION_INVALID'')
      else if target = RUNNING \<and> readiness (ex_readiness x) \<noteq> READY
      then Inl (ValueError ''T_ASSISTANT_ENTRY_NOT_READY'')
      else if status_terminal target \<and> has_unsettled_buy_work
      then Inl (ValueError ''T_ASSISTANT_BUY_RECONCILE_REQUIRED'')
      else rbind (case transition_readiness target of
                    None \<Rightarrow> Inr (ex_readiness x)
                  | Some (r, why) \<Rightarrow> make_projection r [why] now) (\<lambda>p.
             make_execution (x\<lparr>ex_status := target, state_version := state_version x + 1,
               started_at := (if target = RUNNING then or_stamp (started_at x) now else started_at x),
               drain_requested_at :=
                 (if target = DRAINING then or_stamp (drain_requested_at x) now else drain_requested_at x),
               completed_at := (if status_terminal target then Some now else completed_at x),
               ex_readiness := p\<rparr>)))"

definition with_readiness ::
  "TAssistantExecution \<Rightarrow> TAssistantEntryReadinessProjection \<Rightarrow> TAssistantExecution res" where
  "with_readiness x p =
     (if ex_status x = DRAINING \<and> readiness p \<noteq> READINESS_DRAINING
      then Inl (ValueError ''DRAINING execution readiness cannot be reopened'')
      else if ex_status x = RECONCILE_REQUIRED \<and> readiness p \<noteq> READINESS_RECONCILE_REQUIRED
      then Inl (ValueError ''reconcile-required execution readiness cannot be reopened'')
      else if status_terminal (ex_status x) \<and> readiness p = READY
      then Inl (ValueError ''terminal execution readiness cannot be READY'')
      else make_execution (x\<lparr>ex_readiness := p, state_version := state_version x + 1\<rparr>))"

definition activate_ready :: "TAssistantExecution \<Rightarrow> stamp \<Rightarrow> TAssistantExecution res" where
  "activate_ready x now =
     (if ex_status x \<noteq> WARMING \<and> \<not> (ex_status x = RUNNING \<and> readiness (ex_readiness x) = DEGRADED)
      then Inl (ValueError ''only WARMING or degraded RUNNING execution can become ready'')
      else if \<not> stamp_aware now
      then Inl (ValueError ''T-assistant readiness time must be timezone-aware'')
      else rbind (make_projection READY [] now) (\<lambda>p.
             make_execution (x\<lparr>ex_status := RUNNING, ex_readiness := p,
               started_at := or_stamp (started_at x) now, state_version := state_version x + 1\<rparr>)))"

definition with_universe_revision :: "TAssistantExecution \<Rightarrow> int \<Rightarrow> TAssistantExecution res" where
  "with_universe_revision x revision =
     (if revision < universe_revision x
      then Inl (ValueError ''T-assistant universe revision cannot move backward'')
      else if revision = universe_revision x then Inr x
      else make_execution (x\<lparr>universe_revision := revision, state_version := state_version x + 1\<rparr>))"

section \<open>Events\<close>

record TAssistantExecutionEvent =
  ev_execution_id :: string
  event_key :: string
  event_type :: string
  occurred_at :: stamp
  event_payload :: pydict

definition make_event :: "TAssistantExecutionEvent \<Rightarrow> TAssistantExecutionEvent res" where
  "make_event e =
     (if ev_execution_id e = [] \<or> event_key e = [] \<or> event_type e = []
      then Inl (ValueError ''T-assistant execution event requires identity and type'')
      else if \<not> stamp_aware (occurred_at e)
      then Inl (ValueError ''T-assistant event occurred_at must be timezone-aware'')
      else rbind (canonical_json_payload (event_payload e)) (\<lambda>_.
             Inr (e\<lparr>event_payload := canonical_value (event_payload e)\<rparr>)))"

end
