(* ===== verification/T_Assistant_Safety.thy ===== *)
theory T_Assistant_Safety
  imports T_Assistant
begin

text \<open>
  What the T assistant's lifecycle guarantees: a created configuration verifies its own hash; a
  valid execution stays valid under every call (\<open>t_execution\<close> interprets the machine interface of
  the prelude), never opens positions again once it drains, and can always be stopped.
\<close>

section \<open>Canonical payloads\<close>

lemma canonical_value_text [simp]: "json_text (VDict (canonical_value d)) = json_text (VDict d)"
  using json_text_norm [of "VDict d"] by (simp add: canonical_value_def del: json_text_norm)

section \<open>Bindings\<close>

lemma BINDING_FIELDS_distinct: "distinct BINDING_FIELDS"
  by (simp add: BINDING_FIELDS_def)

lemma select_fields_mset:
  assumes "same_keys d names" "distinct (dkeys d)" "distinct names"
  shows "mset (select_fields names d) = mset d"
proof -
  have "map_of d k = Some (vget d k)" if "k \<in> set names" for k
    using assms(1) that by (auto simp: same_keys_def list_all_iff dmem_def vget_def dget_or_def dget_def)
  then have "set (select_fields names d) \<subseteq> set d"
    by (auto simp: select_fields_def dest: map_of_SomeD)
  moreover have "set d \<subseteq> set (select_fields names d)"
    using assms(1,2)
    by (auto simp: select_fields_def same_keys_def list_all_iff dkeys_def vget_def dget_or_def dget_def
        map_of_is_SomeI image_iff split: option.split)
  moreover have "distinct d" using assms(2) by (simp add: dkeys_def distinct_map)
  moreover have "distinct (select_fields names d)"
    using assms(3) by (auto simp: select_fields_def distinct_map inj_on_def)
  ultimately show ?thesis by (metis set_eq_iff_mset_eq_distinct subset_antisym)
qed

lemma vget_select [simp]: "n \<in> set names \<Longrightarrow> vget (select_fields names d) n = vget d n"
  by (induction names) (auto simp: select_fields_def)

lemma select_select: "set ms \<subseteq> set names \<Longrightarrow> select_fields ms (select_fields names d) = select_fields ms d"
  by (auto simp: select_fields_def [of ms])

lemma same_keys_select [simp]: "same_keys (select_fields names d) names"
proof -
  have "dget (select_fields names d) k \<noteq> None" if "k \<in> set names" for k
    using that by (simp add: dget_None_iff select_fields_def dkeys_def comp_def)
  then show ?thesis by (auto simp: same_keys_def list_all_iff dmem_def select_fields_def dkeys_def)
qed

lemma make_binding_select:
  assumes "make_binding d = Inr b"
  shows "b = select_fields BINDING_FIELDS d" "make_binding b = Inr b"
proof -
  show b: "b = select_fields BINDING_FIELDS d"
    using assms by (auto simp: make_binding_def res_simps split: if_splits)
  have sub: "set (butlast BINDING_FIELDS) \<subseteq> set BINDING_FIELDS" by (auto dest: in_set_butlastD)
  have fields: "binding_fields_ok b = binding_fields_ok d" "vget b ''binding_hash'' = vget d ''binding_hash''"
    unfolding binding_fields_ok_def b by (simp_all add: BINDING_FIELDS_def)
  have "select_fields (butlast BINDING_FIELDS) b = select_fields (butlast BINDING_FIELDS) d"
    "select_fields BINDING_FIELDS b = select_fields BINDING_FIELDS d"
    unfolding b by (simp_all add: select_select sub)
  with fields have "make_binding b = make_binding d" unfolding make_binding_def by (simp only:)
  with assms show "make_binding b = Inr b" by simp
qed

lemma validated_binding_text:
  assumes "validated_model_binding mode f (Some b) = Inr (Some b')" "distinct (dkeys b)"
  shows "json_text (VDict b') = json_text (VDict b)"
proof -
  from assms(1) have m: "same_keys b BINDING_FIELDS" "make_binding b = Inr b'"
    by (auto simp: validated_model_binding_def binding_from_mapping_def res_simps split: if_splits)
  then have "mset b' = mset b"
    using select_fields_mset [OF m(1) assms(2) BINDING_FIELDS_distinct] make_binding_select(1) [OF m(2)] by simp
  with assms(2) show ?thesis by (intro json_text_order [symmetric]) simp_all
qed

lemma validated_binding_idem:
  assumes "validated_model_binding mode f b = Inr b'"
  shows "validated_model_binding mode f b' = Inr b'"
proof (cases b)
  case None
  with assms show ?thesis by (auto simp: validated_model_binding_def split: if_splits)
next
  case (Some d)
  show ?thesis
  proof (cases "mode = RULE_ONLY")
    case True
    with Some assms show ?thesis by (simp add: validated_model_binding_def)
  next
    case False
    with Some assms obtain p where p: "make_binding d = Inr p" "b' = Some p"
      "vget p ''registry_stage'' = VStr (TAssistantScorerMode_value mode)"
      "vget p ''feature_schema_version'' = VInt f"
      by (auto simp: validated_model_binding_def binding_from_mapping_def res_simps split: if_splits)
    note sel = make_binding_select [OF p(1)]
    have "binding_from_mapping p = Inr p"
      using sel by (simp add: binding_from_mapping_def)
    with False p show ?thesis by (simp add: validated_model_binding_def)
  qed
qed

section \<open>Configuration versions\<close>

lemma canonical_value_idem [simp]: "canonical_value (canonical_value d) = canonical_value d"
  using json_norm_idem [of "VDict d"] by (simp add: canonical_value_def del: json_norm_idem)

definition config_acceptable :: "TAssistantConfigVersion \<Rightarrow> bool" where
  "config_acceptable c \<longleftrightarrow>
     config_version_id c \<noteq> [] \<and> config_id c \<noteq> [] \<and> 1 \<le> cfg_version c \<and> 1 \<le> cfg_feature_schema_version c \<and>
     config_schema_version c \<noteq> [] \<and> cfg_policy_version c \<noteq> [] \<and>
     json_text (VDict (canonical_payload c)) \<noteq> None \<and>
     (case validated_model_binding (cfg_scorer_mode c) (cfg_feature_schema_version c) (cfg_model_runtime_binding c) of
        Inl _ \<Rightarrow> False | Inr _ \<Rightarrow> True) \<and>
     (case cfg_model_runtime_binding c of None \<Rightarrow> True | Some b \<Rightarrow> distinct (dkeys b))"

definition normalized_config :: "TAssistantConfigVersion \<Rightarrow> TAssistantConfigVersion" where
  "normalized_config c =
     c\<lparr>canonical_payload := canonical_value (canonical_payload c),
       cfg_model_runtime_binding :=
         (case validated_model_binding (cfg_scorer_mode c) (cfg_feature_schema_version c)
                 (cfg_model_runtime_binding c) of
            Inl _ \<Rightarrow> None | Inr b \<Rightarrow> b)\<rparr>"

lemma validated_None_iff:
  "validated_model_binding mode f b = Inr b' \<Longrightarrow> b' = None \<longleftrightarrow> b = None"
  by (auto simp: validated_model_binding_def res_simps split: if_splits option.splits)

lemma material_text:
  assumes "config_acceptable c"
  shows "json_text (VDict (config_snapshot_material (normalized_config c))) =
    json_text (VDict (config_snapshot_material c))"
proof (rule json_text_values)
  obtain b where b: "validated_model_binding (cfg_scorer_mode c) (cfg_feature_schema_version c)
      (cfg_model_runtime_binding c) = Inr b"
    using assms by (auto simp: config_acceptable_def split: sum.splits)
  have "json_text (case b of None \<Rightarrow> VNone | Some x \<Rightarrow> VDict x) =
      json_text (case cfg_model_runtime_binding c of None \<Rightarrow> VNone | Some x \<Rightarrow> VDict x)"
    using validated_None_iff [OF b] b assms
    by (cases b; cases "cfg_model_runtime_binding c")
      (auto simp: config_acceptable_def simp del: json_text.simps intro: validated_binding_text)
  then show "map (\<lambda>p. (fst p, json_text (snd p))) (config_snapshot_material (normalized_config c)) =
      map (\<lambda>p. (fst p, json_text (snd p))) (config_snapshot_material c)"
    by (simp add: config_snapshot_material_def normalized_config_def b del: json_text.simps)
qed

lemma stable_hash_text:
  "json_text (VDict d) = json_text (VDict e) \<Longrightarrow> stable_manifest_hash d = stable_manifest_hash e"
  by (simp add: stable_manifest_hash_def canonical_json_payload_def del: json_text.simps)

lemma dict_has_text: "json_text (VDict d) \<noteq> None \<longleftrightarrow> (\<forall>p\<in>set d. json_text (snd p) \<noteq> None)"
  using those_None [of "map (\<lambda>p. map_option (Pair (fst p)) (json_text (snd p))) d"] by force

lemma binding_has_text:
  assumes "make_binding d = Inr b"
  shows "json_text (VDict b) \<noteq> None"
proof -
  have hash: "json_text (vget d ''binding_hash'') \<noteq> None"
    and rest: "json_text (VDict (select_fields (butlast BINDING_FIELDS) d)) \<noteq> None"
    using assms
    by (auto simp: make_binding_def stable_manifest_hash_def canonical_json_payload_def res_simps
        simp del: json_text.simps(7) split: if_splits option.splits)
      (metis json_text.simps(5) option.distinct(1))
  have split: "select_fields (ns @ [n]) d = select_fields ns d @ [(n, vget d n)]" for ns n
    by (simp add: select_fields_def)
  have "BINDING_FIELDS = butlast BINDING_FIELDS @ [''binding_hash'']" by (simp add: BINDING_FIELDS_def)
  with split [of "butlast BINDING_FIELDS" "''binding_hash''"]
  have "select_fields BINDING_FIELDS d =
      select_fields (butlast BINDING_FIELDS) d @ [(''binding_hash'', vget d ''binding_hash'')]"
    by simp
  with hash rest make_binding_select(1) [OF assms] show ?thesis
    unfolding dict_has_text by auto
qed

lemma material_has_text:
  assumes "config_acceptable c"
  shows "json_text (VDict (config_snapshot_material c)) \<noteq> None"
proof -
  have "json_text (VDict b) \<noteq> None" if b: "cfg_model_runtime_binding c = Some b" for b
  proof -
    obtain b' where v: "validated_model_binding (cfg_scorer_mode c) (cfg_feature_schema_version c) (Some b) = Inr (Some b')"
      using assms b validated_None_iff by (auto simp: config_acceptable_def split: sum.splits) fastforce
    then have m: "make_binding b = Inr b'"
      by (auto simp: validated_model_binding_def binding_from_mapping_def res_simps split: if_splits)
    with binding_has_text [OF m] validated_binding_text [OF v] assms b show ?thesis
      by (simp add: config_acceptable_def del: json_text.simps)
  qed
  with assms show ?thesis
    by (subst dict_has_text) (auto simp: config_snapshot_material_def config_acceptable_def simp del: json_text.simps(7) split: option.split)
qed

lemma make_config_acceptable:
  assumes "config_acceptable c"
  shows "make_config_version (c\<lparr>config_snapshot_hash := h\<rparr>) =
    rbind (stable_manifest_hash (config_snapshot_material c)) (\<lambda>h'.
      if h \<noteq> h' then Inl (ValueError ''T-assistant config snapshot hash mismatch'')
      else Inr ((normalized_config c)\<lparr>config_snapshot_hash := h\<rparr>))"
proof -
  obtain b where b: "validated_model_binding (cfg_scorer_mode c) (cfg_feature_schema_version c)
      (cfg_model_runtime_binding c) = Inr b"
    using assms by (auto simp: config_acceptable_def split: sum.splits)
  obtain t where t: "canonical_json_payload (canonical_payload c) = Inr t"
    using assms by (auto simp: config_acceptable_def canonical_json_payload_def simp del: json_text.simps)
  have m: "config_snapshot_material (c\<lparr>config_snapshot_hash := h,
        canonical_payload := canonical_value (canonical_payload c), cfg_model_runtime_binding := b\<rparr>) =
      config_snapshot_material (normalized_config c)"
    by (simp add: config_snapshot_material_def normalized_config_def b)
  have "stable_manifest_hash (config_snapshot_material (normalized_config c)) =
      stable_manifest_hash (config_snapshot_material c)"
    by (rule stable_hash_text) (rule material_text [OF assms])
  moreover have "c\<lparr>config_snapshot_hash := h, canonical_payload := canonical_value (canonical_payload c),
      cfg_model_runtime_binding := b\<rparr> = (normalized_config c)\<lparr>config_snapshot_hash := h\<rparr>"
    by (simp add: normalized_config_def b)
  ultimately show ?thesis
    using assms b t m
    by (simp add: make_config_version_def config_acceptable_def Let_def not_less del: json_text.simps
      cong: if_cong)
qed

lemma acceptable_normalized:
  assumes "config_acceptable c"
  shows "config_acceptable (normalized_config c)" "normalized_config (normalized_config c) = normalized_config c"
proof -
  obtain b where b: "validated_model_binding (cfg_scorer_mode c) (cfg_feature_schema_version c)
      (cfg_model_runtime_binding c) = Inr b"
    using assms by (auto simp: config_acceptable_def split: sum.splits)
  note b2 = validated_binding_idem [OF b]
  have "distinct (dkeys x)" if "b = Some x" for x
  proof -
    from b that obtain d where "make_binding d = Inr x"
      by (auto simp: validated_model_binding_def binding_from_mapping_def res_simps split: if_splits option.splits)
    then show ?thesis
      using BINDING_FIELDS_distinct make_binding_select(1)
      by (fastforce simp: select_fields_def dkeys_def comp_def)
  qed
  then show "config_acceptable (normalized_config c)"
    using assms b b2 by (auto simp: config_acceptable_def normalized_config_def simp del: json_text.simps split: option.split)
  show "normalized_config (normalized_config c) = normalized_config c"
    by (simp add: normalized_config_def b b2)
qed

lemma acceptable_hash: "config_acceptable (c\<lparr>config_snapshot_hash := h\<rparr>) = config_acceptable c"
  by (simp add: config_acceptable_def)

text \<open>
  \<open>create\<close> on acceptable arguments gives a configuration version that the constructor
  accepts as it is, although the constructor sorts the payload and the binding before it hashes
  them; its hash is the hash of its own material, and with any other hash it is refused.
\<close>

lemma created_config_verifies:
  assumes "config_acceptable c"
  shows "\<exists>c'. create_config_version c = Inr c' \<and> make_config_version c' = Inr c'
    \<and> stable_manifest_hash (config_snapshot_material c') = Inr (config_snapshot_hash c')
    \<and> (\<forall>h. h \<noteq> config_snapshot_hash c' \<longrightarrow>
        make_config_version (c'\<lparr>config_snapshot_hash := h\<rparr>) =
          Inl (ValueError ''T-assistant config snapshot hash mismatch''))"
proof -
  have "json_text (VDict (config_snapshot_material c)) \<noteq> None"
    using material_has_text [OF assms] .
  then obtain h where h: "stable_manifest_hash (config_snapshot_material c) = Inr h"
    by (auto simp: stable_manifest_hash_def canonical_json_payload_def simp del: json_text.simps)
  define c' where "c' = (normalized_config c)\<lparr>config_snapshot_hash := h\<rparr>"
  note acc = acceptable_normalized [OF assms]
  have mat: "stable_manifest_hash (config_snapshot_material (normalized_config c)) = Inr h"
    using stable_hash_text [OF material_text [OF assms]] h by simp
  have "create_config_version c = Inr c'"
    using h make_config_acceptable [OF assms, of h] by (simp add: create_config_version_def c'_def)
  moreover have "make_config_version (c'\<lparr>config_snapshot_hash := k\<rparr>) =
      (if k \<noteq> h then Inl (ValueError ''T-assistant config snapshot hash mismatch'')
       else Inr (c'\<lparr>config_snapshot_hash := k\<rparr>))" for k
    using make_config_acceptable [OF acc(1), of k] mat acc(2) by (simp add: c'_def)
  moreover have "stable_manifest_hash (config_snapshot_material c') = Inr h"
    using mat by (simp add: c'_def config_snapshot_material_def)
  moreover have "config_snapshot_hash c' = h" "c'\<lparr>config_snapshot_hash := h\<rparr> = c'"
    by (simp_all add: c'_def)
  ultimately show ?thesis by (metis (full_types))
qed

definition sample_config :: TAssistantConfigVersion where
  "sample_config =
     \<lparr>config_version_id = ''V1'', config_id = ''C1'', cfg_version = 1, config_schema_version = ''1'',
      canonical_payload = [(''symbols'', VList [VStr ''600000.SH'']), (''budget'', VInt 10000)],
      config_snapshot_hash = [], cfg_entry_authorization = MANUAL_CONFIRM, cfg_rollout_stage = CANARY,
      cfg_policy_version = ''p1'', cfg_feature_schema_version = 1, cfg_scorer_mode = RULE_ONLY,
      cfg_model_runtime_binding = None\<rparr>"

section \<open>The lifecycle of an execution\<close>

text \<open>The calls on an execution. A call that raises leaves the execution as it is.\<close>

datatype exec_event =
    Transition TAssistantExecutionStatus stamp bool
  | Readiness TAssistantEntryReadinessProjection
  | Activate stamp
  | Universe int

fun exec_apply :: "TAssistantExecution \<Rightarrow> exec_event \<Rightarrow> TAssistantExecution res" where
  "exec_apply x (Transition target now unsettled) = transition x target now unsettled"
| "exec_apply x (Readiness p) = with_readiness x p"
| "exec_apply x (Activate now) = activate_ready x now"
| "exec_apply x (Universe n) = with_universe_revision x n"

definition exec_step :: "TAssistantExecution \<Rightarrow> exec_event \<Rightarrow> TAssistantExecution" where
  "exec_step x e = (case exec_apply x e of Inl _ \<Rightarrow> x | Inr y \<Rightarrow> y)"

text \<open>An execution the constructor accepts.\<close>

definition exec_valid :: "TAssistantExecution \<Rightarrow> bool" where
  "exec_valid x \<longleftrightarrow> make_execution x = Inr x"

text \<open>The statuses that no longer open positions.\<close>

definition entry_closed :: "TAssistantExecution \<Rightarrow> bool" where
  "entry_closed x \<longleftrightarrow> ex_status x \<in> {DRAINING, STOPPED, FAILED, RECONCILE_REQUIRED}"

definition exec_adv :: "TAssistantExecution \<Rightarrow> TAssistantExecution \<Rightarrow> bool" where
  "exec_adv x y \<longleftrightarrow>
     state_version x \<le> state_version y \<and> universe_revision x \<le> universe_revision y
     \<and> (entry_closed x \<longrightarrow> entry_closed y)
     \<and> (status_terminal (ex_status x) \<longrightarrow> ex_status y = ex_status x \<and> completed_at y = completed_at x)
     \<and> (started_at x \<noteq> None \<longrightarrow> started_at y = started_at x)"

lemma make_execution_frame:
  "make_execution x = Inr y \<Longrightarrow> \<exists>b. y = x\<lparr>model_runtime_binding := b\<rparr> \<and> execution_error x = None
     \<and> validated_model_binding (scorer_mode x) (feature_schema_version x) (model_runtime_binding x) = Inr b"
  by (auto simp: make_execution_def res_simps split: if_splits option.splits)

lemma execution_error_binding [simp]: "execution_error (x\<lparr>model_runtime_binding := b\<rparr>) = execution_error x"
  by (simp add: execution_error_def cong: option.case_cong if_cong)

lemma make_execution_valid:
  assumes "make_execution x = Inr y"
  shows "exec_valid y"
proof -
  obtain b where b: "y = x\<lparr>model_runtime_binding := b\<rparr>" "execution_error x = None"
    "validated_model_binding (scorer_mode x) (feature_schema_version x) (model_runtime_binding x) = Inr b"
    using make_execution_frame [OF assms] by blast
  have ids: "execution_id x \<noteq> []" "ex_config_id x \<noteq> []" "ex_config_version_id x \<noteq> []"
    "ex_account_id x \<noteq> []" "policy_version x \<noteq> []"
    using assms by (auto simp: make_execution_def split: if_splits)
  with b validated_binding_idem [OF b(3)] show ?thesis
    by (simp add: exec_valid_def make_execution_def)
qed

lemma exec_apply_valid: "exec_valid x \<Longrightarrow> exec_apply x e = Inr y \<Longrightarrow> exec_valid y"
  by (cases e)
    (auto simp: transition_def with_readiness_def activate_ready_def with_universe_revision_def res_simps
      intro: make_execution_valid split: if_splits)

lemma transition_frame:
  assumes "transition x target now u = Inr y"
  shows "ex_status y = target \<and> target \<in> set (ALLOWED_TRANSITIONS (ex_status x))
    \<and> state_version y = state_version x + 1 \<and> universe_revision y = universe_revision x
    \<and> (started_at x \<noteq> None \<longrightarrow> started_at y = started_at x)
    \<and> (status_terminal target \<longrightarrow> \<not> u \<and> completed_at y = Some now)"
  using assms
  by (auto simp: transition_def res_simps or_stamp_def simp del: status_terminal.simps
      dest!: make_execution_frame split: if_splits option.splits)

lemma activate_frame:
  assumes "activate_ready x now = Inr y"
  shows "ex_status x \<in> {WARMING, RUNNING} \<and> ex_status y = RUNNING
    \<and> state_version y = state_version x + 1 \<and> universe_revision y = universe_revision x
    \<and> (started_at x \<noteq> None \<longrightarrow> started_at y = started_at x)"
  using assms
  by (auto simp: activate_ready_def res_simps or_stamp_def dest!: make_execution_frame split: if_splits option.splits)

lemma readiness_frame:
  assumes "with_readiness x p = Inr y"
  shows "ex_status y = ex_status x \<and> state_version y = state_version x + 1
    \<and> universe_revision y = universe_revision x \<and> started_at y = started_at x \<and> completed_at y = completed_at x"
  using assms
  by (auto simp: with_readiness_def dest!: make_execution_frame split: if_splits)

lemma universe_frame:
  assumes "with_universe_revision x n = Inr y"
  shows "ex_status y = ex_status x \<and> state_version x \<le> state_version y
    \<and> universe_revision x \<le> universe_revision y \<and> started_at y = started_at x \<and> completed_at y = completed_at x"
  using assms
  by (auto simp: with_universe_revision_def dest!: make_execution_frame split: if_splits)

lemma allowed_closed:
  "target \<in> set (ALLOWED_TRANSITIONS s) \<Longrightarrow> \<not> status_terminal s
     \<and> (s \<in> {DRAINING, STOPPED, FAILED, RECONCILE_REQUIRED} \<longrightarrow> target \<in> {DRAINING, STOPPED, FAILED, RECONCILE_REQUIRED})"
  by (cases s) auto

lemma exec_apply_adv:
  assumes "exec_apply x e = Inr y"
  shows "exec_adv x y"
proof (cases e)
  case (Transition target now u)
  with assms transition_frame [of x target now u y] allowed_closed [of target "ex_status x"] show ?thesis
    by (auto simp: exec_adv_def entry_closed_def)
next
  case (Readiness p)
  with assms readiness_frame [of x p y] show ?thesis by (auto simp: exec_adv_def entry_closed_def)
next
  case (Activate now)
  with assms activate_frame [of x now y] show ?thesis by (auto simp: exec_adv_def entry_closed_def)
next
  case (Universe n)
  with assms universe_frame [of x n y] show ?thesis by (auto simp: exec_adv_def entry_closed_def)
qed

lemma exec_adv_refl: "exec_adv x x"
  by (simp add: exec_adv_def)

interpretation t_execution: invariant_machine exec_step exec_valid exec_adv
proof
  show "exec_valid x \<Longrightarrow> exec_valid (exec_step x e)" for x e
    by (auto simp: exec_step_def intro: exec_apply_valid split: sum.split)
  show "exec_adv x (exec_step x e)" for x e
    by (auto simp: exec_step_def exec_adv_refl intro: exec_apply_adv split: sum.split)
  show "exec_adv x y \<Longrightarrow> exec_adv y z \<Longrightarrow> exec_adv x z" for x y z
    by (auto simp: exec_adv_def)
qed (rule exec_adv_refl)

section \<open>Properties\<close>

text \<open>
  C13: once an execution is draining, stopped, failed or waits for reconciliation, no sequence
  of calls makes it produce entries again, and a terminal status is final.
\<close>

theorem execution_never_reopens:
  assumes "exec_valid x" "entry_closed x"
  shows "\<not> can_produce_entry (foldl exec_step x es) \<and> entry_closed (foldl exec_step x es)
    \<and> (status_terminal (ex_status x) \<longrightarrow> ex_status (foldl exec_step x es) = ex_status x)"
proof -
  let ?y = "foldl exec_step x es"
  have adv: "exec_adv x ?y" by (rule t_execution.run_adv [OF assms(1)])
  then have closed: "entry_closed ?y" using assms(2) unfolding exec_adv_def by blast
  then have "ex_status ?y \<noteq> RUNNING" unfolding entry_closed_def by auto
  with closed adv show ?thesis unfolding exec_adv_def can_produce_entry_def by blast
qed

text \<open>
  every call keeps an execution valid, never lowers its state version or its universe
  revision and never changes the time it started; a transition raises the state version by one
  and enters a terminal status only without unsettled buy work.
\<close>

lemma execution_history_monotone:
  assumes "exec_valid x"
  shows "exec_valid (foldl exec_step x es)
    \<and> state_version x \<le> state_version (foldl exec_step x es)
    \<and> universe_revision x \<le> universe_revision (foldl exec_step x es)
    \<and> (started_at x \<noteq> None \<longrightarrow> started_at (foldl exec_step x es) = started_at x)
    \<and> (\<forall>target now u y. transition x target now u = Inr y \<longrightarrow>
        state_version y = state_version x + 1 \<and> (status_terminal target \<longrightarrow> \<not> u))"
proof -
  have "exec_adv x (foldl exec_step x es)" by (rule t_execution.run_adv [OF assms])
  moreover have "exec_valid (foldl exec_step x es)" by (rule t_execution.run_inv [OF assms])
  moreover have "state_version y = state_version x + 1 \<and> (status_terminal target \<longrightarrow> \<not> u)"
    if "transition x target now u = Inr y" for target now u y
    using transition_frame [OF that] by blast
  ultimately show ?thesis unfolding exec_adv_def by blast
qed

definition sample_projection :: "TAssistantEntryReadiness \<Rightarrow> string list \<Rightarrow> TAssistantEntryReadinessProjection" where
  "sample_projection r rs = \<lparr>readiness = r, reasons = rs, as_of = \<lparr>stamp_us = 0, stamp_aware = True\<rparr>\<rparr>"

definition sample_execution :: TAssistantExecution where
  "sample_execution =
     \<lparr>execution_id = ''E1'', ex_config_id = ''C1'', ex_config_version_id = ''V1'', frozen_config_version = 1,
      ex_config_snapshot_hash = ''h'', ex_account_id = ''A1'', environment = PAPER,
      entry_authorization = MANUAL_CONFIRM, rollout_stage = CANARY, ex_status = WARMING,
      ex_readiness = sample_projection READINESS_WARMING [''WARMUP''], policy_version = ''p1'',
      feature_schema_version = 1, scorer_mode = RULE_ONLY, universe_revision = 0,
      last_assigned_cycle_sequence = 0, last_committed_cycle_sequence = 0, checkpoint_revision = 0,
      state_version = 1, model_runtime_binding = None, started_at = None, drain_requested_at = None,
      completed_at = None\<rparr>"

definition sample_draining :: TAssistantExecution where
  "sample_draining = sample_execution\<lparr>ex_status := DRAINING,
     ex_readiness := sample_projection READINESS_DRAINING [''T_ASSISTANT_EXECUTION_DRAINING''],
     drain_requested_at := Some \<lparr>stamp_us = 0, stamp_aware = True\<rparr>\<rparr>"

lemma sample_execution_valid: "exec_valid sample_execution" "exec_valid sample_draining"
  by (simp_all add: exec_valid_def make_execution_def sample_execution_def sample_draining_def
    execution_error_def validated_model_binding_def sample_projection_def)

theorem execution_never_reopens_witness:
  "\<not> can_produce_entry (foldl exec_step sample_draining
     [Activate \<lparr>stamp_us = 1, stamp_aware = True\<rparr>, Transition RUNNING \<lparr>stamp_us = 2, stamp_aware = True\<rparr> False])"
proof -
  have "entry_closed sample_draining" by (simp add: entry_closed_def sample_draining_def)
  from execution_never_reopens [OF sample_execution_valid(2) this] show ?thesis by blast
qed

lemma make_projection_reason:
  "strip why = why \<Longrightarrow> why \<noteq> [] \<Longrightarrow> r \<noteq> READY \<Longrightarrow> stamp_aware now \<Longrightarrow>
     make_projection r [why] now = Inr \<lparr>readiness = r, reasons = [why], as_of = now\<rparr>"
  by (simp add: make_projection_def)

lemma exec_valid_parts:
  "exec_valid x \<longleftrightarrow> execution_id x \<noteq> [] \<and> ex_config_id x \<noteq> [] \<and> ex_config_version_id x \<noteq> []
     \<and> ex_account_id x \<noteq> [] \<and> policy_version x \<noteq> [] \<and> execution_error x = None
     \<and> validated_model_binding (scorer_mode x) (feature_schema_version x) (model_runtime_binding x)
         = Inr (model_runtime_binding x)"
proof
  assume v: "exec_valid x"
  then have m: "make_execution x = Inr x" by (simp add: exec_valid_def)
  from make_execution_frame [OF m]
  obtain b where b: "x = x\<lparr>model_runtime_binding := b\<rparr>" "execution_error x = None"
    "validated_model_binding (scorer_mode x) (feature_schema_version x) (model_runtime_binding x) = Inr b"
    by blast
  from arg_cong [OF b(1), of model_runtime_binding] have "b = model_runtime_binding x" by simp
  with b(2,3) m show "execution_id x \<noteq> [] \<and> ex_config_id x \<noteq> [] \<and> ex_config_version_id x \<noteq> []
     \<and> ex_account_id x \<noteq> [] \<and> policy_version x \<noteq> [] \<and> execution_error x = None
     \<and> validated_model_binding (scorer_mode x) (feature_schema_version x) (model_runtime_binding x)
         = Inr (model_runtime_binding x)"
    by (auto simp: make_execution_def split: if_splits)
qed (simp add: exec_valid_def make_execution_def)

text \<open>A projection with one reason the transitions write.\<close>

lemma strip_reasons:
  "strip ''T_ASSISTANT_EXECUTION_DRAINING'' = ''T_ASSISTANT_EXECUTION_DRAINING''"
  "strip ''T_ASSISTANT_EXECUTION_STOPPED'' = ''T_ASSISTANT_EXECUTION_STOPPED''"
  by (simp_all add: strip_def is_space_def)

lemma drain_succeeds:
  assumes "exec_valid x" "stamp_aware now" "ex_status x \<in> {CREATED, WARMING, RUNNING, RECONCILE_REQUIRED}"
  shows "\<exists>y. transition x DRAINING now u = Inr y \<and> ex_status y = DRAINING \<and> exec_valid y"
proof -
  let ?p = "\<lparr>readiness = READINESS_DRAINING, reasons = [''T_ASSISTANT_EXECUTION_DRAINING''], as_of = now\<rparr>"
  define y where "y = x\<lparr>ex_status := DRAINING, state_version := state_version x + 1,
    drain_requested_at := or_stamp (drain_requested_at x) now, ex_readiness := ?p\<rparr>"
  have v: "exec_valid y"
    using assms(1) unfolding exec_valid_parts
    by (auto simp: y_def execution_error_def or_stamp_def split: if_splits option.splits)
  have "DRAINING \<in> set (ALLOWED_TRANSITIONS (ex_status x))" using assms(3) by auto
  then have "transition x DRAINING now u = make_execution y"
    using assms(2) by (simp add: transition_def transition_readiness_def make_projection_reason strip_reasons y_def)
  with v show ?thesis by (auto simp: exec_valid_def y_def)
qed

lemma stop_succeeds:
  assumes "exec_valid x" "stamp_aware now" "ex_status x = DRAINING"
  shows "\<exists>y. transition x STOPPED now False = Inr y \<and> ex_status y = STOPPED \<and> exec_valid y"
proof -
  let ?p = "\<lparr>readiness = BLOCKED, reasons = [''T_ASSISTANT_EXECUTION_STOPPED''], as_of = now\<rparr>"
  define y where "y = x\<lparr>ex_status := STOPPED, state_version := state_version x + 1,
    completed_at := Some now, ex_readiness := ?p\<rparr>"
  have v: "exec_valid y"
    using assms(1) unfolding exec_valid_parts
    by (auto simp: y_def execution_error_def split: if_splits option.splits)
  have "transition x STOPPED now False = make_execution y"
    using assms(2,3) by (simp add: transition_def transition_readiness_def make_projection_reason strip_reasons y_def)
  with v show ?thesis by (auto simp: exec_valid_def y_def)
qed

text \<open>
  C14: an execution that has not ended can be stopped by at most two transitions, through
  draining, when no buy work is unsettled; neither of them raises.
\<close>

theorem every_execution_can_stop:
  assumes "exec_valid x" "stamp_aware now" "\<not> status_terminal (ex_status x)"
  shows "\<exists>es. length es \<le> 2 \<and> ex_status (foldl exec_step x es) = STOPPED
    \<and> completed_at (foldl exec_step x es) = Some now"
proof -
  have stop: "ex_status (exec_step y (Transition STOPPED now False)) = STOPPED
      \<and> completed_at (exec_step y (Transition STOPPED now False)) = Some now"
    if y: "exec_valid y" "ex_status y = DRAINING" for y
    using stop_succeeds [OF y(1) assms(2) y(2)] transition_frame [of y STOPPED now False]
    by (auto simp: exec_step_def)
  show ?thesis
  proof (cases "ex_status x = DRAINING")
    case True
    with stop [OF assms(1)] show ?thesis
      by (intro exI [of _ "[Transition STOPPED now False]"]) simp
  next
    case False
    with assms(3) have "ex_status x \<in> {CREATED, WARMING, RUNNING, RECONCILE_REQUIRED}"
      by (cases "ex_status x") simp_all
    then obtain y where y: "transition x DRAINING now False = Inr y" "ex_status y = DRAINING" "exec_valid y"
      using drain_succeeds [OF assms(1,2)] by blast
    then have "exec_step x (Transition DRAINING now False) = y" by (simp add: exec_step_def)
    with stop [OF y(3,2)] show ?thesis
      by (intro exI [of _ "[Transition DRAINING now False, Transition STOPPED now False]"]) simp
  qed
qed

theorem every_execution_can_stop_witness:
  "\<exists>es. length es \<le> 2 \<and> ex_status (foldl exec_step sample_execution es) = STOPPED"
  using every_execution_can_stop [OF sample_execution_valid(1), of "\<lparr>stamp_us = 5, stamp_aware = True\<rparr>"]
  by (auto simp: sample_execution_def)

end
