(* ===== verification/Py_Uuid.thy ===== *)
theory Py_Uuid
  imports Py_Json
begin

text \<open>
  Name-based identifiers as the standard library builds them: \<open>hashlib.sha1\<close> on 32-bit words and
  \<open>uuid.uuid5\<close>, with the text form \<open>str\<close> gives. The entry plans name their order intents this way.
\<close>

section \<open>SHA-1\<close>

definition sha1_initial :: "32 word list" where
  "sha1_initial = [1732584193, 4023233417, 2562383102, 271733878, 3285377520]"

definition sha1_rotl :: "nat \<Rightarrow> 32 word \<Rightarrow> 32 word" where
  "sha1_rotl n x = push_bit n x OR drop_bit (32 - n) x"

text \<open>The message schedule, newest word first.\<close>

definition sha1_extend :: "32 word list \<Rightarrow> 32 word list" where
  "sha1_extend ws = sha1_rotl 1 (ws ! 2 XOR ws ! 7 XOR ws ! 13 XOR ws ! 15) # ws"

definition sha1_schedule :: "32 word list \<Rightarrow> 32 word list" where
  "sha1_schedule block = rev ((sha1_extend ^^ 64) (rev block))"

text \<open>The function and the constant of round \<open>t\<close>.\<close>

definition sha1_mix :: "nat \<Rightarrow> 32 word \<Rightarrow> 32 word \<Rightarrow> 32 word \<Rightarrow> 32 word" where
  "sha1_mix t b c d =
     (if t < 20 then ((b AND c) OR (NOT b AND d)) + 1518500249
      else if t < 40 then (b XOR c XOR d) + 1859775393
      else if t < 60 then ((b AND c) OR (b AND d) OR (c AND d)) + 2400959708
      else (b XOR c XOR d) + 3395469782)"

type_synonym sha1_state = "32 word \<times> 32 word \<times> 32 word \<times> 32 word \<times> 32 word"

fun sha1_round :: "nat \<times> 32 word \<Rightarrow> sha1_state \<Rightarrow> sha1_state" where
  "sha1_round (t, w) (a, b, c, d, e) =
     (sha1_rotl 5 a + sha1_mix t b c d + e + w, a, sha1_rotl 30 b, c, d)"

definition sha1_block :: "32 word list \<Rightarrow> 32 word list \<Rightarrow> 32 word list" where
  "sha1_block hs block =
     (let (a, b, c, d, e) = fold sha1_round (zip [0..<80] (sha1_schedule block))
            (hs ! 0, hs ! 1, hs ! 2, hs ! 3, hs ! 4)
      in map2 (+) hs [a, b, c, d, e])"

function sha1_blocks :: "32 word list \<Rightarrow> 32 word list \<Rightarrow> 32 word list" where
  "sha1_blocks hs ws = (if ws = [] then hs else sha1_blocks (sha1_block hs (take 16 ws)) (drop 16 ws))"
  by pat_completeness auto
termination
  by (relation "measure (\<lambda>(_, ws). length ws)") auto

declare sha1_blocks.simps [simp del]

definition sha1_bytes :: "nat list \<Rightarrow> nat list" where
  "sha1_bytes bs =
     concat (map (\<lambda>w. be_bytes 4 (unat w)) (sha1_blocks sha1_initial (be_words (sha_pad bs))))"

section \<open>UUIDs\<close>

text \<open>\<open>str(UUID(bytes=..., version=5))\<close>: the version and variant bits are overwritten.\<close>

definition uuid_text :: "nat list \<Rightarrow> string" where
  "uuid_text bs =
     (let h = concat (map hex_byte bs)
      in take 8 h @ ''-'' @ take 4 (drop 8 h) @ ''-'' @ take 4 (drop 12 h) @ ''-'' @
         take 4 (drop 16 h) @ ''-'' @ take 12 (drop 20 h))"

definition uuid5 :: "nat list \<Rightarrow> string \<Rightarrow> string" where
  "uuid5 namespace name =
     (let bs = take 16 (sha1_bytes (namespace @ map of_char name))
      in uuid_text (bs[6 := bs ! 6 mod 16 + 80, 8 := bs ! 8 mod 64 + 128]))"

lemma uuid5_nonempty [simp]: "uuid5 n s \<noteq> []"
  by (simp add: uuid5_def uuid_text_def Let_def)

end
