(* ===== verification/Entry_Types.thy ===== *)
theory Entry_Types
  imports Py_Uuid
begin

text \<open>
  The data model of managed entry plans
  (\<open>packages/domain/src/quantx_domain/trading/entry_plan.py\<close>, first part): the enumerations, the
  policies of a plan with the checks of their \<open>__post_init__\<close> methods, the configuration read from
  and written to dictionaries, and the point-in-time context an evaluation sees. A dataclass is a
  record with the source's fields; a field whose name another record has carries a prefix. A
  \<open>_post_init\<close> function returns the record it is given or the \<open>ValueError\<close> of the constructor.
\<close>

section \<open>Helpers\<close>

definition EPSILON :: pyfloat where
  "EPSILON = fround (1 / 100000000)"

text \<open>\<open>_mapping\<close>, \<open>_float\<close>, \<open>_optional_float\<close>, \<open>_optional_int\<close>: the last three catch \<open>TypeError\<close> and
  \<open>ValueError\<close> and let \<open>OverflowError\<close> pass.\<close>

fun as_mapping :: "pyval \<Rightarrow> pydict" where
  "as_mapping (VDict d) = d"
| "as_mapping _ = []"

fun conversion_failed :: "exc \<Rightarrow> bool" where
  "conversion_failed TypeError = True"
| "conversion_failed (ValueError _) = True"
| "conversion_failed _ = False"

definition float_or :: "pyval \<Rightarrow> pyfloat \<Rightarrow> pyfloat res" where
  "float_or v d =
     (case to_float v of
        Inr x \<Rightarrow> Inr x
      | Inl e \<Rightarrow> if conversion_failed e then Inr d else Inl e)"

definition entry_optional_float :: "pyval \<Rightarrow> pyfloat option res" where
  "entry_optional_float v =
     (if v = VNone then Inr None
      else case to_float v of
        Inr x \<Rightarrow> Inr (Some x)
      | Inl e \<Rightarrow> if conversion_failed e then Inr None else Inl e)"

definition entry_optional_int :: "pyval \<Rightarrow> int option res" where
  "entry_optional_int v =
     (if v = VNone then Inr None
      else case to_int v of
        Inr n \<Rightarrow> Inr (Some n)
      | Inl e \<Rightarrow> if conversion_failed e then Inr None else Inl e)"

definition require_positive :: "string \<Rightarrow> pyfloat \<Rightarrow> unit res" where
  "require_positive name x =
     (if \<not> f_isfinite x \<or> fle x fzero then Inl (ValueError (name @ '' must be a finite positive value''))
      else Inr ())"

definition require_non_negative :: "string \<Rightarrow> pyfloat \<Rightarrow> unit res" where
  "require_non_negative name x =
     (if \<not> f_isfinite x \<or> flt x fzero
      then Inl (ValueError (name @ '' must be a finite non-negative value''))
      else Inr ())"

text \<open>A check that raises \<open>ValueError\<close>.\<close>

definition ensure :: "bool \<Rightarrow> string \<Rightarrow> unit res" where
  "ensure b msg = (if b then Inr () else Inl (ValueError msg))"

text \<open>\<open>int(raw.get(key, d) or d)\<close>, \<open>bool(raw.get(key, d))\<close>\<close>

definition int_field :: "pydict \<Rightarrow> string \<Rightarrow> int \<Rightarrow> int res" where
  "int_field raw k d = to_int (v_or (vget_or raw k (VInt d)) (VInt d))"

definition bool_field :: "pydict \<Rightarrow> string \<Rightarrow> bool \<Rightarrow> bool" where
  "bool_field raw k d = truthy (vget_or raw k (VBool d))"

section \<open>Enumerations\<close>

datatype EntryTargetMode = TARGET_POSITION_PCT | INCREMENTAL_AMOUNT_CNY | ADDITIONAL_VOLUME

fun EntryTargetMode_value :: "EntryTargetMode \<Rightarrow> string" where
  "EntryTargetMode_value TARGET_POSITION_PCT = ''TARGET_POSITION_PCT''"
| "EntryTargetMode_value INCREMENTAL_AMOUNT_CNY = ''INCREMENTAL_AMOUNT_CNY''"
| "EntryTargetMode_value ADDITIONAL_VOLUME = ''ADDITIONAL_VOLUME''"

datatype EntryPlanStatus =
    ARMED | ACCUMULATING | AWAITING_APPROVAL | ENTRY_PENDING | PAUSED | DRAINING
  | COMPLETED | EXPIRED | CANCELLED | ERROR

fun EntryPlanStatus_value :: "EntryPlanStatus \<Rightarrow> string" where
  "EntryPlanStatus_value ARMED = ''ARMED''"
| "EntryPlanStatus_value ACCUMULATING = ''ACCUMULATING''"
| "EntryPlanStatus_value AWAITING_APPROVAL = ''AWAITING_APPROVAL''"
| "EntryPlanStatus_value ENTRY_PENDING = ''ENTRY_PENDING''"
| "EntryPlanStatus_value PAUSED = ''PAUSED''"
| "EntryPlanStatus_value DRAINING = ''DRAINING''"
| "EntryPlanStatus_value COMPLETED = ''COMPLETED''"
| "EntryPlanStatus_value EXPIRED = ''EXPIRED''"
| "EntryPlanStatus_value CANCELLED = ''CANCELLED''"
| "EntryPlanStatus_value ERROR = ''ERROR''"

datatype EntryEnvironment = PAPER | LIVE

fun EntryEnvironment_value :: "EntryEnvironment \<Rightarrow> string" where
  "EntryEnvironment_value PAPER = ''PAPER''"
| "EntryEnvironment_value LIVE = ''LIVE''"

datatype EntryAuthorizationMode = MANUAL_CONFIRM | AUTO

fun EntryAuthorizationMode_value :: "EntryAuthorizationMode \<Rightarrow> string" where
  "EntryAuthorizationMode_value MANUAL_CONFIRM = ''MANUAL_CONFIRM''"
| "EntryAuthorizationMode_value AUTO = ''AUTO''"

text \<open>\<open>Enum(value)\<close>: the member with that value, else \<open>ValueError\<close>.\<close>

definition enum_member :: "('e \<Rightarrow> string) \<Rightarrow> 'e list \<Rightarrow> string \<Rightarrow> 'e res" where
  "enum_member val members s =
     (case find (\<lambda>e. val e = s) members of None \<Rightarrow> Inl (ValueError []) | Some e \<Rightarrow> Inr e)"

definition EntryTargetMode_of :: "string \<Rightarrow> EntryTargetMode res" where
  "EntryTargetMode_of =
     enum_member EntryTargetMode_value [TARGET_POSITION_PCT, INCREMENTAL_AMOUNT_CNY, ADDITIONAL_VOLUME]"

definition EntryPlanStatus_of :: "string \<Rightarrow> EntryPlanStatus res" where
  "EntryPlanStatus_of =
     enum_member EntryPlanStatus_value
       [ARMED, ACCUMULATING, AWAITING_APPROVAL, ENTRY_PENDING, PAUSED, DRAINING,
        COMPLETED, EXPIRED, CANCELLED, ERROR]"

definition EntryEnvironment_of :: "string \<Rightarrow> EntryEnvironment res" where
  "EntryEnvironment_of = enum_member EntryEnvironment_value [PAPER, LIVE]"

definition EntryAuthorizationMode_of :: "string \<Rightarrow> EntryAuthorizationMode res" where
  "EntryAuthorizationMode_of = enum_member EntryAuthorizationMode_value [MANUAL_CONFIRM, AUTO]"

definition TERMINAL_ENTRY_PHASES :: "EntryPlanStatus set" where
  "TERMINAL_ENTRY_PHASES = {COMPLETED, EXPIRED, CANCELLED, ERROR}"

definition TREND_PULLBACK_CONFIRMATION :: string where
  "TREND_PULLBACK_CONFIRMATION = ''TREND_PULLBACK_CONFIRMATION''"

definition PRICE_LADDER :: string where
  "PRICE_LADDER = ''PRICE_LADDER''"

definition MANUAL_TRIGGER :: string where
  "MANUAL_TRIGGER = ''MANUAL_TRIGGER''"

section \<open>Target\<close>

record EntryBaselineSnapshot =
  position_volume :: int
  market_value_cny :: pyfloat
  total_asset_cny :: pyfloat
  reference_price :: pyfloat
  account_snapshot_version :: string

definition EntryBaselineSnapshot_post_init :: "EntryBaselineSnapshot \<Rightarrow> EntryBaselineSnapshot res" where
  "EntryBaselineSnapshot_post_init b =
     rbind (ensure (\<not> position_volume b < 0) ''baseline position_volume must be non-negative'') (\<lambda>_.
     rbind (require_non_negative ''baseline market_value_cny'' (market_value_cny b)) (\<lambda>_.
     rbind (require_positive ''baseline total_asset_cny'' (total_asset_cny b)) (\<lambda>_.
     rbind (require_positive ''baseline reference_price'' (reference_price b)) (\<lambda>_.
     rbind (ensure (account_snapshot_version b \<noteq> []) ''baseline account_snapshot_version is required'')
       (\<lambda>_. Inr b)))))"

definition EntryBaselineSnapshot_from_dict :: "pydict \<Rightarrow> EntryBaselineSnapshot res" where
  "EntryBaselineSnapshot_from_dict raw =
     rbind (int_field raw ''position_volume'' 0) (\<lambda>pv.
     rbind (float_or (vget raw ''market_value_cny'') fzero) (\<lambda>mv.
     rbind (float_or (vget raw ''total_asset_cny'') fzero) (\<lambda>ta.
     rbind (float_or (vget raw ''reference_price'') fzero) (\<lambda>rp.
       EntryBaselineSnapshot_post_init
         \<lparr>position_volume = pv, market_value_cny = mv, total_asset_cny = ta, reference_price = rp,
          account_snapshot_version =
            str_or (vget_or raw ''account_snapshot_version'' (VStr [])) []\<rparr>))))"

record EntryTargetPolicy =
  target_mode :: EntryTargetMode
  max_total_amount_cny :: pyfloat
  max_position_pct :: pyfloat
  baseline_snapshot :: EntryBaselineSnapshot
  target_position_pct :: "pyfloat option"
  incremental_amount_cny :: "pyfloat option"
  additional_volume :: "int option"

text \<open>\<open>sum(value is not None for value in active.values())\<close> and \<open>active[self.mode] is None\<close>\<close>

definition active_targets :: "EntryTargetPolicy \<Rightarrow> nat" where
  "active_targets p =
     (if target_position_pct p \<noteq> None then 1 else 0)
     + (if incremental_amount_cny p \<noteq> None then 1 else 0)
     + (if additional_volume p \<noteq> None then 1 else 0)"

definition target_missing :: "EntryTargetPolicy \<Rightarrow> bool" where
  "target_missing p =
     (case target_mode p of
        TARGET_POSITION_PCT \<Rightarrow> target_position_pct p = None
      | INCREMENTAL_AMOUNT_CNY \<Rightarrow> incremental_amount_cny p = None
      | ADDITIONAL_VOLUME \<Rightarrow> additional_volume p = None)"

definition EntryTargetPolicy_post_init :: "EntryTargetPolicy \<Rightarrow> EntryTargetPolicy res" where
  "EntryTargetPolicy_post_init p =
     rbind (ensure (active_targets p = 1) ''exactly one entry target field must be set'') (\<lambda>_.
     rbind (ensure (\<not> target_missing p)
       (''target field does not match mode '' @ EntryTargetMode_value (target_mode p))) (\<lambda>_.
     rbind (require_positive ''max_total_amount_cny'' (max_total_amount_cny p)) (\<lambda>_.
     rbind (ensure (flt fzero (max_position_pct p) \<and> fle (max_position_pct p) (Fin 1))
       ''max_position_pct must be in (0, 1]'') (\<lambda>_.
     rbind (case target_position_pct p of
              None \<Rightarrow> Inr ()
            | Some t \<Rightarrow> ensure (flt fzero t \<and> fle t (max_position_pct p))
                ''target_position_pct must be in (0, max_position_pct]'') (\<lambda>_.
     rbind (case incremental_amount_cny p of
              None \<Rightarrow> Inr ()
            | Some a \<Rightarrow> rbind (require_positive ''incremental_amount_cny'' a) (\<lambda>_.
                ensure (\<not> flt (fadd (max_total_amount_cny p) EPSILON) a)
                  ''incremental target exceeds max_total_amount_cny'')) (\<lambda>_.
     rbind (case additional_volume p of
              None \<Rightarrow> Inr ()
            | Some v \<Rightarrow> ensure (\<not> v \<le> 0) ''additional_volume must be positive'') (\<lambda>_.
       Inr p)))))))"

definition EntryTargetPolicy_from_dict :: "pydict \<Rightarrow> EntryTargetPolicy res" where
  "EntryTargetPolicy_from_dict raw =
     rbind (EntryTargetMode_of (py_str (vget_or raw ''mode'' (VStr [])))) (\<lambda>m.
     rbind (entry_optional_float (vget raw ''target_position_pct'')) (\<lambda>pct.
     rbind (entry_optional_float (vget raw ''incremental_amount_cny'')) (\<lambda>inc.
     rbind (entry_optional_int (vget raw ''additional_volume'')) (\<lambda>vol.
     rbind (float_or (vget raw ''max_total_amount_cny'') fzero) (\<lambda>mt.
     rbind (float_or (vget raw ''max_position_pct'') fzero) (\<lambda>mp.
     rbind (EntryBaselineSnapshot_from_dict (as_mapping (vget raw ''baseline_snapshot''))) (\<lambda>b.
       EntryTargetPolicy_post_init
         \<lparr>target_mode = m, max_total_amount_cny = mt, max_position_pct = mp,
          baseline_snapshot = b, target_position_pct = pct, incremental_amount_cny = inc,
          additional_volume = vol\<rparr>)))))))"

section \<open>Rules\<close>

record EntryRuleSpec =
  spec_rule_id :: string
  spec_rule_type :: string
  priority :: int
  parameters :: pydict
  once :: bool
  enabled :: bool

definition EntryRuleSpec_post_init :: "EntryRuleSpec \<Rightarrow> EntryRuleSpec res" where
  "EntryRuleSpec_post_init r =
     rbind (ensure (spec_rule_id r \<noteq> []) ''entry rule_id is required'') (\<lambda>_.
     rbind (ensure (spec_rule_type r \<noteq> []) ''entry rule_type is required'') (\<lambda>_.
       Inr (r\<lparr>spec_rule_type := upper (spec_rule_type r)\<rparr>)))"

definition EntryRuleSpec_from_dict :: "pydict \<Rightarrow> EntryRuleSpec res" where
  "EntryRuleSpec_from_dict raw =
     rbind (int_field raw ''priority'' 0) (\<lambda>prio.
       EntryRuleSpec_post_init
         \<lparr>spec_rule_id = str_or (vget_or raw ''rule_id'' (VStr [])) [],
          spec_rule_type =
            str_or (vget_or raw ''rule_type'' (vget_or raw ''strategy'' (VStr []))) [],
          priority = prio, parameters = as_mapping (vget raw ''parameters''),
          once = bool_field raw ''once'' False, enabled = bool_field raw ''enabled'' True\<rparr>)"

section \<open>Pacing, execution and completion\<close>

record EntryPacingPolicy =
  tranche_count :: int
  max_single_intent_amount_cny :: pyfloat
  max_daily_filled_amount_cny :: pyfloat
  max_orders_per_day :: int
  cash_buffer_pct :: pyfloat
  min_interval_seconds :: int
  max_open_orders :: int
  cooldown_after_reject_seconds :: int
  trend_adjustment_enabled :: bool

definition EntryPacingPolicy_post_init :: "EntryPacingPolicy \<Rightarrow> EntryPacingPolicy res" where
  "EntryPacingPolicy_post_init p =
     rbind (ensure (\<not> tranche_count p \<le> 0) ''tranche_count must be positive'') (\<lambda>_.
     rbind (require_positive ''max_single_intent_amount_cny'' (max_single_intent_amount_cny p)) (\<lambda>_.
     rbind (require_positive ''max_daily_filled_amount_cny'' (max_daily_filled_amount_cny p)) (\<lambda>_.
     rbind (ensure (\<not> max_orders_per_day p \<le> 0) ''max_orders_per_day must be positive'') (\<lambda>_.
     rbind (ensure (max_open_orders p = 1) ''managed entry plans require max_open_orders=1'') (\<lambda>_.
     rbind (ensure (f_isfinite (cash_buffer_pct p) \<and> fle fzero (cash_buffer_pct p)
         \<and> flt (cash_buffer_pct p) (Fin 1)) ''cash_buffer_pct must be in [0, 1)'') (\<lambda>_.
     rbind (ensure (\<not> (min_interval_seconds p < 0 \<or> cooldown_after_reject_seconds p < 0))
       ''entry pacing intervals must be non-negative'') (\<lambda>_.
       Inr p)))))))"

definition EntryPacingPolicy_from_dict :: "pydict \<Rightarrow> EntryPacingPolicy res" where
  "EntryPacingPolicy_from_dict raw =
     rbind (int_field raw ''tranche_count'' 1) (\<lambda>tc.
     rbind (float_or (vget raw ''max_single_intent_amount_cny'') fzero) (\<lambda>ms.
     rbind (float_or (vget raw ''max_daily_filled_amount_cny'') fzero) (\<lambda>md.
     rbind (int_field raw ''max_orders_per_day'' 1) (\<lambda>mo.
     rbind (float_or (vget raw ''cash_buffer_pct'') fzero) (\<lambda>cb.
     rbind (int_field raw ''min_interval_seconds'' 0) (\<lambda>mi.
     rbind (int_field raw ''max_open_orders'' 1) (\<lambda>oo.
     rbind (int_field raw ''cooldown_after_reject_seconds'' 0) (\<lambda>cd.
       EntryPacingPolicy_post_init
         \<lparr>tranche_count = tc, max_single_intent_amount_cny = ms, max_daily_filled_amount_cny = md,
          max_orders_per_day = mo, cash_buffer_pct = cb, min_interval_seconds = mi,
          max_open_orders = oo, cooldown_after_reject_seconds = cd,
          trend_adjustment_enabled = bool_field raw ''trend_adjustment_enabled'' True\<rparr>))))))))"

record EntryExecutionPolicy =
  environment :: EntryEnvironment
  authorization_mode :: EntryAuthorizationMode
  price_reference :: string
  max_slippage_bps :: pyfloat
  max_price_deviation_bps :: pyfloat
  approval_ttl_ms :: int

definition EntryExecutionPolicy_post_init :: "EntryExecutionPolicy \<Rightarrow> EntryExecutionPolicy res" where
  "EntryExecutionPolicy_post_init p =
     rbind (ensure (price_reference p \<in> {''ASK1_PROTECTED_LIMIT'', ''LATEST_PROTECTED_LIMIT''})
       ''managed entry plans require a protected limit reference'') (\<lambda>_.
     rbind (ensure (\<not> (flt (max_slippage_bps p) fzero \<or> flt (max_price_deviation_bps p) fzero))
       ''price protection bps must be non-negative'') (\<lambda>_.
     rbind (ensure (\<not> approval_ttl_ms p \<le> 0) ''approval_ttl_ms must be positive'') (\<lambda>_.
       Inr p)))"

definition EntryExecutionPolicy_from_dict :: "pydict \<Rightarrow> EntryExecutionPolicy res" where
  "EntryExecutionPolicy_from_dict raw =
     rbind (EntryEnvironment_of (py_str (vget_or raw ''environment'' (VStr ''PAPER'')))) (\<lambda>env.
     rbind (EntryAuthorizationMode_of
       (py_str (vget_or raw ''authorization_mode'' (VStr ''MANUAL_CONFIRM'')))) (\<lambda>auth.
     rbind (float_or (vget raw ''max_slippage_bps'') fzero) (\<lambda>sl.
     rbind (float_or (vget raw ''max_price_deviation_bps'') fzero) (\<lambda>dv.
     rbind (int_field raw ''approval_ttl_ms'' 60000) (\<lambda>ttl.
       EntryExecutionPolicy_post_init
         \<lparr>environment = env, authorization_mode = auth,
          price_reference =
            str_or (vget_or raw ''price_reference'' (VStr ''ASK1_PROTECTED_LIMIT''))
              ''ASK1_PROTECTED_LIMIT'',
          max_slippage_bps = sl, max_price_deviation_bps = dv, approval_ttl_ms = ttl\<rparr>)))))"

record EntryCompletionPolicy =
  max_buy_price :: pyfloat
  expire_at_ms :: "int option"
  stop_when_target_reached :: bool
  stop_when_budget_exhausted :: bool
  cancel_unsubmitted_on_expiry :: bool

definition EntryCompletionPolicy_post_init :: "EntryCompletionPolicy \<Rightarrow> EntryCompletionPolicy res" where
  "EntryCompletionPolicy_post_init p =
     rbind (require_positive ''max_buy_price'' (max_buy_price p)) (\<lambda>_.
     rbind (case expire_at_ms p of
              None \<Rightarrow> Inr ()
            | Some t \<Rightarrow> ensure (\<not> t \<le> 0) ''expire_at_ms must be positive'') (\<lambda>_.
       Inr p))"

definition EntryCompletionPolicy_from_dict :: "pydict \<Rightarrow> EntryCompletionPolicy res" where
  "EntryCompletionPolicy_from_dict raw =
     rbind (float_or (vget raw ''max_buy_price'') fzero) (\<lambda>mb.
     rbind (entry_optional_int (vget raw ''expire_at_ms'')) (\<lambda>ex.
       EntryCompletionPolicy_post_init
         \<lparr>max_buy_price = mb, expire_at_ms = ex,
          stop_when_target_reached = bool_field raw ''stop_when_target_reached'' True,
          stop_when_budget_exhausted = bool_field raw ''stop_when_budget_exhausted'' True,
          cancel_unsubmitted_on_expiry = bool_field raw ''cancel_unsubmitted_on_expiry'' True\<rparr>))"

section \<open>Configuration\<close>

record ManagedEntryPlanConfig =
  template_version :: int
  config_instrument_code :: string
  bucket :: string
  target_policy :: EntryTargetPolicy
  trigger_rules :: "EntryRuleSpec list"
  pacing_policy :: EntryPacingPolicy
  execution_policy :: EntryExecutionPolicy
  completion_policy :: EntryCompletionPolicy
  config_version :: int
  exit_plan_template :: "pydict option"

definition ManagedEntryPlanConfig_post_init :: "ManagedEntryPlanConfig \<Rightarrow> ManagedEntryPlanConfig res" where
  "ManagedEntryPlanConfig_post_init c =
     rbind (ensure (\<not> (template_version c \<le> 0 \<or> config_version c \<le> 0))
       ''entry plan versions must be positive'') (\<lambda>_.
     rbind (ensure (config_instrument_code c \<noteq> []) ''entry plan instrument_code is required'') (\<lambda>_.
     rbind (ensure (bucket c \<in> {''core'', ''swing''}) ''entry plan bucket must be core or swing'') (\<lambda>_.
     rbind (ensure (trigger_rules c \<noteq> []) ''entry plan requires at least one trigger rule'') (\<lambda>_.
     rbind (ensure (list_ex enabled (trigger_rules c))
       ''entry plan requires at least one enabled trigger rule'') (\<lambda>_.
     rbind (ensure (distinct (map spec_rule_id (trigger_rules c)))
       ''entry rule_id values must be unique'') (\<lambda>_.
     rbind (ensure (\<not> (bucket c = ''swing'' \<and> environment (execution_policy c) = LIVE
         \<and> authorization_mode (execution_policy c) = AUTO
         \<and> (exit_plan_template c = None \<or> exit_plan_template c = Some [])))
       ''LIVE AUTO swing entry requires exit_plan_template'') (\<lambda>_.
       Inr c)))))))"

definition ManagedEntryPlanConfig_from_dict :: "pydict \<Rightarrow> ManagedEntryPlanConfig res" where
  "ManagedEntryPlanConfig_from_dict raw =
     rbind (int_field raw ''template_version'' 1) (\<lambda>tv.
     rbind (int_field raw ''config_version'' 1) (\<lambda>cv.
     rbind (EntryTargetPolicy_from_dict (as_mapping (vget raw ''target_policy''))) (\<lambda>tp.
     rbind (to_list_or_empty (vget raw ''trigger_rules'')) (\<lambda>items.
     rbind (rmap (\<lambda>v. EntryRuleSpec_from_dict (as_mapping v)) items) (\<lambda>rs.
     rbind (EntryPacingPolicy_from_dict (as_mapping (vget raw ''pacing_policy''))) (\<lambda>pp.
     rbind (EntryExecutionPolicy_from_dict (as_mapping (vget raw ''execution_policy''))) (\<lambda>ep.
     rbind (EntryCompletionPolicy_from_dict (as_mapping (vget raw ''completion_policy''))) (\<lambda>cp.
       ManagedEntryPlanConfig_post_init
         \<lparr>template_version = tv,
          config_instrument_code = str_or (vget_or raw ''instrument_code'' (VStr [])) [],
          bucket = lower (str_or (vget_or raw ''bucket'' (VStr [])) []),
          target_policy = tp, trigger_rules = rs, pacing_policy = pp, execution_policy = ep,
          completion_policy = cp, config_version = cv,
          exit_plan_template =
            (let t = vget raw ''exit_plan_template''
             in if t = VNone then None else Some (as_mapping t))\<rparr>))))))))"

text \<open>\<open>_enum_values(asdict(self))\<close>: the nested records as dictionaries, members as their values.\<close>

definition EntryBaselineSnapshot_asdict :: "EntryBaselineSnapshot \<Rightarrow> pydict" where
  "EntryBaselineSnapshot_asdict b =
     [(''position_volume'', VInt (position_volume b)),
      (''market_value_cny'', VFloat (market_value_cny b)),
      (''total_asset_cny'', VFloat (total_asset_cny b)),
      (''reference_price'', VFloat (reference_price b)),
      (''account_snapshot_version'', VStr (account_snapshot_version b))]"

definition EntryTargetPolicy_asdict :: "EntryTargetPolicy \<Rightarrow> pydict" where
  "EntryTargetPolicy_asdict p =
     [(''mode'', VStr (EntryTargetMode_value (target_mode p))),
      (''max_total_amount_cny'', VFloat (max_total_amount_cny p)),
      (''max_position_pct'', VFloat (max_position_pct p)),
      (''baseline_snapshot'', VDict (EntryBaselineSnapshot_asdict (baseline_snapshot p))),
      (''target_position_pct'', v_opt_float (target_position_pct p)),
      (''incremental_amount_cny'', v_opt_float (incremental_amount_cny p)),
      (''additional_volume'', v_opt_int (additional_volume p))]"

definition EntryRuleSpec_asdict :: "EntryRuleSpec \<Rightarrow> pydict" where
  "EntryRuleSpec_asdict r =
     [(''rule_id'', VStr (spec_rule_id r)), (''rule_type'', VStr (spec_rule_type r)),
      (''priority'', VInt (priority r)), (''parameters'', VDict (parameters r)),
      (''once'', VBool (once r)), (''enabled'', VBool (enabled r))]"

definition EntryPacingPolicy_asdict :: "EntryPacingPolicy \<Rightarrow> pydict" where
  "EntryPacingPolicy_asdict p =
     [(''tranche_count'', VInt (tranche_count p)),
      (''max_single_intent_amount_cny'', VFloat (max_single_intent_amount_cny p)),
      (''max_daily_filled_amount_cny'', VFloat (max_daily_filled_amount_cny p)),
      (''max_orders_per_day'', VInt (max_orders_per_day p)),
      (''cash_buffer_pct'', VFloat (cash_buffer_pct p)),
      (''min_interval_seconds'', VInt (min_interval_seconds p)),
      (''max_open_orders'', VInt (max_open_orders p)),
      (''cooldown_after_reject_seconds'', VInt (cooldown_after_reject_seconds p)),
      (''trend_adjustment_enabled'', VBool (trend_adjustment_enabled p))]"

definition EntryExecutionPolicy_asdict :: "EntryExecutionPolicy \<Rightarrow> pydict" where
  "EntryExecutionPolicy_asdict p =
     [(''environment'', VStr (EntryEnvironment_value (environment p))),
      (''authorization_mode'', VStr (EntryAuthorizationMode_value (authorization_mode p))),
      (''price_reference'', VStr (price_reference p)),
      (''max_slippage_bps'', VFloat (max_slippage_bps p)),
      (''max_price_deviation_bps'', VFloat (max_price_deviation_bps p)),
      (''approval_ttl_ms'', VInt (approval_ttl_ms p))]"

definition EntryCompletionPolicy_asdict :: "EntryCompletionPolicy \<Rightarrow> pydict" where
  "EntryCompletionPolicy_asdict p =
     [(''max_buy_price'', VFloat (max_buy_price p)),
      (''expire_at_ms'', v_opt_int (expire_at_ms p)),
      (''stop_when_target_reached'', VBool (stop_when_target_reached p)),
      (''stop_when_budget_exhausted'', VBool (stop_when_budget_exhausted p)),
      (''cancel_unsubmitted_on_expiry'', VBool (cancel_unsubmitted_on_expiry p))]"

definition ManagedEntryPlanConfig_to_dict :: "ManagedEntryPlanConfig \<Rightarrow> pydict" where
  "ManagedEntryPlanConfig_to_dict c =
     [(''template_version'', VInt (template_version c)),
      (''instrument_code'', VStr (config_instrument_code c)),
      (''bucket'', VStr (bucket c)),
      (''target_policy'', VDict (EntryTargetPolicy_asdict (target_policy c))),
      (''trigger_rules'', VList (map (\<lambda>r. VDict (EntryRuleSpec_asdict r)) (trigger_rules c))),
      (''pacing_policy'', VDict (EntryPacingPolicy_asdict (pacing_policy c))),
      (''execution_policy'', VDict (EntryExecutionPolicy_asdict (execution_policy c))),
      (''completion_policy'', VDict (EntryCompletionPolicy_asdict (completion_policy c))),
      (''config_version'', VInt (config_version c)),
      (''exit_plan_template'',
         (case exit_plan_template c of None \<Rightarrow> VNone | Some t \<Rightarrow> VDict t))]"

section \<open>The context of an evaluation\<close>

record PendingBuyExposure =
  exposure_volume :: int
  protected_limit_price :: pyfloat
  owner_plan_id :: "string option"

definition exposure_amount_cny :: "PendingBuyExposure \<Rightarrow> pyfloat" where
  "exposure_amount_cny e =
     fmul (float_of_int (max 0 (exposure_volume e))) (pmax fzero (protected_limit_price e))"

record CausalPriceObservation =
  timestamp_ms :: int
  observed_price :: pyfloat
  observed_volume :: "pyfloat option"

record EntryEvaluationContext =
  plan_id :: string
  decision_time_ms :: int
  trade_date :: string
  instrument_code :: string
  executable_price :: pyfloat
  total_equity_cny :: pyfloat
  current_position_volume :: int
  current_market_value_cny :: pyfloat
  pending_buys :: "PendingBuyExposure list"
  plan_filled_amount_cny :: pyfloat
  plan_filled_volume :: int
  daily_filled_amount_cny :: pyfloat
  daily_order_count :: int
  risk_max_buy_amount_cny :: "pyfloat option"
  liquidity_cap_cny :: "pyfloat option"
  context_data_quality :: string
  allow_buy :: bool
  allow_bucket_buy :: bool
  only_risk_reduction :: bool
  kill_switch :: bool
  conflicting_sell :: bool
  market_ready :: bool
  manual_trigger_rule_id :: "string option"
  daily_observations :: "CausalPriceObservation list"
  intraday_observations :: "CausalPriceObservation list"

definition pending_buy_amount_cny :: "EntryEvaluationContext \<Rightarrow> pyfloat" where
  "pending_buy_amount_cny ctx = py_fsum (map exposure_amount_cny (pending_buys ctx))"

definition pending_buy_volume :: "EntryEvaluationContext \<Rightarrow> int" where
  "pending_buy_volume ctx = sum_list (map (\<lambda>e. max 0 (exposure_volume e)) (pending_buys ctx))"

end
