(* ===== verification/Entry_Plan.thy ===== *)
theory Entry_Plan
  imports Entry_Types
begin

text \<open>
  The durable state of a managed entry plan and the operations that change it
  (\<open>ManagedEntryPlanState\<close> of \<open>entry_plan.py\<close>): terminal requests, executions, terminal order
  reports and the release of the pending intent, and the dictionaries the state is stored in.
\<close>

section \<open>State\<close>

record ManagedEntryPlanState =
  phase :: EntryPlanStatus
  terminal_requested :: "EntryPlanStatus option"
  terminal_request_reason :: string
  filled_volume :: int
  filled_amount_cny :: pyfloat
  pending_intent_id :: string
  pending_stage_id :: string
  pending_rule_id :: string
  pending_rule_type :: string
  pending_activation_id :: string
  pending_requested_volume :: int
  pending_requested_amount_cny :: pyfloat
  pending_filled_volume :: int
  pending_filled_amount_cny :: pyfloat
  reserved_amount_cny :: pyfloat
  order_terminal_seen :: bool
  terminal_expected_filled_volume :: "int option"
  trade_reconciled :: bool
  rule_state :: "(string, pydict) dict"
  rule_activation_counts :: "(string, int) dict"
  completed_rule_ids :: "string set"
  completed_activation_ids :: "string set"
  rule_filled_volumes :: "(string, int) dict"
  rule_filled_amounts_cny :: "(string, pyfloat) dict"
  daily_order_counts :: "(string, int) dict"
  daily_filled_amounts_cny :: "(string, pyfloat) dict"
  last_fill_at_ms :: "int option"
  last_intent_at_ms :: "int option"
  retry_after_ms :: "int option"
  last_decision :: pydict
  data_quality :: string
  processed_trade_keys :: "string list"

definition new_entry_state :: ManagedEntryPlanState where
  "new_entry_state =
     \<lparr>phase = ARMED, terminal_requested = None, terminal_request_reason = [], filled_volume = 0,
      filled_amount_cny = fzero, pending_intent_id = [], pending_stage_id = [],
      pending_rule_id = [], pending_rule_type = [], pending_activation_id = [],
      pending_requested_volume = 0, pending_requested_amount_cny = fzero,
      pending_filled_volume = 0, pending_filled_amount_cny = fzero, reserved_amount_cny = fzero,
      order_terminal_seen = False, terminal_expected_filled_volume = None,
      trade_reconciled = False, rule_state = [], rule_activation_counts = [],
      completed_rule_ids = {}, completed_activation_ids = {}, rule_filled_volumes = [],
      rule_filled_amounts_cny = [], daily_order_counts = [], daily_filled_amounts_cny = [],
      last_fill_at_ms = None, last_intent_at_ms = None, retry_after_ms = None,
      last_decision = [], data_quality = ''OK'', processed_trade_keys = []\<rparr>"

definition has_pending :: "ManagedEntryPlanState \<Rightarrow> bool" where
  "has_pending s \<longleftrightarrow> pending_intent_id s \<noteq> [] \<or> pending_stage_id s \<noteq> []"

section \<open>Terminal requests\<close>

definition request_terminal ::
  "EntryPlanStatus \<Rightarrow> string \<Rightarrow> bool \<Rightarrow> ManagedEntryPlanState \<Rightarrow> ManagedEntryPlanState res" where
  "request_terminal requested reason pending_work s =
     (if requested \<notin> {CANCELLED, EXPIRED}
      then Inl (ValueError ''terminal request must be CANCELLED or EXPIRED'')
      else if phase s = COMPLETED then Inr s
      else case terminal_requested s of
          None \<Rightarrow>
            Inr (s\<lparr>terminal_requested := Some requested, terminal_request_reason := reason,
                   phase := (if has_pending s \<or> pending_work then DRAINING else requested)\<rparr>)
        | Some t \<Rightarrow>
            if t \<noteq> requested then Inr s
            else Inr (s\<lparr>terminal_request_reason :=
                          (if terminal_request_reason s = [] \<and> reason \<noteq> [] then reason
                           else terminal_request_reason s),
                        phase := (if has_pending s \<or> pending_work then DRAINING else t)\<rparr>))"

definition cumulative_target_reached :: "ManagedEntryPlanConfig \<Rightarrow> ManagedEntryPlanState \<Rightarrow> bool" where
  "cumulative_target_reached config s =
     (let policy = target_policy config
      in if phase s = COMPLETED then True
         else if stop_when_budget_exhausted (completion_policy config)
              \<and> fle (max_total_amount_cny policy) (fadd (filled_amount_cny s) EPSILON) then True
         else if \<not> stop_when_target_reached (completion_policy config) then False
         else case target_mode policy of
             INCREMENTAL_AMOUNT_CNY \<Rightarrow>
               fle (case incremental_amount_cny policy of None \<Rightarrow> fzero | Some a \<Rightarrow> a)
                 (fadd (filled_amount_cny s) EPSILON)
           | ADDITIONAL_VOLUME \<Rightarrow>
               (case additional_volume policy of None \<Rightarrow> 0 | Some v \<Rightarrow> v) \<le> filled_volume s
           | TARGET_POSITION_PCT \<Rightarrow> False)"

section \<open>The pending intent\<close>

definition clear_pending :: "ManagedEntryPlanState \<Rightarrow> ManagedEntryPlanState" where
  "clear_pending s =
     s\<lparr>pending_intent_id := [], pending_stage_id := [], pending_rule_id := [],
       pending_rule_type := [], pending_activation_id := [], pending_requested_volume := 0,
       pending_requested_amount_cny := fzero, pending_filled_volume := 0,
       pending_filled_amount_cny := fzero, reserved_amount_cny := fzero,
       order_terminal_seen := False, terminal_expected_filled_volume := None,
       trade_reconciled := True\<rparr>"

definition terminal_fill_barrier_satisfied :: "ManagedEntryPlanState \<Rightarrow> bool" where
  "terminal_fill_barrier_satisfied s =
     (order_terminal_seen s \<and>
      (case terminal_expected_filled_volume s of
         None \<Rightarrow> False
       | Some n \<Rightarrow> n \<le> pending_filled_volume s))"

definition settle_pending :: "bool \<Rightarrow> ManagedEntryPlanState \<Rightarrow> ManagedEntryPlanState" where
  "settle_pending target_reached s0 =
     (let s = clear_pending s0
      in if phase s = ERROR then s
         else if target_reached then s\<lparr>phase := COMPLETED\<rparr>
         else case terminal_requested s of
             Some t \<Rightarrow> s\<lparr>phase := t\<rparr>
           | None \<Rightarrow>
               if phase s \<in> TERMINAL_ENTRY_PHASES then s
               else s\<lparr>phase := (if last_fill_at_ms s \<noteq> None then ACCUMULATING else ARMED)\<rparr>)"

section \<open>Executions\<close>

record trade_fill =
  trade_key :: string
  matches_pending :: bool
  fill_volume :: int
  fill_price :: pyfloat
  fill_trade_date :: string
  fill_timestamp_ms :: int
  fill_rule_id :: "string option"

text \<open>\<open>[*keys[-255:], key]\<close>\<close>

definition remember_key :: "string \<Rightarrow> string list \<Rightarrow> string list" where
  "remember_key k ks = drop (length ks - 255) ks @ [k]"

text \<open>\<open>str(rule_id or (self.pending_rule_id if matches_pending else ""))\<close>\<close>

definition selected_rule :: "trade_fill \<Rightarrow> ManagedEntryPlanState \<Rightarrow> string" where
  "selected_rule f s =
     (let given = (case fill_rule_id f of None \<Rightarrow> [] | Some r \<Rightarrow> r)
      in if given \<noteq> [] then given else if matches_pending f then pending_rule_id s else [])"

text \<open>The part of \<open>apply_trade_fill\<close> every accepted trade runs: the books of the plan.\<close>

definition book_fill :: "trade_fill \<Rightarrow> ManagedEntryPlanState \<Rightarrow> ManagedEntryPlanState" where
  "book_fill f s =
     (let amount = fmul (float_of_int (fill_volume f)) (fill_price f);
          selected = selected_rule f s;
          s1 = s\<lparr>processed_trade_keys := remember_key (trade_key f) (processed_trade_keys s),
                 filled_volume := filled_volume s + fill_volume f,
                 filled_amount_cny := fadd (filled_amount_cny s) amount\<rparr>;
          s2 = (if selected = [] then s1
                else s1\<lparr>rule_filled_volumes :=
                          dset selected (dget_or (rule_filled_volumes s1) selected 0 + fill_volume f)
                            (rule_filled_volumes s1),
                        rule_filled_amounts_cny :=
                          dset selected
                            (fadd (dget_or (rule_filled_amounts_cny s1) selected fzero) amount)
                            (rule_filled_amounts_cny s1)\<rparr>)
      in s2\<lparr>daily_filled_amounts_cny :=
              dset (fill_trade_date f)
                (fadd (dget_or (daily_filled_amounts_cny s2) (fill_trade_date f) fzero) amount)
                (daily_filled_amounts_cny s2),
            last_fill_at_ms := Some (fill_timestamp_ms f)\<rparr>)"

text \<open>The part a trade of the pending intent runs: its counters and the state of its rule.\<close>

definition consume_pending_fill :: "trade_fill \<Rightarrow> ManagedEntryPlanState \<Rightarrow> ManagedEntryPlanState" where
  "consume_pending_fill f s =
     (let act = pending_activation_id s; rid = pending_rule_id s;
          s1 = s\<lparr>pending_filled_volume := pending_filled_volume s + fill_volume f,
                 pending_filled_amount_cny :=
                   fadd (pending_filled_amount_cny s)
                     (fmul (float_of_int (fill_volume f)) (fill_price f))\<rparr>;
          s2 = (if act \<noteq> [] then s1\<lparr>completed_activation_ids := insert act (completed_activation_ids s1)\<rparr>
                else s1);
          s3 = (if act \<noteq> [] \<and> act = rid then s2\<lparr>completed_rule_ids := insert rid (completed_rule_ids s2)\<rparr>
                else s2)
      in if pending_rule_type s3 = TREND_PULLBACK_CONFIRMATION then
           s3\<lparr>rule_state :=
                dset rid
                  (fold (\<lambda>(k, v). dset k v)
                     [(''phase'', VStr ''WAITING_PULLBACK''),
                      (''observed_peak_price'', VFloat (fill_price f)),
                      (''pullback_low_price'', VFloat (fill_price f)),
                      (''confirmations'', VInt 0)]
                     (dget_or (rule_state s3) rid []))
                  (rule_state s3)\<rparr>
         else s3)"

definition apply_trade_fill ::
  "trade_fill \<Rightarrow> bool \<Rightarrow> ManagedEntryPlanState \<Rightarrow> ManagedEntryPlanState \<times> bool" where
  "apply_trade_fill f target_reached s =
     (if trade_key f = [] \<or> trade_key f \<in> set (processed_trade_keys s) then (s, False)
      else if fill_volume f \<le> 0 \<or> fle (fill_price f) fzero then (s, False)
      else let s1 = book_fill f s
           in if \<not> matches_pending f then
                (s1\<lparr>phase := ERROR,
                    last_decision := [(''reason'', VStr ''ENTRY_FILL_OUTSIDE_PENDING''),
                                      (''trade_key'', VStr (trade_key f))]\<rparr>, True)
              else let s2 = consume_pending_fill f s1
                   in if terminal_fill_barrier_satisfied s2
                         \<or> (terminal_requested s2 \<noteq> None \<and> \<not> has_pending s2)
                      then (settle_pending target_reached s2, True)
                      else if phase s2 = ERROR then (s2, True)
                      else if terminal_requested s2 \<noteq> None then (s2\<lparr>phase := DRAINING\<rparr>, True)
                      else if target_reached \<and> \<not> has_pending s2 then (s2\<lparr>phase := COMPLETED\<rparr>, True)
                      else (s2\<lparr>phase := ACCUMULATING\<rparr>, True))"

section \<open>Terminal order reports\<close>

text \<open>\<open>str(status or "").split(".")[-1].upper()\<close>\<close>

definition status_word :: "string \<Rightarrow> string" where
  "status_word s = upper (rev (takeWhile (\<lambda>c. c \<noteq> CHR ''.'') (rev s)))"

definition TERMINAL_ORDER_WORDS :: "string list" where
  "TERMINAL_ORDER_WORDS =
     [''FILLED'', ''REJECTED'', ''BROKER_REJECTED'', ''CANCELLED'', ''CANCELED'', ''EXPIRED'',
      ''PARTIALLY_CANCELED'', ''RECONCILED_ZERO_FILL'']"

text \<open>The expected cumulative fill after a terminal report other than \<open>RECONCILED_ZERO_FILL\<close>.\<close>

definition expected_after ::
  "string \<Rightarrow> int option \<Rightarrow> ManagedEntryPlanState \<Rightarrow> int option" where
  "expected_after terminal expected s =
     (let known = (case terminal_expected_filled_volume s of None \<Rightarrow> 0 | Some n \<Rightarrow> n)
      in if (case expected of None \<Rightarrow> False | Some n \<Rightarrow> 0 < n) then Some (max known (the expected))
         else if terminal = ''FILLED'' \<and> 0 < pending_requested_volume s
           then Some (max known (pending_requested_volume s))
         else if terminal \<in> {''REJECTED'', ''BROKER_REJECTED''} then Some 0
         else terminal_expected_filled_volume s)"

definition apply_order_terminal ::
  "string \<Rightarrow> int \<Rightarrow> int \<Rightarrow> int option \<Rightarrow> bool \<Rightarrow> ManagedEntryPlanState \<Rightarrow> ManagedEntryPlanState" where
  "apply_order_terminal status time_ms cooldown expected target_reached s =
     (let terminal = status_word status
      in if terminal \<notin> set TERMINAL_ORDER_WORDS then s
         else let s1 = s\<lparr>order_terminal_seen := True\<rparr>
              in if terminal = ''RECONCILED_ZERO_FILL'' then
                   let s2 = s1\<lparr>terminal_expected_filled_volume := Some 0\<rparr>;
                       s3 = (if pending_filled_volume s2 \<le> 0
                             then s2\<lparr>retry_after_ms := Some (time_ms + cooldown * 1000)\<rparr> else s2)
                   in settle_pending target_reached s3
                 else
                   let s2 = s1\<lparr>terminal_expected_filled_volume := expected_after terminal expected s1\<rparr>
                   in if \<not> terminal_fill_barrier_satisfied s2 then s2
                      else let s3 = (if pending_filled_volume s2 \<le> 0 \<and> terminal \<noteq> ''FILLED''
                                     then s2\<lparr>retry_after_ms := Some (time_ms + cooldown * 1000)\<rparr>
                                     else s2)
                           in settle_pending target_reached s3)"

section \<open>The service's changes of the phase\<close>

text \<open>
  The state part of \<open>EntryPlanService._set_phase\<close> and \<open>_request_terminal\<close>
  (\<open>services/entry_plan_service.py\<close>): both first release a pending intent that has been proven to
  have no execution. Loading and saving the state, and the facts counted from the order tables, are
  the caller's; the two counts are arguments of \<open>active_phase\<close>.
\<close>

definition reconcile_zero_intent ::
  "string \<Rightarrow> int \<Rightarrow> ManagedEntryPlanState \<Rightarrow> ManagedEntryPlanState" where
  "reconcile_zero_intent zero_intent now s =
     (if zero_intent \<noteq> [] \<and> pending_intent_id s = zero_intent
      then apply_order_terminal ''RECONCILED_ZERO_FILL'' now 0 None False s else s)"

definition set_phase ::
  "EntryPlanStatus \<Rightarrow> string \<Rightarrow> string \<Rightarrow> int \<Rightarrow> ManagedEntryPlanState \<Rightarrow> ManagedEntryPlanState" where
  "set_phase p reason zero_intent now s =
     (let s1 = reconcile_zero_intent zero_intent now s
      in s1\<lparr>phase := p,
            last_decision :=
              dset ''reason'' (VStr (if reason = [] then ''ENTRY_PLAN_'' @ EntryPlanStatus_value p else reason))
                (last_decision s1)\<rparr>)"

definition service_request_terminal ::
  "EntryPlanStatus \<Rightarrow> string \<Rightarrow> bool \<Rightarrow> string \<Rightarrow> int \<Rightarrow> ManagedEntryPlanState \<Rightarrow>
   ManagedEntryPlanState res" where
  "service_request_terminal status reason pending_work zero_intent now s =
     rbind (request_terminal status reason pending_work (reconcile_zero_intent zero_intent now s)) (\<lambda>s1.
       Inr (s1\<lparr>last_decision :=
                 dset ''reason''
                   (VStr (if reason = [] then ''ENTRY_PLAN_'' @ EntryPlanStatus_value status else reason))
                   (last_decision s1)\<rparr>))"

text \<open>\<open>_require_plan_not_terminal\<close> and \<open>_active_phase\<close>: what re-enabling a plan asks for and sets.\<close>

definition plan_not_terminal :: "ManagedEntryPlanState \<Rightarrow> bool" where
  "plan_not_terminal s \<longleftrightarrow>
     \<not> (terminal_requested s \<noteq> None \<or> phase s \<in> {CANCELLED, EXPIRED, COMPLETED})"

definition active_phase :: "int \<Rightarrow> pyfloat \<Rightarrow> EntryPlanStatus" where
  "active_phase facts_volume facts_amount =
     (if 0 < facts_volume \<or> flt fzero facts_amount then ACCUMULATING else ARMED)"

section \<open>Storage\<close>

text \<open>\<open>to_dict\<close>: the fields in their order, the sets as sorted lists.\<close>

definition v_strs :: "string list \<Rightarrow> pyval" where
  "v_strs xs = VList (map VStr xs)"

definition v_dict :: "('v \<Rightarrow> pyval) \<Rightarrow> (string, 'v) dict \<Rightarrow> pyval" where
  "v_dict f d = VDict (dmap f d)"

definition ManagedEntryPlanState_to_dict :: "ManagedEntryPlanState \<Rightarrow> pydict" where
  "ManagedEntryPlanState_to_dict s =
     [(''phase'', VStr (EntryPlanStatus_value (phase s))),
      (''terminal_requested'',
         (case terminal_requested s of None \<Rightarrow> VNone | Some t \<Rightarrow> VStr (EntryPlanStatus_value t))),
      (''terminal_request_reason'', VStr (terminal_request_reason s)),
      (''filled_volume'', VInt (filled_volume s)),
      (''filled_amount_cny'', VFloat (filled_amount_cny s)),
      (''pending_intent_id'', VStr (pending_intent_id s)),
      (''pending_stage_id'', VStr (pending_stage_id s)),
      (''pending_rule_id'', VStr (pending_rule_id s)),
      (''pending_rule_type'', VStr (pending_rule_type s)),
      (''pending_activation_id'', VStr (pending_activation_id s)),
      (''pending_requested_volume'', VInt (pending_requested_volume s)),
      (''pending_requested_amount_cny'', VFloat (pending_requested_amount_cny s)),
      (''pending_filled_volume'', VInt (pending_filled_volume s)),
      (''pending_filled_amount_cny'', VFloat (pending_filled_amount_cny s)),
      (''reserved_amount_cny'', VFloat (reserved_amount_cny s)),
      (''order_terminal_seen'', VBool (order_terminal_seen s)),
      (''terminal_expected_filled_volume'', v_opt_int (terminal_expected_filled_volume s)),
      (''trade_reconciled'', VBool (trade_reconciled s)),
      (''rule_state'', v_dict VDict (rule_state s)),
      (''rule_activation_counts'', v_dict VInt (rule_activation_counts s)),
      (''completed_rule_ids'', v_strs (sorted_list_of_set (completed_rule_ids s))),
      (''completed_activation_ids'', v_strs (sorted_list_of_set (completed_activation_ids s))),
      (''rule_filled_volumes'', v_dict VInt (rule_filled_volumes s)),
      (''rule_filled_amounts_cny'', v_dict VFloat (rule_filled_amounts_cny s)),
      (''daily_order_counts'', v_dict VInt (daily_order_counts s)),
      (''daily_filled_amounts_cny'', v_dict VFloat (daily_filled_amounts_cny s)),
      (''last_fill_at_ms'', v_opt_int (last_fill_at_ms s)),
      (''last_intent_at_ms'', v_opt_int (last_intent_at_ms s)),
      (''retry_after_ms'', v_opt_int (retry_after_ms s)),
      (''last_decision'', VDict (last_decision s)),
      (''data_quality'', VStr (data_quality s)),
      (''processed_trade_keys'', v_strs (processed_trade_keys s))]"

text \<open>
  \<open>from_dict\<close> passes the stored values to the constructor as they are. The readers below accept a
  value of the field's declared type; \<open>None\<close> means that some value has another type, which the
  typed record cannot hold, and says nothing about what the code does then.
\<close>

fun as_str :: "pyval \<Rightarrow> string option" where
  "as_str (VStr s) = Some s"
| "as_str _ = None"

fun as_int :: "pyval \<Rightarrow> int option" where
  "as_int (VInt n) = Some n"
| "as_int _ = None"

fun as_float :: "pyval \<Rightarrow> pyfloat option" where
  "as_float (VFloat x) = Some x"
| "as_float _ = None"

fun as_bool :: "pyval \<Rightarrow> bool option" where
  "as_bool (VBool b) = Some b"
| "as_bool _ = None"

fun as_opt_int :: "pyval \<Rightarrow> int option option" where
  "as_opt_int VNone = Some None"
| "as_opt_int (VInt n) = Some (Some n)"
| "as_opt_int _ = None"

fun as_pydict :: "pyval \<Rightarrow> pydict option" where
  "as_pydict (VDict d) = Some d"
| "as_pydict _ = None"

fun as_strs :: "pyval \<Rightarrow> string list option" where
  "as_strs (VList xs) = those (map as_str xs)"
| "as_strs _ = None"

fun as_dict :: "(pyval \<Rightarrow> 'v option) \<Rightarrow> pyval \<Rightarrow> (string, 'v) dict option" where
  "as_dict f (VDict d) = those (map (\<lambda>(k, v). map_option (Pair k) (f v)) d)"
| "as_dict f _ = None"

text \<open>The phase, the terminal request and the expected fill, which \<open>__post_init__\<close> converts.\<close>

definition read_phase :: "pyval \<Rightarrow> EntryPlanStatus res" where
  "read_phase v = (case v of VStr s \<Rightarrow> EntryPlanStatus_of s | _ \<Rightarrow> Inl (ValueError []))"

fun is_list :: "pyval \<Rightarrow> bool" where
  "is_list (VList _) = True"
| "is_list _ = False"

definition read_terminal :: "pyval \<Rightarrow> EntryPlanStatus option res" where
  "read_terminal v =
     (if v = VNone \<or> v = VStr [] then Inr None
      else if is_mapping v \<or> is_list v then Inl TypeError
      else rbind (read_phase v) (\<lambda>t.
        if t \<in> {CANCELLED, EXPIRED} then Inr (Some t)
        else Inl (ValueError ''terminal_requested must be CANCELLED or EXPIRED'')))"

definition read_expected :: "pyval \<Rightarrow> int option res" where
  "read_expected v =
     (if v = VNone then Inr None
      else rbind (to_int v) (\<lambda>n.
        if n < 0 then Inl (ValueError ''terminal_expected_filled_volume must be non-negative'')
        else Inr (Some n)))"

definition read_id_set :: "pyval \<Rightarrow> string set res option" where
  "read_id_set v =
     (case to_list_or_empty v of
        Inl e \<Rightarrow> Some (Inl e)
      | Inr xs \<Rightarrow> map_option (\<lambda>ys. Inr (set ys)) (those (map as_str xs)))"

text \<open>A field of the stored dictionary overwrites the default of the dataclass.\<close>

definition stored ::
  "pydict \<Rightarrow> string \<Rightarrow> (pyval \<Rightarrow> 'a option) \<Rightarrow> ('a \<Rightarrow> ManagedEntryPlanState \<Rightarrow> ManagedEntryPlanState) \<Rightarrow>
   ManagedEntryPlanState option \<Rightarrow> ManagedEntryPlanState option" where
  "stored raw k f upd so =
     (case dget raw k of
        None \<Rightarrow> so
      | Some v \<Rightarrow> Option.bind so (\<lambda>s. map_option (\<lambda>x. upd x s) (f v)))"

definition stored_fields :: "pydict \<Rightarrow> ManagedEntryPlanState option" where
  "stored_fields raw =
     fold (\<lambda>g. g)
       [stored raw ''terminal_request_reason'' as_str (\<lambda>x s. s\<lparr>terminal_request_reason := x\<rparr>),
        stored raw ''filled_volume'' as_int (\<lambda>x s. s\<lparr>filled_volume := x\<rparr>),
        stored raw ''filled_amount_cny'' as_float (\<lambda>x s. s\<lparr>filled_amount_cny := x\<rparr>),
        stored raw ''pending_intent_id'' as_str (\<lambda>x s. s\<lparr>pending_intent_id := x\<rparr>),
        stored raw ''pending_stage_id'' as_str (\<lambda>x s. s\<lparr>pending_stage_id := x\<rparr>),
        stored raw ''pending_rule_id'' as_str (\<lambda>x s. s\<lparr>pending_rule_id := x\<rparr>),
        stored raw ''pending_rule_type'' as_str (\<lambda>x s. s\<lparr>pending_rule_type := x\<rparr>),
        stored raw ''pending_activation_id'' as_str (\<lambda>x s. s\<lparr>pending_activation_id := x\<rparr>),
        stored raw ''pending_requested_volume'' as_int (\<lambda>x s. s\<lparr>pending_requested_volume := x\<rparr>),
        stored raw ''pending_requested_amount_cny'' as_float (\<lambda>x s. s\<lparr>pending_requested_amount_cny := x\<rparr>),
        stored raw ''pending_filled_volume'' as_int (\<lambda>x s. s\<lparr>pending_filled_volume := x\<rparr>),
        stored raw ''pending_filled_amount_cny'' as_float (\<lambda>x s. s\<lparr>pending_filled_amount_cny := x\<rparr>),
        stored raw ''reserved_amount_cny'' as_float (\<lambda>x s. s\<lparr>reserved_amount_cny := x\<rparr>),
        stored raw ''order_terminal_seen'' as_bool (\<lambda>x s. s\<lparr>order_terminal_seen := x\<rparr>),
        stored raw ''trade_reconciled'' as_bool (\<lambda>x s. s\<lparr>trade_reconciled := x\<rparr>),
        stored raw ''rule_state'' (as_dict as_pydict) (\<lambda>x s. s\<lparr>rule_state := x\<rparr>),
        stored raw ''rule_activation_counts'' (as_dict as_int) (\<lambda>x s. s\<lparr>rule_activation_counts := x\<rparr>),
        stored raw ''rule_filled_volumes'' (as_dict as_int) (\<lambda>x s. s\<lparr>rule_filled_volumes := x\<rparr>),
        stored raw ''rule_filled_amounts_cny'' (as_dict as_float) (\<lambda>x s. s\<lparr>rule_filled_amounts_cny := x\<rparr>),
        stored raw ''daily_order_counts'' (as_dict as_int) (\<lambda>x s. s\<lparr>daily_order_counts := x\<rparr>),
        stored raw ''daily_filled_amounts_cny'' (as_dict as_float) (\<lambda>x s. s\<lparr>daily_filled_amounts_cny := x\<rparr>),
        stored raw ''last_fill_at_ms'' as_opt_int (\<lambda>x s. s\<lparr>last_fill_at_ms := x\<rparr>),
        stored raw ''last_intent_at_ms'' as_opt_int (\<lambda>x s. s\<lparr>last_intent_at_ms := x\<rparr>),
        stored raw ''retry_after_ms'' as_opt_int (\<lambda>x s. s\<lparr>retry_after_ms := x\<rparr>),
        stored raw ''last_decision'' as_pydict (\<lambda>x s. s\<lparr>last_decision := x\<rparr>),
        stored raw ''data_quality'' as_str (\<lambda>x s. s\<lparr>data_quality := x\<rparr>),
        stored raw ''processed_trade_keys'' as_strs (\<lambda>x s. s\<lparr>processed_trade_keys := x\<rparr>)]
       (Some new_entry_state)"

definition ManagedEntryPlanState_from_dict :: "pydict \<Rightarrow> ManagedEntryPlanState res option" where
  "ManagedEntryPlanState_from_dict raw =
     Option.bind (stored_fields raw) (\<lambda>s.
     Option.bind (read_id_set (vget_or raw ''completed_rule_ids'' (VList []))) (\<lambda>rules.
     Option.bind (read_id_set (vget_or raw ''completed_activation_ids'' (VList []))) (\<lambda>acts. Some (
       rbind (read_phase (vget_or raw ''phase'' (VStr ''ARMED''))) (\<lambda>p.
       rbind (read_terminal (vget_or raw ''terminal_requested'' VNone)) (\<lambda>t.
       rbind (read_expected (vget_or raw ''terminal_expected_filled_volume'' VNone)) (\<lambda>n.
       rbind rules (\<lambda>rs.
       rbind acts (\<lambda>activations.
         Inr (s\<lparr>phase := p, terminal_requested := t, terminal_expected_filled_volume := n,
                completed_rule_ids := rs, completed_activation_ids := activations\<rparr>))))))))))"

end
