(* ===== verification/Entry_Evaluator.thy ===== *)
theory Entry_Evaluator
  imports Entry_Plan
begin

text \<open>
  How a managed entry plan decides (\<open>EntryGapCalculator\<close>, the built-in rules, the rule registry and
  \<open>ManagedEntryPlanEvaluator\<close> of \<open>entry_plan.py\<close>): the remaining gap to the target, the rules that
  may trigger a tranche, and the evaluation that turns one context into at most one buy decision.
  A rule returns the state it leaves behind and its match, or the exception a conversion raises.
\<close>

section \<open>Gap\<close>

record EntryGapResult =
  remaining_amount_cny :: pyfloat
  remaining_volume :: "int option"
  target_reached :: bool
  pending_amount_cny :: pyfloat
  pending_volume :: int
  position_cap_remaining_cny :: pyfloat
  plan_budget_remaining_cny :: pyfloat

text \<open>\<open>math.floor\<close> of a float.\<close>

fun floor_of_float :: "pyfloat \<Rightarrow> int res" where
  "floor_of_float (Fin r) = Inr \<lfloor>r\<rfloor>"
| "floor_of_float NaN = Inl (ValueError [])"
| "floor_of_float _ = Inl OverflowError"

definition opt_or :: "'a option \<Rightarrow> 'a \<Rightarrow> 'a" where
  "opt_or x d = (case x of None \<Rightarrow> d | Some y \<Rightarrow> y)"

definition gap_current_value :: "EntryEvaluationContext \<Rightarrow> pyfloat" where
  "gap_current_value ctx =
     pmax fzero
       (if flt fzero (current_market_value_cny ctx) then current_market_value_cny ctx
        else fmul (float_of_int (current_position_volume ctx)) (executable_price ctx))"

definition gap_budget_remaining :: "EntryTargetPolicy \<Rightarrow> EntryEvaluationContext \<Rightarrow> pyfloat" where
  "gap_budget_remaining policy ctx =
     pmax fzero (fsub (fsub (max_total_amount_cny policy) (plan_filled_amount_cny ctx))
       (pending_buy_amount_cny ctx))"

definition gap_position_cap :: "EntryTargetPolicy \<Rightarrow> EntryEvaluationContext \<Rightarrow> pyfloat" where
  "gap_position_cap policy ctx =
     pmax fzero (fsub (fsub (fmul (total_equity_cny ctx) (max_position_pct policy))
       (gap_current_value ctx)) (pending_buy_amount_cny ctx))"

definition gap_calculate :: "EntryTargetPolicy \<Rightarrow> EntryEvaluationContext \<Rightarrow> EntryGapResult res" where
  "gap_calculate policy ctx =
     (let price = executable_price ctx; pending_amount = pending_buy_amount_cny ctx;
          pending_vol = pending_buy_volume ctx; current_value = gap_current_value ctx;
          budget = gap_budget_remaining policy ctx; cap = gap_position_cap policy ctx;
          result = (\<lambda>amount vol reached.
            \<lparr>remaining_amount_cny = amount, remaining_volume = vol, target_reached = reached,
             pending_amount_cny = pending_amount, pending_volume = pending_vol,
             position_cap_remaining_cny = cap, plan_budget_remaining_cny = budget\<rparr>)
      in if fle price fzero \<or> fle (total_equity_cny ctx) fzero then
           Inr \<lparr>remaining_amount_cny = fzero, remaining_volume = None, target_reached = False,
                 pending_amount_cny = fzero, pending_volume = 0,
                 position_cap_remaining_cny = fzero, plan_budget_remaining_cny = fzero\<rparr>
         else case target_mode policy of
             TARGET_POSITION_PCT \<Rightarrow>
               (let target_value = fmul (total_equity_cny ctx) (opt_or (target_position_pct policy) fzero);
                    actual_gap = pmax fzero (fsub target_value current_value);
                    raw_gap = pmax fzero (fsub (fsub target_value current_value) pending_amount)
                in Inr (result (pmin (pmin raw_gap budget) cap) None (fle actual_gap EPSILON)))
           | INCREMENTAL_AMOUNT_CNY \<Rightarrow>
               (let actual_gap = pmax fzero (fsub (opt_or (incremental_amount_cny policy) fzero)
                      (plan_filled_amount_cny ctx));
                    raw_gap = pmax fzero (fsub actual_gap pending_amount)
                in Inr (result (pmin (pmin raw_gap budget) cap) None (fle actual_gap EPSILON)))
           | ADDITIONAL_VOLUME \<Rightarrow>
               (let actual = max 0 (opt_or (additional_volume policy) 0 - plan_filled_volume ctx);
                    raw_volume = max 0 (actual - pending_vol)
                in rbind (floor_of_float (fdiv (pmin budget cap) price)) (\<lambda>n.
                     let capped = min raw_volume (max 0 n)
                     in Inr (result (fmul (float_of_int capped) price) (Some capped) (actual \<le> 0)))))"

section \<open>Rules\<close>

record EntryRuleMatch =
  matched :: bool
  match_reason :: string
  suggested_amount_cny :: "pyfloat option"
  suggested_volume :: "int option"
  match_metrics :: pydict

type_synonym entry_rule_evaluator =
  "EntryRuleSpec \<Rightarrow> ManagedEntryPlanState \<Rightarrow> EntryEvaluationContext \<Rightarrow>
   (ManagedEntryPlanState \<times> EntryRuleMatch) res"

definition no_match :: "string \<Rightarrow> pydict \<Rightarrow> EntryRuleMatch" where
  "no_match reason metrics =
     \<lparr>matched = False, match_reason = reason, suggested_amount_cny = None,
      suggested_volume = None, match_metrics = metrics\<rparr>"

subsection \<open>Price ladder\<close>

definition level_id :: "pydict \<Rightarrow> string" where
  "level_id level = str_or (vget_or level ''level_id'' (VStr [])) []"

text \<open>The levels whose price is reached and that no execution has completed.\<close>

fun eligible_levels ::
  "EntryRuleSpec \<Rightarrow> ManagedEntryPlanState \<Rightarrow> EntryEvaluationContext \<Rightarrow> pydict list \<Rightarrow> pydict list res" where
  "eligible_levels rule s ctx [] = Inr []"
| "eligible_levels rule s ctx (level # ls) =
     (if level_id level = []
         \<or> spec_rule_id rule @ '':'' @ level_id level \<in> completed_activation_ids s
      then eligible_levels rule s ctx ls
      else rbind (float_or (vget level ''trigger_price'') fzero) (\<lambda>trigger.
           rbind (eligible_levels rule s ctx ls) (\<lambda>rest.
             Inr (if flt fzero trigger \<and> fle (executable_price ctx) (fadd trigger EPSILON)
                  then level # rest else rest))))"

text \<open>The sort key of a level and Python's comparison of such tuples.\<close>

type_synonym level_key = "int \<times> pyfloat \<times> string"

definition level_key :: "EntryRuleSpec \<Rightarrow> pydict \<Rightarrow> level_key res" where
  "level_key rule level =
     rbind (to_int (v_or (vget_or level ''priority'' (VInt (priority rule))) (VInt 0))) (\<lambda>p.
     rbind (float_or (vget level ''trigger_price'') fzero) (\<lambda>x.
       Inr (p, x, py_str (vget_or level ''level_id'' (VStr [])))))"

fun level_key_less :: "level_key \<Rightarrow> level_key \<Rightarrow> bool" where
  "level_key_less (p, x, i) (q, y, j) \<longleftrightarrow>
     (if p \<noteq> q then p < q else if \<not> feq x y then flt x y else i < j)"

fun best_level :: "level_key \<times> pydict \<Rightarrow> (level_key \<times> pydict) list \<Rightarrow> level_key \<times> pydict" where
  "best_level b [] = b"
| "best_level b (l # ls) = best_level (if level_key_less (fst b) (fst l) then l else b) ls"

definition price_ladder :: entry_rule_evaluator where
  "price_ladder rule s ctx =
     rbind (to_list_or_empty (vget (parameters rule) ''levels'')) (\<lambda>items.
     rbind (eligible_levels rule s ctx (map as_mapping (filter is_mapping items))) (\<lambda>eligible.
       if eligible = [] then Inr (s, no_match ''ENTRY_PRICE_LADDER_WAITING'' [])
       else rbind (rmap (\<lambda>l. rbind (level_key rule l) (\<lambda>k. Inr (k, l))) eligible) (\<lambda>keyed.
         let level = snd (best_level (hd keyed) (tl keyed));
             lid = py_str (vget level ''level_id'')
         in rbind (entry_optional_float (vget_or level ''tranche_amount_cny'' (vget level ''tranche_value''))) (\<lambda>amount.
            rbind (entry_optional_int (vget level ''tranche_volume'')) (\<lambda>volume.
            rbind (float_or (vget level ''trigger_price'') fzero) (\<lambda>trigger.
              Inr (s\<lparr>rule_state :=
                       dset (spec_rule_id rule)
                         (dset ''matched_level_id'' (VStr lid)
                            (dget_or (rule_state s) (spec_rule_id rule) []))
                         (rule_state s)\<rparr>,
                   \<lparr>matched = True, match_reason = ''ENTRY_PRICE_LADDER_REACHED'',
                    suggested_amount_cny = amount, suggested_volume = volume,
                    match_metrics =
                      [(''level_id'', VStr lid),
                       (''activation_id'', VStr (spec_rule_id rule @ '':'' @ lid)),
                       (''trigger_price'', VFloat trigger),
                       (''executable_price'', VFloat (executable_price ctx))]\<rparr>)))))))"

subsection \<open>Manual trigger\<close>

definition manual_entry_trigger :: entry_rule_evaluator where
  "manual_entry_trigger rule s ctx =
     (let m = (manual_trigger_rule_id ctx = Some (spec_rule_id rule))
      in rbind (entry_optional_float (vget (parameters rule) ''tranche_amount_cny'')) (\<lambda>amount.
         rbind (entry_optional_int (vget (parameters rule) ''tranche_volume'')) (\<lambda>volume.
           Inr (s, \<lparr>matched = m,
                    match_reason = (if m then ''ENTRY_MANUAL_TRIGGER_CONFIRMED''
                                    else ''ENTRY_MANUAL_TRIGGER_WAITING''),
                    suggested_amount_cny = amount, suggested_volume = volume,
                    match_metrics = []\<rparr>))))"

subsection \<open>Trend, pullback and rebound\<close>

fun ema_step :: "pyfloat \<Rightarrow> pyfloat \<Rightarrow> pyfloat list \<Rightarrow> pyfloat" where
  "ema_step alpha r [] = r"
| "ema_step alpha r (v # vs) =
     ema_step alpha (fadd (fmul alpha v) (fmul (fsub (Fin 1) alpha) r)) vs"

fun ema :: "pyfloat list \<Rightarrow> int \<Rightarrow> pyfloat" where
  "ema [] period = fzero"
| "ema (v # vs) period =
     ema_step (fdiv (Fin 2) (fadd (float_of_int period) (Fin 1))) v vs"

text \<open>The two averages and the slope of the slow one.\<close>

record trend_view =
  trend_fast :: pyfloat
  trend_slow :: pyfloat
  trend_slope :: pyfloat
  trend_ok :: bool

definition percent_change :: "pyfloat \<Rightarrow> pyfloat \<Rightarrow> pyfloat" where
  "percent_change a b = fmul (fsub (fdiv a b) (Fin 1)) (Fin 100)"

definition view_trend :: "pyfloat list \<Rightarrow> int \<Rightarrow> int \<Rightarrow> pyfloat \<Rightarrow> trend_view" where
  "view_trend closes fast_period slow_period min_slope =
     (let fast = ema closes fast_period; slow = ema closes slow_period;
          previous = (if slow_period < int (length closes) then ema (butlast closes) slow_period else slow);
          slope = (if flt fzero previous then percent_change slow previous else fzero)
      in \<lparr>trend_fast = fast, trend_slow = slow, trend_slope = slope,
          trend_ok = (flt slow fast \<and> fle slow (last closes) \<and> fle min_slope slope)\<rparr>)"

text \<open>Where the pullback stands: phase, peak, low, the two percentages, and whether it begins now.\<close>

record pullback_view =
  pb_phase :: string
  pb_peak :: pyfloat
  pb_low :: pyfloat
  pb_pullback :: pyfloat
  pb_rebound :: pyfloat
  pb_starts :: bool

definition view_pullback ::
  "string \<Rightarrow> pyfloat \<Rightarrow> pyfloat \<Rightarrow> pyfloat \<Rightarrow> pyfloat \<Rightarrow> pullback_view" where
  "view_pullback phase0 peak0 low0 current required_pullback =
     (let phase1 = (if phase0 = ''WAITING_TREND'' then ''WAITING_PULLBACK'' else phase0);
          peak1 = pmax peak0 current;
          pullback = (if flt fzero peak1 then fmul (fdiv (fsub peak1 current) peak1) (Fin 100) else fzero);
          starts = (phase1 = ''WAITING_PULLBACK'' \<and> fle required_pullback pullback);
          phase2 = (if starts then ''WAITING_REBOUND'' else phase1);
          low1 = (if starts then current else low0);
          peak2 = (if phase1 = ''WAITING_PULLBACK'' \<and> \<not> starts then pmax peak1 current else peak1);
          low2 = (if phase2 = ''WAITING_REBOUND'' then pmin low1 current else low1)
      in \<lparr>pb_phase = phase2, pb_peak = peak2, pb_low = low2, pb_pullback = pullback,
          pb_rebound = (if flt fzero low2 then percent_change current low2 else fzero),
          pb_starts = starts\<rparr>)"

text \<open>The share of a tranche a strong or a weak trend buys.\<close>

definition tranche_multiplier :: "pydict \<Rightarrow> trend_view \<Rightarrow> pyfloat res" where
  "tranche_multiplier ps t =
     (if \<not> truthy (vget_or ps ''trend_adjustment_enabled'' (VBool True)) then Inr (Fin 1)
      else let spread = (if flt fzero (trend_slow t) then percent_change (trend_fast t) (trend_slow t)
                         else fzero)
           in rbind (float_or (vget ps ''strong_trend_spread_pct'') (Fin 1)) (\<lambda>limit.
              if fle limit spread
              then rbind (float_or (vget ps ''strong_tranche_multiplier'') (Fin 1)) (\<lambda>x.
                     Inr (pmin (Fin 1) x))
              else rbind (float_or (vget ps ''weak_tranche_multiplier'') (Fin 1)) (\<lambda>x.
                     Inr (pmin (Fin 1) (pmax x fzero)))))"

definition set_rule_state ::
  "EntryRuleSpec \<Rightarrow> pydict \<Rightarrow> ManagedEntryPlanState \<Rightarrow> ManagedEntryPlanState" where
  "set_rule_state rule rs s = s\<lparr>rule_state := dset (spec_rule_id rule) rs (rule_state s)\<rparr>"

definition dict_update :: "pydict \<Rightarrow> pydict \<Rightarrow> pydict" where
  "dict_update d us = fold (\<lambda>(k, v). dset k v) us d"

text \<open>The entries the rule writes on every observation in a confirmed trend.\<close>

definition pullback_entries ::
  "EntryEvaluationContext \<Rightarrow> trend_view \<Rightarrow> pullback_view \<Rightarrow> int \<Rightarrow> pydict" where
  "pullback_entries ctx t v confirmations =
     [(''phase'', VStr (pb_phase v)),
      (''last_observation_ms'', VInt (decision_time_ms ctx)),
      (''observed_peak_price'', VFloat (pb_peak v)),
      (''pullback_low_price'', VFloat (pb_low v)),
      (''pullback_pct'', VFloat (pb_pullback v)),
      (''rebound_pct'', VFloat (pb_rebound v)),
      (''confirmations'', VInt confirmations),
      (''trend_fast_ema'', VFloat (trend_fast t)),
      (''trend_slow_ema'', VFloat (trend_slow t)),
      (''slow_ema_slope_pct'', VFloat (trend_slope t))]"

text \<open>The end of the rule: its state, the size of the tranche and the match.\<close>

definition pullback_result ::
  "EntryRuleSpec \<Rightarrow> ManagedEntryPlanState \<Rightarrow> trend_view \<Rightarrow> bool \<Rightarrow> pydict \<Rightarrow>
   (ManagedEntryPlanState \<times> EntryRuleMatch) res" where
  "pullback_result rule s t m rs1 =
     (let rs2 = (if m then dset ''phase'' (VStr ''CONFIRMED'') rs1 else rs1); ps = parameters rule
      in rbind (tranche_multiplier ps t) (\<lambda>mult.
         rbind (entry_optional_float (vget ps ''tranche_amount_cny'')) (\<lambda>base.
         rbind (entry_optional_int (vget ps ''tranche_volume'')) (\<lambda>volume.
           Inr (set_rule_state rule rs2 s,
                \<lparr>matched = m,
                 match_reason = (if m then ''ENTRY_TREND_PULLBACK_CONFIRMED''
                                 else ''ENTRY_TREND_PULLBACK_WAITING''),
                 suggested_amount_cny =
                   (case base of None \<Rightarrow> None
                    | Some b \<Rightarrow> if b = fzero then None else Some (fmul b mult)),
                 suggested_volume = volume, match_metrics = rs2\<rparr>)))))"

text \<open>The second half of the rule, in a confirmed trend.\<close>

definition pullback_match ::
  "EntryRuleSpec \<Rightarrow> ManagedEntryPlanState \<Rightarrow> EntryEvaluationContext \<Rightarrow> pydict \<Rightarrow> trend_view \<Rightarrow>
   (ManagedEntryPlanState \<times> EntryRuleMatch) res" where
  "pullback_match rule s ctx rs t =
     (let ps = parameters rule; current = executable_price ctx
      in rbind (to_int (v_or (vget_or rs ''last_observation_ms'' (VInt 0)) (VInt 0))) (\<lambda>last_ms.
         rbind (float_or (vget rs ''observed_peak_price'') fzero) (\<lambda>peak0.
         rbind (float_or (vget rs ''pullback_low_price'') current) (\<lambda>low0.
         rbind (float_or (vget ps ''pullback_pct'') (Fin 1)) (\<lambda>pull.
         rbind (float_or (vget ps ''rebound_pct'') (fround (3 / 10))) (\<lambda>reb.
         rbind (to_int (v_or (vget_or ps ''confirm_observations'' (VInt 1)) (VInt 1))) (\<lambda>required.
           let v = view_pullback
                 (str_or (vget_or rs ''phase'' (VStr ''WAITING_PULLBACK'')) ''WAITING_PULLBACK'')
                 peak0 low0 current (pmax fzero pull);
               rs0 = (if pb_starts v then dset ''confirmations'' (VInt 0) rs else rs)
           in rbind (to_int (v_or (vget_or rs0 ''confirmations'' (VInt 0)) (VInt 0))) (\<lambda>before.
              let confirmations =
                    (if pb_phase v = ''WAITING_REBOUND'' \<and> last_ms < decision_time_ms ctx
                     then (if fle (pmax fzero reb) (pb_rebound v) then before + 1 else 0)
                     else before)
              in pullback_result rule s t
                   (pb_phase v = ''WAITING_REBOUND'' \<and> max 1 required \<le> confirmations)
                   (dict_update rs0 (pullback_entries ctx t v confirmations))))))))))"

definition trend_pullback_confirmation :: entry_rule_evaluator where
  "trend_pullback_confirmation rule s ctx =
     (let ps = parameters rule; closes = map observed_price (daily_observations ctx) in
     rbind (to_int (v_or (vget_or ps ''fast_ema_period'' (VInt 5)) (VInt 5))) (\<lambda>fp.
     rbind (to_int (v_or (vget_or ps ''slow_ema_period'' (VInt 20)) (VInt 20))) (\<lambda>sp.
     let fast_period = max 2 fp; slow_period = max (fast_period + 1) sp
     in if int (length closes) < slow_period then Inr (s, no_match ''ENTRY_TREND_WARMING_UP'' [])
        else rbind (float_or (vget ps ''min_slow_ema_slope_pct'') fzero) (\<lambda>min_slope.
          let t = view_trend closes fast_period slow_period min_slope;
              rs = dget_or (rule_state s) (spec_rule_id rule) []
          in if \<not> trend_ok t then
               let rs1 = dict_update rs
                     [(''phase'', VStr ''WAITING_TREND''),
                      (''trend_fast_ema'', VFloat (trend_fast t)),
                      (''trend_slow_ema'', VFloat (trend_slow t)),
                      (''slow_ema_slope_pct'', VFloat (trend_slope t))]
               in Inr (set_rule_state rule rs1 s, no_match ''ENTRY_TREND_NOT_CONFIRMED'' rs1)
             else pullback_match rule s ctx rs t))))"

section \<open>Registry\<close>

type_synonym entry_registry = "(string, entry_rule_evaluator) dict"

definition entry_register :: "string \<Rightarrow> entry_rule_evaluator \<Rightarrow> entry_registry \<Rightarrow> entry_registry res" where
  "entry_register rule_type e reg =
     (let key = upper rule_type
      in if key = [] then Inl (ValueError ''entry rule type is required'') else Inr (dset key e reg))"

definition entry_builtins :: "entry_registry res" where
  "entry_builtins =
     rbind (entry_register TREND_PULLBACK_CONFIRMATION trend_pullback_confirmation []) (\<lambda>r1.
     rbind (entry_register PRICE_LADDER price_ladder r1) (\<lambda>r2.
       entry_register MANUAL_TRIGGER manual_entry_trigger r2))"

definition entry_registry_evaluate :: "entry_registry \<Rightarrow> entry_rule_evaluator" where
  "entry_registry_evaluate reg rule s ctx =
     (case dget reg (spec_rule_type rule) of
        None \<Rightarrow> Inr (s, no_match ''ENTRY_RULE_NOT_REGISTERED'' [])
      | Some e \<Rightarrow> e rule s ctx)"

section \<open>Guards\<close>

fun causal_from :: "int \<Rightarrow> CausalPriceObservation list \<Rightarrow> int \<Rightarrow> bool" where
  "causal_from previous [] now = True"
| "causal_from previous (ob # obs) now =
     (if now < timestamp_ms ob \<or> timestamp_ms ob < previous then False
      else if fle (observed_price ob) fzero then False
      else causal_from (timestamp_ms ob) obs now)"

definition causal :: "CausalPriceObservation list \<Rightarrow> int \<Rightarrow> bool" where
  "causal obs now = causal_from (- 1) obs now"

text \<open>The guards that look at the plan and the switches of the account.\<close>

definition plan_block_reason ::
  "ManagedEntryPlanConfig \<Rightarrow> ManagedEntryPlanState \<Rightarrow> EntryEvaluationContext \<Rightarrow> string" where
  "plan_block_reason config s ctx =
     (if instrument_code ctx \<noteq> config_instrument_code config then ''ENTRY_INSTRUMENT_MISMATCH''
      else if phase s \<in> TERMINAL_ENTRY_PHASES then ''ENTRY_PLAN_'' @ EntryPlanStatus_value (phase s)
      else if terminal_requested s \<noteq> None
        then ''ENTRY_PLAN_'' @ EntryPlanStatus_value (the (terminal_requested s))
      else if phase s \<in> {PAUSED, DRAINING} then ''ENTRY_PLAN_'' @ EntryPlanStatus_value (phase s)
      else if has_pending s then ''ENTRY_PENDING_EXISTS''
      else if kill_switch ctx then ''ENTRY_KILL_SWITCHED''
      else if only_risk_reduction ctx then ''ENTRY_RISK_REDUCTION_ONLY''
      else if \<not> allow_buy ctx \<or> \<not> allow_bucket_buy ctx then ''ENTRY_BUY_NOT_ALLOWED''
      else if conflicting_sell ctx then ''ENTRY_CONFLICTING_SELL''
      else if \<not> market_ready ctx then ''ENTRY_MARKET_NOT_READY''
      else if upper (context_data_quality ctx) \<noteq> ''OK'' then ''ENTRY_DATA_INSUFFICIENT''
      else if fle (executable_price ctx) fzero \<or> fle (total_equity_cny ctx) fzero
        then ''ENTRY_SNAPSHOT_INCOMPLETE''
      else if flt (fadd (max_buy_price (completion_policy config)) EPSILON) (executable_price ctx)
        then ''ENTRY_MAX_BUY_PRICE_EXCEEDED''
      else [])"

definition pacing_block_reason ::
  "ManagedEntryPlanConfig \<Rightarrow> ManagedEntryPlanState \<Rightarrow> EntryEvaluationContext \<Rightarrow> string" where
  "pacing_block_reason config s ctx =
     (let now = decision_time_ms ctx; pacing = pacing_policy config
      in if (case retry_after_ms s of None \<Rightarrow> False | Some t \<Rightarrow> now < t) then ''ENTRY_REJECT_COOLDOWN''
         else if (case last_intent_at_ms s of None \<Rightarrow> False
                  | Some t \<Rightarrow> now < t + min_interval_seconds pacing * 1000)
           then ''ENTRY_MIN_INTERVAL''
         else if max_orders_per_day pacing
                 \<le> max (daily_order_count ctx) (dget_or (daily_order_counts s) (trade_date ctx) 0)
           then ''ENTRY_DAILY_ORDER_LIMIT''
         else if \<not> causal (daily_observations ctx) now then ''ENTRY_FUTURE_DATA_REJECTED''
         else if \<not> causal (intraday_observations ctx) now then ''ENTRY_FUTURE_DATA_REJECTED''
         else [])"

text \<open>\<open>_block_reason\<close>: an expired plan asks for its own end before it answers.\<close>

definition block_reason ::
  "ManagedEntryPlanConfig \<Rightarrow> ManagedEntryPlanState \<Rightarrow> EntryEvaluationContext \<Rightarrow>
   (ManagedEntryPlanState \<times> string) res" where
  "block_reason config s ctx =
     (let r = plan_block_reason config s ctx
      in if r \<noteq> [] then Inr (s, r)
         else if (case expire_at_ms (completion_policy config) of None \<Rightarrow> False
                  | Some t \<Rightarrow> t \<le> decision_time_ms ctx)
           then rbind (request_terminal EXPIRED ''ENTRY_PLAN_EXPIRED'' False s) (\<lambda>s1.
                  Inr (s1, ''ENTRY_PLAN_EXPIRED''))
         else Inr (s, pacing_block_reason config s ctx))"

section \<open>Evaluation\<close>

record EntryDecision =
  decision_plan_id :: string
  decision_config_version :: int
  decision_rule_id :: string
  decision_rule_type :: string
  stage_id :: string
  intent_id :: string
  business_key :: string
  target_amount_cny :: "pyfloat option"
  target_volume :: "int option"
  decision_reason :: string
  decision_metrics :: pydict

record EntryEvaluationResult =
  result_state :: ManagedEntryPlanState
  decision :: "EntryDecision option"
  result_reason :: string
  gap :: "EntryGapResult option"

definition no_decision ::
  "ManagedEntryPlanState \<Rightarrow> EntryEvaluationContext \<Rightarrow> string \<Rightarrow> EntryGapResult option \<Rightarrow>
   EntryEvaluationResult" where
  "no_decision s ctx reason g =
     \<lparr>result_state = s\<lparr>last_decision := [(''decision_time_ms'', VInt (decision_time_ms ctx)),
                                        (''reason'', VStr reason)]\<rparr>,
      decision = None, result_reason = reason, gap = g\<rparr>"

definition entry_amount_cap ::
  "ManagedEntryPlanConfig \<Rightarrow> EntryEvaluationContext \<Rightarrow> EntryGapResult \<Rightarrow> pyfloat" where
  "entry_amount_cap config ctx g =
     (let pacing = pacing_policy config;
          daily_used = pmax fzero (daily_filled_amount_cny ctx);
          caps = [max_single_intent_amount_cny pacing,
                  pmax fzero (fsub (max_daily_filled_amount_cny pacing) daily_used)]
            @ (case risk_max_buy_amount_cny ctx of None \<Rightarrow> [] | Some x \<Rightarrow> [pmax fzero x])
            @ (case liquidity_cap_cny ctx of None \<Rightarrow> [] | Some x \<Rightarrow> [pmax fzero x])
      in pmax fzero (foldl pmin (remaining_amount_cny g) caps))"

text \<open>The rules that match, in the order of the configuration, and the state they leave behind.\<close>

fun match_rules ::
  "entry_registry \<Rightarrow> EntryEvaluationContext \<Rightarrow> EntryRuleSpec list \<Rightarrow> ManagedEntryPlanState \<Rightarrow>
   (ManagedEntryPlanState \<times> (EntryRuleSpec \<times> EntryRuleMatch) list) res" where
  "match_rules reg ctx [] s = Inr (s, [])"
| "match_rules reg ctx (r # rs) s =
     (if \<not> enabled r \<or> spec_rule_id r \<in> completed_rule_ids s then match_rules reg ctx rs s
      else rbind (entry_registry_evaluate reg r s ctx) (\<lambda>(s1, m).
           rbind (match_rules reg ctx rs s1) (\<lambda>(s2, ms).
             Inr (s2, if matched m then (r, m) # ms else ms))))"

text \<open>\<open>max(matches, key=priority)\<close>: the first of the greatest.\<close>

fun best_entry_match ::
  "EntryRuleSpec \<times> EntryRuleMatch \<Rightarrow> (EntryRuleSpec \<times> EntryRuleMatch) list \<Rightarrow>
   EntryRuleSpec \<times> EntryRuleMatch" where
  "best_entry_match b [] = b"
| "best_entry_match b (m # ms) = best_entry_match (if priority (fst b) < priority (fst m) then m else b) ms"

definition ENTRY_INTENT_NAMESPACE :: "nat list" where
  "ENTRY_INTENT_NAMESPACE =
     [247, 108, 53, 191, 191, 222, 72, 210, 167, 214, 118, 140, 23, 229, 157, 118]"

text \<open>Issue the decision: the identifiers, the reservation of the state and the record returned.\<close>

definition issue_decision ::
  "ManagedEntryPlanConfig \<Rightarrow> ManagedEntryPlanState \<Rightarrow> EntryEvaluationContext \<Rightarrow> EntryGapResult \<Rightarrow>
   EntryRuleSpec \<Rightarrow> EntryRuleMatch \<Rightarrow> pyfloat option \<Rightarrow> int option \<Rightarrow> pyfloat \<Rightarrow>
   EntryEvaluationResult" where
  "issue_decision config s ctx g rule m t_amount t_volume reserved =
     (let rid = spec_rule_id rule;
          activation = dget_or (rule_activation_counts s) rid 0 + 1;
          key = plan_id ctx @ '':'' @ string_of_int (config_version config) @ '':'' @ rid @ '':''
                  @ string_of_int activation;
          intent = uuid5 ENTRY_INTENT_NAMESPACE key;
          stage = ''entry-stage:'' @ uuid5 ENTRY_INTENT_NAMESPACE (key @ '':stage'')
      in \<lparr>result_state =
            s\<lparr>rule_activation_counts := dset rid activation (rule_activation_counts s),
              daily_order_counts :=
                dset (trade_date ctx) (dget_or (daily_order_counts s) (trade_date ctx) 0 + 1)
                  (daily_order_counts s),
              pending_intent_id := intent, pending_stage_id := stage,
              pending_rule_id := rid, pending_rule_type := spec_rule_type rule,
              pending_activation_id :=
                py_str (v_or (vget (match_metrics m) ''activation_id'')
                  (VStr (if once rule then rid else rid @ '':'' @ string_of_int activation))),
              pending_requested_volume := opt_or t_volume 0,
              pending_requested_amount_cny := f_or (opt_or t_amount fzero) reserved,
              pending_filled_volume := 0, pending_filled_amount_cny := fzero,
              reserved_amount_cny := reserved, order_terminal_seen := False,
              terminal_expected_filled_volume := None, trade_reconciled := False,
              last_intent_at_ms := Some (decision_time_ms ctx),
              phase := (if authorization_mode (execution_policy config) = MANUAL_CONFIRM
                        then AWAITING_APPROVAL else ENTRY_PENDING),
              last_decision := [(''decision_time_ms'', VInt (decision_time_ms ctx)),
                                (''reason'', VStr (match_reason m)), (''rule_id'', VStr rid),
                                (''intent_id'', VStr intent)]\<rparr>,
          decision =
            Some \<lparr>decision_plan_id = plan_id ctx, decision_config_version = config_version config,
                  decision_rule_id = rid, decision_rule_type = spec_rule_type rule,
                  stage_id = stage, intent_id = intent, business_key = key,
                  target_amount_cny = t_amount, target_volume = t_volume,
                  decision_reason = match_reason m,
                  decision_metrics =
                    dict_update (match_metrics m)
                      [(''remaining_gap_cny'', VFloat (remaining_amount_cny g)),
                       (''position_cap_remaining_cny'', VFloat (position_cap_remaining_cny g)),
                       (''plan_budget_remaining_cny'', VFloat (plan_budget_remaining_cny g)),
                       (''activation'', VInt activation)]\<rparr>,
          result_reason = match_reason m, gap = Some g\<rparr>)"

text \<open>The size of the tranche the best match asks for.\<close>

definition size_decision ::
  "ManagedEntryPlanConfig \<Rightarrow> ManagedEntryPlanState \<Rightarrow> EntryEvaluationContext \<Rightarrow> EntryGapResult \<Rightarrow>
   EntryRuleSpec \<times> EntryRuleMatch \<Rightarrow> EntryEvaluationResult res" where
  "size_decision config s ctx g rm =
     (let rule = fst rm; m = snd rm; cap0 = entry_amount_cap config ctx g;
          cap = (case suggested_amount_cny m of None \<Rightarrow> cap0 | Some a \<Rightarrow> pmin cap0 (pmax fzero a))
      in if target_mode (target_policy config) = ADDITIONAL_VOLUME then
           let left = opt_or (remaining_volume g) 0;
               asked = (case suggested_volume m of None \<Rightarrow> left | Some v \<Rightarrow> if v = 0 then left else v)
           in rbind (floor_of_float (fdiv cap (executable_price ctx))) (\<lambda>n.
                let v = min (min left asked) (max 0 n)
                in if v \<le> 0 then Inr (no_decision s ctx ''ENTRY_CAPACITY_ZERO'' (Some g))
                   else Inr (issue_decision config s ctx g rule m None (Some v)
                               (fmul (float_of_int v) (executable_price ctx))))
         else if fle cap EPSILON then Inr (no_decision s ctx ''ENTRY_CAPACITY_ZERO'' (Some g))
         else Inr (issue_decision config s ctx g rule m (Some cap) None cap))"

definition decide_entry ::
  "entry_registry \<Rightarrow> ManagedEntryPlanConfig \<Rightarrow> ManagedEntryPlanState \<Rightarrow> EntryEvaluationContext \<Rightarrow>
   EntryGapResult \<Rightarrow> EntryEvaluationResult res" where
  "decide_entry reg config s ctx g =
     (if target_reached g \<and> stop_when_target_reached (completion_policy config)
      then Inr (no_decision (s\<lparr>phase := COMPLETED\<rparr>) ctx ''ENTRY_TARGET_REACHED'' (Some g))
      else if fle (fsub (max_total_amount_cny (target_policy config)) (plan_filled_amount_cny ctx)) EPSILON
              \<and> stop_when_budget_exhausted (completion_policy config)
      then Inr (no_decision (s\<lparr>phase := COMPLETED\<rparr>) ctx ''ENTRY_BUDGET_EXHAUSTED'' (Some g))
      else if fle (remaining_amount_cny g) EPSILON
      then Inr (no_decision s ctx ''ENTRY_CAPACITY_ZERO'' (Some g))
      else rbind (match_rules reg ctx (trigger_rules config) s) (\<lambda>(s1, ms).
        case ms of
          [] \<Rightarrow> Inr (no_decision s1 ctx ''ENTRY_RULES_NOT_MATCHED'' (Some g))
        | m # rest \<Rightarrow> size_decision config s1 ctx g (best_entry_match m rest)))"

definition evaluate_entry ::
  "entry_registry \<Rightarrow> ManagedEntryPlanConfig \<Rightarrow> ManagedEntryPlanState \<Rightarrow> EntryEvaluationContext \<Rightarrow>
   EntryEvaluationResult res" where
  "evaluate_entry reg config s0 ctx =
     (let s = s0\<lparr>data_quality := upper (if context_data_quality ctx = [] then ''INSUFFICIENT''
                                         else context_data_quality ctx)\<rparr>
      in rbind (block_reason config s ctx) (\<lambda>(s1, block).
           if block \<noteq> [] then Inr (no_decision s1 ctx block None)
           else rbind (gap_calculate (target_policy config) ctx) (decide_entry reg config s1 ctx)))"

end
