(* ===== verification/Entry_Facts.thy ===== *)
theory Entry_Facts
  imports Entry_Evaluator
begin

text \<open>
  The contract of the entry rules (locale \<open>entry_rule_registry\<close>, interpreted on the built-in rules as
  \<open>entry_rules\<close>), the four outcomes of an evaluation, the invariant of a managed entry plan and the
  proof that every operation keeps it, and the runs of a plan as a step relation with its closure.
\<close>

section \<open>The contract of a rule\<close>

text \<open>A rule may change the state rules keep for themselves, and nothing else.\<close>

definition rules_only :: "ManagedEntryPlanState \<Rightarrow> ManagedEntryPlanState \<Rightarrow> bool" where
  "rules_only s t \<longleftrightarrow> t = s\<lparr>rule_state := rule_state t\<rparr>"

lemma rules_only_refl [simp]: "rules_only s s"
  by (simp add: rules_only_def)

lemma rules_only_trans: "rules_only s t \<Longrightarrow> rules_only t u \<Longrightarrow> rules_only s u"
  unfolding rules_only_def by (cases s, cases t, cases u) simp

lemma rules_only_update [simp]: "rules_only s (s\<lparr>rule_state := d\<rparr>)"
  by (simp add: rules_only_def)

lemma rules_only_set [simp]: "rules_only s (set_rule_state rule rs s)"
  by (simp add: set_rule_state_def)

lemma rules_only_completed: "rules_only s t \<Longrightarrow> completed_rule_ids t = completed_rule_ids s"
  by (cases s; cases t) (simp add: rules_only_def)

locale entry_rule_registry =
  fixes reg :: entry_registry
  assumes rule_frame: "dget reg k = Some e \<Longrightarrow> e rule s ctx = Inr (t, m) \<Longrightarrow> rules_only s t"
begin

lemma registry_frame: "entry_registry_evaluate reg rule s ctx = Inr (t, m) \<Longrightarrow> rules_only s t"
  by (auto simp: entry_registry_evaluate_def split: option.splits intro: rule_frame)

lemma match_rules_frame: "match_rules reg ctx rs s = Inr (t, ms) \<Longrightarrow> rules_only s t"
  by (induction rs arbitrary: s t ms)
    (auto simp: res_simps split: if_splits intro: rules_only_trans registry_frame)

text \<open>Every match comes from an enabled rule of the plan that no execution has completed.\<close>

lemma match_rules_from:
  "match_rules reg ctx rs s = Inr (t, ms) \<Longrightarrow> (r, m) \<in> set ms \<Longrightarrow>
     r \<in> set rs \<and> enabled r \<and> spec_rule_id r \<notin> completed_rule_ids s \<and> matched m"
proof (induction rs arbitrary: s t ms)
  case (Cons a rs)
  show ?case
  proof (cases "\<not> enabled a \<or> spec_rule_id a \<in> completed_rule_ids s")
    case True
    with Cons show ?thesis by auto
  next
    case False
    with Cons.prems obtain s1 m1 t1 ms1 where
      s1: "entry_registry_evaluate reg a s ctx = Inr (s1, m1)"
      and rest: "match_rules reg ctx rs s1 = Inr (t1, ms1)"
      and ms: "ms = (if matched m1 then (a, m1) # ms1 else ms1)"
      by (auto simp: res_simps)
    have "completed_rule_ids s1 = completed_rule_ids s"
      using registry_frame [OF s1] by (rule rules_only_completed)
    with Cons.IH [OF rest] Cons.prems(2) ms False show ?thesis by (auto split: if_splits)
  qed
qed simp

end

definition builtin_registry :: entry_registry where
  "builtin_registry =
     [(TREND_PULLBACK_CONFIRMATION, trend_pullback_confirmation), (PRICE_LADDER, price_ladder),
      (MANUAL_TRIGGER, manual_entry_trigger)]"

lemma entry_builtins_eq: "entry_builtins = Inr builtin_registry"
  by (simp add: entry_builtins_def entry_register_def builtin_registry_def TREND_PULLBACK_CONFIRMATION_def
      PRICE_LADDER_def MANUAL_TRIGGER_def upper_def upper_char_def dset_def Let_def)

lemma price_ladder_frame: "price_ladder rule s ctx = Inr (t, m) \<Longrightarrow> rules_only s t"
  by (auto simp: price_ladder_def res_simps Let_def split: if_splits)

lemma manual_entry_trigger_frame: "manual_entry_trigger rule s ctx = Inr (t, m) \<Longrightarrow> rules_only s t"
  by (auto simp: manual_entry_trigger_def res_simps Let_def)

lemma pullback_result_frame: "pullback_result rule s v b rs = Inr (t, m) \<Longrightarrow> rules_only s t"
  by (auto simp: pullback_result_def res_simps Let_def)

lemma pullback_match_frame: "pullback_match rule s ctx rs v = Inr (t, m) \<Longrightarrow> rules_only s t"
  unfolding pullback_match_def Let_def by (auto simp: res_simps dest: pullback_result_frame)

lemma trend_frame: "trend_pullback_confirmation rule s ctx = Inr (t, m) \<Longrightarrow> rules_only s t"
  unfolding trend_pullback_confirmation_def Let_def
  by (auto simp: res_simps dest: pullback_match_frame split: if_splits)

interpretation entry_rules: entry_rule_registry builtin_registry
  by unfold_locales
    (auto simp: builtin_registry_def split: if_splits
      intro: price_ladder_frame manual_entry_trigger_frame trend_frame)

section \<open>One evaluation\<close>

text \<open>What an evaluation without a decision may write.\<close>

definition quiet :: "ManagedEntryPlanState \<Rightarrow> ManagedEntryPlanState \<Rightarrow> bool" where
  "quiet s t \<longleftrightarrow>
     t = s\<lparr>data_quality := data_quality t, last_decision := last_decision t, rule_state := rule_state t\<rparr>"

lemma quiet_trans: "quiet s t \<Longrightarrow> quiet t u \<Longrightarrow> quiet s u"
  unfolding quiet_def by (cases s, cases t, cases u) simp

lemma quiet_simps [simp]:
  "quiet s s" "quiet s (s\<lparr>data_quality := q\<rparr>)" "quiet s (s\<lparr>last_decision := d\<rparr>)"
  by (simp_all add: quiet_def)

lemma rules_only_quiet: "rules_only s t \<Longrightarrow> quiet s t"
  unfolding quiet_def rules_only_def by (cases s, cases t) simp

lemma quiet_no_decision: "quiet s t \<Longrightarrow> quiet s (result_state (no_decision t ctx r g))"
  by (auto simp: no_decision_def intro: quiet_trans)

lemma no_decision_simps [simp]:
  "decision (no_decision s ctx r g) = None" "result_reason (no_decision s ctx r g) = r"
  by (simp_all add: no_decision_def)

text \<open>What an open plan is: every guard of the evaluation lets it through.\<close>

definition open_for_entry ::
  "ManagedEntryPlanConfig \<Rightarrow> ManagedEntryPlanState \<Rightarrow> EntryEvaluationContext \<Rightarrow> bool" where
  "open_for_entry config s ctx \<longleftrightarrow>
     plan_block_reason config s ctx = [] \<and> pacing_block_reason config s ctx = []
     \<and> (case expire_at_ms (completion_policy config) of None \<Rightarrow> True | Some t \<Rightarrow> decision_time_ms ctx < t)"

lemma plan_block_free:
  assumes "plan_block_reason config s ctx = []"
  shows "\<not> has_pending s" "terminal_requested s = None" "phase s \<notin> TERMINAL_ENTRY_PHASES"
    "phase s \<notin> {PAUSED, DRAINING}" "\<not> kill_switch ctx" "\<not> only_risk_reduction ctx"
    "allow_buy ctx" "allow_bucket_buy ctx" "\<not> conflicting_sell ctx" "market_ready ctx"
    "instrument_code ctx = config_instrument_code config"
    "\<not> flt (fadd (max_buy_price (completion_policy config)) EPSILON) (executable_price ctx)"
    "\<not> fle (executable_price ctx) fzero" "\<not> fle (total_equity_cny ctx) fzero"
  using assms unfolding plan_block_reason_def by (auto split: if_splits)

lemma quiet_data_quality_blocks:
  "plan_block_reason config (s\<lparr>data_quality := q\<rparr>) ctx = plan_block_reason config s ctx"
  "pacing_block_reason config (s\<lparr>data_quality := q\<rparr>) ctx = pacing_block_reason config s ctx"
  by (simp_all add: plan_block_reason_def pacing_block_reason_def has_pending_def Let_def)

text \<open>The state an expired plan is left in.\<close>

definition expired_state :: "ManagedEntryPlanState \<Rightarrow> ManagedEntryPlanState" where
  "expired_state s =
     s\<lparr>terminal_requested := Some EXPIRED, terminal_request_reason := ''ENTRY_PLAN_EXPIRED'',
       phase := EXPIRED\<rparr>"

lemma block_reason_cases:
  assumes "block_reason config s ctx = Inr (t, r)"
  obtains (blocked) "t = s" "r \<noteq> []" | (expired) "t = expired_state s" "r \<noteq> []" "plan_block_reason config s ctx = []"
    | (free) "t = s" "r = []" "open_for_entry config s ctx"
proof (cases "plan_block_reason config s ctx = []")
  case False
  with assms show ?thesis by (intro blocked) (auto simp: block_reason_def Let_def)
next
  case True
  note unblocked = plan_block_free [OF True]
  show ?thesis
  proof (cases "case expire_at_ms (completion_policy config) of None \<Rightarrow> False | Some t \<Rightarrow> t \<le> decision_time_ms ctx")
    case yes: True
    with True assms unblocked have "t = expired_state s" "r \<noteq> []"
      by (auto simp: block_reason_def Let_def request_terminal_def expired_state_def TERMINAL_ENTRY_PHASES_def)
    with True show ?thesis by (intro expired)
  next
    case no: False
    then have alive: "case expire_at_ms (completion_policy config) of None \<Rightarrow> True | Some t \<Rightarrow> decision_time_ms ctx < t"
      by (auto split: option.splits)
    from no True assms have t: "t = s" "r = pacing_block_reason config s ctx"
      by (auto simp: block_reason_def Let_def)
    show ?thesis
    proof (cases "r = []")
      case True
      with t alive \<open>plan_block_reason config s ctx = []\<close> show ?thesis by (intro free) (auto simp: open_for_entry_def)
    next
      case False
      with t show ?thesis by (intro blocked)
    qed
  qed
qed

text \<open>
  The four outcomes of an evaluation: nothing but bookkeeping, the end of an expired plan, the
  completion of the target, or a decision that reserves the pending slot.
\<close>

context entry_rule_registry
begin

lemma decide_cases:
  assumes "decide_entry reg config s ctx g = Inr r"
  obtains (none) "decision r = None" "quiet s (result_state r)"
    | (completed) "decision r = None" "quiet (s\<lparr>phase := COMPLETED\<rparr>) (result_state r)"
    | (some) s1 rule m amt vol res where "rules_only s s1"
        "rule \<in> set (trigger_rules config)" "enabled rule" "spec_rule_id rule \<notin> completed_rule_ids s"
        "matched m" "\<not> fle (remaining_amount_cny g) EPSILON"
        "r = issue_decision config s1 ctx g rule m amt vol res"
        "size_decision config s1 ctx g (rule, m) = Inr r"
proof -
  consider (c) "r = no_decision (s\<lparr>phase := COMPLETED\<rparr>) ctx ''ENTRY_TARGET_REACHED'' (Some g)
      \<or> r = no_decision (s\<lparr>phase := COMPLETED\<rparr>) ctx ''ENTRY_BUDGET_EXHAUSTED'' (Some g)"
    | (z) "r = no_decision s ctx ''ENTRY_CAPACITY_ZERO'' (Some g)"
    | (m) s1 ms where "\<not> fle (remaining_amount_cny g) EPSILON"
        "match_rules reg ctx (trigger_rules config) s = Inr (s1, ms)"
        "(case ms of [] \<Rightarrow> Inr (no_decision s1 ctx ''ENTRY_RULES_NOT_MATCHED'' (Some g))
          | m # rest \<Rightarrow> size_decision config s1 ctx g (best_entry_match m rest)) = Inr r"
    using assms unfolding decide_entry_def by (auto simp: res_simps split: if_splits)
  then show ?thesis
  proof cases
    case c
    then show ?thesis by (intro completed) (auto simp: quiet_no_decision)
  next
    case z
    then show ?thesis by (intro none) (auto simp: quiet_no_decision)
  next
    case m
    have frame: "rules_only s s1" using m(2) by (rule match_rules_frame)
    show ?thesis
    proof (cases ms)
      case Nil
      with m frame show ?thesis by (intro none) (auto simp: quiet_no_decision rules_only_quiet)
    next
      case (Cons b rest)
      obtain rule m' where best: "best_entry_match b rest = (rule, m')" by fastforce
      have "best_entry_match b rest \<in> insert b (set rest)"
        by (induction rest arbitrary: b) (auto split: if_splits)
      with best Cons have "(rule, m') \<in> set ms" by auto
      note from_rule = match_rules_from [OF m(2) this]
      from m(3) Cons best have sd: "size_decision config s1 ctx g (rule, m') = Inr r" by simp
      then have "r = no_decision s1 ctx ''ENTRY_CAPACITY_ZERO'' (Some g)
        \<or> (\<exists>amt vol res. r = issue_decision config s1 ctx g rule m' amt vol res)"
        unfolding size_decision_def Let_def by (auto simp: res_simps split: if_splits)
      then show ?thesis
      proof
        assume "r = no_decision s1 ctx ''ENTRY_CAPACITY_ZERO'' (Some g)"
        with frame show ?thesis by (intro none) (auto simp: quiet_no_decision rules_only_quiet)
      next
        assume "\<exists>amt vol res. r = issue_decision config s1 ctx g rule m' amt vol res"
        with from_rule frame m(1) sd some show ?thesis by blast
      qed
    qed
  qed
qed

lemma evaluate_cases:
  assumes "evaluate_entry reg config s ctx = Inr r"
  obtains (none) "decision r = None" "quiet s (result_state r)"
    | (expired) "decision r = None" "plan_block_reason config s ctx = []" "quiet (expired_state s) (result_state r)"
    | (completed) "decision r = None" "plan_block_reason config s ctx = []" "quiet (s\<lparr>phase := COMPLETED\<rparr>) (result_state r)"
    | (some) s1 g rule m amt vol res where "open_for_entry config s ctx" "quiet s s1"
        "gap_calculate (target_policy config) ctx = Inr g"
        "rule \<in> set (trigger_rules config)" "enabled rule" "spec_rule_id rule \<notin> completed_rule_ids s"
        "matched m" "\<not> fle (remaining_amount_cny g) EPSILON"
        "r = issue_decision config s1 ctx g rule m amt vol res"
        "size_decision config s1 ctx g (rule, m) = Inr r"
proof -
  define q where "q = upper (if context_data_quality ctx = [] then ''INSUFFICIENT'' else context_data_quality ctx)"
  define s0 where "s0 = s\<lparr>data_quality := q\<rparr>"
  have q0: "quiet s s0" by (simp add: s0_def)
  have blocks: "plan_block_reason config s0 ctx = plan_block_reason config s ctx"
    "open_for_entry config s0 ctx = open_for_entry config s ctx"
    by (simp_all add: s0_def open_for_entry_def quiet_data_quality_blocks)
  from assms obtain t b where b: "block_reason config s0 ctx = Inr (t, b)"
    and r: "(if b \<noteq> [] then Inr (no_decision t ctx b None)
        else rbind (gap_calculate (target_policy config) ctx) (decide_entry reg config t ctx)) = Inr r"
    unfolding evaluate_entry_def s0_def q_def Let_def by (auto simp: res_simps)
  from b show ?thesis
  proof (cases rule: block_reason_cases)
    case blocked
    with r q0 show ?thesis by (intro none) (auto simp: quiet_no_decision)
  next
    case e: expired
    have "quiet (expired_state s) t" unfolding e(1) s0_def expired_state_def quiet_def by simp
    with e r blocks show ?thesis by (intro expired) (auto simp: quiet_no_decision)
  next
    case op: free
    with r obtain g where g: "gap_calculate (target_policy config) ctx = Inr g"
      "decide_entry reg config s0 ctx g = Inr r" by (auto simp: res_simps)
    have pb: "plan_block_reason config s ctx = []"
      using op(3) blocks by (simp add: open_for_entry_def)
    from g(2) show ?thesis
    proof (cases rule: decide_cases)
      case none
      with q0 that(1) show ?thesis by (auto intro: quiet_trans)
    next
      case completed
      have "quiet (s\<lparr>phase := COMPLETED\<rparr>) (s0\<lparr>phase := COMPLETED\<rparr>)" by (simp add: s0_def quiet_def)
      with completed pb that(3) show ?thesis by (blast intro: quiet_trans)
    next
      case (some s1 rule m amt vol res)
      have "quiet s s1" using some(1) q0 by (blast intro: quiet_trans rules_only_quiet)
      moreover have "spec_rule_id rule \<notin> completed_rule_ids s" using some(4) by (simp add: s0_def)
      ultimately show ?thesis using some op(3) blocks g(1) that(4) by blast
    qed
  qed
qed

end

section \<open>The invariant of a plan\<close>

text \<open>The pending slot: empty slots hold nothing, and the fills of a slot are fills of the plan.\<close>

definition pending_ok :: "ManagedEntryPlanState \<Rightarrow> bool" where
  "pending_ok s \<longleftrightarrow>
     (pending_intent_id s = [] \<longleftrightarrow> pending_stage_id s = [])
     \<and> (has_pending s \<or> (pending_requested_volume s = 0 \<and> pending_filled_volume s = 0
          \<and> reserved_amount_cny s = fzero \<and> \<not> order_terminal_seen s
          \<and> terminal_expected_filled_volume s = None))
     \<and> 0 \<le> pending_filled_volume s \<and> pending_filled_volume s \<le> filled_volume s
     \<and> (case terminal_expected_filled_volume s of None \<Rightarrow> True | Some n \<Rightarrow> 0 \<le> n)"

text \<open>The phase agrees with the pending slot and with the terminal request.\<close>

definition phase_ok :: "ManagedEntryPlanState \<Rightarrow> bool" where
  "phase_ok s \<longleftrightarrow>
     (phase s \<in> {AWAITING_APPROVAL, ENTRY_PENDING} \<longrightarrow> has_pending s)
     \<and> (phase s \<in> {COMPLETED, CANCELLED, EXPIRED} \<longrightarrow> \<not> has_pending s)
     \<and> terminal_requested s \<in> {None, Some CANCELLED, Some EXPIRED}
     \<and> (phase s \<in> {CANCELLED, EXPIRED} \<longrightarrow> terminal_requested s = Some (phase s))
     \<and> (phase s = DRAINING \<longrightarrow> terminal_requested s \<noteq> None)
     \<and> (terminal_requested s \<noteq> None \<longrightarrow>
          phase s \<in> {DRAINING, PAUSED, CANCELLED, EXPIRED, COMPLETED, ERROR})"

text \<open>The books: trades are remembered once, and rules never account for more than the plan.\<close>

definition books_ok :: "ManagedEntryPlanState \<Rightarrow> bool" where
  "books_ok s \<longleftrightarrow>
     length (processed_trade_keys s) \<le> 256 \<and> distinct (processed_trade_keys s)
     \<and> [] \<notin> set (processed_trade_keys s)
     \<and> distinct (dkeys (rule_filled_volumes s))
     \<and> (\<forall>v \<in> set (dvalues (rule_filled_volumes s)). 0 \<le> v)
     \<and> sum_list (dvalues (rule_filled_volumes s)) \<le> filled_volume s
     \<and> finite (completed_rule_ids s) \<and> finite (completed_activation_ids s)"

definition entry_wf :: "ManagedEntryPlanState \<Rightarrow> bool" where
  "entry_wf s \<longleftrightarrow> pending_ok s \<and> phase_ok s \<and> books_ok s"

lemmas entry_wf_defs = entry_wf_def pending_ok_def phase_ok_def books_ok_def

lemma entry_wf_new [simp]: "entry_wf new_entry_state"
  by (simp add: entry_wf_defs new_entry_state_def has_pending_def dkeys_def dvalues_def)

lemma entry_wf_bookkeeping:
  "entry_wf (s\<lparr>data_quality := q, last_decision := d, rule_state := r\<rparr>) = entry_wf s"
  by (simp add: entry_wf_defs has_pending_def)

lemma entry_wf_quiet: "quiet s t \<Longrightarrow> entry_wf s \<Longrightarrow> entry_wf t"
  unfolding quiet_def by (metis entry_wf_bookkeeping)

lemma entry_wf_last_decision [simp]: "entry_wf (s\<lparr>last_decision := d\<rparr>) = entry_wf s"
  by (simp add: entry_wf_defs has_pending_def)

section \<open>Every operation keeps the invariant\<close>

text \<open>Releasing the slot.\<close>

lemma clear_pending_simps [simp]:
  "\<not> has_pending (clear_pending s)" "phase (clear_pending s) = phase s"
  "terminal_requested (clear_pending s) = terminal_requested s"
  "filled_volume (clear_pending s) = filled_volume s"
  "last_fill_at_ms (clear_pending s) = last_fill_at_ms s"
  by (simp_all add: clear_pending_def has_pending_def)

lemma settle_pending_simps [simp]:
  "\<not> has_pending (settle_pending b s)"
  "terminal_requested (settle_pending b s) = terminal_requested s"
  "filled_volume (settle_pending b s) = filled_volume s"
  by (auto simp: settle_pending_def Let_def has_pending_def clear_pending_def split: option.split)

lemma settle_pending_books [simp]: "books_ok (settle_pending b s) = books_ok s"
  by (simp add: settle_pending_def Let_def books_ok_def clear_pending_def split: option.split)

lemma settle_pending_pending:
  "0 \<le> filled_volume s \<Longrightarrow> pending_ok (settle_pending b s)"
  by (simp add: settle_pending_def Let_def pending_ok_def clear_pending_def has_pending_def split: option.split)

lemma settle_pending_phase:
  assumes "terminal_requested s \<in> {None, Some CANCELLED, Some EXPIRED}"
    "phase s \<in> {CANCELLED, EXPIRED} \<Longrightarrow> terminal_requested s = Some (phase s)"
  shows "phase_ok (settle_pending b s)"
  using assms unfolding settle_pending_def Let_def phase_ok_def has_pending_def TERMINAL_ENTRY_PHASES_def
  by (cases "phase s") (auto simp: clear_pending_def split: option.split)

lemma entry_wf_settle:
  assumes "entry_wf s" shows "entry_wf (settle_pending b s)"
proof -
  from assms have "0 \<le> filled_volume s" "terminal_requested s \<in> {None, Some CANCELLED, Some EXPIRED}"
    "phase s \<in> {CANCELLED, EXPIRED} \<Longrightarrow> terminal_requested s = Some (phase s)" "books_ok s"
    by (auto simp: entry_wf_def pending_ok_def phase_ok_def)
  then show ?thesis
    using settle_pending_phase [of s b] by (simp add: entry_wf_def settle_pending_pending)
qed

text \<open>Terminal requests.\<close>

lemma request_terminal_shape:
  assumes "request_terminal st reason w s = Inr t"
  obtains (same) "t = s"
    | (set) r where "t = s\<lparr>terminal_requested := Some st, terminal_request_reason := r,
          phase := (if has_pending s \<or> w then DRAINING else st)\<rparr>"
        "st \<in> {CANCELLED, EXPIRED}" "terminal_requested s \<in> {None, Some st}" "phase s \<noteq> COMPLETED"
proof -
  have st: "st \<in> {CANCELLED, EXPIRED}" using assms unfolding request_terminal_def by (simp split: if_splits)
  show ?thesis
  proof (cases "phase s = COMPLETED \<or> (\<exists>c. terminal_requested s = Some c \<and> c \<noteq> st)")
    case True
    with assms st same show ?thesis unfolding request_terminal_def by (auto split: if_splits)
  next
    case False
    let ?p = "if has_pending s \<or> w then DRAINING else st"
    from False consider (none) "terminal_requested s = None" | (again) "terminal_requested s = Some st"
      by (cases "terminal_requested s") auto
    then show ?thesis
    proof cases
      case none
      with assms st False show ?thesis by (intro set [of reason]) (auto simp: request_terminal_def)
    next
      case again
      let ?r = "if terminal_request_reason s = [] \<and> reason \<noteq> [] then reason else terminal_request_reason s"
      from again assms st False have "t = s\<lparr>terminal_request_reason := ?r, phase := ?p\<rparr>"
        by (auto simp: request_terminal_def)
      also have "\<dots> = s\<lparr>terminal_requested := Some st, terminal_request_reason := ?r, phase := ?p\<rparr>"
        using again by (cases s) simp
      finally show ?thesis using again st False by (intro set [of ?r]) auto
    qed
  qed
qed

lemma entry_wf_request_terminal:
  assumes "request_terminal st reason w s = Inr t" "entry_wf s"
  shows "entry_wf t"
  using assms(1)
proof (cases rule: request_terminal_shape)
  case same
  with assms show ?thesis by simp
next
  case (set r)
  have "pending_ok t" "books_ok t"
    using assms(2) unfolding set(1) entry_wf_def by (simp_all add: pending_ok_def books_ok_def has_pending_def)
  moreover have "phase_ok t"
    using assms(2) set(2) unfolding set(1) entry_wf_def phase_ok_def by (auto simp: has_pending_def)
  ultimately show ?thesis by (simp add: entry_wf_def)
qed

text \<open>Executions.\<close>

lemma sum_dvalues_dset:
  "distinct (dkeys d) \<Longrightarrow> sum_list (dvalues (dset k (dget_or d k 0 + v) d)) = sum_list (dvalues d) + (v::int)"
proof (induction d)
  case Nil
  then show ?case by (simp add: dset_def dvalues_def dget_or_def dget_def)
next
  case (Cons p d)
  obtain k' w where p: "p = (k', w)" by fastforce
  with Cons show ?case
    by (cases "k = k'") (auto simp: dset_def dvalues_def dget_or_def dget_def dkeys_def)
qed

lemma dvalues_dset_nonneg:
  assumes "\<forall>x \<in> set (dvalues d). 0 \<le> x" "0 \<le> v"
  shows "\<forall>x \<in> set (dvalues (dset k (dget_or d k 0 + v) d)). 0 \<le> (x::int)"
proof -
  have "0 \<le> dget_or d k 0"
    using assms(1) by (auto simp: dget_or_def dvalues_def dest!: dget_in_set split: option.split)
  then show ?thesis
    using assms dset_set_subset [of k "dget_or d k 0 + v" d] by (fastforce simp: dvalues_def)
qed

lemma remember_key_ok:
  assumes "distinct ks" "k \<notin> set ks" "k \<noteq> []" "[] \<notin> set ks"
  shows "length (remember_key k ks) \<le> 256" "distinct (remember_key k ks)" "[] \<notin> set (remember_key k ks)"
  using assms set_drop_subset [of "length ks - 255" ks] by (auto simp: remember_key_def)

lemma book_fill_simps [simp]:
  "has_pending (book_fill f s) = has_pending s" "phase (book_fill f s) = phase s"
  "terminal_requested (book_fill f s) = terminal_requested s"
  "pending_filled_volume (book_fill f s) = pending_filled_volume s"
  "filled_volume (book_fill f s) = filled_volume s + fill_volume f"
  "last_fill_at_ms (book_fill f s) = Some (fill_timestamp_ms f)"
  "order_terminal_seen (book_fill f s) = order_terminal_seen s"
  "terminal_expected_filled_volume (book_fill f s) = terminal_expected_filled_volume s"
  by (simp_all add: book_fill_def Let_def has_pending_def)

lemma book_fill_pending: "pending_ok s \<Longrightarrow> 0 \<le> fill_volume f \<Longrightarrow> pending_ok (book_fill f s)"
  by (auto simp: pending_ok_def book_fill_def Let_def has_pending_def)

lemma book_fill_books:
  assumes "books_ok s" "trade_key f \<noteq> []" "trade_key f \<notin> set (processed_trade_keys s)" "0 \<le> fill_volume f"
  shows "books_ok (book_fill f s)"
proof -
  let ?r = "selected_rule f s"
  have rules: "rule_filled_volumes (book_fill f s) =
      (if ?r = [] then rule_filled_volumes s
       else dset ?r (dget_or (rule_filled_volumes s) ?r 0 + fill_volume f) (rule_filled_volumes s))"
    "processed_trade_keys (book_fill f s) = remember_key (trade_key f) (processed_trade_keys s)"
    "completed_rule_ids (book_fill f s) = completed_rule_ids s"
    "completed_activation_ids (book_fill f s) = completed_activation_ids s"
    by (simp_all add: book_fill_def Let_def)
  from assms show ?thesis
    unfolding books_ok_def rules
    using remember_key_ok [of "processed_trade_keys s" "trade_key f"]
      dvalues_dset_nonneg [of "rule_filled_volumes s" "fill_volume f" ?r]
    by (simp add: dkeys_dset sum_dvalues_dset)
qed

lemma consume_pending_fill_simps [simp]:
  "has_pending (consume_pending_fill f s) = has_pending s" "phase (consume_pending_fill f s) = phase s"
  "terminal_requested (consume_pending_fill f s) = terminal_requested s"
  "pending_filled_volume (consume_pending_fill f s) = pending_filled_volume s + fill_volume f"
  "filled_volume (consume_pending_fill f s) = filled_volume s"
  "last_fill_at_ms (consume_pending_fill f s) = last_fill_at_ms s"
  "order_terminal_seen (consume_pending_fill f s) = order_terminal_seen s"
  "terminal_expected_filled_volume (consume_pending_fill f s) = terminal_expected_filled_volume s"
  by (simp_all add: consume_pending_fill_def Let_def has_pending_def)

lemma consume_pending_fill_books: "books_ok s \<Longrightarrow> books_ok (consume_pending_fill f s)"
  by (simp add: books_ok_def consume_pending_fill_def Let_def)

text \<open>The slot after a trade of the pending intent, before it is settled.\<close>

lemma consumed_ok:
  assumes "pending_ok s" "has_pending s" "0 \<le> fill_volume f"
  shows "pending_ok (consume_pending_fill f (book_fill f s))"
proof -
  have ids: "pending_intent_id (consume_pending_fill f (book_fill f s)) = pending_intent_id s"
    "pending_stage_id (consume_pending_fill f (book_fill f s)) = pending_stage_id s"
    by (simp_all add: consume_pending_fill_def book_fill_def Let_def)
  from assms show ?thesis unfolding pending_ok_def ids by (auto split: option.splits)
qed

lemma pending_ok_phase [simp]: "pending_ok (s\<lparr>phase := p\<rparr>) = pending_ok s"
  and books_ok_phase [simp]: "books_ok (s\<lparr>phase := p\<rparr>) = books_ok s"
  and has_pending_phase [simp]: "has_pending (s\<lparr>phase := p\<rparr>) = has_pending s"
  by (simp_all add: pending_ok_def books_ok_def has_pending_def)

lemma entry_wf_trade_fill:
  assumes "entry_wf s" and pending: "matches_pending f \<Longrightarrow> has_pending s"
  shows "entry_wf (fst (apply_trade_fill f b s))"
proof (cases "trade_key f = [] \<or> trade_key f \<in> set (processed_trade_keys s)
    \<or> fill_volume f \<le> 0 \<or> fle (fill_price f) fzero")
  case True
  with assms show ?thesis by (auto simp: apply_trade_fill_def)
next
  case False
  note ok = assms(1) [unfolded entry_wf_def]
  have books: "books_ok (book_fill f s)" using ok False by (simp add: book_fill_books)
  show ?thesis
  proof (cases "matches_pending f")
    case other: False
    have "entry_wf ((book_fill f s)\<lparr>phase := ERROR\<rparr>)"
      using ok False books book_fill_pending [of s f] by (auto simp: entry_wf_def phase_ok_def)
    with False other show ?thesis by (simp add: apply_trade_fill_def Let_def)
  next
    case True
    let ?t = "consume_pending_fill f (book_fill f s)"
    have t: "pending_ok ?t" "books_ok ?t" "has_pending ?t"
      using ok False True pending consumed_ok [of s f] consume_pending_fill_books [OF books] by simp_all
    have phase: "phase_ok ?t" using ok by (simp add: phase_ok_def)
    have open_phase: "phase ?t \<notin> {COMPLETED, CANCELLED, EXPIRED}"
      using ok pending [OF True] by (auto simp: phase_ok_def)
    have "entry_wf (settle_pending b ?t)" using t phase by (intro entry_wf_settle) (simp add: entry_wf_def)
    moreover have "entry_wf ?t" using t phase by (simp add: entry_wf_def)
    moreover have "entry_wf (?t\<lparr>phase := DRAINING\<rparr>)" if "terminal_requested ?t \<noteq> None"
      using t phase that by (auto simp: entry_wf_def phase_ok_def)
    moreover have "entry_wf (?t\<lparr>phase := ACCUMULATING\<rparr>)" if "terminal_requested ?t = None"
      using t phase that by (auto simp: entry_wf_def phase_ok_def)
    ultimately show ?thesis
      using False True t(3) by (auto simp: apply_trade_fill_def Let_def)
  qed
qed

text \<open>Terminal order reports.\<close>

lemma expected_after_seen [simp]: "expected_after w ex (s\<lparr>order_terminal_seen := b\<rparr>) = expected_after w ex s"
  by (simp add: expected_after_def Let_def)

lemma expected_after_nonneg:
  assumes "case terminal_expected_filled_volume s of None \<Rightarrow> True | Some n \<Rightarrow> 0 \<le> n"
  shows "case expected_after w ex s of None \<Rightarrow> True | Some n \<Rightarrow> 0 \<le> n"
  using assms unfolding expected_after_def Let_def
  by (cases "terminal_expected_filled_volume s"; cases ex) (simp_all add: le_max_iff_disj)

text \<open>The state a terminal report leaves behind while the slot stays taken.\<close>

definition told :: "int option \<Rightarrow> ManagedEntryPlanState \<Rightarrow> ManagedEntryPlanState" where
  "told n s = s\<lparr>order_terminal_seen := True, terminal_expected_filled_volume := n\<rparr>"

lemma told_simps [simp]:
  "has_pending (told n s) = has_pending s" "phase (told n s) = phase s"
  "terminal_requested (told n s) = terminal_requested s" "filled_volume (told n s) = filled_volume s"
  "pending_filled_volume (told n s) = pending_filled_volume s"
  "phase_ok (told n s) = phase_ok s" "books_ok (told n s) = books_ok s"
  "terminal_expected_filled_volume (told n s) = n" "order_terminal_seen (told n s)"
  by (simp_all add: told_def has_pending_def phase_ok_def books_ok_def)

lemma entry_wf_told:
  assumes "entry_wf s" "has_pending s" "case n of None \<Rightarrow> True | Some n \<Rightarrow> 0 \<le> n"
  shows "entry_wf (told n s)"
proof -
  from assms have "pending_ok (told n s)"
    unfolding entry_wf_def pending_ok_def told_def has_pending_def by auto
  with assms show ?thesis by (simp add: entry_wf_def)
qed

lemma entry_wf_retry [simp]: "entry_wf (s\<lparr>retry_after_ms := r\<rparr>) = entry_wf s"
  by (simp add: entry_wf_defs has_pending_def)

lemma retry_same: "(if c then s\<lparr>retry_after_ms := r\<rparr> else s) = s\<lparr>retry_after_ms := if c then r else retry_after_ms s\<rparr>"
  by (cases s) simp

lemma order_terminal_cases:
  assumes "t = apply_order_terminal st now cd ex b s"
  obtains (ignored) "status_word st \<notin> set TERMINAL_ORDER_WORDS" "t = s"
    | (zero) r where "status_word st = ''RECONCILED_ZERO_FILL''"
        "t = settle_pending b ((told (Some 0) s)\<lparr>retry_after_ms := r\<rparr>)"
    | (waiting) "status_word st \<in> set TERMINAL_ORDER_WORDS" "status_word st \<noteq> ''RECONCILED_ZERO_FILL''"
        "t = told (expected_after (status_word st) ex s) s" "\<not> terminal_fill_barrier_satisfied t"
    | (settled) r where "status_word st \<in> set TERMINAL_ORDER_WORDS" "status_word st \<noteq> ''RECONCILED_ZERO_FILL''"
        "terminal_fill_barrier_satisfied (told (expected_after (status_word st) ex s) s)"
        "t = settle_pending b ((told (expected_after (status_word st) ex s) s)\<lparr>retry_after_ms := r\<rparr>)"
proof -
  let ?w = "status_word st" and ?x = "told (expected_after (status_word st) ex s) s"
  note eq = assms [unfolded apply_order_terminal_def Let_def, folded told_def, unfolded expected_after_seen retry_same]
  consider "?w \<notin> set TERMINAL_ORDER_WORDS" | "?w = ''RECONCILED_ZERO_FILL''"
    | "?w \<in> set TERMINAL_ORDER_WORDS" "?w \<noteq> ''RECONCILED_ZERO_FILL''" "terminal_fill_barrier_satisfied ?x"
    | "?w \<in> set TERMINAL_ORDER_WORDS" "?w \<noteq> ''RECONCILED_ZERO_FILL''" "\<not> terminal_fill_barrier_satisfied ?x"
    by blast
  then show ?thesis
  proof cases
    case 1
    with eq show ?thesis by (intro ignored) (simp_all del: told_simps)
  next
    case 2
    then have "?w \<in> set TERMINAL_ORDER_WORDS" by (simp add: TERMINAL_ORDER_WORDS_def)
    with eq 2 show ?thesis by (intro zero) (simp_all only: if_True not_not simp_thms if_False)
  next
    case 3
    with eq show ?thesis by (intro settled) (simp_all only: if_True if_False not_not simp_thms)
  next
    case 4
    with eq show ?thesis by (intro waiting) (simp_all only: if_True if_False not_not simp_thms)
  qed
qed

lemma entry_wf_order_terminal:
  assumes "entry_wf s" "has_pending s"
  shows "entry_wf (apply_order_terminal st now cd ex b s)"
proof -
  have "case terminal_expected_filled_volume s of None \<Rightarrow> True | Some n \<Rightarrow> 0 \<le> n"
    using assms(1) by (simp add: entry_wf_def pending_ok_def)
  then have told: "entry_wf (told (expected_after w ex s) s)" for w
    using assms expected_after_nonneg by (intro entry_wf_told)
  have zero: "entry_wf (told (Some 0) s)" using assms by (intro entry_wf_told) simp_all
  show ?thesis
  proof (cases rule: order_terminal_cases [OF refl, of st now cd ex b s])
    case 1
    with assms(1) show ?thesis by simp
  next
    case (2 r)
    with zero show ?thesis by (simp add: entry_wf_settle)
  next
    case 3
    with told show ?thesis by simp
  next
    case (4 r)
    with told show ?thesis by (simp add: entry_wf_settle)
  qed
qed

text \<open>Changes of the phase by the service.\<close>

lemma entry_wf_reconcile: "entry_wf s \<Longrightarrow> entry_wf (reconcile_zero_intent z now s)"
  by (auto simp: reconcile_zero_intent_def has_pending_def intro: entry_wf_order_terminal)

lemma phase_ok_calm:
  assumes "phase_ok s" "p = PAUSED \<or> (p \<in> {ARMED, ACCUMULATING} \<and> terminal_requested s = None)"
  shows "phase_ok (s\<lparr>phase := p\<rparr>)"
  using assms(2)
proof
  assume "p = PAUSED"
  with assms(1) show ?thesis by (simp add: phase_ok_def)
next
  assume "p \<in> {ARMED, ACCUMULATING} \<and> terminal_requested s = None"
  then show ?thesis unfolding phase_ok_def by (elim conjE insertE emptyE) simp_all
qed

lemma entry_wf_set_phase:
  assumes "entry_wf s" "p = PAUSED \<or> (p \<in> {ARMED, ACCUMULATING} \<and> terminal_requested (reconcile_zero_intent z now s) = None)"
  shows "entry_wf (set_phase p reason z now s)"
proof -
  have "entry_wf ((reconcile_zero_intent z now s)\<lparr>phase := p\<rparr>)"
    using entry_wf_reconcile [OF assms(1), of z now] assms(2) phase_ok_calm
    by (simp only: entry_wf_def pending_ok_phase books_ok_phase)
  then show ?thesis by (simp add: set_phase_def Let_def)
qed

lemma entry_wf_service_request:
  "service_request_terminal st reason w z now s = Inr t \<Longrightarrow> entry_wf s \<Longrightarrow> entry_wf t"
  by (auto simp: service_request_terminal_def res_simps
      dest: entry_wf_request_terminal [OF _ entry_wf_reconcile])

text \<open>Decisions.\<close>

lemma entry_wf_issue:
  assumes "entry_wf s" "terminal_requested s = None" "phase s \<notin> {DRAINING}"
  shows "entry_wf (result_state (issue_decision config s ctx g rule m amt vol res))"
  using assms unfolding entry_wf_defs issue_decision_def Let_def has_pending_def by simp

lemma entry_wf_expired: "entry_wf s \<Longrightarrow> \<not> has_pending s \<Longrightarrow> entry_wf (expired_state s)"
  unfolding entry_wf_defs expired_state_def has_pending_def by simp

lemma entry_wf_completed: "entry_wf s \<Longrightarrow> \<not> has_pending s \<Longrightarrow> entry_wf (s\<lparr>phase := COMPLETED\<rparr>)"
  by (simp add: entry_wf_def) (simp add: phase_ok_def)

lemma quiet_eqs:
  assumes "quiet s t"
  shows "has_pending t = has_pending s" "terminal_requested t = terminal_requested s" "phase t = phase s"
    "filled_volume t = filled_volume s"
  using assms unfolding quiet_def has_pending_def by (cases s; cases t; simp)+

context entry_rule_registry
begin

lemma entry_wf_evaluate:
  assumes "evaluate_entry reg config s ctx = Inr r" "entry_wf s"
  shows "entry_wf (result_state r)"
  using assms(1)
proof (cases rule: evaluate_cases)
  case none
  then show ?thesis using assms(2) by (blast intro: entry_wf_quiet)
next
  case expired
  then show ?thesis using assms(2) plan_block_free(1) by (blast intro: entry_wf_quiet entry_wf_expired)
next
  case completed
  then show ?thesis using assms(2) plan_block_free(1) by (blast intro: entry_wf_quiet entry_wf_completed)
next
  case (some s1 g rule m amt vol res)
  then have "entry_wf s1" using assms(2) by (blast intro: entry_wf_quiet)
  moreover have "terminal_requested s1 = None" "phase s1 \<notin> {DRAINING}"
    using some(1) plan_block_free [of config s ctx] quiet_eqs [OF some(2)] by (auto simp: open_for_entry_def)
  ultimately show ?thesis unfolding some(9) by (rule entry_wf_issue)
qed

end

section \<open>Runs of a plan\<close>

text \<open>
  The steps a stored plan can take. The guards are those of the strategy and the service that call
  the operations: a report is applied only when it names the pending intent, and re-enabling a plan
  is refused once it has ended.
\<close>

inductive entry_step :: "entry_registry \<Rightarrow> ManagedEntryPlanState \<Rightarrow> ManagedEntryPlanState \<Rightarrow> bool"
  for reg :: entry_registry where
  evaluated: "evaluate_entry reg config s ctx = Inr r \<Longrightarrow> entry_step reg s (result_state r)"
| traded: "(matches_pending f \<Longrightarrow> has_pending s) \<Longrightarrow> entry_step reg s (fst (apply_trade_fill f b s))"
| reported: "has_pending s \<Longrightarrow> entry_step reg s (apply_order_terminal st now cd ex b s)"
| requested: "service_request_terminal st reason w z now s = Inr t \<Longrightarrow> entry_step reg s t"
| paused: "entry_step reg s (set_phase PAUSED reason z now s)"
| activated: "plan_not_terminal s \<Longrightarrow> entry_step reg s (set_phase (active_phase fv fa) [] [] now s)"

definition entry_reachable :: "entry_registry \<Rightarrow> ManagedEntryPlanState \<Rightarrow> ManagedEntryPlanState \<Rightarrow> bool" where
  "entry_reachable reg = (entry_step reg)\<^sup>*\<^sup>*"

lemma reconcile_none [simp]: "reconcile_zero_intent [] now s = s"
  by (simp add: reconcile_zero_intent_def)

context entry_rule_registry
begin

lemma step_wf: "entry_step reg s t \<Longrightarrow> entry_wf s \<Longrightarrow> entry_wf t"
proof (induction rule: entry_step.induct)
  case (activated s fv fa now)
  then show ?case
    by (intro entry_wf_set_phase) (auto simp: plan_not_terminal_def active_phase_def)
qed (auto intro: entry_wf_evaluate entry_wf_trade_fill entry_wf_order_terminal
    entry_wf_service_request entry_wf_set_phase)

lemma reachable_wf: "entry_reachable reg s t \<Longrightarrow> entry_wf s \<Longrightarrow> entry_wf t"
  unfolding entry_reachable_def by (induction rule: rtranclp_induct) (auto intro: step_wf)

end

end
