(* ===== verification/Entry_Safety.thy ===== *)
theory Entry_Safety
  imports Entry_Facts
begin

text \<open>
  What the entry plans guarantee: terminal requests are final, the pending intent is released only on
  proof, reports and executions commute, decisions are within every limit, and states and
  configurations survive storage. The last section evaluates a sample plan.
\<close>

section \<open>Terminal requests are final\<close>

lemma trade_fill_requested [simp]:
  "terminal_requested (fst (apply_trade_fill f b s)) = terminal_requested s"
  by (simp add: apply_trade_fill_def Let_def)

lemma order_terminal_requested [simp]:
  "terminal_requested (apply_order_terminal st now cd ex b s) = terminal_requested s"
  by (cases rule: order_terminal_cases [OF refl, of st now cd ex b s]) simp_all

lemma reconcile_requested [simp]:
  "terminal_requested (reconcile_zero_intent z now s) = terminal_requested s"
  by (simp add: reconcile_zero_intent_def)

context entry_rule_registry
begin

lemma requested_evaluates_quietly:
  assumes "evaluate_entry reg config s ctx = Inr r" "terminal_requested s \<noteq> None"
  shows "decision r = None \<and> quiet s (result_state r)"
  using assms(1)
proof (cases rule: evaluate_cases)
  case (some s1 g rule m amt vol res)
  then show ?thesis using assms(2) plan_block_free(2) by (auto simp: open_for_entry_def)
qed (use assms(2) plan_block_free(2) in auto)

lemma step_latch:
  "entry_step reg s t \<Longrightarrow> terminal_requested s = Some c \<Longrightarrow> terminal_requested t = Some c"
proof (induction rule: entry_step.induct)
  case (evaluated config s ctx r)
  then show ?case using requested_evaluates_quietly [of config s ctx r] quiet_eqs(2) by auto
next
  case (requested st reason w z now s t)
  from requested(1) obtain u where u: "request_terminal st reason w (reconcile_zero_intent z now s) = Inr u"
    "terminal_requested t = terminal_requested u"
    by (auto simp: service_request_terminal_def res_simps)
  from u(1) show ?case
    by (cases rule: request_terminal_shape) (use requested(2) u(2) in auto)
qed (simp_all add: set_phase_def Let_def)

lemma reachable_latch:
  "entry_reachable reg s t \<Longrightarrow> terminal_requested s = Some c \<Longrightarrow> terminal_requested t = Some c"
  unfolding entry_reachable_def by (induction rule: rtranclp_induct) (auto intro: step_latch)

end

section \<open>When the pending intent is released\<close>

lemma barrier_iff:
  "terminal_fill_barrier_satisfied s \<longleftrightarrow>
     order_terminal_seen s \<and> (\<exists>n. terminal_expected_filled_volume s = Some n \<and> n \<le> pending_filled_volume s)"
  by (auto simp: terminal_fill_barrier_satisfied_def split: option.splits)

lemma order_terminal_release:
  assumes "has_pending s"
  shows "\<not> has_pending (apply_order_terminal st now cd ex b s) \<longleftrightarrow>
     status_word st = ''RECONCILED_ZERO_FILL''
     \<or> (status_word st \<in> set TERMINAL_ORDER_WORDS
         \<and> (\<exists>n. expected_after (status_word st) ex s = Some n \<and> n \<le> pending_filled_volume s))"
proof (cases rule: order_terminal_cases [OF refl, of st now cd ex b s])
  case 1
  then show ?thesis using assms by (auto simp: TERMINAL_ORDER_WORDS_def)
next
  case (2 r)
  then show ?thesis by simp
next
  case 3
  then show ?thesis using assms by (simp add: barrier_iff)
next
  case (4 r)
  then show ?thesis by (simp add: barrier_iff)
qed

lemma trade_fill_release:
  assumes "has_pending s"
  shows "\<not> has_pending (fst (apply_trade_fill f b s)) \<longleftrightarrow>
     snd (apply_trade_fill f b s) \<and> matches_pending f \<and> order_terminal_seen s
     \<and> (\<exists>n. terminal_expected_filled_volume s = Some n \<and> n \<le> pending_filled_volume s + fill_volume f)"
proof -
  let ?t = "consume_pending_fill f (book_fill f s)"
  have bar: "terminal_fill_barrier_satisfied ?t \<longleftrightarrow> order_terminal_seen s
      \<and> (\<exists>n. terminal_expected_filled_volume s = Some n \<and> n \<le> pending_filled_volume s + fill_volume f)"
    by (simp add: barrier_iff)
  have t: "has_pending ?t" "has_pending (book_fill f s)" using assms by simp_all
  have err: "has_pending ((book_fill f s)\<lparr>phase := p, last_decision := d\<rparr>)" for p d
    using t(2) by (simp add: has_pending_def)
  show ?thesis
    unfolding apply_trade_fill_def Let_def bar using assms t err
    by (simp del: consume_pending_fill_simps book_fill_simps add: consume_pending_fill_simps(1) book_fill_simps(1))
qed

context entry_rule_registry
begin

lemma evaluate_keeps_pending:
  assumes "evaluate_entry reg config s ctx = Inr r" "has_pending s"
  shows "decision r = None \<and> quiet s (result_state r)"
  using assms(1)
proof (cases rule: evaluate_cases)
  case (some s1 g rule m amt vol res)
  then show ?thesis using assms(2) plan_block_free(1) by (auto simp: open_for_entry_def)
qed (use assms(2) plan_block_free(1) in auto)

end

section \<open>Reports and executions may arrive in either order\<close>

lemma settle_phase:
  assumes "phase s \<notin> {COMPLETED, CANCELLED, EXPIRED}" "last_fill_at_ms s \<noteq> None"
    "p = ERROR \<longleftrightarrow> phase s = ERROR" "p \<notin> {COMPLETED, CANCELLED, EXPIRED}"
  shows "settle_pending b (s\<lparr>phase := p\<rparr>) = settle_pending b s"
proof -
  have clear: "clear_pending (s\<lparr>phase := p\<rparr>) = (clear_pending s)\<lparr>phase := p\<rparr>"
    by (simp add: clear_pending_def)
  have same: "u\<lparr>phase := phase u\<rparr> = u" for u :: ManagedEntryPlanState by simp
  show ?thesis
  proof (cases "phase s = ERROR")
    case True
    with assms(3) have "s\<lparr>phase := p\<rparr> = s" by (cases s) simp
    then show ?thesis by simp
  next
    case False
    with assms show ?thesis
      by (simp add: settle_pending_def Let_def clear TERMINAL_ENTRY_PHASES_def split: option.split)
  qed
qed

lemma told_phase: "told n (s\<lparr>phase := p\<rparr>) = (told n s)\<lparr>phase := p\<rparr>"
  by (simp add: told_def)

lemma told_book_fill: "book_fill f (told n s) = told n (book_fill f s)"
proof -
  have "selected_rule f (told n s) = selected_rule f s" by (simp add: selected_rule_def told_def Let_def)
  then show ?thesis
    by (cases "selected_rule f s = []") (simp_all add: book_fill_def Let_def told_def)
qed

lemma told_consume: "consume_pending_fill f (told n s) = told n (consume_pending_fill f s)"
  by (cases "pending_activation_id s = []"; cases "pending_activation_id s = pending_rule_id s";
      cases "pending_rule_type s = TREND_PULLBACK_CONFIRMATION")
    (simp_all add: consume_pending_fill_def Let_def told_def)

text \<open>The state after a trade of the pending intent while no terminal report is known.\<close>

lemma trade_fill_unreported:
  assumes "trade_key f \<noteq> []" "trade_key f \<notin> set (processed_trade_keys s)" "0 < fill_volume f"
    "\<not> fle (fill_price f) fzero" "matches_pending f" "has_pending s" "\<not> order_terminal_seen s"
  shows "\<exists>p. fst (apply_trade_fill f b s) = (consume_pending_fill f (book_fill f s))\<lparr>phase := p\<rparr>
    \<and> (p = ERROR \<longleftrightarrow> phase s = ERROR) \<and> p \<notin> {COMPLETED, CANCELLED, EXPIRED}"
proof -
  let ?t = "consume_pending_fill f (book_fill f s)"
  have same: "?t = ?t\<lparr>phase := ERROR\<rparr>" if "phase s = ERROR"
  proof -
    from that have "phase ?t = ERROR" by simp
    then show ?thesis by (cases ?t) simp
  qed
  have "\<not> terminal_fill_barrier_satisfied ?t" using assms by (simp add: barrier_iff)
  with assms have eq: "fst (apply_trade_fill f b s) =
      (if phase s = ERROR then ?t else if terminal_requested s \<noteq> None then ?t\<lparr>phase := DRAINING\<rparr>
       else ?t\<lparr>phase := ACCUMULATING\<rparr>)"
    by (simp add: apply_trade_fill_def Let_def)
  show ?thesis
  proof (cases "phase s = ERROR")
    case True
    with eq same show ?thesis by (intro exI [of _ ERROR]) auto
  next
    case False
    with eq show ?thesis
      by (intro exI [of _ "if terminal_requested s \<noteq> None then DRAINING else ACCUMULATING"]) auto
  qed
qed

lemma expected_after_positive:
  "0 < n \<Longrightarrow> terminal_expected_filled_volume s = None \<Longrightarrow> expected_after w (Some n) s = Some n"
  by (simp add: expected_after_def Let_def)

text \<open>A terminal report that announces exactly what has been executed settles the slot.\<close>

lemma order_terminal_settles:
  assumes "status_word st \<in> set TERMINAL_ORDER_WORDS" "status_word st \<noteq> ''RECONCILED_ZERO_FILL''"
    "0 < n" "terminal_expected_filled_volume s = None" "n \<le> pending_filled_volume s"
  shows "apply_order_terminal st now cd (Some n) b s = settle_pending b (told (Some n) s)"
  using assms by (simp add: apply_order_terminal_def Let_def expected_after_positive barrier_iff flip: told_def)

lemma order_terminal_waits:
  assumes "status_word st \<in> set TERMINAL_ORDER_WORDS" "status_word st \<noteq> ''RECONCILED_ZERO_FILL''"
    "0 < n" "terminal_expected_filled_volume s = None" "pending_filled_volume s < n"
  shows "apply_order_terminal st now cd (Some n) b s = told (Some n) s"
  using assms by (simp add: apply_order_terminal_def Let_def expected_after_positive barrier_iff flip: told_def)

lemma report_and_execution_commute:
  assumes wf: "entry_wf s" and slot: "has_pending s" "\<not> order_terminal_seen s" "terminal_expected_filled_volume s = None"
    and fill: "trade_key f \<noteq> []" "trade_key f \<notin> set (processed_trade_keys s)" "0 < fill_volume f"
      "\<not> fle (fill_price f) fzero" "matches_pending f"
    and report: "status_word st \<in> set TERMINAL_ORDER_WORDS" "status_word st \<noteq> ''RECONCILED_ZERO_FILL''"
      "n = pending_filled_volume s + fill_volume f"
  shows "apply_order_terminal st now cd (Some n) b (fst (apply_trade_fill f b1 s)) =
     fst (apply_trade_fill f b (apply_order_terminal st now cd (Some n) b2 s))"
proof -
  let ?t = "consume_pending_fill f (book_fill f s)"
  have n: "0 < n" "pending_filled_volume s < n" using wf fill(3) report(3) by (auto simp: entry_wf_def pending_ok_def)
  obtain p where p: "fst (apply_trade_fill f b1 s) = ?t\<lparr>phase := p\<rparr>" "p = ERROR \<longleftrightarrow> phase s = ERROR"
    "p \<notin> {COMPLETED, CANCELLED, EXPIRED}"
    using trade_fill_unreported [OF fill slot(1,2)] by blast
  have "apply_order_terminal st now cd (Some n) b (?t\<lparr>phase := p\<rparr>) = settle_pending b (told (Some n) (?t\<lparr>phase := p\<rparr>))"
    using report n slot by (intro order_terminal_settles) simp_all
  also have "\<dots> = settle_pending b (told (Some n) ?t)"
    unfolding told_phase
    by (rule settle_phase) (use wf slot(1) p(2,3) in \<open>auto simp: entry_wf_def phase_ok_def told_def\<close>)
  also have "\<dots> = fst (apply_trade_fill f b (told (Some n) s))"
  proof -
    have keys: "processed_trade_keys (told (Some n) s) = processed_trade_keys s" by (simp add: told_def)
    have "terminal_fill_barrier_satisfied (told (Some n) ?t)" using report(3) by (simp add: barrier_iff)
    with fill show ?thesis by (simp add: apply_trade_fill_def Let_def keys told_book_fill told_consume)
  qed
  also have "told (Some n) s = apply_order_terminal st now cd (Some n) b2 s"
    using report n slot(3) by (intro order_terminal_waits [symmetric])
  finally show ?thesis by (simp only: p(1))
qed

section \<open>The size of a decision\<close>

lemma EPSILON_bounds: "\<exists>e. EPSILON = Fin e \<and> 0 < e \<and> e < 1 / 1000"
proof -
  have lo: "fle (Fin (pow2 (- 27))) EPSILON"
    using fround_mono [of "pow2 (- 27)" "1 / 100000000"] fround_exact [of 1 "- 27"]
    by (simp add: EPSILON_def pow2_def)
  have hi: "fle EPSILON (Fin (pow2 (- 26)))"
    using fround_mono [of "1 / 100000000" "pow2 (- 26)"] fround_exact [of 1 "- 26"]
    by (simp add: EPSILON_def pow2_def)
  obtain e where eq: "EPSILON = Fin e" using lo hi by (cases EPSILON) simp_all
  have e: "pow2 (- 27) \<le> e" using lo unfolding eq fle.simps .
  have e': "e \<le> pow2 (- 26)" using hi unfolding eq fle.simps .
  have "0 < e" using e pow2_pos [of "- 27"] by linarith
  moreover have "e < 1 / 1000" using e' by (simp add: pow2_def)
  ultimately show ?thesis using eq by blast
qed

lemma EPSILON_nonneg: "fle fzero EPSILON"
proof -
  obtain e where eq: "EPSILON = Fin e" and "0 < e" using EPSILON_bounds by blast
  then show ?thesis unfolding eq fle.simps by simp
qed

lemma pmin_props:
  assumes "r \<noteq> NaN"
  shows "pmin r c \<noteq> NaN" "fle (pmin r c) r" "c \<noteq> NaN \<Longrightarrow> fle (pmin r c) c"
  using assms by (auto simp: pmin_def flt_imp_fle fle_refl not_flt_iff dest: flt_not_NaN)

lemma pmin_NaN [simp]: "pmin NaN c = NaN"
  by (cases c) (simp_all add: pmin_def)

lemma foldl_pmin_NaN [simp]: "foldl pmin NaN cs = NaN"
  by (induction cs) simp_all

lemma foldl_pmin_le:
  assumes "r \<noteq> NaN"
  shows "foldl pmin r cs \<noteq> NaN \<and> fle (foldl pmin r cs) r \<and> (\<forall>c \<in> set cs. c \<noteq> NaN \<longrightarrow> fle (foldl pmin r cs) c)"
  using assms
proof (induction cs arbitrary: r)
  case (Cons c cs)
  note p = pmin_props [OF Cons.prems, of c]
  from Cons.IH [OF p(1)] p show ?case by (auto intro: fle_trans)
qed (simp add: fle_refl)

lemma pmax_fzero_not_NaN [simp]: "pmax fzero x \<noteq> NaN"
  by (rule pmax_not_NaN) simp

text \<open>The limits of the pacing policy and of the account on one order.\<close>

definition pacing_limits :: "ManagedEntryPlanConfig \<Rightarrow> EntryEvaluationContext \<Rightarrow> pyfloat \<Rightarrow> bool" where
  "pacing_limits config ctx a \<longleftrightarrow>
     fle a (max_single_intent_amount_cny (pacing_policy config))
     \<and> fle a (pmax fzero (fsub (max_daily_filled_amount_cny (pacing_policy config))
                           (pmax fzero (daily_filled_amount_cny ctx))))
     \<and> (case risk_max_buy_amount_cny ctx of None \<Rightarrow> True | Some x \<Rightarrow> fle a (pmax fzero x))
     \<and> (case liquidity_cap_cny ctx of None \<Rightarrow> True | Some x \<Rightarrow> fle a (pmax fzero x))"

lemma entry_amount_cap_limits:
  assumes "flt fzero a" "fle a (entry_amount_cap config ctx g)"
    "max_single_intent_amount_cny (pacing_policy config) \<noteq> NaN"
  shows "fle a (remaining_amount_cny g)" "pacing_limits config ctx a"
proof -
  define caps where "caps = [max_single_intent_amount_cny (pacing_policy config),
      pmax fzero (fsub (max_daily_filled_amount_cny (pacing_policy config)) (pmax fzero (daily_filled_amount_cny ctx)))]
    @ (case risk_max_buy_amount_cny ctx of None \<Rightarrow> [] | Some x \<Rightarrow> [pmax fzero x])
    @ (case liquidity_cap_cny ctx of None \<Rightarrow> [] | Some x \<Rightarrow> [pmax fzero x])"
  define c where "c = foldl pmin (remaining_amount_cny g) caps"
  have cap: "entry_amount_cap config ctx g = pmax fzero c"
    by (simp add: entry_amount_cap_def Let_def caps_def c_def)
  have pos: "flt fzero (pmax fzero c)" using assms(1,2) cap flt_fle_trans by simp
  then have eq: "pmax fzero c = c" using pmax_cases [of fzero c] by auto
  with pos have "c \<noteq> NaN" using flt_not_NaN by auto
  then have "remaining_amount_cny g \<noteq> NaN" unfolding c_def by auto
  note le = foldl_pmin_le [OF this, of caps, folded c_def]
  have a: "fle a c" using assms(2) cap eq by simp
  with le show "fle a (remaining_amount_cny g)" by (blast intro: fle_trans)
  have each: "fle a x" if "x \<in> set caps" "x \<noteq> NaN" for x using a le that by (blast intro: fle_trans)
  show "pacing_limits config ctx a"
    unfolding pacing_limits_def using assms(3)
    by (auto intro!: each simp: caps_def split: option.split)
qed

text \<open>The gap of a target in money is within the budget and the cap of the position.\<close>

lemma gap_amount_le:
  assumes "gap_calculate policy ctx = Inr g" "target_mode policy \<noteq> ADDITIONAL_VOLUME"
    "\<not> fle (executable_price ctx) fzero" "\<not> fle (total_equity_cny ctx) fzero"
  shows "fle (remaining_amount_cny g) (gap_budget_remaining policy ctx)"
    "fle (remaining_amount_cny g) (gap_position_cap policy ctx)"
proof -
  from assms obtain x where x: "remaining_amount_cny g =
      pmin (pmin (pmax fzero x) (gap_budget_remaining policy ctx)) (gap_position_cap policy ctx)"
    unfolding gap_calculate_def Let_def by (cases "target_mode policy") auto
  have nan: "gap_budget_remaining policy ctx \<noteq> NaN" "gap_position_cap policy ctx \<noteq> NaN"
    by (simp_all add: gap_budget_remaining_def gap_position_cap_def)
  note p = pmin_props [of "pmax fzero x" "gap_budget_remaining policy ctx"]
  note q = pmin_props [of "pmin (pmax fzero x) (gap_budget_remaining policy ctx)" "gap_position_cap policy ctx"]
  show "fle (remaining_amount_cny g) (gap_budget_remaining policy ctx)"
    unfolding x using p q nan by (auto intro: fle_trans)
  show "fle (remaining_amount_cny g) (gap_position_cap policy ctx)"
    unfolding x using p q nan by auto
qed

lemma gap_volume:
  assumes "gap_calculate policy ctx = Inr g" "target_mode policy = ADDITIONAL_VOLUME"
    "\<not> fle (executable_price ctx) fzero" "\<not> fle (total_equity_cny ctx) fzero"
  shows "\<exists>n. floor_of_float (fdiv (pmin (gap_budget_remaining policy ctx) (gap_position_cap policy ctx))
             (executable_price ctx)) = Inr n
    \<and> remaining_volume g = Some (min (max 0 (max 0 (opt_or (additional_volume policy) 0
          - plan_filled_volume ctx) - pending_buy_volume ctx)) (max 0 n))"
  using assms unfolding gap_calculate_def Let_def by (auto simp: res_simps)

lemma issue_decisionD:
  assumes "decision (issue_decision config s ctx g rule m amt vol res) = Some d"
  shows "target_amount_cny d = amt" "target_volume d = vol" "decision_rule_id d = spec_rule_id rule"
    "pending_intent_id (result_state (issue_decision config s ctx g rule m amt vol res)) = intent_id d"
    "pending_stage_id (result_state (issue_decision config s ctx g rule m amt vol res)) = stage_id d"
    "last_intent_at_ms (result_state (issue_decision config s ctx g rule m amt vol res)) = Some (decision_time_ms ctx)"
    "intent_id d \<noteq> []"
  using assms by (auto simp: issue_decision_def Let_def)

lemma size_decision_amount:
  assumes "size_decision config s ctx g (rule, m) = Inr r" "decision r = Some d"
    "target_mode (target_policy config) \<noteq> ADDITIONAL_VOLUME"
  shows "\<exists>a. target_amount_cny d = Some a \<and> target_volume d = None \<and> flt EPSILON a
    \<and> fle a (entry_amount_cap config ctx g)"
proof -
  let ?c = "entry_amount_cap config ctx g"
  let ?a = "case suggested_amount_cny m of None \<Rightarrow> ?c | Some a \<Rightarrow> pmin ?c (pmax fzero a)"
  have c: "?c \<noteq> NaN" by (simp add: entry_amount_cap_def Let_def)
  have a: "?a \<noteq> NaN" "fle ?a ?c" using c pmin_props [OF c] by (auto simp: fle_refl split: option.split)
  from assms have "\<not> fle ?a EPSILON" and r: "r = issue_decision config s ctx g rule m (Some ?a) None ?a"
    unfolding size_decision_def Let_def by (auto split: if_splits)
  moreover have "EPSILON \<noteq> NaN" using EPSILON_bounds by auto
  ultimately have "flt EPSILON ?a" using a(1) not_flt_iff [of EPSILON ?a] by blast
  with a show ?thesis using issue_decisionD(1,2) [OF assms(2) [unfolded r]] by auto
qed

lemma size_decision_volume:
  assumes "size_decision config s ctx g (rule, m) = Inr r" "decision r = Some d"
    "target_mode (target_policy config) = ADDITIONAL_VOLUME" "flt fzero (executable_price ctx)"
  shows "\<exists>v c q. target_volume d = Some v \<and> target_amount_cny d = None \<and> 0 < v
    \<and> v \<le> opt_or (remaining_volume g) 0 \<and> flt fzero c \<and> fle c (entry_amount_cap config ctx g)
    \<and> fdiv c (executable_price ctx) = Fin q \<and> of_int v \<le> q"
proof -
  let ?c = "entry_amount_cap config ctx g"
  let ?a = "case suggested_amount_cny m of None \<Rightarrow> ?c | Some a \<Rightarrow> pmin ?c (pmax fzero a)"
  have c: "?c \<noteq> NaN" "fle fzero ?c" by (simp_all add: entry_amount_cap_def Let_def)
  have a: "fle ?a ?c" "fle fzero ?a"
    using c pmin_props [OF c(1)] by (auto simp: fle_refl pmin_def split: option.split)
  let ?left = "opt_or (remaining_volume g) 0"
  let ?asked = "case suggested_volume m of None \<Rightarrow> ?left | Some v \<Rightarrow> if v = 0 then ?left else v"
  let ?step = "\<lambda>n. let v = min (min ?left ?asked) (max 0 n)
    in if v \<le> 0 then Inr (no_decision s ctx ''ENTRY_CAPACITY_ZERO'' (Some g))
       else Inr (issue_decision config s ctx g rule m None (Some v)
                   (fmul (float_of_int v) (executable_price ctx))) :: EntryEvaluationResult res"
  have "rbind (floor_of_float (fdiv ?a (executable_price ctx))) ?step = Inr r"
    using assms(1) unfolding size_decision_def fst_conv snd_conv assms(3) simp_thms if_True Let_def .
  then have "\<exists>n. floor_of_float (fdiv ?a (executable_price ctx)) = Inr n \<and> ?step n = Inr r"
    unfolding rbind_Inr_iff .
  then obtain n where both: "floor_of_float (fdiv ?a (executable_price ctx)) = Inr n \<and> ?step n = Inr r" ..
  note n0 = both [THEN conjunct1] and sized = both [THEN conjunct2]
  define v where "v = min (min ?left ?asked) (max 0 n)"
  note sized' = sized [unfolded Let_def, folded v_def]
  have pos: "0 < v" using sized' assms(2) by (cases "v \<le> 0") auto
  have "v \<le> ?left" "v \<le> max 0 n" by (simp_all add: v_def)
  with pos sized' have n: "floor_of_float (fdiv ?a (executable_price ctx)) = Inr n" "0 < v" "v \<le> n" "v \<le> ?left"
    "r = issue_decision config s ctx g rule m None (Some v) (fmul (float_of_int v) (executable_price ctx))"
    using n0 by auto
  from n(1) obtain q where q: "fdiv ?a (executable_price ctx) = Fin q" "n = \<lfloor>q\<rfloor>"
    by (cases "fdiv ?a (executable_price ctx)") auto
  have "of_int v \<le> q" using n(3) q(2) by (simp add: le_floor_iff)
  moreover have "flt fzero ?a"
  proof (rule ccontr)
    assume "\<not> flt fzero ?a"
    with a(2) have "?a = fzero" by (cases ?a) auto
    with q(1) assms(4) have "q = 0" by (cases "executable_price ctx") auto
    with \<open>of_int v \<le> q\<close> n(2) show False by simp
  qed
  ultimately show ?thesis
    using n a(1) q(1) issue_decisionD(1,2) [OF assms(2) [unfolded n(5)]]
    by (intro exI [of _ v] exI [of _ ?a] exI [of _ q]) simp
qed

section \<open>Configurations read back\<close>

lemma ensure_Inr [res_simps]: "ensure b m = Inr u \<longleftrightarrow> b"
  by (auto simp: ensure_def)

lemma float_or_VFloat [simp]: "float_or (VFloat x) d = Inr x"
  by (simp add: float_or_def)

lemma entry_optional_float_opt [simp]: "entry_optional_float (v_opt_float xo) = Inr xo"
  by (cases xo) (simp_all add: entry_optional_float_def)

lemma entry_optional_int_opt [simp]: "entry_optional_int (v_opt_int no) = Inr no"
  by (cases no) (simp_all add: entry_optional_int_def)

lemma EntryTargetMode_roundtrip [simp]: "EntryTargetMode_of (EntryTargetMode_value m) = Inr m"
  by (cases m) (simp_all add: EntryTargetMode_of_def enum_member_def)

lemma EntryPlanStatus_roundtrip [simp]: "EntryPlanStatus_of (EntryPlanStatus_value p) = Inr p"
  by (cases p) (simp_all add: EntryPlanStatus_of_def enum_member_def)

lemma EntryEnvironment_roundtrip [simp]: "EntryEnvironment_of (EntryEnvironment_value e) = Inr e"
  by (cases e) (simp_all add: EntryEnvironment_of_def enum_member_def)

lemma EntryAuthorizationMode_roundtrip [simp]:
  "EntryAuthorizationMode_of (EntryAuthorizationMode_value a) = Inr a"
  by (cases a) (simp_all add: EntryAuthorizationMode_of_def enum_member_def)

text \<open>What the constructor of a part accepts is read back from its dictionary.\<close>

lemma baseline_roundtrip:
  "EntryBaselineSnapshot_post_init b = Inr b \<Longrightarrow>
     EntryBaselineSnapshot_from_dict (EntryBaselineSnapshot_asdict b) = Inr b"
  by (cases b) (simp add: EntryBaselineSnapshot_from_dict_def EntryBaselineSnapshot_asdict_def int_field_def)

lemma target_roundtrip:
  "EntryTargetPolicy_post_init p = Inr p \<Longrightarrow> EntryBaselineSnapshot_post_init (baseline_snapshot p) = Inr (baseline_snapshot p) \<Longrightarrow>
     EntryTargetPolicy_from_dict (EntryTargetPolicy_asdict p) = Inr p"
  by (cases p) (simp add: EntryTargetPolicy_from_dict_def EntryTargetPolicy_asdict_def baseline_roundtrip)

lemma rule_roundtrip:
  "EntryRuleSpec_post_init r = Inr r \<Longrightarrow> EntryRuleSpec_from_dict (EntryRuleSpec_asdict r) = Inr r"
  by (cases r) (simp add: EntryRuleSpec_from_dict_def EntryRuleSpec_asdict_def int_field_def bool_field_def)

lemma to_int_or_positive: "0 < n \<Longrightarrow> to_int (v_or (VInt n) (VInt d)) = Inr n"
  by (simp add: v_or_def)

lemma pacing_roundtrip:
  assumes "EntryPacingPolicy_post_init p = Inr p"
  shows "EntryPacingPolicy_from_dict (EntryPacingPolicy_asdict p) = Inr p"
proof -
  have "0 < tranche_count p" "0 < max_orders_per_day p" "0 < max_open_orders p"
    using assms by (auto simp: EntryPacingPolicy_post_init_def res_simps)
  with assms show ?thesis
    by (cases p) (simp add: EntryPacingPolicy_from_dict_def EntryPacingPolicy_asdict_def int_field_def
        bool_field_def to_int_or_positive)
qed

lemma execution_roundtrip:
  assumes "EntryExecutionPolicy_post_init p = Inr p"
  shows "EntryExecutionPolicy_from_dict (EntryExecutionPolicy_asdict p) = Inr p"
proof -
  have "0 < approval_ttl_ms p" "price_reference p \<noteq> []"
    using assms by (auto simp: EntryExecutionPolicy_post_init_def res_simps)
  with assms show ?thesis
    by (cases p) (simp add: EntryExecutionPolicy_from_dict_def EntryExecutionPolicy_asdict_def int_field_def
        to_int_or_positive)
qed

lemma completion_roundtrip:
  "EntryCompletionPolicy_post_init p = Inr p \<Longrightarrow>
     EntryCompletionPolicy_from_dict (EntryCompletionPolicy_asdict p) = Inr p"
  by (cases p) (simp add: EntryCompletionPolicy_from_dict_def EntryCompletionPolicy_asdict_def bool_field_def)

text \<open>A configuration whose parts their constructors accept.\<close>

definition config_valid :: "ManagedEntryPlanConfig \<Rightarrow> bool" where
  "config_valid c \<longleftrightarrow>
     ManagedEntryPlanConfig_post_init c = Inr c
     \<and> EntryTargetPolicy_post_init (target_policy c) = Inr (target_policy c)
     \<and> EntryBaselineSnapshot_post_init (baseline_snapshot (target_policy c))
         = Inr (baseline_snapshot (target_policy c))
     \<and> list_all (\<lambda>r. EntryRuleSpec_post_init r = Inr r) (trigger_rules c)
     \<and> EntryPacingPolicy_post_init (pacing_policy c) = Inr (pacing_policy c)
     \<and> EntryExecutionPolicy_post_init (execution_policy c) = Inr (execution_policy c)
     \<and> EntryCompletionPolicy_post_init (completion_policy c) = Inr (completion_policy c)"

lemma config_roundtrip:
  assumes "config_valid c"
  shows "ManagedEntryPlanConfig_from_dict (ManagedEntryPlanConfig_to_dict c) = Inr c"
proof -
  have "0 < template_version c" "0 < config_version c" "lower (bucket c) = bucket c"
    using assms by (auto simp: config_valid_def ManagedEntryPlanConfig_post_init_def res_simps
        lower_def lower_char_def)
  moreover have "rmap (\<lambda>v. EntryRuleSpec_from_dict (as_mapping v))
      (map (\<lambda>r. VDict (EntryRuleSpec_asdict r)) (trigger_rules c)) = Inr (map (\<lambda>r. r) (trigger_rules c))"
    using assms by (intro rmap_map_Inr) (auto simp: config_valid_def list_all_iff rule_roundtrip)
  moreover have "(let t = case exit_plan_template c of None \<Rightarrow> VNone | Some t \<Rightarrow> VDict t
      in if t = VNone then None else Some (as_mapping t)) = exit_plan_template c"
    by (simp split: option.split)
  ultimately show ?thesis
    using assms
    by (cases c) (simp add: ManagedEntryPlanConfig_from_dict_def ManagedEntryPlanConfig_to_dict_def int_field_def
        to_int_or_positive config_valid_def target_roundtrip pacing_roundtrip execution_roundtrip
        completion_roundtrip)
qed

lemma upper_upper [simp]: "upper (upper s) = upper s"
proof -
  have "upper_char (upper_char c) = upper_char c" for c
    by (auto simp: upper_char_def Let_def)
  then show ?thesis by (simp add: upper_def)
qed

lemma upper_empty [simp]: "upper s = [] \<longleftrightarrow> s = []"
  by (simp add: upper_def)

text \<open>Whatever \<open>from_dict\<close> returns has passed every constructor.\<close>

lemma rule_from_dict_valid: "EntryRuleSpec_from_dict raw = Inr r \<Longrightarrow> EntryRuleSpec_post_init r = Inr r"
  by (auto simp: EntryRuleSpec_from_dict_def EntryRuleSpec_post_init_def res_simps ensure_def split: if_splits)

lemma rmap_all: "rmap f xs = Inr ys \<Longrightarrow> (\<And>x y. f x = Inr y \<Longrightarrow> P y) \<Longrightarrow> list_all P ys"
  by (induction xs arbitrary: ys) (auto simp: res_simps)

lemma baseline_from_dict_valid:
  "EntryBaselineSnapshot_from_dict raw = Inr b \<Longrightarrow> EntryBaselineSnapshot_post_init b = Inr b"
  by (auto simp: EntryBaselineSnapshot_from_dict_def EntryBaselineSnapshot_post_init_def res_simps)

lemma target_from_dict_valid:
  assumes "EntryTargetPolicy_from_dict raw = Inr p"
  shows "EntryTargetPolicy_post_init p = Inr p
    \<and> EntryBaselineSnapshot_post_init (baseline_snapshot p) = Inr (baseline_snapshot p)"
proof -
  have self: "q = p" if "EntryTargetPolicy_post_init q = Inr p" for q
    using that unfolding EntryTargetPolicy_post_init_def by (auto simp: res_simps)
  from assms obtain q b where q: "EntryTargetPolicy_post_init q = Inr p" "baseline_snapshot q = b"
    "EntryBaselineSnapshot_from_dict (as_mapping (vget raw ''baseline_snapshot'')) = Inr b"
    by (auto simp: EntryTargetPolicy_from_dict_def res_simps)
  then show ?thesis using self [OF q(1)] baseline_from_dict_valid by auto
qed

lemma pacing_from_dict_valid:
  "EntryPacingPolicy_from_dict raw = Inr p \<Longrightarrow> EntryPacingPolicy_post_init p = Inr p"
  by (auto simp: EntryPacingPolicy_from_dict_def EntryPacingPolicy_post_init_def res_simps)

lemma execution_from_dict_valid:
  "EntryExecutionPolicy_from_dict raw = Inr p \<Longrightarrow> EntryExecutionPolicy_post_init p = Inr p"
  by (auto simp: EntryExecutionPolicy_from_dict_def EntryExecutionPolicy_post_init_def res_simps)

lemma completion_from_dict_valid:
  "EntryCompletionPolicy_from_dict raw = Inr p \<Longrightarrow> EntryCompletionPolicy_post_init p = Inr p"
  by (auto simp: EntryCompletionPolicy_from_dict_def EntryCompletionPolicy_post_init_def res_simps)

lemma config_from_dict_valid:
  assumes "ManagedEntryPlanConfig_from_dict raw = Inr c"
  shows "config_valid c"
proof -
  have self: "q = c" if "ManagedEntryPlanConfig_post_init q = Inr c" for q
    using that unfolding ManagedEntryPlanConfig_post_init_def by (auto simp: res_simps)
  from assms obtain q tp rs items pp ep cp where q: "ManagedEntryPlanConfig_post_init q = Inr c"
    "target_policy q = tp" "trigger_rules q = rs" "pacing_policy q = pp" "execution_policy q = ep"
    "completion_policy q = cp"
    and parts: "EntryTargetPolicy_from_dict (as_mapping (vget raw ''target_policy'')) = Inr tp"
    "rmap (\<lambda>v. EntryRuleSpec_from_dict (as_mapping v)) items = Inr rs"
    "EntryPacingPolicy_from_dict (as_mapping (vget raw ''pacing_policy'')) = Inr pp"
    "EntryExecutionPolicy_from_dict (as_mapping (vget raw ''execution_policy'')) = Inr ep"
    "EntryCompletionPolicy_from_dict (as_mapping (vget raw ''completion_policy'')) = Inr cp"
    unfolding ManagedEntryPlanConfig_from_dict_def by (auto simp: res_simps)
  have "list_all (\<lambda>r. EntryRuleSpec_post_init r = Inr r) rs"
    using parts(2) rule_from_dict_valid by (rule rmap_all)
  with q parts self [OF q(1)] show ?thesis
    using target_from_dict_valid pacing_from_dict_valid execution_from_dict_valid completion_from_dict_valid
    unfolding config_valid_def by auto
qed

section \<open>States read back\<close>

lemma those_map_as: "(\<And>x. x \<in> set xs \<Longrightarrow> f (g x) = Some x) \<Longrightarrow> those (map f (map g xs)) = Some xs"
  by (induction xs) simp_all

lemma as_strs_v_strs [simp]: "as_strs (v_strs xs) = Some xs"
  unfolding v_strs_def as_strs.simps by (rule those_map_as) simp

lemma as_dict_v_dict [simp]:
  assumes "\<And>v. f (g v) = Some v" shows "as_dict f (v_dict g d) = Some d"
proof -
  have "those (map (\<lambda>(k, v). map_option (Pair k) (f v)) (map (\<lambda>(k, v). (k, g v)) d)) = Some d"
    by (rule those_map_as) (auto simp: assms)
  then show ?thesis by (simp add: v_dict_def dmap_def del: map_map)
qed

lemma as_opt_int_opt [simp]: "as_opt_int (v_opt_int no) = Some no"
  by (cases no) simp_all

lemma read_id_set_sorted [simp]:
  "finite A \<Longrightarrow> read_id_set (v_strs (sorted_list_of_set A)) = Some (Inr A)"
  using those_map_as [of "sorted_list_of_set A" as_str VStr]
  by (simp add: read_id_set_def v_strs_def)

lemma read_phase_value [simp]: "read_phase (VStr (EntryPlanStatus_value p)) = Inr p"
  by (simp add: read_phase_def)

lemma EntryPlanStatus_value_nonempty [simp]: "EntryPlanStatus_value p \<noteq> []"
  by (cases p) simp_all

lemma read_terminal_value:
  assumes "t \<in> {None, Some CANCELLED, Some EXPIRED}"
  shows "read_terminal (case t of None \<Rightarrow> VNone | Some p \<Rightarrow> VStr (EntryPlanStatus_value p)) = Inr t"
  using assms by (auto simp: read_terminal_def simp del: EntryPlanStatus_value.simps)

lemma read_expected_value:
  "(case no of None \<Rightarrow> True | Some n \<Rightarrow> 0 \<le> n) \<Longrightarrow> read_expected (v_opt_int no) = Inr no"
  by (cases no) (simp_all add: read_expected_def)

lemma stored_Some [simp]:
  "dget raw k = Some v \<Longrightarrow> f v = Some x \<Longrightarrow> stored raw k f upd (Some s) = Some (upd x s)"
  by (simp add: stored_def)

lemma stored_fields_to_dict:
  "\<exists>p t n rs acts. stored_fields (ManagedEntryPlanState_to_dict s) =
     Some (s\<lparr>phase := p, terminal_requested := t, terminal_expected_filled_volume := n,
             completed_rule_ids := rs, completed_activation_ids := acts\<rparr>)"
proof -
  have "stored_fields (ManagedEntryPlanState_to_dict s) =
     Some (s\<lparr>phase := ARMED, terminal_requested := None, terminal_expected_filled_volume := None,
             completed_rule_ids := {}, completed_activation_ids := {}\<rparr>)"
    unfolding stored_fields_def ManagedEntryPlanState_to_dict_def
    by (cases s) (simp add: new_entry_state_def)
  then show ?thesis by blast
qed

lemma state_roundtrip:
  assumes "entry_wf s"
  shows "ManagedEntryPlanState_from_dict (ManagedEntryPlanState_to_dict s) = Some (Inr s)"
proof -
  obtain p t n rs acts where fields: "stored_fields (ManagedEntryPlanState_to_dict s) =
     Some (s\<lparr>phase := p, terminal_requested := t, terminal_expected_filled_volume := n,
             completed_rule_ids := rs, completed_activation_ids := acts\<rparr>)"
    using stored_fields_to_dict by blast
  have keys: "vget_or (ManagedEntryPlanState_to_dict s) ''phase'' v = VStr (EntryPlanStatus_value (phase s))"
    "vget_or (ManagedEntryPlanState_to_dict s) ''terminal_requested'' v =
       (case terminal_requested s of None \<Rightarrow> VNone | Some t \<Rightarrow> VStr (EntryPlanStatus_value t))"
    "vget_or (ManagedEntryPlanState_to_dict s) ''terminal_expected_filled_volume'' v =
       v_opt_int (terminal_expected_filled_volume s)"
    "vget_or (ManagedEntryPlanState_to_dict s) ''completed_rule_ids'' v = v_strs (sorted_list_of_set (completed_rule_ids s))"
    "vget_or (ManagedEntryPlanState_to_dict s) ''completed_activation_ids'' v =
       v_strs (sorted_list_of_set (completed_activation_ids s))" for v
    by (simp_all add: ManagedEntryPlanState_to_dict_def)
  have ok: "finite (completed_rule_ids s)" "finite (completed_activation_ids s)"
    "terminal_requested s \<in> {None, Some CANCELLED, Some EXPIRED}"
    "case terminal_expected_filled_volume s of None \<Rightarrow> True | Some n \<Rightarrow> 0 \<le> n"
    using assms by (simp_all add: entry_wf_def books_ok_def phase_ok_def pending_ok_def)
  have "s\<lparr>phase := p, terminal_requested := t, terminal_expected_filled_volume := n,
        completed_rule_ids := rs, completed_activation_ids := acts\<rparr>
      \<lparr>phase := phase s, terminal_requested := terminal_requested s,
       terminal_expected_filled_volume := terminal_expected_filled_volume s,
       completed_rule_ids := completed_rule_ids s, completed_activation_ids := completed_activation_ids s\<rparr> = s"
    by (cases s) simp
  then show ?thesis
    unfolding ManagedEntryPlanState_from_dict_def keys fields
    using ok read_terminal_value [OF ok(3)] read_expected_value [OF ok(4)] by simp
qed

section \<open>A confirmed pullback waits for its fill\<close>

text \<open>
  Once the rule has confirmed a pullback it is in phase \<open>CONFIRMED\<close>. That phase is left only when
  the trend breaks or when an execution of the rule resets it, so a confirmation whose order bought
  nothing cannot be confirmed again while the trend holds.
\<close>

lemma view_pullback_confirmed:
  "pb_phase (view_pullback ''CONFIRMED'' peak low c r) = ''CONFIRMED''"
  by (simp add: view_pullback_def Let_def)

lemma pullback_result_phase:
  assumes "pullback_result rule s t False rs = Inr (u, m)"
  shows "\<not> matched m \<and> rule_state u = dset (spec_rule_id rule) rs (rule_state s)"
  using assms by (auto simp: pullback_result_def Let_def res_simps set_rule_state_def)

lemma pullback_entries_phase:
  "vget (dict_update rs (pullback_entries ctx t v n)) ''phase'' = VStr (pb_phase v)"
  by (simp add: dict_update_def pullback_entries_def)

lemma confirmed_never_matches:
  assumes "pullback_match rule s ctx rs t = Inr (u, m)" "vget rs ''phase'' = VStr ''CONFIRMED''"
  shows "\<not> matched m \<and> vget (dget_or (rule_state u) (spec_rule_id rule) []) ''phase'' = VStr ''CONFIRMED''"
proof -
  have ph: "str_or (vget_or rs ''phase'' (VStr ''WAITING_PULLBACK'')) ''WAITING_PULLBACK'' = ''CONFIRMED''"
  proof -
    have "dget rs ''phase'' = Some (VStr ''CONFIRMED'')"
      using assms(2) by (auto simp: vget_def dget_or_def split: option.splits)
    then show ?thesis by (simp add: vget_or_def dget_or_def)
  qed
  from assms(1) obtain peak low pull n rs0 where
    "pullback_result rule s t False
       (dict_update rs0 (pullback_entries ctx t (view_pullback ''CONFIRMED'' peak low (executable_price ctx) pull) n)) = Inr (u, m)"
    unfolding pullback_match_def Let_def ph by (auto simp: res_simps view_pullback_confirmed)
  then show ?thesis
    using pullback_result_phase pullback_entries_phase view_pullback_confirmed
    by (auto simp: dget_or_def)
qed

section \<open>A sample plan\<close>

text \<open>A plan that buys by manual trigger towards the whole account, at most 600 per order.\<close>

definition sample_baseline :: EntryBaselineSnapshot where
  "sample_baseline =
     \<lparr>position_volume = 0, market_value_cny = fzero, total_asset_cny = Fin 100000,
      reference_price = Fin 10, account_snapshot_version = ''v1''\<rparr>"

definition sample_entry_config :: ManagedEntryPlanConfig where
  "sample_entry_config =
     \<lparr>template_version = 1, config_instrument_code = ''600000.SH'', bucket = ''core'',
      target_policy =
        \<lparr>target_mode = TARGET_POSITION_PCT, max_total_amount_cny = Fin 1000, max_position_pct = Fin 1,
         baseline_snapshot = sample_baseline, target_position_pct = Some (Fin 1),
         incremental_amount_cny = None, additional_volume = None\<rparr>,
      trigger_rules = [\<lparr>spec_rule_id = ''r1'', spec_rule_type = ''MANUAL_TRIGGER'', priority = 0,
                        parameters = [], once = False, enabled = True\<rparr>],
      pacing_policy =
        \<lparr>tranche_count = 2, max_single_intent_amount_cny = Fin 600,
         max_daily_filled_amount_cny = Fin 5000, max_orders_per_day = 2, cash_buffer_pct = fzero,
         min_interval_seconds = 0, max_open_orders = 1, cooldown_after_reject_seconds = 60,
         trend_adjustment_enabled = True\<rparr>,
      execution_policy =
        \<lparr>environment = PAPER, authorization_mode = AUTO, price_reference = ''ASK1_PROTECTED_LIMIT'',
         max_slippage_bps = fzero, max_price_deviation_bps = fzero, approval_ttl_ms = 60000\<rparr>,
      completion_policy =
        \<lparr>max_buy_price = Fin 20, expire_at_ms = None, stop_when_target_reached = True,
         stop_when_budget_exhausted = True, cancel_unsubmitted_on_expiry = True\<rparr>,
      config_version = 1, exit_plan_template = None\<rparr>"

definition sample_entry_context :: EntryEvaluationContext where
  "sample_entry_context =
     \<lparr>plan_id = ''p1'', decision_time_ms = 1000, trade_date = ''2024-01-02'',
      instrument_code = ''600000.SH'', executable_price = Fin 10, total_equity_cny = Fin 100000,
      current_position_volume = 0, current_market_value_cny = fzero, pending_buys = [],
      plan_filled_amount_cny = fzero, plan_filled_volume = 0, daily_filled_amount_cny = fzero,
      daily_order_count = 0, risk_max_buy_amount_cny = Some (Fin 50000), liquidity_cap_cny = None,
      context_data_quality = ''OK'', allow_buy = True, allow_bucket_buy = True,
      only_risk_reduction = False, kill_switch = False, conflicting_sell = False,
      market_ready = True, manual_trigger_rule_id = Some ''r1'', daily_observations = [],
      intraday_observations = []\<rparr>"

lemma sample_config_valid: "config_valid sample_entry_config"
  by (simp add: config_valid_def sample_entry_config_def sample_baseline_def
      ManagedEntryPlanConfig_post_init_def EntryTargetPolicy_post_init_def
      EntryBaselineSnapshot_post_init_def EntryRuleSpec_post_init_def EntryPacingPolicy_post_init_def
      EntryExecutionPolicy_post_init_def EntryCompletionPolicy_post_init_def ensure_def
      require_positive_def require_non_negative_def active_targets_def target_missing_def
      upper_def upper_char_def)

lemma above_epsilon:
  assumes "1 / 1000 \<le> x" shows "\<not> fle (Fin x) EPSILON"
proof -
  obtain e where eq: "EPSILON = Fin e" and e: "e < 1 / 1000" using EPSILON_bounds by blast
  show ?thesis unfolding eq fle.simps using assms e by simp
qed

lemma price_below_limit:
  assumes "y \<le> x" "fround x = Fin x" shows "\<not> flt (fadd (Fin x) EPSILON) (Fin y)"
proof -
  obtain e where eq: "EPSILON = Fin e" and e: "0 < e" using EPSILON_bounds by blast
  have "fle (fround x) (fround (x + e))" using e by (intro fround_mono) simp
  with assms show ?thesis unfolding eq fadd.simps by (cases "fround (x + e)") auto
qed

lemma sample_entry_open: "block_reason sample_entry_config (new_entry_state\<lparr>data_quality := ''OK''\<rparr>) sample_entry_context
    = Inr (new_entry_state\<lparr>data_quality := ''OK''\<rparr>, [])"
  using price_below_limit [of 10 20]
  by (simp add: block_reason_def plan_block_reason_def pacing_block_reason_def Let_def has_pending_def
      sample_entry_config_def sample_entry_context_def new_entry_state_def TERMINAL_ENTRY_PHASES_def
      causal_def dget_or_def upper_def upper_char_def)

definition sample_gap :: EntryGapResult where
  "sample_gap =
     \<lparr>remaining_amount_cny = Fin 1000, remaining_volume = None, target_reached = False,
      pending_amount_cny = fzero, pending_volume = 0, position_cap_remaining_cny = Fin 100000,
      plan_budget_remaining_cny = Fin 1000\<rparr>"

lemma sample_gap_calculate: "gap_calculate (target_policy sample_entry_config) sample_entry_context = Inr sample_gap"
  by (simp add: gap_calculate_def sample_entry_config_def sample_entry_context_def sample_gap_def
      gap_current_value_def gap_budget_remaining_def gap_position_cap_def pending_buy_amount_cny_def
      pending_buy_volume_def py_fsum_def float_of_int_def fsub_def pmax_def pmin_def opt_or_def
      above_epsilon Let_def)

lemma sample_evaluation:
  "\<exists>r d. evaluate_entry builtin_registry sample_entry_config new_entry_state sample_entry_context = Inr r
     \<and> decision r = Some d \<and> target_amount_cny d = Some (Fin 600)"
proof -
  let ?s = "new_entry_state\<lparr>data_quality := ''OK''\<rparr>"
  let ?rule = "hd (trigger_rules sample_entry_config)"
  let ?m = "\<lparr>matched = True, match_reason = ''ENTRY_MANUAL_TRIGGER_CONFIRMED'',
      suggested_amount_cny = None, suggested_volume = None, match_metrics = []\<rparr>"
  have rules: "match_rules builtin_registry sample_entry_context (trigger_rules sample_entry_config) ?s
      = Inr (?s, [(?rule, ?m)])"
    by (simp add: sample_entry_config_def sample_entry_context_def new_entry_state_def
        entry_registry_evaluate_def builtin_registry_def TREND_PULLBACK_CONFIRMATION_def PRICE_LADDER_def
        MANUAL_TRIGGER_def manual_entry_trigger_def entry_optional_float_def entry_optional_int_def)
  have cap: "entry_amount_cap sample_entry_config sample_entry_context sample_gap = Fin 600"
    by (simp add: entry_amount_cap_def sample_entry_config_def sample_entry_context_def sample_gap_def
        fsub_def pmax_def pmin_def)
  have "decide_entry builtin_registry sample_entry_config ?s sample_entry_context sample_gap
      = Inr (issue_decision sample_entry_config ?s sample_entry_context sample_gap ?rule ?m (Some (Fin 600)) None (Fin 600))"
    using cap above_epsilon [of 600] above_epsilon [of 1000]
    unfolding decide_entry_def rules
    by (simp add: size_decision_def Let_def sample_gap_def fsub_def)
       (simp add: sample_entry_config_def sample_entry_context_def fsub_def above_epsilon)
  moreover have "upper (if context_data_quality sample_entry_context = [] then ''INSUFFICIENT''
      else context_data_quality sample_entry_context) = ''OK''"
    by (simp add: sample_entry_context_def upper_def upper_char_def)
  ultimately show ?thesis
    by (simp add: evaluate_entry_def Let_def sample_entry_open sample_gap_calculate)
       (simp add: issue_decision_def Let_def)
qed

section \<open>Properties\<close>

text \<open>C0\<close>
text \<open>
  C15: In every state a managed entry plan reaches from its creation by evaluations, executions,
  terminal order reports, terminal requests, pauses and activations, an empty pending slot holds no
  reservation, the fills of the slot are fills of the plan, the phase agrees with the slot and with
  the terminal request, every remembered trade is remembered once, and the rules together account
  for at most the filled volume.
\<close>

theorem entry_plan_invariant:
  assumes "entry_builtins = Inr reg" "entry_reachable reg new_entry_state s"
  shows "entry_wf s"
  using assms entry_rules.reachable_wf [of new_entry_state s] by (simp add: entry_builtins_eq)

definition stray_fill :: trade_fill where
  "stray_fill =
     \<lparr>trade_key = ''t1'', matches_pending = False, fill_volume = 100, fill_price = Fin 10,
      fill_trade_date = ''2024-01-02'', fill_timestamp_ms = 5, fill_rule_id = None\<rparr>"

lemma sample_run:
  "entry_reachable builtin_registry new_entry_state
     (set_phase PAUSED [] [] 7 (fst (apply_trade_fill stray_fill False new_entry_state)))"
proof -
  have "entry_step builtin_registry new_entry_state (fst (apply_trade_fill stray_fill False new_entry_state))"
    by (rule entry_step.traded) (simp add: stray_fill_def)
  then show ?thesis
    unfolding entry_reachable_def by (blast intro: rtranclp.rtrancl_into_rtrancl entry_step.paused)
qed

theorem entry_plan_invariant_witness:
  "entry_wf (set_phase PAUSED [] [] 7 (fst (apply_trade_fill stray_fill False new_entry_state)))
   \<and> filled_volume (set_phase PAUSED [] [] 7 (fst (apply_trade_fill stray_fill False new_entry_state))) = 100"
  using entry_plan_invariant [OF entry_builtins_eq sample_run]
  by (simp add: set_phase_def apply_trade_fill_def stray_fill_def new_entry_state_def Let_def)

text \<open>Both kinds of target, from the outcome of the sizing.\<close>

lemma entry_size_sound:
  assumes sized: "size_decision config s ctx g (rule, m) = Inr r" "decision r = Some d"
    and gap: "gap_calculate (target_policy config) ctx = Inr g"
    and price: "\<not> fle (executable_price ctx) fzero" "\<not> fle (total_equity_cny ctx) fzero"
    and single: "max_single_intent_amount_cny (pacing_policy config) \<noteq> NaN"
  shows "if target_mode (target_policy config) = ADDITIONAL_VOLUME
     then \<exists>v c q n. target_volume d = Some v \<and> target_amount_cny d = None \<and> 0 < v
       \<and> v \<le> opt_or (additional_volume (target_policy config)) 0 - plan_filled_volume ctx - pending_buy_volume ctx
       \<and> floor_of_float (fdiv (pmin (gap_budget_remaining (target_policy config) ctx)
            (gap_position_cap (target_policy config) ctx)) (executable_price ctx)) = Inr n \<and> v \<le> n
       \<and> pacing_limits config ctx c \<and> fdiv c (executable_price ctx) = Fin q \<and> of_int v \<le> q
     else \<exists>a. target_amount_cny d = Some a \<and> target_volume d = None \<and> flt EPSILON a
       \<and> pacing_limits config ctx a \<and> fle a (gap_budget_remaining (target_policy config) ctx)
       \<and> fle a (gap_position_cap (target_policy config) ctx)"
proof (cases "target_mode (target_policy config) = ADDITIONAL_VOLUME")
  case True
  obtain n where n: "floor_of_float (fdiv (pmin (gap_budget_remaining (target_policy config) ctx)
        (gap_position_cap (target_policy config) ctx)) (executable_price ctx)) = Inr n"
    "remaining_volume g = Some (min (max 0 (max 0 (opt_or (additional_volume (target_policy config)) 0
        - plan_filled_volume ctx) - pending_buy_volume ctx)) (max 0 n))"
    using gap_volume [OF gap True price] by blast
  have "fdiv x NaN = NaN" for x by (cases x) simp_all
  with n(1) have "executable_price ctx \<noteq> NaN" by auto
  then have pos: "flt fzero (executable_price ctx)" using price(1) not_flt_iff [of fzero "executable_price ctx"] by auto
  obtain v c q where v: "target_volume d = Some v" "target_amount_cny d = None" "0 < v"
    "v \<le> opt_or (remaining_volume g) 0" "flt fzero c" "fle c (entry_amount_cap config ctx g)"
    "fdiv c (executable_price ctx) = Fin q" "of_int v \<le> q"
    using size_decision_volume [OF sized True pos] by blast
  have "0 \<le> pending_buy_volume ctx" by (auto simp: pending_buy_volume_def intro!: sum_list_nonneg)
  then have "v \<le> opt_or (additional_volume (target_policy config)) 0 - plan_filled_volume ctx - pending_buy_volume ctx" "v \<le> n"
    using v(3,4) n(2) by (auto simp: opt_or_def)
  with v n(1) entry_amount_cap_limits(2) [OF v(5,6) single] True show ?thesis by auto
next
  case False
  obtain a where a: "target_amount_cny d = Some a" "target_volume d = None" "flt EPSILON a" "fle a (entry_amount_cap config ctx g)"
    using size_decision_amount [OF sized False] by blast
  have "flt fzero a" using EPSILON_nonneg a(3) by (rule fle_flt_trans)
  note lim = entry_amount_cap_limits [OF this a(4) single]
  show ?thesis
    using False a lim gap_amount_le [OF gap False price] by (auto intro: fle_trans)
qed

text \<open>C0\<close>

lemma sample_config_loads:
  "ManagedEntryPlanConfig_from_dict (ManagedEntryPlanConfig_to_dict sample_entry_config) = Inr sample_entry_config"
  by (rule config_roundtrip [OF sample_config_valid])


text \<open>C0\<close>
text \<open>
  C17: Once the end of a plan has been requested, no later sequence of steps (also pausing and
  activating it) changes which end was requested, and no evaluation decides to buy again.
\<close>

theorem entry_terminal_latch:
  assumes "entry_builtins = Inr reg" "terminal_requested s = Some c" "entry_reachable reg s t"
  shows "terminal_requested t = Some c
    \<and> (\<forall>config ctx r. evaluate_entry reg config t ctx = Inr r \<longrightarrow> decision r = None)"
proof -
  have reg: "reg = builtin_registry" using assms(1) by (simp add: entry_builtins_eq)
  have "terminal_requested t = Some c" using entry_rules.reachable_latch assms unfolding reg by blast
  then show ?thesis using entry_rules.requested_evaluates_quietly unfolding reg by blast
qed

definition cancelled_entry :: ManagedEntryPlanState where
  "cancelled_entry = new_entry_state\<lparr>terminal_requested := Some CANCELLED, phase := CANCELLED\<rparr>"

theorem entry_terminal_latch_witness:
  "terminal_requested (set_phase PAUSED [] [] 7 cancelled_entry) = Some CANCELLED
   \<and> (case evaluate_entry builtin_registry sample_entry_config (set_phase PAUSED [] [] 7 cancelled_entry)
          sample_entry_context of Inl e \<Rightarrow> True | Inr r \<Rightarrow> decision r = None)"
proof -
  have "terminal_requested cancelled_entry = Some CANCELLED" by (simp add: cancelled_entry_def)
  moreover have "entry_reachable builtin_registry cancelled_entry (set_phase PAUSED [] [] 7 cancelled_entry)"
    by (auto simp: entry_reachable_def intro: entry_step.paused)
  ultimately have latch: "terminal_requested (set_phase PAUSED [] [] 7 cancelled_entry) = Some CANCELLED
      \<and> (\<forall>config ctx r. evaluate_entry builtin_registry config (set_phase PAUSED [] [] 7 cancelled_entry) ctx = Inr r
           \<longrightarrow> decision r = None)"
    by (rule entry_terminal_latch [OF entry_builtins_eq])
  show ?thesis
  proof (cases "evaluate_entry builtin_registry sample_entry_config (set_phase PAUSED [] [] 7 cancelled_entry)
      sample_entry_context")
    case (Inl e)
    with latch show ?thesis by simp
  next
    case (Inr r)
    with latch have "decision r = None" by blast
    with latch Inr show ?thesis by simp
  qed
qed

text \<open>C0\<close>
text \<open>
  C18: The pending intent is released by a terminal order report exactly when a zero fill was
  reconciled or the executions received reach the cumulative fill the report stands for; a cancellation or
  expiry that announces no fill keeps it. It is released by an
  execution exactly when it is the pending intent's and completes an announced cumulative fill. An
  evaluation never releases it and never decides beside it.
\<close>

theorem entry_release_needs_proof:
  assumes "entry_builtins = Inr reg" "has_pending s"
  shows "(\<not> has_pending (apply_order_terminal st now cd ex b s) \<longleftrightarrow>
       status_word st = ''RECONCILED_ZERO_FILL''
       \<or> (status_word st \<in> set TERMINAL_ORDER_WORDS
           \<and> (\<exists>n. expected_after (status_word st) ex s = Some n \<and> n \<le> pending_filled_volume s)))
    \<and> (status_word st \<in> {''CANCELLED'', ''CANCELED'', ''EXPIRED'', ''PARTIALLY_CANCELED''}
         \<and> terminal_expected_filled_volume s = None \<and> (case ex of None \<Rightarrow> True | Some n \<Rightarrow> n \<le> 0)
         \<longrightarrow> has_pending (apply_order_terminal st now cd ex b s))
    \<and> (\<not> has_pending (fst (apply_trade_fill f b s)) \<longleftrightarrow>
       snd (apply_trade_fill f b s) \<and> matches_pending f \<and> order_terminal_seen s
       \<and> (\<exists>n. terminal_expected_filled_volume s = Some n \<and> n \<le> pending_filled_volume s + fill_volume f))
    \<and> (\<forall>config ctx r. evaluate_entry reg config s ctx = Inr r \<longrightarrow>
         decision r = None \<and> has_pending (result_state r))"
proof -
  have reg: "reg = builtin_registry" using assms(1) by (simp add: entry_builtins_eq)
  have "decision r = None \<and> has_pending (result_state r)" if "evaluate_entry reg config s ctx = Inr r" for config ctx r
    using entry_rules.evaluate_keeps_pending [OF that [unfolded reg] assms(2)] quiet_eqs(1) assms(2) by blast
  moreover have "has_pending (apply_order_terminal st now cd ex b s)"
    if "status_word st \<in> {''CANCELLED'', ''CANCELED'', ''EXPIRED'', ''PARTIALLY_CANCELED''}"
      "terminal_expected_filled_volume s = None" "case ex of None \<Rightarrow> True | Some n \<Rightarrow> n \<le> 0"
    using that order_terminal_release [OF assms(2), of st now cd ex b]
    by (auto simp: expected_after_def Let_def split: option.splits)
  ultimately show ?thesis
    using order_terminal_release [OF assms(2)] trade_fill_release [OF assms(2)] by blast
qed

text \<open>A plan with a pending intent for 300 shares of which 100 are executed.\<close>

definition waiting_entry :: ManagedEntryPlanState where
  "waiting_entry =
     new_entry_state\<lparr>phase := ENTRY_PENDING, pending_intent_id := ''i1'', pending_stage_id := ''s1'',
       pending_rule_id := ''r1'', pending_requested_volume := 300, pending_filled_volume := 100,
       filled_volume := 100, last_fill_at_ms := Some 3, processed_trade_keys := [''t0'']\<rparr>"

lemma waiting_entry_wf: "entry_wf waiting_entry" "has_pending waiting_entry"
  by (simp_all add: waiting_entry_def entry_wf_defs new_entry_state_def has_pending_def dkeys_def dvalues_def)

definition slice_fill :: trade_fill where
  "slice_fill = stray_fill\<lparr>matches_pending := True, fill_volume := 200\<rparr>"

theorem entry_release_needs_proof_witness:
  "has_pending (apply_order_terminal ''CANCELLED'' 9 60 (Some 0) False waiting_entry)
   \<and> \<not> has_pending (apply_order_terminal ''CANCELLED'' 9 60 (Some 100) False waiting_entry)"
proof -
  note rule = entry_release_needs_proof [OF entry_builtins_eq waiting_entry_wf(2), THEN conjunct1]
  show ?thesis
    using rule [of "''CANCELLED''" 9 60 "Some 0" False] rule [of "''CANCELLED''" 9 60 "Some 100" False]
    by (simp add: status_word_def upper_def upper_char_def TERMINAL_ORDER_WORDS_def expected_after_def
        waiting_entry_def new_entry_state_def)
qed

text \<open>C0\<close>
text \<open>
  The last execution of the pending intent and the terminal report that announces its
  cumulative fill leave the plan in the same state whichever arrives first.
\<close>

lemma entry_reports_commute:
  assumes "entry_wf s" "has_pending s" "\<not> order_terminal_seen s" "terminal_expected_filled_volume s = None"
    and "trade_key f \<noteq> []" "trade_key f \<notin> set (processed_trade_keys s)" "0 < fill_volume f"
      "\<not> fle (fill_price f) fzero" "matches_pending f"
    and "status_word st \<in> set TERMINAL_ORDER_WORDS" "status_word st \<noteq> ''RECONCILED_ZERO_FILL''"
      "n = pending_filled_volume s + fill_volume f"
  shows "apply_order_terminal st now cd (Some n) b (fst (apply_trade_fill f b1 s)) =
     fst (apply_trade_fill f b (apply_order_terminal st now cd (Some n) b2 s))"
  using assms by (rule report_and_execution_commute)

text \<open>C0\<close>
text \<open>
  C19: Every reachable state of a plan and every accepted configuration are read back unchanged from
  the dictionaries they are stored in.
\<close>

theorem entry_storage_roundtrip:
  assumes "entry_builtins = Inr reg" "entry_reachable reg new_entry_state s"
    and "ManagedEntryPlanConfig_from_dict raw = Inr config"
  shows "ManagedEntryPlanState_from_dict (ManagedEntryPlanState_to_dict s) = Some (Inr s)
    \<and> ManagedEntryPlanConfig_from_dict (ManagedEntryPlanConfig_to_dict config) = Inr config"
proof -
  have "entry_wf s" using assms(1,2) entry_rules.reachable_wf [of new_entry_state s] by (simp add: entry_builtins_eq)
  then show ?thesis using state_roundtrip config_roundtrip [OF config_from_dict_valid [OF assms(3)]] by blast
qed

theorem entry_storage_roundtrip_witness:
  "ManagedEntryPlanState_from_dict (ManagedEntryPlanState_to_dict
      (set_phase PAUSED [] [] 7 (fst (apply_trade_fill stray_fill False new_entry_state))))
     = Some (Inr (set_phase PAUSED [] [] 7 (fst (apply_trade_fill stray_fill False new_entry_state))))
   \<and> ManagedEntryPlanConfig_from_dict (ManagedEntryPlanConfig_to_dict sample_entry_config) = Inr sample_entry_config"
  by (rule entry_storage_roundtrip [OF entry_builtins_eq sample_run sample_config_loads])

lemma order_terminal_rule_state [simp]: "rule_state (apply_order_terminal st now cd ex b s) = rule_state s"
  by (simp add: apply_order_terminal_def settle_pending_def clear_pending_def Let_def split: option.split)

text \<open>C0\<close>
text \<open>
  A rule in phase \<open>CONFIRMED\<close> whose order ends without an execution stays \<open>CONFIRMED\<close> and never
  matches while the trend holds; only a broken trend takes it back to waiting.
\<close>

lemma confirmed_pullback_needs_fill:
  assumes "vget (dget_or (rule_state s) (spec_rule_id rule) []) ''phase'' = VStr ''CONFIRMED''"
    and "trend_pullback_confirmation rule (apply_order_terminal st now cd ex b s) ctx = Inr (t, m)"
  shows "\<not> matched m \<and> vget (dget_or (rule_state t) (spec_rule_id rule) []) ''phase'' \<in> {VStr ''CONFIRMED'', VStr ''WAITING_TREND''}"
proof -
  let ?s = "apply_order_terminal st now cd ex b s"
  from assms(2) consider "t = ?s" "m = no_match ''ENTRY_TREND_WARMING_UP'' []"
    | "vget (dget_or (rule_state t) (spec_rule_id rule) []) ''phase'' = VStr ''WAITING_TREND''" "\<not> matched m"
    | tr where "pullback_match rule ?s ctx (dget_or (rule_state s) (spec_rule_id rule) []) tr = Inr (t, m)"
    unfolding trend_pullback_confirmation_def Let_def
    by (auto simp: res_simps no_match_def set_rule_state_def dget_or_def dict_update_def split: if_splits)
  then show ?thesis
  proof cases
    case 1
    then show ?thesis using assms(1) by (simp add: no_match_def)
  next
    case 2
    then show ?thesis by simp
  next
    case 3
    then show ?thesis using confirmed_never_matches [OF 3 assms(1)] by blast
  qed
qed

text \<open>An uptrend over seven days, seen by a rule whose confirmed order was rejected.\<close>

definition pullback_rule :: EntryRuleSpec where
  "pullback_rule =
     \<lparr>spec_rule_id = ''r1'', spec_rule_type = TREND_PULLBACK_CONFIRMATION, priority = 0,
      parameters = [(''fast_ema_period'', VInt 3), (''slow_ema_period'', VInt 7),
                    (''trend_adjustment_enabled'', VBool False)],
      once = False, enabled = True\<rparr>"

definition uptrend_context :: EntryEvaluationContext where
  "uptrend_context = sample_entry_context\<lparr>daily_observations :=
     map (\<lambda>(t, p). \<lparr>timestamp_ms = t, observed_price = Fin p, observed_volume = None\<rparr>)
       [(1, 4), (2, 4), (3, 4), (4, 4), (5, 4), (6, 4), (7, 8)]\<rparr>"

definition confirmed_entry :: ManagedEntryPlanState where
  "confirmed_entry = waiting_entry\<lparr>rule_state := [(''r1'', [(''phase'', VStr ''CONFIRMED'')])]\<rparr>"

lemma fround_quarters: "fround (1 / 2) = Fin (1 / 2)" "fround (1 / 4) = Fin (1 / 4)" "fround (3 / 4) = Fin (3 / 4)"
  using fround_exact [of 1 "- 1"] fround_exact [of 1 "- 2"] fround_exact [of 3 "- 2"] by (simp_all add: pow2_def)

lemma uptrend_ok: "trend_ok (view_trend [Fin 4, Fin 4, Fin 4, Fin 4, Fin 4, Fin 4, Fin 8] 3 7 fzero)"
  by (simp add: view_trend_def Let_def float_of_int_def fsub_def fround_quarters percent_change_def)

end
