(* ===== verification/Risk_Checker.thy ===== *)
theory Risk_Checker
  imports Order_Sizer "HOL-Library.List_Lexorder" "HOL-Library.Char_ord"
begin

text \<open>
  The run-level risk layers (\<open>trading/risk_checker.py\<close>). \<open>ContextRiskLayer.build_caps\<close> turns the
  run's parameters and its market, order and broker state into \<open>RiskContextCaps\<close>;
  \<open>TradingRiskChecker.evaluate_order\<close> reads those caps as a dictionary and answers an order with a
  decision: allowed, capped, delayed, rejected, or refused by the kill switch. The messages of a
  decision are text for a person and are not modelled; the random id of a decision is an argument
  of \<open>to_check_result\<close>, the only place that reads it. The service that knows the trading hours is
  an argument of the checker, as it is in the code.
\<close>

section \<open>Values\<close>

text \<open>
  \<open>list(v)\<close> and \<open>dict(v)\<close> without a default. A mapping given as a list of pairs, which \<open>dict\<close>
  would accept, does not occur in a JSON configuration and is an error here.
\<close>

fun py_list :: "pyval \<Rightarrow> pyval list res" where
  "py_list (VList xs) = Inr xs"
| "py_list (VStr s) = Inr (map (\<lambda>c. VStr [c]) s)"
| "py_list (VDict d) = Inr (map (\<lambda>(k, _). VStr k) d)"
| "py_list _ = Inl TypeError"

fun py_dict :: "pyval \<Rightarrow> pydict res" where
  "py_dict (VDict d) = Inr d"
| "py_dict (VStr []) = Inr []"
| "py_dict (VStr (c # s)) = Inl (ValueError [])"
| "py_dict (VList []) = Inr []"
| "py_dict _ = Inl TypeError"

definition sorted_strings :: "string list \<Rightarrow> string list" where
  "sorted_strings xs = sorted_list_of_set (set xs)"

definition optional_positive_int :: "pyval \<Rightarrow> int option res" where
  "optional_positive_int v =
     rbind (optional_int v) (\<lambda>p.
       Inr (case p of None \<Rightarrow> None | Some n \<Rightarrow> if 0 < n then Some n else None))"

definition min_optional :: "pyfloat option \<Rightarrow> pyfloat \<Rightarrow> pyfloat option" where
  "min_optional current limit =
     Some (case current of None \<Rightarrow> limit | Some c \<Rightarrow> pmin c limit)"

definition max_optional :: "pyfloat option \<Rightarrow> pyfloat \<Rightarrow> pyfloat option" where
  "max_optional current limit =
     Some (case current of None \<Rightarrow> limit | Some c \<Rightarrow> pmax c limit)"

fun normalize_state :: "pyval list \<Rightarrow> string" where
  "normalize_state [] = []"
| "normalize_state (v # vs) =
     (case v of
        VNone \<Rightarrow> normalize_state vs
      | _ \<Rightarrow> let text = strip (py_str v)
             in if text \<noteq> [] then upper text else normalize_state vs)"

definition public_cap_reason_code :: "string \<Rightarrow> string" where
  "public_cap_reason_code code =
     (if code = ''MAX_POSITION_PCT'' then ''POSITION_LIMIT_CAP''
      else if code = ''MAX_NEW_BUY_AMOUNT_TODAY'' \<or> code = ''MIN_CASH_BUFFER'' then ''RISK_CONTEXT_CAP''
      else code)"

section \<open>Caps\<close>

datatype RiskAction = ALLOW | CAP | DELAY | REJECT | KILL_SWITCH

fun RiskAction_value :: "RiskAction \<Rightarrow> string" where
  "RiskAction_value ALLOW = ''ALLOW''"
| "RiskAction_value CAP = ''CAP''"
| "RiskAction_value DELAY = ''DELAY''"
| "RiskAction_value REJECT = ''REJECT''"
| "RiskAction_value KILL_SWITCH = ''KILL_SWITCH''"

record RiskContextCaps =
  risk_mode :: string
  kill_switch_active :: bool
  max_position_pct :: "pyfloat option"
  max_new_buy_pct_today :: "pyfloat option"
  max_new_buy_amount_today :: "pyfloat option"
  min_cash_buffer_pct :: "pyfloat option"
  caps_allow_buy :: bool
  caps_allow_sell :: bool
  allow_intraday_swing_buy :: bool
  only_reduce_position :: bool
  allow_locked_core_substitution :: bool
  t1_insufficient_action :: string
  delay_core_buy_in_panic :: bool
  max_single_order_amount :: "pyfloat option"
  reason_codes :: "string list"
  caps_risk_tags :: "string list"
  caps_metadata :: pydict

definition RiskContextCaps_to_dict :: "RiskContextCaps \<Rightarrow> pydict" where
  "RiskContextCaps_to_dict c =
     [(''risk_mode'', VStr (risk_mode c)),
      (''kill_switch_active'', VBool (kill_switch_active c)),
      (''max_position_pct'', v_opt_float (max_position_pct c)),
      (''max_new_buy_pct_today'', v_opt_float (max_new_buy_pct_today c)),
      (''max_new_buy_amount_today'', v_opt_float (max_new_buy_amount_today c)),
      (''min_cash_buffer_pct'', v_opt_float (min_cash_buffer_pct c)),
      (''allow_buy'', VBool (caps_allow_buy c)),
      (''allow_sell'', VBool (caps_allow_sell c)),
      (''allow_intraday_swing_buy'', VBool (allow_intraday_swing_buy c)),
      (''only_reduce_position'', VBool (only_reduce_position c)),
      (''allow_locked_core_substitution'', VBool (allow_locked_core_substitution c)),
      (''t1_insufficient_action'', VStr (t1_insufficient_action c)),
      (''delay_core_buy_in_panic'', VBool (delay_core_buy_in_panic c)),
      (''max_single_order_amount'', v_opt_float (max_single_order_amount c)),
      (''reason_codes'', VList (map VStr (sorted_strings (reason_codes c)))),
      (''risk_tags'', VList (map VStr (sorted_strings (caps_risk_tags c)))),
      (''metadata'', VDict (caps_metadata c))]"

text \<open>
  The dictionaries \<open>build_caps\<close> works on, once \<open>params\<close> is read: an absent argument is the empty
  dictionary.
\<close>

record caps_input =
  in_params :: pydict
  in_explicit :: pydict
  in_risk_config :: pydict
  in_context :: pydict
  in_order_state :: pydict
  in_broker_report :: pydict
  in_runtime_state :: pydict
  in_instrument :: pyval

definition explicit_flag :: "caps_input \<Rightarrow> string \<Rightarrow> bool \<Rightarrow> bool" where
  "explicit_flag i key dflt =
     truthy (vget_or (in_explicit i) key (vget_or (in_params i) key (VBool dflt)))"

definition explicit_limit :: "caps_input \<Rightarrow> string \<Rightarrow> pyfloat option res" where
  "explicit_limit i key =
     first_number [vget (in_explicit i) key, vget (in_params i) key, vget (in_risk_config i) key]"

definition total_asset_of :: "pydict \<Rightarrow> pyfloat option res" where
  "total_asset_of account =
     first_number [vget account ''total_asset'', vget account ''cash_total'',
       vget account ''available_cash'', vget account ''cash'']"

definition configured_caps :: "caps_input \<Rightarrow> RiskContextCaps res" where
  "configured_caps i =
     (let e = in_explicit i; p = in_params i; r = in_risk_config i
      in rbind (explicit_limit i ''max_position_pct'') (\<lambda>position.
         rbind (explicit_limit i ''max_new_buy_pct_today'') (\<lambda>buy_pct.
         rbind (explicit_limit i ''max_new_buy_amount_today'') (\<lambda>buy_amount.
         rbind (explicit_limit i ''min_cash_buffer_pct'') (\<lambda>buffer.
         rbind (explicit_limit i ''max_single_order_amount'') (\<lambda>single.
         rbind (py_dict (vget_or e ''metadata'' (VDict []))) (\<lambda>meta.
           Inr \<lparr>risk_mode = normalize_state [vget e ''risk_mode'', vget p ''risk_mode'',
                  vget r ''risk_mode'', vget (in_context i) ''risk_mode'', VStr ''NORMAL''],
                kill_switch_active = truthy (vget_or e ''kill_switch_active''
                  (vget_or p ''kill_switch_active'' (vget_or r ''kill_switch_active'' (VBool False)))),
                max_position_pct = position, max_new_buy_pct_today = buy_pct,
                max_new_buy_amount_today = buy_amount, min_cash_buffer_pct = buffer,
                caps_allow_buy = explicit_flag i ''allow_buy'' True,
                caps_allow_sell = explicit_flag i ''allow_sell'' True,
                allow_intraday_swing_buy = explicit_flag i ''allow_intraday_swing_buy'' True,
                only_reduce_position = explicit_flag i ''only_reduce_position'' False,
                allow_locked_core_substitution = explicit_flag i ''allow_locked_core_substitution'' False,
                t1_insufficient_action = upper (py_str (vget_or e ''t1_insufficient_action''
                  (vget_or p ''t1_insufficient_action'' (VStr (RiskAction_value DELAY))))),
                delay_core_buy_in_panic = explicit_flag i ''delay_core_buy_in_panic'' False,
                max_single_order_amount = single, reason_codes = [], caps_risk_tags = [],
                caps_metadata = meta\<rparr>)))))))"

text \<open>\<open>caps.reason_codes.append(...)\<close> with \<open>caps.risk_tags.append(...)\<close>.\<close>

definition tag_caps :: "string \<Rightarrow> string \<Rightarrow> RiskContextCaps \<Rightarrow> RiskContextCaps" where
  "tag_caps code tag c =
     c\<lparr>reason_codes := reason_codes c @ [code], caps_risk_tags := caps_risk_tags c @ [tag]\<rparr>"

definition cap_market :: "string \<Rightarrow> RiskContextCaps \<Rightarrow> RiskContextCaps" where
  "cap_market market_state c =
     (if market_state = ''PANIC'' \<or> risk_mode c = ''PANIC'' then
        tag_caps ''RISK_CONTEXT_CAP'' ''market_panic''
          (c\<lparr>risk_mode := ''PANIC'', allow_intraday_swing_buy := False,
             max_position_pct := min_optional (max_position_pct c) (fround (35 / 100)),
             max_new_buy_pct_today := min_optional (max_new_buy_pct_today c) (fround (1 / 100)),
             min_cash_buffer_pct := max_optional (min_cash_buffer_pct c) (fround (40 / 100))\<rparr>)
      else if market_state = ''RISK_OFF'' \<or> risk_mode c \<in> {''RISK_OFF'', ''RISK_REDUCED'', ''REDUCED''} then
        tag_caps ''RISK_CONTEXT_CAP'' ''market_risk_off''
          (c\<lparr>risk_mode := ''RISK_REDUCED'', allow_intraday_swing_buy := False,
             max_position_pct := min_optional (max_position_pct c) (fround (50 / 100)),
             max_new_buy_pct_today := min_optional (max_new_buy_pct_today c) (fround (4 / 100)),
             min_cash_buffer_pct := max_optional (min_cash_buffer_pct c) (fround (30 / 100))\<rparr>)
      else c)"

definition cap_industry :: "string \<Rightarrow> RiskContextCaps \<Rightarrow> RiskContextCaps" where
  "cap_industry industry_state c =
     (if industry_state = ''BROKEN'' then
        tag_caps ''RISK_CONTEXT_CAP'' ''industry_broken''
          (c\<lparr>max_position_pct := min_optional (max_position_pct c) (fround (40 / 100)),
             max_new_buy_pct_today := min_optional (max_new_buy_pct_today c) (fround (2 / 100))\<rparr>)
      else c)"

definition cap_liquidity :: "string \<Rightarrow> pyfloat option \<Rightarrow> RiskContextCaps \<Rightarrow> RiskContextCaps" where
  "cap_liquidity liquidity_state total_asset c =
     (if liquidity_state = ''DRY'' then
        tag_caps ''LOW_LIQUIDITY'' ''liquidity_dry''
          (case total_asset of
             None \<Rightarrow> c
           | Some t \<Rightarrow> c\<lparr>max_single_order_amount :=
               min_optional (max_single_order_amount c) (fmul t (fround (2 / 100)))\<rparr>)
      else c)"

definition cap_data_quality :: "string \<Rightarrow> RiskContextCaps \<Rightarrow> RiskContextCaps" where
  "cap_data_quality data_quality c =
     (if data_quality \<in> {''INSUFFICIENT'', ''STALE'', ''MISSING''} \<and> risk_mode c \<noteq> ''PANIC'' then
        tag_caps ''RISK_CONTEXT_CAP'' ''data_quality_guard''
          (c\<lparr>risk_mode := ''RISK_REDUCED'',
             max_position_pct := min_optional (max_position_pct c) (fround (50 / 100)),
             min_cash_buffer_pct := max_optional (min_cash_buffer_pct c) (fround (30 / 100))\<rparr>)
      else c)"

definition cap_buy_amount :: "pyfloat option \<Rightarrow> RiskContextCaps \<Rightarrow> RiskContextCaps" where
  "cap_buy_amount total_asset c =
     (case (max_new_buy_amount_today c, total_asset, max_new_buy_pct_today c) of
        (None, Some t, Some pct) \<Rightarrow> c\<lparr>max_new_buy_amount_today := Some (pmax fzero (fmul t pct))\<rparr>
      | _ \<Rightarrow> c)"

section \<open>The kill switch\<close>

definition trip :: "string \<Rightarrow> RiskContextCaps \<Rightarrow> RiskContextCaps" where
  "trip why c =
     c\<lparr>kill_switch_active := True,
       caps_metadata := dset ''kill_switch_reason'' (VStr why) (caps_metadata c)\<rparr>"

definition note_caps :: "string \<Rightarrow> pyval \<Rightarrow> RiskContextCaps \<Rightarrow> RiskContextCaps" where
  "note_caps key v c = c\<lparr>caps_metadata := dset key v (caps_metadata c)\<rparr>"

text \<open>\<open>limit is not None and value is not None and value >= limit\<close>\<close>

fun reaches :: "pyfloat option \<Rightarrow> pyfloat option \<Rightarrow> bool" where
  "reaches (Some limit) (Some v) = fle limit v"
| "reaches _ _ = False"

definition instrument_protected :: "pydict \<Rightarrow> bool" where
  "instrument_protected context \<longleftrightarrow>
     truthy (vget context ''suspended'')
     \<or> normalize_state [vget context ''stock_state'', VStr []] \<in> {''ST'', ''DELIST_RISK''}
     \<or> truthy (vget context ''delist_risk'')"

definition account_mismatch :: "caps_input \<Rightarrow> bool" where
  "account_mismatch i \<longleftrightarrow>
     truthy (vget (in_order_state i) ''severe_mismatch'')
     \<or> truthy (vget (in_broker_report i) ''severe_mismatch'')"

definition apply_kill_switch_guards :: "caps_input \<Rightarrow> RiskContextCaps \<Rightarrow> RiskContextCaps res" where
  "apply_kill_switch_guards i c =
     (let r = in_risk_config i; p = in_params i; rt = in_runtime_state i; br = in_broker_report i
      in rbind (first_number [vget r ''max_drawdown_pct'', vget p ''max_drawdown_pct'']) (\<lambda>max_drawdown.
         rbind (first_number [vget rt ''drawdown_pct'', vget rt ''max_drawdown'',
                  vget (in_context i) ''drawdown_pct'']) (\<lambda>drawdown.
           let c1 = (if reaches max_drawdown drawdown
                     then note_caps ''drawdown_pct'' (v_opt_float drawdown) (trip ''max_drawdown'' c)
                     else c);
               c2 = (if instrument_protected (in_context i)
                     then note_caps ''instrument_code'' (in_instrument i) (trip ''instrument_protection'' c1)
                     else c1);
               c3 = (if account_mismatch i then trip ''account_state_mismatch'' c2 else c2)
           in rbind (first_number [vget r ''max_broker_report_lag_seconds'',
                       vget p ''max_broker_report_lag_seconds'']) (\<lambda>max_lag.
              rbind (first_number [vget br ''report_lag_seconds'', vget br ''last_report_lag_seconds'']) (\<lambda>lag.
                Inr (if reaches max_lag lag then trip ''broker_report_stale'' c3 else c3))))))"

definition restrict_caps :: "RiskContextCaps \<Rightarrow> RiskContextCaps" where
  "restrict_caps c =
     (let c1 = (if kill_switch_active c
                then tag_caps ''KILL_SWITCH_TRIGGERED'' ''kill_switch''
                       (c\<lparr>caps_allow_buy := False, only_reduce_position := True\<rparr>)
                else c)
      in if only_reduce_position c1
         then tag_caps ''ONLY_REDUCE_POSITION'' ''only_reduce_position'' c1 else c1)"

section \<open>Building the caps\<close>

definition risk_metadata_order_state :: "pydict \<Rightarrow> pydict res" where
  "risk_metadata_order_state s =
     rbind (to_int (v_or (vget_or s ''open_order_count'' (VInt 0)) (VInt 0))) (\<lambda>n.
     rbind (to_int (v_or (vget_or s ''buy_open_order_count'' (VInt 0)) (VInt 0))) (\<lambda>nb.
     rbind (to_int (v_or (vget_or s ''sell_open_order_count'' (VInt 0)) (VInt 0))) (\<lambda>ns.
     rbind (to_dict_or_empty (vget s ''open_order_status_counts'')) (\<lambda>statuses.
     rbind (to_dict_or_empty (vget s ''open_order_type_counts'')) (\<lambda>types.
       Inr [(''open_order_count'', VInt n), (''buy_open_order_count'', VInt nb),
            (''sell_open_order_count'', VInt ns), (''oldest_open_order_at'', vget s ''oldest_open_order_at''),
            (''open_order_status_counts'', VDict statuses),
            (''open_order_type_counts'', VDict types)])))))"

definition risk_metadata_broker_report :: "pydict \<Rightarrow> pydict" where
  "risk_metadata_broker_report r =
     map (\<lambda>k. (k, vget r k))
       [''last_order_report_at'', ''last_trade_report_at'', ''last_report_at'', ''report_lag_seconds'']"

fun code_upper :: "pyval \<Rightarrow> string res" where
  "code_upper (VStr s) = Inr (upper s)"
| "code_upper _ = Inl AttributeError"

text \<open>
  The explicit codes and tags, which may be any values, come first in the lists; they are read
  when the lists are made sets of strings. The lists of the caps hold what this call appended.
\<close>

definition finish_caps ::
  "caps_input \<Rightarrow> pyval list \<Rightarrow> pyval list \<Rightarrow> string \<Rightarrow> string \<Rightarrow> string \<Rightarrow> string \<Rightarrow>
   RiskContextCaps \<Rightarrow> RiskContextCaps res" where
  "finish_caps i codes tags market industry liquidity quality c =
     rbind (rmap code_upper (codes @ map VStr (reason_codes c))) (\<lambda>cs.
     rbind (risk_metadata_order_state (in_order_state i)) (\<lambda>orders.
       Inr (c\<lparr>reason_codes := sorted_strings cs,
              caps_risk_tags := sorted_strings (map py_str tags @ caps_risk_tags c),
              caps_metadata := fold (\<lambda>(k, v). dset k v)
                [(''instrument_code'', in_instrument i), (''market_state'', VStr market),
                 (''industry_state'', VStr industry), (''liquidity_state'', VStr liquidity),
                 (''data_quality'', VStr quality), (''order_state'', VDict orders),
                 (''broker_report'', VDict (risk_metadata_broker_report (in_broker_report i)))]
                (caps_metadata c)\<rparr>)))"

definition limit_caps ::
  "string \<Rightarrow> string \<Rightarrow> string \<Rightarrow> string \<Rightarrow> pyfloat option \<Rightarrow> RiskContextCaps \<Rightarrow> RiskContextCaps" where
  "limit_caps market industry liquidity quality total_asset c =
     cap_buy_amount total_asset (cap_data_quality quality
       (cap_liquidity liquidity total_asset (cap_industry industry (cap_market market c))))"

definition build_input ::
  "pydict \<Rightarrow> pydict \<Rightarrow> pydict \<Rightarrow> pydict \<Rightarrow> pydict \<Rightarrow> pyval \<Rightarrow> caps_input res" where
  "build_input context orders report runtime params instrument =
     rbind (to_dict_or_empty (vget params ''risk_caps'')) (\<lambda>explicit.
     rbind (to_dict_or_empty (v_or (vget params ''risk_config'') (vget params ''risk''))) (\<lambda>config.
       Inr \<lparr>in_params = params, in_explicit = explicit, in_risk_config = config, in_context = context,
            in_order_state = orders, in_broker_report = report, in_runtime_state = runtime,
            in_instrument = instrument\<rparr>))"

definition build_caps ::
  "pydict \<Rightarrow> pydict \<Rightarrow> pydict \<Rightarrow> pydict \<Rightarrow> pydict \<Rightarrow> pydict \<Rightarrow> pyval \<Rightarrow> RiskContextCaps res" where
  "build_caps portfolio context orders report runtime params instrument =
     rbind (build_input context orders report runtime params instrument) (\<lambda>i.
     rbind (to_dict_or_empty (vget portfolio ''account'')) (\<lambda>account.
     rbind (total_asset_of account) (\<lambda>total_asset.
     rbind (configured_caps i) (\<lambda>c0.
     rbind (py_list (vget_or (in_explicit i) ''reason_codes'' (VList []))) (\<lambda>codes.
     rbind (py_list (vget_or (in_explicit i) ''risk_tags'' (VList []))) (\<lambda>tags.
       let market = normalize_state [vget context ''market_state'', vget context ''stock_state'',
                      vget context ''sector_state'', VStr ''NORMAL''];
           industry = normalize_state [vget context ''industry_state'', VStr ''NORMAL''];
           liquidity = normalize_state [vget context ''liquidity_state'', VStr ''NORMAL''];
           quality = normalize_state [vget context ''data_quality'', VStr ''OK'']
       in rbind (apply_kill_switch_guards i (limit_caps market industry liquidity quality total_asset c0)) (\<lambda>c.
            finish_caps i codes tags market industry liquidity quality (restrict_caps c))))))))"

section \<open>Decisions\<close>

record OrderRiskDecision =
  action :: RiskAction
  allowed :: bool
  original_volume :: int
  final_volume :: int
  original_amount :: pyfloat
  final_amount :: pyfloat
  reason_code :: string
  decision_tags :: "pyval list"
  decision_metadata :: pydict
  decision_plan :: "pydict option"

text \<open>\<open>float(request.price) * int(volume)\<close>: a volume beyond the range of a float raises.\<close>

definition order_amount :: "pyfloat \<Rightarrow> int \<Rightarrow> pyfloat res" where
  "order_amount price volume = rbind (to_float (VInt volume)) (\<lambda>v. Inr (fmul price v))"

definition allow ::
  "OrderRequest \<Rightarrow> string \<Rightarrow> pyval list \<Rightarrow> pydict \<Rightarrow> pydict option \<Rightarrow> OrderRiskDecision res" where
  "allow r code tags meta plan =
     rbind (order_amount (request_price r) (request_volume r)) (\<lambda>amount.
       Inr \<lparr>action = ALLOW, allowed = True, original_volume = request_volume r,
            final_volume = request_volume r, original_amount = amount, final_amount = amount,
            reason_code = upper code, decision_tags = tags, decision_metadata = meta,
            decision_plan = plan\<rparr>)"

definition reject_as ::
  "RiskAction \<Rightarrow> OrderRequest \<Rightarrow> string \<Rightarrow> pyval list \<Rightarrow> pydict \<Rightarrow> OrderRiskDecision res" where
  "reject_as act r code tags meta =
     rbind (order_amount (request_price r) (request_volume r)) (\<lambda>amount.
       Inr \<lparr>action = act, allowed = False, original_volume = request_volume r,
            final_volume = 0, original_amount = amount, final_amount = fzero,
            reason_code = upper code, decision_tags = tags, decision_metadata = meta,
            decision_plan = None\<rparr>)"

abbreviation reject :: "OrderRequest \<Rightarrow> string \<Rightarrow> pyval list \<Rightarrow> pydict \<Rightarrow> OrderRiskDecision res" where
  "reject \<equiv> reject_as REJECT"

definition delay :: "OrderRequest \<Rightarrow> string \<Rightarrow> pyval list \<Rightarrow> pydict \<Rightarrow> OrderRiskDecision res" where
  "delay r code tags meta = reject_as DELAY r code tags meta"

definition cap ::
  "OrderRequest \<Rightarrow> int \<Rightarrow> string \<Rightarrow> pyval list \<Rightarrow> pydict \<Rightarrow> OrderRiskDecision res" where
  "cap r volume code tags meta =
     rbind (order_amount (request_price r) (request_volume r)) (\<lambda>original.
     rbind (order_amount (request_price r) volume) (\<lambda>final.
       Inr \<lparr>action = CAP, allowed = True, original_volume = request_volume r,
            final_volume = volume, original_amount = original, final_amount = final,
            reason_code = upper code, decision_tags = tags, decision_metadata = meta,
            decision_plan = None\<rparr>))"

definition to_check_result :: "string \<Rightarrow> OrderRiskDecision \<Rightarrow> OrderCheckResult" where
  "to_check_result decision_id d =
     (if allowed d then passed
      else failed_with (lower (reason_code d))
        (dict_of ([(''risk_action'', VStr (RiskAction_value (action d))),
                   (''risk_decision_id'', VStr decision_id),
                   (''substitution_plan'', (case decision_plan d of None \<Rightarrow> VNone | Some p \<Rightarrow> VDict p))]
                  @ decision_metadata d)))"

section \<open>The order checker\<close>

record TradingRiskChecker =
  trading_time_service :: "(string \<Rightarrow> clock_time \<Rightarrow> bool res) option"
  checker_commission_rate :: pyfloat
  checker_min_commission :: pyfloat
  strict_market_data :: bool
  strict_limit_data :: bool
  enforce_trading_hours :: bool
  checker_market :: string

definition caps_tags :: "pydict \<Rightarrow> pyval list res" where
  "caps_tags caps = py_list (vget_or caps ''risk_tags'' (VList []))"

text \<open>\<open>str((request.metadata or {}).get("bucket", "") or "").lower()\<close>\<close>

definition request_bucket :: "OrderRequest \<Rightarrow> string" where
  "request_bucket r = lower (str_or (vget_or (request_metadata r) ''bucket'' (VStr [])) [])"

text \<open>The clauses of \<open>_check_context_caps\<close> on the amount and on a buy, each with its answer.\<close>

definition check_order_amount :: "OrderRequest \<Rightarrow> pydict \<Rightarrow> OrderRiskDecision option res" where
  "check_order_amount r caps =
     rbind (market_optional_float (vget caps ''max_single_order_amount'')) (\<lambda>limit.
       case limit of
         None \<Rightarrow> Inr None
       | Some m \<Rightarrow>
           rbind (order_amount (request_price r) (request_volume r)) (\<lambda>amount.
             if flt m amount
             then rbind (caps_tags caps) (\<lambda>tags.
                    rbind (delay r ''LOW_LIQUIDITY'' tags [(''max_single_order_amount'', VFloat m)])
                      (\<lambda>d. Inr (Some d)))
             else Inr None))"

definition check_buy_caps :: "OrderRequest \<Rightarrow> pydict \<Rightarrow> OrderRiskDecision option res" where
  "check_buy_caps r caps =
     (let b = request_bucket r;
          bucket_meta = [(''bucket'', VStr b), (''risk_mode'', vget caps ''risk_mode'')]
      in if vget caps ''allow_buy'' = VBool False then
           rbind (caps_tags caps) (\<lambda>tags. rbind (reject r ''RISK_CONTEXT_CAP'' tags []) (\<lambda>d. Inr (Some d)))
         else if truthy (vget caps ''only_reduce_position'') then
           rbind (caps_tags caps) (\<lambda>tags. rbind (reject r ''only_reduce_position'' tags []) (\<lambda>d. Inr (Some d)))
         else if b = ''swing'' \<and> vget caps ''allow_intraday_swing_buy'' = VBool False then
           rbind (caps_tags caps) (\<lambda>tags.
             rbind (delay r ''RISK_CONTEXT_CAP'' tags bucket_meta) (\<lambda>d. Inr (Some d)))
         else if b = ''core'' \<and> upper (py_str (vget_or caps ''risk_mode'' (VStr []))) = ''PANIC''
           \<and> truthy (vget caps ''delay_core_buy_in_panic'') then
           rbind (caps_tags caps) (\<lambda>tags.
             rbind (delay r ''RISK_CONTEXT_CAP'' tags bucket_meta) (\<lambda>d. Inr (Some d)))
         else Inr None)"

definition check_context_caps :: "OrderRequest \<Rightarrow> pydict \<Rightarrow> OrderRiskDecision option res" where
  "check_context_caps r caps =
     (if truthy (vget caps ''kill_switch_active'') then
        rbind (caps_tags caps) (\<lambda>tags.
        rbind (py_list (vget_or caps ''reason_codes'' (VList []))) (\<lambda>codes.
        rbind (reject_as KILL_SWITCH r ''KILL_SWITCH_TRIGGERED'' tags [(''reason_codes'', VList codes)])
          (\<lambda>d. Inr (Some d))))
      else rbind (check_order_amount r caps) (\<lambda>delayed.
        case delayed of
          Some d \<Rightarrow> Inr (Some d)
        | None \<Rightarrow>
            rbind (if request_order_type r = BUY then check_buy_caps r caps else Inr None) (\<lambda>refused.
              case refused of
                Some d \<Rightarrow> Inr (Some d)
              | None \<Rightarrow>
                  if request_order_type r = SELL \<and> vget caps ''allow_sell'' = VBool False then
                    rbind (caps_tags caps) (\<lambda>tags.
                      rbind (reject r ''RISK_CONTEXT_CAP'' tags []) (\<lambda>d. Inr (Some d)))
                  else Inr None)))"

subsection \<open>Buying\<close>

text \<open>\<open>float(account.get("available_cash", account.get("cash", 0.0)) or 0.0)\<close>\<close>

definition available_cash_of :: "pydict \<Rightarrow> pyfloat res" where
  "available_cash_of account =
     to_float (v_or (vget_or account ''available_cash'' (vget_or account ''cash'' (VFloat fzero))) (VFloat fzero))"

definition check_buying_power_decision ::
  "TradingRiskChecker \<Rightarrow> OrderRequest \<Rightarrow> pydict \<Rightarrow> OrderRiskDecision res" where
  "check_buying_power_decision k r account =
     rbind (order_amount (request_price r) (request_volume r)) (\<lambda>amount.
       let required = fadd amount (estimate_commission amount (checker_commission_rate k) (checker_min_commission k))
       in rbind (available_cash_of account) (\<lambda>cash.
            if flt cash required
            then reject r ''insufficient_cash'' []
                   [(''required_cash'', VFloat required), (''available_cash'', VFloat cash)]
            else allow r ''OK'' [] [] None))"

definition total_asset_or_cash :: "pydict \<Rightarrow> pyfloat \<Rightarrow> pyfloat res" where
  "total_asset_or_cash account cash =
     to_float (v_or (v_or (v_or (vget account ''total_asset'') (vget account ''cash_total''))
       (VFloat cash)) (VFloat fzero))"

text \<open>\<open>int(p.get("long_volume", p.get("total_volume", 0)) or 0)\<close>\<close>

definition held_volume :: "pydict \<Rightarrow> int res" where
  "held_volume pos =
     to_int (v_or (vget_or pos ''long_volume'' (vget_or pos ''total_volume'' (VInt 0))) (VInt 0))"

definition position_value :: "OrderRequest \<Rightarrow> pydict \<Rightarrow> MarketDataSnapshot option \<Rightarrow> pyfloat res" where
  "position_value r pos market =
     rbind (held_volume pos) (\<lambda>volume.
     rbind (market_optional_float (vget pos ''market_value'')) (\<lambda>mv.
       case mv of
         Some v \<Rightarrow> Inr v
       | None \<Rightarrow>
           let price = (case market of
                          Some m \<Rightarrow> if flt fzero (snapshot_price m) then snapshot_price m else request_price r
                        | None \<Rightarrow> request_price r)
           in order_amount price volume))"

definition cap_amounts ::
  "OrderRequest \<Rightarrow> pydict \<Rightarrow> pydict \<Rightarrow> MarketDataSnapshot option \<Rightarrow> pydict \<Rightarrow> (string \<times> pyfloat) list res" where
  "cap_amounts r account pos market caps =
     rbind (available_cash_of account) (\<lambda>cash.
     rbind (total_asset_or_cash account cash) (\<lambda>total.
     rbind (market_optional_float (vget caps ''max_new_buy_amount_today'')) (\<lambda>buy_amount.
     rbind (market_optional_float (vget caps ''min_cash_buffer_pct'')) (\<lambda>buffer.
     rbind (market_optional_float (vget caps ''max_position_pct'')) (\<lambda>pct.
     rbind (case pct of
              Some p \<Rightarrow>
                if flt fzero total
                then rbind (position_value r pos market) (\<lambda>mv.
                       Inr [(''MAX_POSITION_PCT'', pmax fzero (fsub (fmul total p) mv))])
                else Inr []
            | None \<Rightarrow> Inr []) (\<lambda>position_cap.
       Inr ((case buy_amount of None \<Rightarrow> [] | Some a \<Rightarrow> [(''MAX_NEW_BUY_AMOUNT_TODAY'', a)])
            @ (case buffer of
                 Some b \<Rightarrow>
                   if flt fzero total then [(''MIN_CASH_BUFFER'', pmax fzero (fsub cash (fmul total b)))] else []
               | None \<Rightarrow> [])
            @ position_cap)))))))"

text \<open>\<open>min(cap_amounts, key=lambda item: item[1])\<close>\<close>

definition min_cap :: "string \<times> pyfloat \<Rightarrow> (string \<times> pyfloat) list \<Rightarrow> string \<times> pyfloat" where
  "min_cap c cs = foldl (\<lambda>best x. if flt (snd x) (snd best) then x else best) c cs"

definition order_volume_limit ::
  "(MarketDataSnapshot \<Rightarrow> pyval) \<Rightarrow> (MarketDataSnapshot \<Rightarrow> pyval) \<Rightarrow> OrderRequest \<Rightarrow>
   MarketDataSnapshot option \<Rightarrow> int option res" where
  "order_volume_limit sell_limit buy_limit r market =
     (case market of
        None \<Rightarrow> Inr None
      | Some m \<Rightarrow>
          optional_positive_int (if request_order_type r = SELL then sell_limit m else buy_limit m))"

definition min_volume_of :: "OrderRequest \<Rightarrow> MarketDataSnapshot option \<Rightarrow> int option res" where
  "min_volume_of r market =
     order_volume_limit min_limit_sell_order_volume min_limit_order_volume r market"

definition max_volume_of :: "OrderRequest \<Rightarrow> MarketDataSnapshot option \<Rightarrow> int option res" where
  "max_volume_of r market =
     order_volume_limit max_limit_sell_order_volume max_limit_order_volume r market"

definition cap_buy_by_context ::
  "OrderRequest \<Rightarrow> pydict \<Rightarrow> pydict \<Rightarrow> MarketDataSnapshot option \<Rightarrow> pydict \<Rightarrow>
   OrderRiskDecision option res" where
  "cap_buy_by_context r account pos market caps =
     (if request_order_type r \<noteq> BUY \<or> fle (request_price r) fzero then Inr None
      else rbind (cap_amounts r account pos market caps) (\<lambda>amounts.
        case amounts of
          [] \<Rightarrow> Inr None
        | c # cs \<Rightarrow>
            let (code, max_amount) = min_cap c cs
            in rbind (order_amount (request_price r) (request_volume r)) (\<lambda>original.
                 if fle original max_amount then Inr None
                 else rbind (int_of_float (ffloordiv max_amount (request_price r))) (\<lambda>affordable.
                      rbind (min_volume_of r market) (\<lambda>min_volume.
                      rbind (caps_tags caps) (\<lambda>tags.
                        let lots = normalize_buy_volume affordable;
                            volume = (case min_volume of
                                        Some n \<Rightarrow> if lots < n then 0 else lots
                                      | None \<Rightarrow> lots);
                            meta = [(''cap_source'', VStr code)]
                        in if volume \<le> 0
                           then rbind (reject r (public_cap_reason_code code) tags meta) (\<lambda>d. Inr (Some d))
                           else rbind (cap r volume (public_cap_reason_code code) tags meta)
                                  (\<lambda>d. Inr (Some d))))))))"

subsection \<open>Selling\<close>

definition uses_bucket_t1_model :: "OrderRequest \<Rightarrow> pydict \<Rightarrow> bool" where
  "uses_bucket_t1_model r pos \<longleftrightarrow>
     truthy (vget (request_metadata r) ''bucket'')
     \<or> list_ex (dmem pos)
         [''swing_available'', ''swing_available_volume'', ''core_available'', ''core_available_volume'',
          ''locked_core_available'', ''locked_core_available_volume'']"

record sell_capacity =
  swing_available :: int
  core_available :: int
  locked_core_available :: int
  total_substitutable :: int

text \<open>\<open>int(p.get("available_volume", 0) or 0)\<close>\<close>

definition sellable_volume :: "pydict \<Rightarrow> int res" where
  "sellable_volume pos = to_int (v_or (vget_or pos ''available_volume'' (VInt 0)) (VInt 0))"

definition bucket_sell_capacity :: "pydict \<Rightarrow> pydict \<Rightarrow> sell_capacity res" where
  "bucket_sell_capacity pos caps =
     rbind (optional_int (vget_or pos ''swing_available_volume'' (vget pos ''swing_available''))) (\<lambda>swing0.
     rbind (optional_int (vget_or pos ''core_available_volume'' (vget pos ''core_available''))) (\<lambda>core0.
     rbind (optional_int (vget_or pos ''locked_core_available_volume'' (vget pos ''locked_core_available'')))
       (\<lambda>locked0.
     rbind (sellable_volume pos) (\<lambda>available.
     rbind (case swing0 of
              Some n \<Rightarrow> Inr n
            | None \<Rightarrow> rbind (to_int (v_or (vget_or pos ''swing_volume''
                        (vget_or pos ''swing_total_volume'' (VInt 0))) (VInt 0)))
                        (\<lambda>n. Inr (min available n))) (\<lambda>swing.
     rbind (case core0 of
              Some n \<Rightarrow> Inr n
            | None \<Rightarrow> to_int (v_or (vget_or pos ''core_available_volume'' (VInt 0)) (VInt 0))) (\<lambda>core1.
     rbind (case locked0 of
              Some n \<Rightarrow> Inr n
            | None \<Rightarrow> to_int (v_or (vget_or pos ''locked_core_available_volume'' (VInt 0)) (VInt 0)))
       (\<lambda>locked1.
       let core = (if core1 \<le> 0 \<and> swing \<le> 0 \<and> locked1 \<le> 0 \<and> 0 < available then available else core1);
           locked = (if truthy (vget_or caps ''allow_locked_core_substitution'' (VBool False))
                     then locked1 else 0)
       in Inr \<lparr>swing_available = max 0 swing, core_available = max 0 core,
               locked_core_available = max 0 locked,
               total_substitutable = max 0 swing + max 0 core + max 0 locked\<rparr>)))))))"

text \<open>Without permission to substitute only the swing bucket counts.\<close>

definition permitted_capacity :: "OrderRequest \<Rightarrow> sell_capacity \<Rightarrow> sell_capacity" where
  "permitted_capacity r c =
     (if truthy (vget_or (request_metadata r) ''allow_t1_substitution'' (VBool True)) then c
      else c\<lparr>core_available := 0, locked_core_available := 0, total_substitutable := swing_available c\<rparr>)"

definition available_volume_for_order_check :: "OrderRequest \<Rightarrow> pydict \<Rightarrow> pydict \<Rightarrow> int res" where
  "available_volume_for_order_check r pos caps =
     rbind (sellable_volume pos) (\<lambda>available.
       if request_order_type r \<noteq> SELL \<or> \<not> uses_bucket_t1_model r pos then Inr available
       else rbind (bucket_sell_capacity pos caps) (\<lambda>c0.
            rbind (held_volume pos) (\<lambda>total.
              let capacity = max available (total_substitutable (permitted_capacity r c0));
                  capped = (if 0 < total then min (max capacity (request_volume r)) total else capacity)
              in Inr (max available capped))))"

text \<open>The buckets in the order they are drawn on; what is left, and the legs.\<close>

fun substitution_legs :: "int \<Rightarrow> (string \<times> int) list \<Rightarrow> int \<times> (string \<times> int) list" where
  "substitution_legs remaining [] = (remaining, [])"
| "substitution_legs remaining ((name, available) # sources) =
     (if available \<le> 0 \<or> remaining \<le> 0 then substitution_legs remaining sources
      else let volume = min remaining available;
               (left, legs) = substitution_legs (remaining - volume) sources
           in (left, (name, volume) # legs))"

definition sell_sources :: "sell_capacity \<Rightarrow> (string \<times> int) list" where
  "sell_sources c =
     [(''swing'', swing_available c), (''core'', core_available c),
      (''locked_core'', locked_core_available c)]"

definition leg_dict :: "string \<times> int \<Rightarrow> pyval" where
  "leg_dict l = VDict [(''bucket'', VStr (fst l)), (''volume'', VInt (snd l))]"

definition t1_plan :: "int \<Rightarrow> (string \<times> int) list \<Rightarrow> pydict" where
  "t1_plan requested legs =
     [(''enabled'', VBool True), (''requested_bucket'', VStr ''swing''),
      (''sell_from_buckets'', VList (map leg_dict legs)),
      (''reattribute_buy_to_bucket'', VStr ''core''), (''volume'', VInt requested),
      (''reason'', VStr ''swing_t0_sell_with_core_inventory'')]"

definition t1_unavailable ::
  "OrderRequest \<Rightarrow> pydict \<Rightarrow> int \<Rightarrow> OrderRiskDecision option res" where
  "t1_unavailable r caps remaining =
     rbind (caps_tags caps) (\<lambda>tags.
       let meta = [(''requested_volume'', VInt (request_volume r)),
                   (''substitutable_volume'', VInt (request_volume r - remaining)),
                   (''missing_volume'', VInt remaining),
                   (''allow_locked_core_substitution'',
                    VBool (truthy (vget_or caps ''allow_locked_core_substitution'' (VBool False))))];
           insufficient_action = upper (py_str (vget_or (request_metadata r) ''t1_insufficient_action''
             (vget_or caps ''t1_insufficient_action'' (VStr (RiskAction_value DELAY)))))
       in rbind (if insufficient_action = ''REJECT'' then reject r ''T1_UNAVAILABLE'' tags meta
                 else delay r ''T1_UNAVAILABLE'' tags meta) (\<lambda>d. Inr (Some d)))"

definition check_t1_substitution :: "OrderRequest \<Rightarrow> pydict \<Rightarrow> pydict \<Rightarrow> OrderRiskDecision option res" where
  "check_t1_substitution r pos caps =
     (if request_order_type r \<noteq> SELL \<or> \<not> uses_bucket_t1_model r pos then Inr None
      else rbind (held_volume pos) (\<lambda>total.
        if total \<noteq> 0 \<and> total < request_volume r
        then rbind (reject r ''INSUFFICIENT_POSITION'' [] []) (\<lambda>d. Inr (Some d))
        else if request_bucket r \<noteq> ''swing'' then Inr None
        else rbind (bucket_sell_capacity pos caps) (\<lambda>c0.
          let (remaining, legs) = substitution_legs (request_volume r) (sell_sources (permitted_capacity r c0))
          in if remaining \<le> 0 then
               if list_ex (\<lambda>(name, _). name \<noteq> ''swing'') legs
               then let plan = t1_plan (request_volume r) legs
                    in rbind (caps_tags caps) (\<lambda>tags.
                       rbind (allow r ''T1_SUBSTITUTION_APPLIED'' (tags @ [VStr ''t1_substitution''])
                                [(''substitution_plan'', VDict plan)] (Some plan)) (\<lambda>d. Inr (Some d)))
               else rbind (allow r ''OK'' [] [] None) (\<lambda>d. Inr (Some d))
             else t1_unavailable r caps remaining)))"

definition check_sell_capacity_decision :: "OrderRequest \<Rightarrow> pydict \<Rightarrow> pydict \<Rightarrow> OrderRiskDecision res" where
  "check_sell_capacity_decision r pos caps =
     rbind (if uses_bucket_t1_model r pos then check_t1_substitution r pos caps else Inr None) (\<lambda>s.
       case s of
         Some d \<Rightarrow> Inr d
       | None \<Rightarrow>
           rbind (sellable_volume pos) (\<lambda>available.
             if available < request_volume r then reject r ''insufficient_position'' [] []
             else allow r ''OK'' [] [] None))"

subsection \<open>Trading hours\<close>

definition clock :: "int \<Rightarrow> int \<Rightarrow> int" where
  "clock hour minute = (hour * 60 + minute) * 60000000"

definition is_trading_hours :: "TradingRiskChecker \<Rightarrow> clock_time \<Rightarrow> bool res" where
  "is_trading_hours k t =
     (case trading_time_service k of
        Some service \<Rightarrow> service (checker_market k) t
      | None \<Rightarrow>
          Inr (clock_weekday t < 5
            \<and> (clock 9 30 \<le> clock_of_day t \<and> clock_of_day t \<le> clock 11 30
               \<or> clock 13 0 \<le> clock_of_day t \<and> clock_of_day t \<le> clock 15 0)))"

definition outside_hours ::
  "TradingRiskChecker \<Rightarrow> MarketDataSnapshot option \<Rightarrow> clock_time option \<Rightarrow> bool res" where
  "outside_hours k market current_time =
     (if \<not> enforce_trading_hours k then Inr False
      else case (case current_time of
                   Some t \<Rightarrow> Some t
                 | None \<Rightarrow> (case market of None \<Rightarrow> None | Some m \<Rightarrow> snapshot_timestamp m)) of
             None \<Rightarrow> Inr False
           | Some t \<Rightarrow> rbind (is_trading_hours k t) (\<lambda>open_now. Inr (\<not> open_now)))"

subsection \<open>An order\<close>

definition market_checks ::
  "TradingRiskChecker \<Rightarrow> OrderRequest \<Rightarrow> pydict \<Rightarrow> MarketDataSnapshot option \<Rightarrow> pydict \<Rightarrow>
   OrderCheckResult list res" where
  "market_checks k r pos market caps =
     rbind (sellable_volume pos) (\<lambda>available0.
     rbind (if request_order_type r = SELL then available_volume_for_order_check r pos caps
            else Inr available0) (\<lambda>available.
     rbind (check_price r market (strict_limit_data k)) (\<lambda>price_check.
     rbind (min_volume_of r market) (\<lambda>min_volume.
     rbind (max_volume_of r market) (\<lambda>max_volume.
       Inr [check_trading_status market (strict_market_data k), price_check, check_limit_block r market,
            check_volume r available min_volume max_volume])))))"

definition decide_side ::
  "TradingRiskChecker \<Rightarrow> OrderRequest \<Rightarrow> pydict \<Rightarrow> pydict \<Rightarrow> MarketDataSnapshot option \<Rightarrow> pydict \<Rightarrow>
   OrderRiskDecision res" where
  "decide_side k r account pos market caps =
     (case request_order_type r of
        BUY \<Rightarrow>
          rbind (check_buying_power_decision k r account) (\<lambda>buy.
            if \<not> allowed buy then Inr buy
            else rbind (cap_buy_by_context r account pos market caps) (\<lambda>capped.
                   Inr (case capped of Some d \<Rightarrow> d | None \<Rightarrow> buy)))
      | SELL \<Rightarrow> check_sell_capacity_decision r pos caps
      | _ \<Rightarrow> reject r ''unsupported_order_type'' [] [])"

definition evaluate_order ::
  "TradingRiskChecker \<Rightarrow> OrderRequest \<Rightarrow> pydict \<Rightarrow> pydict \<Rightarrow> MarketDataSnapshot option \<Rightarrow>
   clock_time option \<Rightarrow> pydict \<Rightarrow> OrderRiskDecision res" where
  "evaluate_order k r account pos market current_time caps =
     rbind (check_context_caps r caps) (\<lambda>refused.
       case refused of
         Some d \<Rightarrow> Inr d
       | None \<Rightarrow>
           rbind (market_checks k r pos market caps) (\<lambda>checks.
             case find (\<lambda>c. \<not> check_ok c) checks of
               Some c \<Rightarrow> reject r (check_code c) [] (check_metadata c)
             | None \<Rightarrow>
                 rbind (outside_hours k market current_time) (\<lambda>closed.
                   if closed then reject r ''outside_trading_hours'' [] []
                   else decide_side k r account pos market caps)))"

definition validate_order ::
  "TradingRiskChecker \<Rightarrow> string \<Rightarrow> OrderRequest \<Rightarrow> pydict \<Rightarrow> pydict \<Rightarrow> MarketDataSnapshot option \<Rightarrow>
   clock_time option \<Rightarrow> pydict \<Rightarrow> OrderCheckResult res" where
  "validate_order k decision_id r account pos market current_time caps =
     rbind (evaluate_order k r account pos market current_time caps) (\<lambda>d.
       Inr (to_check_result decision_id d))"

text \<open>The two checks as check results, for callers that ask for one of them.\<close>

definition check_buying_power ::
  "TradingRiskChecker \<Rightarrow> string \<Rightarrow> OrderRequest \<Rightarrow> pydict \<Rightarrow> OrderCheckResult res" where
  "check_buying_power k decision_id r account =
     rbind (check_buying_power_decision k r account) (\<lambda>d. Inr (to_check_result decision_id d))"

definition check_sell_capacity :: "string \<Rightarrow> OrderRequest \<Rightarrow> pydict \<Rightarrow> OrderCheckResult res" where
  "check_sell_capacity decision_id r pos =
     rbind (check_sell_capacity_decision r pos []) (\<lambda>d. Inr (to_check_result decision_id d))"

end
