(* ===== verification/Position_Profile.thy ===== *)
theory Position_Profile
  imports Risk_Checker
begin

text \<open>
  The position adjustment layer (\<open>trading/position_adjustment.py\<close>): from the market context, the
  caps of the risk layer and the run's parameters to the profile a strategy works with. A profile
  starts as one of six templates, takes overrides from the parameters, then the caps, and is
  clamped to shares of the total asset at the end.
\<close>

section \<open>Loose values\<close>

definition position_upper :: "pyval \<Rightarrow> string" where
  "position_upper v = upper (strip (str_or v []))"

fun first_upper :: "pydict \<Rightarrow> string list \<Rightarrow> string" where
  "first_upper d [] = []"
| "first_upper d (k # ks) =
     (let v = vget d k in if v \<noteq> VNone \<and> v \<noteq> VStr [] then position_upper v else first_upper d ks)"

fun flag_set :: "pyval \<Rightarrow> bool" where
  "flag_set (VStr s) = (lower (strip s) \<in> {''1'', ''true'', ''yes'', ''y'', ''on''})"
| "flag_set v = truthy v"

fun optional_bool :: "pyval \<Rightarrow> bool option" where
  "optional_bool (VBool b) = Some b"
| "optional_bool (VStr s) =
     (let text = lower (strip s)
      in if text \<in> {''1'', ''true'', ''yes'', ''y'', ''on'', ''enabled'', ''allowed''} then Some True
         else if text \<in> {''0'', ''false'', ''no'', ''n'', ''off'', ''disabled'', ''disallowed''} then Some False
         else None)"
| "optional_bool (VInt n) = Some (n \<noteq> 0)"
| "optional_bool (VFloat x) = Some (x \<noteq> fzero)"
| "optional_bool _ = None"

section \<open>Profiles\<close>

datatype PositionProfileName =
    AGGRESSIVE_ACCUMULATION | NORMAL_BALANCE | RANGE_TRADING | CAUTIOUS | DISTRIBUTION | DEFENSIVE

fun PositionProfileName_value :: "PositionProfileName \<Rightarrow> string" where
  "PositionProfileName_value AGGRESSIVE_ACCUMULATION = ''AGGRESSIVE_ACCUMULATION''"
| "PositionProfileName_value NORMAL_BALANCE = ''NORMAL_BALANCE''"
| "PositionProfileName_value RANGE_TRADING = ''RANGE_TRADING''"
| "PositionProfileName_value CAUTIOUS = ''CAUTIOUS''"
| "PositionProfileName_value DISTRIBUTION = ''DISTRIBUTION''"
| "PositionProfileName_value DEFENSIVE = ''DEFENSIVE''"

text \<open>The fields the template and the profile share.\<close>

record profile_fields =
  min_pct :: pyfloat
  max_pct :: pyfloat
  target_cash_buffer_pct :: pyfloat
  core_share_min :: pyfloat
  core_share_max :: pyfloat
  swing_max_pct :: pyfloat
  balance_beta_multiplier :: pyfloat
  inventory_gamma_multiplier :: pyfloat
  grid_step_multiplier :: pyfloat
  allow_core_buy :: bool
  allow_swing_buy :: bool
  allow_core_sell :: bool
  allow_swing_sell :: bool

record PositionAdjustmentProfile = profile_fields +
  profile_name :: string
  reason_tags :: "string list"
  bucket_caps :: "(string \<times> (string \<times> pyfloat) list) list"
  allow_bucket_buy :: "(string \<times> bool) list"
  allow_bucket_sell :: "(string \<times> bool) list"
  engine_multipliers :: "(string \<times> pyfloat) list"
  current_position_pct :: pyfloat

text \<open>A template is given by hundredths, in the order of its fields.\<close>

definition template_of ::
  "int \<Rightarrow> int \<Rightarrow> int \<Rightarrow> int \<Rightarrow> int \<Rightarrow> int \<Rightarrow> int \<Rightarrow> int \<Rightarrow> int \<Rightarrow> bool \<Rightarrow> bool \<Rightarrow> profile_fields" where
  "template_of lo hi cash core_lo core_hi swing beta gamma grid core_buy swing_buy =
     (let pct = (\<lambda>n. fround (of_int n / 100))
      in \<lparr>min_pct = pct lo, max_pct = pct hi, target_cash_buffer_pct = pct cash,
          core_share_min = pct core_lo, core_share_max = pct core_hi, swing_max_pct = pct swing,
          balance_beta_multiplier = pct beta, inventory_gamma_multiplier = pct gamma,
          grid_step_multiplier = pct grid, allow_core_buy = core_buy, allow_swing_buy = swing_buy,
          allow_core_sell = True, allow_swing_sell = True\<rparr>)"

fun PROFILE_TEMPLATES :: "PositionProfileName \<Rightarrow> profile_fields" where
  "PROFILE_TEMPLATES AGGRESSIVE_ACCUMULATION = template_of 30 80 20 80 95 10 120 85 100 True True"
| "PROFILE_TEMPLATES NORMAL_BALANCE = template_of 20 70 25 65 85 15 100 100 100 True True"
| "PROFILE_TEMPLATES RANGE_TRADING = template_of 25 65 25 50 75 25 95 100 90 True True"
| "PROFILE_TEMPLATES CAUTIOUS = template_of 10 50 30 75 95 5 75 120 125 True False"
| "PROFILE_TEMPLATES DISTRIBUTION = template_of 0 40 35 80 100 0 60 130 150 False False"
| "PROFILE_TEMPLATES DEFENSIVE = template_of 0 20 40 90 100 0 45 140 150 False False"

definition from_template ::
  "PositionProfileName \<Rightarrow> profile_fields \<Rightarrow> string list \<Rightarrow> PositionAdjustmentProfile" where
  "from_template name t tags =
     profile_fields.extend t
       \<lparr>profile_name = PositionProfileName_value name, reason_tags = tags, bucket_caps = [],
        allow_bucket_buy = [], allow_bucket_sell = [], engine_multipliers = [],
        current_position_pct = fzero\<rparr>"

definition v_floats :: "(string \<times> pyfloat) list \<Rightarrow> pyval" where
  "v_floats d = VDict (map (\<lambda>(k, x). (k, VFloat x)) d)"

definition v_bools :: "(string \<times> bool) list \<Rightarrow> pyval" where
  "v_bools d = VDict (map (\<lambda>(k, b). (k, VBool b)) d)"

definition PositionAdjustmentProfile_to_dict :: "PositionAdjustmentProfile \<Rightarrow> pydict" where
  "PositionAdjustmentProfile_to_dict p =
     [(''profile'', VStr (profile_name p)), (''min_position_pct'', VFloat (min_pct p)),
      (''max_position_pct'', VFloat (max_pct p)),
      (''target_cash_buffer_pct'', VFloat (target_cash_buffer_pct p)),
      (''core_share_min'', VFloat (core_share_min p)), (''core_share_max'', VFloat (core_share_max p)),
      (''swing_max_pct'', VFloat (swing_max_pct p)),
      (''balance_beta_multiplier'', VFloat (balance_beta_multiplier p)),
      (''inventory_gamma_multiplier'', VFloat (inventory_gamma_multiplier p)),
      (''grid_step_multiplier'', VFloat (grid_step_multiplier p)),
      (''allow_core_buy'', VBool (allow_core_buy p)), (''allow_swing_buy'', VBool (allow_swing_buy p)),
      (''allow_core_sell'', VBool (allow_core_sell p)), (''allow_swing_sell'', VBool (allow_swing_sell p)),
      (''reason_tags'', VList (map VStr (reason_tags p))),
      (''bucket_caps'', VDict (map (\<lambda>(k, d). (k, v_floats d)) (bucket_caps p))),
      (''allow_bucket_buy'', v_bools (allow_bucket_buy p)),
      (''allow_bucket_sell'', v_bools (allow_bucket_sell p)),
      (''engine_multipliers'', v_floats (engine_multipliers p)),
      (''current_position_pct'', VFloat (current_position_pct p))]"

section \<open>Selection\<close>

definition score_reaches :: "pyval \<Rightarrow> rat \<Rightarrow> bool res" where
  "score_reaches v limit =
     rbind (market_optional_float v) (\<lambda>score.
       Inr (case score of None \<Rightarrow> False | Some x \<Rightarrow> fle (Fin limit) x))"

definition select_calm ::
  "pydict \<Rightarrow> pydict \<Rightarrow> string \<Rightarrow> string \<Rightarrow> string \<Rightarrow> string list \<Rightarrow> (PositionProfileName \<times> string list) res" where
  "select_calm context runtime market industry stock tags =
     rbind (score_reaches (v_or (vget context ''low_score'') (vget runtime ''low_score'')) 70) (\<lambda>low.
       let low_accumulation = flag_set (vget context ''low_accumulation'')
             \<or> stock \<in> {''LOW_ACCUMULATION'', ''LOW_SUPPORT''} \<or> low;
           stable = market \<in> {[], ''NORMAL'', ''STABLE'', ''RISK_ON'', ''BULL''};
           strong = industry \<in> {''STRONG'', ''UPTREND'', ''BULL''};
           range_bound = flag_set (vget context ''range_bound'')
             \<or> stock \<in> {''RANGE'', ''RANGE_TRADING'', ''BOX''};
           neutral = industry \<in> {[], ''NEUTRAL'', ''NORMAL'', ''STABLE''}
       in Inr (if stable \<and> strong \<and> low_accumulation
               then (AGGRESSIVE_ACCUMULATION, tags @ [''low_accumulation''])
               else if stable \<and> neutral \<and> range_bound then (RANGE_TRADING, tags @ [''range_trading''])
               else (NORMAL_BALANCE, tags @ [''default_normal''])))"

definition select_profile ::
  "pydict \<Rightarrow> pydict \<Rightarrow> pydict \<Rightarrow> (PositionProfileName \<times> string list) res" where
  "select_profile context caps runtime =
     (if truthy (vget caps ''kill_switch_active'') then Inr (DEFENSIVE, [''kill_switch''])
      else
        let quality = position_upper (vget context ''data_quality'');
            tags = (if quality \<in> {''INSUFFICIENT'', ''MISSING''} then [''data_quality_insufficient''] else []);
            market = first_upper context
              [''market_state'', ''market_regime'', ''market_risk_state'', ''environment_state''];
            industry = first_upper context [''industry_state'', ''sector_state'', ''sector_trend_state''];
            stock = first_upper context [''stock_state'', ''trend_state'', ''structure_state''];
            mode = position_upper (v_or (vget caps ''risk_mode'') (vget context ''risk_mode''))
        in if market \<in> {''PANIC'', ''CRASH'', ''BROKEN''} then Inr (DEFENSIVE, tags @ [''market_panic''])
           else if industry \<in> {''BROKEN'', ''BREAKDOWN''} then Inr (DEFENSIVE, tags @ [''sector_broken''])
           else if flag_set (vget context ''defensive'') then Inr (DEFENSIVE, tags @ [''defensive_flag''])
           else rbind (score_reaches (v_or (vget context ''high_distribution_score'')
                         (vget runtime ''high_distribution_score'')) 75) (\<lambda>high.
             if flag_set (vget context ''high_distribution'') \<or> flag_set (vget runtime ''high_distribution'')
               \<or> stock \<in> {''HIGH_DISTRIBUTION'', ''DISTRIBUTION''} \<or> high
             then Inr (DISTRIBUTION, tags @ [''distribution_risk''])
             else if mode \<in> {''RISK_OFF'', ''RISK_REDUCED'', ''REDUCED''}
             then Inr (CAUTIOUS, tags @ [''risk_caps_reduced''])
             else if market \<in> {''RISK_OFF'', ''WEAK''} \<or> quality \<in> {''INSUFFICIENT'', ''MISSING''}
             then Inr (CAUTIOUS, tags @ [''market_weak_or_missing''])
             else select_calm context runtime market industry stock tags))"

section \<open>The current position\<close>

fun as_dict_get :: "pyval \<Rightarrow> string \<Rightarrow> pyval \<Rightarrow> pyval res" where
  "as_dict_get (VDict d) k v = Inr (vget_or d k v)"
| "as_dict_get _ k v = Inl AttributeError"

definition float_or_zero :: "pyfloat option \<Rightarrow> pyfloat" where
  "float_or_zero x = (case x of None \<Rightarrow> fzero | Some v \<Rightarrow> v)"

definition position_worth :: "pyval \<Rightarrow> pyfloat res" where
  "position_worth position =
     rbind (as_dict_get position ''market_value'' VNone) (\<lambda>v.
     rbind (market_optional_float v) (\<lambda>mv.
       case mv of
         Some x \<Rightarrow> Inr x
       | None \<Rightarrow>
           rbind (as_dict_get position ''last_price'' VNone) (\<lambda>lp.
           rbind (as_dict_get position ''price'' VNone) (\<lambda>pr.
           rbind (market_optional_float (v_or lp pr)) (\<lambda>price.
           rbind (as_dict_get position ''long_volume'' VNone) (\<lambda>lv.
           rbind (as_dict_get position ''total_volume'' VNone) (\<lambda>tv.
           rbind (market_optional_float (v_or (v_or lv tv) (VInt 0))) (\<lambda>volume.
             Inr (fmul (float_or_zero price) (float_or_zero volume))))))))))"

definition find_current_position_pct :: "pydict \<Rightarrow> string \<Rightarrow> pyfloat res" where
  "find_current_position_pct portfolio code =
     rbind (to_dict_or_empty (vget portfolio ''account'')) (\<lambda>account.
     rbind (market_optional_float (v_or (v_or (vget account ''total_asset'') (vget account ''cash_total''))
              (vget account ''total_equity''))) (\<lambda>total_asset.
       case total_asset of
         None \<Rightarrow> Inr fzero
       | Some asset \<Rightarrow>
           if asset = fzero \<or> fle asset fzero then Inr fzero
           else rbind (if code = [] then Inr (VDict [])
                       else as_dict_get (v_or (vget portfolio ''positions'') (VDict [])) code (VDict []))
                  (\<lambda>position.
                rbind (position_worth position) (\<lambda>worth.
                  Inr (pmax fzero (pmin (fdiv worth asset) (Fin 1)))))))"

section \<open>Overrides and caps\<close>

fun override_floats ::
  "pydict \<Rightarrow> (string \<times> (pyfloat \<Rightarrow> PositionAdjustmentProfile \<Rightarrow> PositionAdjustmentProfile)) list \<Rightarrow>
   PositionAdjustmentProfile \<Rightarrow> PositionAdjustmentProfile res" where
  "override_floats ov [] p = Inr p"
| "override_floats ov ((k, set_field) # ks) p =
     (if dmem ov k
      then rbind (market_optional_float (vget ov k)) (\<lambda>v.
             override_floats ov ks (case v of None \<Rightarrow> p | Some x \<Rightarrow> set_field x p))
      else override_floats ov ks p)"

definition override_bool ::
  "pydict \<Rightarrow> string \<Rightarrow> (bool \<Rightarrow> PositionAdjustmentProfile \<Rightarrow> PositionAdjustmentProfile) \<Rightarrow>
   PositionAdjustmentProfile \<Rightarrow> PositionAdjustmentProfile" where
  "override_bool ov k set_field p =
     (if dmem ov k then (case optional_bool (vget ov k) of None \<Rightarrow> p | Some b \<Rightarrow> set_field b p) else p)"

definition apply_parameter_overrides ::
  "PositionAdjustmentProfile \<Rightarrow> pydict \<Rightarrow> PositionAdjustmentProfile res" where
  "apply_parameter_overrides p params =
     rbind (to_dict_or_empty (vget params ''position_profile_overrides'')) (\<lambda>ov.
     rbind (override_floats ov
       [(''min_position_pct'', \<lambda>x q. q\<lparr>min_pct := x\<rparr>), (''max_position_pct'', \<lambda>x q. q\<lparr>max_pct := x\<rparr>),
        (''target_cash_buffer_pct'', \<lambda>x q. q\<lparr>target_cash_buffer_pct := x\<rparr>),
        (''core_share_min'', \<lambda>x q. q\<lparr>core_share_min := x\<rparr>),
        (''core_share_max'', \<lambda>x q. q\<lparr>core_share_max := x\<rparr>),
        (''swing_max_pct'', \<lambda>x q. q\<lparr>swing_max_pct := x\<rparr>),
        (''balance_beta_multiplier'', \<lambda>x q. q\<lparr>balance_beta_multiplier := x\<rparr>),
        (''inventory_gamma_multiplier'', \<lambda>x q. q\<lparr>inventory_gamma_multiplier := x\<rparr>),
        (''grid_step_multiplier'', \<lambda>x q. q\<lparr>grid_step_multiplier := x\<rparr>)] p) (\<lambda>p1.
       Inr (override_bool ov ''allow_swing_sell'' (\<lambda>b q. q\<lparr>allow_swing_sell := b\<rparr>)
             (override_bool ov ''allow_core_sell'' (\<lambda>b q. q\<lparr>allow_core_sell := b\<rparr>)
               (override_bool ov ''allow_swing_buy'' (\<lambda>b q. q\<lparr>allow_swing_buy := b\<rparr>)
                 (override_bool ov ''allow_core_buy'' (\<lambda>b q. q\<lparr>allow_core_buy := b\<rparr>) p1))))))"

text \<open>
  \<open>sorted(set(...))\<close> over tags of which at least one is a string: a value that is not a string
  cannot be compared with it, or not be hashed, and raises \<open>TypeError\<close>.
\<close>

fun tag_string :: "pyval \<Rightarrow> string res" where
  "tag_string (VStr s) = Inr s"
| "tag_string _ = Inl TypeError"

definition merge_tags :: "pydict \<Rightarrow> string list \<Rightarrow> string list res" where
  "merge_tags caps tags =
     rbind (caps_tags caps) (\<lambda>risk_tags.
     rbind (py_list (vget_or caps ''reason_codes'' (VList []))) (\<lambda>codes.
     rbind (rmap tag_string (risk_tags @ codes)) (\<lambda>more. Inr (sorted_strings (tags @ more)))))"

definition forbid_buys :: "PositionAdjustmentProfile \<Rightarrow> PositionAdjustmentProfile" where
  "forbid_buys p = p\<lparr>allow_core_buy := False, allow_swing_buy := False\<rparr>"

definition reduce_only :: "PositionAdjustmentProfile \<Rightarrow> PositionAdjustmentProfile" where
  "reduce_only p =
     (forbid_buys p)\<lparr>max_pct := pmin (max_pct p) (current_position_pct p), min_pct := fzero\<rparr>"

definition make_defensive :: "PositionAdjustmentProfile \<Rightarrow> PositionAdjustmentProfile" where
  "make_defensive p =
     (let d = PROFILE_TEMPLATES DEFENSIVE
      in p\<lparr>profile_name := PositionProfileName_value DEFENSIVE, min_pct := min_pct d,
           max_pct := pmin (max_pct p) (max_pct d),
           target_cash_buffer_pct := pmax (target_cash_buffer_pct p) (target_cash_buffer_pct d),
           core_share_min := core_share_min d, core_share_max := core_share_max d,
           swing_max_pct := swing_max_pct d, balance_beta_multiplier := balance_beta_multiplier d,
           inventory_gamma_multiplier := inventory_gamma_multiplier d,
           grid_step_multiplier := grid_step_multiplier d,
           allow_core_buy := False, allow_swing_buy := False\<rparr>)"

text \<open>The six assignments at the end, in their order.\<close>

definition clamp_profile :: "PositionAdjustmentProfile \<Rightarrow> PositionAdjustmentProfile" where
  "clamp_profile p =
     (let share = (\<lambda>x. pmax fzero (pmin x (Fin 1)));
          lo = pmax fzero (pmin (min_pct p) (max_pct p)); hi = share (max_pct p);
          core_lo = share (core_share_min p)
      in p\<lparr>min_pct := lo, max_pct := hi, target_cash_buffer_pct := share (target_cash_buffer_pct p),
           core_share_min := core_lo, core_share_max := pmax core_lo (pmin (core_share_max p) (Fin 1)),
           swing_max_pct := pmax fzero (pmin (swing_max_pct p) hi)\<rparr>)"

definition cap_profile :: "pydict \<Rightarrow> PositionAdjustmentProfile \<Rightarrow> PositionAdjustmentProfile" where
  "cap_profile caps p0 =
     (let p1 = (if vget caps ''allow_buy'' = VBool False then forbid_buys p0 else p0);
          p2 = (if truthy (vget caps ''only_reduce_position'') then reduce_only p1 else p1);
          p3 = (if vget caps ''allow_sell'' = VBool False
                then p2\<lparr>allow_core_sell := False, allow_swing_sell := False\<rparr> else p2)
      in if truthy (vget caps ''kill_switch_active'') then make_defensive p3 else p3)"

definition apply_risk_caps :: "PositionAdjustmentProfile \<Rightarrow> pydict \<Rightarrow> PositionAdjustmentProfile res" where
  "apply_risk_caps p caps =
     rbind (merge_tags caps (reason_tags p)) (\<lambda>tags.
     rbind (market_optional_float (vget caps ''max_position_pct'')) (\<lambda>cap_max.
     rbind (market_optional_float (vget caps ''min_cash_buffer_pct'')) (\<lambda>buffer.
       let p1 = p\<lparr>reason_tags := tags,
                  max_pct := (case cap_max of None \<Rightarrow> max_pct p | Some m \<Rightarrow> pmin (max_pct p) m),
                  target_cash_buffer_pct := (case buffer of
                    None \<Rightarrow> target_cash_buffer_pct p | Some b \<Rightarrow> pmax (target_cash_buffer_pct p) b)\<rparr>
       in Inr (clamp_profile (cap_profile caps p1)))))"

definition build_bucket_caps :: "PositionAdjustmentProfile \<Rightarrow> PositionAdjustmentProfile" where
  "build_bucket_caps p =
     p\<lparr>bucket_caps :=
         [(''core'', [(''min_pct'', fmul (min_pct p) (core_share_min p)),
                      (''max_pct'', fmul (max_pct p) (core_share_max p))]),
          (''swing'', [(''min_pct'', fzero),
                       (''max_pct'', pmin (swing_max_pct p)
                          (fmul (max_pct p) (pmax fzero (fsub (Fin 1) (core_share_min p)))))]),
          (''locked_core'', [(''min_pct'', fzero), (''max_pct'', fzero)])],
       allow_bucket_buy :=
         [(''core'', allow_core_buy p), (''swing'', allow_swing_buy p), (''locked_core'', False)],
       allow_bucket_sell :=
         [(''core'', allow_core_sell p), (''swing'', allow_swing_sell p), (''locked_core'', False)],
       engine_multipliers :=
         [(''balance_beta'', balance_beta_multiplier p), (''inventory_gamma'', inventory_gamma_multiplier p),
          (''grid_step'', grid_step_multiplier p)]\<rparr>"

definition build_profile ::
  "pydict \<Rightarrow> pydict \<Rightarrow> pydict \<Rightarrow> pydict \<Rightarrow> pydict \<Rightarrow> string \<Rightarrow> PositionAdjustmentProfile res" where
  "build_profile context caps portfolio runtime params code =
     rbind (select_profile context caps runtime) (\<lambda>(name, tags).
     rbind (find_current_position_pct portfolio code) (\<lambda>current.
     rbind (apply_parameter_overrides
              ((from_template name (PROFILE_TEMPLATES name) tags)\<lparr>current_position_pct := current\<rparr>) params) (\<lambda>p1.
     rbind (apply_risk_caps p1 caps) (\<lambda>p2. Inr (build_bucket_caps p2)))))"

end
