(* ===== verification/Risk_Facts.thy ===== *)
theory Risk_Facts
  imports Risk_Checker "HOL-Library.Sublist"
begin

text \<open>
  Facts of the risk layers that their properties share: the three shapes of a decision (refused,
  granted, reduced) and which operation gives which, the stages of \<open>evaluate_order\<close>, the volume a cap
  pays for, the order in which one set of caps is tighter than another, the kill switch, and the legs
  of a substitution.
\<close>

definition refused :: "OrderRequest \<Rightarrow> OrderRiskDecision \<Rightarrow> bool" where
  "refused r d \<longleftrightarrow>
     action d \<notin> {ALLOW, CAP} \<and> \<not> allowed d \<and> original_volume d = request_volume r
     \<and> final_volume d = 0 \<and> final_amount d = fzero \<and> decision_plan d = None"

definition granted :: "OrderRequest \<Rightarrow> OrderRiskDecision \<Rightarrow> bool" where
  "granted r d \<longleftrightarrow>
     action d = ALLOW \<and> allowed d \<and> original_volume d = request_volume r
     \<and> final_volume d = request_volume r \<and> final_amount d = original_amount d
     \<and> order_amount (request_price r) (final_volume d) = Inr (final_amount d)"

definition reduced :: "OrderRequest \<Rightarrow> OrderRiskDecision \<Rightarrow> bool" where
  "reduced r d \<longleftrightarrow>
     action d = CAP \<and> allowed d \<and> original_volume d = request_volume r
     \<and> 0 < final_volume d \<and> final_volume d mod LOT_SIZE = 0 \<and> decision_plan d = None
     \<and> order_amount (request_price r) (final_volume d) = Inr (final_amount d)"

lemma reject_refused: "reject_as act r code tags meta = Inr d \<Longrightarrow> act \<notin> {ALLOW, CAP} \<Longrightarrow> refused r d"
  by (auto simp: reject_as_def refused_def res_simps)

lemma delay_refused: "delay r code tags meta = Inr d \<Longrightarrow> refused r d"
  by (simp add: delay_def reject_refused)

lemma allow_granted: "allow r code tags meta plan = Inr d \<Longrightarrow> granted r d \<and> decision_plan d = plan"
  by (auto simp: allow_def granted_def res_simps)

lemma cap_reduced:
  "cap r v code tags meta = Inr d \<Longrightarrow> 0 < v \<Longrightarrow> v mod LOT_SIZE = 0 \<Longrightarrow> reduced r d \<and> final_volume d = v"
  by (auto simp: cap_def reduced_def res_simps)

lemmas decision_shapes = reject_refused delay_refused allow_granted cap_reduced

lemma context_refused: "check_context_caps r caps = Inr (Some d) \<Longrightarrow> refused r d"
  by (auto simp: check_context_caps_def check_order_amount_def check_buy_caps_def res_simps Let_def
      split: if_splits option.splits dest!: delay_refused intro: reject_refused)

lemma buying_power_shape:
  "check_buying_power_decision k r account = Inr d \<Longrightarrow>
     refused r d \<or> granted r d \<and> decision_plan d = None"
  by (auto simp: check_buying_power_decision_def res_simps Let_def split: if_splits
      dest!: allow_granted intro: reject_refused)

lemma t1_unavailable_shape: "t1_unavailable r caps n = Inr (Some d) \<Longrightarrow> refused r d"
  by (auto simp: t1_unavailable_def res_simps Let_def split: if_splits dest!: delay_refused intro: reject_refused)

lemma t1_cases:
  assumes "check_t1_substitution r pos caps = Inr (Some d)"
  obtains (refused) "refused r d"
  | (own) "granted r d" "decision_plan d = None" "request_order_type r = SELL"
  | (substituted) c left legs where "granted r d" "decision_plan d = Some (t1_plan (request_volume r) legs)"
      "request_order_type r = SELL" "request_bucket r = ''swing''" "bucket_sell_capacity pos caps = Inr c"
      "substitution_legs (request_volume r) (sell_sources (permitted_capacity r c)) = (left, legs)"
      "left \<le> 0" "list_ex (\<lambda>(name, _). name \<noteq> ''swing'') legs"
proof (cases "request_order_type r = SELL \<and> request_bucket r = ''swing''")
  case False
  with assms that(1) show thesis
    by (auto simp: check_t1_substitution_def res_simps split: if_splits intro: reject_refused)
next
  case sell: True
  from assms sell obtain c where c: "bucket_sell_capacity pos caps = Inr c \<or> refused r d"
    by (auto simp: check_t1_substitution_def res_simps split: if_splits intro: reject_refused)
  obtain left legs where l: "substitution_legs (request_volume r) (sell_sources (permitted_capacity r c)) = (left, legs)"
    by fastforce
  show thesis
  proof (cases "bucket_sell_capacity pos caps = Inr c")
    case True
    with assms sell l that show thesis
      by (auto simp: check_t1_substitution_def res_simps Let_def split: if_splits
          dest!: allow_granted t1_unavailable_shape intro: reject_refused)
  qed (use c that(1) in blast)
qed

lemma t1_substitution_shape: "check_t1_substitution r pos caps = Inr (Some d) \<Longrightarrow> refused r d \<or> granted r d"
  by (erule t1_cases) auto

lemma sell_shape: "check_sell_capacity_decision r pos caps = Inr d \<Longrightarrow> refused r d \<or> granted r d"
  by (auto simp: check_sell_capacity_decision_def res_simps split: if_splits option.splits
      dest!: allow_granted t1_substitution_shape intro: reject_refused)

text \<open>What \<open>_cap_buy_by_context\<close> answers.\<close>

lemma cap_buy_cases:
  assumes "cap_buy_by_context r account pos market caps = Inr res"
  obtains (skipped) "res = None" "request_order_type r \<noteq> BUY \<or> fle (request_price r) fzero"
  | (uncapped) "res = None" "cap_amounts r account pos market caps = Inr []"
  | (within) c cs amount where "res = None" "cap_amounts r account pos market caps = Inr (c # cs)"
      "order_amount (request_price r) (request_volume r) = Inr amount" "fle amount (snd (min_cap c cs))"
  | (refusal) d where "res = Some d" "refused r d"
  | (lowered) c cs amount n d where "res = Some d" "cap_amounts r account pos market caps = Inr (c # cs)"
      "order_amount (request_price r) (request_volume r) = Inr amount" "\<not> fle amount (snd (min_cap c cs))"
      "int_of_float (ffloordiv (snd (min_cap c cs)) (request_price r)) = Inr n"
      "reduced r d" "final_volume d = normalize_buy_volume n" "\<not> fle (request_price r) fzero"
proof (cases "request_order_type r \<noteq> BUY \<or> fle (request_price r) fzero")
  case True
  with assms that(1) show thesis by (simp add: cap_buy_by_context_def)
next
  case go: False
  with assms obtain amounts where a: "cap_amounts r account pos market caps = Inr amounts"
    by (auto simp: cap_buy_by_context_def res_simps)
  show thesis
  proof (cases amounts)
    case Nil
    with assms go a that(2) show thesis by (simp add: cap_buy_by_context_def)
  next
    case (Cons c cs)
    let ?m = "min_cap c cs"
    from assms go a Cons obtain amount where am: "order_amount (request_price r) (request_volume r) = Inr amount"
      by (auto simp: cap_buy_by_context_def res_simps split: prod.splits)
    show thesis
    proof (cases "fle amount (snd ?m)")
      case True
      with assms go a Cons am that(3) show thesis
        by (auto simp: cap_buy_by_context_def split: prod.splits)
    next
      case False
      obtain n v tags where n: "int_of_float (ffloordiv (snd ?m) (request_price r)) = Inr n"
        and v: "v = 0 \<or> v = normalize_buy_volume n"
        and res: "(if v \<le> 0
            then rbind (reject r (public_cap_reason_code (fst ?m)) tags [(''cap_source'', VStr (fst ?m))])
                   (\<lambda>d. Inr (Some d))
            else rbind (cap r v (public_cap_reason_code (fst ?m)) tags [(''cap_source'', VStr (fst ?m))])
                   (\<lambda>d. Inr (Some d))) = Inr res"
        using assms go False
        by (cases "min_cap c cs")
          (fastforce simp: cap_buy_by_context_def a Cons am res_simps Let_def split: option.splits if_splits)
      show thesis
      proof (cases "v \<le> 0")
        case True
        with res that(4) show thesis by (auto simp: res_simps intro: reject_refused)
      next
        case pos: False
        with v have "v = normalize_buy_volume n" by auto
        moreover from this have "v mod LOT_SIZE = 0" by (simp add: normalize_buy_volume_bounds)
        ultimately show thesis
          using res pos that(5) [OF _ _ am False n] a Cons go cap_reduced [of r v]
          by (auto simp: res_simps)
      qed
    qed
  qed
qed

lemma buy_shape:
  assumes "cap_buy_by_context r account pos market caps = Inr (Some d)"
  shows "refused r d \<or> reduced r d"
  using assms by (cases rule: cap_buy_cases) auto

lemma decide_shape:
  assumes "decide_side k r account pos market caps = Inr d"
  shows "refused r d \<or> granted r d \<and> (request_order_type r = BUY \<longrightarrow> decision_plan d = None)
    \<or> reduced r d \<and> request_order_type r = BUY"
proof (cases "request_order_type r")
  case BUY
  with assms show ?thesis
    by (auto simp: decide_side_def res_simps split: if_splits option.splits
        dest!: buying_power_shape buy_shape) 
qed (use assms in \<open>auto simp: decide_side_def res_simps dest!: sell_shape reject_refused\<close>)

text \<open>The stages an order passes before a side is decided.\<close>

lemma order_decision_cases:
  assumes "evaluate_order k r account pos market t caps = Inr d"
  obtains (refused) "refused r d"
  | (decided) checks where "check_context_caps r caps = Inr None"
      "market_checks k r pos market caps = Inr checks" "list_all check_ok checks"
      "outside_hours k market t = Inr False" "decide_side k r account pos market caps = Inr d"
proof -
  from assms obtain c where c: "check_context_caps r caps = Inr c"
    by (auto simp: evaluate_order_def res_simps)
  show thesis
  proof (cases c)
    case (Some e)
    with assms c that(1) show thesis by (simp add: evaluate_order_def context_refused)
  next
    case None
    with assms c obtain checks where ch: "market_checks k r pos market caps = Inr checks"
      by (auto simp: evaluate_order_def res_simps)
    show thesis
    proof (cases "find (\<lambda>c. \<not> check_ok c) checks")
      case (Some e)
      with assms c ch None that(1) show thesis by (auto simp: evaluate_order_def intro: reject_refused)
    next
      case ok: None
      then have "list_all check_ok checks" by (auto simp: find_None_iff list_all_iff)
      with assms c ch None ok that show thesis
        by (auto simp: evaluate_order_def res_simps split: if_splits dest: reject_refused)
    qed
  qed
qed

lemma check_volume_positive: "check_ok (check_volume r a lo hi) \<Longrightarrow> 0 < request_volume r"
  by (auto simp: check_volume_def Let_def split: if_splits)

lemma checks_volume:
  assumes "market_checks k r pos market caps = Inr checks" "list_all check_ok checks"
  shows "0 < request_volume r"
  using assms by (auto simp: market_checks_def res_simps dest!: check_volume_positive)

lemma order_amount_exact: 
  "\<bar>v\<bar> \<le> 2 ^ 53 \<Longrightarrow> order_amount (Fin p) v = Inr (fround (p * of_int v))"
  by (simp add: order_amount_def float_of_int_def fround_of_int)

text \<open>The volume an amount pays for costs no more than the amount.\<close>

lemma affordable_volume:
  assumes m: "is_float m" and p: "fround p = Fin p" "0 < p" and v: "0 < v" "v \<le> 2 ^ 50"
    and over: "\<not> fle (fround (p * of_int v)) m"
    and n: "int_of_float (ffloordiv m (Fin p)) = Inr n" "0 < normalize_buy_volume n"
  shows "normalize_buy_volume n \<le> v" "fle (fround (p * of_int (normalize_buy_volume n))) m"
proof -
  have n0: "0 < n" "normalize_buy_volume n \<le> n"
    using n(2) normalize_buy_volume_bounds(2) [of n] by (auto simp: normalize_buy_volume_def split: if_splits)
  from over n(1) obtain a where a: "m = Fin a"
    by (cases m) (auto simp: fround_def Let_def split: if_splits)
  have a0: "0 \<le> a" using ffloordiv_neg [of a p n] n(1) n0(1) p(2) a by fastforce
  have fa: "fround a = Fin a" using m a by (simp add: is_float_def)
  have q: "\<lfloor>a / p\<rfloor> \<le> v"
  proof (rule ccontr)
    assume "\<not> \<lfloor>a / p\<rfloor> \<le> v"
    then have "of_int v \<le> a / p" by linarith
    then have "p * of_int v \<le> a" using p(2) by (simp add: pos_le_divide_eq mult.commute)
    from fround_mono [OF this] over fa a show False by simp
  qed
  then have "ffloordiv (Fin a) (Fin p) = Fin (of_int \<lfloor>a / p\<rfloor>)"
    using fa a0 p order_trans [OF q v(2)] by (intro ffloordiv_exact)
  then have nq: "n = \<lfloor>a / p\<rfloor>" using n(1) a0 p(2) by (simp add: a trunc_rat_def del: ffloordiv.simps)
  with n0 q show "normalize_buy_volume n \<le> v" by linarith
  have "of_int (normalize_buy_volume n) \<le> a / p" using n0(2) nq by linarith
  then have "p * of_int (normalize_buy_volume n) \<le> a" using p(2) by (simp add: pos_le_divide_eq mult.commute)
  from fround_mono [OF this] show "fle (fround (p * of_int (normalize_buy_volume n))) m" by (simp add: fa a)
qed

lemma min_cap_member: "min_cap c cs \<in> set (c # cs)"
proof (induction cs arbitrary: c)
  case (Cons x cs)
  have "min_cap c (x # cs) = min_cap (if flt (snd x) (snd c) then x else c) cs" by (simp add: min_cap_def)
  with Cons.IH [of "if flt (snd x) (snd c) then x else c"] show ?case by (auto split: if_splits)
qed (simp add: min_cap_def)

lemma min_cap_NaN: "snd c = NaN \<Longrightarrow> snd (min_cap c cs) = NaN"
  by (induction cs) (simp_all add: min_cap_def)

lemma min_cap_below: "fle f (snd (min_cap c cs)) \<Longrightarrow> x \<in> set (c # cs) \<Longrightarrow> \<not> flt (snd x) f"
proof (induction cs arbitrary: c x)
  case Nil
  then have "x = c" "fle f (snd c)" by (simp_all add: min_cap_def)
  then show ?case using flt_fle_trans [of "snd c" f "snd c"] by auto
next
  case (Cons y cs)
  let ?b = "if flt (snd y) (snd c) then y else c"
  have IH: "x \<in> set (?b # cs) \<Longrightarrow> \<not> flt (snd x) f" for x
    using Cons.IH [of ?b] Cons.prems(1) by (simp add: min_cap_def)
  have b: "\<not> flt (snd ?b) f" by (rule IH) simp
  have nan: "snd ?b \<noteq> NaN"
  proof
    assume "snd ?b = NaN"
    then have "snd (min_cap ?b cs) = NaN" by (rule min_cap_NaN)
    with Cons.prems(1) show False by (simp add: min_cap_def) (auto dest: fle_not_NaN)
  qed
  have "\<not> flt (snd c) f" "\<not> flt (snd y) f"
    using b nan flt_imp_fle [of "snd y" "snd c"] fle_flt_trans [of "snd y" "snd c" f]
      not_flt_iff [of "snd c" f] flt_fle_trans [of "snd y" f "snd c"] flt_not_NaN [of "snd y" f]
    by (auto split: if_splits)
  with IH [of x] Cons.prems(2) show ?case by auto
qed

text \<open>An allowed buy: its volume is whole lots of what was asked and its amount within every cap.\<close>

lemma buy_within_caps:
  assumes d: "decide_side k r account pos market caps = Inr d" "allowed d" and side: "request_order_type r = BUY"
    and p: "request_price r = Fin p" "fround p = Fin p" "0 < p" and v: "0 < request_volume r" "request_volume r \<le> 2 ^ 50"
    and am: "cap_amounts r account pos market caps = Inr amounts" "list_all (\<lambda>(_, a). is_float a) amounts"
  shows "(final_volume d = request_volume r \<or> reduced r d \<and> final_volume d \<le> request_volume r)
    \<and> (\<forall>c \<in> set amounts. \<not> flt (snd c) (final_amount d))"
proof -
  from d side obtain buy capped where buy: "check_buying_power_decision k r account = Inr buy" "allowed buy"
    and c: "cap_buy_by_context r account pos market caps = Inr capped"
    and eq: "d = (case capped of Some d \<Rightarrow> d | None \<Rightarrow> buy)"
    by (auto simp: decide_side_def res_simps split: if_splits)
  have g: "granted r buy" using buying_power_shape [OF buy(1)] buy(2) by (auto simp: refused_def)
  have amt: "order_amount (request_price r) x = Inr (fround (p * of_int x))" if "0 \<le> x" "x \<le> request_volume r" for x
    using that v order_amount_exact [of x p] by (simp add: p(1))
  from c show ?thesis
  proof (cases rule: cap_buy_cases)
    case skipped
    with side p show ?thesis by simp
  next
    case uncapped
    with am g eq show ?thesis by (simp add: granted_def)
  next
    case (within c cs amount)
    then have "final_amount d = amount" using g eq by (auto simp: granted_def)
    with within am(1) min_cap_below [of amount c cs] g eq show ?thesis by (auto simp: granted_def)
  next
    case (refusal d')
    with d(2) eq show ?thesis by (simp add: refused_def)
  next
    case (lowered c cs amount n d')
    have m: "is_float (snd (min_cap c cs))"
      using am lowered(2) min_cap_member [of c cs] by (auto simp: list_all_iff)
    have pos: "0 < normalize_buy_volume n" using lowered(6,7) by (simp add: reduced_def)
    have over: "\<not> fle (fround (p * of_int (request_volume r))) (snd (min_cap c cs))"
      using lowered(3,4) amt [of "request_volume r"] v by simp
    note aff = affordable_volume [OF m p(2,3) v over lowered(5) [unfolded p(1)] pos]
    have "final_amount d = fround (p * of_int (normalize_buy_volume n))"
      using lowered(1,6,7) eq amt [of "normalize_buy_volume n"] pos aff(1) by (simp add: reduced_def)
    with aff(2) min_cap_below [of "final_amount d" c cs] lowered am(1) aff(1) eq show ?thesis by auto
  qed
qed

section \<open>Caps that only get tighter\<close>

definition no_looser :: "(pyfloat \<Rightarrow> pyfloat \<Rightarrow> bool) \<Rightarrow> pyfloat option \<Rightarrow> pyfloat option \<Rightarrow> bool" where
  "no_looser stricter new old \<longleftrightarrow>
     (case old of None \<Rightarrow> True | Some x \<Rightarrow> \<exists>y. new = Some y \<and> (y = x \<or> stricter y x))"

definition fgt :: "pyfloat \<Rightarrow> pyfloat \<Rightarrow> bool" where
  "fgt x y \<longleftrightarrow> flt y x"

definition tightens :: "RiskContextCaps \<Rightarrow> RiskContextCaps \<Rightarrow> bool" where
  "tightens c c0 \<longleftrightarrow>
     no_looser flt (max_position_pct c) (max_position_pct c0)
     \<and> no_looser flt (max_new_buy_pct_today c) (max_new_buy_pct_today c0)
     \<and> no_looser flt (max_new_buy_amount_today c) (max_new_buy_amount_today c0)
     \<and> no_looser flt (max_single_order_amount c) (max_single_order_amount c0)
     \<and> no_looser fgt (min_cash_buffer_pct c) (min_cash_buffer_pct c0)
     \<and> (caps_allow_buy c \<longrightarrow> caps_allow_buy c0)
     \<and> (allow_intraday_swing_buy c \<longrightarrow> allow_intraday_swing_buy c0)
     \<and> (only_reduce_position c0 \<longrightarrow> only_reduce_position c)
     \<and> (kill_switch_active c0 \<longrightarrow> kill_switch_active c)
     \<and> caps_allow_sell c = caps_allow_sell c0
     \<and> allow_locked_core_substitution c = allow_locked_core_substitution c0
     \<and> t1_insufficient_action c = t1_insufficient_action c0
     \<and> delay_core_buy_in_panic c = delay_core_buy_in_panic c0"

lemma no_looser_refl [simp]: "no_looser f x x"
  by (simp add: no_looser_def split: option.split)

lemma no_looser_trans:
  assumes "\<And>a b c. f a b \<Longrightarrow> f b c \<Longrightarrow> f a c"
  shows "no_looser f x y \<Longrightarrow> no_looser f y z \<Longrightarrow> no_looser f x z"
  using assms by (fastforce simp: no_looser_def split: option.splits)

lemma tightens_refl [simp]: "tightens c c"
  by (simp add: tightens_def)

lemma fgt_trans: "fgt a b \<Longrightarrow> fgt b c \<Longrightarrow> fgt a c"
  using flt_trans by (auto simp: fgt_def)

lemma no_looser_transs:
  "no_looser flt x y \<Longrightarrow> no_looser flt y z \<Longrightarrow> no_looser flt x z"
  "no_looser fgt x y \<Longrightarrow> no_looser fgt y z \<Longrightarrow> no_looser fgt x z"
  by (blast intro: no_looser_trans flt_trans, blast intro: no_looser_trans fgt_trans)

lemma tightens_trans: "tightens a b \<Longrightarrow> tightens b c \<Longrightarrow> tightens a c"
  using no_looser_transs(1) [of "max_position_pct a" "max_position_pct b" "max_position_pct c"]
    no_looser_transs(1) [of "max_new_buy_pct_today a" "max_new_buy_pct_today b" "max_new_buy_pct_today c"]
    no_looser_transs(1) [of "max_new_buy_amount_today a" "max_new_buy_amount_today b" "max_new_buy_amount_today c"]
    no_looser_transs(1) [of "max_single_order_amount a" "max_single_order_amount b" "max_single_order_amount c"]
    no_looser_transs(2) [of "min_cash_buffer_pct a" "min_cash_buffer_pct b" "min_cash_buffer_pct c"]
  by (simp add: tightens_def)

lemma no_looser_min [simp]: "no_looser flt (min_optional x l) x"
  by (auto simp: no_looser_def min_optional_def pmin_def split: option.split)

lemma no_looser_max [simp]: "no_looser fgt (max_optional x l) x"
  by (auto simp: no_looser_def max_optional_def pmax_def fgt_def split: option.split)

lemma tightens_tag [simp]: "tightens (tag_caps code tag c) c0 = tightens c c0"
  by (simp add: tightens_def tag_caps_def)

lemma tightens_stages:
  "tightens (cap_market m c) c" "tightens (cap_industry i c) c" "tightens (cap_liquidity l t c) c"
  "tightens (cap_data_quality q c) c" "tightens (cap_buy_amount t c) c"
  by (auto simp: cap_market_def cap_industry_def cap_liquidity_def cap_data_quality_def cap_buy_amount_def
      tightens_def tag_caps_def no_looser_def [of flt _ None] split: option.split)

lemma tightens_limit: "tightens (limit_caps m i l q t c) c"
  unfolding limit_caps_def by (intro tightens_trans [OF tightens_stages(5)] tightens_trans [OF tightens_stages(4)]
    tightens_trans [OF tightens_stages(3)] tightens_trans [OF tightens_stages(2)] tightens_stages(1))

lemma tightens_restrict: "tightens (restrict_caps c) c"
  by (simp add: restrict_caps_def Let_def tightens_def tag_caps_def)

section \<open>The kill switch\<close>

definition limit_reached :: "pyval list \<Rightarrow> pyval list \<Rightarrow> bool" where
  "limit_reached limits vals \<longleftrightarrow>
     (case (first_number limits, first_number vals) of
        (Inr l, Inr v) \<Rightarrow> reaches l v
      | _ \<Rightarrow> False)"

definition stop_condition :: "caps_input \<Rightarrow> bool" where
  "stop_condition i \<longleftrightarrow>
     limit_reached [vget (in_risk_config i) ''max_drawdown_pct'', vget (in_params i) ''max_drawdown_pct'']
       [vget (in_runtime_state i) ''drawdown_pct'', vget (in_runtime_state i) ''max_drawdown'',
        vget (in_context i) ''drawdown_pct'']
     \<or> instrument_protected (in_context i) \<or> account_mismatch i
     \<or> limit_reached
         [vget (in_risk_config i) ''max_broker_report_lag_seconds'', vget (in_params i) ''max_broker_report_lag_seconds'']
         [vget (in_broker_report i) ''report_lag_seconds'', vget (in_broker_report i) ''last_report_lag_seconds'']"

lemma guards_switch:
  assumes "apply_kill_switch_guards i c0 = Inr c"
  shows "\<exists>m. c = c0\<lparr>kill_switch_active := kill_switch_active c0 \<or> stop_condition i, caps_metadata := m\<rparr>"
proof -
  obtain md dd ml lg where n:
    "first_number [vget (in_risk_config i) ''max_drawdown_pct'', vget (in_params i) ''max_drawdown_pct''] = Inr md"
    "first_number [vget (in_runtime_state i) ''drawdown_pct'', vget (in_runtime_state i) ''max_drawdown'',
       vget (in_context i) ''drawdown_pct''] = Inr dd"
    "first_number [vget (in_risk_config i) ''max_broker_report_lag_seconds'',
       vget (in_params i) ''max_broker_report_lag_seconds''] = Inr ml"
    "first_number [vget (in_broker_report i) ''report_lag_seconds'',
       vget (in_broker_report i) ''last_report_lag_seconds''] = Inr lg"
    using assms by (simp add: apply_kill_switch_guards_def res_simps Let_def del: first_number.simps) blast
  note eq = assms [unfolded apply_kill_switch_guards_def Let_def n rbind_simps sum.inject]
  have "stop_condition i \<longleftrightarrow>
      reaches md dd \<or> instrument_protected (in_context i) \<or> account_mismatch i \<or> reaches ml lg"
    by (simp add: stop_condition_def limit_reached_def n del: first_number.simps)
  then show ?thesis
    by (cases "reaches md dd"; cases "instrument_protected (in_context i)"; cases "account_mismatch i";
        cases "reaches ml lg"; cases c0; auto simp flip: eq simp: trip_def note_caps_def)
qed

lemma tightens_guards:
  assumes "apply_kill_switch_guards i c0 = Inr c"
  shows "tightens c c0"
  using guards_switch [OF assms] by (auto simp: tightens_def)

lemma finish_frame:
  assumes "finish_caps i codes tags m n l q c0 = Inr c"
  shows "\<exists>cs ts md. c = c0\<lparr>reason_codes := cs, caps_risk_tags := ts, caps_metadata := md\<rparr>"
  using assms by (auto simp: finish_caps_def res_simps)

text \<open>The stages of \<open>build_caps\<close>.\<close>

lemma build_stages:
  assumes "build_caps portfolio context orders report runtime params instrument = Inr c"
    and "build_input context orders report runtime params instrument = Inr i"
  obtains c0 c1 c2 total codes tags m n l q where "configured_caps i = Inr c0"
    "apply_kill_switch_guards i c1 = Inr c2" "c1 = limit_caps m n l q total c0"
    "finish_caps i codes tags m n l q (restrict_caps c2) = Inr c"
    "m = normalize_state [vget context ''market_state'', vget context ''stock_state'',
       vget context ''sector_state'', VStr ''NORMAL'']"
  using assms by (auto simp: build_caps_def res_simps Let_def simp del: normalize_state.simps)

lemma kill_switch_decision:
  assumes "truthy (vget caps ''kill_switch_active'')" "caps_tags caps = Inr tags"
    "py_list (vget_or caps ''reason_codes'' (VList [])) = Inr codes"
    "order_amount (request_price r) (request_volume r) = Inr amount"
  shows "\<exists>d. evaluate_order k r account pos market t caps = Inr d \<and> action d = KILL_SWITCH \<and> refused r d"
  using assms by (simp add: evaluate_order_def check_context_caps_def reject_as_def refused_def)

lemma to_dict_gets [simp]:
  "vget (RiskContextCaps_to_dict c) ''kill_switch_active'' = VBool (kill_switch_active c)"
  "caps_tags (RiskContextCaps_to_dict c) = Inr (map VStr (sorted_strings (caps_risk_tags c)))"
  "vget_or (RiskContextCaps_to_dict c) ''reason_codes'' v = VList (map VStr (sorted_strings (reason_codes c)))"
  "vget_or (RiskContextCaps_to_dict c) ''allow_locked_core_substitution'' v = VBool (allow_locked_core_substitution c)"
  by (simp_all add: RiskContextCaps_to_dict_def caps_tags_def)

section \<open>Substitution\<close>

lemma substitution_legs_spec:
  assumes "substitution_legs n sources = (left, legs)" "0 \<le> n"
  shows "sum_list (map snd legs) + left = n" "0 \<le> left" "subseq (map fst legs) (map fst sources)"
    "\<And>b v. (b, v) \<in> set legs \<Longrightarrow> 0 < v \<and> (\<exists>a. (b, a) \<in> set sources \<and> v \<le> a)"
proof -
  have "sum_list (map snd legs) + left = n \<and> 0 \<le> left \<and> subseq (map fst legs) (map fst sources)
      \<and> (\<forall>(b, v) \<in> set legs. 0 < v \<and> (\<exists>a. (b, a) \<in> set sources \<and> v \<le> a))"
    using assms
  proof (induction n sources arbitrary: left legs rule: substitution_legs.induct)
    case (2 n name a sources)
    show ?case
    proof (cases "a \<le> 0 \<or> n \<le> 0")
      case True
      with 2 show ?thesis by fastforce
    next
      case False
      obtain l ls where rest: "substitution_legs (n - min n a) sources = (l, ls)" by fastforce
      with False 2(3) have eq: "left = l" "legs = (name, min n a) # ls" by simp_all
      from 2(2) [OF False refl rest] False eq show ?thesis by auto
    qed
  qed simp
  then show "sum_list (map snd legs) + left = n" "0 \<le> left" "subseq (map fst legs) (map fst sources)"
    "\<And>b v. (b, v) \<in> set legs \<Longrightarrow> 0 < v \<and> (\<exists>a. (b, a) \<in> set sources \<and> v \<le> a)" by auto
qed

end
