(* ===== verification/Risk_Safety.thy ===== *)
theory Risk_Safety
  imports Risk_Facts Bucket_Safety
begin

text \<open>
  What the risk layers guarantee, and how the order checker and the bucket ledger fit together: the
  checker's plans are made for an inventory (locale \<open>sell_inventory\<close>), and the bucket ledger with the
  position it has decorated is one (interpretation \<open>ledger_inventory\<close>).
\<close>

section \<open>Interface: an inventory the checker may draw on\<close>

definition sell_bucket :: "string \<Rightarrow> bool" where
  "sell_bucket b \<longleftrightarrow> b \<in> {''swing'', ''core'', ''locked_core''}"

locale sell_inventory =
  fixes valid :: "'l \<Rightarrow> bool" and view :: "'l \<Rightarrow> pydict" and stock :: "'l \<Rightarrow> string \<Rightarrow> int"
    and reserves :: "'l \<Rightarrow> (string \<times> int) list \<Rightarrow> bool"
  assumes view_stock: "valid l \<Longrightarrow> sell_bucket b \<Longrightarrow>
      dget (view l) (b @ ''_available_volume'') = Some (VInt (stock l b))"
    and enough_stock: "valid l \<Longrightarrow> legs \<noteq> [] \<Longrightarrow>
      (\<And>b v. (b, v) \<in> set legs \<Longrightarrow> sell_bucket b \<and> 0 < v \<and> v \<le> stock l b) \<Longrightarrow> reserves l legs"
begin

lemma capacity_of_stock:
  assumes l: "valid l" and c: "bucket_sell_capacity (view l) caps = Inr c"
    and some: "sell_bucket b" "0 < stock l b"
  shows "swing_available c = max 0 (stock l ''swing'')" "core_available c = max 0 (stock l ''core'')"
    "locked_core_available c = (if truthy (vget_or caps ''allow_locked_core_substitution'' (VBool False))
       then max 0 (stock l ''locked_core'') else 0)"
proof -
  have v: "vget_or (view l) ''swing_available_volume'' x = VInt (stock l ''swing'')"
    "vget_or (view l) ''core_available_volume'' x = VInt (stock l ''core'')"
    "vget_or (view l) ''locked_core_available_volume'' x = VInt (stock l ''locked_core'')" for x
    using view_stock [OF l, of "''swing''"] view_stock [OF l, of "''core''"] view_stock [OF l, of "''locked_core''"]
    by (simp_all add: sell_bucket_def vget_or_def dget_or_def)
  from some have "\<not> (stock l ''core'' \<le> 0 \<and> stock l ''swing'' \<le> 0 \<and> stock l ''locked_core'' \<le> 0 \<and> 0 < a)" for a :: int
    by (auto simp: sell_bucket_def)
  with c show "swing_available c = max 0 (stock l ''swing'')" "core_available c = max 0 (stock l ''core'')"
    "locked_core_available c = (if truthy (vget_or caps ''allow_locked_core_substitution'' (VBool False))
       then max 0 (stock l ''locked_core'') else 0)"
    by (auto simp: bucket_sell_capacity_def v optional_int_def res_simps Let_def)
qed

lemma plan_is_backed:
  assumes l: "valid l" and d: "check_t1_substitution r (view l) caps = Inr (Some d)" "decision_plan d = Some plan"
    and some: "sell_bucket b" "0 < stock l b" and v: "0 < request_volume r"
  shows "\<exists>legs. plan = t1_plan (request_volume r) legs \<and> sum_list (map snd legs) = request_volume r
    \<and> reserves l legs"
  using d(1)
proof (cases rule: t1_cases)
  case (substituted c left legs)
  note spec = substitution_legs_spec [OF substituted(6) less_imp_le [OF v]]
  from substituted(7) spec(1,2) have sum: "sum_list (map snd legs) = request_volume r" by simp
  have "sell_bucket b' \<and> 0 < v' \<and> v' \<le> stock l b'" if leg: "(b', v') \<in> set legs" for b' v'
    using spec(4) [OF leg] capacity_of_stock [OF l substituted(5) some]
    by (auto simp: sell_sources_def permitted_capacity_def sell_bucket_def split: if_splits)
  moreover have "legs \<noteq> []" using substituted(8) by auto
  ultimately show ?thesis using enough_stock [OF l, of legs] sum substituted(2) d(2) by auto
qed (use d(2) in \<open>simp_all add: refused_def\<close>)

end

section \<open>The ledger is such an inventory\<close>

lemma dget_decorate_bucket:
  assumes "n \<in> set KNOWN_BUCKETS" "b \<in> set KNOWN_BUCKETS"
  shows "dget (decorate_bucket (n, s) d) (b @ ''_available_volume'') =
    (if b = n then Some (VInt (available_volume s)) else dget d (b @ ''_available_volume''))"
  using assms
  by (auto simp: decorate_bucket_def KNOWN_BUCKETS_def CORE_BUCKET_def SWING_BUCKET_def LOCKED_CORE_BUCKET_def)

lemma dget_decorate:
  assumes "distinct (dkeys bs)" "set (dkeys bs) \<subseteq> set KNOWN_BUCKETS" "b \<in> set KNOWN_BUCKETS"
  shows "dget (fold decorate_bucket bs d) (b @ ''_available_volume'') =
    (case dget bs b of Some s \<Rightarrow> Some (VInt (available_volume s)) | None \<Rightarrow> dget d (b @ ''_available_volume''))"
  using assms
proof (induction bs arbitrary: d)
  case (Cons ns bs)
  obtain n s where ns: "ns = (n, s)" by fastforce
  have b: "b = n \<Longrightarrow> dget bs b = None" using Cons.prems(1) by (simp add: ns dkeys_def dget_None_iff)
  have "n \<in> set KNOWN_BUCKETS" "distinct (dkeys bs)" "set (dkeys bs) \<subseteq> set KNOWN_BUCKETS"
    using Cons.prems by (simp_all add: ns dkeys_def)
  with Cons.IH [of "decorate_bucket ns d"] Cons.prems(3) b show ?case
    by (auto simp: ns dget_decorate_bucket split: option.split)
qed simp

definition known_only :: "BucketLedger \<Rightarrow> string \<Rightarrow> bool" where
  "known_only l code \<longleftrightarrow>
     distinct (dkeys (instrument_buckets l code)) \<and> set (dkeys (instrument_buckets l code)) \<subseteq> set KNOWN_BUCKETS"

definition ledger_view :: "BucketLedger \<times> string \<times> pydict \<Rightarrow> bool" where
  "ledger_view lv \<longleftrightarrow> (case lv of (l, code, pos) \<Rightarrow>
     code \<noteq> [] \<and> known_only l code \<and> (\<exists>l0 pos0. decorate_position l0 code pos0 = Inr (l, pos)))"

definition ledger_stock :: "BucketLedger \<times> string \<times> pydict \<Rightarrow> string \<Rightarrow> int" where
  "ledger_stock lv b = (case lv of (l, code, pos) \<Rightarrow> available_volume (the_bucket l code (VStr b)))"

definition substitution_request :: "string \<Rightarrow> pyfloat \<Rightarrow> pydict \<Rightarrow> int \<Rightarrow> pydict \<Rightarrow> ReserveRequest" where
  "substitution_request code price meta volume plan =
     \<lparr>req_instrument_code = code, req_order_type = SELL, req_bucket = VStr ''swing'', req_volume = volume,
      req_price = price, req_metadata = meta, req_substitution_plan = plan\<rparr>"

definition ledger_reserves :: "BucketLedger \<times> string \<times> pydict \<Rightarrow> (string \<times> int) list \<Rightarrow> bool" where
  "ledger_reserves lv legs \<longleftrightarrow> (case lv of (l, code, pos) \<Rightarrow>
     \<forall>fresh now oid price meta volume. oid \<noteq> [] \<longrightarrow> 0 < volume \<longrightarrow>
       (\<exists>l'. reserve_order fresh now l oid
          (substitution_request code price meta volume (t1_plan volume legs)) = Inr (l', True)))"

lemma sell_bucket_known: "sell_bucket b \<Longrightarrow> b \<in> set KNOWN_BUCKETS \<and> normalize_bucket (VStr b) = b"
  by (auto simp: sell_bucket_def KNOWN_BUCKETS_def CORE_BUCKET_def SWING_BUCKET_def LOCKED_CORE_BUCKET_def
      normalize_bucket_def str_or_def)

lemma plan_legs_leg_dict:
  "list_all (\<lambda>(b, v). 0 < v) legs \<Longrightarrow> plan_legs (map leg_dict legs) = Inr legs"
  by (induction legs) (auto simp: leg_dict_def int_or_0_def)

lemma read_t1_plan:
  assumes "list_all (\<lambda>(b, v). 0 < v) legs"
  shows "\<exists>p. SubstitutionPlan_from_dict fresh (t1_plan n legs) oid = Inr (Some p)
    \<and> sell_from_buckets p = legs \<and> plan_enabled p"
  using plan_legs_leg_dict [OF assms]
  by (simp add: SubstitutionPlan_from_dict_def t1_plan_def SubstitutionStatus_of_def int_or_0_def
      to_dict_or_empty_def)

lemma reserve_substitution:
  assumes legs: "legs \<noteq> []" "\<And>b v. (b, v) \<in> set legs \<Longrightarrow>
      sell_bucket b \<and> 0 < v \<and> v \<le> available_volume (the_bucket l code (VStr b))"
    and p: "sell_from_buckets p = legs"
  shows "snd (reserve_substitution_legs (ensure_instrument l code) code p) \<noteq> []"
proof -
  have f: "filter (\<lambda>(b, v). 0 < v) legs = legs" using legs(2) by (auto simp: filter_id_conv)
  have m: "map (\<lambda>(b, v). (normalize_bucket (VStr b), v)) legs = legs"
    using legs(2) by (auto simp: sell_bucket_known intro!: map_idI)
  have "\<not> list_ex (\<lambda>(b, v). available_volume (the_bucket l code (VStr b)) < v) legs"
    using legs(2) by (fastforce simp: list_ex_iff)
  then show ?thesis using legs(1) by (simp add: reserve_substitution_legs_def p f m)
qed

interpretation ledger_inventory: sell_inventory ledger_view "\<lambda>lv. snd (snd lv)" ledger_stock ledger_reserves
proof
  fix lv b
  assume v: "ledger_view lv" and b: "sell_bucket b"
  obtain l code pos where lv: "lv = (l, code, pos)" by (cases lv)
  from v lv obtain l0 pos0 where code: "code \<noteq> []" and k: "known_only l code"
    and d: "decorate_position l0 code pos0 = Inr (l, pos)" by (auto simp: ledger_view_def)
  from d obtain l1 where l: "l = set_buckets l1 code (dmap bucket_normalize (instrument_buckets l1 code))"
    and pos: "\<And>k. k \<noteq> ''bucket_ledger'' \<Longrightarrow> dget pos k = dget (fold decorate_bucket (instrument_buckets l code) pos0) k"
    by (auto simp: decorate_position_def res_simps Let_def instrument_set_buckets)
      (simp add: instrument_buckets_def)
  have "dget (instrument_buckets l code) b = Some (the_bucket l code (VStr b))"
    using dget_instrument [of l code "VStr b"] sell_bucket_known [OF b] by simp
  then show "dget (snd (snd lv)) (b @ ''_available_volume'') = Some (VInt (ledger_stock lv b))"
    using k b sell_bucket_known [OF b] dget_decorate [of "instrument_buckets l code" b pos0]
    unfolding lv by (auto simp: ledger_stock_def known_only_def pos sell_bucket_def)
next
  fix lv legs
  assume v: "ledger_view lv" and legs: "legs \<noteq> []"
    "\<And>b v. (b, v) \<in> set legs \<Longrightarrow> sell_bucket b \<and> 0 < v \<and> v \<le> ledger_stock lv b"
  obtain l code pos where lv: "lv = (l, code, pos)" by (cases lv)
  have code: "code \<noteq> []" using v lv by (simp add: ledger_view_def)
  show "ledger_reserves lv legs"
    unfolding ledger_reserves_def lv prod.case
  proof (intro allI impI)
    fix fresh now oid :: string and price meta and volume :: int
    assume "oid \<noteq> []" "0 < volume"
    moreover obtain p where p: "SubstitutionPlan_from_dict fresh (t1_plan volume legs) oid = Inr (Some p)"
      "sell_from_buckets p = legs" "plan_enabled p"
      using read_t1_plan [of legs fresh volume oid] legs(2) by (auto simp: list_all_iff)
    moreover have "snd (reserve_substitution_legs (ensure_instrument l code) code p) \<noteq> []"
      using reserve_substitution [of legs l code p] legs p(2) by (simp add: ledger_stock_def lv)
    ultimately show "\<exists>l'. reserve_order fresh now l oid
        (substitution_request code price meta volume (t1_plan volume legs)) = Inr (l', True)"
      using code by (auto simp: reserve_order_def substitution_request_def reserve_legs_def split: prod.splits)
  qed
qed

section \<open>Samples\<close>

definition plain_checker :: TradingRiskChecker where
  "plain_checker =
     \<lparr>trading_time_service = None, checker_commission_rate = fzero, checker_min_commission = fzero,
      strict_market_data = False, strict_limit_data = False, enforce_trading_hours = False,
      checker_market = ''SH''\<rparr>"

definition swing_sell :: OrderRequest where
  "swing_sell =
     \<lparr>request_instrument_code = ''600000.SH'', request_order_type = SELL, request_price_type = MARKET,
      request_volume = 100, request_price = Fin 1, request_metadata = [(''bucket'', VStr ''swing'')]\<rparr>"

definition core_position :: pydict where
  "core_position = [(''core_available_volume'', VInt 300), (''long_volume'', VInt 300)]"

text \<open>An order with a substitution plan came from the T+1 check.\<close>

lemma plan_from_t1:
  assumes e: "evaluate_order k r account pos market t caps = Inr d" and p: "decision_plan d = Some plan"
  shows "check_t1_substitution r pos caps = Inr (Some d)" "0 < request_volume r" "request_order_type r = SELL"
proof -
  from e have "check_t1_substitution r pos caps = Inr (Some d) \<and> 0 < request_volume r \<and> request_order_type r = SELL"
  proof (cases rule: order_decision_cases)
    case (decided checks)
    have v: "0 < request_volume r" by (rule checks_volume [OF decided(2,3)])
    from decided(5) p have s: "request_order_type r = SELL"
      using decide_shape [OF decided(5)] by (cases "request_order_type r")
        (auto simp: refused_def reduced_def decide_side_def dest: reject_refused)
    with decided(5) p v show ?thesis
      by (auto simp: decide_side_def check_sell_capacity_decision_def res_simps
          split: if_splits option.splits dest!: allow_granted reject_refused simp: refused_def)
  qed (use p in \<open>simp add: refused_def\<close>)
  then show "check_t1_substitution r pos caps = Inr (Some d)" "0 < request_volume r" "request_order_type r = SELL"
    by simp_all
qed

lemma buy_check_lots:
  assumes "market_checks k r pos market caps = Inr checks" "list_all check_ok checks" "request_order_type r = BUY"
  shows "request_volume r mod LOT_SIZE = 0"
  using assms by (auto simp: market_checks_def check_volume_def side_check_def Let_def res_simps split: if_splits)

lemma buying_power_cash:
  assumes "check_buying_power_decision k r account = Inr d" "allowed d"
  shows "\<exists>cash amount. available_cash_of account = Inr cash
    \<and> order_amount (request_price r) (request_volume r) = Inr amount
    \<and> \<not> flt cash (fadd amount (estimate_commission amount (checker_commission_rate k) (checker_min_commission k)))"
  using assms
  by (auto simp: check_buying_power_decision_def res_simps Let_def split: if_splits dest: reject_refused simp: refused_def)

lemma substitution_legs_done: "n \<le> 0 \<Longrightarrow> substitution_legs n sources = (n, [])"
  by (induction n sources rule: substitution_legs.induct) auto

lemma locked_capacity:
  assumes "bucket_sell_capacity pos caps = Inr c" "0 < locked_core_available c"
  shows "truthy (vget_or caps ''allow_locked_core_substitution'' (VBool False))"
  using assms by (auto simp: bucket_sell_capacity_def res_simps Let_def split: if_splits)

lemma swing_first:
  assumes "substitution_legs n (sell_sources c) = (left, legs)" "0 < n"
    "list_ex (\<lambda>(name, _). name \<noteq> ''swing'') legs"
  shows "swing_available c < n"
proof (rule ccontr)
  assume "\<not> swing_available c < n"
  then have "min n (swing_available c) = n" by simp
  with assms \<open>\<not> swing_available c < n\<close> show False
    by (auto simp: sell_sources_def substitution_legs_done)
qed

section \<open>Properties\<close>

text \<open>
  C23: Every decision the order checker returns has one of three shapes: refused (delayed, rejected or
  stopped by the kill switch) with volume and amount zero; granted with the volume that was asked; or
  a buy capped to a positive number of whole lots. An allowed order is a buy or a sell of a positive volume,
  a substitution plan comes only with a granted sell, and the check result made from the decision
  passes exactly when the order is allowed.
\<close>

theorem risk_decision_well_formed:
  assumes e: "evaluate_order k r account pos market t caps = Inr d"
  shows "(refused r d \<or> granted r d \<or> reduced r d \<and> request_order_type r = BUY)
    \<and> (allowed d \<longrightarrow> 0 < final_volume d \<and> request_order_type r \<in> {BUY, SELL})
    \<and> (decision_plan d \<noteq> None \<longrightarrow> request_order_type r = SELL \<and> granted r d)
    \<and> check_ok (to_check_result uid d) = allowed d"
proof -
  have ok: "check_ok (to_check_result uid d) = allowed d" by (simp add: to_check_result_def)
  have plan: "decision_plan d \<noteq> None \<longrightarrow> request_order_type r = SELL" using plan_from_t1(3) [OF e] by auto
  from e show ?thesis
  proof (cases rule: order_decision_cases)
    case (decided checks)
    have v: "0 < request_volume r" by (rule checks_volume [OF decided(2,3)])
    have side: "request_order_type r \<in> {BUY, SELL} \<or> refused r d"
      using decided(5) by (cases "request_order_type r") (auto simp: decide_side_def dest: reject_refused)
    with decide_shape [OF decided(5)] v plan ok show ?thesis
      by (auto simp: refused_def granted_def reduced_def)
  qed (use ok in \<open>auto simp: refused_def\<close>)
qed



text \<open>
  The context never loosens what is configured: each upper limit stays or falls, the cash
  buffer stays or rises, a permission to buy is never granted where the configuration denies it, and the
  rules for selling are those of the configuration.
\<close>

lemma context_caps_only_tighten:
  assumes i: "build_input context orders report runtime params instrument = Inr i"
    and c0: "configured_caps i = Inr c0"
    and caps: "build_caps portfolio context orders report runtime params instrument = Inr c"
  shows "tightens c c0"
proof -
  obtain c1 c2 total codes tags m n l q where g: "apply_kill_switch_guards i c1 = Inr c2"
    and c1: "c1 = limit_caps m n l q total c0"
    and f: "finish_caps i codes tags m n l q (restrict_caps c2) = Inr c"
    using build_stages [OF caps i] c0 by (metis sum.inject(2))
  have "tightens c (restrict_caps c2)" using finish_frame [OF f] by (auto simp: tightens_def)
  then show ?thesis
    by (rule tightens_trans [OF tightens_trans [OF tightens_trans [OF _ tightens_restrict] tightens_guards [OF g]]])
      (simp add: c1 tightens_limit)
qed

text \<open>
  A substitution plan covers exactly the volume of the sell order. Its legs draw on the buckets in
  the order swing, core, locked core, each at most once and within its capacity; there is one only when the
  swing bucket alone does not suffice, when the order allows substitution, and it draws on the locked core only when the
  caps allow it. The plan always names the core bucket for the reattribution.
\<close>

lemma substitution_covers_order:
  assumes e: "evaluate_order k r account pos market t caps = Inr d" and p: "decision_plan d = Some plan"
  shows "\<exists>legs c. plan = t1_plan (request_volume r) legs \<and> bucket_sell_capacity pos caps = Inr c
    \<and> sum_list (map snd legs) = request_volume r
    \<and> subseq (map fst legs) [''swing'', ''core'', ''locked_core'']
    \<and> list_all (\<lambda>leg. 0 < snd leg \<and> (\<exists>a. (fst leg, a) \<in> set (sell_sources c) \<and> snd leg \<le> a)) legs
    \<and> (swing_available c < request_volume r)
    \<and> (''locked_core'' \<in> fst ` set legs \<longrightarrow>
         truthy (vget_or caps ''allow_locked_core_substitution'' (VBool False)))
    \<and> truthy (vget_or (request_metadata r) ''allow_t1_substitution'' (VBool True))"
  using plan_from_t1(1) [OF e p]
proof (cases rule: t1_cases)
  case (substituted c left legs)
  have v: "0 < request_volume r" by (rule plan_from_t1(2) [OF e p])
  note spec = substitution_legs_spec [OF substituted(6) less_imp_le [OF v]]
  have sum: "sum_list (map snd legs) = request_volume r" using spec(1,2) substituted(7) by simp
  have t: "truthy (vget_or (request_metadata r) ''allow_t1_substitution'' (VBool True))"
  proof (rule ccontr)
    assume "\<not> ?thesis"
    then have c: "permitted_capacity r c = c\<lparr>core_available := 0, locked_core_available := 0,
        total_substitutable := swing_available c\<rparr>" by (simp add: permitted_capacity_def)
    from substituted(8) obtain b v where leg: "(b, v) \<in> set legs" "b \<noteq> ''swing''" by (auto simp: list_ex_iff)
    from spec(4) [OF leg(1)] leg(2) show False by (auto simp: c sell_sources_def)
  qed
  then have c: "permitted_capacity r c = c" by (simp add: permitted_capacity_def)
  have swing: "swing_available c < request_volume r"
    by (rule swing_first [OF substituted(6) [unfolded c] v substituted(8)])
  have "''locked_core'' \<in> fst ` set legs \<Longrightarrow> 0 < locked_core_available c"
    using spec(4) [of "''locked_core''"] by (force simp: c sell_sources_def)
  with locked_capacity [OF substituted(5)] spec(3,4) p substituted(2,5) sum t swing show ?thesis
    by (intro exI [of _ legs] exI [of _ c]) (auto simp: c list_all_iff sell_sources_def)
qed (use p in \<open>simp_all add: refused_def\<close>)


definition buy_limit :: pydict where
  "buy_limit = [(''max_new_buy_amount_today'', VFloat (Fin 150))]"

definition cash_account :: pydict where
  "cash_account = [(''cash'', VFloat (Fin 1000))]"

definition capped_buy :: OrderRiskDecision where
  "capped_buy = \<lparr>action = CAP, allowed = True, original_volume = 200, final_volume = 100,
     original_amount = Fin 200, final_amount = Fin 100, reason_code = ''RISK_CONTEXT_CAP'',
     decision_tags = [], decision_metadata = [(''cap_source'', VStr ''MAX_NEW_BUY_AMOUNT_TODAY'')],
     decision_plan = None\<rparr>"

lemma sample_amounts [simp]:
  "order_amount (Fin 1) 200 = Inr (Fin 200)" "order_amount (Fin 1) 100 = Inr (Fin 100)"
  by (simp_all add: order_amount_exact)

lemma sample_quotient: "ffloordiv (Fin 150) (Fin 1) = Fin 150"
  using ffloordiv_exact [of 150 1] by simp

lemma sample_cap_amounts:
  "cap_amounts sample_buy cash_account [] (Some sample_market) buy_limit = Inr [(''MAX_NEW_BUY_AMOUNT_TODAY'', Fin 150)]"
  by (simp add: cap_amounts_def cash_account_def buy_limit_def available_cash_of_def total_asset_or_cash_def
      market_optional_float_def v_or_def)

lemma sample_capped:
  "evaluate_order plain_checker sample_buy cash_account [] (Some sample_market) None buy_limit = Inr capped_buy"
proof -
  have c: "check_context_caps sample_buy buy_limit = Inr None"
    by (simp add: check_context_caps_def check_order_amount_def check_buy_caps_def buy_limit_def
        market_optional_float_def sample_buy_def request_bucket_def Let_def)
  have m: "\<exists>cs. market_checks plain_checker sample_buy [] (Some sample_market) buy_limit = Inr cs \<and> list_all check_ok cs"
    by (simp add: market_checks_def sellable_volume_def sample_buy_def sample_market_def check_price_def
        aligned_one plain_checker_def min_volume_of_def max_volume_of_def order_volume_limit_def
        optional_positive_int_def optional_int_def check_trading_status_def check_limit_block_def check_volume_def
        side_check_def LOT_SIZE_def v_or_def)
  have "check_buying_power_decision plain_checker sample_buy cash_account = allow sample_buy ''OK'' [] [] None"
    by (simp add: check_buying_power_decision_def sample_buy_def cash_account_def available_cash_of_def
        plain_checker_def estimate_commission_def v_or_def pmax_def)
  then obtain buy where b: "check_buying_power_decision plain_checker sample_buy cash_account = Inr buy" "allowed buy"
    by (simp add: allow_def) (simp add: sample_buy_def)
  have w: "cap_buy_by_context sample_buy cash_account [] (Some sample_market) buy_limit = Inr (Some capped_buy)"
    by (simp add: cap_buy_by_context_def sample_cap_amounts min_cap_def)
      (simp add: sample_buy_def sample_market_def sample_quotient min_volume_of_def
        order_volume_limit_def optional_positive_int_def optional_int_def caps_tags_def buy_limit_def
        normalize_buy_volume_def LOT_SIZE_def trunc_rat_def cap_def capped_buy_def public_cap_reason_code_def
        upper_def upper_char_def del: ffloordiv.simps)
  have d: "decide_side plain_checker sample_buy cash_account [] (Some sample_market) buy_limit = Inr capped_buy"
  proof -
    have "request_order_type sample_buy = BUY" by (simp add: sample_buy_def)
    with w b show ?thesis by (simp add: decide_side_def)
  qed
  from m obtain cs where "market_checks plain_checker sample_buy [] (Some sample_market) buy_limit = Inr cs"
    "find (\<lambda>c. \<not> check_ok c) cs = None" by (auto simp: find_None_iff list_all_iff)
  with c d show ?thesis by (simp add: evaluate_order_def outside_hours_def plain_checker_def)
qed

theorem risk_decision_well_formed_witness:
  "(refused sample_buy capped_buy \<or> granted sample_buy capped_buy \<or>
      reduced sample_buy capped_buy \<and> request_order_type sample_buy = BUY)
    \<and> 0 < final_volume capped_buy"
  using risk_decision_well_formed [OF sample_capped] by (simp add: capped_buy_def)


definition halted_input :: caps_input where
  "halted_input = \<lparr>in_params = [], in_explicit = [], in_risk_config = [],
     in_context = [(''suspended'', VBool True)], in_order_state = [], in_broker_report = [],
     in_runtime_state = [], in_instrument = VNone\<rparr>"

lemma halted_build: "build_input [(''suspended'', VBool True)] [] [] [] [] VNone = Inr halted_input"
  by (simp add: build_input_def to_dict_or_empty_def halted_input_def)

lemma halted_caps:
  "\<exists>c0 c. configured_caps halted_input = Inr c0 \<and>
     build_caps [] [(''suspended'', VBool True)] [] [] [] [] VNone = Inr c"
proof -
  have "\<not> isl (configured_caps halted_input)"
    "\<not> isl (build_caps [] [(''suspended'', VBool True)] [] [] [] [] VNone)"
    by code_simp+
  then show ?thesis by (metis isl_def sum.exhaust)
qed


definition broker_position :: pydict where
  "broker_position = [(''long_volume'', VInt 300), (''available_volume'', VInt 300)]"

definition core_capacity :: sell_capacity where
  "core_capacity = \<lparr>swing_available = 0, core_available = 300, locked_core_available = 0, total_substitutable = 300\<rparr>"

lemma swing_sell_plan:
  assumes "sellable_volume pos = Inr a" "held_volume pos = Inr 300"
    "bucket_sell_capacity pos [] = Inr core_capacity"
  shows "\<exists>d. evaluate_order plain_checker swing_sell [] pos None None [] = Inr d
    \<and> decision_plan d = Some (t1_plan 100 [(''core'', 100)])"
proof -
  have u: "uses_bucket_t1_model swing_sell pos" by (simp add: uses_bucket_t1_model_def swing_sell_def)
  have p: "permitted_capacity swing_sell core_capacity = core_capacity"
    by (simp add: permitted_capacity_def swing_sell_def)
  have t: "total_substitutable core_capacity = 300" by (simp add: core_capacity_def)
  have b: "request_bucket swing_sell = ''swing''" by (simp add: request_bucket_def swing_sell_def)
  have s: "request_order_type swing_sell = SELL" "request_volume swing_sell = 100" "request_price swing_sell = Fin 1"
    "request_price_type swing_sell = MARKET"
    by (simp_all add: swing_sell_def)
  have "check_context_caps swing_sell [] = Inr None"
    by (simp add: check_context_caps_def check_order_amount_def market_optional_float_def s)
  moreover have "\<exists>cs. market_checks plain_checker swing_sell pos None [] = Inr cs \<and> find (\<lambda>c. \<not> check_ok c) cs = None"
    by (simp add: market_checks_def assms s available_volume_for_order_check_def u p check_price_def
        min_volume_of_def max_volume_of_def order_volume_limit_def check_trading_status_def plain_checker_def
        check_limit_block_def check_volume_def side_check_def LOT_SIZE_def Let_def t)
  moreover have "substitution_legs 100 (sell_sources core_capacity) = (0, [(''core'', 100)])"
    by (simp add: sell_sources_def core_capacity_def)
  then have "\<exists>d. check_t1_substitution swing_sell pos [] = Inr (Some d)
      \<and> decision_plan d = Some (t1_plan 100 [(''core'', 100)])"
    by (simp add: check_t1_substitution_def u p b s assms caps_tags_def allow_def Let_def)
  ultimately show ?thesis
    by (auto simp: evaluate_order_def outside_hours_def decide_side_def check_sell_capacity_decision_def s u
        plain_checker_def)
qed

lemma sample_ledger_view:
  "case decorate_position (new_ledger ''run'') ''600000.SH'' broker_position of
     Inr (l, pos) \<Rightarrow> known_only l ''600000.SH'' \<and> 0 < available_volume (the_bucket l ''600000.SH'' (VStr ''core''))
       \<and> sellable_volume pos = Inr 300 \<and> held_volume pos = Inr 300
       \<and> bucket_sell_capacity pos [] = Inr core_capacity
   | Inl _ \<Rightarrow> False"
  by code_simp


end
