(* ===== verification/Position_Safety.thy ===== *)
theory Position_Safety
  imports Position_Profile Risk_Safety
begin

text \<open>
  What the position profiles guarantee: their limits are shares, and they respect the caps of the
  risk layer, whose \<open>RiskContextCaps_to_dict\<close> is what \<open>build_profile\<close> reads.
\<close>

section \<open>Minimum, maximum and shares\<close>

lemma pmin_not_above: "\<not> flt m (pmin x m)" "\<not> flt m x \<Longrightarrow> \<not> flt m (pmin x y)"
  using flt_trans [of m y x] by (auto simp: pmin_def)

lemma pmin_cases: "pmin x y = x \<or> pmin x y = y"
  by (simp add: pmin_def)

lemma pmin_not_NaN: "x \<noteq> NaN \<Longrightarrow> pmin x y \<noteq> NaN \<and> fle (pmin x y) x"
  by (auto simp: pmin_def dest: flt_not_NaN flt_imp_fle intro: fle_refl)

abbreviation share :: "pyfloat \<Rightarrow> pyfloat" where
  "share x \<equiv> pmax fzero (pmin x (Fin 1))"

lemma share_bounds: "fle fzero (share x)" "fle (share x) (Fin 1)"
proof -
  show "fle fzero (share x)" by (rule pmax_fzero_nonneg)
  show "fle (share x) (Fin 1)" by (cases x) (auto simp: pmin_def pmax_def)
qed

lemma pmax_fzero_le: "fle fzero m \<Longrightarrow> \<not> flt m x \<Longrightarrow> fle (pmax fzero x) m"
  by (cases x; cases m) (auto simp: pmax_def)

lemma share_le: "fle fzero m \<Longrightarrow> \<not> flt m x \<Longrightarrow> fle (share x) m"
  by (intro pmax_fzero_le pmin_not_above(2))

lemma share_ge: "fle b (Fin 1) \<Longrightarrow> fle b x \<Longrightarrow> fle b (share x)"
  by (cases b; cases x) (auto simp: pmin_def pmax_def)

lemma share_id: "fle x (Fin 1) \<Longrightarrow> share x = pmax fzero x"
  by (cases x) (auto simp: pmin_def)

section \<open>Profiles\<close>

lemma override_keeps:
  assumes "override_floats ov ks p = Inr q" "\<And>k f x r. (k, f) \<in> set ks \<Longrightarrow> dmem ov k \<Longrightarrow> h (f x r) = h r"
  shows "h q = h p"
  using assms
proof (induction ov ks p rule: override_floats.induct)
  case (2 ov k f ks p)
  show ?case
  proof (cases "dmem ov k")
    case True
    with 2(3) obtain v where v: "market_optional_float (vget ov k) = Inr v"
      "override_floats ov ks (case v of None \<Rightarrow> p | Some x \<Rightarrow> f x p) = Inr q" by (auto simp: res_simps)
    have "h q = h (case v of None \<Rightarrow> p | Some x \<Rightarrow> f x p)"
      using 2(1) [OF True v] 2(4) by (meson list.set_intros(2))
    then show ?thesis using 2(4) [of k f] True by (simp split: option.splits)
  next
    case False
    with 2(3) have "override_floats ov ks p = Inr q" by simp
    then show ?thesis using 2(2) [OF False] 2(4) by (meson list.set_intros(2))
  qed
qed simp

lemma override_bool_keeps:
  "(\<And>b q. h (f b q) = h q) \<Longrightarrow> h (override_bool ov k f p) = h p"
  by (simp add: override_bool_def split: option.split)

text \<open>What the overrides leave alone.\<close>

lemma overrides_keep:
  assumes "apply_parameter_overrides p params = Inr q"
    and "to_dict_or_empty (vget params ''position_profile_overrides'') = Inr ov"
  shows "current_position_pct q = current_position_pct p" "reason_tags q = reason_tags p"
    "\<not> dmem ov ''max_position_pct'' \<Longrightarrow> max_pct q = max_pct p"
    "\<not> dmem ov ''target_cash_buffer_pct'' \<Longrightarrow> target_cash_buffer_pct q = target_cash_buffer_pct p"
proof -
  from assms obtain q1 where f: "override_floats ov
       [(''min_position_pct'', \<lambda>x q. q\<lparr>min_pct := x\<rparr>), (''max_position_pct'', \<lambda>x q. q\<lparr>max_pct := x\<rparr>),
        (''target_cash_buffer_pct'', \<lambda>x q. q\<lparr>target_cash_buffer_pct := x\<rparr>),
        (''core_share_min'', \<lambda>x q. q\<lparr>core_share_min := x\<rparr>),
        (''core_share_max'', \<lambda>x q. q\<lparr>core_share_max := x\<rparr>),
        (''swing_max_pct'', \<lambda>x q. q\<lparr>swing_max_pct := x\<rparr>),
        (''balance_beta_multiplier'', \<lambda>x q. q\<lparr>balance_beta_multiplier := x\<rparr>),
        (''inventory_gamma_multiplier'', \<lambda>x q. q\<lparr>inventory_gamma_multiplier := x\<rparr>),
        (''grid_step_multiplier'', \<lambda>x q. q\<lparr>grid_step_multiplier := x\<rparr>)] p = Inr q1"
    and q: "q = override_bool ov ''allow_swing_sell'' (\<lambda>b q. q\<lparr>allow_swing_sell := b\<rparr>)
             (override_bool ov ''allow_core_sell'' (\<lambda>b q. q\<lparr>allow_core_sell := b\<rparr>)
               (override_bool ov ''allow_swing_buy'' (\<lambda>b q. q\<lparr>allow_swing_buy := b\<rparr>)
                 (override_bool ov ''allow_core_buy'' (\<lambda>b q. q\<lparr>allow_core_buy := b\<rparr>) q1)))"
    by (simp add: apply_parameter_overrides_def res_simps del: override_floats.simps) blast
  have b: "current_position_pct q = current_position_pct q1" "reason_tags q = reason_tags q1"
    "max_pct q = max_pct q1" "target_cash_buffer_pct q = target_cash_buffer_pct q1"
    unfolding q by (simp_all add: override_bool_keeps)
  show "current_position_pct q = current_position_pct p" "reason_tags q = reason_tags p"
    unfolding b by (rule override_keeps [OF f], auto)+
  show "\<not> dmem ov ''max_position_pct'' \<Longrightarrow> max_pct q = max_pct p"
    "\<not> dmem ov ''target_cash_buffer_pct'' \<Longrightarrow> target_cash_buffer_pct q = target_cash_buffer_pct p"
    unfolding b by (rule override_keeps [OF f], auto)+
qed

lemma template_limits:
  "fle (max_pct (PROFILE_TEMPLATES n)) (Fin 1)" "target_cash_buffer_pct (PROFILE_TEMPLATES n) \<noteq> NaN"
proof -
  have "fle (fround (of_int k / 100)) (Fin 1)" if "k \<le> 100" for k
    using that fround_mono [of "of_int k / 100" 1] by simp
  then show "fle (max_pct (PROFILE_TEMPLATES n)) (Fin 1)"
    by (cases n) (simp_all add: template_of_def Let_def del: of_int_numeral)
  show "target_cash_buffer_pct (PROFILE_TEMPLATES n) \<noteq> NaN"
    by (cases n) (simp_all add: template_of_def Let_def)
qed

lemma current_pct_nonneg:
  assumes "find_current_position_pct portfolio code = Inr x"
  shows "fle fzero x"
  using assms by (auto simp: find_current_position_pct_def res_simps split: option.splits if_splits)

text \<open>The stages of \<open>build_profile\<close>: the template, the overrides, the caps.\<close>

lemma profile_stages:
  assumes "build_profile context caps portfolio runtime params code = Inr p"
    and "to_dict_or_empty (vget params ''position_profile_overrides'') = Inr ov"
  obtains name p1 tags cap_max buffer where
    "market_optional_float (vget caps ''max_position_pct'') = Inr cap_max"
    "market_optional_float (vget caps ''min_cash_buffer_pct'') = Inr buffer"
    "p = build_bucket_caps (clamp_profile (cap_profile caps (p1\<lparr>reason_tags := tags,
       max_pct := (case cap_max of None \<Rightarrow> max_pct p1 | Some m \<Rightarrow> pmin (max_pct p1) m),
       target_cash_buffer_pct := (case buffer of
         None \<Rightarrow> target_cash_buffer_pct p1 | Some b \<Rightarrow> pmax (target_cash_buffer_pct p1) b)\<rparr>)))"
    "fle fzero (current_position_pct p1)"
    "\<not> dmem ov ''max_position_pct'' \<Longrightarrow> max_pct p1 = max_pct (PROFILE_TEMPLATES name)"
    "\<not> dmem ov ''target_cash_buffer_pct'' \<Longrightarrow>
       target_cash_buffer_pct p1 = target_cash_buffer_pct (PROFILE_TEMPLATES name)"
proof -
  from assms(1) obtain name tags0 current p1 p2 where
    c: "find_current_position_pct portfolio code = Inr current"
    and o: "apply_parameter_overrides
       ((from_template name (PROFILE_TEMPLATES name) tags0)\<lparr>current_position_pct := current\<rparr>) params = Inr p1"
    and r: "apply_risk_caps p1 caps = Inr p2" and p: "p = build_bucket_caps p2"
    by (auto simp: build_profile_def res_simps)
  from r obtain tags cap_max buffer where
    m: "market_optional_float (vget caps ''max_position_pct'') = Inr cap_max"
    "market_optional_float (vget caps ''min_cash_buffer_pct'') = Inr buffer"
    and p2: "p2 = clamp_profile (cap_profile caps (p1\<lparr>reason_tags := tags,
       max_pct := (case cap_max of None \<Rightarrow> max_pct p1 | Some m \<Rightarrow> pmin (max_pct p1) m),
       target_cash_buffer_pct := (case buffer of
         None \<Rightarrow> target_cash_buffer_pct p1 | Some b \<Rightarrow> pmax (target_cash_buffer_pct p1) b)\<rparr>))"
    by (auto simp: apply_risk_caps_def res_simps Let_def)
  note k = overrides_keep [OF o assms(2)]
  show thesis
    by (rule that [OF m p [unfolded p2]])
      (use k current_pct_nonneg [OF c] in \<open>simp_all add: from_template_def profile_fields.defs\<close>)
qed

lemma bucket_caps_frame [simp]:
  "min_pct (build_bucket_caps p) = min_pct p" "max_pct (build_bucket_caps p) = max_pct p"
  "target_cash_buffer_pct (build_bucket_caps p) = target_cash_buffer_pct p"
  "core_share_min (build_bucket_caps p) = core_share_min p" "core_share_max (build_bucket_caps p) = core_share_max p"
  "swing_max_pct (build_bucket_caps p) = swing_max_pct p" "profile_name (build_bucket_caps p) = profile_name p"
  "current_position_pct (build_bucket_caps p) = current_position_pct p"
  by (simp_all add: build_bucket_caps_def)

lemma clamp_fields:
  "min_pct (clamp_profile p) = pmax fzero (pmin (min_pct p) (max_pct p))"
  "max_pct (clamp_profile p) = share (max_pct p)"
  "target_cash_buffer_pct (clamp_profile p) = share (target_cash_buffer_pct p)"
  "core_share_min (clamp_profile p) = share (core_share_min p)"
  "core_share_max (clamp_profile p) = pmax (share (core_share_min p)) (pmin (core_share_max p) (Fin 1))"
  "swing_max_pct (clamp_profile p) = pmax fzero (pmin (swing_max_pct p) (share (max_pct p)))"
  "allow_core_buy (clamp_profile p) = allow_core_buy p" "allow_swing_buy (clamp_profile p) = allow_swing_buy p"
  "allow_core_sell (clamp_profile p) = allow_core_sell p" "allow_swing_sell (clamp_profile p) = allow_swing_sell p"
  "profile_name (clamp_profile p) = profile_name p" "current_position_pct (clamp_profile p) = current_position_pct p"
  by (simp_all add: clamp_profile_def Let_def)

lemma pmax_le: "fle a m \<Longrightarrow> \<not> flt m b \<Longrightarrow> fle (pmax a b) m"
  using not_flt_iff [of m b] fle_not_NaN [of a m] by (auto simp: pmax_def dest: flt_not_NaN)

lemma core_share_order:
  "fle (share x) (pmax (share x) (pmin y (Fin 1)))" "fle (pmax (share x) (pmin y (Fin 1))) (Fin 1)"
proof -
  have "share x \<noteq> NaN" using share_bounds [of x] fle_not_NaN by blast
  then show "fle (share x) (pmax (share x) (pmin y (Fin 1)))" by (rule pmax_ge_left)
  show "fle (pmax (share x) (pmin y (Fin 1))) (Fin 1)"
    by (rule pmax_le [OF share_bounds(2) pmin_not_above(1)])
qed

lemma cap_profile_max_eq:
  "max_pct (cap_profile caps p) =
     (let x = (if truthy (vget caps ''only_reduce_position'') then pmin (max_pct p) (current_position_pct p)
               else max_pct p)
      in if truthy (vget caps ''kill_switch_active'') then pmin x (max_pct (PROFILE_TEMPLATES DEFENSIVE)) else x)"
  by (simp add: cap_profile_def Let_def forbid_buys_def reduce_only_def make_defensive_def
      del: PROFILE_TEMPLATES.simps)

lemma cap_profile_max:
  "\<not> flt m (max_pct p) \<Longrightarrow> \<not> flt m (max_pct (cap_profile caps p))"
  "max_pct p \<noteq> NaN \<Longrightarrow> max_pct (cap_profile caps p) \<noteq> NaN"
  by (simp_all add: cap_profile_max_eq Let_def pmin_not_above(2) pmin_not_NaN del: PROFILE_TEMPLATES.simps)

lemma cap_profile_current [simp]: "current_position_pct (cap_profile caps p) = current_position_pct p"
  by (simp add: cap_profile_def Let_def forbid_buys_def reduce_only_def make_defensive_def)

lemma cap_profile_flags:
  "vget caps ''allow_buy'' = VBool False \<or> truthy (vget caps ''only_reduce_position'')
     \<or> truthy (vget caps ''kill_switch_active'') \<Longrightarrow>
     \<not> allow_core_buy (cap_profile caps p) \<and> \<not> allow_swing_buy (cap_profile caps p)"
  "vget caps ''allow_sell'' = VBool False \<Longrightarrow>
     \<not> allow_core_sell (cap_profile caps p) \<and> \<not> allow_swing_sell (cap_profile caps p)"
  by (auto simp: cap_profile_def Let_def forbid_buys_def reduce_only_def make_defensive_def)

lemma cap_profile_defensive:
  assumes "truthy (vget caps ''kill_switch_active'')"
  shows "profile_name (cap_profile caps p) = ''DEFENSIVE''" "swing_max_pct (cap_profile caps p) = fzero"
  using assms by (simp_all add: cap_profile_def Let_def make_defensive_def template_of_def)

lemma cap_profile_buffer:
  assumes "fle b (target_cash_buffer_pct p)"
  shows "fle b (target_cash_buffer_pct (cap_profile caps p))"
proof -
  have "fle b (pmax (target_cash_buffer_pct p) x)" for x
    using assms fle_trans pmax_ge_left fle_not_NaN by blast
  then show ?thesis using assms
    by (simp add: cap_profile_def Let_def forbid_buys_def reduce_only_def make_defensive_def
        del: PROFILE_TEMPLATES.simps)
qed

section \<open>Properties\<close>

text \<open>
  The limits of every position profile that is built are shares of the account: the upper limit, the cash buffer and the core
  shares lie between 0 and 1, the core share's lower limit is not above its upper one, and the swing limit is not above the position's
  upper limit. The lower limit is not above the upper one when the parameters do not override the upper limit.
\<close>

lemma position_profile_bounds:
  assumes b: "build_profile context caps portfolio runtime params code = Inr p"
    and ov: "to_dict_or_empty (vget params ''position_profile_overrides'') = Inr ov"
  shows "fle fzero (min_pct p) \<and> fle fzero (max_pct p) \<and> fle (max_pct p) (Fin 1)
    \<and> fle fzero (target_cash_buffer_pct p) \<and> fle (target_cash_buffer_pct p) (Fin 1)
    \<and> fle fzero (core_share_min p) \<and> fle (core_share_min p) (core_share_max p) \<and> fle (core_share_max p) (Fin 1)
    \<and> fle fzero (swing_max_pct p) \<and> fle (swing_max_pct p) (max_pct p)
    \<and> (\<not> dmem ov ''max_position_pct'' \<longrightarrow> fle (min_pct p) (max_pct p))"
proof -
  obtain name p1 tags cap_max buffer where
    p: "p = build_bucket_caps (clamp_profile (cap_profile caps (p1\<lparr>reason_tags := tags,
       max_pct := (case cap_max of None \<Rightarrow> max_pct p1 | Some m \<Rightarrow> pmin (max_pct p1) m),
       target_cash_buffer_pct := (case buffer of
         None \<Rightarrow> target_cash_buffer_pct p1 | Some b \<Rightarrow> pmax (target_cash_buffer_pct p1) b)\<rparr>)))"
    (is "_ = build_bucket_caps (clamp_profile (cap_profile caps ?q))")
    and t: "\<not> dmem ov ''max_position_pct'' \<Longrightarrow> max_pct p1 = max_pct (PROFILE_TEMPLATES name)"
    using profile_stages [OF b ov] by metis
  let ?m = "max_pct (cap_profile caps ?q)"
  have low: "fle (min_pct p) (max_pct p)" if "\<not> dmem ov ''max_position_pct''"
  proof -
    have m1: "fle (max_pct p1) (Fin 1)" using t [OF that] template_limits(1) [of name] by simp
    then have q: "\<not> flt (Fin 1) (max_pct ?q)" "max_pct ?q \<noteq> NaN"
      using not_flt_iff [of "Fin 1" "max_pct p1"] fle_not_NaN [OF m1]
      by (auto simp: pmin_not_NaN intro!: pmin_not_above(2) split: option.split)
    have "\<not> flt (Fin 1) ?m" by (rule cap_profile_max(1) [OF q(1)])
    moreover have "?m \<noteq> NaN" by (rule cap_profile_max(2) [OF q(2)])
    ultimately have "share ?m = pmax fzero ?m" using not_flt_iff [of "Fin 1" ?m] by (intro share_id) simp
    moreover have "\<not> flt (pmax fzero ?m) (pmin x ?m)" for x
    proof
      assume "flt (pmax fzero ?m) (pmin x ?m)"
      then have "flt ?m (pmin x ?m)"
        using pmax_ge_right [of fzero ?m] \<open>?m \<noteq> NaN\<close> fle_flt_trans by blast
      then show False using pmin_not_above(1) by blast
    qed
    ultimately show ?thesis
      by (simp add: p clamp_fields) (rule pmax_fzero_le [OF pmax_fzero_nonneg])
  qed
  have swing: "fle (swing_max_pct p) (max_pct p)"
    unfolding p bucket_caps_frame clamp_fields by (rule pmax_fzero_le [OF pmax_fzero_nonneg pmin_not_above(1)])
  show ?thesis
    using low swing share_bounds core_share_order by (simp add: p clamp_fields)
qed


definition stopped_caps :: RiskContextCaps where
  "stopped_caps =
     \<lparr>risk_mode = ''NORMAL'', kill_switch_active = True, max_position_pct = Some (Fin 1),
      max_new_buy_pct_today = None, max_new_buy_amount_today = None, min_cash_buffer_pct = None,
      caps_allow_buy = False, caps_allow_sell = True, allow_intraday_swing_buy = True,
      only_reduce_position = True, allow_locked_core_substitution = False, t1_insufficient_action = ''DELAY'',
      delay_core_buy_in_panic = False, max_single_order_amount = None, reason_codes = [], caps_risk_tags = [],
      caps_metadata = []\<rparr>"

lemma stopped_profile:
  "\<exists>p. build_profile [] (RiskContextCaps_to_dict stopped_caps) [] [] [] [] = Inr p"
  by (simp add: build_profile_def select_profile_def find_current_position_pct_def to_dict_or_empty_def
      market_optional_float_def apply_parameter_overrides_def dmem_def apply_risk_caps_def merge_tags_def
      stopped_caps_def sorted_strings_def)
    (simp add: RiskContextCaps_to_dict_def Let_def)

lemma plain_profile: "\<exists>p. build_profile [] [] [] [] [] [] = Inr p"
  by (simp add: build_profile_def select_profile_def find_current_position_pct_def to_dict_or_empty_def
      market_optional_float_def apply_parameter_overrides_def dmem_def apply_risk_caps_def merge_tags_def
      select_calm_def score_reaches_def position_upper_def strip_def upper_def caps_tags_def Let_def
      del: PROFILE_TEMPLATES.simps)


text \<open>
  The lower share is limited by the upper one before the upper one is limited to 1, so overrides
  above 1 leave a lower share above the upper one.
\<close>

lemma overrides_can_invert_the_range:
  "min_pct (clamp_profile (p\<lparr>min_pct := Fin (3 / 2), max_pct := Fin 2\<rparr>)) = Fin (3 / 2)"
  "max_pct (clamp_profile (p\<lparr>min_pct := Fin (3 / 2), max_pct := Fin 2\<rparr>)) = Fin 1"
  by (simp_all add: clamp_fields pmin_def pmax_def)

end
