(* ===== verification/Grid_Book.thy ===== *)
theory Grid_Book
  imports Py_Value
begin

text \<open>
  The inventory ledger of the pullback grid (\<open>grid_book.py\<close>). A grid book is a dictionary with buy
  and sell levels, lots of shares that were bought, and release events; it is stored as JSON, edited
  by clients and read back, so every part is normalized when it is read. The functions work on
  dictionaries as the code does. The clock is an argument: one reading per call stands for the
  readings of \<open>now_iso\<close>, which are only defaults of time stamps.
\<close>

section \<open>Reading fields\<close>

definition GRID_STATUSES :: "string list" where
  "GRID_STATUSES =
     [''DISABLED'', ''PLANNED'', ''MONITORING'', ''WAIT_REARM'', ''PENDING'', ''PARTIAL_FILLED'', ''FILLED'',
      ''REJECTED'', ''CANCELLED'']"

definition LOT_STATUSES :: "string list" where
  "LOT_STATUSES = [''OPEN'', ''RESERVED'', ''CLOSED'', ''CANCELLED'']"

definition GRID_BOOK_MODEL_VERSION :: int where "GRID_BOOK_MODEL_VERSION = 2"
definition INVENTORY_MODEL :: string where "INVENTORY_MODEL = ''INVENTORY_LEDGER_GRID''"
definition RELEASE_RULE :: string where "RELEASE_RULE = ''NEAREST_LOWER''"
definition SELL_EMPTY_BEHAVIOR :: string where "SELL_EMPTY_BEHAVIOR = ''WAIT_FOR_INVENTORY''"

text \<open>The value of the first key that is present, also when that value is \<open>None\<close>.\<close>

fun grid_value :: "pydict \<Rightarrow> string list \<Rightarrow> pyval \<Rightarrow> pyval" where
  "grid_value d [] v = v"
| "grid_value d (k # ks) v = (case dget d k of Some x \<Rightarrow> x | None \<Rightarrow> grid_value d ks v)"

definition grid_float :: "pyval \<Rightarrow> pyfloat \<Rightarrow> pyfloat res" where
  "grid_float v dflt =
     (case v of
        VNone \<Rightarrow> Inr dflt
      | _ \<Rightarrow> (case to_float v of
                Inr x \<Rightarrow> Inr x
              | Inl OverflowError \<Rightarrow> Inl OverflowError
              | Inl _ \<Rightarrow> Inr dflt))"

definition grid_int :: "pyval \<Rightarrow> int \<Rightarrow> int res" where
  "grid_int v dflt =
     (case v of
        VNone \<Rightarrow> Inr dflt
      | _ \<Rightarrow> (case to_int v of
                Inr n \<Rightarrow> Inr n
              | Inl OverflowError \<Rightarrow> Inl OverflowError
              | Inl _ \<Rightarrow> Inr dflt))"

definition normalize_status :: "pyval \<Rightarrow> string \<Rightarrow> bool \<Rightarrow> string" where
  "normalize_status status dflt enabled =
     (if \<not> enabled then ''DISABLED''
      else let v = upper (str_or status dflt) in if v \<in> set GRID_STATUSES then v else dflt)"

definition normalize_lot_status :: "pyval \<Rightarrow> int \<Rightarrow> string" where
  "normalize_lot_status status remaining =
     (let v = upper (str_or status [])
      in if v \<in> set LOT_STATUSES then v else if 0 < remaining then ''OPEN'' else ''CLOSED'')"

text \<open>\<open>f"...-{index + 1}"\<close>\<close>

definition numbered :: "string \<Rightarrow> nat \<Rightarrow> string" where
  "numbered name index = name @ ''-'' @ string_of_int (int index + 1)"

section \<open>Levels, lots and events\<close>

definition default_role :: "string \<Rightarrow> string" where
  "default_role side = (if side = ''BUY'' then ''BUY_SLOT'' else ''SELL_WATERLINE'')"

definition normalize_level :: "string \<Rightarrow> pyval \<Rightarrow> nat \<Rightarrow> pydict res" where
  "normalize_level now raw index =
     rbind (to_dict_or_empty raw) (\<lambda>d.
       let side = upper (str_or (grid_value d [''side''] (VStr ''BUY'')) ''BUY'');
           role = upper (str_or (grid_value d [''role''] (VStr (default_role side))) (default_role side));
           enabled = truthy (grid_value d [''enabled''] (VBool True));
           status = (if enabled then normalize_status (grid_value d [''status''] (VStr ''PLANNED'')) ''PLANNED'' True
                     else ''DISABLED'')
       in rbind (grid_int (grid_value d [''planned_shares'', ''plannedShares'', ''shares'', ''volume''] (VInt 0)) 0)
            (\<lambda>planned.
          rbind (grid_float (grid_value d [''price'', ''trigger_price'', ''triggerPrice''] (VFloat fzero)) fzero)
            (\<lambda>price.
          rbind (to_float (VInt planned)) (\<lambda>shares.
          rbind (grid_float (grid_value d [''amount''] (VFloat (fmul price shares))) fzero) (\<lambda>amount.
          rbind (grid_int (grid_value d [''level_index'', ''levelIndex''] (VInt (int index + 1))) 0) (\<lambda>level_index.
          rbind (grid_float (grid_value d [''pct_from_base'', ''pctFromBase''] (VFloat fzero)) fzero) (\<lambda>pct.
          rbind (grid_float (grid_value d [''expected_profit'', ''expectedProfit''] (VFloat fzero)) fzero)
            (\<lambda>profit.
          rbind (grid_int (grid_value d [''pending_shares'', ''pendingShares'', ''pending_volume''] (VInt 0)) 0)
            (\<lambda>pending.
          rbind (grid_int (grid_value d [''filled_shares'', ''filledShares'', ''filled_volume''] (VInt 0)) 0)
            (\<lambda>filled.
          rbind (grid_int (grid_value d [''available_inventory_shares'', ''availableInventoryShares''] (VInt 0)) 0)
            (\<lambda>available.
          rbind (grid_int (grid_value d [''reserved_inventory_shares'', ''reservedInventoryShares''] (VInt 0)) 0)
            (\<lambda>reserved.
          rbind (grid_int (grid_value d [''cycle_count'', ''cycleCount''] (VInt 0)) 0) (\<lambda>cycles.
            Inr [(''grid_id'', VStr (py_str (grid_value d [''grid_id'', ''gridId'', ''id'']
                    (VStr (numbered (lower side) index))))),
                 (''level_index'', VInt level_index), (''side'', VStr side), (''role'', VStr role),
                 (''price'', VFloat price), (''planned_shares'', VInt planned), (''amount'', VFloat amount),
                 (''pct_from_base'', VFloat pct), (''expected_profit'', VFloat profit),
                 (''enabled'', VBool enabled), (''status'', VStr status),
                 (''monitoring'', VBool (truthy (grid_value d [''monitoring'', ''is_monitoring''] (VBool False)))),
                 (''pending_shares'', VInt pending), (''filled_shares'', VInt filled),
                 (''available_inventory_shares'', VInt available),
                 (''reserved_inventory_shares'', VInt reserved), (''cycle_count'', VInt cycles),
                 (''waiting_reason'', VStr (str_or (grid_value d [''waiting_reason'', ''waitingReason''] (VStr [])) [])),
                 (''order_id'', grid_value d [''order_id'', ''orderId''] VNone),
                 (''entry_price'', grid_value d [''entry_price'', ''entryPrice''] VNone),
                 (''entry_time'', grid_value d [''entry_time'', ''entryTime''] VNone),
                 (''last_intent_id'', grid_value d [''last_intent_id'', ''lastIntentId''] VNone),
                 (''last_trace_id'', grid_value d [''last_trace_id'', ''lastTraceId''] VNone),
                 (''reason'', VStr (str_or (grid_value d [''reason''] (VStr [])) [])),
                 (''updated_at'', grid_value d [''updated_at'', ''updatedAt''] (VStr now))])))))))))))))"

definition normalize_inventory_lot :: "string \<Rightarrow> pyval \<Rightarrow> nat \<Rightarrow> pydict res" where
  "normalize_inventory_lot now raw index =
     rbind (to_dict_or_empty raw) (\<lambda>d.
     rbind (grid_int (grid_value d [''remaining_shares'', ''remainingShares''] (VInt 0)) 0) (\<lambda>remaining.
     rbind (grid_int (grid_value d [''reserved_shares'', ''reservedShares''] (VInt 0)) 0) (\<lambda>reserved.
     rbind (grid_float (grid_value d [''entry_price'', ''entryPrice''] (VFloat fzero)) fzero) (\<lambda>price.
     rbind (grid_int (grid_value d [''original_shares'', ''originalShares''] (VInt remaining)) 0) (\<lambda>original.
       Inr [(''lot_id'', VStr (str_or (grid_value d [''lot_id'', ''lotId'', ''id''] (VStr (numbered ''lot'' index)))
               (numbered ''lot'' index))),
            (''source_level_id'', grid_value d [''source_level_id'', ''sourceLevelId''] VNone),
            (''source_level_index'', grid_value d [''source_level_index'', ''sourceLevelIndex''] VNone),
            (''source'', VStr (upper (str_or (grid_value d [''source''] (VStr ''BUY_FILL'')) ''BUY_FILL''))),
            (''bucket'', VStr (lower (str_or (grid_value d [''bucket''] (VStr ''swing'')) ''swing''))),
            (''entry_price'', VFloat price), (''original_shares'', VInt original),
            (''remaining_shares'', VInt (max 0 remaining)),
            (''reserved_shares'', VInt (max 0 (min reserved remaining))),
            (''reserved_for_level_id'', grid_value d [''reserved_for_level_id'', ''reservedForLevelId''] VNone),
            (''reserved_order_id'', grid_value d [''reserved_order_id'', ''reservedOrderId''] VNone),
            (''target_sell_level_id'', grid_value d [''target_sell_level_id'', ''targetSellLevelId''] VNone),
            (''target_sell_level_index'', grid_value d [''target_sell_level_index'', ''targetSellLevelIndex''] VNone),
            (''status'', VStr (normalize_lot_status (grid_value d [''status''] VNone) remaining)),
            (''created_at'', grid_value d [''created_at'', ''createdAt''] (VStr now)),
            (''updated_at'', grid_value d [''updated_at'', ''updatedAt''] (VStr now))])))))"

definition normalize_release_event :: "string \<Rightarrow> pyval \<Rightarrow> nat \<Rightarrow> pydict res" where
  "normalize_release_event now raw index =
     rbind (to_dict_or_empty raw) (\<lambda>d.
     rbind (to_list_or_empty (grid_value d [''lot_ids'', ''lotIds''] (VList []))) (\<lambda>lot_ids.
     rbind (grid_float (grid_value d [''price''] (VFloat fzero)) fzero) (\<lambda>price.
     rbind (grid_int (grid_value d [''shares''] (VInt 0)) 0) (\<lambda>shares.
       Inr [(''event_id'', VStr (py_str (grid_value d [''event_id'', ''eventId'', ''id'']
               (VStr (numbered ''release'' index))))),
            (''sell_level_id'', grid_value d [''sell_level_id'', ''sellLevelId''] VNone),
            (''sell_level_index'', grid_value d [''sell_level_index'', ''sellLevelIndex''] VNone),
            (''released_level_id'', grid_value d [''released_level_id'', ''releasedLevelId''] VNone),
            (''released_level_index'', grid_value d [''released_level_index'', ''releasedLevelIndex''] VNone),
            (''lot_ids'', VList lot_ids),
            (''order_id'', grid_value d [''order_id'', ''orderId''] VNone),
            (''intent_id'', grid_value d [''intent_id'', ''intentId''] VNone),
            (''trade_id'', grid_value d [''trade_id'', ''tradeId''] VNone),
            (''price'', VFloat price), (''shares'', VInt shares),
            (''created_at'', grid_value d [''created_at'', ''createdAt''] (VStr now))]))))"

section \<open>Inventory of a level\<close>

definition status_upper :: "pydict \<Rightarrow> string" where
  "status_upper d = upper (py_str (vget_or d ''status'' (VStr [])))"

definition live_lot :: "pydict \<Rightarrow> bool" where
  "live_lot lot \<longleftrightarrow> status_upper lot \<in> {''OPEN'', ''RESERVED''}"

text \<open>\<open>max(0, _int(lot.get("remaining_shares")) - _int(lot.get("reserved_shares")))\<close>\<close>

definition free_shares :: "pydict \<Rightarrow> int res" where
  "free_shares lot =
     rbind (grid_int (vget lot ''remaining_shares'') 0) (\<lambda>remaining.
     rbind (grid_int (vget lot ''reserved_shares'') 0) (\<lambda>reserved. Inr (max 0 (remaining - reserved))))"

fun rsum :: "('a \<Rightarrow> int res) \<Rightarrow> 'a list \<Rightarrow> int res" where
  "rsum f [] = Inr 0"
| "rsum f (x # xs) = rbind (f x) (\<lambda>n. rbind (rsum f xs) (\<lambda>m. Inr (n + m)))"

definition lot_targets_sell_level :: "pydict \<Rightarrow> pydict \<Rightarrow> bool res" where
  "lot_targets_sell_level lot level =
     (let target_id = vget lot ''target_sell_level_id''; target_index = vget lot ''target_sell_level_index''
      in if truthy target_id \<and> py_str target_id \<noteq> py_str (vget level ''grid_id'') then Inr False
         else if target_index = VNone \<or> target_index = VStr [] then Inr True
         else case to_int target_index of
           Inr n \<Rightarrow> rbind (grid_int (vget level ''level_index'') 0) (\<lambda>m. Inr (n = m))
         | Inl OverflowError \<Rightarrow> Inl OverflowError
         | Inl _ \<Rightarrow> Inr False)"

text \<open>Whether a lot counts for a sell level: swing, live, aimed at it and bought below its price.\<close>

definition sells_lot :: "pydict \<Rightarrow> pyfloat \<Rightarrow> pydict \<Rightarrow> bool res" where
  "sells_lot level price lot =
     (if lower (py_str (vget_or lot ''bucket'' (VStr []))) \<noteq> ''swing'' \<or> \<not> live_lot lot then Inr False
      else rbind (lot_targets_sell_level lot level) (\<lambda>aimed.
        if \<not> aimed then Inr False
        else rbind (grid_float (vget lot ''entry_price'') fzero) (\<lambda>entry. Inr (\<not> fle price entry))))"

definition sell_available :: "pydict \<Rightarrow> pyfloat \<Rightarrow> pydict \<Rightarrow> int res" where
  "sell_available level price lot =
     rbind (sells_lot level price lot) (\<lambda>ok. if ok then free_shares lot else Inr 0)"

definition sell_reserved_shares :: "pydict \<Rightarrow> pyfloat \<Rightarrow> pydict \<Rightarrow> int res" where
  "sell_reserved_shares level price lot =
     rbind (sells_lot level price lot) (\<lambda>ok.
       if ok \<and> vget lot ''reserved_for_level_id'' = vget level ''grid_id''
       then grid_int (vget lot ''reserved_shares'') 0 else Inr 0)"

definition waiting_reason_of :: "pydict \<Rightarrow> int \<Rightarrow> pyval res" where
  "waiting_reason_of level available =
     (if truthy (vget_or level ''enabled'' (VBool True))
        \<and> vget level ''status'' \<in> {VStr ''PLANNED'', VStr ''MONITORING''}
      then rbind (grid_int (vget level ''planned_shares'') 0) (\<lambda>planned.
             Inr (if available < planned then VStr ''waiting_swing_inventory''
                  else if vget level ''waiting_reason'' = VStr ''waiting_swing_inventory'' then VStr []
                  else vget level ''waiting_reason''))
      else Inr (if vget level ''waiting_reason'' = VStr ''waiting_swing_inventory'' then VStr []
                else vget level ''waiting_reason''))"

definition decorate_sell_level :: "pydict list \<Rightarrow> pydict \<Rightarrow> pydict res" where
  "decorate_sell_level lots level =
     rbind (grid_float (vget level ''price'') fzero) (\<lambda>price.
     rbind (rsum (sell_available level price) lots) (\<lambda>available.
     rbind (rsum (sell_reserved_shares level price) lots) (\<lambda>reserved.
     rbind (waiting_reason_of level available) (\<lambda>reason.
       Inr (dset ''waiting_reason'' reason
             (dset ''reserved_inventory_shares'' (VInt reserved)
               (dset ''available_inventory_shares'' (VInt available) level)))))))"

definition decorate_buy_level :: "pydict list \<Rightarrow> pydict \<Rightarrow> pydict res" where
  "decorate_buy_level lots level =
     (let mine = filter (\<lambda>lot. vget lot ''source_level_id'' = vget level ''grid_id'') lots
      in rbind (rsum free_shares (filter live_lot mine)) (\<lambda>available.
         rbind (rsum (\<lambda>lot. grid_int (vget lot ''reserved_shares'') 0) mine) (\<lambda>reserved.
           Inr (dset ''reserved_inventory_shares'' (VInt reserved)
                 (dset ''available_inventory_shares'' (VInt available) level)))))"

definition decorate_level_inventory :: "pydict list \<Rightarrow> pydict list \<Rightarrow> pydict list res" where
  "decorate_level_inventory levels lots =
     rmap (\<lambda>level. if vget level ''side'' = VStr ''SELL'' then decorate_sell_level lots level
                    else decorate_buy_level lots level) levels"

section \<open>The book\<close>

definition count_where :: "(pydict \<Rightarrow> bool) \<Rightarrow> pydict list \<Rightarrow> pyval" where
  "count_where P rows = VInt (int (length (filter P rows)))"

text \<open>\<open>sum\<close> over floats starts at the integer 0, which is its value for no rows.\<close>

definition planned_amount_of :: "pydict list \<Rightarrow> pyval res" where
  "planned_amount_of rows =
     rbind (rmap (\<lambda>level. grid_float (vget level ''amount'') fzero)
              (filter (\<lambda>level. truthy (vget_or level ''enabled'' (VBool True))
                 \<and> vget level ''status'' \<noteq> VStr ''DISABLED'') rows)) (\<lambda>xs.
       Inr (if xs = [] then VInt 0 else VFloat (py_fsum xs)))"

definition summarize_levels :: "pydict list \<Rightarrow> pydict list \<Rightarrow> pydict list \<Rightarrow> pydict res" where
  "summarize_levels rows lots events =
     rbind (rsum free_shares (filter live_lot lots)) (\<lambda>open_shares.
     rbind (rsum (\<lambda>lot. grid_int (vget lot ''reserved_shares'') 0) (filter live_lot lots)) (\<lambda>reserved.
     rbind (planned_amount_of rows) (\<lambda>planned.
     rbind (rsum (\<lambda>level. grid_int (vget level ''cycle_count'') 0) rows) (\<lambda>cycles.
       Inr [(''total_levels'', VInt (int (length rows))),
            (''enabled_levels'', count_where (\<lambda>l. truthy (vget_or l ''enabled'' (VBool True))) rows),
            (''pending_levels'', count_where (\<lambda>l. vget l ''status'' = VStr ''PENDING'') rows),
            (''filled_levels'', count_where (\<lambda>l. vget l ''status'' = VStr ''FILLED'') rows),
            (''disabled_levels'', count_where (\<lambda>l. \<not> truthy (vget_or l ''enabled'' (VBool True))) rows),
            (''planned_amount'', planned),
            (''buy_slot_count'', count_where (\<lambda>l. vget l ''role'' = VStr ''BUY_SLOT'') rows),
            (''sell_waterline_count'', count_where (\<lambda>l. vget l ''role'' = VStr ''SELL_WATERLINE'') rows),
            (''open_lot_shares'', VInt open_shares), (''reserved_lot_shares'', VInt reserved),
            (''waiting_inventory_levels'',
               count_where (\<lambda>l. vget l ''waiting_reason'' = VStr ''waiting_swing_inventory'') rows),
            (''completed_cycles'', VInt cycles), (''release_event_count'', VInt (int (length events)))]))))"

text \<open>The items of a list with their index: \<open>[f(x, i) for i, x in enumerate(xs)]\<close>.\<close>

fun rmap_from :: "nat \<Rightarrow> ('a \<Rightarrow> nat \<Rightarrow> 'b res) \<Rightarrow> 'a list \<Rightarrow> 'b list res" where
  "rmap_from i f [] = Inr []"
| "rmap_from i f (x # xs) = rbind (f x i) (\<lambda>y. rbind (rmap_from (Suc i) f xs) (\<lambda>ys. Inr (y # ys)))"

definition v_dicts :: "pydict list \<Rightarrow> pyval" where
  "v_dicts ds = VList (map VDict ds)"

record grid_defaults =
  default_run_id :: string
  default_instrument_code :: string
  default_base_price :: pyfloat
  default_parameter_version :: string
  default_editable :: bool
  default_needs_backtest :: bool

definition normalize_grid_book :: "string \<Rightarrow> grid_defaults \<Rightarrow> pydict \<Rightarrow> pydict res" where
  "normalize_grid_book now g d =
     rbind (to_list_or_empty (vget d ''levels'')) (\<lambda>raw_levels.
     rbind (to_list_or_empty (grid_value d [''inventory_lots'', ''inventoryLots''] (VList []))) (\<lambda>raw_lots.
     rbind (to_list_or_empty (grid_value d [''release_events'', ''releaseEvents''] (VList []))) (\<lambda>raw_events.
     rbind (rmap_from 0 (normalize_level now) raw_levels) (\<lambda>levels0.
     rbind (rmap_from 0 (normalize_inventory_lot now) raw_lots) (\<lambda>lots.
     rbind (rmap_from 0 (normalize_release_event now) raw_events) (\<lambda>events.
     rbind (decorate_level_inventory levels0 lots) (\<lambda>levels.
     rbind (summarize_levels levels lots events) (\<lambda>summary.
     rbind (grid_float (grid_value d [''base_price'', ''basePrice''] (VFloat (default_base_price g))) fzero)
       (\<lambda>base_price.
     rbind (grid_int (vget_or d ''version'' (VInt 1)) 1) (\<lambda>version.
     rbind (grid_int (grid_value d [''model_version'', ''modelVersion''] (VInt GRID_BOOK_MODEL_VERSION)) 0)
       (\<lambda>model_version.
       Inr [(''run_id'', VStr (str_or (grid_value d [''run_id'', ''runId''] (VStr (default_run_id g)))
               (default_run_id g))),
            (''instrument_code'', VStr (str_or (grid_value d [''instrument_code'', ''instrumentCode'']
               (VStr (default_instrument_code g))) (default_instrument_code g))),
            (''base_price'', VFloat base_price),
            (''parameter_version'', VStr (str_or (grid_value d [''parameter_version'', ''parameterVersion'']
               (VStr (default_parameter_version g))) (default_parameter_version g))),
            (''version'', VInt version), (''model_version'', VInt model_version),
            (''inventory_model'', VStr (str_or (grid_value d [''inventory_model'', ''inventoryModel'']
               (VStr INVENTORY_MODEL)) INVENTORY_MODEL)),
            (''release_rule'', VStr (str_or (grid_value d [''release_rule'', ''releaseRule'']
               (VStr RELEASE_RULE)) RELEASE_RULE)),
            (''sell_empty_behavior'', VStr (str_or (grid_value d [''sell_empty_behavior'', ''sellEmptyBehavior'']
               (VStr SELL_EMPTY_BEHAVIOR)) SELL_EMPTY_BEHAVIOR)),
            (''editable'', VBool (truthy (vget_or d ''editable'' (VBool (default_editable g))))),
            (''needs_backtest'', VBool (truthy (grid_value d [''needs_backtest'', ''needsBacktest'']
               (VBool (default_needs_backtest g))))),
            (''summary'', VDict summary), (''levels'', v_dicts levels), (''inventory_lots'', v_dicts lots),
            (''release_events'', v_dicts events),
            (''updated_at'', grid_value d [''updated_at'', ''updatedAt''] (VStr now))])))))))))))"

section \<open>Initial lots\<close>

fun rfilter :: "('a \<Rightarrow> bool res) \<Rightarrow> 'a list \<Rightarrow> 'a list res" where
  "rfilter P [] = Inr []"
| "rfilter P (x # xs) =
     rbind (P x) (\<lambda>keep. rbind (rfilter P xs) (\<lambda>ys. Inr (if keep then x # ys else ys)))"

definition eligible_sell_level :: "pydict \<Rightarrow> bool res" where
  "eligible_sell_level level =
     (if \<not> truthy (vget_or level ''enabled'' (VBool True))
        \<or> upper (py_str (vget_or level ''side'' (VStr []))) \<noteq> ''SELL'' then Inr False
      else rbind (grid_int (vget level ''planned_shares'') 0) (\<lambda>n. Inr (0 < n)))"

text \<open>
  \<open>sorted\<close> by price and index: a stable insertion by the comparison of the two keys. Prices that
  are not numbers have no place in that order, and the interpreter's one is not modelled for them.
\<close>

definition grid_key_less :: "pyfloat \<times> int \<Rightarrow> pyfloat \<times> int \<Rightarrow> bool" where
  "grid_key_less a b \<longleftrightarrow> (if feq (fst a) (fst b) then snd a < snd b else flt (fst a) (fst b))"

fun insert_level ::
  "(pyfloat \<times> int) \<times> pydict \<Rightarrow> ((pyfloat \<times> int) \<times> pydict) list \<Rightarrow> ((pyfloat \<times> int) \<times> pydict) list" where
  "insert_level x [] = [x]"
| "insert_level x (y # ys) = (if grid_key_less (fst x) (fst y) then x # y # ys else y # insert_level x ys)"

definition grid_level_key :: "pydict \<Rightarrow> ((pyfloat \<times> int) \<times> pydict) res" where
  "grid_level_key level =
     rbind (grid_float (vget level ''price'') fzero) (\<lambda>price.
     rbind (grid_int (vget level ''level_index'') 0) (\<lambda>i. Inr ((price, i), level)))"

definition sort_levels :: "pydict list \<Rightarrow> pydict list res" where
  "sort_levels levels =
     rbind (rmap grid_level_key levels) (\<lambda>ks. Inr (map snd (foldl (\<lambda>acc x. insert_level x acc) [] ks)))"

definition initial_lot ::
  "string \<Rightarrow> string \<Rightarrow> pyfloat \<Rightarrow> int \<Rightarrow> (string \<times> pyval) list \<Rightarrow> pydict" where
  "initial_lot now lot_id entry_price shares target =
     [(''lot_id'', VStr lot_id), (''source_level_id'', VNone), (''source_level_index'', VNone),
      (''source'', VStr ''INITIAL_SWING''), (''bucket'', VStr ''swing''), (''entry_price'', VFloat entry_price),
      (''original_shares'', VInt shares), (''remaining_shares'', VInt shares), (''reserved_shares'', VInt 0)]
     @ target @ [(''status'', VStr ''OPEN''), (''created_at'', VStr now), (''updated_at'', VStr now)]"

text \<open>The last level takes what is left over.\<close>

fun initial_lots ::
  "string \<Rightarrow> string \<Rightarrow> pyfloat \<Rightarrow> int \<Rightarrow> nat \<Rightarrow> pydict list \<Rightarrow> pydict list res" where
  "initial_lots now owner entry_price remaining index [] = Inr []"
| "initial_lots now owner entry_price remaining index (level # levels) =
     (if remaining \<le> 0 then Inr []
      else rbind (grid_int (vget level ''planned_shares'') 0) (\<lambda>planned.
        let shares = (if levels = [] \<and> min planned remaining < remaining then remaining
                      else min planned remaining)
        in rbind (initial_lots now owner entry_price (remaining - shares) (Suc index) levels) (\<lambda>lots.
             Inr (initial_lot now
                   (''initial-swing-'' @ owner @ ''-'' @
                      py_str (v_or (vget level ''grid_id'') (VInt (int index + 1))))
                   entry_price shares
                   [(''target_sell_level_id'', vget level ''grid_id''),
                    (''target_sell_level_index'', vget level ''level_index'')] # lots))))"

definition build_initial_swing_lots ::
  "string \<Rightarrow> int \<Rightarrow> pyfloat \<Rightarrow> string \<Rightarrow> pydict list \<Rightarrow> pydict list res" where
  "build_initial_swing_lots now swing_shares entry_price owner sell_levels =
     (if max 0 swing_shares \<le> 0 then Inr []
      else rbind (rfilter eligible_sell_level sell_levels) (\<lambda>eligible.
           rbind (sort_levels eligible) (\<lambda>levels.
             if levels = []
             then Inr [initial_lot now (''initial-swing-'' @ owner) entry_price (max 0 swing_shares) []]
             else initial_lots now owner entry_price (max 0 swing_shares) 0 levels)))"

section \<open>Books from parameters, templates and back\<close>

definition first_code :: "pyval \<Rightarrow> string" where
  "first_code v =
     (case v of
        VList xs \<Rightarrow> (case xs of [] \<Rightarrow> [] | x # _ \<Rightarrow> py_str x)
      | _ \<Rightarrow> strip (takeWhile (\<lambda>c. c \<noteq> CHR '','') (str_or v [])))"

definition find_instrument_code :: "string \<Rightarrow> pydict \<Rightarrow> string" where
  "find_instrument_code code params =
     (let c = str_or (v_or (VStr code) (vget_or params ''instrument_code'' (VStr []))) []
      in if c \<noteq> [] then c
         else first_code (grid_value params [''stockCodes'', ''stock_codes''] (VStr [])))"

definition build_grid_book_from_parameters ::
  "string \<Rightarrow> pydict \<Rightarrow> string \<Rightarrow> string \<Rightarrow> bool \<Rightarrow> bool \<Rightarrow> pydict res" where
  "build_grid_book_from_parameters now params run_id code editable needs_backtest =
     rbind (to_list_or_empty (v_or (vget params ''grid_levels'') (vget params ''gridLevels''))) (\<lambda>raw.
     rbind (rmap_from 0 (normalize_level now) raw) (\<lambda>levels.
       let instrument = find_instrument_code code params
       in rbind (grid_int (grid_value params [''swing_shares'', ''initial_swing_shares''] (VInt 0)) 0) (\<lambda>swing.
          rbind (if 0 < swing
                 then rbind (grid_float (grid_value params [''avg_cost'', ''base_price''] (VFloat fzero)) fzero)
                        (\<lambda>entry. build_initial_swing_lots now swing entry
                                 (if instrument \<noteq> [] then instrument else run_id) levels)
                 else Inr []) (\<lambda>lots.
          rbind (grid_float (vget_or params ''base_price'' (VFloat fzero)) fzero) (\<lambda>base.
            normalize_grid_book now
              \<lparr>default_run_id = run_id, default_instrument_code = [], default_base_price = fzero,
               default_parameter_version = [], default_editable = editable,
               default_needs_backtest = needs_backtest\<rparr>
              [(''run_id'', VStr run_id), (''instrument_code'', VStr instrument), (''base_price'', VFloat base),
               (''parameter_version'', VStr (py_str (vget_or params ''_parameter_version'' (VStr [])))),
               (''model_version'', VInt GRID_BOOK_MODEL_VERSION), (''inventory_model'', VStr INVENTORY_MODEL),
               (''release_rule'', VStr RELEASE_RULE), (''sell_empty_behavior'', VStr SELL_EMPTY_BEHAVIOR),
               (''levels'', v_dicts levels), (''inventory_lots'', v_dicts lots),
               (''release_events'', VList [])])))))"

definition set_all :: "(string \<times> pyval) list \<Rightarrow> pydict \<Rightarrow> pydict" where
  "set_all kvs d = fold (\<lambda>(k, v). dset k v) kvs d"

definition template_level :: "string \<Rightarrow> pydict \<Rightarrow> pydict" where
  "template_level now level =
     set_all
       [(''status'', VStr (if truthy (vget_or level ''enabled'' (VBool True)) then ''PLANNED'' else ''DISABLED'')),
        (''monitoring'', VBool False), (''pending_shares'', VInt 0), (''filled_shares'', VInt 0),
        (''reserved_inventory_shares'', VInt 0), (''order_id'', VNone), (''entry_price'', VNone),
        (''entry_time'', VNone), (''last_intent_id'', VNone), (''last_trace_id'', VNone),
        (''reason'', VStr ''template_copy''), (''updated_at'', VStr now)] level"

definition template_lot :: "string \<Rightarrow> pydict \<Rightarrow> pydict res" where
  "template_lot now lot =
     rbind (grid_int (vget lot ''remaining_shares'') 0) (\<lambda>remaining.
       Inr (set_all
         [(''reserved_shares'', VInt 0), (''reserved_for_level_id'', VNone), (''reserved_order_id'', VNone),
          (''status'', VStr (if 0 < remaining then ''OPEN'' else ''CLOSED'')), (''updated_at'', VStr now)] lot))"

definition template_defaults :: "string \<Rightarrow> string \<Rightarrow> bool \<Rightarrow> grid_defaults" where
  "template_defaults run_id code needs_backtest =
     \<lparr>default_run_id = run_id, default_instrument_code = code, default_base_price = fzero,
      default_parameter_version = [], default_editable = True, default_needs_backtest = needs_backtest\<rparr>"

text \<open>The dictionaries of a list of a book.\<close>

fun dicts_of :: "pyval \<Rightarrow> pydict list res" where
  "dicts_of (VList xs) = rmap to_dict_or_empty xs"
| "dicts_of v = (if truthy v then Inl TypeError else Inr [])"

definition grid_book_to_template_snapshot ::
  "string \<Rightarrow> pydict \<Rightarrow> string \<Rightarrow> string \<Rightarrow> bool \<Rightarrow> pydict res" where
  "grid_book_to_template_snapshot now raw run_id code needs_backtest =
     (let g = template_defaults run_id code needs_backtest
      in rbind (normalize_grid_book now g raw) (\<lambda>snapshot.
         rbind (dicts_of (vget snapshot ''levels'')) (\<lambda>levels.
         rbind (dicts_of (vget snapshot ''inventory_lots'')) (\<lambda>lots0.
         rbind (rmap (template_lot now) lots0) (\<lambda>lots.
           normalize_grid_book now g
             (set_all
               [(''run_id'', VStr run_id),
                (''instrument_code'', v_or (VStr code) (vget snapshot ''instrument_code'')),
                (''levels'', v_dicts (map (template_level now) levels)), (''inventory_lots'', v_dicts lots),
                (''release_events'', VList []), (''editable'', VBool True),
                (''needs_backtest'', VBool needs_backtest), (''updated_at'', VStr now)] snapshot))))))"

definition level_parameters :: "pydict \<Rightarrow> pydict" where
  "level_parameters l =
     [(''id'', vget l ''grid_id''), (''gridId'', vget l ''grid_id''), (''levelIndex'', vget l ''level_index''),
      (''side'', vget l ''side''), (''role'', vget l ''role''), (''price'', vget l ''price''),
      (''shares'', vget l ''planned_shares''), (''amount'', vget l ''amount''),
      (''pctFromBase'', vget l ''pct_from_base''), (''expectedProfit'', vget l ''expected_profit''),
      (''enabled'', vget l ''enabled''), (''cycleCount'', vget l ''cycle_count'')]"

definition grid_book_levels_to_parameters :: "string \<Rightarrow> pyval list \<Rightarrow> pydict list res" where
  "grid_book_levels_to_parameters now levels =
     rmap (\<lambda>level. rbind (normalize_level now level 0) (\<lambda>l. Inr (level_parameters l))) levels"

end
