(* ===== verification/Grid_Facts.thy ===== *)
theory Grid_Facts
  imports Grid_Book
begin

text \<open>
  Facts of the grid book that its properties share: strings that a second normalization leaves
  alone, the shape of a normal level, lot and release event (inductive predicates \<open>normal_level\<close>,
  \<open>normal_lot\<close> and \<open>normal_event\<close>) and that reading one again gives it back, and that the inventory of
  the levels is computed from fields that its own decoration does not touch.
\<close>

section \<open>Strings\<close>

lemma upper_char_idem: "upper_char (upper_char c) = upper_char c"
  by (auto simp: upper_char_def Let_def)

lemma lower_char_idem: "lower_char (lower_char c) = lower_char c"
  by (auto simp: lower_char_def Let_def)

lemma upper_idem [simp]: "upper (upper s) = upper s"
  by (simp add: upper_def upper_char_idem)

lemma lower_idem [simp]: "lower (lower s) = lower s"
  by (simp add: lower_def lower_char_idem)

lemma upper_lower_empty [simp]: "upper s = [] \<longleftrightarrow> s = []" "lower s = [] \<longleftrightarrow> s = []"
  by (simp_all add: upper_def lower_def)

lemma digits_nonempty [simp]: "digits_of_int n \<noteq> []"
  by (subst digits_of_int.simps) simp

lemma py_str_nonempty: "truthy v \<Longrightarrow> py_str v \<noteq> []"
proof (cases v)
  case (VFloat x)
  have "repr_pos r \<noteq> []" for r
    by (simp add: repr_pos_def Let_def split: prod.split)
  with VFloat show ?thesis by (cases x) auto
qed (auto simp: string_of_int_def)

lemma str_or_keeps [simp]: "str_or (VStr (str_or v s)) s = str_or v s"
  using py_str_nonempty [of v] by (cases "str_or v s") (auto simp: str_or_def v_or_def split: if_splits)

lemma cased_keeps [simp]:
  "upper (str_or (VStr (upper (str_or v s))) s) = upper (str_or v s)"
  "lower (str_or (VStr (lower (str_or v s))) s) = lower (str_or v s)"
  by (cases "str_or v s = []"; use py_str_nonempty [of v] in \<open>auto simp: str_or_def v_or_def split: if_splits\<close>)+

section \<open>Normalized fields\<close>

lemma grid_value_simps [simp]:
  "grid_value ((k', v) # d) (k # ks) w = (if k' = k then v else
     case dget d k of Some x \<Rightarrow> x | None \<Rightarrow> grid_value ((k', v) # d) ks w)"
  by (simp add: dget_def)

lemma grid_number_simps [simp]:
  "grid_float (VFloat x) y = Inr x" "grid_int (VInt n) m = Inr n"
  by (simp_all add: grid_float_def grid_int_def)

lemma to_dict_simps [simp]: "to_dict_or_empty (VDict d) = Inr d"
  by (simp add: to_dict_or_empty_def)

lemma grid_status_upper: "s \<in> set GRID_STATUSES \<Longrightarrow> upper s = s \<and> s \<noteq> []"
  by (auto simp: GRID_STATUSES_def upper_def upper_char_def)

lemma lot_status_upper: "s \<in> set LOT_STATUSES \<Longrightarrow> upper s = s \<and> s \<noteq> []"
  by (auto simp: LOT_STATUSES_def upper_def upper_char_def)

lemma normalize_status_member: "normalize_status v ''PLANNED'' e \<in> set GRID_STATUSES"
  by (simp add: normalize_status_def Let_def) (simp add: GRID_STATUSES_def)

lemma normalize_status_keeps: "s \<in> set GRID_STATUSES \<Longrightarrow> normalize_status (VStr s) p True = s"
  using grid_status_upper [of s] by (simp add: normalize_status_def)

lemma normalize_lot_status_member: "normalize_lot_status v n \<in> set LOT_STATUSES"
  by (simp add: normalize_lot_status_def Let_def) (simp add: LOT_STATUSES_def)

lemma normalize_lot_status_keeps: "s \<in> set LOT_STATUSES \<Longrightarrow> normalize_lot_status (VStr s) n = s"
  using lot_status_upper [of s] by (simp add: normalize_lot_status_def)

section \<open>Normal levels, lots and events\<close>


inductive normal_level :: "pydict \<Rightarrow> bool" where
  normal_level: "normal_level
     [(''grid_id'', VStr grid_id), (''level_index'', VInt level_index), (''side'', VStr side), (''role'', VStr role),
      (''price'', VFloat price), (''planned_shares'', VInt planned), (''amount'', VFloat amount),
      (''pct_from_base'', VFloat pct), (''expected_profit'', VFloat profit),
      (''enabled'', VBool enabled), (''status'', VStr status), (''monitoring'', VBool monitoring),
      (''pending_shares'', VInt pending), (''filled_shares'', VInt filled),
      (''available_inventory_shares'', VInt available), (''reserved_inventory_shares'', VInt reserved),
      (''cycle_count'', VInt cycles), (''waiting_reason'', VStr waiting), (''order_id'', order_id),
      (''entry_price'', entry_price), (''entry_time'', entry_time), (''last_intent_id'', intent),
      (''last_trace_id'', trace), (''reason'', VStr reason), (''updated_at'', updated)]"
  if "upper (str_or (VStr side) ''BUY'') = side" "upper (str_or (VStr role) (default_role side)) = role"
    "to_float (VInt planned) = Inr shares" "status \<in> set GRID_STATUSES" "\<not> enabled \<longrightarrow> status = ''DISABLED''"

inductive normal_lot :: "pydict \<Rightarrow> bool" where
  normal_lot: "normal_lot
     [(''lot_id'', VStr lot_id), (''source_level_id'', source_id), (''source_level_index'', source_index),
      (''source'', VStr source), (''bucket'', VStr bucket), (''entry_price'', VFloat price),
      (''original_shares'', VInt original), (''remaining_shares'', VInt remaining),
      (''reserved_shares'', VInt reserved), (''reserved_for_level_id'', reserved_for),
      (''reserved_order_id'', order_id), (''target_sell_level_id'', target_id),
      (''target_sell_level_index'', target_index), (''status'', VStr status), (''created_at'', created),
      (''updated_at'', updated)]"
  if "lot_id \<noteq> []" "upper (str_or (VStr source) ''BUY_FILL'') = source"
    "lower (str_or (VStr bucket) ''swing'') = bucket" "0 \<le> reserved" "reserved \<le> remaining"
    "status \<in> set LOT_STATUSES"

inductive normal_event :: "pydict \<Rightarrow> bool" where
  normal_event: "normal_event
     [(''event_id'', VStr event_id), (''sell_level_id'', sell_id), (''sell_level_index'', sell_index),
      (''released_level_id'', released_id), (''released_level_index'', released_index),
      (''lot_ids'', VList lot_ids), (''order_id'', order_id), (''intent_id'', intent), (''trade_id'', trade),
      (''price'', VFloat price), (''shares'', VInt shares), (''created_at'', created)]"

lemma level_status_member:
  "(if e then normalize_status v ''PLANNED'' True else ''DISABLED'') \<in> set GRID_STATUSES"
  using normalize_status_member [of v e] by (simp add: normalize_status_def split: if_splits)

lemma numbered_nonempty: "numbered name i \<noteq> []"
  by (simp add: numbered_def)

lemma str_or_default_nonempty: "s \<noteq> [] \<Longrightarrow> str_or v s \<noteq> []"
  using py_str_nonempty [of v] by (auto simp: str_or_def v_or_def)

lemma normalize_level_normal: "normalize_level now raw i = Inr l \<Longrightarrow> normal_level l"
  unfolding normalize_level_def Let_def rbind_Inr_iff
  by (elim exE conjE, simp only: sum.inject, erule subst, rule normal_level, simp_all only: level_status_member)
    simp_all

lemma normalize_lot_normal: "normalize_inventory_lot now raw i = Inr l \<Longrightarrow> normal_lot l"
  unfolding normalize_inventory_lot_def rbind_Inr_iff
  by (auto intro!: normal_lot normalize_lot_status_member str_or_default_nonempty numbered_nonempty)

lemma normalize_event_normal: "normalize_release_event now raw i = Inr e \<Longrightarrow> normal_event e"
  unfolding normalize_release_event_def rbind_Inr_iff by (auto intro!: normal_event)

lemma normal_level_fixed: "normal_level l \<Longrightarrow> normalize_level now (VDict l) i = Inr l"
  by (erule normal_level.cases) (simp add: normalize_level_def normalize_status_keeps)

lemma normal_lot_fixed: "normal_lot l \<Longrightarrow> normalize_inventory_lot now (VDict l) i = Inr l"
  by (erule normal_lot.cases) (simp add: normalize_inventory_lot_def normalize_lot_status_keeps)

lemma normal_event_fixed: "normal_event e \<Longrightarrow> normalize_release_event now (VDict e) i = Inr e"
  by (erule normal_event.cases) (simp add: normalize_release_event_def)

section \<open>Lists of results\<close>

lemma rmap_from_all: "rmap_from i f xs = Inr ys \<Longrightarrow> (\<And>x j y. f x j = Inr y \<Longrightarrow> P y) \<Longrightarrow> list_all P ys"
  by (induction xs arbitrary: i ys) (auto simp: res_simps)

lemma rmap_from_fixed: "list_all P ys \<Longrightarrow> (\<And>y j. P y \<Longrightarrow> g (VDict y) j = Inr y) \<Longrightarrow> rmap_from i g (map VDict ys) = Inr ys"
  by (induction ys arbitrary: i) auto

lemma rmap_preserves:
  "rmap f xs = Inr ys \<Longrightarrow> list_all P xs \<Longrightarrow> (\<And>x y. P x \<Longrightarrow> f x = Inr y \<Longrightarrow> Q y) \<Longrightarrow> list_all Q ys"
  by (induction xs arbitrary: ys) (auto simp: res_simps)

lemma rmap_fixed:
  assumes "rmap f xs = Inr ys" "\<And>x y. x \<in> set xs \<Longrightarrow> f x = Inr y \<Longrightarrow> f y = Inr y"
  shows "rmap f ys = Inr ys"
  using assms
proof (induction xs arbitrary: ys)
  case (Cons x xs)
  from Cons.prems(1) obtain z zs where z: "f x = Inr z" "rmap f xs = Inr zs" "ys = z # zs"
    by (auto simp: res_simps)
  have "f z = Inr z" using Cons.prems(2) [OF _ z(1)] by simp
  moreover have "rmap f zs = Inr zs" by (rule Cons.IH [OF z(2)]) (erule Cons.prems(2) [OF list.set_intros(2)])
  ultimately show ?case by (simp add: z)
qed simp

section \<open>Inventory of the levels\<close>

lemma sells_lot_frame:
  assumes "''grid_id'' \<noteq> k" "''level_index'' \<noteq> k"
  shows "sells_lot (dset k v level) = sells_lot level"
proof -
  have "lot_targets_sell_level lot (dset k v level) = lot_targets_sell_level lot level" for lot
    unfolding lot_targets_sell_level_def vget_simps using assms by (simp only: if_False)
  then show ?thesis by (simp add: sells_lot_def fun_eq_iff)
qed

lemma sell_shares_frame:
  assumes "''grid_id'' \<noteq> k" "''level_index'' \<noteq> k"
  shows "sell_available (dset k v level) = sell_available level"
    "sell_reserved_shares (dset k v level) = sell_reserved_shares level"
  unfolding sell_available_def sell_reserved_shares_def fun_eq_iff sells_lot_frame [OF assms]
  using assms by simp_all

lemma waiting_reason_fixed:
  assumes r: "waiting_reason_of level available = Inr r" and "vget level' ''waiting_reason'' = r"
    and "vget_or level' ''enabled'' (VBool True) = vget_or level ''enabled'' (VBool True)"
    and "vget level' ''status'' = vget level ''status''"
    and "vget level' ''planned_shares'' = vget level ''planned_shares''"
  shows "waiting_reason_of level' available = Inr r"
  using r unfolding waiting_reason_of_def assms(2-5)
  by (cases "grid_int (vget level ''planned_shares'') 0") (auto split: if_splits)

lemma decorate_sell_fixed:
  assumes "decorate_sell_level lots level = Inr l"
  shows "decorate_sell_level lots l = Inr l"
proof -
  from assms obtain price available reserved r where
    e: "grid_float (vget level ''price'') fzero = Inr price"
    "rsum (sell_available level price) lots = Inr available"
    "rsum (sell_reserved_shares level price) lots = Inr reserved"
    "waiting_reason_of level available = Inr r"
    and l: "l = dset ''waiting_reason'' r (dset ''reserved_inventory_shares'' (VInt reserved)
      (dset ''available_inventory_shares'' (VInt available) level))"
    by (auto simp: decorate_sell_level_def res_simps)
  have "waiting_reason_of l available = Inr r"
    by (rule waiting_reason_fixed [OF e(4)]) (simp_all add: l)
  moreover have "dset ''waiting_reason'' r (dset ''reserved_inventory_shares'' (VInt reserved)
      (dset ''available_inventory_shares'' (VInt available) l)) = l"
    by (simp add: l dset_same)
  moreover have "sell_available l = sell_available level" "sell_reserved_shares l = sell_reserved_shares level"
    "vget l ''price'' = vget level ''price''"
    by (simp_all add: l sell_shares_frame)
  ultimately show ?thesis using e by (simp add: decorate_sell_level_def)
qed

lemma decorate_buy_fixed:
  assumes "decorate_buy_level lots level = Inr l"
  shows "decorate_buy_level lots l = Inr l"
  using assms by (auto simp: decorate_buy_level_def res_simps Let_def dset_same)

lemma waiting_reason_string:
  "waiting_reason_of level available = Inr r \<Longrightarrow> vget level ''waiting_reason'' = VStr s \<Longrightarrow> \<exists>t. r = VStr t"
  by (auto simp: waiting_reason_of_def res_simps split: if_splits)

lemma normal_level_dset:
  assumes "normal_level l"
  shows "normal_level (dset ''available_inventory_shares'' (VInt a) l)"
    "normal_level (dset ''reserved_inventory_shares'' (VInt a) l)"
    "normal_level (dset ''waiting_reason'' (VStr s) l)"
    "\<exists>s. vget l ''waiting_reason'' = VStr s"
  using assms by (auto elim!: normal_level.cases simp: dset_def intro!: normal_level)

lemma decorate_normal:
  "decorate_sell_level lots level = Inr l \<Longrightarrow> normal_level level \<Longrightarrow> normal_level l"
  "decorate_buy_level lots level = Inr l \<Longrightarrow> normal_level level \<Longrightarrow> normal_level l"
proof -
  assume n: "normal_level level"
  {
    assume "decorate_sell_level lots level = Inr l"
    then obtain available reserved r where r: "waiting_reason_of level available = Inr r"
      and l: "l = dset ''waiting_reason'' r (dset ''reserved_inventory_shares'' (VInt reserved)
        (dset ''available_inventory_shares'' (VInt available) level))"
      by (auto simp: decorate_sell_level_def res_simps)
    obtain t where "r = VStr t" using waiting_reason_string [OF r] normal_level_dset(4) [OF n] by blast
    then show "normal_level l" unfolding l by (simp add: normal_level_dset(1-3) n)
  next
    assume "decorate_buy_level lots level = Inr l"
    then show "normal_level l"
      by (auto simp: decorate_buy_level_def res_simps Let_def normal_level_dset(1-3) n)
  }
qed

lemma decorate_levels:
  assumes "decorate_level_inventory levels lots = Inr ls" "list_all normal_level levels"
  shows "list_all normal_level ls" "decorate_level_inventory ls lots = Inr ls"
proof -
  let ?f = "\<lambda>level. if vget level ''side'' = VStr ''SELL'' then decorate_sell_level lots level
                    else decorate_buy_level lots level"
  have r: "rmap ?f levels = Inr ls" using assms(1) by (simp add: decorate_level_inventory_def)
  show "list_all normal_level ls"
    by (rule rmap_preserves [OF r assms(2)]) (auto split: if_splits intro: decorate_normal)
  have "rmap ?f ls = Inr ls"
  proof (rule rmap_fixed [OF r])
    fix x y assume f: "?f x = Inr y"
    then have "vget y ''side'' = vget x ''side''"
      by (auto simp: decorate_sell_level_def decorate_buy_level_def Let_def res_simps split: if_splits)
    with f show "?f y = Inr y" by (auto intro: decorate_sell_fixed decorate_buy_fixed split: if_splits)
  qed
  then show "decorate_level_inventory ls lots = Inr ls" by (simp add: decorate_level_inventory_def)
qed

lemma to_list_dicts [simp]: "to_list_or_empty (v_dicts ds) = Inr (map VDict ds)"
  by (simp add: v_dicts_def)

text \<open>The parts of a book that was read.\<close>

lemma grid_book_parts:
  assumes "normalize_grid_book now g raw = Inr book"
  obtains levels0 levels lots events summary where
    "list_all normal_level levels0" "list_all normal_lot lots" "list_all normal_event events"
    "decorate_level_inventory levels0 lots = Inr levels" "summarize_levels levels lots events = Inr summary"
    "vget book ''levels'' = v_dicts levels" "vget book ''inventory_lots'' = v_dicts lots"
    "vget book ''release_events'' = v_dicts events" "vget book ''summary'' = VDict summary"
  using assms unfolding normalize_grid_book_def rbind_Inr_iff
  by (elim exE conjE)
    (rule that, erule rmap_from_all, erule normalize_level_normal, erule rmap_from_all, erule normalize_lot_normal,
      erule rmap_from_all, erule normalize_event_normal, assumption, assumption, auto)

end
