(* ===== verification/Grid_Safety.thy ===== *)
theory Grid_Safety
  imports Grid_Facts
begin

text \<open>
  What the grid book guarantees: reading it again changes nothing, its accounts balance, and the
  lots made for the initial position hold exactly its shares.
\<close>

lemma v_dicts_inject [simp]: "v_dicts ds = v_dicts es \<longleftrightarrow> ds = es"
  by (simp add: v_dicts_def inj_map_eq_map inj_def)

section \<open>Accounts of a book\<close>

definition lot_number :: "string \<Rightarrow> pydict \<Rightarrow> int" where
  "lot_number k lot = (case vget lot k of VInt n \<Rightarrow> n | _ \<Rightarrow> 0)"

abbreviation remaining_of :: "pydict \<Rightarrow> int" where
  "remaining_of \<equiv> lot_number ''remaining_shares''"

abbreviation reserved_of :: "pydict \<Rightarrow> int" where
  "reserved_of \<equiv> lot_number ''reserved_shares''"

lemma normal_lot_numbers:
  assumes "normal_lot lot"
  shows "0 \<le> reserved_of lot" "reserved_of lot \<le> remaining_of lot"
    "free_shares lot = Inr (remaining_of lot - reserved_of lot)"
    "grid_int (vget lot ''reserved_shares'') 0 = Inr (reserved_of lot)"
  using assms by (auto elim!: normal_lot.cases simp: lot_number_def free_shares_def)

lemma rsum_eq: "(\<And>x. x \<in> set xs \<Longrightarrow> f x = Inr (h x)) \<Longrightarrow> rsum f xs = Inr (sum_list (map h xs))"
  by (induction xs) simp_all

lemma rsum_le:
  assumes "rsum f xs = Inr n" "\<And>x m. x \<in> set xs \<Longrightarrow> f x = Inr m \<Longrightarrow> m \<le> h x"
  shows "n \<le> sum_list (map h xs)"
  using assms by (induction xs arbitrary: n) (force simp: res_simps intro: add_mono)+

lemma sum_filter_le:
  "(\<And>x. x \<in> set xs \<Longrightarrow> P x \<Longrightarrow> (0::int) \<le> h x) \<Longrightarrow>
   sum_list (map h (filter P (filter Q xs))) \<le> sum_list (map h (filter P xs))"
  by (induction xs) (auto intro: add_increasing)

lemma sum_filter_if: "sum_list (map (\<lambda>x. if P x then h x else 0) xs) = sum_list (map h (filter P xs))"
  for h :: "'a \<Rightarrow> int"
  by (induction xs) auto

definition open_shares :: "pydict list \<Rightarrow> int" where
  "open_shares lots = sum_list (map (\<lambda>lot. remaining_of lot - reserved_of lot) (filter live_lot lots))"

lemma sell_available_le:
  assumes "sell_available level price lot = Inr m" "normal_lot lot"
  shows "m \<le> (if live_lot lot then remaining_of lot - reserved_of lot else 0)"
  using assms normal_lot_numbers [OF assms(2)]
  by (auto simp: sell_available_def sells_lot_def res_simps split: if_splits)

lemma decorated_available:
  assumes "list_all normal_lot lots"
    and "decorate_sell_level lots level = Inr l \<or> decorate_buy_level lots level = Inr l"
  shows "lot_number ''available_inventory_shares'' l \<le> open_shares lots"
  using assms(2)
proof
  assume "decorate_sell_level lots level = Inr l"
  then obtain price n where "rsum (sell_available level price) lots = Inr n"
    "lot_number ''available_inventory_shares'' l = n"
    by (auto simp: decorate_sell_level_def res_simps lot_number_def)
  then show ?thesis
    using rsum_le [of "sell_available level price" lots n
        "\<lambda>lot. if live_lot lot then remaining_of lot - reserved_of lot else 0"] sell_available_le assms(1)
    by (simp add: open_shares_def sum_filter_if list_all_iff)
next
  let ?mine = "filter (\<lambda>lot. vget lot ''source_level_id'' = vget level ''grid_id'') lots"
  assume "decorate_buy_level lots level = Inr l"
  then have "rsum free_shares (filter live_lot ?mine) = Inr (lot_number ''available_inventory_shares'' l)"
    by (auto simp: decorate_buy_level_def res_simps Let_def lot_number_def)
  moreover have "rsum free_shares (filter live_lot ?mine) = Inr (open_shares ?mine)"
    unfolding open_shares_def using assms(1) by (intro rsum_eq) (auto simp: list_all_iff normal_lot_numbers)
  moreover have "open_shares ?mine \<le> open_shares lots"
    unfolding open_shares_def using assms(1) by (intro sum_filter_le) (auto simp: list_all_iff normal_lot_numbers)
  ultimately show ?thesis by simp
qed

section \<open>Properties\<close>

text \<open>
  C37: Reading a grid book is idempotent: a book that \<open>normalize_grid_book\<close> has returned is read back
  unchanged with the same defaults, at any later time. The levels keep their status, role and inventory,
  the lots their shares, and the summary is the one that was stored.
\<close>

theorem grid_book_reading_is_idempotent:
  assumes "normalize_grid_book now g raw = Inr book"
  shows "normalize_grid_book now' g book = Inr book"
  using assms
proof -
  obtain levels0 levels lots events summary where
    n: "list_all normal_level levels0" "list_all normal_lot lots" "list_all normal_event events"
    and d: "decorate_level_inventory levels0 lots = Inr levels" and s: "summarize_levels levels lots events = Inr summary"
    and v: "vget book ''levels'' = v_dicts levels" "vget book ''inventory_lots'' = v_dicts lots"
    "vget book ''release_events'' = v_dicts events" "vget book ''summary'' = VDict summary"
    by (rule grid_book_parts [OF assms])
  have f: "rmap_from 0 (normalize_level now') (map VDict levels) = Inr levels"
    "rmap_from 0 (normalize_inventory_lot now') (map VDict lots) = Inr lots"
    "rmap_from 0 (normalize_release_event now') (map VDict events) = Inr events"
    by (rule rmap_from_fixed [OF decorate_levels(1) [OF d n(1)] normal_level_fixed]
      rmap_from_fixed [OF n(2) normal_lot_fixed] rmap_from_fixed [OF n(3) normal_event_fixed], assumption)+
  show ?thesis
    using assms v unfolding normalize_grid_book_def rbind_Inr_iff sum.inject
    by (elim exE conjE, hypsubst) (simp add: f decorate_levels(2) [OF d n(1)] s)
qed

lemma grid_book_summary:
  assumes "normalize_grid_book now g raw = Inr book"
  shows "\<exists>levels lots summary. vget book ''levels'' = v_dicts levels \<and> vget book ''inventory_lots'' = v_dicts lots
      \<and> vget book ''summary'' = VDict summary \<and> list_all normal_lot lots
      \<and> list_all (\<lambda>l. lot_number ''available_inventory_shares'' l \<le> open_shares lots) levels
      \<and> lot_number ''open_lot_shares'' summary = open_shares lots
      \<and> lot_number ''reserved_lot_shares'' summary = sum_list (map reserved_of (filter live_lot lots))"
proof -
  obtain levels0 levels lots events summary where
    n: "list_all normal_lot lots"
    and d: "decorate_level_inventory levels0 lots = Inr levels" and s: "summarize_levels levels lots events = Inr summary"
    and v: "vget book ''levels'' = v_dicts levels" "vget book ''inventory_lots'' = v_dicts lots"
    "vget book ''summary'' = VDict summary"
    by (rule grid_book_parts [OF assms])
  have "rsum free_shares (filter live_lot lots) = Inr (open_shares lots)"
    unfolding open_shares_def using n by (intro rsum_eq) (auto simp: list_all_iff normal_lot_numbers)
  moreover have "rsum (\<lambda>lot. grid_int (vget lot ''reserved_shares'') 0) (filter live_lot lots)
      = Inr (sum_list (map reserved_of (filter live_lot lots)))"
    using n by (intro rsum_eq) (auto simp: list_all_iff normal_lot_numbers)
  ultimately have "lot_number ''open_lot_shares'' summary = open_shares lots"
    "lot_number ''reserved_lot_shares'' summary = sum_list (map reserved_of (filter live_lot lots))"
    using s by (auto simp: summarize_levels_def res_simps lot_number_def)
  moreover have "list_all (\<lambda>l. lot_number ''available_inventory_shares'' l \<le> open_shares lots) levels"
    using d unfolding decorate_level_inventory_def
    by (rule rmap_preserves [of _ _ _ "\<lambda>_. True"]) (auto simp: list_all_iff intro!: decorated_available [OF n] split: if_splits)
  ultimately show ?thesis using n v by auto
qed

text \<open>
  The accounts of a book that was read balance, whatever was stored: each lot reserves between
  zero and its remaining shares, the open and the reserved shares of the summary add up to the remaining
  shares of the live lots, and no level reports more available inventory than the summary's open shares.
\<close>

lemma grid_book_accounts:
  assumes "normalize_grid_book now g raw = Inr book"
  shows "\<exists>levels lots summary. vget book ''levels'' = v_dicts levels \<and> vget book ''inventory_lots'' = v_dicts lots
      \<and> vget book ''summary'' = VDict summary
      \<and> (\<forall>lot \<in> set lots. 0 \<le> reserved_of lot \<and> reserved_of lot \<le> remaining_of lot)
      \<and> (\<forall>level \<in> set levels. lot_number ''available_inventory_shares'' level
           \<le> lot_number ''open_lot_shares'' summary)
      \<and> lot_number ''open_lot_shares'' summary + lot_number ''reserved_lot_shares'' summary
          = sum_list (map remaining_of (filter live_lot lots))"
  using grid_book_summary [OF assms]
  by (auto simp: list_all_iff normal_lot_numbers open_shares_def sum_list_subtractf)

section \<open>Initial lots\<close>

lemma rfilter_set: "rfilter P xs = Inr ys \<Longrightarrow> y \<in> set ys \<Longrightarrow> P y = Inr True"
  by (induction xs arbitrary: ys) (auto simp: res_simps split: if_splits)

lemma insert_level_set: "set (insert_level x xs) = insert x (set xs)"
  by (induction xs) auto

lemma insert_levels_set: "set (foldl (\<lambda>acc x. insert_level x acc) ys xs) = set ys \<union> set xs"
  by (induction xs arbitrary: ys) (auto simp: insert_level_set)

lemma rmap_snd:
  "rmap grid_level_key levels = Inr ks \<Longrightarrow> map snd ks = levels"
  by (induction levels arbitrary: ks) (auto simp: grid_level_key_def res_simps)

lemma sort_levels_set: "sort_levels levels = Inr ls \<Longrightarrow> set ls = set levels"
  by (auto simp: sort_levels_def res_simps insert_levels_set dest!: rmap_snd)

lemma eligible_planned:
  "eligible_sell_level level = Inr True \<Longrightarrow> \<exists>n > 0. grid_int (vget level ''planned_shares'') 0 = Inr n"
  by (auto simp: eligible_sell_level_def res_simps split: if_splits)

text \<open>An open lot of swing shares with nothing reserved.\<close>

definition fresh_lot :: "pydict \<Rightarrow> bool" where
  "fresh_lot lot \<longleftrightarrow> 0 < remaining_of lot \<and> vget lot ''remaining_shares'' = VInt (remaining_of lot)
     \<and> vget lot ''reserved_shares'' = VInt 0 \<and> vget lot ''status'' = VStr ''OPEN''
     \<and> vget lot ''bucket'' = VStr ''swing''"

lemma initial_lot_fresh:
  assumes "0 < shares" "target = [] \<or> target = [(''target_sell_level_id'', a), (''target_sell_level_index'', b)]"
  shows "fresh_lot (initial_lot now lot_id price shares target)"
    "remaining_of (initial_lot now lot_id price shares target) = shares"
  using assms by (auto simp: fresh_lot_def initial_lot_def lot_number_def)

lemma initial_lots_conserve:
  assumes "initial_lots now owner price remaining i levels = Inr lots" "0 < remaining" "levels \<noteq> []"
    and "\<And>l. l \<in> set levels \<Longrightarrow> \<exists>n > 0. grid_int (vget l ''planned_shares'') 0 = Inr n"
  shows "list_all fresh_lot lots \<and> sum_list (map remaining_of lots) = remaining"
  using assms
proof (induction now owner price remaining i levels arbitrary: lots rule: initial_lots.induct)
  case (2 now owner price remaining i level levels)
  obtain n where n: "0 < n" "grid_int (vget level ''planned_shares'') 0 = Inr n"
    using 2(5) [of level] by auto
  define shares where "shares = (if levels = [] \<and> min n remaining < remaining then remaining else min n remaining)"
  from 2(2,3) n obtain rest where
    r: "initial_lots now owner price (remaining - shares) (Suc i) levels = Inr rest"
    and l: "lots = initial_lot now (''initial-swing-'' @ owner @ ''-'' @
                      py_str (v_or (vget level ''grid_id'') (VInt (int i + 1)))) price shares
                   [(''target_sell_level_id'', vget level ''grid_id''),
                    (''target_sell_level_index'', vget level ''level_index'')] # rest"
    by (auto simp: res_simps shares_def Let_def)
  have s: "0 < shares" "shares \<le> remaining" "levels = [] \<Longrightarrow> shares = remaining"
    using n 2(3) by (auto simp: shares_def)
  have "list_all fresh_lot rest \<and> sum_list (map remaining_of rest) = remaining - shares"
  proof (cases "levels = [] \<or> shares = remaining")
    case True
    with r s(3) show ?thesis by (cases levels) auto
  next
    case False
    have "\<not> remaining \<le> 0" using 2(3) by simp
    from 2(1) [OF this n(2) shares_def r] False s(2) 2(5) show ?thesis by simp
  qed
  with s(1) show ?case by (simp add: l initial_lot_fresh)
qed simp

lemma build_initial_conserves:
  assumes "build_initial_swing_lots now swing price owner levels = Inr lots"
  shows "list_all fresh_lot lots \<and> sum_list (map remaining_of lots) = max 0 swing"
proof (cases "0 < swing")
  case False
  with assms show ?thesis by (simp add: build_initial_swing_lots_def)
next
  case True
  with assms obtain eligible ls where
    e: "rfilter eligible_sell_level levels = Inr eligible" and s: "sort_levels eligible = Inr ls"
    and l: "lots = [initial_lot now (''initial-swing-'' @ owner) price swing []] \<and> ls = []
      \<or> ls \<noteq> [] \<and> initial_lots now owner price swing 0 ls = Inr lots"
    by (auto simp: build_initial_swing_lots_def res_simps split: if_splits)
  have "\<exists>n > 0. grid_int (vget x ''planned_shares'') 0 = Inr n" if "x \<in> set ls" for x
    using that eligible_planned rfilter_set [OF e] sort_levels_set [OF s] by blast
  with l True show ?thesis
    using initial_lots_conserve [of now owner price swing 0 ls lots]
    by (auto simp: initial_lot_fresh)
qed

lemma normalize_fresh_lot:
  assumes "fresh_lot lot" "normalize_inventory_lot now (VDict lot) i = Inr l"
  shows "remaining_of l = remaining_of lot \<and> reserved_of l = 0 \<and> live_lot l"
proof -
  from assms(1) obtain n where n: "0 < n" "vget lot ''remaining_shares'' = VInt n" "remaining_of lot = n"
    by (auto simp: fresh_lot_def)
  have g: "grid_value lot (k # ks) w = vget lot k" if "vget lot k \<noteq> VNone" for k ks w
    using that by (auto simp: vget_def dget_or_def split: option.splits)
  have "vget l ''remaining_shares'' = VInt n" "vget l ''reserved_shares'' = VInt 0"
    "vget_or l ''status'' (VStr []) = VStr ''OPEN''"
    using assms n g [of "''remaining_shares''"] g [of "''reserved_shares''"] g [of "''status''"]
    by (auto simp: fresh_lot_def normalize_inventory_lot_def res_simps normalize_lot_status_keeps LOT_STATUSES_def
        simp del: grid_value.simps)
  then show ?thesis
    using n by (simp add: live_lot_def status_upper_def lot_number_def upper_def upper_char_def)
qed

lemma normalize_fresh_lots:
  assumes "list_all fresh_lot lots" "rmap_from i (normalize_inventory_lot now) (map VDict lots) = Inr ls"
  shows "map remaining_of ls = map remaining_of lots \<and> list_all (\<lambda>l. reserved_of l = 0 \<and> live_lot l) ls"
  using assms by (induction lots arbitrary: i ls) (auto simp: res_simps dest!: normalize_fresh_lot)

lemma initial_inventory:
  assumes "(if 0 < swing then rbind f (\<lambda>entry. build_initial_swing_lots now swing entry owner levels) else Inr [])
     = Inr lots"
  shows "list_all fresh_lot lots \<and> sum_list (map remaining_of lots) = max 0 swing"
  using assms build_initial_conserves by (auto simp: res_simps split: if_splits)

text \<open>
  C38: A book built from parameters holds exactly the initial swing shares, no matter how the sell levels are
  planned: its lots are positive with nothing reserved, their shares add up to the shares that were given (to
  zero when that number is not positive), and the summary reports them all as open.
\<close>

theorem grid_book_holds_initial_swing:
  assumes "build_grid_book_from_parameters now params run_id code editable needs_backtest = Inr book"
    and "grid_int (grid_value params [''swing_shares'', ''initial_swing_shares''] (VInt 0)) 0 = Inr swing"
  shows "\<exists>lots summary. vget book ''inventory_lots'' = v_dicts lots \<and> vget book ''summary'' = VDict summary
      \<and> sum_list (map remaining_of lots) = max 0 swing
      \<and> (\<forall>lot \<in> set lots. 0 < remaining_of lot \<and> reserved_of lot = 0)
      \<and> lot_number ''open_lot_shares'' summary = max 0 swing \<and> lot_number ''reserved_lot_shares'' summary = 0"
proof -
  from assms obtain lots0 g raw where
    l: "list_all fresh_lot lots0" "sum_list (map remaining_of lots0) = max 0 swing"
    and n: "normalize_grid_book now g raw = Inr book" and r: "grid_value raw [''inventory_lots'', ''inventoryLots''] (VList [])
      = v_dicts lots0"
    unfolding build_grid_book_from_parameters_def Let_def rbind_Inr_iff [of _ _ book]
    by (elim exE conjE) (drule initial_inventory, auto)
  from n r obtain lots where lots: "vget book ''inventory_lots'' = v_dicts lots"
    "rmap_from 0 (normalize_inventory_lot now) (map VDict lots0) = Inr lots"
    by (auto simp: normalize_grid_book_def res_simps simp del: grid_value.simps)
  from grid_book_summary [OF n] lots obtain summary where
    s: "vget book ''summary'' = VDict summary" "lot_number ''open_lot_shares'' summary = open_shares lots"
    "lot_number ''reserved_lot_shares'' summary = sum_list (map reserved_of (filter live_lot lots))"
    by auto
  note f = normalize_fresh_lots [OF l(1) lots(2)]
  have k: "filter live_lot lots = lots" "map reserved_of lots = map (\<lambda>_. 0) lots"
    using f by (auto simp: list_all_iff filter_id_conv)
  have "map (\<lambda>lot. remaining_of lot - reserved_of lot) lots = map remaining_of lots"
    using conjunct2 [OF f] by (simp add: list_all_iff)
  then have "open_shares lots = max 0 swing" using f l(2) by (simp add: open_shares_def k(1))
  moreover have "\<forall>lot \<in> set lots. 0 < remaining_of lot \<and> reserved_of lot = 0"
  proof -
    have "\<forall>n \<in> set (map remaining_of lots). 0 < n"
      unfolding conjunct1 [OF f] using l(1) by (simp add: list_all_iff fresh_lot_def)
    then show ?thesis using conjunct2 [OF f] by (simp add: list_all_iff)
  qed
  ultimately show ?thesis using lots(1) s f l(2) k by auto
qed

definition plain_defaults :: grid_defaults where
  "plain_defaults = \<lparr>default_run_id = ''run'', default_instrument_code = [], default_base_price = fzero,
     default_parameter_version = [], default_editable = True, default_needs_backtest = False\<rparr>"

definition raw_book :: pydict where
  "raw_book = [(''inventory_lots'', VList [VDict [(''lotId'', VStr ''a''), (''remaining_shares'', VInt 500),
     (''reserved_shares'', VInt 900)]])]"

definition one_level_parameters :: pydict where
  "one_level_parameters =
     [(''grid_levels'', VList
        [VDict [(''gridId'', VStr ''s1''), (''side'', VStr ''SELL''), (''price'', VFloat (Fin 12)),
                (''shares'', VInt 200)]]),
      (''swing_shares'', VInt 500), (''base_price'', VFloat (Fin 10))]"

lemma raw_book_read: "\<not> isl (normalize_grid_book ''t'' plain_defaults raw_book)"
  by code_simp


lemma one_level_read:
  "\<exists>b. build_grid_book_from_parameters ''t'' one_level_parameters ''run'' ''600000'' True False = Inr b"
proof -
  note d = str_or_def v_or_def upper_def lower_def upper_char_def lower_char_def Let_def
  have f: "to_float (VInt 200) = Inr (Fin 200)" by (simp add: float_of_int_def)
  have l: "normalize_level ''t'' (VDict [(''gridId'', VStr ''s1''), (''side'', VStr ''SELL''),
      (''price'', VFloat (Fin 12)), (''shares'', VInt 200)]) 0 =
    Inr [(''grid_id'', VStr ''s1''), (''level_index'', VInt 1), (''side'', VStr ''SELL''),
      (''role'', VStr ''SELL_WATERLINE''), (''price'', VFloat (Fin 12)), (''planned_shares'', VInt 200),
      (''amount'', VFloat (Fin 2400)), (''pct_from_base'', VFloat fzero), (''expected_profit'', VFloat fzero),
      (''enabled'', VBool True), (''status'', VStr ''PLANNED''), (''monitoring'', VBool False),
      (''pending_shares'', VInt 0), (''filled_shares'', VInt 0), (''available_inventory_shares'', VInt 0),
      (''reserved_inventory_shares'', VInt 0), (''cycle_count'', VInt 0), (''waiting_reason'', VStr []),
      (''order_id'', VNone), (''entry_price'', VNone), (''entry_time'', VNone), (''last_intent_id'', VNone),
      (''last_trace_id'', VNone), (''reason'', VStr []), (''updated_at'', VStr ''t'')]" (is "_ = Inr ?l")
    by (simp add: normalize_level_def f default_role_def normalize_status_def GRID_STATUSES_def d del: to_float.simps)
  have n: "normalize_level ''t'' (VDict ?l) 0 = Inr ?l"
    by (rule normal_level_fixed [OF normalize_level_normal [OF l]])
  show ?thesis
    by (simp add: build_grid_book_from_parameters_def one_level_parameters_def l find_instrument_code_def d)
      (simp add: build_initial_swing_lots_def eligible_sell_level_def sort_levels_def grid_level_key_def
        initial_lot_def d normalize_grid_book_def v_dicts_def n normalize_inventory_lot_def
        decorate_level_inventory_def decorate_sell_level_def sell_available_def sell_reserved_shares_def
        sells_lot_def lot_targets_sell_level_def live_lot_def status_upper_def normalize_lot_status_def
        LOT_STATUSES_def free_shares_def waiting_reason_of_def summarize_levels_def planned_amount_of_def)
qed

theorem grid_book_reading_is_idempotent_witness:
  "\<exists>book. normalize_grid_book ''t'' plain_defaults raw_book = Inr book
     \<and> normalize_grid_book ''u'' plain_defaults book = Inr book"
proof -
  obtain book where b: "normalize_grid_book ''t'' plain_defaults raw_book = Inr book"
    using raw_book_read by (cases "normalize_grid_book ''t'' plain_defaults raw_book") auto
  then show ?thesis using grid_book_reading_is_idempotent [OF b] by blast
qed

theorem grid_book_holds_initial_swing_witness:
  "\<exists>book lots. build_grid_book_from_parameters ''t'' one_level_parameters ''run'' ''600000'' True False = Inr book
     \<and> vget book ''inventory_lots'' = v_dicts lots \<and> sum_list (map remaining_of lots) = 500"
proof -
  obtain book where
    b: "build_grid_book_from_parameters ''t'' one_level_parameters ''run'' ''600000'' True False = Inr book"
    using one_level_read by blast
  have "grid_int (grid_value one_level_parameters [''swing_shares'', ''initial_swing_shares''] (VInt 0)) 0 = Inr 500"
    by (simp add: one_level_parameters_def)
  from grid_book_holds_initial_swing [OF b this] show ?thesis using b by auto
qed

end
