(* ===== verification/Broker_Base.thy ===== *)
theory Broker_Base
  imports Market_Rules
begin

text \<open>
  The values of the broker interface (\<open>brokers/base.py\<close>): orders, positions, executions and the
  statistics of a broker. Callbacks are observers whose exceptions are caught, so they do not take
  part in the state. Identifiers that the code draws with \<open>uuid4\<close> are arguments of the operations.
\<close>

section \<open>Orders, positions and executions\<close>

datatype OrderStatus = PENDING | SUBMITTED | PARTIAL_FILLED | FILLED | CANCELLED | REJECTED | EXPIRED

text \<open>
  The observations the brokers make of a \<open>datetime\<close>: the POSIX time in microseconds, the calendar
  day in its own zone, and whether it carries a zone. Two times of which one carries a zone and one does not
  cannot be compared.
\<close>

record broker_time =
  bt_us :: int
  bt_day :: int
  bt_aware :: bool

definition time_before :: "broker_time \<Rightarrow> broker_time \<Rightarrow> bool res" where
  "time_before a b = (if bt_aware a = bt_aware b then Inr (bt_us a < bt_us b) else Inl TypeError)"

text \<open>\<open>int(t.timestamp() * 1000)\<close>\<close>

definition time_ms :: "broker_time \<Rightarrow> int" where
  "time_ms t = trunc_rat (frnd (frnd (of_int (bt_us t) / 10 ^ 6) * 1000))"

text \<open>Whether two times fall into the same minute.\<close>

definition same_minute :: "broker_time \<Rightarrow> broker_time \<Rightarrow> bool" where
  "same_minute a b \<longleftrightarrow> bt_aware a = bt_aware b \<and> bt_us a div 60000000 = bt_us b div 60000000"

text \<open>An order response. Its error message is text for people and left out.\<close>

record OrderResponse =
  order_id :: string
  order_request :: OrderRequest
  order_status :: OrderStatus
  submit_time :: broker_time
  filled_volume :: int
  filled_amount :: pyfloat
  avg_price :: pyfloat
  order_commission :: pyfloat
  order_slippage :: pyfloat
  last_update_time :: "broker_time option"

definition new_order :: "string \<Rightarrow> OrderRequest \<Rightarrow> broker_time \<Rightarrow> OrderResponse" where
  "new_order oid request time =
     \<lparr>order_id = oid, order_request = request, order_status = PENDING, submit_time = time, filled_volume = 0,
      filled_amount = fzero, avg_price = fzero, order_commission = fzero, order_slippage = fzero,
      last_update_time = None\<rparr>"

record Position =
  long_volume :: int
  short_volume :: int
  pos_available :: int
  pos_frozen :: int
  pos_today_buy :: int
  long_avg_price :: pyfloat
  short_avg_price :: pyfloat
  market_value :: pyfloat
  pos_pnl :: pyfloat
  pnl_percent :: pyfloat
  last_price :: pyfloat

definition new_position :: Position where
  "new_position =
     \<lparr>long_volume = 0, short_volume = 0, pos_available = 0, pos_frozen = 0, pos_today_buy = 0,
      long_avg_price = fzero, short_avg_price = fzero, market_value = fzero, pos_pnl = fzero,
      pnl_percent = fzero, last_price = fzero\<rparr>"

record TradeRecord =
  trade_id :: string
  trade_order_id :: string
  trade_instrument :: string
  trade_type :: OrderType
  trade_price :: pyfloat
  trade_volume :: int
  trade_amount :: pyfloat
  trade_commission :: pyfloat
  trade_time :: broker_time
  trade_metadata :: pydict

definition is_buy :: "OrderType \<Rightarrow> bool" where
  "is_buy t \<longleftrightarrow> t = BUY \<or> t = BUY_TO_COVER"

section \<open>Estimates and statistics\<close>

definition calculate_commission :: "pyfloat \<Rightarrow> pyfloat \<Rightarrow> pyfloat" where
  "calculate_commission amount rate = pmax (fmul amount rate) (Fin 5)"

definition calculate_slippage :: "pyfloat \<Rightarrow> pyfloat \<Rightarrow> OrderType \<Rightarrow> pyfloat" where
  "calculate_slippage expected actual t = (if is_buy t then fsub expected actual else fsub actual expected)"

definition count_status :: "OrderResponse list \<Rightarrow> OrderStatus \<Rightarrow> int" where
  "count_status os s = int (length (filter (\<lambda>ord. order_status ord = s) os))"

text \<open>\<open>sum\<close> of floats: the integer 0 for no items.\<close>

definition v_sum :: "pyfloat list \<Rightarrow> pyval" where
  "v_sum xs = (if xs = [] then VInt 0 else VFloat (py_fsum xs))"

definition get_statistics :: "OrderResponse list \<Rightarrow> TradeRecord list \<Rightarrow> pydict" where
  "get_statistics os ts =
     (let n = int (length os); filled = count_status os FILLED
      in [(''total_orders'', VInt n), (''filled_orders'', VInt filled),
          (''partial_filled_orders'', VInt (count_status os PARTIAL_FILLED)),
          (''cancelled_orders'', VInt (count_status os CANCELLED)),
          (''rejected_orders'', VInt (count_status os REJECTED)),
          (''fill_rate'', if 0 < n then VFloat (fround (of_int filled / of_int n)) else VInt 0),
          (''total_trades'', VInt (int (length ts))),
          (''total_commission'', v_sum (map order_commission os)),
          (''total_slippage'', v_sum (map order_slippage os))])"

end
