(* ===== verification/Backtest_Broker.thy ===== *)
theory Backtest_Broker
  imports Broker_Base
begin

text \<open>
  The matching engine of the backtest (\<open>brokers/backtest.py\<close>): placing and cancelling orders, quotes
  that fill pending orders, the shared five-level book of the strict replay, T+1 settlement, expiry, costs
  and the equity curves. An order object is shared by the dictionary of orders and the list of
  pending ones; the model keeps the objects in \<open>orders\<close> and the list by identifier. Volumes are far
  below the integers that a float cannot hold. The clock is read only where no market time is known yet,
  and is an argument there.
\<close>

section \<open>Configuration and state\<close>

record broker_config =
  commission_rate :: pyfloat
  slippage_rate :: pyfloat
  strict_book_slippage_rate :: pyfloat
  min_commission :: pyfloat
  stamp_tax_rate :: pyfloat
  transfer_fee_rate :: pyfloat
  participation_cap_pct :: pyfloat
  book_depth_participation_pct :: pyfloat
  strict_book_depth :: bool
  no_queue_credit :: bool
  defer_new_orders :: bool

definition clamp_pct :: "pyfloat \<Rightarrow> pyfloat \<Rightarrow> pyfloat" where
  "clamp_pct x d = pmax (fround (1 / 1000)) (pmin (Fin 1) (f_or x d))"

definition make_config :: "broker_config \<Rightarrow> broker_config res" where
  "make_config raw =
     (let s = strict_book_slippage_rate raw
      in if \<not> f_isfinite s \<or> \<not> (fle fzero s \<and> flt s (Fin 1))
         then Inl (ValueError ''strict book slippage must be finite and within [0, 1)'')
         else Inr (raw\<lparr>participation_cap_pct := clamp_pct (participation_cap_pct raw) (fround (5 / 100)),
                       book_depth_participation_pct :=
                         clamp_pct (book_depth_participation_pct raw) (fround (25 / 100))\<rparr>))"

record constraint_statistics =
  limit_up_buy_blocked :: int
  limit_down_sell_blocked :: int
  suspended_blocked :: int
  partial_fills :: int
  full_fills :: int
  liquidity_capped_orders :: int
  book_depth_capped_orders :: int
  missing_book_depth_blocked :: int
  no_queue_credit_blocked :: int
  cash_capped_orders :: int
  expired_orders :: int
  unfilled_volume :: int
  fake_fill_penalty :: pyfloat
  ghost_dca_invested :: pyfloat
  ghost_dca_units :: pyfloat
  ghost_dca_last_price :: pyfloat

definition no_statistics :: constraint_statistics where
  "no_statistics =
     \<lparr>limit_up_buy_blocked = 0, limit_down_sell_blocked = 0, suspended_blocked = 0, partial_fills = 0,
      full_fills = 0, liquidity_capped_orders = 0, book_depth_capped_orders = 0,
      missing_book_depth_blocked = 0, no_queue_credit_blocked = 0, cash_capped_orders = 0,
      expired_orders = 0, unfilled_volume = 0, fake_fill_penalty = fzero, ghost_dca_invested = fzero,
      ghost_dca_units = fzero, ghost_dca_last_price = fzero\<rparr>"

text \<open>The market snapshot with the fields only the broker reads: the range, the turnover and the book.\<close>

record quote_snapshot = MarketDataSnapshot +
  quote_high :: "pyfloat option"
  quote_low :: "pyfloat option"
  quote_volume :: "pyfloat option"
  bid_price :: "pyfloat list"
  ask_price :: "pyfloat list"
  bid_vol :: "pyfloat list"
  ask_vol :: "pyfloat list"

record BacktestBroker =
  config :: broker_config
  initial_capital :: pyfloat
  cash :: pyfloat
  frozen_cash :: pyfloat
  positions :: "(string, Position) dict"
  current_prices :: "(string, pyfloat) dict"
  market_snapshots :: "(string, quote_snapshot) dict"
  current_time :: "broker_time option"
  current_trading_date :: "int option"
  orders :: "(string, OrderResponse) dict"
  pending_orders :: "string list"
  trades :: "TradeRecord list"
  equity_curve :: "pyfloat list"
  daily_returns :: "pyfloat list"
  max_drawdown :: pyfloat
  peak_equity :: pyfloat
  total_trades :: int
  winning_trades :: int
  losing_trades :: int
  broker_stats :: constraint_statistics
  passive_cash :: pyfloat
  passive_volumes :: "(string, int) dict"
  passive_prices :: "(string, pyfloat) dict"
  non_trading_asset_value :: pyfloat
  initial_asset_reconciliation :: pydict
  replay_curve :: "(broker_time \<times> pyfloat \<times> pyfloat) list"

definition reconciliation ::
  "[pyfloat, pyfloat, pyval, pyfloat, pyfloat, pyfloat, pyval list] \<Rightarrow> pydict" where
  "reconciliation reported available value residual preserved effective flags =
     [(''schema_version'', VInt 1), (''reported_total_asset'', VFloat reported),
      (''available_cash'', VFloat available), (''position_market_value'', value),
      (''raw_residual'', VFloat residual), (''non_trading_asset'', VFloat preserved),
      (''effective_initial_equity'', VFloat effective), (''negative_residual_clamped'', VBool (flt residual fzero)),
      (''policy'', VStr ''PRESERVE_POSITIVE_RESIDUAL_CLAMP_NEGATIVE_TO_ZERO''), (''quality_flags'', VList flags)]"

definition new_broker :: "broker_config \<Rightarrow> pyfloat \<Rightarrow> BacktestBroker" where
  "new_broker cfg capital =
     \<lparr>config = cfg, initial_capital = capital, cash = capital, frozen_cash = fzero, positions = [],
      current_prices = [], market_snapshots = [], current_time = None, current_trading_date = None,
      orders = [], pending_orders = [], trades = [], equity_curve = [capital], daily_returns = [],
      max_drawdown = fzero, peak_equity = capital, total_trades = 0, winning_trades = 0, losing_trades = 0,
      broker_stats = no_statistics, passive_cash = capital, passive_volumes = [], passive_prices = [],
      non_trading_asset_value = fzero,
      initial_asset_reconciliation = reconciliation capital capital (VFloat fzero) fzero fzero capital [],
      replay_curve = []\<rparr>"

text \<open>The residual between the reported assets and the parts of the portfolio; the positions are the caller's.\<close>

definition configure_initial_portfolio ::
  "BacktestBroker \<Rightarrow> pyfloat \<Rightarrow> pyfloat \<Rightarrow> (string, Position) dict \<Rightarrow> BacktestBroker res" where
  "configure_initial_portfolio b cash0 total_asset ps =
     (let values = map market_value (dvalues ps)
      in if \<not> list_all f_isfinite (cash0 # total_asset # values)
         then Inl (ValueError ''Initial portfolio assets must be finite numbers'')
         else let cash1 = pmax fzero cash0; reported = pmax fzero total_asset;
                  value = py_fsum (map (pmax fzero) values); component = fadd cash1 value;
                  residual = fsub reported component; preserved = pmax fzero residual;
                  capital = fadd component preserved;
                  flags = (if flt (fround (1 / 100)) residual
                           then [VStr ''NON_TRADING_ASSET_RESIDUAL_PRESERVED'']
                           else if flt residual (fround (- 1 / 100))
                           then [VStr ''INITIAL_COMPONENTS_EXCEED_REPORTED_TOTAL''] else [])
              in Inr (b\<lparr>cash := cash1, non_trading_asset_value := preserved, initial_capital := capital,
                        initial_asset_reconciliation :=
                          reconciliation reported cash1 (v_sum (map (pmax fzero) values)) residual preserved capital flags,
                        equity_curve := [capital], peak_equity := capital, passive_cash := cash1,
                        passive_volumes := dmap (\<lambda>p. max 0 (long_volume p)) ps,
                        passive_prices := dmap (\<lambda>p. f_or (last_price p) (long_avg_price p)) ps\<rparr>))"

definition bump :: "(constraint_statistics \<Rightarrow> constraint_statistics) \<Rightarrow> BacktestBroker \<Rightarrow> BacktestBroker" where
  "bump f b = b\<lparr>broker_stats := f (broker_stats b)\<rparr>"

section \<open>Costs and executions\<close>

record trade_costs =
  cost_commission :: pyfloat
  cost_transfer_fee :: pyfloat
  cost_stamp_tax :: pyfloat
  cost_total :: pyfloat

definition calculate_costs :: "broker_config \<Rightarrow> pyfloat \<Rightarrow> OrderType \<Rightarrow> trade_costs" where
  "calculate_costs cfg amount t =
     (if fle amount fzero
      then \<lparr>cost_commission = fzero, cost_transfer_fee = fzero, cost_stamp_tax = fzero, cost_total = fzero\<rparr>
      else let commission = pmax (fmul amount (commission_rate cfg)) (min_commission cfg);
               transfer = fmul amount (transfer_fee_rate cfg);
               stamp = (if is_buy t then fzero else fmul amount (stamp_tax_rate cfg))
           in \<lparr>cost_commission = commission, cost_transfer_fee = transfer, cost_stamp_tax = stamp,
               cost_total = fadd (fadd commission transfer) stamp\<rparr>)"

text \<open>What an execution adds to the costs of its order.\<close>

definition added_costs :: "trade_costs \<Rightarrow> trade_costs \<Rightarrow> trade_costs" where
  "added_costs now before =
     (let d = (\<lambda>f. pmax fzero (fsub (f now) (f before)))
      in \<lparr>cost_commission = d cost_commission, cost_transfer_fee = d cost_transfer_fee,
          cost_stamp_tax = d cost_stamp_tax, cost_total = d cost_total\<rparr>)"

definition costs_value :: "trade_costs \<Rightarrow> pyval" where
  "costs_value c =
     VDict [(''commission'', VFloat (cost_commission c)), (''transfer_fee'', VFloat (cost_transfer_fee c)),
            (''stamp_tax'', VFloat (cost_stamp_tax c)), (''total'', VFloat (cost_total c))]"

definition update_position_buy :: "string \<Rightarrow> int \<Rightarrow> pyfloat \<Rightarrow> BacktestBroker \<Rightarrow> BacktestBroker" where
  "update_position_buy code volume price b =
     (let p = dget_or (positions b) code new_position;
          total = fadd (fmul (float_of_int (long_volume p)) (long_avg_price p)) (fmul (float_of_int volume) price);
          n = long_volume p + volume
      in b\<lparr>positions := dset code
             (p\<lparr>long_volume := n, pos_today_buy := pos_today_buy p + volume,
                long_avg_price := (if 0 < n then fdiv total (float_of_int n) else fzero),
                last_price := price, market_value := fmul (float_of_int n) price\<rparr>) (positions b)\<rparr>)"

definition update_position_sell :: "string \<Rightarrow> int \<Rightarrow> pyfloat \<Rightarrow> BacktestBroker \<Rightarrow> BacktestBroker" where
  "update_position_sell code volume price b =
     (case dget (positions b) code of
        None \<Rightarrow> b
      | Some p \<Rightarrow>
          let n = long_volume p - volume;
              pnl = fmul (fsub price (long_avg_price p)) (float_of_int volume);
              b1 = (if flt fzero pnl then b\<lparr>winning_trades := winning_trades b + 1\<rparr>
                    else b\<lparr>losing_trades := losing_trades b + 1\<rparr>)
          in if n \<le> 0 then b1\<lparr>positions := dpop code (positions b)\<rparr>
             else b1\<lparr>positions := dset code
                    (p\<lparr>long_volume := n, pos_available := max 0 (pos_available p - volume),
                       last_price := price, market_value := fmul (float_of_int n) price\<rparr>) (positions b)\<rparr>)"

definition broker_now :: "BacktestBroker \<Rightarrow> broker_time \<Rightarrow> broker_time" where
  "broker_now b clock = (case current_time b of Some t \<Rightarrow> t | None \<Rightarrow> clock)"

text \<open>The order after an execution, the costs of which are given.\<close>

definition fill_order ::
  "OrderResponse \<Rightarrow> pyfloat \<Rightarrow> int \<Rightarrow> trade_costs \<Rightarrow> broker_time \<Rightarrow> OrderResponse" where
  "fill_order ord price volume costs time =
     (let r = order_request ord; amount = fmul price (float_of_int volume); filled = filled_volume ord + volume;
          total = fadd (filled_amount ord) amount
      in ord\<lparr>filled_volume := filled, filled_amount := total,
             avg_price := (if 0 < filled then fdiv total (float_of_int filled) else price),
             order_commission := fadd (order_commission ord) (cost_total costs),
             order_status := (if request_volume r \<le> filled then FILLED else PARTIAL_FILLED),
             order_slippage := calculate_slippage (request_price r) price (request_order_type r),
             last_update_time := Some time\<rparr>)"

definition order_costs :: "broker_config \<Rightarrow> OrderResponse \<Rightarrow> pyfloat \<Rightarrow> trade_costs" where
  "order_costs cfg ord amount =
     (let t = request_order_type (order_request ord)
      in added_costs (calculate_costs cfg (fadd (filled_amount ord) amount) t)
           (calculate_costs cfg (filled_amount ord) t))"

definition settle_trade :: "OrderRequest \<Rightarrow> pyfloat \<Rightarrow> int \<Rightarrow> pyfloat \<Rightarrow> BacktestBroker \<Rightarrow> BacktestBroker" where
  "settle_trade r price volume commission b =
     (let amount = fmul price (float_of_int volume); code = request_instrument_code r
      in if is_buy (request_order_type r)
         then update_position_buy code volume price (b\<lparr>cash := fsub (cash b) (fadd amount commission)\<rparr>)
         else update_position_sell code volume price (b\<lparr>cash := fadd (cash b) (fsub amount commission)\<rparr>))"

text \<open>\<open>_execute_trade\<close>: the broker and the order after it; the caller keeps the order.\<close>

definition execute_trade ::
  "string \<Rightarrow> broker_time \<Rightarrow> BacktestBroker \<Rightarrow> OrderResponse \<Rightarrow> pyfloat \<Rightarrow> int \<Rightarrow> BacktestBroker \<times> OrderResponse" where
  "execute_trade tid clock b ord price volume =
     (let r = order_request ord; amount = fmul price (float_of_int volume);
          costs = order_costs (config b) ord amount; time = broker_now b clock;
          ord1 = fill_order ord price volume costs time;
          b1 = bump (if order_status ord1 = FILLED then full_fills_update (\<lambda>n. n + 1)
                     else partial_fills_update (\<lambda>n. n + 1)) b;
          trade = \<lparr>trade_id = tid, trade_order_id = order_id ord, trade_instrument = request_instrument_code r,
                   trade_type = request_order_type r, trade_price = price, trade_volume = volume,
                   trade_amount = amount, trade_commission = cost_total costs, trade_time = time,
                   trade_metadata = dset ''costs'' (costs_value costs) (request_metadata r)\<rparr>;
          b2 = settle_trade r price volume (cost_total costs) (b1\<lparr>trades := trades b1 @ [trade]\<rparr>)
      in (b2\<lparr>total_trades := total_trades b2 + 1\<rparr>, ord1))"

section \<open>Checks\<close>

definition reserved_cash_of :: "broker_config \<Rightarrow> OrderResponse \<Rightarrow> pyfloat" where
  "reserved_cash_of cfg ord =
     (let r = order_request ord; remaining = max 0 (request_volume r - filled_volume ord);
          amount = fmul (float_of_int remaining) (pmax fzero (request_price r));
          fee = cost_total (calculate_costs cfg (fadd (filled_amount ord) amount) (request_order_type r))
      in fadd amount (pmax fzero (fsub fee (order_commission ord))))"

definition pending_list :: "BacktestBroker \<Rightarrow> OrderResponse list" where
  "pending_list b = List.map_filter (dget (orders b)) (pending_orders b)"

definition reserved_pending_buy_cash :: "BacktestBroker \<Rightarrow> pyfloat" where
  "reserved_pending_buy_cash b =
     foldl (\<lambda>acc ord. if is_buy (request_order_type (order_request ord))
                       then fadd acc (reserved_cash_of (config b) ord) else acc) fzero (pending_list b)"

definition reserved_pending_sell_volume :: "BacktestBroker \<Rightarrow> string \<Rightarrow> int" where
  "reserved_pending_sell_volume b code =
     sum_list (map (\<lambda>ord. max 0 (request_volume (order_request ord) - filled_volume ord))
       (filter (\<lambda>ord. request_instrument_code (order_request ord) = code
                 \<and> \<not> is_buy (request_order_type (order_request ord))) (pending_list b)))"

definition validate_buy :: "BacktestBroker \<Rightarrow> OrderRequest \<Rightarrow> bool" where
  "validate_buy b r =
     (let amount = fmul (float_of_int (request_volume r)) (request_price r);
          required = fadd amount (cost_total (calculate_costs (config b) amount (request_order_type r)));
          available = (if defer_new_orders (config b) then fsub (cash b) (reserved_pending_buy_cash b) else cash b)
      in \<not> flt available required)"

definition validate_sell :: "BacktestBroker \<Rightarrow> OrderRequest \<Rightarrow> bool" where
  "validate_sell b r =
     (let code = request_instrument_code r
      in case dget (positions b) code of
           None \<Rightarrow> False
         | Some p \<Rightarrow>
             request_volume r \<le>
               (if defer_new_orders (config b) then pos_available p - reserved_pending_sell_volume b code
                else pos_available p))"

definition broker_validate_order :: "BacktestBroker \<Rightarrow> OrderRequest \<Rightarrow> bool" where
  "broker_validate_order b r =
     (if is_buy (request_order_type r) then validate_buy b r else validate_sell b r)"

text \<open>The visible volume of the first five levels at which the order could execute.\<close>

definition level_executable :: "OrderRequest \<Rightarrow> pyfloat \<Rightarrow> bool" where
  "level_executable r p \<longleftrightarrow>
     request_price_type r = MARKET
     \<or> (if is_buy (request_order_type r) then fle p (request_price r) else fle (request_price r) p)"

definition book_side :: "OrderRequest \<Rightarrow> quote_snapshot \<Rightarrow> (pyfloat \<times> pyfloat) list" where
  "book_side r q =
     (if is_buy (request_order_type r) then zip (take 5 (ask_price q)) (take 5 (ask_vol q))
      else zip (take 5 (bid_price q)) (take 5 (bid_vol q)))"

definition visible_executable_volume :: "OrderRequest \<Rightarrow> quote_snapshot \<Rightarrow> int res" where
  "visible_executable_volume r q =
     rbind (int_of_float (foldl (\<lambda>total (p, v).
        let w = pmax fzero v
        in if fle p fzero \<or> fle w fzero \<or> \<not> level_executable r p then total else fadd total w)
        fzero (book_side r q))) (\<lambda>n. Inr (max 0 n))"

definition halted :: "quote_snapshot \<Rightarrow> bool" where
  "halted q \<longleftrightarrow> suspended q \<or> \<not> is_trading q"

definition at_limit :: "OrderRequest \<Rightarrow> quote_snapshot \<Rightarrow> bool" where
  "at_limit r q \<longleftrightarrow>
     (case limit_up q of
        Some up \<Rightarrow> is_buy (request_order_type r) \<and> fle up (snapshot_price q)
                   \<and> (request_price_type r = MARKET \<or> fle up (request_price r))
      | None \<Rightarrow> False)
     \<or> (case limit_down q of
          Some down \<Rightarrow> request_order_type r = SELL \<and> fle (snapshot_price q) down
                     \<and> (request_price_type r = MARKET \<or> fle (request_price r) down)
        | None \<Rightarrow> False)"

definition is_blocked_by_limit :: "BacktestBroker \<Rightarrow> OrderRequest \<Rightarrow> quote_snapshot option \<Rightarrow> bool res" where
  "is_blocked_by_limit b r quote =
     (case quote of
        None \<Rightarrow> Inr False
      | Some q \<Rightarrow>
          if halted q then Inr True
          else if at_limit r q
          then if no_queue_credit (config b)
               then rbind (visible_executable_volume r q) (\<lambda>n. Inr (n \<le> 0)) else Inr True
          else Inr False)"

definition record_limit_block :: "OrderRequest \<Rightarrow> quote_snapshot option \<Rightarrow> BacktestBroker \<Rightarrow> BacktestBroker res" where
  "record_limit_block r quote b =
     (case quote of
        None \<Rightarrow> Inr b
      | Some q \<Rightarrow>
          if halted q then Inr (bump (suspended_blocked_update (\<lambda>n. n + 1)) b)
          else let b1 = (if is_buy (request_order_type r) then bump (limit_up_buy_blocked_update (\<lambda>n. n + 1)) b
                         else if request_order_type r = SELL
                         then bump (limit_down_sell_blocked_update (\<lambda>n. n + 1)) b else b)
               in if no_queue_credit (config b)
                  then rbind (visible_executable_volume r q) (\<lambda>n.
                    Inr (if n \<le> 0 then bump (no_queue_credit_blocked_update (\<lambda>n. n + 1)) b1 else b1))
                  else Inr b1)"

definition limit_touched :: "OrderRequest \<Rightarrow> pyfloat \<Rightarrow> quote_snapshot option \<Rightarrow> bool" where
  "limit_touched r fallback quote =
     (let high = (case quote of Some q \<Rightarrow> (case quote_high q of Some h \<Rightarrow> h | None \<Rightarrow> fallback) | None \<Rightarrow> fallback);
          low = (case quote of Some q \<Rightarrow> (case quote_low q of Some l \<Rightarrow> l | None \<Rightarrow> fallback) | None \<Rightarrow> fallback)
      in if is_buy (request_order_type r) then fle low (request_price r) else fle (request_price r) high)"

section \<open>The strict book\<close>

type_synonym book_levels = "(pyfloat \<times> pyfloat) list"

text \<open>The ask and the bid side of a quote, of which the participation rate is on offer.\<close>

definition book_level :: "broker_config \<Rightarrow> pyfloat \<times> pyfloat \<Rightarrow> (pyfloat \<times> pyfloat) res" where
  "book_level cfg level =
     rbind (int_of_float (fmul (snd level) (book_depth_participation_pct cfg))) (\<lambda>n.
       Inr (fst level, float_of_int (max 0 n)))"

definition build_side :: "broker_config \<Rightarrow> pyfloat list \<Rightarrow> pyfloat list \<Rightarrow> book_levels res" where
  "build_side cfg prices volumes =
     (if length prices < 5 \<or> length volumes < 5 then Inr []
      else rmap (book_level cfg) (zip (take 5 prices) (take 5 volumes)))"

definition build_strict_book ::
  "broker_config \<Rightarrow> quote_snapshot option \<Rightarrow> (book_levels \<times> book_levels) option res" where
  "build_strict_book cfg quote =
     (case quote of
        None \<Rightarrow> Inr None
      | Some q \<Rightarrow>
          rbind (build_side cfg (ask_price q) (ask_vol q)) (\<lambda>ask.
          rbind (build_side cfg (bid_price q) (bid_vol q)) (\<lambda>bid. Inr (Some (ask, bid)))))"

text \<open>The cash that an order needs for \<open>additional\<close> more, costs included.\<close>

definition required_cash :: "broker_config \<Rightarrow> OrderResponse \<Rightarrow> pyfloat \<Rightarrow> pyfloat" where
  "required_cash cfg ord additional =
     (let t = request_order_type (order_request ord);
          before = cost_total (calculate_costs cfg (filled_amount ord) t);
          total = cost_total (calculate_costs cfg (fadd (filled_amount ord) additional) t)
      in fadd additional (pmax fzero (fsub total before)))"

definition affordable ::
  "broker_config \<Rightarrow> OrderResponse \<Rightarrow> pyfloat \<Rightarrow> pyfloat \<Rightarrow> pyfloat \<Rightarrow> int \<Rightarrow> bool" where
  "affordable cfg ord price prior available volume \<longleftrightarrow>
     fle (required_cash cfg ord (fadd prior (fmul (float_of_int volume) price)))
       (fadd available (fround (1 / 10 ^ 9)))"

definition affordable_level_volume ::
  "broker_config \<Rightarrow> OrderResponse \<Rightarrow> pyfloat \<Rightarrow> int \<Rightarrow> pyfloat \<Rightarrow> pyfloat \<Rightarrow> int res" where
  "affordable_level_volume cfg ord price requested prior available =
     bisect_lots (\<lambda>v. Inr (affordable cfg ord price prior available v)) 0 (max 0 requested)"

text \<open>The price of a level after the slippage of the strict book, on the tick grid.\<close>

definition slipped_price :: "broker_config \<Rightarrow> pyfloat \<Rightarrow> bool \<Rightarrow> pyfloat \<Rightarrow> pyfloat res" where
  "slipped_price cfg tick buying price =
     (if strict_book_slippage_rate cfg = fzero then Inr price
      else let t = dec_of_float tick
           in rbind (dec_le t (Dec 0 0)) (\<lambda>bad.
              if bad then Inl (ValueError ''strict book slippage requires a positive price tick'')
              else let rate = dec_of_float (strict_book_slippage_rate cfg);
                       m = dec_add (Dec 1 0) (dec_mul rate (Dec (if buying then 1 else - 1) 0))
                   in rbind (dec_to_tick buying (dec_mul (dec_of_float price) m) t) (\<lambda>d. Inr (float_of_dec d))))"

record book_order =
  bo_config :: broker_config
  bo_order :: OrderResponse
  bo_tick :: pyfloat
  bo_requested :: int
  bo_cash :: pyfloat
  bo_sellable :: int

text \<open>
  What one level gives: its price and the volume taken, or nothing when the level is passed over. A buy that
  cannot pay for a share ends the walk.
\<close>

datatype level_take = Pass | Take pyfloat int | OutOfCash

definition take_level :: "book_order \<Rightarrow> int \<Rightarrow> pyfloat \<Rightarrow> pyfloat \<times> pyfloat \<Rightarrow> int \<Rightarrow> level_take res" where
  "take_level k filled amount level available =
     (if fle (fst level) fzero \<or> available \<le> 0 then Inr Pass
      else let r = order_request (bo_order k); buying = is_buy (request_order_type r)
           in rbind (slipped_price (bo_config k) (bo_tick k) buying (fst level)) (\<lambda>price.
              if \<not> level_executable r price then Inr Pass
              else let want = min (bo_requested k - filled) available
                   in if buying
                      then rbind (affordable_level_volume (bo_config k) (bo_order k) price want amount (bo_cash k))
                             (\<lambda>v. Inr (if v \<le> 0 then OutOfCash else Take price v))
                      else Inr (Take price (min want (max 0 (bo_sellable k - filled))))))"

fun consume_levels ::
  "book_order \<Rightarrow> int \<Rightarrow> pyfloat \<Rightarrow> book_levels \<Rightarrow> (book_levels \<times> int \<times> pyfloat \<times> bool) res" where
  "consume_levels k filled amount [] = Inr ([], filled, amount, False)"
| "consume_levels k filled amount (level # levels) =
     (if bo_requested k \<le> filled then Inr (level # levels, filled, amount, False)
      else rbind (int_of_float (snd level)) (\<lambda>n.
        let available = max 0 n
        in rbind (take_level k filled amount level available) (\<lambda>t.
           case t of
             Pass \<Rightarrow> rbind (consume_levels k filled amount levels)
                        (\<lambda>(rest, res). Inr (level # rest, res))
           | OutOfCash \<Rightarrow> Inr (level # levels, filled, amount, True)
           | Take price v \<Rightarrow>
               rbind (consume_levels k (filled + v) (fadd amount (fmul (float_of_int v) price)) levels)
                 (\<lambda>(rest, res). Inr ((fst level, float_of_int (available - v)) # rest, res)))))"

text \<open>The volume and the average price, the book that is left, and the broker with its statistics.\<close>

definition consume_strict_book ::
  "BacktestBroker \<Rightarrow> int \<Rightarrow> quote_snapshot option \<Rightarrow> OrderResponse \<Rightarrow> (book_levels \<times> book_levels) option \<Rightarrow>
   (int \<times> pyfloat \<times> (book_levels \<times> book_levels) option \<times> BacktestBroker) res" where
  "consume_strict_book b remaining quote ord book =
     (let r = order_request ord; buying = is_buy (request_order_type r);
          missing = Inr (0, fzero, book, bump (missing_book_depth_blocked_update (\<lambda>n. n + 1)) b)
      in case (quote, book) of
           (Some q, Some (ask, bid)) \<Rightarrow>
             (let levels = (if buying then ask else bid)
              in if max 0 remaining \<le> 0 \<or> length levels \<noteq> 5 then missing
                 else let sellable = (case dget (positions b) (request_instrument_code r) of
                                        Some p \<Rightarrow> max 0 (pos_available p) | None \<Rightarrow> 0);
                          k = \<lparr>bo_config = config b, bo_order = ord, bo_tick = price_tick q,
                               bo_requested = remaining, bo_cash = cash b, bo_sellable = sellable\<rparr>
                      in rbind (consume_levels k 0 fzero levels) (\<lambda>(rest, filled, amount, capped).
                         let book1 = Some (if buying then (rest, bid) else (ask, rest));
                             b1 = (if capped then bump (cash_capped_orders_update (\<lambda>n. n + 1)) b else b);
                             b2 = (if filled < remaining then bump (book_depth_capped_orders_update (\<lambda>n. n + 1)) b1
                                   else b1)
                         in if filled \<le> 0
                            then rbind (visible_executable_volume r q) (\<lambda>n.
                              Inr (0, fzero, book1,
                                if n \<le> 0 then bump (no_queue_credit_blocked_update (\<lambda>n. n + 1)) b2 else b2))
                            else Inr (filled, fdiv amount (float_of_int filled), book1, b2)))
         | _ \<Rightarrow> missing)"

section \<open>Fills without the strict book\<close>

definition depth_at_price :: "OrderRequest \<Rightarrow> quote_snapshot \<Rightarrow> pyfloat list" where
  "depth_at_price r q =
     (if is_buy (request_order_type r)
      then map (\<lambda>(p, v). pmax fzero v)
             (filter (\<lambda>(p, v). flt fzero p \<and> fle p (request_price r)) (zip (ask_price q) (ask_vol q)))
      else map (\<lambda>(p, v). pmax fzero v)
             (filter (\<lambda>(p, v). fle (request_price r) p) (zip (bid_price q) (bid_vol q))))"

definition has_depth :: "OrderRequest \<Rightarrow> quote_snapshot \<Rightarrow> bool" where
  "has_depth r q \<longleftrightarrow>
     (if is_buy (request_order_type r) then ask_price q \<noteq> [] \<and> ask_vol q \<noteq> []
      else bid_price q \<noteq> [] \<and> bid_vol q \<noteq> [])"

definition turnover_cap :: "broker_config \<Rightarrow> int \<Rightarrow> quote_snapshot option \<Rightarrow> int res" where
  "turnover_cap cfg remaining quote =
     (case quote of
        None \<Rightarrow> Inr remaining
      | Some q \<Rightarrow>
          (case quote_volume q of
             None \<Rightarrow> Inr remaining
           | Some v \<Rightarrow>
               if v = fzero \<or> fle v fzero then Inr remaining
               else rbind (int_of_float (pmax fzero (fmul v (participation_cap_pct cfg)))) (\<lambda>available.
                 Inr (if available \<le> 0 then 0 else max 0 (min remaining available)))))"

definition determine_fill_volume ::
  "BacktestBroker \<Rightarrow> int \<Rightarrow> quote_snapshot option \<Rightarrow> OrderRequest \<Rightarrow> (int \<times> BacktestBroker) res" where
  "determine_fill_volume b remaining quote r =
     (if remaining \<le> 0 then Inr (0, b)
      else let plain = rbind (turnover_cap (config b) remaining quote) (\<lambda>n. Inr (n, b))
           in case quote of
                None \<Rightarrow> plain
              | Some q \<Rightarrow>
                  if has_depth r q
                  then rbind (int_of_float (fmul (py_fsum (depth_at_price r q))
                               (book_depth_participation_pct (config b)))) (\<lambda>available.
                    Inr (max 0 (min remaining available),
                         if available < remaining then bump (book_depth_capped_orders_update (\<lambda>n. n + 1)) b else b))
                  else plain)"

section \<open>Pending orders\<close>

record quote_run =
  run_broker :: BacktestBroker
  run_book :: "(book_levels \<times> book_levels) option"
  run_done :: "string list"

definition order_triggered :: "OrderRequest \<Rightarrow> pyfloat \<Rightarrow> quote_snapshot option \<Rightarrow> bool" where
  "order_triggered r price quote \<longleftrightarrow>
     (request_price_type r = LIMIT \<and> limit_touched r price quote) \<or> request_price_type r = MARKET"

definition order_fill ::
  "quote_run \<Rightarrow> quote_snapshot option \<Rightarrow> OrderResponse \<Rightarrow>
   (int \<times> pyfloat \<times> (book_levels \<times> book_levels) option \<times> BacktestBroker) res" where
  "order_fill s quote ord =
     (let b = run_broker s; r = order_request ord; remaining = request_volume r - filled_volume ord
      in if strict_book_depth (config b) then consume_strict_book b remaining quote ord (run_book s)
         else rbind (determine_fill_volume b remaining quote r) (\<lambda>(n, b1).
                Inr (n, request_price r, run_book s, b1)))"

definition apply_order_fill ::
  "(string \<Rightarrow> string) \<Rightarrow> broker_time \<Rightarrow> quote_run \<Rightarrow> OrderResponse \<Rightarrow> int \<Rightarrow> pyfloat \<Rightarrow> quote_run" where
  "apply_order_fill ids clock s ord n price =
     (let remaining = request_volume (order_request ord) - filled_volume ord; b = run_broker s
      in if n \<le> 0 then s\<lparr>run_broker := bump (unfilled_volume_update (\<lambda>v. v + remaining)) b\<rparr>
         else let b1 = (if n < remaining
                        then bump (unfilled_volume_update (\<lambda>v. v + (remaining - n)))
                               (bump (liquidity_capped_orders_update (\<lambda>c. c + 1)) b) else b);
                  (b2, ord1) = execute_trade (ids (order_id ord)) clock b1 ord price n
              in s\<lparr>run_broker := b2\<lparr>orders := dset (order_id ord) ord1 (orders b2)\<rparr>,
                   run_done := run_done s @
                     (if request_volume (order_request ord) \<le> filled_volume ord1 then [order_id ord] else [])\<rparr>)"

definition process_order ::
  "(string \<Rightarrow> string) \<Rightarrow> broker_time \<Rightarrow> string \<Rightarrow> pyfloat \<Rightarrow> quote_run \<Rightarrow> string \<Rightarrow> quote_run res" where
  "process_order ids clock code price s oid =
     (let b = run_broker s; quote = dget (market_snapshots b) code
      in case dget (orders b) oid of
           None \<Rightarrow> Inr s
         | Some ord \<Rightarrow>
             (let r = order_request ord
              in if request_instrument_code r \<noteq> code then Inr s
                 else rbind (is_blocked_by_limit b r quote) (\<lambda>blocked.
                   if blocked then rbind (record_limit_block r quote b) (\<lambda>b1. Inr (s\<lparr>run_broker := b1\<rparr>))
                   else if \<not> order_triggered r price quote then Inr s
                   else rbind (order_fill s quote ord) (\<lambda>(n, p, book, b1).
                     Inr (apply_order_fill ids clock (s\<lparr>run_broker := b1, run_book := book\<rparr>) ord n p)))))"

fun process_all ::
  "(string \<Rightarrow> string) \<Rightarrow> broker_time \<Rightarrow> string \<Rightarrow> pyfloat \<Rightarrow> quote_run \<Rightarrow> string list \<Rightarrow> quote_run res" where
  "process_all ids clock code price s [] = Inr s"
| "process_all ids clock code price s (oid # oids) =
     rbind (process_order ids clock code price s oid) (\<lambda>s1. process_all ids clock code price s1 oids)"

definition process_pending_orders ::
  "(string \<Rightarrow> string) \<Rightarrow> broker_time \<Rightarrow> string \<Rightarrow> pyfloat \<Rightarrow> BacktestBroker \<Rightarrow> BacktestBroker res" where
  "process_pending_orders ids clock code price b =
     rbind (if strict_book_depth (config b)
            then build_strict_book (config b) (dget (market_snapshots b) code) else Inr None) (\<lambda>book.
     rbind (process_all ids clock code price \<lparr>run_broker = b, run_book = book, run_done = []\<rparr> (pending_orders b))
       (\<lambda>s. let b1 = run_broker s
            in Inr (b1\<lparr>pending_orders := filter (\<lambda>oid. oid \<notin> set (run_done s)) (pending_orders b1)\<rparr>)))"

section \<open>Time\<close>

definition settle_if_new_day :: "int \<Rightarrow> BacktestBroker \<Rightarrow> BacktestBroker" where
  "settle_if_new_day day b =
     (if current_trading_date b = Some day then b
      else b\<lparr>current_trading_date := Some day,
             positions := dmap (\<lambda>p. p\<lparr>pos_available := max 0 (long_volume p - pos_frozen p), pos_today_buy := 0\<rparr>)
               (positions b)\<rparr>)"

definition expire_at_ms :: "OrderResponse \<Rightarrow> int res" where
  "expire_at_ms ord =
     (case to_int (v_or (vget (request_metadata (order_request ord)) ''order_expire_at_ms'') (VInt 0)) of
        Inr n \<Rightarrow> Inr n
      | Inl OverflowError \<Rightarrow> Inl OverflowError
      | Inl _ \<Rightarrow> Inr 0)"

fun expired_ids :: "broker_time \<Rightarrow> OrderResponse list \<Rightarrow> string list res" where
  "expired_ids now [] = Inr []"
| "expired_ids now (ord # ords) =
     rbind (expire_at_ms ord) (\<lambda>due.
     rbind (expired_ids now ords) (\<lambda>ids.
       Inr (if due \<le> 0 \<or> time_ms now < due then ids else order_id ord # ids)))"

definition expire_order :: "broker_time \<Rightarrow> OrderResponse \<Rightarrow> OrderResponse" where
  "expire_order now ord = ord\<lparr>order_status := EXPIRED, last_update_time := Some now\<rparr>"

definition update_order ::
  "(OrderResponse \<Rightarrow> OrderResponse) \<Rightarrow> string \<Rightarrow> (string, OrderResponse) dict \<Rightarrow> (string, OrderResponse) dict" where
  "update_order f oid d = (case dget d oid of None \<Rightarrow> d | Some ord \<Rightarrow> dset oid (f ord) d)"

definition expire_pending_orders :: "BacktestBroker \<Rightarrow> BacktestBroker res" where
  "expire_pending_orders b =
     (case current_time b of
        None \<Rightarrow> Inr b
      | Some now \<Rightarrow>
          rbind (expired_ids now (pending_list b)) (\<lambda>ids.
            Inr (bump (expired_orders_update (\<lambda>n. n + int (length ids)))
              (b\<lparr>orders := fold (update_order (expire_order now)) ids (orders b),
                 pending_orders := filter (\<lambda>oid. oid \<notin> set ids) (pending_orders b)\<rparr>))))"

definition advance_time :: "broker_time \<Rightarrow> BacktestBroker \<Rightarrow> BacktestBroker res" where
  "advance_time t b =
     (case current_time b of
        Some now \<Rightarrow>
          (case time_before t now of
             Inl _ \<Rightarrow> Inl (ValueError ''BacktestBroker cannot mix timezone-aware and timezone-naive timestamps'')
           | Inr True \<Rightarrow> Inl (ValueError ''BacktestBroker time cannot move backwards'')
           | Inr False \<Rightarrow> expire_pending_orders (settle_if_new_day (bt_day t) (b\<lparr>current_time := Some t\<rparr>)))
      | None \<Rightarrow> expire_pending_orders (settle_if_new_day (bt_day t) (b\<lparr>current_time := Some t\<rparr>)))"

section \<open>Performance\<close>

text \<open>\<open>a / b\<close> on floats\<close>

definition fdivide :: "pyfloat \<Rightarrow> pyfloat \<Rightarrow> pyfloat res" where
  "fdivide a b = (if b = fzero then Inl ZeroDivisionError else Inr (fdiv a b))"

record AccountInfo =
  total_asset :: pyfloat
  account_cash :: pyfloat
  account_frozen_cash :: pyfloat
  account_market_value :: pyfloat
  total_pnl :: pyfloat
  daily_pnl :: pyfloat
  account_positions :: "(string, Position) dict"
  account_update_time :: broker_time

definition get_account :: "broker_time \<Rightarrow> BacktestBroker \<Rightarrow> AccountInfo" where
  "get_account clock b =
     (let value = py_fsum (map market_value (dvalues (positions b)));
          total = fadd (fadd (cash b) value) (non_trading_asset_value b)
      in \<lparr>total_asset = total, account_cash = cash b, account_frozen_cash = frozen_cash b,
          account_market_value = value, total_pnl = fsub total (initial_capital b), daily_pnl = fzero,
          account_positions = positions b, account_update_time = broker_now b clock\<rparr>)"

definition update_equity_curve :: "broker_time \<Rightarrow> BacktestBroker \<Rightarrow> BacktestBroker res" where
  "update_equity_curve clock b =
     (let equity = total_asset (get_account clock b);
          peak = (if flt (peak_equity b) equity then equity else peak_equity b)
      in rbind (fdivide (fsub peak equity) peak) (\<lambda>drawdown.
         let b1 = b\<lparr>equity_curve := equity_curve b @ [equity], peak_equity := peak,
                    max_drawdown := pmax (max_drawdown b) drawdown\<rparr>
         in if equity_curve b = [] then Inr b1
            else rbind (fdivide (fsub equity (last (equity_curve b))) (last (equity_curve b))) (\<lambda>ret.
              Inr (b1\<lparr>daily_returns := daily_returns b @ [ret]\<rparr>))))"

definition refresh_passive_prices :: "BacktestBroker \<Rightarrow> (string, pyfloat) dict" where
  "refresh_passive_prices b =
     fold (\<lambda>code d. case dget (current_prices b) code of Some p \<Rightarrow> dset code p d | None \<Rightarrow> d)
       (dkeys (passive_volumes b)) (passive_prices b)"

definition record_replay_curve :: "BacktestBroker \<Rightarrow> BacktestBroker" where
  "record_replay_curve b =
     (case current_time b of
        None \<Rightarrow> b
      | Some now \<Rightarrow>
          let prices = refresh_passive_prices b;
              equity = fadd (fadd (cash b) (py_fsum (map market_value (dvalues (positions b)))))
                         (non_trading_asset_value b);
              passive = fadd (fadd (passive_cash b) (non_trading_asset_value b))
                          (py_fsum (map (\<lambda>(code, v). fmul (float_of_int v) (dget_or prices code fzero))
                             (passive_volumes b)));
              point = (now, equity, passive); curve = replay_curve b
          in b\<lparr>passive_prices := prices,
               replay_curve := (if curve \<noteq> [] \<and> same_minute (fst (last curve)) now
                                then butlast curve @ [point] else curve @ [point])\<rparr>)"

definition refresh_performance_snapshot :: "broker_time \<Rightarrow> BacktestBroker \<Rightarrow> BacktestBroker res" where
  "refresh_performance_snapshot clock b = rbind (update_equity_curve clock b) (\<lambda>b1. Inr (record_replay_curve b1))"

definition update_ghost_dca :: "pyfloat \<Rightarrow> BacktestBroker \<Rightarrow> BacktestBroker" where
  "update_ghost_dca price b =
     (if fle price fzero then b
      else let budget = fmul (initial_capital b) (fround (1 / 1000)); st = broker_stats b
           in bump (\<lambda>st. if flt (initial_capital b) (fadd (ghost_dca_invested st) budget)
                          then st\<lparr>ghost_dca_last_price := price\<rparr>
                          else st\<lparr>ghost_dca_invested := fadd (ghost_dca_invested st) budget,
                                  ghost_dca_units := fadd (ghost_dca_units st) (fdiv budget price),
                                  ghost_dca_last_price := price\<rparr>) b)"

text \<open>The value and the return that \<open>get_constraint_statistics\<close> adds.\<close>

definition ghost_dca_value :: "constraint_statistics \<Rightarrow> pyfloat" where
  "ghost_dca_value st = fmul (ghost_dca_units st) (ghost_dca_last_price st)"

definition ghost_dca_return :: "constraint_statistics \<Rightarrow> pyfloat" where
  "ghost_dca_return st =
     (if flt fzero (ghost_dca_invested st)
      then fdiv (fsub (ghost_dca_value st) (ghost_dca_invested st)) (ghost_dca_invested st) else fzero)"

section \<open>Quotes and orders\<close>

definition price_snapshot :: "pyfloat \<Rightarrow> quote_snapshot" where
  "price_snapshot price =
     \<lparr>snapshot_timestamp = None, snapshot_price = price, price_tick = default_price_tick, limit_up = None,
      limit_down = None, is_trading = True, suspended = False, min_limit_order_volume = VNone,
      max_limit_order_volume = VNone, min_limit_sell_order_volume = VNone,
      max_limit_sell_order_volume = VNone, quote_high = None, quote_low = None, quote_volume = None,
      bid_price = [], ask_price = [], bid_vol = [], ask_vol = []\<rparr>"

definition mark_position :: "pyfloat \<Rightarrow> Position \<Rightarrow> Position" where
  "mark_position price p =
     (let value = fmul (float_of_int (long_volume p - short_volume p)) price;
          pnl1 = (if 0 < long_volume p
                  then fmul (fsub price (long_avg_price p)) (float_of_int (long_volume p)) else pos_pnl p);
          pnl2 = (if 0 < short_volume p
                  then fadd pnl1 (fmul (fsub (short_avg_price p) price) (float_of_int (short_volume p))) else pnl1)
      in p\<lparr>last_price := price, market_value := value, pos_pnl := pnl2,
           pnl_percent := (if value = fzero then pnl_percent p else fdiv pnl2 (fabs value))\<rparr>)"

definition mark_positions :: "string \<Rightarrow> pyfloat \<Rightarrow> BacktestBroker \<Rightarrow> BacktestBroker" where
  "mark_positions code price b =
     (case dget (positions b) code of
        None \<Rightarrow> b
      | Some p \<Rightarrow> b\<lparr>positions := dset code (mark_position price p) (positions b)\<rparr>)"

definition receive_quote ::
  "string \<Rightarrow> pyfloat \<Rightarrow> broker_time \<Rightarrow> quote_snapshot option \<Rightarrow> BacktestBroker \<Rightarrow> BacktestBroker" where
  "receive_quote code price time quote b =
     (let b1 = update_ghost_dca price
                 (b\<lparr>current_prices := dset code price (current_prices b), current_time := Some time\<rparr>);
          q = (case quote of Some q \<Rightarrow> q | None \<Rightarrow> price_snapshot price)
      in settle_if_new_day (bt_day time) (b1\<lparr>market_snapshots := dset code q (market_snapshots b1)\<rparr>))"

definition update_market_data ::
  "(string \<Rightarrow> string) \<Rightarrow> string \<Rightarrow> pyfloat \<Rightarrow> broker_time \<Rightarrow> quote_snapshot option \<Rightarrow>
   BacktestBroker \<Rightarrow> BacktestBroker res" where
  "update_market_data ids code price time quote b =
     rbind (expire_pending_orders (receive_quote code price time quote b)) (\<lambda>b1.
     rbind (process_pending_orders ids time code price (mark_positions code price b1)) (\<lambda>b2.
       refresh_performance_snapshot time b2))"

definition execute_market_order ::
  "string \<Rightarrow> broker_time \<Rightarrow> BacktestBroker \<Rightarrow> OrderResponse \<Rightarrow> (BacktestBroker \<times> OrderResponse) res" where
  "execute_market_order tid clock b ord =
     (let r = order_request ord; code = request_instrument_code r; price = dget_or (current_prices b) code fzero;
          quote = dget (market_snapshots b) code; rejected = ord\<lparr>order_status := REJECTED\<rparr>
      in if price = fzero then Inr (b, rejected)
         else rbind (is_blocked_by_limit b r quote) (\<lambda>blocked.
           if blocked then rbind (record_limit_block r quote b) (\<lambda>b1. Inr (b1, rejected))
           else let slip = fmul price (slippage_rate (config b))
                in Inr (execute_trade tid clock b ord
                     (if is_buy (request_order_type r) then fadd price slip else fsub price slip)
                     (request_volume r))))"

definition keep_order :: "BacktestBroker \<times> OrderResponse \<Rightarrow> BacktestBroker" where
  "keep_order bo = (fst bo)\<lparr>orders := dset (order_id (snd bo)) (snd bo) (orders (fst bo))\<rparr>"

text \<open>The broker after the call and the order it returns.\<close>

definition place_order ::
  "string \<Rightarrow> string \<Rightarrow> broker_time \<Rightarrow> OrderRequest \<Rightarrow> BacktestBroker \<Rightarrow> (BacktestBroker \<times> OrderResponse) res" where
  "place_order oid tid clock r b =
     (let ord = new_order oid r (broker_now b clock)
      in if request_volume r \<le> 0 \<or> \<not> broker_validate_order b r
         then let ord1 = ord\<lparr>order_status := REJECTED\<rparr> in Inr (keep_order (b, ord1), ord1)
         else if request_price_type r = MARKET \<and> \<not> defer_new_orders (config b)
         then rbind (execute_market_order tid clock b ord) (\<lambda>bo. Inr (keep_order bo, snd bo))
         else let ord1 = ord\<lparr>order_status := SUBMITTED\<rparr>
              in Inr (keep_order (b\<lparr>pending_orders := pending_orders b @ [oid]\<rparr>, ord1), ord1))"

definition cancellable :: "OrderStatus \<Rightarrow> bool" where
  "cancellable s \<longleftrightarrow> s \<in> {PENDING, SUBMITTED, PARTIAL_FILLED}"

definition cancel_order :: "broker_time \<Rightarrow> string \<Rightarrow> BacktestBroker \<Rightarrow> BacktestBroker \<times> bool" where
  "cancel_order clock oid b =
     (case dget (orders b) oid of
        None \<Rightarrow> (b, False)
      | Some ord \<Rightarrow>
          if cancellable (order_status ord)
          then (b\<lparr>orders := dset oid (ord\<lparr>order_status := CANCELLED, last_update_time := Some (broker_now b clock)\<rparr>)
                    (orders b),
                  pending_orders := filter (\<lambda>x. x \<noteq> oid) (pending_orders b)\<rparr>, True)
          else (b, False))"

section \<open>Queries\<close>

definition get_order :: "BacktestBroker \<Rightarrow> string \<Rightarrow> OrderResponse option" where
  "get_order b oid = dget (orders b) oid"

definition get_position :: "BacktestBroker \<Rightarrow> string option \<Rightarrow> (string, Position) dict" where
  "get_position b code =
     (case code of
        Some c \<Rightarrow>
          if c = [] then positions b
          else (case dget (positions b) c of Some p \<Rightarrow> [(c, p)] | None \<Rightarrow> [])
      | None \<Rightarrow> positions b)"

fun keep_trades :: "(TradeRecord \<Rightarrow> bool res) \<Rightarrow> TradeRecord list \<Rightarrow> TradeRecord list res" where
  "keep_trades p [] = Inr []"
| "keep_trades p (t # ts) =
     rbind (p t) (\<lambda>k. rbind (keep_trades p ts) (\<lambda>rest. Inr (if k then t # rest else rest)))"

definition get_trades ::
  "BacktestBroker \<Rightarrow> broker_time option \<Rightarrow> broker_time option \<Rightarrow> TradeRecord list res" where
  "get_trades b first last_time =
     rbind (case first of
              None \<Rightarrow> Inr (trades b)
            | Some s \<Rightarrow> keep_trades (\<lambda>t. rbind (time_before (trade_time t) s) (\<lambda>x. Inr (\<not> x))) (trades b)) (\<lambda>ts.
     case last_time of
       None \<Rightarrow> Inr ts
     | Some e \<Rightarrow> keep_trades (\<lambda>t. rbind (time_before e (trade_time t)) (\<lambda>x. Inr (\<not> x))) ts)"

definition get_constraint_statistics :: "BacktestBroker \<Rightarrow> pydict" where
  "get_constraint_statistics b =
     (let st = broker_stats b
      in [(''limit_up_buy_blocked'', VInt (limit_up_buy_blocked st)),
          (''limit_down_sell_blocked'', VInt (limit_down_sell_blocked st)),
          (''suspended_blocked'', VInt (suspended_blocked st)), (''partial_fills'', VInt (partial_fills st)),
          (''full_fills'', VInt (full_fills st)), (''liquidity_capped_orders'', VInt (liquidity_capped_orders st)),
          (''book_depth_capped_orders'', VInt (book_depth_capped_orders st)),
          (''missing_book_depth_blocked'', VInt (missing_book_depth_blocked st)),
          (''no_queue_credit_blocked'', VInt (no_queue_credit_blocked st)),
          (''cash_capped_orders'', VInt (cash_capped_orders st)), (''expired_orders'', VInt (expired_orders st)),
          (''unfilled_volume'', VInt (unfilled_volume st)), (''fake_fill_penalty'', VFloat (fake_fill_penalty st)),
          (''ghost_dca_invested'', VFloat (ghost_dca_invested st)),
          (''ghost_dca_units'', VFloat (ghost_dca_units st)),
          (''ghost_dca_last_price'', VFloat (ghost_dca_last_price st)),
          (''ghost_dca_value'', VFloat (ghost_dca_value st)), (''ghost_dca_return'', VFloat (ghost_dca_return st))])"

end
