(* ===== verification/Backtest_Facts.thy ===== *)
theory Backtest_Facts
  imports Backtest_Broker
begin

text \<open>
  The life of an order as an abstract specification (the inductive relation \<open>order_move\<close> on a view of
  the orders, the pending list and the executions, with its invariant), what each part of the
  broker leaves alone, how much a pending order can be filled, and that processing, expiring, cancelling
  and placing orders are moves of that life.
\<close>

section \<open>The life of an order\<close>

text \<open>
  What the methods of a broker may do to its orders, the pending list and the executions: reject or
  submit a new order, execute a new one at once, fill a pending one, or close a pending one without a
  fill.
\<close>

type_synonym order_view = "(string, OrderResponse) dict \<times> string list \<times> TradeRecord list"

definition view :: "BacktestBroker \<Rightarrow> order_view" where
  "view b = (orders b, pending_orders b, trades b)"

abbreviation order_volume :: "OrderResponse \<Rightarrow> int" where
  "order_volume ord \<equiv> request_volume (order_request ord)"

definition working :: "OrderStatus \<Rightarrow> bool" where
  "working s \<longleftrightarrow> s = SUBMITTED \<or> s = PARTIAL_FILLED"

text \<open>An execution of \<open>n\<close> shares of an order.\<close>

definition fills :: "OrderResponse \<Rightarrow> int \<Rightarrow> OrderResponse \<Rightarrow> TradeRecord \<Rightarrow> bool" where
  "fills ord n ord' t \<longleftrightarrow>
     order_id ord' = order_id ord \<and> order_request ord' = order_request ord
     \<and> filled_volume ord' = filled_volume ord + n
     \<and> order_status ord' = (if order_volume ord \<le> filled_volume ord + n then FILLED else PARTIAL_FILLED)
     \<and> trade_order_id t = order_id ord \<and> trade_volume t = n"

definition closes :: "OrderResponse \<Rightarrow> OrderStatus \<Rightarrow> OrderResponse \<Rightarrow> bool" where
  "closes ord s ord' \<longleftrightarrow> (\<exists>time. ord' = ord\<lparr>order_status := s, last_update_time := Some time\<rparr>)"

inductive order_move :: "order_view \<Rightarrow> order_view \<Rightarrow> bool" where
  reject: "order_move (os, ps, ts) (dset oid ord os, ps, ts)"
  if "\<not> dmem os oid" "order_id ord = oid" "filled_volume ord = 0" "order_status ord = REJECTED"
| submit: "order_move (os, ps, ts) (dset oid ord os, ps @ [oid], ts)"
  if "\<not> dmem os oid" "order_id ord = oid" "filled_volume ord = 0" "order_status ord = SUBMITTED"
    "0 < order_volume ord"
| execute: "order_move (os, ps, ts) (dset oid ord' os, ps, ts @ [t])"
  if "\<not> dmem os oid" "order_id ord = oid" "filled_volume ord = 0" "0 < order_volume ord"
    "fills ord (order_volume ord) ord' t"
| fill: "order_move (os, ps, ts)
    (dset oid ord' os, if order_status ord' = FILLED then filter (\<lambda>x. x \<noteq> oid) ps else ps, ts @ [t])"
  if "oid \<in> set ps" "dget os oid = Some ord" "0 < n" "n \<le> order_volume ord - filled_volume ord"
    "fills ord n ord' t"
| close: "order_move (os, ps, ts) (dset oid ord' os, filter (\<lambda>x. x \<noteq> oid) ps, ts)"
  if "oid \<in> set ps" "dget os oid = Some ord" "s = CANCELLED \<or> s = EXPIRED" "closes ord s ord'"

text \<open>The shares an order has traded.\<close>

definition traded :: "TradeRecord list \<Rightarrow> string \<Rightarrow> int" where
  "traded ts oid = sum_list (map trade_volume (filter (\<lambda>t. trade_order_id t = oid) ts))"

definition status_ok :: "OrderResponse \<Rightarrow> bool" where
  "status_ok ord \<longleftrightarrow>
     (case order_status ord of
        PENDING \<Rightarrow> False
      | SUBMITTED \<Rightarrow> filled_volume ord = 0 \<and> 0 < order_volume ord
      | PARTIAL_FILLED \<Rightarrow> 0 < filled_volume ord \<and> filled_volume ord < order_volume ord
      | FILLED \<Rightarrow> 0 < order_volume ord \<and> filled_volume ord = order_volume ord
      | REJECTED \<Rightarrow> filled_volume ord = 0
      | _ \<Rightarrow> 0 \<le> filled_volume ord \<and> filled_volume ord < order_volume ord)"

definition order_ok :: "string list \<Rightarrow> TradeRecord list \<Rightarrow> string \<Rightarrow> OrderResponse \<Rightarrow> bool" where
  "order_ok ps ts oid ord \<longleftrightarrow>
     order_id ord = oid \<and> filled_volume ord = traded ts oid \<and> status_ok ord
     \<and> (oid \<in> set ps \<longleftrightarrow> working (order_status ord))"

definition view_ok :: "order_view \<Rightarrow> bool" where
  "view_ok v \<longleftrightarrow>
     (case v of (os, ps, ts) \<Rightarrow>
        distinct ps \<and> (\<forall>oid \<in> set ps. dmem os oid) \<and> (\<forall>t \<in> set ts. dmem os (trade_order_id t) \<and> 0 < trade_volume t)
        \<and> (\<forall>oid ord. dget os oid = Some ord \<longrightarrow> order_ok ps ts oid ord))"

lemma traded_snoc [simp]:
  "traded (ts @ [t]) oid = traded ts oid + (if trade_order_id t = oid then trade_volume t else 0)"
  by (simp add: traded_def)

lemma traded_unknown: "(\<And>t. t \<in> set ts \<Longrightarrow> trade_order_id t \<noteq> oid) \<Longrightarrow> traded ts oid = 0"
  by (induction ts) (auto simp: traded_def)

lemma dmem_dset [simp]: "dmem (dset k v d) k' \<longleftrightarrow> k' = k \<or> dmem d k'"
  by (simp add: dmem_def)

lemma order_ok_other:
  assumes "order_ok ps ts x ord" "set ps' - {oid} = set ps - {oid}" "traded ts' x = traded ts x" "x \<noteq> oid"
  shows "order_ok ps' ts' x ord"
  using assms unfolding order_ok_def by auto

text \<open>One rule for all moves: the order that moves is right afterwards, the others are not touched.\<close>

lemma view_ok_update:
  assumes "view_ok (os, ps, ts)" "distinct ps'" "set ps' - {oid} = set ps - {oid}"
    and "order_ok ps' ts' oid ord" "set ts' \<subseteq> set ts \<union> {t. trade_order_id t = oid \<and> 0 < trade_volume t}"
    and "\<And>x. x \<noteq> oid \<Longrightarrow> traded ts' x = traded ts x"
  shows "view_ok (dset oid ord os, ps', ts')"
proof -
  have "order_ok ps' ts' x ord'" if "dget (dset oid ord os) x = Some ord'" for x ord'
    using that assms(1,4) order_ok_other [OF _ assms(3,6)] by (auto simp: view_ok_def split: if_splits)
  moreover have "dmem (dset oid ord os) x" if "x \<in> set ps'" for x
    using that assms(1,3) by (auto simp: view_ok_def)
  ultimately show ?thesis using assms(1,2,5) by (auto simp: view_ok_def subset_iff)
qed

lemma fresh_untraded: "view_ok (os, ps, ts) \<Longrightarrow> \<not> dmem os oid \<Longrightarrow> traded ts oid = 0 \<and> oid \<notin> set ps"
  by (auto simp: view_ok_def intro!: traded_unknown)

lemma view_okD:
  assumes "view_ok (os, ps, ts)"
  shows "distinct ps" "dget os oid = Some ord \<Longrightarrow> order_ok ps ts oid ord"
  using assms by (auto simp: view_ok_def)

lemma pending_open:
  assumes "order_ok ps ts oid ord" "oid \<in> set ps"
  shows "0 \<le> filled_volume ord" "filled_volume ord < order_volume ord"
  using assms by (auto simp: order_ok_def status_ok_def working_def)

lemma order_move_ok:
  assumes "order_move v v'" "view_ok v"
  shows "view_ok v'"
  using assms
proof (induction rule: order_move.induct)
  case (reject os oid ord ps ts)
  then show ?case using fresh_untraded [OF reject(5)] view_okD(1) [OF reject(5)]
    by (intro view_ok_update [OF reject(5)]) (auto simp: order_ok_def status_ok_def working_def)
next
  case (submit os oid ord ps ts)
  then show ?case using fresh_untraded [OF submit(6)] view_okD(1) [OF submit(6)]
    by (intro view_ok_update [OF submit(6)]) (auto simp: order_ok_def status_ok_def working_def)
next
  case (execute os oid ord ord' t ps ts)
  then show ?case using fresh_untraded [OF execute(6)] view_okD(1) [OF execute(6)]
    by (intro view_ok_update [OF execute(6)]) (auto simp: order_ok_def status_ok_def working_def fills_def)
next
  case (fill oid ps os ord n ord' t ts)
  note ok = view_okD(2) [OF fill(6,2)]
  show ?case using fill(1,3-5) ok pending_open [OF ok fill(1)] view_okD(1) [OF fill(6)]
    by (intro view_ok_update [OF fill(6)]) (auto simp: order_ok_def status_ok_def working_def fills_def)
next
  case (close oid ps os ord s ord' ts)
  note ok = view_okD(2) [OF close(5,2)]
  show ?case using close(1,3,4) ok pending_open [OF ok close(1)] view_okD(1) [OF close(5)]
    by (intro view_ok_update [OF close(5)]) (auto simp: order_ok_def status_ok_def working_def closes_def)
qed

lemma order_moves_ok: "order_move\<^sup>*\<^sup>* v v' \<Longrightarrow> view_ok v \<Longrightarrow> view_ok v'"
  by (induction rule: rtranclp_induct) (auto intro: order_move_ok)

text \<open>Orders that have ended are never touched again, and executions are never taken back.\<close>

lemma order_move_final:
  assumes "order_move v v'" "view_ok v" "dget (fst v) oid = Some ord" "\<not> working (order_status ord)"
  shows "dget (fst v') oid = Some ord"
proof -
  have "order_ok (fst (snd v)) (snd (snd v)) oid ord" using assms(2,3) by (cases v) (auto simp: view_ok_def)
  then have "oid \<notin> set (fst (snd v))" using assms(4) by (simp add: order_ok_def)
  with assms(1,3) show ?thesis by (cases rule: order_move.cases) (auto simp: dmem_def)
qed

lemma order_moves_final:
  assumes "order_move\<^sup>*\<^sup>* v v'" "view_ok v" "dget (fst v) oid = Some ord" "\<not> working (order_status ord)"
  shows "dget (fst v') oid = Some ord"
  using assms(1)
proof (induction rule: rtranclp_induct)
  case (step v1 v2)
  with order_moves_ok [OF step.hyps(1) assms(2)] order_move_final assms(4) show ?case by blast
qed (rule assms(3))

section \<open>What the parts of the broker leave alone\<close>

lemma bump_frame [simp]:
  "orders (bump f b) = orders b"
  "pending_orders (bump f b) = pending_orders b"
  "trades (bump f b) = trades b"
  "config (bump f b) = config b"
  "positions (bump f b) = positions b"
  "market_snapshots (bump f b) = market_snapshots b"
  "cash (bump f b) = cash b"
  "current_time (bump f b) = current_time b"
  by (simp_all add: bump_def)

lemma position_buy_frame [simp]:
  "orders (update_position_buy code n price b) = orders b"
  "pending_orders (update_position_buy code n price b) = pending_orders b"
  "trades (update_position_buy code n price b) = trades b"
  "config (update_position_buy code n price b) = config b"
  "market_snapshots (update_position_buy code n price b) = market_snapshots b"
  "current_time (update_position_buy code n price b) = current_time b"
  by (simp_all add: update_position_buy_def Let_def)

lemma position_sell_frame [simp]:
  "orders (update_position_sell code n price b) = orders b"
  "pending_orders (update_position_sell code n price b) = pending_orders b"
  "trades (update_position_sell code n price b) = trades b"
  "config (update_position_sell code n price b) = config b"
  "market_snapshots (update_position_sell code n price b) = market_snapshots b"
  "current_time (update_position_sell code n price b) = current_time b"
  by (simp_all add: update_position_sell_def Let_def split: option.split)

lemma settle_trade_frame [simp]:
  "orders (settle_trade r price n c b) = orders b"
  "pending_orders (settle_trade r price n c b) = pending_orders b"
  "trades (settle_trade r price n c b) = trades b"
  "config (settle_trade r price n c b) = config b"
  "market_snapshots (settle_trade r price n c b) = market_snapshots b"
  "current_time (settle_trade r price n c b) = current_time b"
  by (simp_all add: settle_trade_def Let_def)

lemma settle_day_frame [simp]:
  "orders (settle_if_new_day day b) = orders b"
  "pending_orders (settle_if_new_day day b) = pending_orders b"
  "trades (settle_if_new_day day b) = trades b"
  "config (settle_if_new_day day b) = config b"
  "current_time (settle_if_new_day day b) = current_time b"
  "market_snapshots (settle_if_new_day day b) = market_snapshots b"
  "cash (settle_if_new_day day b) = cash b"
  by (simp_all add: settle_if_new_day_def)

lemma mark_frame [simp]:
  "orders (mark_positions code price b) = orders b"
  "pending_orders (mark_positions code price b) = pending_orders b"
  "trades (mark_positions code price b) = trades b"
  "config (mark_positions code price b) = config b"
  "current_time (mark_positions code price b) = current_time b"
  "market_snapshots (mark_positions code price b) = market_snapshots b"
  by (simp_all add: mark_positions_def split: option.split)

lemma ghost_frame [simp]:
  "orders (update_ghost_dca price b) = orders b"
  "pending_orders (update_ghost_dca price b) = pending_orders b"
  "trades (update_ghost_dca price b) = trades b"
  "config (update_ghost_dca price b) = config b"
  "positions (update_ghost_dca price b) = positions b"
  "current_time (update_ghost_dca price b) = current_time b"
  "market_snapshots (update_ghost_dca price b) = market_snapshots b"
  by (simp_all add: update_ghost_dca_def Let_def)

lemma receive_frame [simp]:
  "orders (receive_quote code price time quote b) = orders b"
  "pending_orders (receive_quote code price time quote b) = pending_orders b"
  "trades (receive_quote code price time quote b) = trades b"
  "config (receive_quote code price time quote b) = config b"
  by (simp_all add: receive_quote_def Let_def)

lemma replay_frame [simp]:
  "orders (record_replay_curve b) = orders b"
  "pending_orders (record_replay_curve b) = pending_orders b"
  "trades (record_replay_curve b) = trades b"
  "config (record_replay_curve b) = config b"
  "positions (record_replay_curve b) = positions b"
  by (simp_all add: record_replay_curve_def Let_def split: option.split)

lemma receive_time [simp]: "current_time (receive_quote code price time quote b) = Some time"
  by (simp add: receive_quote_def Let_def)

text \<open>Operations that only count, or that only follow the value of the account.\<close>

definition same_book :: "BacktestBroker \<Rightarrow> BacktestBroker \<Rightarrow> bool" where
  "same_book b b' \<longleftrightarrow> orders b' = orders b \<and> pending_orders b' = pending_orders b \<and> trades b' = trades b
     \<and> config b' = config b \<and> positions b' = positions b \<and> market_snapshots b' = market_snapshots b
     \<and> current_time b' = current_time b"

lemma same_book_refl [simp]: "same_book b b"
  by (simp add: same_book_def)

lemma same_book_bump [simp]: "same_book b (bump f b') \<longleftrightarrow> same_book b b'"
  by (simp add: same_book_def)

lemma record_block_frame:
  assumes "record_limit_block r quote b = Inr b'"
  shows "same_book b b'"
proof (cases quote)
  case (Some q)
  with assms show ?thesis
    by (cases "visible_executable_volume r q") (simp_all add: record_limit_block_def Let_def split: if_splits, auto)
qed (use assms in \<open>simp add: record_limit_block_def\<close>)

lemma equity_frame:
  assumes "update_equity_curve clock b = Inr b'"
  shows "orders b' = orders b \<and> pending_orders b' = pending_orders b \<and> trades b' = trades b \<and> config b' = config b
    \<and> positions b' = positions b"
proof (cases "equity_curve b = []")
  case True
  with assms show ?thesis unfolding update_equity_curve_def Let_def by (clarsimp simp: rbind_Inr_iff)
next
  case False
  with assms show ?thesis unfolding update_equity_curve_def Let_def by (clarsimp simp: rbind_Inr_iff)
qed

lemma refresh_frame:
  assumes "refresh_performance_snapshot clock b = Inr b'"
  shows "orders b' = orders b" "pending_orders b' = pending_orders b" "trades b' = trades b" "config b' = config b"
    "positions b' = positions b"
  using assms equity_frame by (auto simp: refresh_performance_snapshot_def rbind_Inr_iff)

section \<open>How much a pending order is filled\<close>

lemma affordable_bound: "affordable_level_volume cfg ord price n prior available = Inr v \<Longrightarrow> 0 \<le> v \<and> v \<le> max 0 n"
  unfolding affordable_level_volume_def by (drule bisect_lots_spec) auto

lemma take_level_bound:
  assumes "take_level k filled amount level available = Inr (Take price v)" "filled \<le> bo_requested k"
  shows "0 \<le> v \<and> filled + v \<le> bo_requested k \<and> v \<le> available
    \<and> (\<not> is_buy (request_order_type (order_request (bo_order k))) \<longrightarrow> v \<le> max 0 (bo_sellable k - filled))"
  using assms affordable_bound [of "bo_config k" "bo_order k" price "min (bo_requested k - filled) available" amount "bo_cash k" v]
  by (auto simp: take_level_def Let_def res_simps split: if_splits)

lemma consume_levels_bound:
  assumes "consume_levels k filled amount levels = Inr (rest, got, amount', capped)" "filled \<le> bo_requested k"
  shows "filled \<le> got \<and> got \<le> bo_requested k
    \<and> (\<not> is_buy (request_order_type (order_request (bo_order k))) \<longrightarrow> got \<le> max filled (bo_sellable k))"
  using assms
proof (induction k filled amount levels arbitrary: rest got amount' capped rule: consume_levels.induct)
  case (2 k filled amount level levels)
  show ?case
  proof (cases "bo_requested k \<le> filled")
    case True
    with 2(3,4) show ?thesis by auto
  next
    case False
    with 2(3) obtain n t where n: "int_of_float (snd level) = Inr n"
      and t: "take_level k filled amount level (max 0 n) = Inr t"
      and r: "(case t of
             Pass \<Rightarrow> rbind (consume_levels k filled amount levels) (\<lambda>(rest, res). Inr (level # rest, res))
           | OutOfCash \<Rightarrow> Inr (level # levels, filled, amount, True)
           | Take price v \<Rightarrow>
               rbind (consume_levels k (filled + v) (fadd amount (fmul (float_of_int v) price)) levels)
                 (\<lambda>(rest, res). Inr ((fst level, float_of_int (max 0 n - v)) # rest, res)))
        = Inr (rest, got, amount', capped)"
      by (auto simp: res_simps Let_def)
    show ?thesis
    proof (cases t)
      case Pass
      with r 2(1) [OF False n refl t Pass] 2(4) show ?thesis by (auto simp: res_simps)
    next
      case (Take price v)
      note v = take_level_bound [OF t [unfolded Take] 2(4)]
      from r Take obtain rest' where
        "consume_levels k (filled + v) (fadd amount (fmul (float_of_int v) price)) levels
          = Inr (rest', got, amount', capped)"
        by (auto simp: res_simps)
      from 2(2) [OF False n refl t Take this] v show ?thesis by auto
    next
      case OutOfCash
      with r 2(4) show ?thesis by auto
    qed
  qed
qed auto

definition sellable_shares :: "BacktestBroker \<Rightarrow> string \<Rightarrow> int" where
  "sellable_shares b code = (case dget (positions b) code of Some p \<Rightarrow> max 0 (pos_available p) | None \<Rightarrow> 0)"

lemma consume_strict_bound:
  assumes "consume_strict_book b remaining quote ord book = Inr (n, price, book', b')"
  shows "same_book b b' \<and> n \<le> max 0 remaining
    \<and> (\<not> is_buy (request_order_type (order_request ord)) \<longrightarrow>
        n \<le> sellable_shares b (request_instrument_code (order_request ord)))"
proof -
  let ?r = "order_request ord"
  let ?sell = "\<not> is_buy (request_order_type ?r)"
  have z: "0 \<le> sellable_shares b c" for c by (simp add: sellable_shares_def split: option.split)
  show ?thesis
  proof (cases "\<exists>q ask bid. quote = Some q \<and> book = Some (ask, bid) \<and> 0 < remaining
      \<and> length (if ?sell then bid else ask) = 5")
    case False
    with assms have "n = 0 \<and> b' = bump (missing_book_depth_blocked_update (\<lambda>n. n + 1)) b"
      by (auto simp: consume_strict_book_def Let_def split: option.splits prod.splits if_splits)
    with z show ?thesis by simp
  next
    case True
    then obtain q ask bid where c: "quote = Some q" "book = Some (ask, bid)" "0 < remaining"
      "length (if ?sell then bid else ask) = 5" by blast
    define k where "k = \<lparr>bo_config = config b, bo_order = ord, bo_tick = price_tick q, bo_requested = remaining,
      bo_cash = cash b, bo_sellable = sellable_shares b (request_instrument_code ?r)\<rparr>"
    from assms c obtain rest got amount capped where
      l: "consume_levels k 0 fzero (if ?sell then bid else ask) = Inr (rest, got, amount, capped)"
      and r: "n = 0 \<or> n = got" "same_book b b'"
      by (auto simp: consume_strict_book_def Let_def k_def sellable_shares_def res_simps split: if_splits)
    have "got \<le> remaining \<and> (?sell \<longrightarrow> got \<le> sellable_shares b (request_instrument_code ?r))"
      using consume_levels_bound [OF l] c(3) z [of "request_instrument_code ?r"] by (simp add: k_def)
    with r z c(3) show ?thesis by auto
  qed
qed

lemma determine_fill_bound:
  assumes "determine_fill_volume b remaining quote r = Inr (n, b')"
  shows "same_book b b' \<and> n \<le> max 0 remaining"
proof -
  have t: "v \<le> max 0 remaining" if "turnover_cap (config b) remaining quote = Inr v" "0 < remaining" for v
    using that by (auto simp: turnover_cap_def res_simps split: option.splits if_splits)
  show ?thesis
  proof (cases "0 < remaining")
    case False
    with assms show ?thesis by (simp add: determine_fill_volume_def)
  next
    case True
    show ?thesis
    proof (cases "\<exists>q. quote = Some q \<and> has_depth r q")
      case depth: True
      with assms True show ?thesis
        by (clarsimp simp: determine_fill_volume_def rbind_Inr_iff)
    next
      case False
      with assms True have "turnover_cap (config b) remaining quote = Inr n \<and> b' = b"
        by (cases quote) (auto simp: determine_fill_volume_def rbind_Inr_iff)
      with t True show ?thesis by simp
    qed
  qed
qed

lemma order_fill_bound:
  assumes "order_fill s quote ord = Inr (n, price, book, b')"
  shows "same_book (run_broker s) b' \<and> n \<le> max 0 (order_volume ord - filled_volume ord)
    \<and> (strict_book_depth (config (run_broker s)) \<and> \<not> is_buy (request_order_type (order_request ord)) \<longrightarrow>
        n \<le> sellable_shares (run_broker s) (request_instrument_code (order_request ord)))"
  using assms consume_strict_bound determine_fill_bound
  unfolding order_fill_def Let_def by (fastforce simp: res_simps split: if_splits)

lemma execute_trade_view:
  assumes "execute_trade tid clock b ord price n = (b', ord')"
  obtains t where "orders b' = orders b" "pending_orders b' = pending_orders b" "trades b' = trades b @ [t]"
    "config b' = config b" "market_snapshots b' = market_snapshots b" "current_time b' = current_time b"
    "fills ord n ord' t" "trade_type t = request_order_type (order_request ord)"
    "trade_instrument t = request_instrument_code (order_request ord)"
  using assms by (auto simp: execute_trade_def Let_def fill_order_def fills_def)

section \<open>The methods refine the life of an order\<close>

definition run_view :: "quote_run \<Rightarrow> order_view" where
  "run_view s = (let b = run_broker s in
     (orders b, filter (\<lambda>oid. oid \<notin> set (run_done s)) (pending_orders b), trades b))"

lemma same_book_view: "same_book b b' \<Longrightarrow> orders b' = orders b \<and> pending_orders b' = pending_orders b \<and> trades b' = trades b
   \<and> config b' = config b \<and> positions b' = positions b \<and> market_snapshots b' = market_snapshots b \<and> current_time b' = current_time b"
  by (simp add: same_book_def)

text \<open>One order at one quote: nothing happens to it, or it is filled.\<close>

lemma process_order_cases:
  assumes "process_order ids clock code price s oid = Inr s'"
  obtains (idle) "same_book (run_broker s) (run_broker s')" "run_done s' = run_done s"
  | (filled) ord n p b1 ord1 b2 where
    "dget (orders (run_broker s)) oid = Some ord" "same_book (run_broker s) b1" "0 < n"
    "n \<le> order_volume ord - filled_volume ord"
    "execute_trade (ids (order_id ord)) clock b1 ord p n = (b2, ord1)"
    "run_broker s' = b2\<lparr>orders := dset (order_id ord) ord1 (orders b2)\<rparr>"
    "run_done s' = run_done s @ (if order_volume ord \<le> filled_volume ord1 then [order_id ord] else [])"
    "strict_book_depth (config (run_broker s)) \<and> \<not> is_buy (request_order_type (order_request ord)) \<Longrightarrow>
       n \<le> sellable_shares (run_broker s) (request_instrument_code (order_request ord))"
proof (cases "dget (orders (run_broker s)) oid")
  case None
  then show thesis using assms idle by (simp add: process_order_def)
next
  case (Some ord)
  let ?b = "run_broker s" and ?r = "order_request ord"
  let ?quote = "dget (market_snapshots ?b) code"
  show thesis
  proof (cases "request_instrument_code ?r = code \<and> is_blocked_by_limit ?b ?r ?quote = Inr False \<and> order_triggered ?r price ?quote")
    case False
    have "same_book ?b (run_broker s') \<and> run_done s' = run_done s"
    proof (cases "request_instrument_code ?r = code")
      case code: True
      with assms Some obtain blocked where bl: "is_blocked_by_limit ?b ?r ?quote = Inr blocked"
        by (auto simp: process_order_def Let_def rbind_Inr_iff)
      show ?thesis
      proof (cases blocked)
        case True
        with assms Some code bl obtain b1 where "record_limit_block ?r ?quote ?b = Inr b1" "s' = s\<lparr>run_broker := b1\<rparr>"
          by (auto simp: process_order_def Let_def rbind_Inr_iff)
        then show ?thesis using record_block_frame by simp
      next
        case unblocked: False
        with False code bl have "\<not> order_triggered ?r price ?quote" by simp
        with assms Some code bl unblocked show ?thesis by (simp add: process_order_def Let_def)
      qed
    qed (use assms Some in \<open>simp add: process_order_def Let_def\<close>)
    then show thesis using idle by blast
  next
    case True
    with assms Some obtain n p book b1 where f: "order_fill s ?quote ord = Inr (n, p, book, b1)"
      and s': "s' = apply_order_fill ids clock (s\<lparr>run_broker := b1, run_book := book\<rparr>) ord n p"
      by (auto simp: process_order_def Let_def rbind_Inr_iff)
    note bound = order_fill_bound [OF f]
    show thesis
    proof (cases "0 < n")
      case False
      then have "same_book ?b (run_broker s') \<and> run_done s' = run_done s"
        using bound by (simp add: s' apply_order_fill_def)
      then show thesis using idle by blast
    next
      case True
      define b2 where "b2 = (if n < order_volume ord - filled_volume ord
                        then bump (unfilled_volume_update (\<lambda>v. v + (order_volume ord - filled_volume ord - n)))
                               (bump (liquidity_capped_orders_update (\<lambda>c. c + 1)) b1) else b1)"
      obtain b3 ord1 where e: "execute_trade (ids (order_id ord)) clock b2 ord p n = (b3, ord1)"
        by (cases "execute_trade (ids (order_id ord)) clock b2 ord p n")
      have "same_book ?b b2" using bound by (simp add: b2_def)
      moreover have "n \<le> order_volume ord - filled_volume ord" using bound True by auto
      moreover have "run_broker s' = b3\<lparr>orders := dset (order_id ord) ord1 (orders b3)\<rparr>"
        "run_done s' = run_done s @ (if order_volume ord \<le> filled_volume ord1 then [order_id ord] else [])"
        using e True by (simp_all add: s' apply_order_fill_def Let_def b2_def [symmetric])
      ultimately show thesis using filled [OF Some _ True _ e] bound by blast
    qed
  qed
qed

lemma process_order_move:
  assumes p: "process_order ids clock code price s oid = Inr s'" and ok: "view_ok (run_view s)"
    and oid: "oid \<in> set (pending_orders (run_broker s))" "oid \<notin> set (run_done s)"
  shows "order_move\<^sup>*\<^sup>* (run_view s) (run_view s') \<and> pending_orders (run_broker s') = pending_orders (run_broker s)
    \<and> set (run_done s') \<subseteq> insert oid (set (run_done s)) \<and> config (run_broker s') = config (run_broker s)
    \<and> current_time (run_broker s') = current_time (run_broker s)"
  using p
proof (cases rule: process_order_cases)
  case idle
  then have "run_view s' = run_view s" by (simp add: run_view_def Let_def same_book_def)
  then show ?thesis using same_book_view [OF idle(1)] idle(2) by (simp add: subset_insertI)
next
  case (filled ord n pr b1 ord1 b2)
  let ?ps = "filter (\<lambda>x. x \<notin> set (run_done s)) (pending_orders (run_broker s))"
  have id: "order_id ord = oid" using ok filled(1) by (auto simp: run_view_def Let_def view_ok_def order_ok_def)
  obtain t where e: "orders b2 = orders b1" "pending_orders b2 = pending_orders b1" "trades b2 = trades b1 @ [t]"
    "config b2 = config b1" "current_time b2 = current_time b1" "fills ord n ord1 t"
    using execute_trade_view [OF filled(5)] by metis
  note b1 = same_book_view [OF filled(2)]
  have m: "order_move (run_view s) (dset oid ord1 (orders (run_broker s)),
      if order_status ord1 = FILLED then filter (\<lambda>x. x \<noteq> oid) ?ps else ?ps, trades (run_broker s) @ [t])"
    unfolding run_view_def Let_def
    by (rule order_move.fill [OF _ filled(1,3,4) e(6)]) (use oid in simp)
  have dn: "run_done s' = run_done s @ (if order_status ord1 = FILLED then [oid] else [])"
    using filled(7) e(6) id by (simp add: fills_def)
  have "run_view s' = (dset oid ord1 (orders (run_broker s)),
      if order_status ord1 = FILLED then filter (\<lambda>x. x \<noteq> oid) ?ps else ?ps, trades (run_broker s) @ [t])"
    using filled(6) b1 e(1-3) id by (auto simp: run_view_def Let_def dn intro: filter_cong)
  with m dn filled(6) b1 e show ?thesis by auto
qed

lemma process_all_moves:
  assumes "process_all ids clock code price s oids = Inr s'" "view_ok (run_view s)" "distinct oids"
    and "set oids \<subseteq> set (pending_orders (run_broker s))" "set oids \<inter> set (run_done s) = {}"
  shows "order_move\<^sup>*\<^sup>* (run_view s) (run_view s') \<and> pending_orders (run_broker s') = pending_orders (run_broker s)
    \<and> config (run_broker s') = config (run_broker s) \<and> current_time (run_broker s') = current_time (run_broker s)"
  using assms
proof (induction oids arbitrary: s)
  case (Cons oid oids)
  from Cons.prems(1) obtain s1 where s1: "process_order ids clock code price s oid = Inr s1"
    "process_all ids clock code price s1 oids = Inr s'" by (auto simp: rbind_Inr_iff)
  have m: "order_move\<^sup>*\<^sup>* (run_view s) (run_view s1) \<and> pending_orders (run_broker s1) = pending_orders (run_broker s)
    \<and> set (run_done s1) \<subseteq> insert oid (set (run_done s)) \<and> config (run_broker s1) = config (run_broker s)
    \<and> current_time (run_broker s1) = current_time (run_broker s)"
    using Cons.prems by (intro process_order_move [OF s1(1)]) auto
  then have "view_ok (run_view s1)" using Cons.prems(2) order_moves_ok by blast
  with Cons.IH [OF s1(2)] m Cons.prems(3-5) show ?case by (auto intro: rtranclp_trans)
qed simp

lemma process_pending_moves:
  assumes "process_pending_orders ids clock code price b = Inr b'" "view_ok (view b)"
  shows "order_move\<^sup>*\<^sup>* (view b) (view b') \<and> config b' = config b"
proof -
  from assms(1) obtain book s where
    s: "process_all ids clock code price \<lparr>run_broker = b, run_book = book, run_done = []\<rparr> (pending_orders b) = Inr s"
    and b': "b' = (run_broker s)\<lparr>pending_orders := filter (\<lambda>oid. oid \<notin> set (run_done s)) (pending_orders (run_broker s))\<rparr>"
    by (auto simp: process_pending_orders_def rbind_Inr_iff Let_def)
  let ?s = "\<lparr>run_broker = b, run_book = book, run_done = []\<rparr>"
  have v: "run_view ?s = view b" by (simp add: run_view_def view_def Let_def)
  have "distinct (pending_orders b)" using assms(2) by (simp add: view_def view_ok_def)
  from process_all_moves [OF s _ this] assms(2) v
  have m: "order_move\<^sup>*\<^sup>* (view b) (run_view s)" "config (run_broker s) = config b" by simp_all
  have "view b' = run_view s" by (simp add: b' run_view_def view_def Let_def)
  with m show ?thesis by (simp add: b')
qed

lemma pending_list_ids:
  assumes "view_ok (view b)"
  shows "map order_id (pending_list b) = pending_orders b"
    "ord \<in> set (pending_list b) \<Longrightarrow> dget (orders b) (order_id ord) = Some ord"
proof -
  have o: "\<exists>ord. dget (orders b) oid = Some ord \<and> order_id ord = oid" if "oid \<in> set (pending_orders b)" for oid
    using assms that by (fastforce simp: view_ok_def view_def order_ok_def dmem_def)
  have "map order_id (List.map_filter (dget (orders b)) xs) = xs" if "set xs \<subseteq> set (pending_orders b)" for xs
    using that
  proof (induction xs)
    case (Cons x xs)
    with o [of x] show ?case by (auto simp: List.map_filter_simps)
  qed (simp add: List.map_filter_simps)
  then show "map order_id (pending_list b) = pending_orders b" by (simp add: pending_list_def)
  show "ord \<in> set (pending_list b) \<Longrightarrow> dget (orders b) (order_id ord) = Some ord"
    using o by (fastforce simp: pending_list_def List.map_filter_def)
qed

lemma expired_ids_sub:
  assumes "expired_ids now ords = Inr ids"
  shows "set ids \<subseteq> order_id ` set ords" "distinct (map order_id ords) \<Longrightarrow> distinct ids"
  using assms by (induction ords arbitrary: ids) (auto simp: rbind_Inr_iff split: if_splits)

lemma close_moves:
  assumes "distinct ids" "set ids \<subseteq> set ps" "\<forall>oid \<in> set ps. dmem os oid"
  shows "order_move\<^sup>*\<^sup>* (os, ps, ts)
    (fold (update_order (expire_order now)) ids os, filter (\<lambda>oid. oid \<notin> set ids) ps, ts)"
  using assms
proof (induction ids arbitrary: os ps)
  case (Cons oid ids)
  obtain ord where o: "dget os oid = Some ord" using Cons.prems by (auto simp: dmem_def)
  have m: "order_move (os, ps, ts) (dset oid (expire_order now ord) os, filter (\<lambda>x. x \<noteq> oid) ps, ts)"
    by (rule order_move.close [OF _ o, of _ EXPIRED]) (use Cons.prems in \<open>auto simp: closes_def expire_order_def\<close>)
  have "order_move\<^sup>*\<^sup>* (dset oid (expire_order now ord) os, filter (\<lambda>x. x \<noteq> oid) ps, ts)
     (fold (update_order (expire_order now)) ids (dset oid (expire_order now ord) os),
      filter (\<lambda>x. x \<notin> set ids) (filter (\<lambda>x. x \<noteq> oid) ps), ts)"
    using Cons.prems by (intro Cons.IH) auto
  moreover have "filter (\<lambda>x. x \<notin> set ids) (filter (\<lambda>x. x \<noteq> oid) ps) = filter (\<lambda>x. x \<notin> set (oid # ids)) ps"
    by (auto intro: filter_cong)
  moreover have "update_order (expire_order now) oid os = dset oid (expire_order now ord) os"
    using o by (simp add: update_order_def)
  ultimately show ?case using m by (simp add: converse_rtranclp_into_rtranclp)
qed simp

lemma expire_moves:
  assumes "expire_pending_orders b = Inr b'" "view_ok (view b)"
  shows "order_move\<^sup>*\<^sup>* (view b) (view b') \<and> config b' = config b \<and> positions b' = positions b
    \<and> trades b' = trades b \<and> market_snapshots b' = market_snapshots b \<and> current_time b' = current_time b"
proof (cases "current_time b")
  case None
  with assms show ?thesis by (simp add: expire_pending_orders_def)
next
  case (Some now)
  with assms(1) obtain ids where i: "expired_ids now (pending_list b) = Inr ids"
    and b': "b' = bump (expired_orders_update (\<lambda>n. n + int (length ids)))
              (b\<lparr>orders := fold (update_order (expire_order now)) ids (orders b),
                 pending_orders := filter (\<lambda>oid. oid \<notin> set ids) (pending_orders b)\<rparr>)"
    by (auto simp: expire_pending_orders_def rbind_Inr_iff)
  have p: "set (map order_id (pending_list b)) = set (pending_orders b)" "distinct (map order_id (pending_list b))"
    unfolding pending_list_ids(1) [OF assms(2)] using assms(2) by (simp_all add: view_ok_def view_def)
  have "order_move\<^sup>*\<^sup>* (view b) (view b')"
    unfolding view_def b' bump_frame
    using close_moves [OF expired_ids_sub(2) [OF i p(2)]] expired_ids_sub(1) [OF i] p(1) assms(2)
    by (simp add: view_ok_def view_def)
  then show ?thesis by (simp add: b')
qed

lemma cancel_moves:
  assumes "cancel_order clock oid b = (b', ok)" "view_ok (view b)"
  shows "order_move\<^sup>*\<^sup>* (view b) (view b')"
proof (cases "\<exists>ord. dget (orders b) oid = Some ord \<and> cancellable (order_status ord)")
  case False
  with assms(1) have "b' = b" by (auto simp: cancel_order_def split: option.splits if_splits)
  then show ?thesis by simp
next
  case True
  then obtain ord where o: "dget (orders b) oid = Some ord" "cancellable (order_status ord)" by blast
  have "order_ok (pending_orders b) (trades b) oid ord" using assms(2) o(1) by (auto simp: view_def view_ok_def)
  then have p: "oid \<in> set (pending_orders b)"
    using o(2) by (auto simp: order_ok_def cancellable_def working_def status_ok_def)
  have "order_move (view b) (view b')"
    unfolding view_def using assms(1) o
    by (auto simp: cancel_order_def closes_def intro!: order_move.close [OF p o(1), of CANCELLED] exI [of _ "broker_now b clock"])
  then show ?thesis by blast
qed

lemma place_moves:
  assumes "place_order oid tid clock r b = Inr (b', ord)" "\<not> dmem (orders b) oid"
  shows "order_move (view b) (view b')"
proof -
  let ?o = "new_order oid r (broker_now b clock)"
  have rej: "order_move (view b) (dset oid ord' (orders b), pending_orders b, trades b)"
    if "ord' = ?o\<lparr>order_status := REJECTED\<rparr>" for ord'
    unfolding view_def using assms(2) that by (intro order_move.reject) (simp_all add: new_order_def)
  show ?thesis
  proof (cases "request_volume r \<le> 0 \<or> \<not> broker_validate_order b r")
    case True
    with assms(1) have "b' = keep_order (b, ?o\<lparr>order_status := REJECTED\<rparr>)" by (auto simp: place_order_def Let_def)
    with rej [OF refl] show ?thesis by (simp add: view_def keep_order_def new_order_def)
  next
    case valid: False
    show ?thesis
    proof (cases "request_price_type r = MARKET \<and> \<not> defer_new_orders (config b)")
      case False
      with assms(1) valid have "b' = keep_order (b\<lparr>pending_orders := pending_orders b @ [oid]\<rparr>, ?o\<lparr>order_status := SUBMITTED\<rparr>)"
        by (auto simp: place_order_def Let_def)
      with valid assms(2) show ?thesis
        by (auto simp: view_def keep_order_def new_order_def intro!: order_move.submit)
    next
      case True
      with assms(1) valid obtain b1 ord1 where e: "execute_market_order tid clock b ?o = Inr (b1, ord1)"
        and b': "b' = keep_order (b1, ord1)"
        by (auto simp: place_order_def Let_def rbind_Inr_iff)
      from e consider (no) "same_book b b1" "ord1 = ?o\<lparr>order_status := REJECTED\<rparr>"
        | (yes) p where "execute_trade tid clock b ?o p (request_volume r) = (b1, ord1)"
        using record_block_frame
        by (auto simp: execute_market_order_def Let_def rbind_Inr_iff new_order_def split: if_splits)
      then show ?thesis
      proof cases
        case no
        with rej [OF no(2)] show ?thesis by (simp add: b' view_def keep_order_def same_book_def new_order_def)
      next
        case yes
        obtain t where t: "orders b1 = orders b" "pending_orders b1 = pending_orders b" "trades b1 = trades b @ [t]"
          "fills ?o (request_volume r) ord1 t"
          using execute_trade_view [OF yes] by metis
        have "order_move (view b) (dset oid ord1 (orders b), pending_orders b, trades b @ [t])"
          unfolding view_def using t(4) assms(2) valid
          by (intro order_move.execute [of _ _ ?o]) (simp_all add: new_order_def)
        then show ?thesis using t by (simp add: b' view_def keep_order_def fills_def new_order_def)
      qed
    qed
  qed
qed

end
