(* ===== verification/Backtest_Safety.thy ===== *)
theory Backtest_Safety
  imports Backtest_Facts
begin

text \<open>
  What the backtest broker guarantees: it implements the life of an order, its order book stays consistent in every
  run, ended orders are final, the strict replay sells only settled shares, and expiry comes before
  matching; and that pending sells are not reserved outside the strict modes.
\<close>

section \<open>Runs of the broker\<close>

inductive broker_step :: "BacktestBroker \<Rightarrow> BacktestBroker \<Rightarrow> bool" where
  place: "place_order oid tid clock r b = Inr (b', ord) \<Longrightarrow> \<not> dmem (orders b) oid \<Longrightarrow> broker_step b b'"
| cancel: "cancel_order clock oid b = (b', ok) \<Longrightarrow> broker_step b b'"
| quote: "update_market_data ids code price time q b = Inr b' \<Longrightarrow> broker_step b b'"
| advance: "advance_time t b = Inr b' \<Longrightarrow> broker_step b b'"
| refresh: "refresh_performance_snapshot clock b = Inr b' \<Longrightarrow> broker_step b b'"

text \<open>A broker that has not seen an order; its positions, cash and time are free.\<close>

definition untouched :: "BacktestBroker \<Rightarrow> bool" where
  "untouched b \<longleftrightarrow> orders b = [] \<and> pending_orders b = [] \<and> trades b = []"

text \<open>
  A component that keeps orders: whatever it does to them is a sequence of moves of their life.
\<close>

locale order_keeper =
  fixes step :: "'s \<Rightarrow> 's \<Rightarrow> bool" and book :: "'s \<Rightarrow> order_view" and start :: "'s \<Rightarrow> bool"
  assumes start_ok: "start s \<Longrightarrow> view_ok (book s)"
    and step_moves: "step s s' \<Longrightarrow> view_ok (book s) \<Longrightarrow> order_move\<^sup>*\<^sup>* (book s) (book s')"
begin

lemma run_moves: "step\<^sup>*\<^sup>* s s' \<Longrightarrow> view_ok (book s) \<Longrightarrow> order_move\<^sup>*\<^sup>* (book s) (book s')"
proof (induction rule: rtranclp_induct)
  case (step s1 s2)
  then have "order_move\<^sup>*\<^sup>* (book s) (book s1)" by simp
  moreover from this step.prems have "view_ok (book s1)" by (rule order_moves_ok)
  ultimately show ?case using step_moves [OF step.hyps(2)] by (rule_tac rtranclp_trans) simp_all
qed simp

lemma run_ok: "start s \<Longrightarrow> step\<^sup>*\<^sup>* s s' \<Longrightarrow> view_ok (book s')"
  using run_moves start_ok order_moves_ok by blast

lemma ended_orders_stay:
  assumes "view_ok (book s)" "step\<^sup>*\<^sup>* s s'" "dget (fst (book s)) oid = Some ord" "\<not> working (order_status ord)"
  shows "dget (fst (book s')) oid = Some ord"
  using order_moves_final [OF run_moves [OF assms(2,1)] assms(1,3,4)] .

end

lemma quote_moves:
  assumes "update_market_data ids code price time q b = Inr b'" "view_ok (view b)"
  shows "order_move\<^sup>*\<^sup>* (view b) (view b') \<and> config b' = config b"
proof -
  let ?b = "receive_quote code price time q b"
  from assms(1) obtain b1 b2 where
    e: "expire_pending_orders ?b = Inr b1"
    and p: "process_pending_orders ids time code price (mark_positions code price b1) = Inr b2"
    and r: "refresh_performance_snapshot time b2 = Inr b'"
    by (auto simp: update_market_data_def rbind_Inr_iff)
  have v: "view ?b = view b" by (simp add: view_def)
  have m1: "order_move\<^sup>*\<^sup>* (view b) (view b1)" "config b1 = config b"
    using expire_moves [OF e] assms(2) v by simp_all
  then have ok: "view_ok (view (mark_positions code price b1))"
    using order_moves_ok assms(2) by (simp add: view_def)
  have "order_move\<^sup>*\<^sup>* (view (mark_positions code price b1)) (view b2) \<and> config b2 = config b"
    using process_pending_moves [OF p ok] m1(2) by simp
  then have "order_move\<^sup>*\<^sup>* (view b1) (view b2)" "config b2 = config b" by (simp_all add: view_def)
  moreover have "view b' = view b2" "config b' = config b2" using refresh_frame [OF r] by (simp_all add: view_def)
  ultimately show ?thesis using m1 by (auto intro: rtranclp_trans)
qed

lemma advance_moves:
  assumes "advance_time t b = Inr b'" "view_ok (view b)"
  shows "order_move\<^sup>*\<^sup>* (view b) (view b') \<and> config b' = config b \<and> trades b' = trades b"
proof -
  let ?b = "settle_if_new_day (bt_day t) (b\<lparr>current_time := Some t\<rparr>)"
  have "expire_pending_orders ?b = Inr b'"
    using assms(1) by (auto simp: advance_time_def split: option.splits sum.splits bool.splits)
  moreover have "view ?b = view b" by (simp add: view_def)
  ultimately show ?thesis using expire_moves [of ?b b'] assms(2) by simp
qed

lemma broker_step_moves:
  assumes "broker_step b b'" "view_ok (view b)"
  shows "order_move\<^sup>*\<^sup>* (view b) (view b')"
  using assms
proof (induction rule: broker_step.induct)
  case (place oid tid clock r b b' ord)
  then show ?case using place_moves by blast
next
  case (refresh clock b b')
  then show ?case using refresh_frame [OF refresh(1)] by (simp add: view_def)
qed (use cancel_moves quote_moves advance_moves in blast)+

interpretation backtest: order_keeper broker_step view untouched
  by unfold_locales (simp add: untouched_def view_def view_ok_def, rule broker_step_moves)

section \<open>Properties\<close>

text \<open>
  C24: The backtest broker implements the life of an order: whatever a run has done to an account without orders,
  the next call (placing, cancelling, a quote with its expiries and fills, advancing the time, a refresh)
  changes the orders, the pending list and the executions by moves of that life only. New orders are rejected,
  submitted or executed in full, pending ones are filled by at most what is open or closed without a fill, and each fill adds one execution.
\<close>

theorem backtest_refines_order_life:
  assumes "untouched b0" "broker_step\<^sup>*\<^sup>* b0 b" "broker_step b b'"
  shows "order_move\<^sup>*\<^sup>* (view b) (view b')"
  using backtest.step_moves [OF assms(3)] backtest.run_ok [OF assms(1,2)] by blast

text \<open>
  C25: In every state the broker reaches, each order is stored under its own identifier, its filled volume is the sum
  of its executions, its status agrees with that volume (filled means exactly the volume that was requested, partially filled
  means some but not all of it, rejected means nothing), and it is in the pending list, once, exactly while it
  is submitted or partially filled.
\<close>

theorem backtest_orders_invariant:
  assumes "untouched b0" "broker_step\<^sup>*\<^sup>* b0 b" "dget (orders b) oid = Some ord"
  shows "order_id ord = oid \<and> filled_volume ord = traded (trades b) oid \<and> status_ok ord
    \<and> (oid \<in> set (pending_orders b) \<longleftrightarrow> order_status ord = SUBMITTED \<or> order_status ord = PARTIAL_FILLED)
    \<and> distinct (pending_orders b)"
  using backtest.run_ok [OF assms(1,2)] assms(3) by (auto simp: view_ok_def view_def order_ok_def working_def)

text \<open>
  An order that is filled, cancelled, rejected or expired is never changed again, whatever calls follow.
\<close>

lemma ended_orders_are_final:
  assumes "untouched b0" "broker_step\<^sup>*\<^sup>* b0 b" "broker_step\<^sup>*\<^sup>* b b'"
    and "dget (orders b) oid = Some ord" "order_status ord \<in> {FILLED, CANCELLED, REJECTED, EXPIRED}"
  shows "dget (orders b') oid = Some ord"
proof -
  have "\<not> working (order_status ord)" using assms(5) by (auto simp: working_def)
  from backtest.ended_orders_stay [OF backtest.run_ok [OF assms(1,2)] assms(3) _ this] assms(4)
  show ?thesis by (simp add: view_def)
qed

section \<open>Holdings of the strict replay\<close>

text \<open>Nothing is sold short, and shares bought today are not sellable today.\<close>

definition holding_ok :: "Position \<Rightarrow> bool" where
  "holding_ok p \<longleftrightarrow> 0 \<le> pos_available p \<and> 0 \<le> pos_today_buy p \<and> 0 \<le> pos_frozen p
     \<and> pos_available p + pos_today_buy p \<le> long_volume p"

definition holdings_ok :: "BacktestBroker \<Rightarrow> bool" where
  "holdings_ok b \<longleftrightarrow> (\<forall>code p. dget (positions b) code = Some p \<longrightarrow> holding_ok p)"

definition held :: "BacktestBroker \<Rightarrow> string \<Rightarrow> int" where
  "held b code = (case dget (positions b) code of Some p \<Rightarrow> long_volume p | None \<Rightarrow> 0)"

definition net_volume :: "TradeRecord list \<Rightarrow> string \<Rightarrow> int" where
  "net_volume ts code = sum_list (map (\<lambda>t. if is_buy (trade_type t) then trade_volume t else - trade_volume t)
     (filter (\<lambda>t. trade_instrument t = code) ts))"

definition balanced :: "(string \<Rightarrow> int) \<Rightarrow> BacktestBroker \<Rightarrow> bool" where
  "balanced base b \<longleftrightarrow> holdings_ok b \<and> (\<forall>code. held b code = base code + net_volume (trades b) code)"

lemma net_snoc [simp]:
  "net_volume (ts @ [t]) code = net_volume ts code
     + (if trade_instrument t = code then if is_buy (trade_type t) then trade_volume t else - trade_volume t else 0)"
  by (simp add: net_volume_def)

lemma balanced_cong: "positions b' = positions b \<Longrightarrow> trades b' = trades b \<Longrightarrow> balanced base b' = balanced base b"
  by (simp add: balanced_def holdings_ok_def held_def)

lemma cash_irrelevant [simp]:
  "holdings_ok (b\<lparr>cash := x\<rparr>) = holdings_ok b" "held (b\<lparr>cash := x\<rparr>) = held b"
  "sellable_shares (b\<lparr>cash := x\<rparr>) = sellable_shares b"
  by (simp_all add: holdings_ok_def held_def sellable_shares_def fun_eq_iff)

lemma buy_holdings:
  assumes "holdings_ok b" "0 < n"
  shows "holdings_ok (update_position_buy code n price b)"
    "held (update_position_buy code n price b) c = held b c + (if c = code then n else 0)"
  using assms
  by (auto simp: holdings_ok_def held_def update_position_buy_def Let_def holding_ok_def dget_or_def new_position_def
      split: option.splits)

lemma sell_holdings:
  assumes "holdings_ok b" "0 < n" "n \<le> sellable_shares b code"
  shows "holdings_ok (update_position_sell code n price b)"
    "held (update_position_sell code n price b) c = held b c - (if c = code then n else 0)"
proof -
  from assms(2,3) obtain p where p: "dget (positions b) code = Some p" "n \<le> pos_available p"
    by (auto simp: sellable_shares_def split: option.splits)
  with assms(1) have ok: "holding_ok p" by (auto simp: holdings_ok_def)
  show "holdings_ok (update_position_sell code n price b)"
    using assms(1) p ok by (auto simp: holdings_ok_def update_position_sell_def Let_def holding_ok_def)
  show "held (update_position_sell code n price b) c = held b c - (if c = code then n else 0)"
    using p ok assms(2) by (auto simp: held_def update_position_sell_def Let_def holding_ok_def)
qed

lemma trade_balanced:
  assumes "balanced base b" "execute_trade tid clock b ord price n = (b', ord')" "0 < n"
    and "\<not> is_buy (request_order_type (order_request ord)) \<Longrightarrow>
      n \<le> sellable_shares b (request_instrument_code (order_request ord))"
  shows "balanced base b'"
proof -
  let ?r = "order_request ord"
  obtain t where t: "trades b' = trades b @ [t]" "trade_type t = request_order_type ?r"
    "trade_instrument t = request_instrument_code ?r" "trade_volume t = n"
    using execute_trade_view [OF assms(2)] by (metis fills_def)
  obtain b1 c where p: "positions b' = positions (settle_trade ?r price n c b1)" "positions b1 = positions b"
    using assms(2) by (auto simp: execute_trade_def Let_def)
  have h: "holdings_ok b1" "held b1 = held b" "sellable_shares b1 = sellable_shares b"
    using assms(1) p(2) by (simp_all add: balanced_def holdings_ok_def held_def sellable_shares_def fun_eq_iff)
  have "holdings_ok (settle_trade ?r price n c b1) \<and> (\<forall>x. held (settle_trade ?r price n c b1) x = held b x
      + (if x = request_instrument_code ?r then if is_buy (request_order_type ?r) then n else - n else 0))"
  proof (cases "is_buy (request_order_type ?r)")
    case True
    then show ?thesis
      using buy_holdings [of "b1\<lparr>cash := fsub (cash b1) (fadd (fmul price (float_of_int n)) c)\<rparr>" n] h assms(3)
      by (simp add: settle_trade_def Let_def)
  next
    case False
    then show ?thesis
      using sell_holdings [of "b1\<lparr>cash := fadd (cash b1) (fsub (fmul price (float_of_int n)) c)\<rparr>" n
          "request_instrument_code ?r"] h assms(3,4)
      by (simp add: settle_trade_def Let_def)
  qed
  then show ?thesis
    using assms(1) t p(1) by (auto simp: balanced_def holdings_ok_def held_def)
qed

lemma balanced_map:
  assumes "balanced base b" "trades b' = trades b"
    and "\<And>code. (dget (positions b) code = None \<and> dget (positions b') code = None)
      \<or> (\<exists>p p'. dget (positions b) code = Some p \<and> dget (positions b') code = Some p'
          \<and> long_volume p' = long_volume p \<and> (holding_ok p \<longrightarrow> holding_ok p'))"
  shows "balanced base b'"
proof -
  have "held b' code = held b code" for code using assms(3) [of code] by (auto simp: held_def)
  moreover have "holding_ok p'" if "dget (positions b') code = Some p'" for code p'
    using assms(1) assms(3) [of code] that by (auto simp: balanced_def holdings_ok_def)
  ultimately show ?thesis using assms(1,2) by (simp add: balanced_def holdings_ok_def)
qed

lemma settle_day_balanced: "balanced base b \<Longrightarrow> balanced base (settle_if_new_day day b)"
proof (rule balanced_map)
  show "(dget (positions b) code = None \<and> dget (positions (settle_if_new_day day b)) code = None)
      \<or> (\<exists>p p'. dget (positions b) code = Some p \<and> dget (positions (settle_if_new_day day b)) code = Some p'
          \<and> long_volume p' = long_volume p \<and> (holding_ok p \<longrightarrow> holding_ok p'))" for code
    by (cases "dget (positions b) code") (auto simp: settle_if_new_day_def holding_ok_def)
qed simp_all

lemma mark_balanced: "balanced base b \<Longrightarrow> balanced base (mark_positions code price b)"
proof (rule balanced_map)
  show "(dget (positions b) c = None \<and> dget (positions (mark_positions code price b)) c = None)
      \<or> (\<exists>p p'. dget (positions b) c = Some p \<and> dget (positions (mark_positions code price b)) c = Some p'
          \<and> long_volume p' = long_volume p \<and> (holding_ok p \<longrightarrow> holding_ok p'))" for c
    by (cases "dget (positions b) c")
      (auto simp: mark_positions_def mark_position_def Let_def holding_ok_def split: option.split)
qed simp_all

lemma receive_balanced: "balanced base b \<Longrightarrow> balanced base (receive_quote code price time q b)"
  unfolding receive_quote_def Let_def
  by (rule settle_day_balanced) (simp add: balanced_def holdings_ok_def held_def)

lemma process_order_balanced:
  assumes "process_order ids clock code price s oid = Inr s'" "balanced base (run_broker s)"
    and "strict_book_depth (config (run_broker s))"
  shows "balanced base (run_broker s') \<and> config (run_broker s') = config (run_broker s)"
  using assms(1)
proof (cases rule: process_order_cases)
  case idle
  note b = same_book_view [OF idle(1)]
  then show ?thesis using assms(2) balanced_cong [of "run_broker s'" "run_broker s" base] by simp
next
  case (filled ord n p b1 ord1 b2)
  note b1 = same_book_view [OF filled(2)]
  have "balanced base b1" using assms(2) b1 balanced_cong by blast
  moreover have "sellable_shares b1 = sellable_shares (run_broker s)" using b1 by (simp add: sellable_shares_def fun_eq_iff)
  ultimately have "balanced base b2"
    using trade_balanced [OF _ filled(5,3)] filled(8) assms(3) by simp
  then have "balanced base (run_broker s')" by (simp add: filled(6) balanced_def holdings_ok_def held_def)
  moreover have "config b2 = config b1" using execute_trade_view [OF filled(5)] by metis
  ultimately show ?thesis using b1 by (simp add: filled(6))
qed

lemma process_all_balanced:
  assumes "process_all ids clock code price s oids = Inr s'" "balanced base (run_broker s)"
    and "strict_book_depth (config (run_broker s))"
  shows "balanced base (run_broker s') \<and> config (run_broker s') = config (run_broker s)"
  using assms
proof (induction oids arbitrary: s)
  case (Cons oid oids)
  from Cons.prems(1) obtain s1 where s1: "process_order ids clock code price s oid = Inr s1"
    "process_all ids clock code price s1 oids = Inr s'" by (auto simp: rbind_Inr_iff)
  show ?case
    using Cons.IH [OF s1(2)] process_order_balanced [OF s1(1) Cons.prems(2,3)] Cons.prems(3) by simp
qed simp

lemma process_pending_balanced:
  assumes "process_pending_orders ids clock code price b = Inr b'" "balanced base b" "strict_book_depth (config b)"
  shows "balanced base b' \<and> config b' = config b"
proof -
  from assms(1) obtain book s where
    s: "process_all ids clock code price \<lparr>run_broker = b, run_book = book, run_done = []\<rparr> (pending_orders b) = Inr s"
    and b': "b' = (run_broker s)\<lparr>pending_orders := filter (\<lambda>oid. oid \<notin> set (run_done s)) (pending_orders (run_broker s))\<rparr>"
    by (auto simp: process_pending_orders_def rbind_Inr_iff Let_def)
  show ?thesis
    using process_all_balanced [OF s] assms(2,3) balanced_cong [of b' "run_broker s" base] by (simp add: b')
qed

lemma expire_frame:
  assumes "expire_pending_orders b = Inr b'"
  shows "positions b' = positions b \<and> trades b' = trades b \<and> config b' = config b"
  using assms by (auto simp: expire_pending_orders_def rbind_Inr_iff split: option.splits)

lemma advance_balanced:
  assumes "advance_time t b = Inr b'" "balanced base b"
  shows "balanced base b' \<and> config b' = config b"
proof -
  let ?b = "settle_if_new_day (bt_day t) (b\<lparr>current_time := Some t\<rparr>)"
  have "expire_pending_orders ?b = Inr b'"
    using assms(1) by (auto simp: advance_time_def split: option.splits sum.splits bool.splits)
  note e = expire_frame [OF this]
  have "balanced base (b\<lparr>current_time := Some t\<rparr>)" using assms(2) balanced_cong [of "b\<lparr>current_time := Some t\<rparr>" b] by simp
  from settle_day_balanced [OF this] e balanced_cong [of b' ?b base] show ?thesis by simp
qed

lemma quote_balanced:
  assumes "update_market_data ids code price time q b = Inr b'" "balanced base b" "strict_book_depth (config b)"
  shows "balanced base b' \<and> config b' = config b"
proof -
  let ?b = "receive_quote code price time q b"
  from assms(1) obtain b1 b2 where
    e: "expire_pending_orders ?b = Inr b1"
    and p: "process_pending_orders ids time code price (mark_positions code price b1) = Inr b2"
    and r: "refresh_performance_snapshot time b2 = Inr b'"
    by (auto simp: update_market_data_def rbind_Inr_iff)
  have "balanced base b1"
    using expire_frame [OF e] receive_balanced [OF assms(2)] balanced_cong [of b1 ?b base] by simp
  moreover have c: "config b1 = config b" using expire_frame [OF e] by simp
  ultimately have "balanced base b2 \<and> config b2 = config b"
    using process_pending_balanced [OF p mark_balanced] assms(3) by simp
  then show ?thesis using refresh_frame [OF r] balanced_cong [of b' b2 base] by simp
qed

lemma place_balanced:
  assumes "place_order oid tid clock r b = Inr (b', ord)" "balanced base b"
  shows "balanced base b' \<and> config b' = config b"
proof -
  have keep: "balanced base (keep_order (b1, ord1)) \<and> config (keep_order (b1, ord1)) = config b"
    if "balanced base b1" "config b1 = config b" for b1 ord1
    using that balanced_cong [of "keep_order (b1, ord1)" b1 base] by (simp add: keep_order_def)
  let ?o = "new_order oid r (broker_now b clock)"
  show ?thesis
  proof (cases "request_volume r \<le> 0 \<or> \<not> broker_validate_order b r
      \<or> \<not> (request_price_type r = MARKET \<and> \<not> defer_new_orders (config b))")
    case True
    with assms(1) have "\<exists>b1 ord1. b' = keep_order (b1, ord1) \<and> (b1 = b \<or> b1 = b\<lparr>pending_orders := pending_orders b @ [oid]\<rparr>)"
      by (auto simp: place_order_def Let_def split: if_splits)
    then show ?thesis
      using keep assms(2) balanced_cong [of "b\<lparr>pending_orders := pending_orders b @ [oid]\<rparr>" b base] by auto
  next
    case False
    with assms(1) obtain b1 ord1 where e: "execute_market_order tid clock b ?o = Inr (b1, ord1)"
      and b': "b' = keep_order (b1, ord1)"
      by (auto simp: place_order_def Let_def rbind_Inr_iff)
    from e consider (no) "same_book b b1" | (yes) p where "execute_trade tid clock b ?o p (request_volume r) = (b1, ord1)"
      using record_block_frame
      by (auto simp: execute_market_order_def Let_def rbind_Inr_iff new_order_def split: if_splits)
    then have "balanced base b1 \<and> config b1 = config b"
    proof cases
      case no
      then show ?thesis using same_book_view [OF no] assms(2) balanced_cong [of b1 b base] by simp
    next
      case yes
      have "request_volume r \<le> sellable_shares b (request_instrument_code r)" if "\<not> is_buy (request_order_type r)"
        using False that by (auto simp: broker_validate_order_def validate_sell_def sellable_shares_def Let_def split: option.splits)
      then have "balanced base b1"
        using trade_balanced [OF assms(2) yes] False by (simp add: new_order_def)
      moreover have "config b1 = config b" using execute_trade_view [OF yes] by metis
      ultimately show ?thesis by simp
    qed
    then show ?thesis using keep b' by simp
  qed
qed

lemma step_balanced:
  assumes "broker_step b b'" "balanced base b" "strict_book_depth (config b)"
  shows "balanced base b' \<and> config b' = config b"
  using assms
proof (induction rule: broker_step.induct)
  case (cancel clock oid b b' ok)
  then have "positions b' = positions b" "trades b' = trades b" "config b' = config b"
    by (auto simp: cancel_order_def split: option.splits if_splits)
  with cancel show ?case using balanced_cong [of b' b base] by simp
next
  case (refresh clock b b')
  then show ?case using refresh_frame [OF refresh(1)] balanced_cong [of b' b base] by simp
qed (use place_balanced quote_balanced advance_balanced in blast)+

text \<open>
  C26: In the strict replay (\<open>strict_book_depth\<close>) the holdings are those of the executions: in every state that is
  reached, the shares held of an instrument are the initial ones plus what was bought minus what was sold, they never become negative,
  and the shares available for sale and those bought today are together covered by the holding, so no sale uses shares bought on the same day.
\<close>

theorem strict_replay_holdings:
  assumes "strict_book_depth (config b0)" "trades b0 = []" "holdings_ok b0" "broker_step\<^sup>*\<^sup>* b0 b"
  shows "held b code = held b0 code + net_volume (trades b) code \<and> 0 \<le> held b code
    \<and> (\<forall>p. dget (positions b) code = Some p \<longrightarrow> 0 \<le> pos_available p \<and> pos_available p + pos_today_buy p \<le> long_volume p)"
proof -
  have "balanced (held b0) b \<and> config b = config b0"
    using assms(4)
  proof (induction rule: rtranclp_induct)
    case base
    then show ?case using assms(2,3) by (simp add: balanced_def net_volume_def)
  next
    case (step b1 b2)
    then show ?case using step_balanced [OF step.hyps(2), of "held b0"] assms(1) by simp
  qed
  then have "balanced (held b0) b" by simp
  then have ok: "holding_ok p" if "dget (positions b) code = Some p" for p
    using that by (auto simp: balanced_def holdings_ok_def)
  moreover have "0 \<le> held b code" using ok by (fastforce simp: held_def holding_ok_def split: option.split)
  moreover have "held b code = held b0 code + net_volume (trades b) code"
    using \<open>balanced (held b0) b\<close> by (simp add: balanced_def)
  ultimately show ?thesis by (auto simp: holding_ok_def)
qed

section \<open>Expiry\<close>

lemma expired_ids_due:
  assumes "expired_ids now ords = Inr ids" "ord \<in> set ords" "expire_at_ms ord = Inr due" "0 < due" "due \<le> time_ms now"
  shows "order_id ord \<in> set ids"
  using assms by (induction ords arbitrary: ids) (auto simp: rbind_Inr_iff split: if_splits)

lemma update_orders_get:
  assumes "distinct ids" "oid \<in> set ids" "dget os oid = Some ord"
  shows "dget (fold (update_order f) ids os) oid = Some (f ord)"
proof -
  have keep: "dget (fold (update_order f) xs d) oid = dget d oid" if "oid \<notin> set xs" for xs d
    using that by (induction xs arbitrary: d) (auto simp: update_order_def split: option.splits)
  show ?thesis
    using assms
  proof (induction ids arbitrary: os)
    case (Cons x xs)
    show ?case
    proof (cases "x = oid")
      case True
      with Cons.prems have "update_order f x os = dset oid (f ord) os" by (simp add: update_order_def)
      with Cons.prems True show ?thesis by (simp add: keep)
    next
      case False
      with Cons.prems have "dget (update_order f x os) oid = Some ord"
        by (auto simp: update_order_def split: option.splits)
      with Cons False show ?thesis by simp
    qed
  qed simp
qed

text \<open>
  C27: A quote at or after the deadline of a pending order expires it before anything is matched: the order ends as expired, with the filled volume and
  the executions it had, even when the same quote reaches its price.
\<close>

theorem expired_orders_get_no_fill:
  assumes run: "untouched b0" "broker_step\<^sup>*\<^sup>* b0 b"
    and q: "update_market_data ids code price time quote b = Inr b'"
    and o: "oid \<in> set (pending_orders b)" "dget (orders b) oid = Some ord"
    and due: "expire_at_ms ord = Inr due" "0 < due" "due \<le> time_ms time"
  shows "\<exists>ord'. dget (orders b') oid = Some ord' \<and> order_status ord' = EXPIRED
    \<and> filled_volume ord' = filled_volume ord \<and> traded (trades b') oid = traded (trades b) oid"
proof -
  note ok = backtest.run_ok [OF run]
  let ?b = "receive_quote code price time quote b"
  have v: "view ?b = view b" by (simp add: view_def)
  have ok': "view_ok (view ?b)" using ok v by simp
  from q obtain b1 b2 where e: "expire_pending_orders ?b = Inr b1"
    and p: "process_pending_orders ids time code price (mark_positions code price b1) = Inr b2"
    and r: "refresh_performance_snapshot time b2 = Inr b'"
    by (auto simp: update_market_data_def rbind_Inr_iff)
  from e obtain xs where x: "expired_ids time (pending_list ?b) = Inr xs"
    and b1: "orders b1 = fold (update_order (expire_order time)) xs (orders b)"
    by (auto simp: expire_pending_orders_def rbind_Inr_iff)
  have id: "order_id ord = oid" using ok o(2) by (auto simp: view_def view_ok_def order_ok_def)
  have "oid \<in> set (map order_id (pending_list ?b))" using pending_list_ids(1) [OF ok'] o(1) by simp
  then obtain ord2 where "ord2 \<in> set (pending_list ?b)" "order_id ord2 = oid" by auto
  with pending_list_ids(2) [OF ok'] o(2) have "ord \<in> set (pending_list ?b)" by fastforce
  from expired_ids_due [OF x this due] id have "oid \<in> set xs" by simp
  moreover have "distinct (map order_id (pending_list ?b))"
    unfolding pending_list_ids(1) [OF ok'] using ok by (simp add: view_def view_ok_def)
  ultimately have o1: "dget (orders b1) oid = Some (expire_order time ord)"
    unfolding b1 using update_orders_get [OF expired_ids_sub(2) [OF x]] o(2) by blast
  have ok1: "view_ok (view (mark_positions code price b1))"
    using order_moves_ok [OF conjunct1 [OF expire_moves [OF e ok']] ok'] by (simp add: view_def)
  note m = conjunct1 [OF process_pending_moves [OF p ok1]]
  have "dget (orders b2) oid = Some (expire_order time ord)"
    using order_moves_final [OF m ok1, of oid "expire_order time ord"] o1
    by (simp add: view_def expire_order_def working_def)
  then have o': "dget (orders b') oid = Some (expire_order time ord)" using refresh_frame [OF r] by simp
  have "view_ok (view b')"
    using order_moves_ok [OF conjunct1 [OF quote_moves [OF q ok]] ok] .
  from view_okD(2) [OF this [unfolded view_def] o'] view_okD(2) [OF ok [unfolded view_def] o(2)]
  have "traded (trades b') oid = traded (trades b) oid" by (simp add: order_ok_def expire_order_def)
  with o' show ?thesis by (simp add: expire_order_def)
qed

section \<open>Selling more than is held\<close>

text \<open>A pending sell order that a quote without depth and turnover reaches is filled in full.\<close>

lemma plain_sell_fills:
  assumes "\<not> strict_book_depth (config (run_broker s))"
    and "dget (market_snapshots (run_broker s)) code = Some (price_snapshot price)"
    and "dget (orders (run_broker s)) oid = Some ord" "order_id ord = oid" "filled_volume ord = 0"
    and r: "order_request ord = r" "request_instrument_code r = code" "request_order_type r = SELL"
      "request_price_type r = LIMIT" "fle (request_price r) price" "0 < request_volume r"
  shows "\<exists>s' t. process_order ids clock code price s oid = Inr s'
    \<and> config (run_broker s') = config (run_broker s) \<and> market_snapshots (run_broker s') = market_snapshots (run_broker s)
    \<and> (\<forall>x. x \<noteq> oid \<longrightarrow> dget (orders (run_broker s')) x = dget (orders (run_broker s)) x)
    \<and> trades (run_broker s') = trades (run_broker s) @ [t]
    \<and> trade_volume t = request_volume r \<and> trade_instrument t = code \<and> trade_type t = SELL"
proof -
  let ?b = "run_broker s"
  obtain b2 ord1 where e: "execute_trade (ids oid) clock ?b ord (request_price r) (request_volume r) = (b2, ord1)"
    by (cases "execute_trade (ids oid) clock ?b ord (request_price r) (request_volume r)")
  obtain t where t: "orders b2 = orders ?b" "trades b2 = trades ?b @ [t]" "config b2 = config ?b"
    "market_snapshots b2 = market_snapshots ?b" "fills ord (request_volume r) ord1 t"
    "trade_type t = request_order_type (order_request ord)"
    "trade_instrument t = request_instrument_code (order_request ord)"
    using execute_trade_view [OF e] by metis
  have "order_fill s (Some (price_snapshot price)) ord = Inr (request_volume r, request_price r, run_book s, ?b)"
    using assms by (simp add: order_fill_def determine_fill_volume_def turnover_cap_def price_snapshot_def
        has_depth_def is_buy_def Let_def)
  moreover have "is_blocked_by_limit ?b r (Some (price_snapshot price)) = Inr False"
    "order_triggered r price (Some (price_snapshot price))"
    using r by (simp_all add: is_blocked_by_limit_def halted_def at_limit_def price_snapshot_def order_triggered_def
        limit_touched_def is_buy_def)
  ultimately have "process_order ids clock code price s oid =
      Inr (apply_order_fill ids clock (s\<lparr>run_broker := ?b, run_book := run_book s\<rparr>) ord (request_volume r) (request_price r))"
    using assms(2,3) r by (simp add: process_order_def Let_def)
  then show ?thesis
    using assms(4,5) r e t by (simp add: apply_order_fill_def Let_def fills_def)
qed

lemma limit_sell_accepted:
  assumes "\<not> defer_new_orders (config b)" "dget (positions b) (request_instrument_code r) = Some p"
    and "request_volume r \<le> pos_available p" "0 < request_volume r"
    and "request_order_type r = SELL" "request_price_type r = LIMIT"
  shows "\<exists>ord. place_order oid tid clock r b = Inr (b\<lparr>pending_orders := pending_orders b @ [oid],
      orders := dset oid ord (orders b)\<rparr>, ord) \<and> order_id ord = oid \<and> order_request ord = r \<and> filled_volume ord = 0"
  using assms
  by (simp add: place_order_def broker_validate_order_def validate_sell_def is_buy_def Let_def keep_order_def new_order_def)

text \<open>
  Without the strict book and without deferral, the sell check does not reserve what pending orders will sell: two limit orders, each for all available
  shares of a position, are both accepted, and a quote that reaches their price fills both of them, so twice the available shares are sold.
\<close>

lemma pending_sells_can_oversell:
  assumes cfg: "\<not> strict_book_depth (config b)" "\<not> defer_new_orders (config b)" and p: "pending_orders b = []"
    and pos: "dget (positions b) (request_instrument_code r) = Some pos" "request_volume r = pos_available pos"
    and q: "dget (market_snapshots b) (request_instrument_code r) = Some (price_snapshot price)"
    and r: "request_order_type r = SELL" "request_price_type r = LIMIT" "fle (request_price r) price" "0 < request_volume r"
    and ids: "oid1 \<noteq> oid2"
  shows "\<exists>b1 b2 b3 ord1 ord2. place_order oid1 tid1 clock r b = Inr (b1, ord1)
     \<and> place_order oid2 tid2 clock r b1 = Inr (b2, ord2)
     \<and> process_pending_orders new_id clock (request_instrument_code r) price b2 = Inr b3
     \<and> net_volume (trades b3) (request_instrument_code r)
         = net_volume (trades b) (request_instrument_code r) - 2 * pos_available pos"
proof -
  let ?code = "request_instrument_code r"
  obtain ord1 where o1: "place_order oid1 tid1 clock r b =
      Inr (b\<lparr>pending_orders := pending_orders b @ [oid1], orders := dset oid1 ord1 (orders b)\<rparr>, ord1)"
    "order_id ord1 = oid1" "order_request ord1 = r" "filled_volume ord1 = 0"
    using limit_sell_accepted [OF cfg(2) pos(1) _ r(4,1,2)] pos(2) by fastforce
  define b1 where "b1 = b\<lparr>pending_orders := pending_orders b @ [oid1], orders := dset oid1 ord1 (orders b)\<rparr>"
  obtain ord2 where o2: "place_order oid2 tid2 clock r b1 =
      Inr (b1\<lparr>pending_orders := pending_orders b1 @ [oid2], orders := dset oid2 ord2 (orders b1)\<rparr>, ord2)"
    "order_id ord2 = oid2" "order_request ord2 = r" "filled_volume ord2 = 0"
    using limit_sell_accepted [of b1 r pos] cfg(2) pos r by (fastforce simp: b1_def)
  define b2 where "b2 = b1\<lparr>pending_orders := pending_orders b1 @ [oid2], orders := dset oid2 ord2 (orders b1)\<rparr>"
  let ?s = "\<lparr>run_broker = b2, run_book = None, run_done = []\<rparr>"
  have b2: "config b2 = config b" "market_snapshots b2 = market_snapshots b" "trades b2 = trades b"
    "pending_orders b2 = [oid1, oid2]" "dget (orders b2) oid1 = Some ord1" "dget (orders b2) oid2 = Some ord2"
    using p ids by (simp_all add: b2_def b1_def)
  obtain s1 t1 where s1: "process_order new_id clock ?code price ?s oid1 = Inr s1"
    "config (run_broker s1) = config b" "market_snapshots (run_broker s1) = market_snapshots b"
    "dget (orders (run_broker s1)) oid2 = Some ord2" "trades (run_broker s1) = trades b @ [t1]"
    "trade_volume t1 = request_volume r" "trade_instrument t1 = ?code" "trade_type t1 = SELL"
    using plain_sell_fills [of ?s ?code price oid1 ord1 r new_id clock] cfg q r o1(2-4) b2 ids by auto
  obtain s2 t2 where s2: "process_order new_id clock ?code price s1 oid2 = Inr s2"
    "trades (run_broker s2) = trades (run_broker s1) @ [t2]"
    "trade_volume t2 = request_volume r" "trade_instrument t2 = ?code" "trade_type t2 = SELL"
    using plain_sell_fills [of s1 ?code price oid2 ord2 r new_id clock] cfg q r o2(2-4) s1 by auto
  have "\<exists>b3. process_pending_orders new_id clock ?code price b2 = Inr b3 \<and> trades b3 = trades (run_broker s2)"
    using cfg(1) b2 s1(1) s2(1) by (simp add: process_pending_orders_def Let_def)
  then obtain b3 where b3: "process_pending_orders new_id clock ?code price b2 = Inr b3"
    "trades b3 = trades (run_broker s2)" by blast
  have "net_volume (trades b3) ?code = net_volume (trades b) ?code - 2 * pos_available pos"
    unfolding b3(2) s2(2) s1(5) net_snoc using s1(6-8) s2(3-5) pos(2) by (simp add: is_buy_def)
  moreover have "place_order oid1 tid1 clock r b = Inr (b1, ord1)" "place_order oid2 tid2 clock r b1 = Inr (b2, ord2)"
    using o1(1) o2(1) unfolding b1_def b2_def by simp_all
  ultimately show ?thesis using b3(1) by blast
qed

definition plain_config :: broker_config where
  "plain_config =
     \<lparr>commission_rate = fzero, slippage_rate = fzero, strict_book_slippage_rate = fzero, min_commission = fzero,
      stamp_tax_rate = fzero, transfer_fee_rate = fzero, participation_cap_pct = Fin 1,
      book_depth_participation_pct = Fin 1, strict_book_depth = False, no_queue_credit = False,
      defer_new_orders = False\<rparr>"

definition small_holder :: BacktestBroker where
  "small_holder = (new_broker plain_config (Fin 1000))
     \<lparr>positions := [(''c'', new_position\<lparr>long_volume := 100, pos_available := 100\<rparr>)]\<rparr>"

definition sell_all :: OrderRequest where
  "sell_all = \<lparr>request_instrument_code = ''c'', request_order_type = SELL, request_price_type = LIMIT,
     request_volume = 100, request_price = Fin 10, request_metadata = []\<rparr>"

definition noon :: broker_time where "noon = \<lparr>bt_us = 0, bt_day = 0, bt_aware = True\<rparr>"


definition quoted_holder :: BacktestBroker where
  "quoted_holder = small_holder\<lparr>market_snapshots := [(''c'', price_snapshot (Fin 10))]\<rparr>"

definition brief_sell :: OrderRequest where
  "brief_sell = sell_all\<lparr>request_metadata := [(''order_expire_at_ms'', VInt 1)]\<rparr>"

definition later :: broker_time where "later = \<lparr>bt_us = 1000000, bt_day = 0, bt_aware = True\<rparr>"

definition waiting_sell :: OrderResponse where
  "waiting_sell = (new_order ''a'' brief_sell noon)\<lparr>order_status := SUBMITTED\<rparr>"

definition waiting_holder :: BacktestBroker where
  "waiting_holder = small_holder\<lparr>orders := [(''a'', waiting_sell)], pending_orders := [''a'']\<rparr>"

definition cancelled_sell :: OrderResponse where
  "cancelled_sell = waiting_sell\<lparr>order_status := CANCELLED, last_update_time := Some noon\<rparr>"

definition cancelled_holder :: BacktestBroker where
  "cancelled_holder = small_holder\<lparr>orders := [(''a'', cancelled_sell)]\<rparr>"

lemmas account_defs = waiting_sell_def waiting_holder_def cancelled_sell_def cancelled_holder_def small_holder_def
  brief_sell_def sell_all_def later_def new_order_def plain_config_def new_broker_def noon_def

lemma sample_placed: "place_order ''a'' ''t'' noon brief_sell small_holder = Inr (waiting_holder, waiting_sell)"
  by (simp add: place_order_def broker_validate_order_def validate_sell_def is_buy_def Let_def keep_order_def dset_def
      broker_now_def account_defs)

lemma sample_cancelled: "cancel_order noon ''a'' waiting_holder = (cancelled_holder, True)"
  by (simp add: cancel_order_def cancellable_def broker_now_def dset_def account_defs)

lemma sample_steps: "broker_step small_holder waiting_holder" "broker_step waiting_holder cancelled_holder"
  using broker_step.place [OF sample_placed] broker_step.cancel [OF sample_cancelled]
  by (simp_all add: account_defs dmem_def)

lemma sample_reached: "broker_step\<^sup>*\<^sup>* small_holder waiting_holder"
  using sample_steps(1) by (rule r_into_rtranclp)

lemma sample_untouched: "untouched small_holder"
  by (simp add: untouched_def account_defs)

theorem backtest_refines_order_life_witness: "order_move\<^sup>*\<^sup>* (view small_holder) (view waiting_holder)"
  using backtest_refines_order_life [OF sample_untouched rtranclp.rtrancl_refl sample_steps(1)] .

theorem backtest_orders_invariant_witness:
  "order_id waiting_sell = ''a'' \<and> filled_volume waiting_sell = traded (trades waiting_holder) ''a''
     \<and> status_ok waiting_sell \<and> distinct (pending_orders waiting_holder)"
  using backtest_orders_invariant [OF sample_untouched sample_reached, of "''a''" waiting_sell]
  by (simp add: account_defs)

definition strict_holder :: BacktestBroker where
  "strict_holder = small_holder\<lparr>config := plain_config\<lparr>strict_book_depth := True\<rparr>\<rparr>"

theorem strict_replay_holdings_witness:
  "\<exists>b. advance_time noon strict_holder = Inr b \<and> held b ''c'' = 100 + net_volume (trades b) ''c'' \<and> 0 \<le> held b ''c''"
proof -
  obtain b where b: "advance_time noon strict_holder = Inr b"
    by (simp add: advance_time_def expire_pending_orders_def pending_list_def settle_if_new_day_def strict_holder_def account_defs)
  have s: "strict_book_depth (config strict_holder)" "trades strict_holder = []" "holdings_ok strict_holder"
    "held strict_holder ''c'' = 100"
    by (simp_all add: strict_holder_def small_holder_def new_broker_def held_def holdings_ok_def holding_ok_def new_position_def)
  show ?thesis
    using strict_replay_holdings [OF s(1-3) r_into_rtranclp [of broker_step, OF broker_step.advance [OF b]], of "''c''"] b s(4)
    by auto
qed

lemma later_ms: "time_ms later = 1000"
  using frnd_quarter [of 4] frnd_quarter [of 4000] by (simp add: time_ms_def later_def trunc_rat_def)

lemma refresh_defined:
  assumes "peak_equity b = Fin 1000" "equity_curve b = [Fin 1000]"
  shows "\<exists>b'. refresh_performance_snapshot clock b = Inr b'"
proof -
  have "\<not> flt (Fin 1000) fzero" by simp
  with assms show ?thesis
    by (auto simp: refresh_performance_snapshot_def update_equity_curve_def fdivide_def Let_def)
qed

lemma no_pending_processed:
  assumes "pending_orders b = []" "\<not> strict_book_depth (config b)"
  shows "process_pending_orders ids clock code price b = Inr b"
  using assms by (simp add: process_pending_orders_def Let_def)

lemma sample_expires:
  "\<exists>b. update_market_data id ''c'' fzero later None waiting_holder = Inr b"
proof -
  let ?b = "receive_quote ''c'' fzero later None waiting_holder"
  have b: "pending_orders ?b = [''a'']" "orders ?b = [(''a'', waiting_sell)]" "current_time ?b = Some later"
     "config ?b = plain_config" "peak_equity ?b = Fin 1000" "equity_curve ?b = [Fin 1000]"
    by (simp_all add: receive_quote_def update_ghost_dca_def settle_if_new_day_def waiting_holder_def small_holder_def
        new_broker_def Let_def)
  have "expire_at_ms waiting_sell = Inr 1" "order_id waiting_sell = ''a''"
    by (simp_all add: expire_at_ms_def account_defs)
  with b obtain b1 where e: "expire_pending_orders ?b = Inr b1" "pending_orders b1 = []" "config b1 = plain_config"
    "peak_equity b1 = Fin 1000" "equity_curve b1 = [Fin 1000]"
    by (simp add: expire_pending_orders_def pending_list_def later_ms bump_def)
  let ?m = "mark_positions ''c'' fzero b1"
  have "process_pending_orders id later ''c'' fzero ?m = Inr ?m"
    using e by (intro no_pending_processed) (simp_all add: plain_config_def)
  moreover have "peak_equity ?m = Fin 1000" "equity_curve ?m = [Fin 1000]"
    using e by (simp_all add: mark_positions_def split: option.split)
  then obtain b' where "refresh_performance_snapshot later ?m = Inr b'"
    using refresh_defined by blast
  ultimately show ?thesis using e(1) by (simp add: update_market_data_def)
qed

theorem expired_orders_get_no_fill_witness:
  "\<exists>b ord. update_market_data id ''c'' fzero later None waiting_holder = Inr b
     \<and> dget (orders b) ''a'' = Some ord \<and> order_status ord = EXPIRED \<and> filled_volume ord = 0"
proof -
  obtain b where b: "update_market_data id ''c'' fzero later None waiting_holder = Inr b"
    using sample_expires by blast
  show ?thesis
    using expired_orders_get_no_fill [OF sample_untouched sample_reached b, of "''a''" waiting_sell 1] b
    by (simp add: later_ms) (auto simp: account_defs expire_at_ms_def)
qed

end
