(* ===== verification/Simulator_Broker.thy ===== *)
theory Simulator_Broker
  imports Backtest_Broker
begin

text \<open>
  The paper-trading broker (\<open>brokers/simulator.py\<close>): it inherits the account of the backtest broker and
  executes each order in an asynchronous task. A task runs without interruption from one \<open>sleep\<close> to
  the next, so the model cuts it at the sleeps: \<open>tasks\<close> holds the tasks that sleep, with what they
  know when they wake up, and \<open>run_task\<close> is the piece that runs then. The durations of the sleeps only
  decide the order in which tasks wake up. The random numbers of a piece are an argument.
\<close>

section \<open>State\<close>

text \<open>
  \<open>Waiting\<close>: the loop of \<open>_process_order_async\<close> with the half seconds it has waited; \<open>Executing\<close>: the delay
  before an execution at the price that was seen; \<open>Remaining\<close>: \<open>_process_remaining_order\<close>.
\<close>

datatype sim_task = Waiting string nat | Executing string pyfloat | Remaining string

record SimulatorBroker =
  base :: BacktestBroker
  partial_fill_prob :: pyfloat
  enable_risk_control :: bool
  max_order_amount :: pyfloat
  max_position_value :: pyfloat
  subscribed_instruments :: "string set"
  realtime_prices :: "(string, pyfloat) dict"
  tasks :: "sim_task list"

definition new_simulator ::
  "pyfloat \<Rightarrow> pyfloat \<Rightarrow> pyfloat \<Rightarrow> pyfloat \<Rightarrow> pyfloat \<Rightarrow> bool \<Rightarrow> pyfloat \<Rightarrow> pyfloat \<Rightarrow> SimulatorBroker res" where
  "new_simulator capital commission slippage minimum prob risk max_order max_position =
     rbind (make_config
        \<lparr>commission_rate = commission, slippage_rate = slippage, strict_book_slippage_rate = fzero,
         min_commission = minimum, stamp_tax_rate = fround (5 / 10000), transfer_fee_rate = fround (1 / 100000),
         participation_cap_pct = fround (5 / 100), book_depth_participation_pct = fround (25 / 100),
         strict_book_depth = False, no_queue_credit = False, defer_new_orders = False\<rparr>) (\<lambda>cfg.
       Inr \<lparr>base = new_broker cfg capital, partial_fill_prob = prob, enable_risk_control = risk,
            max_order_amount = max_order, max_position_value = max_position, subscribed_instruments = {},
            realtime_prices = [], tasks = []\<rparr>)"

definition subscribe_realtime_data :: "string \<Rightarrow> SimulatorBroker \<Rightarrow> SimulatorBroker" where
  "subscribe_realtime_data code s = s\<lparr>subscribed_instruments := insert code (subscribed_instruments s)\<rparr>"

definition unsubscribe_realtime_data :: "string \<Rightarrow> SimulatorBroker \<Rightarrow> SimulatorBroker" where
  "unsubscribe_realtime_data code s = s\<lparr>subscribed_instruments := subscribed_instruments s - {code}\<rparr>"

text \<open>\<open>realtime_prices.get(code) or current_prices.get(code)\<close>\<close>

definition latest_price :: "SimulatorBroker \<Rightarrow> string \<Rightarrow> pyfloat option" where
  "latest_price s code =
     (case dget (realtime_prices s) code of
        Some p \<Rightarrow> if p = fzero then dget (current_prices (base s)) code else Some p
      | None \<Rightarrow> dget (current_prices (base s)) code)"

definition known_price :: "SimulatorBroker \<Rightarrow> string \<Rightarrow> pyfloat option" where
  "known_price s code = (case latest_price s code of Some p \<Rightarrow> if p = fzero then None else Some p | None \<Rightarrow> None)"

section \<open>Random numbers\<close>

text \<open>\<open>random()\<close>, and the draws that \<open>randint\<close> and \<open>uniform\<close> make from the generator.\<close>

record sim_draws =
  draw_partial :: pyfloat
  draw_volume :: nat
  draw_slippage :: pyfloat

definition py_randint :: "int \<Rightarrow> int \<Rightarrow> nat \<Rightarrow> int res" where
  "py_randint a b k =
     (if b < a then Inl (ValueError ''empty range in randrange'') else Inr (a + int k mod (b - a + 1)))"

definition py_uniform :: "pyfloat \<Rightarrow> pyfloat \<Rightarrow> pyfloat \<Rightarrow> pyfloat" where
  "py_uniform a b u = fadd a (fmul (fsub b a) u)"

section \<open>Placing and cancelling\<close>

datatype sim_risk = RiskPassed | AmountOverLimit | PositionOverLimit | CashTooLow

definition sim_risk_check :: "SimulatorBroker \<Rightarrow> OrderRequest \<Rightarrow> sim_risk" where
  "sim_risk_check s r =
     (let price = (if fle (request_price r) fzero
                   then (case latest_price s (request_instrument_code r) of Some p \<Rightarrow> p | None \<Rightarrow> fzero)
                   else request_price r);
          amount = fmul price (float_of_int (request_volume r));
          buy = is_buy (request_order_type r)
      in if flt (max_order_amount s) amount then AmountOverLimit
         else if buy \<and> (case dget (positions (base s)) (request_instrument_code r) of
                           Some p \<Rightarrow> flt (max_position_value s) (fadd (market_value p) amount)
                         | None \<Rightarrow> False) then PositionOverLimit
         else if buy \<and> flt (cash (base s)) (fmul amount (fadd (Fin 1) (commission_rate (config (base s)))))
         then CashTooLow else RiskPassed)"

definition store_order :: "OrderResponse \<Rightarrow> SimulatorBroker \<Rightarrow> SimulatorBroker" where
  "store_order ord s = s\<lparr>base := keep_order (base s, ord)\<rparr>"

definition sim_place_order ::
  "string \<Rightarrow> broker_time \<Rightarrow> OrderRequest \<Rightarrow> SimulatorBroker \<Rightarrow> SimulatorBroker \<times> OrderResponse" where
  "sim_place_order oid clock r s =
     (let ord = new_order oid r clock; rejected = ord\<lparr>order_status := REJECTED\<rparr>;
          submitted = ord\<lparr>order_status := SUBMITTED\<rparr>
      in if request_volume r \<le> 0 then (store_order rejected s, rejected)
         else if enable_risk_control s \<and> sim_risk_check s r \<noteq> RiskPassed then (store_order rejected s, rejected)
         else if \<not> broker_validate_order (base s) r then (store_order rejected s, rejected)
         else ((store_order submitted s)\<lparr>tasks := tasks s @ [Waiting oid 0]\<rparr>, submitted))"

text \<open>\<open>cancel_order\<close> is inherited.\<close>

definition sim_cancel_order :: "broker_time \<Rightarrow> string \<Rightarrow> SimulatorBroker \<Rightarrow> SimulatorBroker \<times> bool" where
  "sim_cancel_order clock oid s = (case cancel_order clock oid (base s) of (b, ok) \<Rightarrow> (s\<lparr>base := b\<rparr>, ok))"

section \<open>Executions\<close>

definition still_working :: "OrderResponse \<Rightarrow> bool" where
  "still_working ord \<longleftrightarrow> order_status ord \<in> {SUBMITTED, PARTIAL_FILLED}"

definition should_execute :: "OrderRequest \<Rightarrow> pyfloat \<Rightarrow> bool" where
  "should_execute r price =
     (case request_price_type r of
        MARKET \<Rightarrow> True
      | LIMIT \<Rightarrow> if is_buy (request_order_type r) then fle price (request_price r) else fle (request_price r) price
      | _ \<Rightarrow> False)"

definition sim_execute_trade ::
  "string \<Rightarrow> broker_time \<Rightarrow> OrderResponse \<Rightarrow> pyfloat \<Rightarrow> int \<Rightarrow> SimulatorBroker \<Rightarrow> SimulatorBroker" where
  "sim_execute_trade tid clock ord price n s =
     s\<lparr>base := keep_order (execute_trade tid clock (base s) ord price n)\<rparr>"

definition execute_trade_with_slippage ::
  "string \<Rightarrow> broker_time \<Rightarrow> pyfloat \<Rightarrow> OrderResponse \<Rightarrow> pyfloat \<Rightarrow> SimulatorBroker \<Rightarrow> SimulatorBroker" where
  "execute_trade_with_slippage tid clock u ord price s =
     (let r = order_request ord;
          slip = fmul price (py_uniform fzero (fmul (slippage_rate (config (base s))) (Fin 2)) u)
      in sim_execute_trade tid clock ord
           (if is_buy (request_order_type r) then fadd price slip else fsub price slip) (request_volume r) s)"

definition partial_fill_order ::
  "OrderResponse \<Rightarrow> pyfloat \<Rightarrow> int \<Rightarrow> pyfloat \<Rightarrow> broker_time \<Rightarrow> OrderResponse" where
  "partial_fill_order ord price n commission time =
     (let filled = filled_volume ord + n; total = fadd (filled_amount ord) (fmul price (float_of_int n))
      in ord\<lparr>order_status := PARTIAL_FILLED, filled_volume := filled, filled_amount := total,
             avg_price := (if 0 < filled then fdiv total (float_of_int filled) else avg_price ord),
             order_commission := fadd (order_commission ord) commission, last_update_time := Some time\<rparr>)"

definition create_trade_record ::
  "string \<Rightarrow> OrderResponse \<Rightarrow> pyfloat \<Rightarrow> int \<Rightarrow> pyfloat \<Rightarrow> broker_time \<Rightarrow> TradeRecord" where
  "create_trade_record tid ord price n commission time =
     (let r = order_request ord
      in \<lparr>trade_id = tid, trade_order_id = order_id ord, trade_instrument = request_instrument_code r,
          trade_type = request_order_type r, trade_price = price, trade_volume = n,
          trade_amount = fmul price (float_of_int n), trade_commission = commission, trade_time = time,
          trade_metadata = request_metadata r\<rparr>)"

definition execute_partial_trade ::
  "string \<Rightarrow> broker_time \<Rightarrow> OrderResponse \<Rightarrow> pyfloat \<Rightarrow> int \<Rightarrow> SimulatorBroker \<Rightarrow> SimulatorBroker" where
  "execute_partial_trade tid clock ord price n s =
     (let b = base s; r = order_request ord; amount = fmul price (float_of_int n);
          commission = pmax (fmul amount (commission_rate (config b))) (min_commission (config b));
          ord1 = partial_fill_order ord price n commission clock;
          b1 = b\<lparr>trades := trades b @ [create_trade_record tid ord price n commission clock]\<rparr>;
          s1 = s\<lparr>base := keep_order (settle_trade r price n commission b1, ord1)\<rparr>
      in if filled_volume ord1 < request_volume r
         then s1\<lparr>tasks := tasks s1 @ [Remaining (order_id ord)]\<rparr> else s1)"

section \<open>The pieces of the tasks\<close>

definition expire_submitted :: "broker_time \<Rightarrow> OrderResponse \<Rightarrow> SimulatorBroker \<Rightarrow> SimulatorBroker" where
  "expire_submitted clock ord s =
     (if order_status ord = SUBMITTED
      then store_order (ord\<lparr>order_status := EXPIRED, last_update_time := Some clock\<rparr>) s else s)"

definition resume_waiting :: "broker_time \<Rightarrow> OrderResponse \<Rightarrow> nat \<Rightarrow> SimulatorBroker \<Rightarrow> SimulatorBroker" where
  "resume_waiting clock ord waited s =
     (let sleep = (\<lambda>t. s\<lparr>tasks := tasks s @ [t]\<rparr>); oid = order_id ord
      in if 60 \<le> waited then expire_submitted clock ord s
         else if \<not> still_working ord then s
         else case known_price s (request_instrument_code (order_request ord)) of
                None \<Rightarrow> sleep (Waiting oid (waited + 2))
              | Some price \<Rightarrow>
                  if should_execute (order_request ord) price then sleep (Executing oid price)
                  else sleep (Waiting oid (waited + 1)))"

definition resume_executing ::
  "string \<Rightarrow> broker_time \<Rightarrow> sim_draws \<Rightarrow> OrderResponse \<Rightarrow> pyfloat \<Rightarrow> SimulatorBroker \<Rightarrow> SimulatorBroker res" where
  "resume_executing tid clock d ord price s =
     (let volume = request_volume (order_request ord)
      in if \<not> still_working ord then Inr s
         else if flt (draw_partial d) (partial_fill_prob s) \<and> 100 < volume
         then rbind (py_randint 100 (volume - 100) (draw_volume d)) (\<lambda>n.
                Inr (execute_partial_trade tid clock ord price n s))
         else Inr (execute_trade_with_slippage tid clock (draw_slippage d) ord price s))"

definition process_remaining_order ::
  "string \<Rightarrow> broker_time \<Rightarrow> OrderResponse \<Rightarrow> SimulatorBroker \<Rightarrow> SimulatorBroker" where
  "process_remaining_order tid clock ord s =
     (case known_price s (request_instrument_code (order_request ord)) of
        None \<Rightarrow> s
      | Some price \<Rightarrow>
          sim_execute_trade tid clock ord price (request_volume (order_request ord) - filled_volume ord) s)"

text \<open>A task knows its order object, which is the one that is stored under its identifier.\<close>

fun task_order :: "sim_task \<Rightarrow> string" where
  "task_order (Waiting oid _) = oid"
| "task_order (Executing oid _) = oid"
| "task_order (Remaining oid) = oid"

fun resume :: "string \<Rightarrow> broker_time \<Rightarrow> sim_draws \<Rightarrow> OrderResponse \<Rightarrow> sim_task \<Rightarrow> SimulatorBroker \<Rightarrow> SimulatorBroker res" where
  "resume tid clock d ord (Waiting _ waited) s = Inr (resume_waiting clock ord waited s)"
| "resume tid clock d ord (Executing _ price) s = resume_executing tid clock d ord price s"
| "resume tid clock d ord (Remaining _) s = Inr (process_remaining_order tid clock ord s)"

definition run_task :: "string \<Rightarrow> broker_time \<Rightarrow> sim_draws \<Rightarrow> sim_task \<Rightarrow> SimulatorBroker \<Rightarrow> SimulatorBroker res" where
  "run_task tid clock d t s =
     (case dget (orders (base s)) (task_order t) of None \<Rightarrow> Inr s | Some ord \<Rightarrow> resume tid clock d ord t s)"

section \<open>Prices\<close>

definition update_realtime_price ::
  "string \<Rightarrow> pyfloat \<Rightarrow> broker_time option \<Rightarrow> broker_time \<Rightarrow> SimulatorBroker \<Rightarrow> SimulatorBroker res" where
  "update_realtime_price code price timestamp clock s =
     (let b = base s;
          b1 = b\<lparr>current_prices := dset code price (current_prices b),
                 current_time := Some (case timestamp of Some t \<Rightarrow> t | None \<Rightarrow> clock)\<rparr>
      in rbind (update_equity_curve clock (mark_positions code price b1)) (\<lambda>b2.
           Inr (s\<lparr>base := b2, realtime_prices := dset code price (realtime_prices s)\<rparr>)))"

end
