(* ===== verification/Paper_Facts.thy ===== *)
theory Paper_Facts
  imports Backtest_Safety Simulator_Broker
begin

text \<open>
  Runs of the paper broker as step relations (\<open>task_step\<close> wakes one sleeping task, \<open>sim_step\<close> is any call or task), the
  invariant that ties tasks to orders, and that every step is a move of the life of an order or the late
  fill of a cancelled one; every submitted order is attended by a task, and every piece of a task uses up work.
\<close>

section \<open>Runs of the paper broker\<close>

definition draws_ok :: "sim_draws \<Rightarrow> bool" where
  "draws_ok d \<longleftrightarrow> fle fzero (draw_partial d) \<and> flt (draw_partial d) (Fin 1)"

text \<open>One of the sleeping tasks wakes up and runs to its next sleep or its end; an exception ends it.\<close>

inductive task_step :: "SimulatorBroker \<Rightarrow> SimulatorBroker \<Rightarrow> bool" where
  wake: "tasks s = ts1 @ t # ts2 \<Longrightarrow> draws_ok d \<Longrightarrow> run_task tid clock d t (s\<lparr>tasks := ts1 @ ts2\<rparr>) = Inr s' \<Longrightarrow>
    task_step s s'"
| fail: "tasks s = ts1 @ t # ts2 \<Longrightarrow> draws_ok d \<Longrightarrow> run_task tid clock d t (s\<lparr>tasks := ts1 @ ts2\<rparr>) = Inl e \<Longrightarrow>
    task_step s (s\<lparr>tasks := ts1 @ ts2\<rparr>)"

inductive sim_step :: "SimulatorBroker \<Rightarrow> SimulatorBroker \<Rightarrow> bool" where
  place: "sim_place_order oid clock r s = (s', ord) \<Longrightarrow> \<not> dmem (orders (base s)) oid \<Longrightarrow> sim_step s s'"
| cancel: "sim_cancel_order clock oid s = (s', ok) \<Longrightarrow> sim_step s s'"
| price: "update_realtime_price code p time clock s = Inr s' \<Longrightarrow> sim_step s s'"
| quote: "update_market_data ids code p time q (base s) = Inr b \<Longrightarrow> sim_step s (s\<lparr>base := b\<rparr>)"
| advance: "advance_time time (base s) = Inr b \<Longrightarrow> sim_step s (s\<lparr>base := b\<rparr>)"
| refresh: "refresh_performance_snapshot clock (base s) = Inr b \<Longrightarrow> sim_step s (s\<lparr>base := b\<rparr>)"
| subscribe: "sim_step s (subscribe_realtime_data code s)"
| unsubscribe: "sim_step s (unsubscribe_realtime_data code s)"
| task: "task_step s s' \<Longrightarrow> sim_step s s'"

section \<open>The orders as the life of an order sees them\<close>

definition open_orders :: "(string, OrderResponse) dict \<Rightarrow> string list" where
  "open_orders os = map fst (filter (\<lambda>(_, ord). working (order_status ord)) os)"

definition sim_view :: "SimulatorBroker \<Rightarrow> order_view" where
  "sim_view s = (orders (base s), open_orders (orders (base s)), trades (base s))"

lemma open_orders_fresh:
  "\<not> dmem os oid \<Longrightarrow> open_orders (dset oid ord os) = open_orders os @ (if working (order_status ord) then [oid] else [])"
  by (subst dset_fresh) (force simp: dmem_def dget_None_iff dkeys_def, simp add: open_orders_def)

lemma open_orders_other: "\<not> dmem os oid \<Longrightarrow> oid \<notin> set (open_orders os)"
  by (force simp: open_orders_def dmem_def dget_None_iff dkeys_def)

lemma filter_absent: "x \<notin> set xs \<Longrightarrow> filter (\<lambda>y. y \<noteq> x) xs = xs"
  by (rule filter_True) auto

lemma open_orders_set:
  assumes "distinct (dkeys os)" "dget os oid = Some ord"
  shows "open_orders (dset oid ord' os) =
    (if working (order_status ord') \<and> working (order_status ord) then open_orders os
     else if working (order_status ord') then open_orders (dset oid ord' os)
     else filter (\<lambda>x. x \<noteq> oid) (open_orders os))"
  using assms
proof (induction os)
  case (Cons kv os)
  obtain k v where kv: "kv = (k, v)" by force
  show ?case
  proof (cases "k = oid")
    case True
    with Cons.prems have "oid \<notin> set (open_orders os)"
      by (intro open_orders_other) (simp add: kv dmem_def dget_None_iff dkeys_def)
    with Cons.prems True show ?thesis by (simp add: kv open_orders_def dset_def filter_absent)
  next
    case False
    with Cons.prems have "distinct (dkeys os)" "dget os oid = Some ord" by (simp_all add: kv dkeys_def)
    note h = Cons.IH [OF this]
    have "dset oid ord' (kv # os) = kv # dset oid ord' os" using False by (simp add: kv dset_def)
    with h False show ?thesis by (auto simp: kv open_orders_def)
  qed
qed simp

lemma open_orders_mem:
  assumes "distinct (dkeys os)" "dget os oid = Some ord"
  shows "oid \<in> set (open_orders os) \<longleftrightarrow> working (order_status ord)"
proof -
  have "oid \<in> set (open_orders os) \<longleftrightarrow> (\<exists>ord'. (oid, ord') \<in> set os \<and> working (order_status ord'))"
    by (force simp: open_orders_def)
  also have "\<dots> \<longleftrightarrow> working (order_status ord)"
    using assms dget_in_set in_set_dget by (metis option.inject)
  finally show ?thesis .
qed

text \<open>The one move that is not part of the life of an order: the rest of a cancelled order is filled.\<close>

inductive late_fill :: "order_view \<Rightarrow> order_view \<Rightarrow> bool" where
  "dget os oid = Some ord \<Longrightarrow> order_status ord = CANCELLED \<Longrightarrow> 0 < filled_volume ord \<Longrightarrow>
     filled_volume ord < order_volume ord \<Longrightarrow> fills ord (order_volume ord - filled_volume ord) ord' t \<Longrightarrow>
     late_fill (os, ps, ts) (dset oid ord' os, ps, ts @ [t])"

lemma late_fill_ok:
  assumes "late_fill v v'" "view_ok v"
  shows "view_ok v'"
  using assms
proof (induction rule: late_fill.induct)
  case (1 os oid ord ord' t ps ts)
  note ok = view_okD(2) [OF 1(6,1)]
  show ?case using 1(2-5) ok view_okD(1) [OF 1(6)]
    by (intro view_ok_update [OF 1(6)]) (auto simp: order_ok_def status_ok_def working_def fills_def)
qed

section \<open>Tasks and their orders\<close>

fun task_ok :: "sim_task \<Rightarrow> OrderResponse \<Rightarrow> bool" where
  "task_ok (Waiting _ _) ord \<longleftrightarrow> filled_volume ord = 0 \<and> order_status ord \<in> {SUBMITTED, CANCELLED} \<and> 0 < order_volume ord"
| "task_ok (Executing _ _) ord \<longleftrightarrow> filled_volume ord = 0 \<and> order_status ord \<in> {SUBMITTED, CANCELLED} \<and> 0 < order_volume ord"
| "task_ok (Remaining _) ord \<longleftrightarrow>
     0 < filled_volume ord \<and> filled_volume ord < order_volume ord \<and> order_status ord \<in> {PARTIAL_FILLED, CANCELLED}"

fun task_work :: "sim_task \<Rightarrow> nat" where
  "task_work (Waiting _ waited) = 3 + (60 - waited)"
| "task_work (Executing _ _) = 2"
| "task_work (Remaining _) = 1"

definition sim_ok :: "SimulatorBroker \<Rightarrow> bool" where
  "sim_ok s \<longleftrightarrow>
     pending_orders (base s) = [] \<and> distinct (dkeys (orders (base s))) \<and> distinct (map task_order (tasks s))
     \<and> (\<forall>t \<in> set (tasks s). \<exists>ord. dget (orders (base s)) (task_order t) = Some ord \<and> task_ok t ord)
     \<and> (partial_fill_prob s = fzero \<longrightarrow> (\<forall>oid. Remaining oid \<notin> set (tasks s)))
     \<and> view_ok (sim_view s)"

lemma keep_frame [simp]:
  "orders (keep_order (b, ord)) = dset (order_id ord) ord (orders b)" "trades (keep_order (b, ord)) = trades b"
  "pending_orders (keep_order (b, ord)) = pending_orders b" "current_prices (keep_order (b, ord)) = current_prices b"
  by (simp_all add: keep_order_def)

lemma sim_execute_trade_view:
  obtains ord' tr where "fills ord n ord' tr"
    "orders (base (sim_execute_trade tid clock ord price n s)) = dset (order_id ord) ord' (orders (base s))"
    "trades (base (sim_execute_trade tid clock ord price n s)) = trades (base s) @ [tr]"
    "pending_orders (base (sim_execute_trade tid clock ord price n s)) = pending_orders (base s)"
    "partial_fill_prob (sim_execute_trade tid clock ord price n s) = partial_fill_prob s"
    "tasks (sim_execute_trade tid clock ord price n s) = tasks s"
proof -
  obtain b ord' where e: "execute_trade tid clock (base s) ord price n = (b, ord')" by force
  obtain tr where "orders b = orders (base s)" "pending_orders b = pending_orders (base s)" "trades b = trades (base s) @ [tr]"
    "fills ord n ord' tr"
    using execute_trade_view [OF e] by metis
  moreover from this(4) have "order_id ord' = order_id ord" by (simp add: fills_def)
  ultimately show thesis using that by (simp add: sim_execute_trade_def e)
qed

lemma execute_partial_view:
  assumes "0 < n" "n < order_volume ord - filled_volume ord" "0 \<le> filled_volume ord"
  obtains ord' tr where "fills ord n ord' tr" "task_ok (Remaining (order_id ord)) ord'"
    "orders (base (execute_partial_trade tid clock ord price n s)) = dset (order_id ord) ord' (orders (base s))"
    "trades (base (execute_partial_trade tid clock ord price n s)) = trades (base s) @ [tr]"
    "pending_orders (base (execute_partial_trade tid clock ord price n s)) = pending_orders (base s)"
    "partial_fill_prob (execute_partial_trade tid clock ord price n s) = partial_fill_prob s"
    "tasks (execute_partial_trade tid clock ord price n s) = tasks s @ [Remaining (order_id ord)]"
proof -
  let ?c = "pmax (fmul (fmul price (float_of_int n)) (commission_rate (config (base s)))) (min_commission (config (base s)))"
  show thesis
    by (rule that [of "partial_fill_order ord price n ?c clock" "create_trade_record tid ord price n ?c clock"])
      (use assms in \<open>simp_all add: execute_partial_trade_def partial_fill_order_def create_trade_record_def fills_def Let_def\<close>)
qed

lemma randint_range: "py_randint a b k = Inr n \<Longrightarrow> a \<le> n \<and> n \<le> b"
  using pos_mod_bound [of "b - a + 1" "int k"] pos_mod_sign [of "b - a + 1" "int k"]
  by (auto simp: py_randint_def split: if_splits)

text \<open>What a piece of a task does to its order.\<close>

lemma run_task_cases:
  assumes run: "run_task tid clock d t s = Inr s'" and ord: "dget (orders (base s)) (task_order t) = Some ord"
    and id: "order_id ord = task_order t" and ok: "task_ok t ord" and d: "draws_ok d"
  obtains (quiet) "base s' = base s" "partial_fill_prob s' = partial_fill_prob s"
      "tasks s' = tasks s \<and> order_status ord \<noteq> SUBMITTED \<or>
       (\<exists>t'. tasks s' = tasks s @ [t'] \<and> task_order t' = task_order t \<and> task_ok t' ord \<and> task_work t' < task_work t)"
  | (close) ord' where "order_status ord = SUBMITTED" "closes ord EXPIRED ord'"
      "orders (base s') = dset (task_order t) ord' (orders (base s))" "trades (base s') = trades (base s)"
      "pending_orders (base s') = pending_orders (base s)" "partial_fill_prob s' = partial_fill_prob s" "tasks s' = tasks s"
  | (fill) n ord' tr where "order_status ord \<noteq> CANCELLED \<or> (\<exists>oid. t = Remaining oid) \<and> n = order_volume ord - filled_volume ord"
      "0 < n" "n \<le> order_volume ord - filled_volume ord" "fills ord n ord' tr"
      "orders (base s') = dset (task_order t) ord' (orders (base s))" "trades (base s') = trades (base s) @ [tr]"
      "pending_orders (base s') = pending_orders (base s)" "partial_fill_prob s' = partial_fill_prob s"
      "tasks s' = tasks s \<or> tasks s' = tasks s @ [Remaining (task_order t)] \<and> task_ok (Remaining (task_order t)) ord'
         \<and> 1 < task_work t \<and> partial_fill_prob s \<noteq> fzero"
proof (cases t)
  case (Waiting oid waited)
  with run ord have r: "s' = resume_waiting clock ord waited s" by (simp add: run_task_def)
  consider "60 \<le> waited" "order_status ord = SUBMITTED" | "60 \<le> waited \<or> \<not> still_working ord" "order_status ord \<noteq> SUBMITTED"
    | t' where "waited < 60" "s' = s\<lparr>tasks := tasks s @ [t']\<rparr>" "t' = Waiting oid (waited + 2) \<or> t' = Waiting oid (waited + 1) \<or> (\<exists>p. t' = Executing oid p)"
    using r id Waiting by (fastforce simp: resume_waiting_def Let_def still_working_def split: option.splits if_splits)
  then show thesis
  proof cases
    case 1
    with r id show thesis by (intro close) (auto simp: resume_waiting_def expire_submitted_def store_order_def closes_def)
  next
    case 2
    with r have "s' = s" by (auto simp: resume_waiting_def expire_submitted_def Let_def)
    with 2 show thesis by (intro quiet) simp_all
  next
    case 3
    with Waiting ok show thesis by (intro quiet) auto
  qed
next
  case (Executing oid price)
  with run ord have r: "resume_executing tid clock d ord price s = Inr s'" by (simp add: run_task_def)
  have z: "filled_volume ord = 0" "0 < order_volume ord" using ok Executing by simp_all
  show thesis
  proof (cases "still_working ord")
    case False
    with r have "s' = s" by (simp add: resume_executing_def)
    with False show thesis by (intro quiet) (simp_all add: still_working_def)
  next
    case True
    then have st: "order_status ord \<noteq> CANCELLED" by (auto simp: still_working_def)
    show thesis
    proof (cases "flt (draw_partial d) (partial_fill_prob s) \<and> 100 < order_volume ord")
      case p: True
      with r True obtain n where n: "py_randint 100 (order_volume ord - 100) (draw_volume d) = Inr n"
        and s': "s' = execute_partial_trade tid clock ord price n s"
        by (auto simp: resume_executing_def rbind_Inr_iff)
      have n: "0 < n" "n < order_volume ord - filled_volume ord" "0 \<le> filled_volume ord"
        using randint_range [OF n] z by simp_all
      from p d have "partial_fill_prob s \<noteq> fzero" by (auto simp: draws_ok_def dest: fle_flt_trans)
      then show thesis
        by (rule_tac execute_partial_view [OF n, of tid clock price s]) (rule fill, use st n s' id Executing in auto)
    next
      case False
      with r True obtain q where s': "s' = sim_execute_trade tid clock ord q (order_volume ord) s"
        by (auto simp: resume_executing_def execute_trade_with_slippage_def Let_def)
      show thesis
        by (rule sim_execute_trade_view [of ord "order_volume ord" tid clock q s]) (rule fill, use st z s' id in auto)
    qed
  qed
next
  case (Remaining oid)
  with run ord have r: "s' = process_remaining_order tid clock ord s" by (simp add: run_task_def)
  let ?n = "order_volume ord - filled_volume ord"
  show thesis
  proof (cases "known_price s (request_instrument_code (order_request ord))")
    case None
    with r Remaining ok show thesis by (intro quiet) (auto simp: process_remaining_order_def)
  next
    case (Some q)
    with r have s': "s' = sim_execute_trade tid clock ord q ?n s" by (simp add: process_remaining_order_def)
    show thesis
      by (rule sim_execute_trade_view [of ord ?n tid clock q s]) (rule fill, use Remaining ok s' id in auto)
  qed
qed

section \<open>The paper broker moves its orders along their life\<close>

definition sim_move :: "pyfloat \<Rightarrow> order_view \<Rightarrow> order_view \<Rightarrow> bool" where
  "sim_move p v v' \<longleftrightarrow> v' = v \<or> order_move v v' \<or> p \<noteq> fzero \<and> late_fill v v'"

lemma sim_move_ok: "sim_move p v v' \<Longrightarrow> view_ok v \<Longrightarrow> view_ok v'"
  by (auto simp: sim_move_def intro: order_move_ok late_fill_ok)

lemma move_fill:
  assumes "distinct (dkeys os)" "dget os oid = Some ord" "working (order_status ord)"
    and "0 < n" "n \<le> order_volume ord - filled_volume ord" "fills ord n ord' t"
  shows "order_move (os, open_orders os, ts) (dset oid ord' os, open_orders (dset oid ord' os), ts @ [t])"
proof -
  have "open_orders (dset oid ord' os) = (if order_status ord' = FILLED then filter (\<lambda>x. x \<noteq> oid) (open_orders os) else open_orders os)"
    using assms(3,6) open_orders_set [OF assms(1,2), of ord'] by (auto simp: fills_def working_def)
  with order_move.fill [OF _ assms(2,4-6), of "open_orders os" ts] open_orders_mem [OF assms(1,2)] assms(3) show ?thesis by simp
qed

lemma move_close:
  assumes "distinct (dkeys os)" "dget os oid = Some ord" "working (order_status ord)"
    and "s = CANCELLED \<or> s = EXPIRED" "closes ord s ord'"
  shows "order_move (os, open_orders os, ts) (dset oid ord' os, open_orders (dset oid ord' os), ts)"
proof -
  have "open_orders (dset oid ord' os) = filter (\<lambda>x. x \<noteq> oid) (open_orders os)"
    using assms(4,5) open_orders_set [OF assms(1,2), of ord'] by (auto simp: closes_def working_def)
  with order_move.close [OF _ assms(2,4,5), of "open_orders os" ts] open_orders_mem [OF assms(1,2)] assms(3) show ?thesis by simp
qed

lemma move_late:
  assumes "distinct (dkeys os)" "dget os oid = Some ord" "order_status ord = CANCELLED"
    and "0 < filled_volume ord" "filled_volume ord < order_volume ord"
    and "fills ord (order_volume ord - filled_volume ord) ord' t"
  shows "late_fill (os, open_orders os, ts) (dset oid ord' os, open_orders (dset oid ord' os), ts @ [t])"
proof -
  have "open_orders (dset oid ord' os) = open_orders os"
    using assms(3,6) open_orders_set [OF assms(1,2), of ord'] open_orders_mem [OF assms(1,2)]
    by (auto simp: fills_def working_def filter_absent)
  with late_fill.intros [OF assms(2-6)] show ?thesis by simp
qed

text \<open>A change of one order whose task, if it has one afterwards, fits it.\<close>

lemma sim_ok_change:
  assumes ok: "sim_ok s" and base: "pending_orders (base s') = []" "orders (base s') = dset oid ord' (orders (base s))"
    and tasks: "distinct (map task_order (tasks s'))"
      "\<And>t. t \<in> set (tasks s') \<Longrightarrow> if task_order t = oid then task_ok t ord' else t \<in> set (tasks s)"
    and prob: "partial_fill_prob s' = fzero \<longrightarrow> (\<forall>oid. Remaining oid \<notin> set (tasks s'))"
    and v: "view_ok (sim_view s')"
  shows "sim_ok s'"
proof -
  have "\<exists>ord. dget (orders (base s')) (task_order t) = Some ord \<and> task_ok t ord" if t: "t \<in> set (tasks s')" for t
    using tasks(2) [OF t] ok base(2) by (cases "task_order t = oid") (auto simp: sim_ok_def)
  moreover have "distinct (dkeys (orders (base s')))" using ok base(2) dkeys_dset by (auto simp: sim_ok_def)
  ultimately show ?thesis using base(1) tasks(1) prob v by (auto simp: sim_ok_def)
qed

lemma sim_ok_same:
  assumes "sim_ok s" "orders (base s') = orders (base s)" "trades (base s') = trades (base s)"
    and "pending_orders (base s') = []" "tasks s' = tasks s" "partial_fill_prob s' = partial_fill_prob s"
  shows "sim_ok s' \<and> sim_view s' = sim_view s"
  using assms by (auto simp: sim_ok_def sim_view_def)

lemma run_task_ok:
  assumes ok: "sim_ok s" and t: "task_order t \<notin> set (map task_order (tasks s))"
    and ord: "dget (orders (base s)) (task_order t) = Some ord" "task_ok t ord"
    and prob: "partial_fill_prob s = fzero \<longrightarrow> (\<forall>oid. t \<noteq> Remaining oid)"
    and run: "run_task tid clock d t s = Inr s'" "draws_ok d"
  shows "sim_move (partial_fill_prob s) (sim_view s) (sim_view s') \<and> sim_ok s' \<and> partial_fill_prob s' = partial_fill_prob s"
proof -
  have v: "view_ok (sim_view s)" and keys: "distinct (dkeys (orders (base s)))" using ok by (auto simp: sim_ok_def)
  have id: "order_id ord = task_order t" using v ord(1) by (auto simp: sim_view_def view_ok_def order_ok_def)
  have other: "task_order x \<noteq> task_order t" if "x \<in> set (tasks s)" for x using t that by (metis imageI list.set_map)
  from run(1) ord(1) id ord(2) run(2) show ?thesis
  proof (cases rule: run_task_cases)
    case quiet
    then have "sim_view s' = sim_view s" by (simp add: sim_view_def)
    moreover have "sim_ok s'"
      using quiet(3)
    proof
      assume "\<exists>t'. tasks s' = tasks s @ [t'] \<and> task_order t' = task_order t \<and> task_ok t' ord \<and> task_work t' < task_work t"
      then obtain t' where t': "tasks s' = tasks s @ [t']" "task_order t' = task_order t" "task_ok t' ord" "task_work t' < task_work t"
        by blast
      have "partial_fill_prob s' = fzero \<longrightarrow> (\<forall>oid. Remaining oid \<notin> set (tasks s'))"
      proof
        assume "partial_fill_prob s' = fzero"
        with quiet(2) prob have "task_ok t ord \<and> (\<forall>oid. t \<noteq> Remaining oid)" using ord by simp
        then have "filled_volume ord = 0" by (cases t) auto
        with t'(3) have "\<And>oid. t' \<noteq> Remaining oid" by auto
        with t'(1) ok quiet(2) \<open>partial_fill_prob s' = fzero\<close> show "\<forall>oid. Remaining oid \<notin> set (tasks s')"
          by (auto simp: sim_ok_def)
      qed
      moreover have "distinct (map task_order (tasks s'))" using t' t ok by (auto simp: sim_ok_def)
      ultimately show ?thesis using ok quiet(1) t' ord \<open>sim_view s' = sim_view s\<close> by (auto simp: sim_ok_def)
    next
      assume "tasks s' = tasks s \<and> order_status ord \<noteq> SUBMITTED"
      moreover have "pending_orders (base s) = []" using ok by (simp add: sim_ok_def)
      ultimately show ?thesis using sim_ok_same [OF ok, of s'] quiet(1,2) by simp
    qed
    ultimately show ?thesis using quiet(2) by (simp add: sim_move_def)
  next
    case (close ord')
    have "order_move (sim_view s) (sim_view s')"
      using move_close [OF keys ord(1) _ _ close(2), of "trades (base s)"] close by (simp add: sim_view_def working_def)
    moreover from order_move_ok [OF this v] have "sim_ok s'"
      by (intro sim_ok_change [OF ok _ close(3)]) (use close other t ok in \<open>auto simp: sim_ok_def\<close>)
    ultimately show ?thesis using close(6) by (simp add: sim_move_def)
  next
    case (fill n ord' tr)
    have "sim_move (partial_fill_prob s) (sim_view s) (sim_view s')"
    proof (cases "order_status ord = CANCELLED")
      case True
      with fill(1) prob ord(2) move_late [OF keys ord(1) True, of ord' tr "trades (base s)"] fill(4-6)
      show ?thesis by (auto simp: sim_view_def sim_move_def)
    next
      case False
      with ord(2) have "working (order_status ord)" by (cases t) (auto simp: working_def)
      from move_fill [OF keys ord(1) this fill(2-4)] fill(5,6) show ?thesis by (simp add: sim_view_def sim_move_def)
    qed
    moreover from sim_move_ok [OF this v] have "sim_ok s'"
      by (intro sim_ok_change [OF ok _ fill(5)]) (use fill(7-9) other t ok in \<open>auto simp: sim_ok_def\<close>)
    ultimately show ?thesis using fill(8) by simp
  qed
qed

lemma task_step_ok:
  assumes "task_step s s'" "sim_ok s"
  shows "sim_move (partial_fill_prob s) (sim_view s) (sim_view s') \<and> sim_ok s' \<and> partial_fill_prob s' = partial_fill_prob s"
  using assms
proof (induction rule: task_step.induct)
  case (wake s ts1 t ts2 d tid clock s')
  let ?s = "s\<lparr>tasks := ts1 @ ts2\<rparr>"
  have s: "sim_ok ?s" "task_order t \<notin> set (map task_order (tasks ?s))" "sim_view ?s = sim_view s"
    using wake(1,4) by (auto simp: sim_ok_def sim_view_def)
  obtain ord where o: "dget (orders (base ?s)) (task_order t) = Some ord" "task_ok t ord"
    using wake(1,4) by (auto simp: sim_ok_def)
  have "partial_fill_prob ?s = fzero \<longrightarrow> (\<forall>oid. t \<noteq> Remaining oid)" using wake(1,4) by (auto simp: sim_ok_def)
  note r = run_task_ok [OF s(1,2) o this wake(3,2)]
  with r s(3) show ?case by simp
next
  case (fail s ts1 t ts2 d tid clock e)
  then show ?case by (auto simp: sim_ok_def sim_view_def sim_move_def)
qed

lemma no_pending_quote:
  assumes "update_market_data ids code p time q b = Inr b'" "pending_orders b = []"
  shows "orders b' = orders b \<and> trades b' = trades b \<and> pending_orders b' = []"
proof -
  let ?b = "receive_quote code p time q b"
  from assms(1) obtain b1 b2 where e: "expire_pending_orders ?b = Inr b1"
    and p: "process_pending_orders ids time code p (mark_positions code p b1) = Inr b2"
    and r: "refresh_performance_snapshot time b2 = Inr b'"
    by (auto simp: update_market_data_def rbind_Inr_iff)
  have "orders b1 = orders b \<and> trades b1 = trades b \<and> pending_orders b1 = []"
    using e assms(2) by (auto simp: expire_pending_orders_def pending_list_def)
  moreover from this p have "orders b2 = orders b1 \<and> trades b2 = trades b1 \<and> pending_orders b2 = []"
    by (auto simp: process_pending_orders_def rbind_Inr_iff Let_def)
  ultimately show ?thesis using refresh_frame [OF r] by simp
qed

lemma no_pending_advance:
  assumes "advance_time t b = Inr b'" "pending_orders b = []"
  shows "orders b' = orders b \<and> trades b' = trades b \<and> pending_orders b' = []"
proof -
  have "expire_pending_orders (settle_if_new_day (bt_day t) (b\<lparr>current_time := Some t\<rparr>)) = Inr b'"
    using assms(1) by (auto simp: advance_time_def split: option.splits sum.splits bool.splits)
  with assms(2) show ?thesis by (auto simp: expire_pending_orders_def pending_list_def)
qed

lemma realtime_price_frame:
  assumes "update_realtime_price code p time clock s = Inr s'"
  shows "orders (base s') = orders (base s) \<and> trades (base s') = trades (base s)
    \<and> pending_orders (base s') = pending_orders (base s) \<and> tasks s' = tasks s \<and> partial_fill_prob s' = partial_fill_prob s"
proof -
  from assms obtain b1 b2 where b: "update_equity_curve clock (mark_positions code p b1) = Inr b2"
    "orders b1 = orders (base s)" "trades b1 = trades (base s)" "pending_orders b1 = pending_orders (base s)"
    "s' = s\<lparr>base := b2, realtime_prices := dset code p (realtime_prices s)\<rparr>"
    by (clarsimp simp: update_realtime_price_def Let_def rbind_Inr_iff)
  with equity_frame [OF b(1)] show ?thesis by simp
qed

text \<open>Placing an order: it is rejected, or submitted with a task of its own.\<close>

lemma place_cases:
  assumes "sim_place_order oid clock r s = (s', ord)"
  obtains (reject) "orders (base s') = dset oid ord (orders (base s))" "order_id ord = oid" "filled_volume ord = 0"
      "order_status ord = REJECTED" "tasks s' = tasks s"
    | (submit) "orders (base s') = dset oid ord (orders (base s))" "order_id ord = oid" "filled_volume ord = 0"
      "order_status ord = SUBMITTED" "0 < order_volume ord" "tasks s' = tasks s @ [Waiting oid 0]"
  using assms
  by (auto simp: sim_place_order_def store_order_def new_order_def Let_def split: if_splits)

lemma place_frame:
  assumes "sim_place_order oid clock r s = (s', ord)"
  shows "trades (base s') = trades (base s)" "pending_orders (base s') = pending_orders (base s)"
    "partial_fill_prob s' = partial_fill_prob s"
  using assms by (auto simp: sim_place_order_def store_order_def Let_def split: if_splits)

lemma sim_place_ok:
  assumes "sim_place_order oid clock r s = (s', ord)" "\<not> dmem (orders (base s)) oid" "sim_ok s"
  shows "order_move (sim_view s) (sim_view s') \<and> sim_ok s'"
proof -
  note f = place_frame [OF assms(1)]
  have v: "view_ok (sim_view s)" and p: "pending_orders (base s') = []" using assms(3) f(2) by (auto simp: sim_ok_def)
  have other: "task_order t \<noteq> oid" if "t \<in> set (tasks s)" for t using assms(2,3) that by (auto simp: sim_ok_def dmem_def)
  then have t: "oid \<notin> task_order ` set (tasks s)" by blast
  from assms(1) show ?thesis
  proof (cases rule: place_cases)
    case reject
    have m: "order_move (sim_view s) (sim_view s')"
      using order_move.reject [OF assms(2) reject(2-4), of "open_orders (orders (base s))" "trades (base s)"] reject f(1)
        open_orders_fresh [OF assms(2), of ord]
      by (simp add: sim_view_def working_def)
    have "sim_ok s'"
      by (rule sim_ok_change [OF assms(3) p reject(1)])
        (use order_move_ok [OF m v] reject f other assms(3) in \<open>auto simp: sim_ok_def\<close>)
    with m show ?thesis ..
  next
    case submit
    have m: "order_move (sim_view s) (sim_view s')"
      using order_move.submit [OF assms(2) submit(2-5), of "open_orders (orders (base s))" "trades (base s)"] submit f(1)
        open_orders_fresh [OF assms(2), of ord]
      by (simp add: sim_view_def working_def)
    have "sim_ok s'"
      by (rule sim_ok_change [OF assms(3) p submit(1)])
        (use order_move_ok [OF m v] submit f other t assms(3) in \<open>auto simp: sim_ok_def\<close>)
    with m show ?thesis ..
  qed
qed

lemma cancel_cases:
  assumes "cancel_order clock oid b = (b', ok)"
  obtains (no) "b' = b" "\<not> ok"
    | (yes) ord ord' where "ok" "dget (orders b) oid = Some ord" "cancellable (order_status ord)" "closes ord CANCELLED ord'"
      "orders b' = dset oid ord' (orders b)" "trades b' = trades b" "pending_orders b' = filter (\<lambda>x. x \<noteq> oid) (pending_orders b)"
proof (cases "\<exists>ord. dget (orders b) oid = Some ord \<and> cancellable (order_status ord)")
  case True
  then obtain ord where o: "dget (orders b) oid = Some ord" "cancellable (order_status ord)" by blast
  show thesis
    by (rule yes [of ord "ord\<lparr>order_status := CANCELLED, last_update_time := Some (broker_now b clock)\<rparr>"])
      (use assms o in \<open>auto simp: cancel_order_def closes_def\<close>)
next
  case False
  with assms show thesis by (intro no) (auto simp: cancel_order_def split: option.splits if_splits)
qed

lemma sim_cancel_ok:
  assumes "sim_cancel_order clock oid s = (s', ok)" "sim_ok s"
  shows "sim_move p (sim_view s) (sim_view s') \<and> sim_ok s' \<and> partial_fill_prob s' = partial_fill_prob s"
proof -
  from assms(1) obtain b where b: "cancel_order clock oid (base s) = (b, ok)" "s' = s\<lparr>base := b\<rparr>"
    by (auto simp: sim_cancel_order_def split: prod.splits)
  have v: "view_ok (sim_view s)" and keys: "distinct (dkeys (orders (base s)))" using assms(2) by (auto simp: sim_ok_def)
  from b(1) show ?thesis
  proof (cases rule: cancel_cases)
    case no
    with b(2) assms(2) show ?thesis by (simp add: sim_move_def)
  next
    case (yes ord ord')
    have ok: "order_ok (open_orders (orders (base s))) (trades (base s)) oid ord"
      using view_okD(2) [OF v [unfolded sim_view_def] yes(2)] .
    have w: "working (order_status ord)" using yes(3) ok by (auto simp: cancellable_def order_ok_def status_ok_def working_def)
    have m: "order_move (sim_view s) (sim_view s')"
      using move_close [OF keys yes(2) w _ yes(4), of "trades (base s)"] yes(5,6) b(2) by (simp add: sim_view_def)
    have "sim_ok s'"
    proof (rule sim_ok_change [OF assms(2), of s' oid ord'])
      fix t assume t: "t \<in> set (tasks s')"
      show "if task_order t = oid then task_ok t ord' else t \<in> set (tasks s)"
      proof (cases "task_order t = oid")
        case True
        with t b(2) assms(2) yes(2) have "task_ok t ord" by (auto simp: sim_ok_def)
        with True yes(4) show ?thesis by (cases t) (auto simp: closes_def)
      qed (use t b(2) in simp)
    qed (use order_move_ok [OF m v] yes b(2) assms(2) in \<open>auto simp: sim_ok_def\<close>)
    with m b(2) show ?thesis by (simp add: sim_move_def)
  qed
qed

lemma sim_step_ok:
  assumes "sim_step s s'" "sim_ok s"
  shows "sim_move (partial_fill_prob s) (sim_view s) (sim_view s') \<and> sim_ok s' \<and> partial_fill_prob s' = partial_fill_prob s"
proof -
  have p: "pending_orders (base s) = []" using assms(2) by (simp add: sim_ok_def)
  have same: ?thesis if "orders (base s') = orders (base s) \<and> trades (base s') = trades (base s) \<and> pending_orders (base s') = []"
    "tasks s' = tasks s" "partial_fill_prob s' = partial_fill_prob s"
    using sim_ok_same [OF assms(2), of s'] that by (simp add: sim_move_def)
  from assms(1) show ?thesis
  proof (cases rule: sim_step.cases)
    case (place oid clock r ord)
    with sim_place_ok [OF place assms(2)] place_frame [OF place(1)] show ?thesis by (simp add: sim_move_def)
  next
    case (cancel clock oid ok)
    with sim_cancel_ok assms(2) show ?thesis by blast
  next
    case (price code p time clock)
    with same p realtime_price_frame [OF price] show ?thesis by simp
  next
    case (quote ids code p time q b)
    with same no_pending_quote [OF quote(2)] p show ?thesis by simp
  next
    case (advance time b)
    with same no_pending_advance [OF advance(2)] p show ?thesis by simp
  next
    case (refresh clock b)
    with same refresh_frame [OF refresh(2)] p show ?thesis by simp
  next
    case (subscribe code)
    with same p show ?thesis by (simp add: subscribe_realtime_data_def)
  next
    case (unsubscribe code)
    with same p show ?thesis by (simp add: unsubscribe_realtime_data_def)
  next
    case task
    with task_step_ok assms(2) show ?thesis by blast
  qed
qed

section \<open>Every order is attended\<close>

definition odd_volume :: "OrderResponse \<Rightarrow> bool" where
  "odd_volume ord \<longleftrightarrow> 100 < order_volume ord \<and> order_volume ord < 200"

text \<open>An order that is submitted and whose volume can be drawn has a task that will end it.\<close>

definition attended :: "SimulatorBroker \<Rightarrow> bool" where
  "attended s \<longleftrightarrow>
     (\<forall>oid ord. dget (orders (base s)) oid = Some ord \<longrightarrow> order_status ord = SUBMITTED \<longrightarrow> \<not> odd_volume ord \<longrightarrow>
        oid \<in> task_order ` set (tasks s))"

lemma attended_same:
  "attended s \<Longrightarrow> orders (base s') = orders (base s) \<Longrightarrow> task_order ` set (tasks s) \<subseteq> task_order ` set (tasks s') \<Longrightarrow> attended s'"
  unfolding attended_def by auto

lemma attended_change:
  assumes "attended s" "orders (base s') = dset oid ord' (orders (base s))"
    and "order_status ord' = SUBMITTED \<Longrightarrow> oid \<in> task_order ` set (tasks s')"
    and "task_order ` set (tasks s) - {oid} \<subseteq> task_order ` set (tasks s')"
  shows "attended s'"
  unfolding attended_def
proof (intro allI impI)
  fix x ord assume x: "dget (orders (base s')) x = Some ord" "order_status ord = SUBMITTED" "\<not> odd_volume ord"
  show "x \<in> task_order ` set (tasks s')"
  proof (cases "x = oid")
    case False
    with x assms(1,2) have "x \<in> task_order ` set (tasks s)" by (auto simp: attended_def)
    with False assms(4) show ?thesis by blast
  qed (use x assms in auto)
qed

lemma failing_task:
  assumes "run_task tid clock d t s = Inl e" "dget (orders (base s)) (task_order t) = Some ord"
  shows "odd_volume ord"
  using assms
  by (cases t) (auto simp: run_task_def resume_executing_def py_randint_def odd_volume_def Let_def split: if_splits)

lemma task_step_attended:
  assumes "task_step s s'" "sim_ok s" "attended s"
  shows "attended s'"
  using assms
proof (induction rule: task_step.induct)
  case (wake s ts1 t ts2 d tid clock s')
  let ?s = "s\<lparr>tasks := ts1 @ ts2\<rparr>"
  obtain ord where o: "dget (orders (base ?s)) (task_order t) = Some ord" "task_ok t ord"
    using wake(1,4) by (auto simp: sim_ok_def)
  have id: "order_id ord = task_order t"
    using wake(4) o(1) by (auto simp: sim_ok_def sim_view_def view_ok_def order_ok_def)
  have ts: "task_order ` set (tasks s) = insert (task_order t) (task_order ` set (tasks ?s))" using wake(1) by auto
  from wake(3) o(1) id o(2) wake(2) show ?case
  proof (cases rule: run_task_cases)
    case quiet
    show ?thesis
    proof (cases "order_status ord = SUBMITTED")
      case True
      with quiet have "task_order ` set (tasks s) \<subseteq> task_order ` set (tasks s')" using ts by auto
      with attended_same [OF wake(5), of s'] quiet(1) show ?thesis by simp
    next
      case False
      have "orders (base s') = dset (task_order t) ord (orders (base s))" using quiet(1) o(1) by (simp add: dset_same)
      moreover have "task_order ` set (tasks s) - {task_order t} \<subseteq> task_order ` set (tasks s')" using quiet(3) ts by auto
      ultimately show ?thesis using attended_change [OF wake(5)] False by blast
    qed
  next
    case (close ord')
    have "task_order ` set (tasks s) - {task_order t} \<subseteq> task_order ` set (tasks s')" using close(7) ts by auto
    with attended_change [OF wake(5), of s' "task_order t" ord'] close show ?thesis by (auto simp: closes_def)
  next
    case (fill n ord' tr)
    have "task_order ` set (tasks s) - {task_order t} \<subseteq> task_order ` set (tasks s')" using fill(9) ts by auto
    moreover have "order_status ord' \<noteq> SUBMITTED" using fill(4) by (simp add: fills_def)
    ultimately show ?thesis using attended_change [OF wake(5), of s' "task_order t" ord'] fill(5) by simp
  qed
next
  case (fail s ts1 t ts2 d tid clock e)
  obtain ord where o: "dget (orders (base s)) (task_order t) = Some ord" using fail(1,4) by (auto simp: sim_ok_def)
  with failing_task [OF fail(3)] have odd: "odd_volume ord" by simp
  show ?case
    unfolding attended_def
  proof (intro allI impI)
    fix x ord' assume x: "dget (orders (base (s\<lparr>tasks := ts1 @ ts2\<rparr>))) x = Some ord'" "order_status ord' = SUBMITTED" "\<not> odd_volume ord'"
    then have "x \<in> task_order ` set (tasks s)" "x \<noteq> task_order t" using fail(5) o odd by (auto simp: attended_def)
    then show "x \<in> task_order ` set (tasks (s\<lparr>tasks := ts1 @ ts2\<rparr>))" using fail(1) by auto
  qed
qed

lemma sim_step_attended:
  assumes "sim_step s s'" "sim_ok s" "attended s"
  shows "attended s'"
proof -
  have p: "pending_orders (base s) = []" using assms(2) by (simp add: sim_ok_def)
  note same = attended_same [OF assms(3), of s']
  from assms(1) show ?thesis
  proof (cases rule: sim_step.cases)
    case (place oid clock r ord)
    from place(1) show ?thesis
      by (cases rule: place_cases) (use attended_change [OF assms(3), of s' oid ord] in auto)
  next
    case (cancel clock oid ok)
    from cancel obtain b where b: "cancel_order clock oid (base s) = (b, ok)" "s' = s\<lparr>base := b\<rparr>"
      by (auto simp: sim_cancel_order_def split: prod.splits)
    from b(1) show ?thesis
    proof (cases rule: cancel_cases)
      case (yes ord ord')
      with attended_change [OF assms(3), of s' oid ord'] b(2) show ?thesis by (auto simp: closes_def)
    qed (use same b(2) in simp)
  next
    case (price code p time clock)
    with same realtime_price_frame [OF price] show ?thesis by simp
  next
    case (quote ids code p time q b)
    with same no_pending_quote [OF quote(2)] p show ?thesis by simp
  next
    case (advance time b)
    with same no_pending_advance [OF advance(2)] p show ?thesis by simp
  next
    case (refresh clock b)
    with same refresh_frame [OF refresh(2)] show ?thesis by simp
  next
    case (subscribe code)
    with same show ?thesis by (simp add: subscribe_realtime_data_def)
  next
    case (unsubscribe code)
    with same show ?thesis by (simp add: unsubscribe_realtime_data_def)
  next
    case task
    with task_step_attended assms(2,3) show ?thesis by blast
  qed
qed

section \<open>Reachable states\<close>

definition sim_start :: "SimulatorBroker \<Rightarrow> bool" where
  "sim_start s \<longleftrightarrow> untouched (base s) \<and> tasks s = []"

lemma sim_start_ok: "sim_start s \<Longrightarrow> sim_ok s \<and> attended s"
  by (auto simp: sim_start_def sim_ok_def attended_def untouched_def sim_view_def open_orders_def view_ok_def dkeys_def)

lemma sim_run_ok: "sim_step\<^sup>*\<^sup>* s s' \<Longrightarrow> sim_ok s \<Longrightarrow> attended s \<Longrightarrow> sim_ok s' \<and> attended s' \<and> partial_fill_prob s' = partial_fill_prob s"
  by (induction rule: rtranclp_induct) (use sim_step_ok sim_step_attended in auto)

lemmas reach_ok = sim_run_ok [OF _ sim_start_ok [THEN conjunct1] sim_start_ok [THEN conjunct2]]

text \<open>Without partial fills the paper broker is a keeper of orders like the backtest.\<close>

definition whole_step :: "SimulatorBroker \<Rightarrow> SimulatorBroker \<Rightarrow> bool" where
  "whole_step s s' \<longleftrightarrow> sim_step s s' \<and> sim_ok s \<and> partial_fill_prob s = fzero"

interpretation paper: order_keeper whole_step sim_view sim_start
proof
  fix s s' assume "whole_step s s'"
  then have "sim_move fzero (sim_view s) (sim_view s')" using sim_step_ok [of s s'] by (simp add: whole_step_def)
  then show "order_move\<^sup>*\<^sup>* (sim_view s) (sim_view s')" by (auto simp: sim_move_def)
qed (use sim_start_ok in \<open>auto simp: sim_ok_def\<close>)

lemma whole_steps:
  assumes "sim_step\<^sup>*\<^sup>* s s'" "sim_ok s" "partial_fill_prob s = fzero"
  shows "whole_step\<^sup>*\<^sup>* s s'"
proof -
  have "whole_step\<^sup>*\<^sup>* s s' \<and> sim_ok s' \<and> partial_fill_prob s' = fzero"
    using assms(1)
  proof (induction rule: rtranclp_induct)
    case (step s1 s2)
    then show ?case using sim_step_ok [OF step.hyps(2)] by (auto simp: whole_step_def intro: rtranclp.rtrancl_into_rtrancl)
  qed (use assms in simp)
  then show ?thesis ..
qed

text \<open>Work that is left: each piece of a task uses some of it up.\<close>

definition work :: "SimulatorBroker \<Rightarrow> nat" where
  "work s = sum_list (map task_work (tasks s))"

lemma task_work_pos: "0 < task_work t"
  by (cases t) simp_all

lemma task_step_work:
  assumes "task_step s s'" "sim_ok s"
  shows "work s' < work s"
  using assms
proof (induction rule: task_step.induct)
  case (wake s ts1 t ts2 d tid clock s')
  let ?s = "s\<lparr>tasks := ts1 @ ts2\<rparr>"
  obtain ord where o: "dget (orders (base ?s)) (task_order t) = Some ord" "task_ok t ord"
    using wake(1,4) by (auto simp: sim_ok_def)
  have id: "order_id ord = task_order t"
    using wake(4) o(1) by (auto simp: sim_ok_def sim_view_def view_ok_def order_ok_def)
  have w: "work s = work ?s + task_work t" using wake(1) by (simp add: work_def)
  from wake(3) o(1) id o(2) wake(2) show ?case
    by (cases rule: run_task_cases) (use w task_work_pos [of t] in \<open>auto simp: work_def\<close>)
qed (use task_work_pos in \<open>auto simp: work_def\<close>)

end
