(* ===== verification/Paper_Safety.thy ===== *)
theory Paper_Safety
  imports Paper_Facts
begin

text \<open>
  What the paper broker guarantees: it follows the life of an order up to late fills, never fills more than
  requested, ends every order of an ordinary volume; and two runs in which an order ends badly.
\<close>

section \<open>Properties\<close>

text \<open>
  C28: Every step of the paper broker, a call or a task that wakes up, leaves the orders and executions alone or is one move of the life of an order
  that the backtest implements, except for one kind of step, which needs partial fills to be enabled: the rest of a
  partially filled order that was cancelled is filled.
\<close>

theorem paper_refines_order_life:
  assumes "sim_start s0" "sim_step\<^sup>*\<^sup>* s0 s" "sim_step s s'"
  shows "sim_view s' = sim_view s \<or> order_move (sim_view s) (sim_view s')
    \<or> partial_fill_prob s0 \<noteq> fzero \<and> late_fill (sim_view s) (sim_view s')"
  using sim_step_ok [OF assms(3)] reach_ok [OF assms(2,1,1)] by (auto simp: sim_move_def)

text \<open>
  C29: However calls and tasks interleave, an order of the paper broker has at most one task, its filled volume is the sum of its
  executions, agrees with its status and never exceeds the volume that was requested.
\<close>

theorem paper_orders_never_overfilled:
  assumes "sim_start s0" "sim_step\<^sup>*\<^sup>* s0 s" "dget (orders (base s)) oid = Some ord"
  shows "order_id ord = oid \<and> filled_volume ord = traded (trades (base s)) oid \<and> status_ok ord
    \<and> (order_status ord \<noteq> REJECTED \<longrightarrow> 0 \<le> filled_volume ord \<and> filled_volume ord \<le> order_volume ord)
    \<and> distinct (map task_order (tasks s))"
proof -
  have ok: "sim_ok s" using reach_ok [OF assms(2,1,1)] by simp
  then have "order_ok (open_orders (orders (base s))) (trades (base s)) oid ord"
    using assms(3) by (auto simp: sim_ok_def sim_view_def view_ok_def)
  moreover from this have "order_status ord \<noteq> REJECTED \<longrightarrow> 0 \<le> filled_volume ord \<and> filled_volume ord \<le> order_volume ord"
    by (cases "order_status ord") (auto simp: order_ok_def status_ok_def)
  ultimately show ?thesis using ok by (auto simp: order_ok_def sim_ok_def)
qed

text \<open>
  Without partial fills an order of the paper broker that is filled, cancelled, rejected or expired is never changed again,
  whatever calls and tasks follow.
\<close>

lemma paper_ended_orders_are_final:
  assumes "sim_start s0" "partial_fill_prob s0 = fzero" "sim_step\<^sup>*\<^sup>* s0 s" "sim_step\<^sup>*\<^sup>* s s'"
    and "dget (orders (base s)) oid = Some ord" "order_status ord \<in> {FILLED, CANCELLED, REJECTED, EXPIRED}"
  shows "dget (orders (base s')) oid = Some ord"
proof -
  have ok: "sim_ok s" "partial_fill_prob s = fzero" using reach_ok [OF assms(3,1,1)] assms(2) by simp_all
  have "\<not> working (order_status ord)" using assms(6) by (auto simp: working_def)
  from paper.ended_orders_stay [OF _ whole_steps [OF assms(4) ok] _ this] ok(1) assms(5)
  show ?thesis by (simp add: sim_view_def sim_ok_def)
qed

lemma task_runs:
  "tasks s = [t] \<Longrightarrow> run_task tid clock d t (s\<lparr>tasks := []\<rparr>) = Inr s' \<Longrightarrow> draws_ok d \<Longrightarrow> sim_step s s'"
  by (rule sim_step.task, rule task_step.wake [where ?ts1.0 = "[]" and ?ts2.0 = "[]"]) simp_all

lemma tasks_can_run:
  assumes "tasks s \<noteq> []"
  shows "\<exists>s'. task_step s s'"
proof -
  from assms obtain t ts where t: "tasks s = [] @ t # ts" by (cases "tasks s") auto
  let ?d = "\<lparr>draw_partial = fzero, draw_volume = 0, draw_slippage = fzero\<rparr>"
  have d: "draws_ok ?d" by (simp add: draws_ok_def)
  show ?thesis
    by (cases "run_task '''' \<lparr>bt_us = 0, bt_day = 0, bt_aware = True\<rparr> ?d t (s\<lparr>tasks := [] @ ts\<rparr>)")
      (use task_step.fail [OF t d] task_step.wake [OF t d] in blast)+
qed

text \<open>
  C30: The tasks of the paper broker come to an end: from any state that is reached, waking tasks can go on only as long as there is
  work, which each wake-up uses up, a sleeping task can always be woken, and when no task is left, no order is submitted
  any more, except possibly one with a volume between 101 and 199 shares.
\<close>

theorem paper_orders_are_settled:
  assumes "sim_start s0" "sim_step\<^sup>*\<^sup>* s0 s" "(task_step ^^ n) s s'"
  shows "n + work s' \<le> work s \<and> (tasks s' \<noteq> [] \<longrightarrow> (\<exists>s''. task_step s' s''))
    \<and> (tasks s' = [] \<longrightarrow> (\<forall>oid ord. dget (orders (base s')) oid = Some ord \<longrightarrow> order_status ord = SUBMITTED \<longrightarrow> odd_volume ord))"
proof -
  have "n + work s' \<le> work s \<and> sim_ok s' \<and> attended s'"
    using assms(3)
  proof (induction n arbitrary: s')
    case 0
    then show ?case using reach_ok [OF assms(2,1,1)] by simp
  next
    case (Suc n)
    then obtain s1 where s1: "(task_step ^^ n) s s1" "task_step s1 s'" by auto
    from Suc.IH [OF s1(1)] task_step_work [OF s1(2)] sim_step_ok sim_step_attended sim_step.task [OF s1(2)]
    show ?case by fastforce
  qed
  then show ?thesis using tasks_can_run [of s'] by (auto simp: attended_def)
qed

section \<open>Two orders that end badly\<close>

definition partial_draw :: sim_draws where
  "partial_draw = \<lparr>draw_partial = fzero, draw_volume = 0, draw_slippage = fzero\<rparr>"

lemma partial_draw_ok: "draws_ok partial_draw"
  by (simp add: draws_ok_def partial_draw_def)

lemma known_price_same:
  assumes "current_prices (base s') = current_prices (base s)" "realtime_prices s' = realtime_prices s"
  shows "known_price s' code = known_price s code"
  unfolding known_price_def latest_price_def assms ..

lemma settle_prices [simp]: "current_prices (settle_trade r p n c b) = current_prices b"
  by (simp add: settle_trade_def update_position_buy_def update_position_sell_def Let_def split: option.split)

text \<open>An accepted order whose price is known sleeps before its execution.\<close>

lemma reaches_execution:
  assumes "sim_start s0" and place: "sim_place_order oid clock r s0 = (s1, ord)" "order_status ord = SUBMITTED"
    and price: "known_price s0 (request_instrument_code r) = Some q" "should_execute r q"
  shows "\<exists>s. sim_step\<^sup>*\<^sup>* s0 s \<and> tasks s = [Executing oid q] \<and> dget (orders (base s)) oid = Some ord
    \<and> order_id ord = oid \<and> order_request ord = r \<and> filled_volume ord = 0 \<and> partial_fill_prob s = partial_fill_prob s0
    \<and> (\<forall>code. known_price s code = known_price s0 code)"
proof -
  have fresh: "\<not> dmem (orders (base s0)) oid" "tasks s0 = []"
    using assms(1) by (auto simp: sim_start_def untouched_def dmem_def)
  have o: "order_request ord = r" "current_prices (base s1) = current_prices (base s0)" "realtime_prices s1 = realtime_prices s0"
    using place(1) by (auto simp: sim_place_order_def store_order_def new_order_def keep_order_def Let_def split: if_splits)
  have s1: "tasks s1 = [Waiting oid 0]" "orders (base s1) = dset oid ord (orders (base s0))" "order_id ord = oid" "filled_volume ord = 0"
    using place(1) by (cases rule: place_cases; use place(2) fresh in simp)+
  let ?s = "s1\<lparr>tasks := [Executing oid q]\<rparr>"
  have kp: "known_price (s1\<lparr>tasks := ts\<rparr>) code = known_price s0 code" for ts code by (rule known_price_same) (simp_all add: o)
  have "run_task tid clock partial_draw (Waiting oid 0) (s1\<lparr>tasks := []\<rparr>) = Inr ?s" for tid
    using s1 o(1) place(2) price kp [of "[]"] by (simp add: run_task_def resume_waiting_def still_working_def Let_def)
  from task_runs [OF s1(1) this partial_draw_ok] sim_step.place [OF place(1) fresh(1)] have "sim_step\<^sup>*\<^sup>* s0 ?s" by auto
  moreover have "partial_fill_prob s1 = partial_fill_prob s0" using place_frame [OF place(1)] by simp
  ultimately show ?thesis using s1 o(1) kp by (intro exI [of _ ?s]) simp
qed

text \<open>
  C31: With partial fills enabled, a cancelled order can be filled: an accepted order of at least 200 shares whose price is known can be partially filled; it is then
  cancelled with success, and the task that sleeps for its rest fills it completely and sets it to filled.
\<close>

theorem paper_cancel_is_not_final:
  assumes "sim_start s0" "sim_place_order oid clock r s0 = (s1, ord)" "order_status ord = SUBMITTED"
    and price: "known_price s0 (request_instrument_code r) = Some q" "should_execute r q"
    and partial: "flt fzero (partial_fill_prob s0)" "200 \<le> request_volume r"
  shows "\<exists>s s' s'' ord0 ord1 ord2. sim_step\<^sup>*\<^sup>* s0 s
     \<and> dget (orders (base s)) oid = Some ord0 \<and> order_status ord0 = PARTIAL_FILLED
     \<and> sim_cancel_order clock oid s = (s', True)
     \<and> dget (orders (base s')) oid = Some ord1 \<and> order_status ord1 = CANCELLED \<and> filled_volume ord1 < request_volume r
     \<and> sim_step s' s''
     \<and> dget (orders (base s'')) oid = Some ord2 \<and> order_status ord2 = FILLED \<and> filled_volume ord2 = request_volume r"
proof -
  from reaches_execution [OF assms(1-5)] obtain s where
    s: "sim_step\<^sup>*\<^sup>* s0 s" "tasks s = [Executing oid q]" "dget (orders (base s)) oid = Some ord" "order_id ord = oid"
      "order_request ord = r" "filled_volume ord = 0" "partial_fill_prob s = partial_fill_prob s0"
      "known_price s (request_instrument_code r) = Some q"
    using price(1) by auto
  define s2 where "s2 = execute_partial_trade oid clock ord q 100 (s\<lparr>tasks := []\<rparr>)"
  have "py_randint 100 (order_volume ord - 100) 0 = Inr 100" using partial(2) s(5) by (simp add: py_randint_def)
  then have "run_task oid clock partial_draw (Executing oid q) (s\<lparr>tasks := []\<rparr>) = Inr s2"
    using s assms(3) partial by (simp add: run_task_def resume_executing_def still_working_def partial_draw_def s2_def Let_def)
  from task_runs [OF s(2) this partial_draw_ok] s(1) have r2: "sim_step\<^sup>*\<^sup>* s0 s2" by simp
  obtain ord0 tr where o0: "fills ord 100 ord0 tr" "orders (base s2) = dset oid ord0 (orders (base s))" "tasks s2 = [Remaining oid]"
    by (rule execute_partial_view [of 100 ord oid clock q "s\<lparr>tasks := []\<rparr>"]) (use partial(2) s(4-6) in \<open>auto simp: s2_def\<close>)
  have f0: "order_status ord0 = PARTIAL_FILLED" "filled_volume ord0 = 100" "order_request ord0 = r" "order_id ord0 = oid"
    using o0(1) s(4-6) partial(2) by (auto simp: fills_def)
  define ord1 where "ord1 = ord0\<lparr>order_status := CANCELLED, last_update_time := Some (broker_now (base s2) clock)\<rparr>"
  define s3 where "s3 = s2\<lparr>base := fst (cancel_order clock oid (base s2))\<rparr>"
  have c: "sim_cancel_order clock oid s2 = (s3, True)" "dget (orders (base s3)) oid = Some ord1"
    "tasks s3 = [Remaining oid]" "current_prices (base s3) = current_prices (base s2)" "realtime_prices s3 = realtime_prices s2"
    using o0 f0(1) by (simp_all add: sim_cancel_order_def cancel_order_def cancellable_def s3_def ord1_def)
  have "current_prices (base s2) = current_prices (base s)" "realtime_prices s2 = realtime_prices s"
    by (simp_all add: s2_def execute_partial_trade_def Let_def)
  then have "known_price (s3\<lparr>tasks := []\<rparr>) (request_instrument_code r) = known_price s (request_instrument_code r)"
    by (intro known_price_same) (simp_all add: c(4,5))
  with s(8) have kp: "known_price (s3\<lparr>tasks := []\<rparr>) (request_instrument_code r) = Some q" by simp
  let ?s = "s3\<lparr>tasks := []\<rparr>"
  have "run_task oid clock partial_draw (Remaining oid) ?s =
      Inr (sim_execute_trade oid clock ord1 q (request_volume r - 100) ?s)"
    using c(2) kp f0 by (simp add: run_task_def process_remaining_order_def ord1_def)
  note t = task_runs [OF c(3) this partial_draw_ok]
  obtain ord2 tr2 where o2: "fills ord1 (request_volume r - 100) ord2 tr2"
    "orders (base (sim_execute_trade oid clock ord1 q (request_volume r - 100) ?s)) = dset oid ord2 (orders (base s3))"
    by (rule sim_execute_trade_view [of ord1 "request_volume r - 100" oid clock q ?s]) (use f0(4) in \<open>auto simp: ord1_def\<close>)
  have "order_status ord2 = FILLED" "filled_volume ord2 = request_volume r"
    using o2(1) f0 by (auto simp: fills_def ord1_def)
  moreover have "order_status ord1 = CANCELLED" "filled_volume ord1 < request_volume r"
    using f0(2) partial(2) by (simp_all add: ord1_def)
  ultimately show ?thesis
    using r2 o0(2) f0(1) c(1,2) t o2(2)
    by (intro exI [of _ s2] exI [of _ s3] exI [of _ "sim_execute_trade oid clock ord1 q (request_volume r - 100) ?s"]
        exI [of _ ord0] exI [of _ ord1] exI [of _ ord2]) simp
qed

text \<open>
  With partial fills enabled, an accepted order of 101 to 199 shares whose price is known can lose its task to the exception of an empty random range: it stays submitted, with no
  task left that could fill or expire it.
\<close>

lemma paper_odd_order_gets_stuck:
  assumes "sim_start s0" "sim_place_order oid clock r s0 = (s1, ord)" "order_status ord = SUBMITTED"
    and price: "known_price s0 (request_instrument_code r) = Some q" "should_execute r q"
    and partial: "flt fzero (partial_fill_prob s0)" "100 < request_volume r" "request_volume r < 200"
  shows "\<exists>s. sim_step\<^sup>*\<^sup>* s0 s \<and> tasks s = [] \<and> dget (orders (base s)) oid = Some ord"
proof -
  from reaches_execution [OF assms(1-5)] obtain s where
    s: "sim_step\<^sup>*\<^sup>* s0 s" "tasks s = [Executing oid q]" "dget (orders (base s)) oid = Some ord"
      "order_request ord = r" "partial_fill_prob s = partial_fill_prob s0"
    by blast
  let ?s = "s\<lparr>tasks := []\<rparr>"
  have e: "run_task oid clock partial_draw (Executing oid q) (s\<lparr>tasks := [] @ []\<rparr>) = Inl (ValueError ''empty range in randrange'')"
    using s assms(3) partial
    by (simp add: run_task_def resume_executing_def still_working_def partial_draw_def py_randint_def Let_def)
  have "tasks s = [] @ Executing oid q # []" using s(2) by simp
  from task_step.fail [OF this partial_draw_ok e] have "sim_step s ?s" using sim_step.task by simp
  with s show ?thesis by (intro exI [of _ ?s]) auto
qed

section \<open>A sample account\<close>

definition sample_paper :: "pyfloat \<Rightarrow> SimulatorBroker" where
  "sample_paper p =
     \<lparr>base = small_holder\<lparr>positions := [(''c'', new_position\<lparr>long_volume := 500, pos_available := 500\<rparr>)],
        current_prices := [(''c'', Fin 10)]\<rparr>,
      partial_fill_prob = p, enable_risk_control = False, max_order_amount = Fin 1000, max_position_value = Fin 1000,
      subscribed_instruments = {}, realtime_prices = [], tasks = []\<rparr>"

definition paper_sell :: "int \<Rightarrow> OrderRequest" where
  "paper_sell n = sell_all\<lparr>request_price_type := MARKET, request_volume := n\<rparr>"

lemma sample_paper_start: "sim_start (sample_paper p)"
  by (simp add: sim_start_def untouched_def sample_paper_def small_holder_def new_broker_def)

lemma sample_paper_place:
  assumes "0 < n" "n \<le> 500"
  obtains s ord where "sim_place_order ''a'' noon (paper_sell n) (sample_paper p) = (s, ord)" "order_status ord = SUBMITTED"
    "sim_step\<^sup>*\<^sup>* (sample_paper p) s" "tasks s = [Waiting ''a'' 0]" "dget (orders (base s)) ''a'' = Some ord"
proof -
  have "\<exists>s ord. sim_place_order ''a'' noon (paper_sell n) (sample_paper p) = (s, ord) \<and> order_status ord = SUBMITTED"
    using assms by (simp add: sim_place_order_def sample_paper_def paper_sell_def sell_all_def broker_validate_order_def validate_sell_def
        is_buy_def new_order_def small_holder_def new_broker_def plain_config_def Let_def)
  then obtain s ord where s: "sim_place_order ''a'' noon (paper_sell n) (sample_paper p) = (s, ord)" "order_status ord = SUBMITTED"
    by blast
  have "\<not> dmem (orders (base (sample_paper p))) ''a''" "tasks (sample_paper p) = []"
    by (simp_all add: dmem_def sample_paper_def small_holder_def new_broker_def)
  moreover from this sim_step.place [OF s(1)] have "sim_step\<^sup>*\<^sup>* (sample_paper p) s" by blast
  moreover have "tasks s = [Waiting ''a'' 0]" "dget (orders (base s)) ''a'' = Some ord"
    using s(1) by (cases rule: place_cases; use s(2) calculation in simp)+
  ultimately show thesis using that s by blast
qed

lemma sample_paper_price:
  "known_price (sample_paper p) (request_instrument_code (paper_sell n)) = Some (Fin 10)" "should_execute (paper_sell n) (Fin 10)"
  by (simp_all add: known_price_def latest_price_def sample_paper_def paper_sell_def sell_all_def should_execute_def)

theorem paper_refines_order_life_witness:
  "sim_view (subscribe_realtime_data ''c'' (sample_paper fzero)) = sim_view (sample_paper fzero)
     \<or> order_move (sim_view (sample_paper fzero)) (sim_view (subscribe_realtime_data ''c'' (sample_paper fzero)))"
  using paper_refines_order_life [OF sample_paper_start [of fzero] rtranclp.rtrancl_refl sim_step.subscribe [of _ "''c''"]]
  by (simp add: sample_paper_def)

theorem paper_orders_never_overfilled_witness:
  "\<exists>s ord. sim_place_order ''a'' noon (paper_sell 300) (sample_paper (Fin 1)) = (s, ord) \<and> order_id ord = ''a''
     \<and> filled_volume ord = traded (trades (base s)) ''a'' \<and> status_ok ord \<and> distinct (map task_order (tasks s))"
proof -
  obtain s ord where s: "sim_place_order ''a'' noon (paper_sell 300) (sample_paper (Fin 1)) = (s, ord)"
    "sim_step\<^sup>*\<^sup>* (sample_paper (Fin 1)) s" "dget (orders (base s)) ''a'' = Some ord"
    by (rule sample_paper_place [of 300 "Fin 1"]) auto
  from paper_orders_never_overfilled [OF sample_paper_start s(2,3)] s(1) show ?thesis by blast
qed

theorem paper_orders_are_settled_witness:
  "\<exists>s s'. sim_step\<^sup>*\<^sup>* (sample_paper (Fin 1)) s \<and> (task_step ^^ 1) s s' \<and> 1 + work s' \<le> work s"
proof -
  obtain s where s: "sim_step\<^sup>*\<^sup>* (sample_paper (Fin 1)) s" "tasks s = [Waiting ''a'' 0]"
    by (rule sample_paper_place [of 300 "Fin 1"]) auto
  from tasks_can_run [of s] s(2) obtain s' where "(task_step ^^ 1) s s'" by auto
  with paper_orders_are_settled [OF sample_paper_start s(1) this] s(1) show ?thesis by blast
qed

theorem paper_cancel_is_not_final_witness:
  "\<exists>s s' s'' ord1 ord2. sim_step\<^sup>*\<^sup>* (sample_paper (Fin 1)) s \<and> sim_cancel_order noon ''a'' s = (s', True)
     \<and> dget (orders (base s')) ''a'' = Some ord1 \<and> order_status ord1 = CANCELLED \<and> filled_volume ord1 < 300
     \<and> sim_step s' s'' \<and> dget (orders (base s'')) ''a'' = Some ord2 \<and> order_status ord2 = FILLED \<and> filled_volume ord2 = 300"
proof -
  obtain s ord where s: "sim_place_order ''a'' noon (paper_sell 300) (sample_paper (Fin 1)) = (s, ord)" "order_status ord = SUBMITTED"
    by (rule sample_paper_place [of 300 "Fin 1"]) auto
  have p: "flt fzero (partial_fill_prob (sample_paper (Fin 1)))" "200 \<le> request_volume (paper_sell 300)" "request_volume (paper_sell 300) = 300"
    by (simp_all add: sample_paper_def paper_sell_def)
  from paper_cancel_is_not_final [OF sample_paper_start s sample_paper_price p(1,2)] p(3) show ?thesis by simp blast
qed

end
