(* ===== verification/Decimal_Facts.thy ===== *)
theory Decimal_Facts
  imports Py_Decimal
begin

text \<open>
  When the decimal arithmetic of 28 digits is exact: powers of ten, the number of digits of an integer, and that a
  quotient that needs at most 28 digits is not rounded.
\<close>

section \<open>When decimals are exact\<close>

lemma pow10_pos [simp]: "0 < pow10 k"
  by (simp add: pow10_def)

lemma pow10_nonzero [simp]: "pow10 k \<noteq> 0"
  by (simp add: pow10_def)

lemma pow10_0 [simp]: "pow10 0 = 1"
  by (simp add: pow10_def)

lemma pow10_Suc: "pow10 (k + 1) = 10 * pow10 k"
proof (cases "0 \<le> k")
  case True
  then show ?thesis by (simp add: pow10_def nat_add_distrib)
next
  case False
  then have "nat (- k) = Suc (nat (- (k + 1)))" by linarith
  with False show ?thesis by (auto simp: pow10_def)
qed

lemma pow10_add_nat: "pow10 (k + int n) = pow10 k * 10 ^ n"
proof (induction n)
  case (Suc n)
  have "pow10 (k + int (Suc n)) = pow10 ((k + int n) + 1)" by (simp add: algebra_simps)
  then show ?case using Suc by (simp add: pow10_Suc)
qed simp

lemma pow10_nat: "pow10 (int n) = 10 ^ n"
  by (simp add: pow10_def)

lemma pow10_add: "pow10 (a + b) = pow10 a * pow10 b"
proof (cases "0 \<le> b")
  case True
  then obtain n where "b = int n" using nonneg_int_cases by blast
  then show ?thesis by (simp add: pow10_add_nat pow10_nat)
next
  case False
  then have b: "b = - int (nat (- b))" by simp
  define n where "n = nat (- b)"
  with b have b: "b = - int n" by simp
  have "pow10 a = pow10 (a + b) * 10 ^ n" using pow10_add_nat [of "a + b" n] by (simp add: b)
  moreover have "pow10 b * 10 ^ n = 1" using pow10_add_nat [of b n] by (simp add: b)
  ultimately show ?thesis by (simp add: field_simps)
qed

lemma pow10_diff: "pow10 (a - b) = pow10 a / pow10 b"
  using pow10_add [of "a - b" b] by (simp add: field_simps)

lemma pow10_less: "a < b \<Longrightarrow> pow10 a < pow10 b"
proof -
  assume "a < b"
  then obtain n where "b = a + int (Suc n)" by (metis add.commute zless_iff_Suc_zadd)
  then have "pow10 b = pow10 a * 10 ^ Suc n" by (simp only: pow10_add_nat)
  moreover have "(1 :: rat) < 10 ^ Suc n" by (rule one_less_power) simp_all
  ultimately show ?thesis using pow10_pos [of a] by (metis mult.right_neutral mult_less_cancel_left_pos)
qed

lemma pow10_less_iff: "pow10 a < pow10 b \<longleftrightarrow> a < b"
  using pow10_less [of a b] pow10_less [of b a] by (cases a b rule: linorder_cases) auto

lemma digits_length:
  assumes "0 < n"
  shows "10 ^ (length (digits_of_int n) - 1) \<le> n \<and> n < 10 ^ length (digits_of_int n) \<and> 0 < length (digits_of_int n)"
  using assms
proof (induction n rule: digits_of_int.induct)
  case (1 n)
  show ?case
  proof (cases "n < 10")
    case True
    then show ?thesis using 1(2) by (subst (1 2 3) digits_of_int.simps) simp
  next
    case False
    let ?l = "length (digits_of_int (n div 10))"
    have h: "10 ^ (?l - 1) \<le> n div 10" "n div 10 < 10 ^ ?l" "0 < ?l" using 1(1) [OF False] False by auto
    have l: "length (digits_of_int n) = Suc ?l" using False by (subst digits_of_int.simps) simp
    have "(10 :: int) ^ ?l = 10 * 10 ^ (?l - 1)" using h(3) by (metis Suc_diff_1 power_Suc)
    with h(1) have "10 ^ ?l \<le> n" by simp
    moreover have "n < 10 ^ Suc ?l" using h(2) by simp
    ultimately show ?thesis unfolding l by simp
  qed
qed

lemma digits_length_le: "0 \<le> n \<Longrightarrow> n < 10 ^ k \<Longrightarrow> 0 < k \<Longrightarrow> length (digits_of_int n) \<le> k"
proof (cases "n = 0")
  case True
  then show "0 < k \<Longrightarrow> length (digits_of_int n) \<le> k" by (subst digits_of_int.simps) simp
next
  case False
  assume a: "0 \<le> n" "n < 10 ^ k" "0 < k"
  then have "10 ^ (length (digits_of_int n) - 1) < (10 :: int) ^ k" using digits_length [of n] False by linarith
  then have "length (digits_of_int n) - 1 < k" by (rule power_less_imp_less_exp [rotated]) simp
  then show "length (digits_of_int n) \<le> k" by linarith
qed

lemma flog10_bounds:
  assumes "0 < x"
  shows "pow10 (flog10 x) \<le> x" "x < pow10 (flog10 x + 1)"
proof -
  obtain p q where pq: "quotient_of x = (p, q)" by force
  have q: "0 < q" and x: "x = of_int p / of_int q" using quotient_of_denom_pos [OF pq] quotient_of_div [OF pq] by simp_all
  have p: "0 < p" using assms q by (simp add: x zero_less_divide_iff)
  let ?m = "length (digits_of_int p)" and ?n = "length (digits_of_int q)"
  define k where "k = int ?m - int ?n"
  have f: "flog10 x = (if pow10 k \<le> x then k else k - 1)" by (simp add: flog10_def pq k_def Let_def)
  have P: "10 ^ (?m - 1) \<le> (of_int p :: rat)" "(of_int p :: rat) < 10 ^ ?m" "0 < ?m"
    and Q: "10 ^ (?n - 1) \<le> (of_int q :: rat)" "(of_int q :: rat) < 10 ^ ?n" "0 < ?n"
    using digits_length [OF p] digits_length [OF q] by (metis of_int_le_iff of_int_less_iff of_int_numeral of_int_power)+
  have m: "pow10 (int ?m - 1) = 10 ^ (?m - 1)" "pow10 (int ?n - 1) = 10 ^ (?n - 1)"
    using P(3) Q(3) pow10_nat [of "?m - 1"] pow10_nat [of "?n - 1"] by (simp_all only: of_nat_diff of_nat_1 Suc_leI One_nat_def [symmetric])
  have lo: "pow10 (k - 1) \<le> x"
  proof -
    have "pow10 (k - 1) = pow10 (int ?m - 1) / pow10 (int ?n)" by (simp add: k_def pow10_diff [symmetric] algebra_simps)
    also have "\<dots> \<le> of_int p / of_int q" unfolding m pow10_nat using P Q p q by (intro frac_le) simp_all
    finally show ?thesis by (simp add: x)
  qed
  have hi: "x < pow10 (k + 1)"
  proof -
    have "of_int p / of_int q < pow10 (int ?m) / pow10 (int ?n - 1)"
      unfolding m pow10_nat using P Q p q by (intro frac_less) simp_all
    also have "\<dots> = pow10 (k + 1)" by (simp add: k_def pow10_diff [symmetric] algebra_simps)
    finally show ?thesis by (simp add: x)
  qed
  show "pow10 (flog10 x) \<le> x" "x < pow10 (flog10 x + 1)" using lo hi by (auto simp: f)
qed

lemma dec_fix_exact: "\<bar>c\<bar> < 10 ^ 28 \<Longrightarrow> dec_fix c e = Dec c e"
  using digits_length_le [of "\<bar>c\<bar>" 28] by (simp add: dec_fix_def DEC_PREC_def)

text \<open>A quotient with at most 28 digits is not rounded.\<close>

lemma dec_round_exact:
  assumes "\<bar>c\<bar> < 10 ^ 28"
  shows "dec_round (of_int c * pow10 k) = of_int c * pow10 k"
proof (cases "c = 0")
  case False
  let ?q = "of_int c * pow10 k :: rat"
  define e where "e = flog10 \<bar>?q\<bar> - int DEC_PREC + 1"
  have q: "0 < \<bar>?q\<bar>" using False by simp
  have "\<bar>of_int c\<bar> < (10 ^ 28 :: rat)" using assms by (metis of_int_abs of_int_less_iff of_int_numeral of_int_power)
  then have "\<bar>?q\<bar> < 10 ^ 28 * pow10 k" using pow10_pos [of k] by (simp add: abs_mult del: pow10_pos)
  also have "\<dots> = pow10 (k + 28)" using pow10_add_nat [of k 28] by simp
  finally have "pow10 (flog10 \<bar>?q\<bar>) < pow10 (k + 28)" using flog10_bounds(1) [OF q] by linarith
  then have "e \<le> k" unfolding pow10_less_iff e_def DEC_PREC_def by simp
  then obtain n where n: "k = e + int n" using zle_iff_zadd by blast
  then have "?q / pow10 e = of_int (c * 10 ^ n)" using pow10_add_nat [of e n] pow10_pos [of e] by simp
  then have "rne (?q / pow10 e) = c * 10 ^ n" by (metis rne_of_int)
  then have "dec_round ?q = of_int (c * 10 ^ n) * pow10 e" using q by (simp add: dec_round_def e_def [symmetric] Let_def)
  also have "\<dots> = ?q" using n pow10_add_nat [of e n] by simp
  finally show ?thesis .
qed (simp add: dec_round_def)

end
