(* ===== verification/T_Order_Policy.thy ===== *)
theory T_Order_Policy
  imports Decimal_Facts
begin

text \<open>
  The frozen order policies of the T assistant (\<open>trading/t_order_policy.py\<close>): protected limit prices, and the decisions on new orders and on
  replacements. A price that the policy returns is modelled by its value; the number of zeros at its end is not.
\<close>

section \<open>Times\<close>

text \<open>
  What the policies observe of a \<open>datetime\<close>: the instant in microseconds, where a time without a zone is one
  of Shanghai, and the time of day in Shanghai in microseconds. The difference of two times without a
  zone is that of their instants.
\<close>

record policy_time =
  pt_instant :: int
  pt_of_day :: int

definition elapsed_seconds :: "policy_time \<Rightarrow> policy_time \<Rightarrow> pyfloat" where
  "elapsed_seconds later earlier =
     pmax fzero (fround (of_int (pt_instant later - pt_instant earlier) / 10 ^ 6))"

definition entry_cutoff :: "policy_time \<Rightarrow> bool" where
  "entry_cutoff now \<longleftrightarrow> (14 * 60 + 50) * 60 * 10 ^ 6 \<le> pt_of_day now"

section \<open>Policies\<close>

datatype TOrderPolicyDecision = ALLOW_NEW | ALLOW_REPLACE | WAIT_AUTHORITATIVE_TERMINAL | EXPIRED | CUTOFF
  | REPLACE_LIMIT_REACHED

record TOrderPolicyResult =
  policy_decision :: TOrderPolicyDecision
  policy_reason :: string
  policy_limit_price :: "decimal option"
  policy_remaining :: int

definition policy_result :: "TOrderPolicyDecision \<Rightarrow> string \<Rightarrow> TOrderPolicyResult" where
  "policy_result d reason =
     \<lparr>policy_decision = d, policy_reason = reason, policy_limit_price = None, policy_remaining = 0\<rparr>"

definition policy_allowed :: "TOrderPolicyResult \<Rightarrow> bool" where
  "policy_allowed r \<longleftrightarrow> policy_decision r \<in> {ALLOW_NEW, ALLOW_REPLACE}"

record TOrderPolicy =
  policy_version :: string
  policy_side :: string
  max_slippage_bps :: int
  order_ttl_seconds :: int
  max_replace_count :: int
  total_ttl_seconds :: int

definition TEntryOrderPolicy :: TOrderPolicy where
  "TEntryOrderPolicy =
     \<lparr>policy_version = ''TEntryOrderPolicy.v1'', policy_side = ''BUY'', max_slippage_bps = 30,
      order_ttl_seconds = 30, max_replace_count = 1, total_ttl_seconds = 60\<rparr>"

definition TExitOrderPolicy :: TOrderPolicy where
  "TExitOrderPolicy =
     \<lparr>policy_version = ''TExitOrderPolicy.v1'', policy_side = ''SELL'', max_slippage_bps = 30,
      order_ttl_seconds = 30, max_replace_count = 2, total_ttl_seconds = 90\<rparr>"

definition make_entry_policy :: "TOrderPolicy \<Rightarrow> TOrderPolicy res" where
  "make_entry_policy p =
     (if p = TEntryOrderPolicy then Inr p else Inl (ValueError ''T_ENTRY_ORDER_POLICY_V1_IMMUTABLE''))"

definition make_exit_policy :: "TOrderPolicy \<Rightarrow> TOrderPolicy res" where
  "make_exit_policy p =
     (if p = TExitOrderPolicy then Inr p else Inl (ValueError ''T_EXIT_ORDER_POLICY_V1_IMMUTABLE''))"

section \<open>Protected prices\<close>

text \<open>Prices are the decimals of their text; \<open>None\<close> is an absent one.\<close>

fun positive_decimal :: "string \<Rightarrow> decimal option \<Rightarrow> decimal res" where
  "positive_decimal reason (Some (Dec c e)) = (if c \<le> 0 then Inl (ValueError reason) else Inr (Dec c e))"
| "positive_decimal reason _ = Inl (ValueError reason)"

text \<open>\<open>Decimal(n) / Decimal(10 ^ k)\<close>: no zeros at the end of the fraction.\<close>

fun dec_scale :: "nat \<Rightarrow> int \<Rightarrow> decimal" where
  "dec_scale 0 n = Dec n 0"
| "dec_scale (Suc k) n = (if n mod 10 = 0 then dec_scale k (n div 10) else Dec n (- int (Suc k)))"

fun dec_positive :: "decimal \<Rightarrow> bool res" where
  "dec_positive (Dec c e) = Inr (0 < c)"
| "dec_positive (DInf s) = Inr s"
| "dec_positive DNaN = Inl InvalidOperation"

text \<open>The limits that are present and positive.\<close>

fun price_limits :: "decimal option list \<Rightarrow> decimal list res" where
  "price_limits [] = Inr []"
| "price_limits (None # ds) = price_limits ds"
| "price_limits (Some d # ds) =
     rbind (dec_positive d) (\<lambda>pos. rbind (price_limits ds) (\<lambda>rest. Inr (if pos then d # rest else rest)))"

text \<open>\<open>min\<close> and \<open>max\<close> of decimals: the first of the smallest or largest ones.\<close>

fun dec_min :: "decimal \<Rightarrow> decimal list \<Rightarrow> decimal res" where
  "dec_min d [] = Inr d"
| "dec_min d (x # xs) = rbind (dec_le d x) (\<lambda>le. dec_min (if le then d else x) xs)"

fun dec_max :: "decimal \<Rightarrow> decimal list \<Rightarrow> decimal res" where
  "dec_max d [] = Inr d"
| "dec_max d (x # xs) = rbind (dec_le x d) (\<lambda>le. dec_max (if le then d else x) xs)"

record price_facts =
  reference_price_of :: "decimal option"
  price_tick_of :: "decimal option"
  limit_up_of :: "decimal option"
  limit_down_of :: "decimal option"
  cage_upper_of :: "decimal option"
  cage_lower_of :: "decimal option"

definition protected_limit_price :: "TOrderPolicy \<Rightarrow> price_facts \<Rightarrow> decimal res" where
  "protected_limit_price p f =
     rbind (positive_decimal ''T_ORDER_REFERENCE_PRICE_INVALID'' (reference_price_of f)) (\<lambda>reference.
     rbind (positive_decimal ''T_ORDER_PRICE_TICK_INVALID'' (price_tick_of f)) (\<lambda>tick.
       let bps = dec_scale 4 (max_slippage_bps p)
       in if policy_side p = ''BUY''
          then rbind (price_limits [limit_up_of f, cage_upper_of f]) (\<lambda>ceilings.
               rbind (dec_min (dec_mul reference (dec_add (Dec 1 0) bps)) ceilings) (\<lambda>v. dec_to_tick False v tick))
          else rbind (price_limits [limit_down_of f, cage_lower_of f]) (\<lambda>floors.
               rbind (dec_max (dec_mul reference (dec_add (Dec 1 0) (dec_neg bps))) floors) (\<lambda>v. dec_to_tick True v tick))))"

section \<open>Decisions\<close>

definition buying :: "TOrderPolicy \<Rightarrow> bool" where
  "buying p \<longleftrightarrow> policy_side p = ''BUY''"

definition decide_new :: "TOrderPolicy \<Rightarrow> policy_time \<Rightarrow> price_facts \<Rightarrow> TOrderPolicyResult res" where
  "decide_new p now f =
     (if buying p \<and> entry_cutoff now then Inr (policy_result CUTOFF ''T_ENTRY_CUTOFF_REACHED'')
      else rbind (protected_limit_price p f) (\<lambda>price.
             Inr \<lparr>policy_decision = ALLOW_NEW, policy_reason = policy_version p @ ''_NEW_ALLOWED'',
                  policy_limit_price = Some price, policy_remaining = 0\<rparr>))"

record replace_facts =
  original_created_at :: policy_time
  prior_order_created_at :: "policy_time option"
  replace_count :: int
  requested_volume_of :: int
  authoritative_filled_volume :: int
  prior_order_authoritative_terminal :: bool
  result_unknown :: bool
  cancel_unconfirmed :: bool

definition order_over :: "TOrderPolicy \<Rightarrow> TOrderPolicyResult" where
  "order_over p = policy_result EXPIRED (if buying p then ''T_ENTRY_ORDER_EXPIRED'' else ''T_EXIT_ORDER_EXPIRED'')"

definition decide_replace :: "TOrderPolicy \<Rightarrow> policy_time \<Rightarrow> replace_facts \<Rightarrow> price_facts \<Rightarrow> TOrderPolicyResult res" where
  "decide_replace p now o_facts f =
     (if result_unknown o_facts then Inr (policy_result WAIT_AUTHORITATIVE_TERMINAL ''ORDER_RESULT_UNKNOWN'')
      else if cancel_unconfirmed o_facts \<or> \<not> prior_order_authoritative_terminal o_facts
      then Inr (policy_result WAIT_AUTHORITATIVE_TERMINAL ''ORDER_CANCEL_UNCONFIRMED'')
      else if fle (float_of_int (total_ttl_seconds p)) (elapsed_seconds now (original_created_at o_facts))
      then Inr (order_over p)
      else if buying p \<and> entry_cutoff now then Inr (policy_result CUTOFF ''T_ENTRY_CUTOFF_REACHED'')
      else if max_replace_count p \<le> max 0 (replace_count o_facts)
      then Inr (policy_result REPLACE_LIMIT_REACHED ''ORDER_REPLACE_LIMIT_REACHED'')
      else if flt (elapsed_seconds now
                     (case prior_order_created_at o_facts of Some t \<Rightarrow> t | None \<Rightarrow> original_created_at o_facts))
                  (float_of_int (order_ttl_seconds p))
      then Inr (policy_result WAIT_AUTHORITATIVE_TERMINAL
                  (if buying p then ''T_ENTRY_ORDER_ACTIVE'' else ''T_EXIT_ORDER_ACTIVE''))
      else let remaining = max 0 (requested_volume_of o_facts - max 0 (authoritative_filled_volume o_facts))
           in if remaining \<le> 0 then Inr (order_over p)
              else rbind (protected_limit_price p f) (\<lambda>price.
                     Inr \<lparr>policy_decision = ALLOW_REPLACE, policy_reason = policy_version p @ ''_REPLACE_ALLOWED'',
                          policy_limit_price = Some price, policy_remaining = remaining\<rparr>))"

end
