(* ===== verification/T_Order_Safety.thy ===== *)
theory T_Order_Safety
  imports T_Order_Policy
begin

text \<open>
  What the order policies guarantee: the protected price is the best one on the tick grid, and a chain of replacements never exceeds the
  volume of its request.
\<close>

section \<open>The protected price is the best one on the grid\<close>

text \<open>
  Prices as exchanges publish them, for a tick of \<open>10 ^ t\<close>: at most 24 digits and at most \<open>10 ^ 24\<close> ticks, so that no step
  of the computation is rounded to the 28 digits of a decimal.
\<close>

fun plain_price :: "int \<Rightarrow> decimal \<Rightarrow> bool" where
  "plain_price t (Dec c e) \<longleftrightarrow> 0 < c \<and> c < 10 ^ 24 \<and> of_int c * pow10 e \<le> 10 ^ 24 * pow10 t"
| "plain_price t _ \<longleftrightarrow> False"

definition present :: "decimal option list \<Rightarrow> decimal list" where
  "present ds = List.map_filter id ds"

lemma present_simps [simp]:
  "present [] = []" "present (None # ds) = present ds" "present (Some d # ds) = d # present ds"
  by (simp_all add: present_def List.map_filter_def)

definition plain_facts :: "int \<Rightarrow> price_facts \<Rightarrow> bool" where
  "plain_facts t f \<longleftrightarrow> price_tick_of f = Some (Dec 1 t) \<and> reference_price_of f \<noteq> None
     \<and> list_all (plain_price t)
         (present [reference_price_of f, limit_up_of f, limit_down_of f, cage_upper_of f, cage_lower_of f])"

text \<open>What a buying and a selling price must respect.\<close>

definition buy_price_ok :: "price_facts \<Rightarrow> rat \<Rightarrow> bool" where
  "buy_price_ok f x \<longleftrightarrow> x \<le> dec_value (the (reference_price_of f)) * (1003 / 1000)
     \<and> list_all (\<lambda>d. x \<le> dec_value d) (present [limit_up_of f, cage_upper_of f])"

definition sell_price_ok :: "price_facts \<Rightarrow> rat \<Rightarrow> bool" where
  "sell_price_ok f x \<longleftrightarrow> dec_value (the (reference_price_of f)) * (997 / 1000) \<le> x
     \<and> list_all (\<lambda>d. dec_value d \<le> x) (present [limit_down_of f, cage_lower_of f])"

lemma plain_finite: "plain_price t d \<Longrightarrow> dec_finite d"
  by (cases d) simp_all

lemma dec_le_finite: "dec_finite a \<Longrightarrow> dec_finite b \<Longrightarrow> dec_le a b = Inr (dec_value a \<le> dec_value b)"
  by (cases a; cases b) simp_all

lemma price_limits_plain: "list_all (plain_price t) (present ds) \<Longrightarrow> price_limits ds = Inr (present ds)"
proof (induction ds)
  case (Cons d ds)
  show ?case
  proof (cases d)
    case (Some x)
    with Cons show ?thesis by (cases x) simp_all
  qed (use Cons in simp)
qed simp

lemma dec_min_finite:
  assumes "dec_finite d" "list_all dec_finite ds"
  shows "\<exists>v. dec_min d ds = Inr v \<and> v \<in> set (d # ds) \<and> list_all (\<lambda>x. dec_value v \<le> dec_value x) (d # ds)"
  using assms
proof (induction d ds rule: dec_min.induct)
  case (2 d x xs)
  then show ?case by (cases "dec_value d \<le> dec_value x") (force simp: dec_le_finite list_all_iff)+
qed simp

lemma dec_max_finite:
  assumes "dec_finite d" "list_all dec_finite ds"
  shows "\<exists>v. dec_max d ds = Inr v \<and> v \<in> set (d # ds) \<and> list_all (\<lambda>x. dec_value x \<le> dec_value v) (d # ds)"
  using assms
proof (induction d ds rule: dec_max.induct)
  case (2 d x xs)
  then show ?case by (cases "dec_value x \<le> dec_value d") (force simp: dec_le_finite list_all_iff)+
qed simp

text \<open>Rounding a price with at most 28 digits to a tick that is a power of ten.\<close>

lemma to_tick_exact:
  assumes "0 < c" "c < 10 ^ 28" "of_int c * pow10 e < 10 ^ 27 * pow10 t"
  shows "dec_to_tick up (Dec c e) (Dec 1 t) =
    Inr (Dec (if up then \<lceil>of_int c * pow10 e / pow10 t\<rceil> else \<lfloor>of_int c * pow10 e / pow10 t\<rfloor>) t)"
proof -
  let ?q = "of_int c * pow10 e / pow10 t :: rat"
  have q: "?q = of_int c * pow10 (e - t)" by (simp add: pow10_diff)
  have r: "dec_round ?q = ?q" unfolding q by (rule dec_round_exact) (use assms in simp)
  have b: "0 \<le> ?q" "?q < 10 ^ 27"
    using assms pow10_pos [of t] pow10_pos [of e] by (simp_all add: field_simps del: pow10_pos)
  have "0 \<le> \<lfloor>?q\<rfloor>" "0 \<le> \<lceil>?q\<rceil>" using b(1) by (simp, linarith)
  moreover have "\<lfloor>?q\<rfloor> < 10 ^ 27" "\<lceil>?q\<rceil> \<le> 10 ^ 27" using b(2) by (simp_all add: floor_less_iff ceiling_le_iff)
  ultimately have "\<bar>\<lfloor>?q\<rfloor>\<bar> < 10 ^ 28" "\<bar>\<lceil>?q\<rceil>\<bar> < 10 ^ 28" by simp_all
  then show ?thesis using r by (simp add: dec_fix_exact Let_def)
qed

lemma slipped_exact:
  assumes "plain_price t r" "0 < k" "k < 10000"
  shows "dec_value (dec_mul r (Dec k (- 3))) = dec_value r * (of_int k / 1000)"
    and "\<exists>c e. dec_mul r (Dec k (- 3)) = Dec c e \<and> 0 < c \<and> c < 10 ^ 28 \<and> of_int c * pow10 e < 10 ^ 27 * pow10 t"
proof -
  obtain c e where r: "r = Dec c e" "0 < c" "c < 10 ^ 24" "of_int c * pow10 e \<le> 10 ^ 24 * pow10 t"
    using assms(1) by (cases r) auto
  have "c * k < 10 ^ 24 * 10000" using r assms by (intro mult_strict_mono) auto
  then have m: "dec_mul r (Dec k (- 3)) = Dec (c * k) (e - 3)" "0 < c * k" "c * k < 10 ^ 28"
    using r assms by (simp_all add: dec_fix_exact)
  have p: "pow10 (e - 3) = pow10 e / 1000" using pow10_diff [of e 3] by (simp add: pow10_def)
  show "dec_value (dec_mul r (Dec k (- 3))) = dec_value r * (of_int k / 1000)"
    unfolding m(1) unfolding r by (simp add: p)
  have "of_int (c * k) * pow10 (e - 3) = (of_int c * pow10 e) * (of_int k / 1000)" by (simp add: p)
  also have "\<dots> \<le> (10 ^ 24 * pow10 t) * (of_int k / 1000)" using r assms by (intro mult_right_mono) auto
  also have "\<dots> < (10 ^ 24 * pow10 t) * 1000"
    using assms(3) by (intro mult_strict_left_mono) (simp_all add: field_simps)
  finally have "of_int (c * k) * pow10 (e - 3) < 10 ^ 27 * pow10 t" by simp
  with m show "\<exists>c e. dec_mul r (Dec k (- 3)) = Dec c e \<and> 0 < c \<and> c < 10 ^ 28 \<and> of_int c * pow10 e < 10 ^ 27 * pow10 t"
    by blast
qed

lemma plain_small: "plain_price t d \<Longrightarrow> \<exists>c e. d = Dec c e \<and> 0 < c \<and> c < 10 ^ 28 \<and> of_int c * pow10 e < 10 ^ 27 * pow10 t"
proof (cases d)
  case (Dec c e)
  assume "plain_price t d"
  with Dec have "of_int c * pow10 e \<le> 10 ^ 24 * pow10 t" "0 < c" "c < 10 ^ 24" by simp_all
  moreover have "10 ^ 24 * pow10 t < 10 ^ 27 * pow10 t" using pow10_pos [of t] by simp
  ultimately show ?thesis using Dec by (auto intro: order.strict_trans order.strict_trans1)
qed simp_all

lemma slippage_factors:
  "dec_add (Dec 1 0) (dec_scale 4 30) = Dec 1003 (- 3)" "dec_add (Dec 1 0) (dec_neg (dec_scale 4 30)) = Dec 997 (- 3)"
  by (simp_all add: numeral_eq_Suc dec_fix_exact) 

text \<open>A bound of all limits, and the greatest and the least multiple of the tick on its right side.\<close>

lemma floor_is_best:
  assumes "v \<in> set ds" "list_all (\<lambda>x. dec_value v \<le> dec_value x) ds" and n: "n = \<lfloor>dec_value v / pow10 t\<rfloor>"
  shows "list_all (\<lambda>x. of_int m * pow10 t \<le> dec_value x) ds \<longleftrightarrow> m \<le> n"
proof -
  have "list_all (\<lambda>x. y \<le> dec_value x) ds \<longleftrightarrow> y \<le> dec_value v" for y
    using assms(1,2) by (auto simp: list_all_iff intro: order_trans)
  then show ?thesis unfolding n by (simp add: le_floor_iff pos_le_divide_eq)
qed

lemma ceiling_is_best:
  assumes "v \<in> set ds" "list_all (\<lambda>x. dec_value x \<le> dec_value v) ds" and n: "n = \<lceil>dec_value v / pow10 t\<rceil>"
  shows "list_all (\<lambda>x. dec_value x \<le> of_int m * pow10 t) ds \<longleftrightarrow> n \<le> m"
proof -
  have "list_all (\<lambda>x. dec_value x \<le> y) ds \<longleftrightarrow> dec_value v \<le> y" for y
    using assms(1,2) by (auto simp: list_all_iff intro: order_trans)
  then show ?thesis unfolding n by (simp add: ceiling_le_iff pos_divide_le_eq)
qed

lemma plain_factsD:
  assumes "plain_facts t f"
  obtains r where "reference_price_of f = Some r" "plain_price t r"
    "positive_decimal ''T_ORDER_REFERENCE_PRICE_INVALID'' (Some r) = Inr r" "price_tick_of f = Some (Dec 1 t)"
    "list_all (plain_price t) (present [limit_up_of f, cage_upper_of f])"
    "list_all (plain_price t) (present [limit_down_of f, cage_lower_of f])"
proof -
  from assms obtain r where r: "reference_price_of f = Some r" "plain_price t r" "price_tick_of f = Some (Dec 1 t)"
    by (auto simp: plain_facts_def)
  then have "positive_decimal ''T_ORDER_REFERENCE_PRICE_INVALID'' (Some r) = Inr r" by (cases r) simp_all
  moreover have "list_all (plain_price t) (present [limit_up_of f, cage_upper_of f])"
    "list_all (plain_price t) (present [limit_down_of f, cage_lower_of f])"
    using assms by (cases "limit_up_of f"; cases "limit_down_of f"; cases "cage_upper_of f"; cases "cage_lower_of f";
        simp add: plain_facts_def r)+
  ultimately show thesis using that r by blast
qed

lemma member_small:
  assumes "plain_price t r" "0 < k" "k < 10000" "list_all (plain_price t) ds" "v \<in> set (dec_mul r (Dec k (- 3)) # ds)"
  shows "\<exists>c e. v = Dec c e \<and> 0 < c \<and> c < 10 ^ 28 \<and> of_int c * pow10 e < 10 ^ 27 * pow10 t"
  using slipped_exact(2) [OF assms(1-3)] plain_small assms(4,5) by (auto simp: list_all_iff)

lemma entry_price:
  assumes "plain_facts t f"
  shows "\<exists>d n. protected_limit_price TEntryOrderPolicy f = Inr d \<and> dec_value d = of_int n * pow10 t
    \<and> (\<forall>m. buy_price_ok f (of_int m * pow10 t) \<longleftrightarrow> m \<le> n)"
proof -
  obtain r where r: "reference_price_of f = Some r" "plain_price t r"
    "positive_decimal ''T_ORDER_REFERENCE_PRICE_INVALID'' (Some r) = Inr r" "price_tick_of f = Some (Dec 1 t)"
    "list_all (plain_price t) (present [limit_up_of f, cage_upper_of f])"
    using plain_factsD [OF assms] by metis
  let ?ds = "present [limit_up_of f, cage_upper_of f]" and ?s = "dec_mul r (Dec 1003 (- 3))"
  have "list_all dec_finite ?ds" using r(5) plain_finite by (auto simp: list_all_iff)
  moreover have "dec_finite ?s" using plain_finite [OF r(2)] by simp
  ultimately obtain v where v: "dec_min ?s ?ds = Inr v" "v \<in> set (?s # ?ds)"
    "list_all (\<lambda>x. dec_value v \<le> dec_value x) (?s # ?ds)" using dec_min_finite by blast
  obtain c e where c: "v = Dec c e" "0 < c" "c < 10 ^ 28" "of_int c * pow10 e < 10 ^ 27 * pow10 t"
    using member_small [OF r(2) _ _ r(5) v(2)] by auto
  let ?n = "\<lfloor>dec_value v / pow10 t\<rfloor>"
  have "protected_limit_price TEntryOrderPolicy f = Inr (Dec ?n t)"
    using r v(1) price_limits_plain [OF r(5)] to_tick_exact [OF c(2-4), of False]
    by (simp add: protected_limit_price_def TEntryOrderPolicy_def slippage_factors c(1) Let_def)
  moreover have sl: "dec_value ?s = dec_value r * (1003 / 1000)" using slipped_exact(1) [OF r(2), of 1003] by simp
  moreover have "buy_price_ok f x \<longleftrightarrow> list_all (\<lambda>d. x \<le> dec_value d) (?s # ?ds)" for x
    by (simp only: buy_price_ok_def r(1) option.sel list.pred_inject sl)
  ultimately show ?thesis
    using floor_is_best [OF v(2,3) refl, where t = t] by (intro exI [of _ "Dec ?n t"] exI [of _ ?n]) simp
qed

lemma exit_price:
  assumes "plain_facts t f"
  shows "\<exists>d n. protected_limit_price TExitOrderPolicy f = Inr d \<and> dec_value d = of_int n * pow10 t
    \<and> (\<forall>m. sell_price_ok f (of_int m * pow10 t) \<longleftrightarrow> n \<le> m)"
proof -
  obtain r where r: "reference_price_of f = Some r" "plain_price t r"
    "positive_decimal ''T_ORDER_REFERENCE_PRICE_INVALID'' (Some r) = Inr r" "price_tick_of f = Some (Dec 1 t)"
    "list_all (plain_price t) (present [limit_down_of f, cage_lower_of f])"
    using plain_factsD [OF assms] by metis
  let ?ds = "present [limit_down_of f, cage_lower_of f]" and ?s = "dec_mul r (Dec 997 (- 3))"
  have "list_all dec_finite ?ds" using r(5) plain_finite by (auto simp: list_all_iff)
  moreover have "dec_finite ?s" using plain_finite [OF r(2)] by simp
  ultimately obtain v where v: "dec_max ?s ?ds = Inr v" "v \<in> set (?s # ?ds)"
    "list_all (\<lambda>x. dec_value x \<le> dec_value v) (?s # ?ds)" using dec_max_finite by blast
  obtain c e where c: "v = Dec c e" "0 < c" "c < 10 ^ 28" "of_int c * pow10 e < 10 ^ 27 * pow10 t"
    using member_small [OF r(2) _ _ r(5) v(2)] by auto
  let ?n = "\<lceil>dec_value v / pow10 t\<rceil>"
  have "protected_limit_price TExitOrderPolicy f = Inr (Dec ?n t)"
    using r v(1) price_limits_plain [OF r(5)] to_tick_exact [OF c(2-4), of True]
    by (simp add: protected_limit_price_def TExitOrderPolicy_def slippage_factors c(1) Let_def)
  moreover have sl: "dec_value ?s = dec_value r * (997 / 1000)" using slipped_exact(1) [OF r(2), of 997] by simp
  moreover have "sell_price_ok f x \<longleftrightarrow> list_all (\<lambda>d. dec_value d \<le> x) (?s # ?ds)" for x
    by (simp only: sell_price_ok_def r(1) option.sel list.pred_inject sl)
  ultimately show ?thesis
    using ceiling_is_best [OF v(2,3) refl, where t = t] by (intro exI [of _ "Dec ?n t"] exI [of _ ?n]) simp
qed

text \<open>
  C33: The protected limit price is the best price on the tick grid: for prices as exchanges publish them and a tick that is a power of ten, an entry order gets
  the greatest multiple of the tick that is at most 0.3 percent above the reference and within the limit-up price and the upper cage, and
  an exit order the least multiple of the tick that is at most 0.3 percent below it and within the limit-down price and the lower cage.
\<close>

theorem protected_price_is_best:
  assumes "plain_facts t f"
  shows "(\<exists>d n. protected_limit_price TEntryOrderPolicy f = Inr d \<and> dec_value d = of_int n * pow10 t
      \<and> buy_price_ok f (dec_value d) \<and> (\<forall>m. buy_price_ok f (of_int m * pow10 t) \<longrightarrow> m \<le> n))
    \<and> (\<exists>d n. protected_limit_price TExitOrderPolicy f = Inr d \<and> dec_value d = of_int n * pow10 t
      \<and> sell_price_ok f (dec_value d) \<and> (\<forall>m. sell_price_ok f (of_int m * pow10 t) \<longrightarrow> n \<le> m))"
  using entry_price [OF assms] exit_price [OF assms] by (metis order_refl)

section \<open>Chains of replacements\<close>

text \<open>
  The orders of one request as the command service keeps them: an order, and after its authoritative
  end, where the policy allows it, another one for what is left. The facts of a replacement are those of the
  last order: its own volume and executions, and the number of orders before it.
\<close>

record chain_order =
  co_volume :: int
  co_filled :: int
  co_created :: policy_time
  co_ended :: bool

definition chain_facts :: "chain_order list \<Rightarrow> chain_order \<Rightarrow> bool \<Rightarrow> replace_facts" where
  "chain_facts os x unknown =
     \<lparr>original_created_at = co_created (hd (os @ [x])), prior_order_created_at = Some (co_created x),
      replace_count = int (length os), requested_volume_of = co_volume x, authoritative_filled_volume = co_filled x,
      prior_order_authoritative_terminal = co_ended x, result_unknown = unknown, cancel_unconfirmed = \<not> co_ended x\<rparr>"

inductive chain_step :: "TOrderPolicy \<Rightarrow> chain_order list \<Rightarrow> chain_order list \<Rightarrow> bool" for p where
  fill: "chain_step p (os @ [x]) (os @ [x\<lparr>co_filled := co_filled x + n\<rparr>])"
  if "\<not> co_ended x" "0 < n" "co_filled x + n \<le> co_volume x"
| finish: "chain_step p (os @ [x]) (os @ [x\<lparr>co_ended := True\<rparr>])"
| replace: "chain_step p (os @ [x])
    (os @ [x, \<lparr>co_volume = policy_remaining r, co_filled = 0, co_created = now, co_ended = False\<rparr>])"
  if "decide_replace p now (chain_facts os x unknown) f = Inr r" "policy_decision r = ALLOW_REPLACE"

definition total_filled :: "chain_order list \<Rightarrow> int" where
  "total_filled os = sum_list (map co_filled os)"

text \<open>Two consecutive orders of a chain that was begun at \<open>t0\<close>.\<close>

definition successor_ok :: "TOrderPolicy \<Rightarrow> policy_time \<Rightarrow> chain_order \<Rightarrow> chain_order \<Rightarrow> bool" where
  "successor_ok p t0 x y \<longleftrightarrow> co_ended x \<and> co_volume y = co_volume x - co_filled x \<and> 0 < co_volume y
     \<and> \<not> fle (float_of_int (total_ttl_seconds p)) (elapsed_seconds (co_created y) t0)
     \<and> \<not> flt (elapsed_seconds (co_created y) (co_created x)) (float_of_int (order_ttl_seconds p))
     \<and> \<not> (buying p \<and> entry_cutoff (co_created y))"

definition chain_ok :: "TOrderPolicy \<Rightarrow> int \<Rightarrow> chain_order list \<Rightarrow> bool" where
  "chain_ok p v os \<longleftrightarrow>
     os \<noteq> [] \<and> list_all (\<lambda>x. 0 \<le> co_filled x \<and> co_filled x \<le> co_volume x) os
     \<and> total_filled os + (co_volume (last os) - co_filled (last os)) = v
     \<and> int (length os) \<le> 1 + max 0 (max_replace_count p)
     \<and> successively (successor_ok p (co_created (hd os))) os"

lemma replace_allowed:
  assumes "decide_replace p now o_facts f = Inr r" "policy_decision r = ALLOW_REPLACE"
  shows "\<not> result_unknown o_facts" "\<not> cancel_unconfirmed o_facts" "prior_order_authoritative_terminal o_facts"
    "\<not> fle (float_of_int (total_ttl_seconds p)) (elapsed_seconds now (original_created_at o_facts))"
    "\<not> (buying p \<and> entry_cutoff now)" "max 0 (replace_count o_facts) < max_replace_count p"
    "\<not> flt (elapsed_seconds now
        (case prior_order_created_at o_facts of Some t \<Rightarrow> t | None \<Rightarrow> original_created_at o_facts)) (float_of_int (order_ttl_seconds p))"
    "policy_remaining r = max 0 (requested_volume_of o_facts - max 0 (authoritative_filled_volume o_facts))" "0 < policy_remaining r"
  using assms
  by (auto simp: decide_replace_def Let_def policy_result_def order_over_def rbind_Inr_iff split: if_splits)

lemma chain_ok_last:
  "chain_ok p v (os @ [x]) \<longleftrightarrow>
     list_all (\<lambda>x. 0 \<le> co_filled x \<and> co_filled x \<le> co_volume x) os \<and> 0 \<le> co_filled x \<and> co_filled x \<le> co_volume x
     \<and> total_filled os + co_volume x = v \<and> int (length os) \<le> max 0 (max_replace_count p)
     \<and> successively (successor_ok p (co_created (hd (os @ [x])))) os
     \<and> (os = [] \<or> successor_ok p (co_created (hd os)) (last os) x)"
  by (cases "os = []") (auto simp: chain_ok_def total_filled_def successively_append_iff)

lemmas chain_ok_single = chain_ok_last [where os = "[]", simplified]

lemma chain_step_ok:
  assumes "chain_step p os os'" "chain_ok p v os"
  shows "chain_ok p v os' \<and> co_created (hd os') = co_created (hd os)"
  using assms
proof (induction rule: chain_step.induct)
  case (fill x n os)
  then show ?case by (cases "os = []") (auto simp: chain_ok_last chain_ok_single successor_ok_def)
next
  case (finish os x)
  then show ?case by (cases "os = []") (auto simp: chain_ok_last chain_ok_single successor_ok_def)
next
  case (replace now os x unknown f r)
  note a = replace_allowed [OF replace(1,2)]
  let ?y = "\<lparr>co_volume = policy_remaining r, co_filled = 0, co_created = now, co_ended = False\<rparr>"
  have x: "0 \<le> co_filled x" "co_filled x \<le> co_volume x" using replace(3) by (simp_all add: chain_ok_last)
  have "successor_ok p (co_created (hd (os @ [x]))) x ?y"
    using a x by (simp add: successor_ok_def chain_facts_def)
  moreover have "int (length (os @ [x])) \<le> max 0 (max_replace_count p)" using a(6) by (simp add: chain_facts_def)
  moreover have "policy_remaining r = co_volume x - co_filled x" using a(8) x by (simp add: chain_facts_def)
  ultimately have "chain_ok p v ((os @ [x]) @ [?y])"
    using replace(3) unfolding chain_ok_last [of p v "os @ [x]"]
    by (cases "os = []") (auto simp: chain_ok_last chain_ok_single total_filled_def successively_append_iff)
  then show ?case by (cases "os = []") simp_all
qed

definition fresh_chain :: "int \<Rightarrow> policy_time \<Rightarrow> chain_order list" where
  "fresh_chain v t = [\<lparr>co_volume = v, co_filled = 0, co_created = t, co_ended = False\<rparr>]"

text \<open>
  C32: A request never buys or sells more than it asked for, whatever is filled and however often it is replaced: in every chain of orders that the policy allows, what was filled and what the last order
  still can fill add up to the requested volume, there is at most one order more than the replacement limit, and
  each replacement follows an authoritative end of its predecessor, not earlier than the life of an order after it, before the whole request expires, and for an entry before the cutoff of the day.
\<close>

theorem order_chain_bounded:
  assumes "0 < v" "(chain_step p)\<^sup>*\<^sup>* (fresh_chain v t) os"
  shows "total_filled os + (co_volume (last os) - co_filled (last os)) = v \<and> total_filled os \<le> v
    \<and> int (length os) \<le> 1 + max 0 (max_replace_count p) \<and> successively (successor_ok p t) os"
proof -
  have "chain_ok p v os \<and> co_created (hd os) = t"
    using assms(2)
  proof (induction rule: rtranclp_induct)
    case base
    then show ?case using assms(1) by (simp add: fresh_chain_def chain_ok_def total_filled_def)
  next
    case (step os1 os2)
    then show ?case using chain_step_ok by metis
  qed
  then have ok: "chain_ok p v os" "co_created (hd os) = t" by simp_all
  then have "co_filled (last os) \<le> co_volume (last os)" by (auto simp: chain_ok_def list_all_iff)
  with ok show ?thesis by (auto simp: chain_ok_def)
qed

section \<open>Samples\<close>

definition sample_prices :: price_facts where
  "sample_prices = \<lparr>reference_price_of = Some (Dec 1234 (- 2)), price_tick_of = Some (Dec 1 (- 2)),
     limit_up_of = Some (Dec 1236 (- 2)), limit_down_of = None, cage_upper_of = None, cage_lower_of = None\<rparr>"

lemma sample_plain: "plain_facts (- 2) sample_prices"
  by (simp add: plain_facts_def sample_prices_def pow10_def)

theorem protected_price_is_best_witness:
  "(\<exists>d. protected_limit_price TEntryOrderPolicy sample_prices = Inr d \<and> buy_price_ok sample_prices (dec_value d))
   \<and> (\<exists>d. protected_limit_price TExitOrderPolicy sample_prices = Inr d \<and> sell_price_ok sample_prices (dec_value d))"
  using protected_price_is_best [OF sample_plain] by blast

definition sample_chain :: "chain_order list" where
  "sample_chain =
     [\<lparr>co_volume = 300, co_filled = 100, co_created = \<lparr>pt_instant = 0, pt_of_day = 0\<rparr>, co_ended = True\<rparr>,
      \<lparr>co_volume = 200, co_filled = 0, co_created = \<lparr>pt_instant = 30000000, pt_of_day = 30000000\<rparr>, co_ended = False\<rparr>]"

lemma sample_chain_reached: "(chain_step TEntryOrderPolicy)\<^sup>*\<^sup>* (fresh_chain 300 \<lparr>pt_instant = 0, pt_of_day = 0\<rparr>) sample_chain"
proof -
  let ?t = "\<lparr>pt_instant = 0, pt_of_day = 0\<rparr>" and ?now = "\<lparr>pt_instant = 30000000, pt_of_day = 30000000\<rparr>"
  let ?x = "\<lparr>co_volume = 300, co_filled = 0, co_created = ?t, co_ended = False\<rparr>"
  obtain d where d: "protected_limit_price TEntryOrderPolicy sample_prices = Inr d" using entry_price [OF sample_plain] by blast
  let ?r = "\<lparr>policy_decision = ALLOW_REPLACE, policy_reason = ''TEntryOrderPolicy.v1_REPLACE_ALLOWED'',
    policy_limit_price = Some d, policy_remaining = 200\<rparr>"
  have r: "decide_replace TEntryOrderPolicy ?now (chain_facts [] (?x\<lparr>co_filled := 0 + 100, co_ended := True\<rparr>) False) sample_prices = Inr ?r"
    using d by (simp add: decide_replace_def chain_facts_def buying_def entry_cutoff_def elapsed_seconds_def Let_def
        TEntryOrderPolicy_def pmax_def float_of_int_def)
  have "chain_step TEntryOrderPolicy ([] @ [?x]) ([] @ [?x\<lparr>co_filled := co_filled ?x + 100\<rparr>])"
    by (rule chain_step.fill) simp_all
  moreover have "chain_step TEntryOrderPolicy ([] @ [?x\<lparr>co_filled := 0 + 100\<rparr>]) ([] @ [?x\<lparr>co_filled := 0 + 100, co_ended := True\<rparr>])"
    using chain_step.finish [of _ "[]" "?x\<lparr>co_filled := 0 + 100\<rparr>"] by simp
  moreover note chain_step.replace [OF r]
  ultimately show ?thesis by (simp add: fresh_chain_def sample_chain_def)
qed

theorem order_chain_bounded_witness:
  "total_filled sample_chain \<le> 300 \<and> int (length sample_chain) \<le> 2
     \<and> successively (successor_ok TEntryOrderPolicy \<lparr>pt_instant = 0, pt_of_day = 0\<rparr>) sample_chain"
  using order_chain_bounded [OF _ sample_chain_reached] by (simp add: TEntryOrderPolicy_def)

end
