(* ===== verification/Risk_Admission.thy ===== *)
theory Risk_Admission
  imports T_Assistant "HOL-Library.Product_Lexorder"
begin

text \<open>
  The order in which increases of risk are admitted to an account (\<open>trading/risk_increase_admission.py\<close>): candidates of several
  owners, their ranking, and the hashes of a manifest and of the inputs of an admission.
\<close>

section \<open>Candidates\<close>

datatype ExecutionOwnerType =
  STRATEGY_RUN | T_ASSISTANT_EXECUTION | ENTRY_PLAN | BOARD_ASSISTANT_EXECUTION | EXIT_PLAN | MANUAL_COMMAND

fun ExecutionOwnerType_value :: "ExecutionOwnerType \<Rightarrow> string" where
  "ExecutionOwnerType_value STRATEGY_RUN = ''STRATEGY_RUN''"
| "ExecutionOwnerType_value T_ASSISTANT_EXECUTION = ''T_ASSISTANT_EXECUTION''"
| "ExecutionOwnerType_value ENTRY_PLAN = ''ENTRY_PLAN''"
| "ExecutionOwnerType_value BOARD_ASSISTANT_EXECUTION = ''BOARD_ASSISTANT_EXECUTION''"
| "ExecutionOwnerType_value EXIT_PLAN = ''EXIT_PLAN''"
| "ExecutionOwnerType_value MANUAL_COMMAND = ''MANUAL_COMMAND''"

fun RISK_INCREASE_OWNER_PRIORITY :: "ExecutionOwnerType \<Rightarrow> int option" where
  "RISK_INCREASE_OWNER_PRIORITY MANUAL_COMMAND = Some 0"
| "RISK_INCREASE_OWNER_PRIORITY ENTRY_PLAN = Some 1"
| "RISK_INCREASE_OWNER_PRIORITY BOARD_ASSISTANT_EXECUTION = Some 2"
| "RISK_INCREASE_OWNER_PRIORITY T_ASSISTANT_EXECUTION = Some 3"
| "RISK_INCREASE_OWNER_PRIORITY STRATEGY_RUN = Some 4"
| "RISK_INCREASE_OWNER_PRIORITY EXIT_PLAN = None"

text \<open>A time as an instant and its ISO text; all times of a ranking carry a zone, or none does.\<close>

record admission_time =
  at_instant :: int
  at_iso :: string

record RiskIncreaseAdmissionCandidate =
  intent_id_of :: string
  owner_type_of :: ExecutionOwnerType
  owner_id_of :: string
  created_at_of :: admission_time
  material_fingerprint :: string
  allocation_batch_id :: "string option"
  allocation_rank :: "int option"
  allocation_created_at :: "admission_time option"

definition allocation_complete :: "RiskIncreaseAdmissionCandidate \<Rightarrow> bool" where
  "allocation_complete c \<longleftrightarrow>
     allocation_batch_id c \<noteq> None \<and> allocation_batch_id c \<noteq> Some []
     \<and> (case allocation_rank c of Some r \<Rightarrow> 1 \<le> r | None \<Rightarrow> False) \<and> allocation_created_at c \<noteq> None"

definition make_candidate :: "RiskIncreaseAdmissionCandidate \<Rightarrow> RiskIncreaseAdmissionCandidate res" where
  "make_candidate c =
     (if strip (intent_id_of c) = [] then Inl (ValueError ''RISK_ADMISSION_INTENT_ID_REQUIRED'')
      else if strip (owner_id_of c) = [] then Inl (ValueError ''RISK_ADMISSION_OWNER_ID_REQUIRED'')
      else if RISK_INCREASE_OWNER_PRIORITY (owner_type_of c) = None
      then Inl (ValueError ''RISK_ADMISSION_OWNER_NOT_RISK_INCREASE_PRODUCER'')
      else if length (material_fingerprint c) \<noteq> 64
      then Inl (ValueError ''RISK_ADMISSION_MATERIAL_FINGERPRINT_REQUIRED'')
      else if owner_type_of c = T_ASSISTANT_EXECUTION
      then (if allocation_complete c then Inr c else Inl (ValueError ''RISK_ADMISSION_T_ALLOCATION_REQUIRED''))
      else if allocation_batch_id c \<noteq> None \<or> allocation_rank c \<noteq> None \<or> allocation_created_at c \<noteq> None
      then Inl (ValueError ''RISK_ADMISSION_ALLOCATION_OWNER_CONFLICT'')
      else Inr c)"

definition manifest_value :: "RiskIncreaseAdmissionCandidate \<Rightarrow> pydict" where
  "manifest_value c =
     [(''intent_id'', VStr (intent_id_of c)), (''owner_type'', VStr (ExecutionOwnerType_value (owner_type_of c))),
      (''owner_id'', VStr (owner_id_of c)), (''created_at'', VStr (at_iso (created_at_of c))),
      (''material_fingerprint'', VStr (lower (material_fingerprint c))),
      (''allocation_batch_id'', case allocation_batch_id c of Some b \<Rightarrow> VStr b | None \<Rightarrow> VNone),
      (''allocation_rank'', case allocation_rank c of Some r \<Rightarrow> VInt r | None \<Rightarrow> VNone),
      (''allocation_created_at'', case allocation_created_at c of Some t \<Rightarrow> VStr (at_iso t) | None \<Rightarrow> VNone)]"

section \<open>Ranking\<close>

record RankedRiskIncreaseAdmission =
  admission_rank :: int
  candidate :: RiskIncreaseAdmissionCandidate

text \<open>The time that counts; a T-assistant candidate has an allocation time.\<close>

definition queue_time :: "RiskIncreaseAdmissionCandidate \<Rightarrow> int" where
  "queue_time c =
     at_instant (if owner_type_of c = T_ASSISTANT_EXECUTION
                 then (case allocation_created_at c of Some t \<Rightarrow> t | None \<Rightarrow> created_at_of c) else created_at_of c)"

type_synonym admission_key = "int \<times> int \<times> string \<times> string \<times> string \<times> int \<times> string"

definition queue_key :: "RiskIncreaseAdmissionCandidate \<Rightarrow> admission_key" where
  "queue_key c =
     (case RISK_INCREASE_OWNER_PRIORITY (owner_type_of c) of Some n \<Rightarrow> n | None \<Rightarrow> 0,
      queue_time c, ExecutionOwnerType_value (owner_type_of c), owner_id_of c,
      case allocation_batch_id c of Some b \<Rightarrow> b | None \<Rightarrow> [],
      case allocation_rank c of Some r \<Rightarrow> r | None \<Rightarrow> 0, intent_id_of c)"

definition rank_risk_increase_candidates ::
  "RiskIncreaseAdmissionCandidate list \<Rightarrow> RankedRiskIncreaseAdmission list res" where
  "rank_risk_increase_candidates cs =
     (if card (set (map intent_id_of cs)) \<noteq> length cs then Inl (ValueError ''RISK_ADMISSION_DUPLICATE_INTENT'')
      else if list_ex (\<lambda>c. RISK_INCREASE_OWNER_PRIORITY (owner_type_of c) = None) cs then Inl KeyError
      else Inr (map (\<lambda>(i, c). \<lparr>admission_rank = int i + 1, candidate = c\<rparr>) (enumerate 0 (sort_key queue_key cs))))"

definition hash_json :: "pyval \<Rightarrow> string res" where
  "hash_json v = (case json_text v of Some t \<Rightarrow> Inr (sha256_hex t) | None \<Rightarrow> Inl (ValueError []))"

definition risk_increase_intent_manifest_hash :: "RankedRiskIncreaseAdmission list \<Rightarrow> string res" where
  "risk_increase_intent_manifest_hash rs =
     hash_json (VList (map (\<lambda>r. VDict ((''rank'', VInt (admission_rank r)) # manifest_value (candidate r))) rs))"

definition ExecutionEnvironment_text :: "ExecutionEnvironment \<Rightarrow> string" where
  "ExecutionEnvironment_text e = (case e of PAPER \<Rightarrow> ''PAPER'' | LIVE \<Rightarrow> ''LIVE'' | BACKTEST \<Rightarrow> ''BACKTEST'')"

definition RISK_INCREASE_ADMISSION_POLICY_VERSION :: string where
  "RISK_INCREASE_ADMISSION_POLICY_VERSION = ''AccountRiskIncreaseAdmissionPolicy.v1''"

definition paper_scope_ok :: "ExecutionEnvironment \<Rightarrow> string option \<Rightarrow> bool" where
  "paper_scope_ok e pid =
     (case e of
        LIVE \<Rightarrow> pid = None
      | PAPER \<Rightarrow> (case pid of Some s \<Rightarrow> strip s \<noteq> [] \<and> s = strip s | None \<Rightarrow> False)
      | BACKTEST \<Rightarrow> True)"

definition risk_increase_input_fingerprint ::
  "string \<Rightarrow> ExecutionEnvironment \<Rightarrow> string option \<Rightarrow> string \<Rightarrow> string \<Rightarrow> string \<Rightarrow> string \<Rightarrow> string \<Rightarrow> string res" where
  "risk_increase_input_fingerprint account e pid snapshot_id snapshot_hash watermark manifest version =
     (if e = BACKTEST then Inl (ValueError ''RISK_ADMISSION_ENVIRONMENT_INVALID'')
      else if \<not> paper_scope_ok e pid then Inl (ValueError ''RISK_ADMISSION_PAPER_SCOPE_INVALID'')
      else let values = [(''account_id'', account), (''account_snapshot_id'', snapshot_id),
                         (''account_snapshot_hash'', lower snapshot_hash), (''obligation_watermark'', lower watermark),
                         (''intent_manifest_hash'', lower manifest), (''policy_version'', version)]
           in if list_ex (\<lambda>(_, v). v = []) values then Inl (ValueError ''RISK_ADMISSION_INPUT_INCOMPLETE'')
              else hash_json (VDict (map (\<lambda>(k, v). (k, VStr v)) values @
                     [(''environment'', VStr (ExecutionEnvironment_text e)),
                      (''paper_execution_id'', case pid of Some s \<Rightarrow> VStr s | None \<Rightarrow> VNone)])))"

section \<open>Properties\<close>

lemma queue_key_intent: "queue_key c = queue_key d \<Longrightarrow> intent_id_of c = intent_id_of d"
  by (simp add: queue_key_def)

lemma distinct_intents: "card (intent_id_of ` set cs) = length cs \<longleftrightarrow> distinct (map intent_id_of cs)"
  using card_distinct [of "map intent_id_of cs"] distinct_card [of "map intent_id_of cs"] by fastforce

text \<open>
  C34: The ranking of candidates depends only on which candidates there are, not on the order in which they arrive: any permutation is ranked
  the same way. The ranking is a permutation of its input with the ranks 1 to n, strictly ordered by the priority of the owner, then by time, and then by
  identifiers.
\<close>

theorem admission_order_is_canonical:
  assumes "rank_risk_increase_candidates cs = Inr rs" "mset ds = mset cs"
  shows "rank_risk_increase_candidates ds = Inr rs \<and> mset (map candidate rs) = mset cs
    \<and> map admission_rank rs = map int [1..<length cs + 1]
    \<and> sorted_wrt (\<lambda>r r'. queue_key (candidate r) < queue_key (candidate r')) rs"
proof -
  have d: "distinct (map intent_id_of cs)" and own: "\<not> list_ex (\<lambda>c. RISK_INCREASE_OWNER_PRIORITY (owner_type_of c) = None) cs"
    and rs: "rs = map (\<lambda>(i, c). \<lparr>admission_rank = int i + 1, candidate = c\<rparr>) (enumerate 0 (sort_key queue_key cs))"
    using assms(1) by (auto simp: rank_risk_increase_candidates_def distinct_intents split: if_splits)
  have inj: "inj_on queue_key (set cs)"
    using d queue_key_intent unfolding distinct_map inj_on_def by blast
  have same: "sort_key queue_key ds = sort_key queue_key cs"
    using sort_key_inj_key_eq [of ds "sort_key queue_key cs" queue_key] inj assms(2) mset_eq_setD [OF assms(2)] by simp
  have dd: "distinct (map intent_id_of ds)" using d mset_eq_imp_distinct_iff [of "map intent_id_of ds" "map intent_id_of cs"] assms(2)
    by (simp add: mset_map)
  have c: "map candidate rs = sort_key queue_key cs"
    unfolding rs by (simp add: case_prod_beta comp_def map_snd_enumerate [unfolded comp_def])
  have "sorted (map queue_key (map candidate rs))" unfolding c by simp
  moreover have "distinct (map queue_key (map candidate rs))"
    unfolding c using d inj by (simp add: distinct_map)
  ultimately have "sorted_wrt (<) (map queue_key (map candidate rs))" by (simp add: strict_sorted_iff)
  then have "sorted_wrt (\<lambda>r r'. queue_key (candidate r) < queue_key (candidate r')) rs" by (simp add: sorted_wrt_map)
  moreover have "map admission_rank rs = map int [1..<length cs + 1]"
  proof -
    have "map admission_rank rs = map ((\<lambda>i. int i + 1) \<circ> fst) (enumerate 0 (sort_key queue_key cs))"
      unfolding rs by (simp add: case_prod_beta comp_def)
    also have "\<dots> = map (\<lambda>i. int i + 1) [0..<length cs]"
      unfolding map_map [symmetric] map_fst_enumerate by simp
    also have "\<dots> = map int (map Suc [0..<length cs])" by simp
    finally show ?thesis by (simp add: map_Suc_upt del: upt_Suc)
  qed
  moreover have "rank_risk_increase_candidates ds = Inr rs"
    using dd [unfolded distinct_intents [symmetric]] own mset_eq_setD [OF assms(2)]
    by (simp add: rank_risk_increase_candidates_def same rs list_ex_iff)
  moreover have "mset (map candidate rs) = mset cs" unfolding c by simp
  ultimately show ?thesis by blast
qed
definition sample_candidate :: "ExecutionOwnerType \<Rightarrow> string \<Rightarrow> int \<Rightarrow> RiskIncreaseAdmissionCandidate" where
  "sample_candidate t oid n =
     \<lparr>intent_id_of = oid, owner_type_of = t, owner_id_of = ''o'', created_at_of = \<lparr>at_instant = n, at_iso = ''t''\<rparr>,
      material_fingerprint = replicate 64 CHR ''0'', allocation_batch_id = None, allocation_rank = None,
      allocation_created_at = None\<rparr>"

theorem admission_order_is_canonical_witness:
  "rank_risk_increase_candidates [sample_candidate STRATEGY_RUN ''a'' 1, sample_candidate MANUAL_COMMAND ''b'' 2]
   = rank_risk_increase_candidates [sample_candidate MANUAL_COMMAND ''b'' 2, sample_candidate STRATEGY_RUN ''a'' 1]"
proof -
  let ?cs = "[sample_candidate MANUAL_COMMAND ''b'' 2, sample_candidate STRATEGY_RUN ''a'' 1]"
  obtain rs where rs: "rank_risk_increase_candidates ?cs = Inr rs"
    by (simp add: rank_risk_increase_candidates_def sample_candidate_def)
  show ?thesis using admission_order_is_canonical [OF rs, of "rev ?cs"] rs by simp
qed

end
