(* ===== verification/Old_Inventory.thy ===== *)
theory Old_Inventory
  imports Py_Value
begin

text \<open>
  How the T assistant claims shares that were held before the day (\<open>trading/old_inventory_capacity.py\<close>): from the swing bucket first, then from the
  core above its protected floor where that is allowed, and never from the locked core.
\<close>

record OldInventoryClaimResult =
  claimable_volume :: int
  unclaimed_volume :: int
  protected_floor :: int
  claim_allocation :: "(string, int) dict"
  unclaimed_by_bucket :: "(string, int) dict"

definition allocate_old_inventory_claims ::
  "(string, int) dict \<Rightarrow> int \<Rightarrow> int \<Rightarrow> bool \<Rightarrow> OldInventoryClaimResult res" where
  "allocate_old_inventory_claims available required core_floor allow_core =
     (let held = (\<lambda>name. max 0 (dget_or available name 0)); protected = max 0 core_floor;
          core_claimable = (if allow_core then max 0 (held ''core'' - protected) else 0);
          claimable = held ''swing'' + core_claimable;
          claim = max 0 required; swing_claim = min claim (held ''swing'');
          core_claim = min (claim - swing_claim) core_claimable
      in if 0 < claim - swing_claim - core_claim
         then Inl (ValueError ''T_TRADE_BUCKET_CAPACITY_EXCEEDED'')
         else Inr \<lparr>claimable_volume = claimable, unclaimed_volume = max 0 (claimable - required),
                   protected_floor = held ''locked_core'' + min protected (held ''core''),
                   claim_allocation = [(''swing'', swing_claim), (''core'', core_claim), (''locked_core'', 0)],
                   unclaimed_by_bucket = [(''swing'', max 0 (held ''swing'' - swing_claim)),
                     (''core'', max 0 (core_claimable - core_claim)), (''locked_core'', 0)]\<rparr>)"

definition dict_total :: "(string, int) dict \<Rightarrow> int" where
  "dict_total d = sum_list (dvalues d)"



end
