(* ===== verification/Spec2Isabelle.thy ===== *)
theory Spec2Isabelle
  imports Exit_Reports Exit_Serialization Bucket_Safety Order_Sizer T_Assistant_Safety Entry_Safety Position_Safety Grid_Safety Paper_Safety T_Order_Safety Risk_Admission Old_Inventory
begin

text \<open>
  A verification development for the trading domain of QuantX, an A-share trading system in
  Python. All paths are below \<open>packages/domain/src/quantx_domain/\<close>.

  \<^bold>\<open>The parts and how they interact.\<close> A strategy emits a trade intent. The order sizer
  (\<open>trading/order_sizer.py\<close>) turns it into a legal volume with the market rules
  (\<open>trading/market_rules.py\<close>) and the fee estimates of the exit plans. The risk layers
  (\<open>trading/risk_checker.py\<close>) turn configuration and context into caps before a strategy runs and
  decide on every order after it is sized; for a sell order they may plan to draw on other
  buckets. The bucket ledger
  (\<open>trading/bucket_ledger.py\<close>) attributes the position of an instrument to buckets, reserves
  volume for sell orders and applies trades and settlements. The book of exit plans
  (\<open>trading/exit_plan.py\<close>) watches quotes for positions that were bought, decides when to sell and
  follows the order and trade reports of the broker. The T assistant
  (\<open>trading/t_assistant_execution.py\<close>) is the lifecycle of an automatic entry owner. A managed entry
  plan (\<open>trading/entry_plan.py\<close>) buys towards a target in tranches and emits the intents the sizer
  sizes; the entry plan service of the infrastructure package pauses, activates and ends it.
  The position adjustment layer (\<open>trading/position_adjustment.py\<close>) turns market context and the caps
  of the risk layer into the profile a strategy trades with; the grid book (\<open>grid_book.py\<close>) is the
  inventory of the pullback grid. The brokers execute the orders: \<open>brokers/backtest.py\<close> replays
  quotes, and \<open>brokers/simulator.py\<close> trades on paper with asynchronous tasks over the same account.

  \<^bold>\<open>The library below the components.\<close>
  \<^item> \<open>Py_Prelude\<close>: exceptions as values (\<open>exc + 'a\<close>), insertion-ordered dictionaries, and two
    interfaces: \<open>keyed_store\<close> (interpreted on the dictionaries) and \<open>invariant_machine\<close> (a step
    function that keeps an invariant and advances a preorder; interpreted on the events of a plan
    and on the calls of a T-assistant execution).
  \<^item> \<open>Py_Float\<close>: IEEE binary64 with round to nearest even over rationals, with infinities and NaN;
    signed zeros are not distinguished. Divisions by zero are excluded by the guards of the code or
    raise.
  \<^item> \<open>Py_Value\<close>: the dynamically typed values of JSON payloads with truth values, conversions and
    printing. \<open>dict(v)\<close> is modelled on mappings only.
  \<^item> \<open>Py_Decimal\<close>: decimals of 28 digits, and the floor division of floats.
  \<^item> \<open>Py_Json\<close>: canonical JSON and SHA-256. \<open>Py_Uuid\<close>: SHA-1 and \<open>uuid.uuid5\<close>.
  \<^item> \<open>Broker_Types\<close>: order and price types.

  \<^bold>\<open>Exit plans.\<close> \<open>Exit_Types\<close> is the data model with costs, cost basis, sizing and entry fills;
  \<open>Exit_Rules\<close> the fourteen built-in sell rules; \<open>Exit_Evaluator\<close> the registry and the evaluation of
  a plan (the locale \<open>exit_rule_registry\<close> states what a rule may change and is interpreted on the
  built-in rules as \<open>builtin_rules\<close>); \<open>Exit_Book\<close> the book: entry fills, commands, evaluation, intents,
  ORDER events, TRADE fills and pruning. \<open>Exit_Safety\<close> proves the invariant of every reachable book
  and what its decisions guarantee. \<open>Exit_Reports\<close> proves what holds over sequences and orders of
  broker reports, and that every method refines an abstract sell gate. \<open>Exit_Serialization\<close> is
  storage, with round trips.

  \<^bold>\<open>Bucket ledger.\<close> \<open>Bucket_Ledger\<close> models every method; \<open>Bucket_Facts\<close> holds the interface of the
  cells (\<open>cell_store\<close>, interpreted as \<open>ledger_cells\<close>) and the preservation lemmas; \<open>Bucket_Safety\<close> the
  properties: invariant, life of a sell order, refusals, T+1, synchronization, snapshots and
  corporate actions.

  \<^bold>\<open>Market rules and order sizer.\<close> \<open>Market_Rules\<close> and \<open>Order_Sizer\<close> model prices, lots, checks and
  the sizing of an intent; the drafts of the sizer pass the checks of the rules, stay within
  every cap, and the bisection of the allocation ceiling ends with the largest lot count at its
  boundary.

  \<^bold>\<open>Risk layers.\<close> \<open>Risk_Checker\<close> models the context layer stage by stage (configured caps, market,
  industry, liquidity and data quality, the kill switch) and the order checker with its market
  checks, buying power, caps on a buy, and the T+1 substitution of a sell. \<open>Risk_Facts\<close> holds the shapes
  of a decision, the stages of an evaluation and the order on caps; \<open>Risk_Safety\<close> the properties, and
  the interface between the checker and an inventory (\<open>sell_inventory\<close>, interpreted on the bucket ledger
  as \<open>ledger_inventory\<close>). The volume a cap pays for is a floor division of floats; it is shown to be
  the exact one below 2 to the 50 shares.

  \<^bold>\<open>Position profiles.\<close> \<open>Position_Profile\<close> models \<open>trading/position_adjustment.py\<close>: the choice of a
  template from the market context, overrides, the caps of the risk layer and the limits of the
  buckets. \<open>Position_Safety\<close> shows that the limits are shares in a consistent order and that a profile
  respects the caps that the risk layer has built.

  \<^bold>\<open>Grid book.\<close> \<open>Grid_Book\<close> models \<open>grid_book.py\<close>: the inventory ledger of the pullback grid as a
  dictionary that is normalized whenever it is read, the lots for an initial position, and the
  copies to templates and parameters. \<open>Grid_Facts\<close> states what a normal level, lot and event are as
  inductive predicates; \<open>Grid_Safety\<close> shows that a second reading changes nothing, that the accounts
  of a book balance, and that the initial lots hold exactly the shares that were given.

  \<^bold>\<open>Brokers.\<close> \<open>Broker_Base\<close> and \<open>Backtest_Broker\<close> model \<open>brokers/base.py\<close> and \<open>brokers/backtest.py\<close>:
  the account and every method that changes it. \<open>Backtest_Facts\<close> specifies the life of an order as an
  inductive relation on orders, pending list and executions; \<open>Backtest_Safety\<close> shows that every call
  refines it (locale \<open>order_keeper\<close>, interpreted as \<open>backtest\<close>), the invariant of the order book, the
  holdings of a strict replay, and that expiry precedes matching. \<open>Simulator_Broker\<close> models
  \<open>brokers/simulator.py\<close> with its tasks cut at their sleeps and random numbers as arguments;
  \<open>Paper_Facts\<close> and \<open>Paper_Safety\<close> treat all interleavings as a step relation: orders are never
  overfilled, tasks end, and without partial fills the broker is an \<open>order_keeper\<close> too
  (interpretation \<open>paper\<close>). Callbacks are not modelled: a subscriber that calls back into the
  broker in the middle of a method is outside the model.

  \<^bold>\<open>T assistant.\<close> \<open>T_Assistant\<close> models configurations, model bindings, readiness and the execution;
  \<open>T_Assistant_Safety\<close> proves that configurations verify their hash and that the lifecycle is
  monotone, never reopens and can always be stopped.
  \<open>T_Order_Policy\<close> models the frozen order policies (\<open>trading/t_order_policy.py\<close>) and \<open>T_Order_Safety\<close> shows that
  the protected price is the best one on the tick grid and that a chain of replacements never
  exceeds its request; \<open>Decimal_Facts\<close> holds the conditions under which decimals are exact.
  \<open>Old_Inventory\<close> (\<open>trading/old_inventory_capacity.py\<close>) is the claim on shares held before the day.
  \<open>Risk_Admission\<close> (\<open>trading/risk_increase_admission.py\<close>) ranks the risk increases of all owners of an
  account, independently of their order of arrival.

  \<^bold>\<open>Entry plans.\<close> \<open>Entry_Types\<close> is the data model with the checks of every constructor and the
  dictionaries of a configuration; \<open>Entry_Plan\<close> the durable state with executions, terminal order
  reports, terminal requests, the service's changes of the phase, and storage; \<open>Entry_Evaluator\<close>
  the gap to the target, the three built-in rules, the registry and the evaluation, with the order
  identifiers of \<open>uuid5\<close>. \<open>Entry_Facts\<close> states what a rule may change (locale \<open>entry_rule_registry\<close>,
  interpreted as \<open>entry_rules\<close>), the invariant, and the runs of a plan as the inductive relation
  \<open>entry_step\<close>; \<open>Entry_Safety\<close> proves the invariant of every reachable plan, the limits of a
  decision, that a requested end is final, when the pending intent is released, that reports and
  executions commute, and that states and configurations survive storage. An evaluation that raises
  leaves the stored state as it was, since the strategy evaluates a copy.

  \<^bold>\<open>Conventions.\<close> A dataclass is a record, an enumeration a datatype, a method a function that
  returns the new state. An exception is \<open>Inl\<close>; what a method mutated before it raised is not
  tracked. Clocks, UUIDs and dates that the code reads are arguments. Text for people (messages of
  checks, the tail of some error messages) is not modelled. Strings are ASCII.

  \<^bold>\<open>Fuel.\<close> The only fuel is in \<open>shortest\<close>, the search for the shortest decimal of a float: 17 digits
  always suffice, and it tries 17. Every other loop is structural or has a termination proof.

  \<^bold>\<open>Not modelled.\<close> Market data readers and historical limit rates in \<open>market_rules.py\<close>; the
  statistical parts of the domain (opportunity engine, market state, outcomes, selection,
  indicators), strategies and environments; the performance report of the backtest, which is
  computed with numpy; the application, infrastructure and service
  packages, which do input and output around the domain; the clients.
\<close>

end
